(* ===== verification/Prelude.thy ===== *)
theory Prelude
  imports Complex_Main "HOL-Library.Signed_Division"
begin

text \<open>
  Shared vocabulary of the development: the numeric types of the C++ sources, the
  conversions and comparisons the language provides, the clock, and the collections of
  facts the component theories use.

  Numbers.  The site controller computes powers in \<^verbatim>\<open>float\<close>.  A finite \<^verbatim>\<open>float\<close> is
  modelled by the real number it denotes and the arithmetic on it by exact arithmetic, so
  rounding is outside the model.  A division whose divisor can be zero is written with
  \<open>fdiv\<close>, whose \<open>None\<close> stands for the infinity or NaN the machine would produce.
  \<^verbatim>\<open>int\<close>, \<^verbatim>\<open>long\<close> and \<^verbatim>\<open>time_t\<close> are \<open>int\<close>, with the truncating division of the
  language (\<open>sdiv\<close>, \<open>smod\<close>); unsigned indices are \<open>nat\<close>; the 64-bit bit fields are
  words and appear in the theories that need them.
\<close>

section \<open>Collections\<close>

named_theorems utils_defs \<open>definitions of the numeric helper functions\<close>
named_theorems frame_simps \<open>fields an operation leaves unchanged\<close>
named_theorems bound_intros \<open>bounds kept by an operation\<close>

section \<open>Numbers\<close>

type_synonym flt = real

text \<open>Conversion of a \<^verbatim>\<open>float\<close> to an \<^verbatim>\<open>int\<close> truncates towards zero.\<close>

definition c_trunc :: "flt \<Rightarrow> int" where
  "c_trunc x = (if x < 0 then \<lceil>x\<rceil> else \<lfloor>x\<rfloor>)"

definition fdiv :: "flt \<Rightarrow> flt \<Rightarrow> flt option" where
  "fdiv a b = (if b = 0 then None else Some (a / b))"

text \<open>A \<^verbatim>\<open>bool\<close> used as a factor.\<close>

definition c_bool :: "bool \<Rightarrow> flt" where
  "c_bool b = (if b then 1 else 0)"

lemma c_trunc_of_int [simp]: "c_trunc (of_int i) = i"
  by (simp add: c_trunc_def)

lemma c_trunc_le_self: "0 \<le> x \<Longrightarrow> of_int (c_trunc x) \<le> x"
  by (simp add: c_trunc_def)

lemma c_trunc_ge_self: "x \<le> 0 \<Longrightarrow> x \<le> of_int (c_trunc x)"
  by (cases "x = 0") (simp_all add: c_trunc_def)

lemma c_trunc_nonneg [simp]: "0 \<le> x \<Longrightarrow> 0 \<le> c_trunc x"
  by (simp add: c_trunc_def)

lemma c_trunc_nonpos [simp]: "x \<le> 0 \<Longrightarrow> c_trunc x \<le> 0"
  by (cases "x = 0") (simp_all add: c_trunc_def)

lemma abs_c_trunc_le: "\<bar>of_int (c_trunc x) :: real\<bar> \<le> \<bar>x\<bar>"
  by (cases "0 \<le> x") (use c_trunc_le_self [of x] c_trunc_ge_self [of x] in auto)

lemma abs_c_trunc_gt: "\<bar>x\<bar> - 1 < \<bar>of_int (c_trunc x) :: real\<bar>"
proof (cases "x < 0")
  case True
  then show ?thesis by (simp add: c_trunc_def) linarith
next
  case False
  then show ?thesis by (simp add: c_trunc_def)
qed

lemma c_bool_simps [simp]: "c_bool True = 1" "c_bool False = 0"
  by (simp_all add: c_bool_def)

lemma fdiv_Some [simp]: "fdiv a b = Some c \<longleftrightarrow> b \<noteq> 0 \<and> c = a / b"
  by (auto simp: fdiv_def)

lemma fdiv_None [simp]: "fdiv a b = None \<longleftrightarrow> b = 0"
  by (simp add: fdiv_def)

section \<open>The clock\<close>

record timespec =
  tv_sec :: int
  tv_nsec :: int

definition valid_ts :: "timespec \<Rightarrow> bool" where
  "valid_ts t \<longleftrightarrow> 0 \<le> tv_nsec t \<and> tv_nsec t < 1000000000"

definition ts_nanos :: "timespec \<Rightarrow> int" where
  "ts_nanos t = tv_sec t * 1000000000 + tv_nsec t"

abbreviation mk_ts :: "int \<Rightarrow> int \<Rightarrow> timespec" where
  "mk_ts s n \<equiv> \<lparr>tv_sec = s, tv_nsec = n\<rparr>"

text \<open>
  The JSON values a FIMS message or a configuration file carries, as cJSON types them.  A number
  has the two fields \<^verbatim>\<open>valuedouble\<close> and \<^verbatim>\<open>valueint\<close> that cJSON fills; nothing is assumed of how
  they relate.
\<close>

datatype cjson = JTrue | JFalse | JNull | JNumber flt int | JString string

definition is_bool_json :: "cjson \<Rightarrow> bool" where
  "is_bool_json j \<longleftrightarrow> j = JTrue \<or> j = JFalse"

section \<open>Lists\<close>

lemma sum_list_nonneg_map: "(\<And>x. x \<in> set xs \<Longrightarrow> (0::real) \<le> f x) \<Longrightarrow> 0 \<le> sum_list (map f xs)"
  by (induction xs) auto

lemma sum_list_map_update_other:
  "x \<notin> set xs \<Longrightarrow> sum_list (map (f(x := v)) xs) = sum_list (map f xs)"
  by (induction xs) auto

lemma all_less_Suc_split: "(\<forall>k < Suc n. P k) \<longleftrightarrow> P 0 \<and> (\<forall>k < n. P (Suc k))"
  by (auto simp: less_Suc_eq_0_disj)

section \<open>Components as machines\<close>

text \<open>
  The contract every stateful component offers its clients: each operation keeps the
  component's invariant, hence so does any sequence of calls; and a quantity the invariant
  bounds stays bounded along the way.
\<close>

locale machine =
  fixes step :: "'i \<Rightarrow> 's \<Rightarrow> 's"
    and inv :: "'s \<Rightarrow> bool"
  assumes step_inv: "inv s \<Longrightarrow> inv (step i s)"
begin

lemma run_inv: "inv s \<Longrightarrow> inv (fold step is s)"
  by (induction "is" arbitrary: s) (simp_all add: step_inv)

end

locale bounded_machine = machine +
  fixes val :: "'s \<Rightarrow> 'v::linorder"
    and lo :: "'s \<Rightarrow> 'v"
    and hi :: "'s \<Rightarrow> 'v"
  assumes inv_bounds: "inv s \<Longrightarrow> lo s \<le> val s \<and> val s \<le> hi s"
    and step_lo: "lo (step i s) = lo s"
    and step_hi: "hi (step i s) = hi s"
begin

lemma run_lo_hi: "lo (fold step is s) = lo s" "hi (fold step is s) = hi s"
  by (induction "is" arbitrary: s) (simp_all add: step_lo step_hi)

lemma run_bounds: "inv s \<Longrightarrow> lo s \<le> val (fold step is s) \<and> val (fold step is s) \<le> hi s"
  using inv_bounds [OF run_inv] by (simp add: run_lo_hi)

end

text \<open>
  A store of data objects addressed by keys, as the four \<^verbatim>\<open>Asset_Cmd_Data\<close> members of
  the command object are: reading back what was written, and independence of distinct keys.
\<close>

locale keyed_store =
  fixes get :: "'k \<Rightarrow> 's \<Rightarrow> 'd"
    and put :: "'k \<Rightarrow> 'd \<Rightarrow> 's \<Rightarrow> 's"
  assumes get_put_same: "get k (put k d s) = d"
    and get_put_other: "k \<noteq> k' \<Longrightarrow> get k' (put k d s) = get k' s"
    and put_get: "put k (get k s) s = s"
begin

lemma get_put: "get k' (put k d s) = (if k = k' then d else get k' s)"
  using get_put_same get_put_other by auto

lemma total_put_notin:
  "k \<notin> set ks \<Longrightarrow> sum_list (map (\<lambda>j. f (get j (put k d s))) ks) = sum_list (map (\<lambda>j. f (get j s)) ks)"
  by (induction ks) (auto simp: get_put_other)

lemma total_put:
  fixes f :: "'d \<Rightarrow> real"
  shows "distinct ks \<Longrightarrow> k \<in> set ks \<Longrightarrow>
   sum_list (map (\<lambda>j. f (get j (put k d s))) ks) = sum_list (map (\<lambda>j. f (get j s)) ks) + f d - f (get k s)"
proof (induction ks)
  case (Cons j ks)
  show ?case
  proof (cases "k = j")
    case True
    with Cons.prems total_put_notin [of j ks f d s] show ?thesis by (simp add: get_put_same)
  qed (use Cons in \<open>simp add: get_put_other\<close>)
qed simp

end

end
