(* ===== verification/Site_Utils.thy ===== *)
theory Site_Utils
  imports Prelude
begin

text \<open>
  The helper library \<^verbatim>\<open>Site_Controller_Utils.cpp\<close>: clamping, tolerance and nearness
  tests, curve interpolation, timespec arithmetic and string splitting.  Log output is
  not part of the model.
\<close>

section \<open>Clamping and comparison\<close>

definition range_check :: "flt \<Rightarrow> flt \<Rightarrow> flt \<Rightarrow> flt" where
  "range_check value hi lo = (if value < hi then (if value > lo then value else lo) else hi)"

definition range_check_int :: "int \<Rightarrow> int \<Rightarrow> int \<Rightarrow> int" where
  "range_check_int value hi lo =
     (if value < hi then (if value > lo then value else lo) else hi)"

definition zero_check :: "flt \<Rightarrow> flt" where
  "zero_check value = (if value < 0 then 0 else value)"

definition less_than_zero_check :: "flt \<Rightarrow> flt" where
  "less_than_zero_check value = (if value > 0 then 0 else value)"

definition near :: "flt \<Rightarrow> flt \<Rightarrow> flt \<Rightarrow> bool" where
  "near a b tolerance \<longleftrightarrow> \<bar>a - b\<bar> < \<bar>tolerance\<bar>"

definition less_than_or_near :: "flt \<Rightarrow> flt \<Rightarrow> flt \<Rightarrow> bool" where
  "less_than_or_near a b tolerance \<longleftrightarrow> a \<le> b \<or> near a b tolerance"

definition greater_than_or_near :: "flt \<Rightarrow> flt \<Rightarrow> flt \<Rightarrow> bool" where
  "greater_than_or_near a b tolerance \<longleftrightarrow> a \<ge> b \<or> near a b tolerance"

definition get_tolerance :: "flt \<Rightarrow> flt \<Rightarrow> int \<Rightarrow> bool" where
  "get_tolerance tolerance_value actual_value tolerance_percent \<longleftrightarrow>
     tolerance_value + tolerance_value * of_int tolerance_percent * (1 / 100) \<ge> actual_value \<and>
     tolerance_value - tolerance_value * of_int tolerance_percent * (1 / 100) \<le> actual_value"

text \<open>
  \<^verbatim>\<open>1 << bit_position\<close> on a 32-bit \<^verbatim>\<open>int\<close>: \<open>None\<close> where the shift is
  undefined behaviour; position 31 yields the most negative value.
\<close>

definition get_int_from_bit_position :: "int \<Rightarrow> int option" where
  "get_int_from_bit_position bit_position =
     (if bit_position < 0 then Some 0
      else if bit_position < 31 then Some (2 ^ nat bit_position)
      else if bit_position = 31 then Some (- (2 ^ 31)) else None)"

lemmas [utils_defs] = range_check_def range_check_int_def zero_check_def
  less_than_zero_check_def near_def less_than_or_near_def greater_than_or_near_def

lemma range_check_bounds [bound_intros]:
  "lo \<le> hi \<Longrightarrow> lo \<le> range_check v hi lo \<and> range_check v hi lo \<le> hi"
  by (simp add: range_check_def)

lemma range_check_le: "range_check v hi lo \<le> max lo hi"
  by (simp add: range_check_def)

lemma range_check_eq_clamp: "lo \<le> hi \<Longrightarrow> range_check v hi lo = max lo (min v hi)"
  by (simp add: range_check_def)

lemma range_check_id: "lo \<le> v \<Longrightarrow> v \<le> hi \<Longrightarrow> range_check v hi lo = v"
  by (simp add: range_check_def)

lemma range_check_mono: "lo \<le> hi \<Longrightarrow> v \<le> w \<Longrightarrow> range_check v hi lo \<le> range_check w hi lo"
  by (simp add: range_check_def)

lemma range_check_int_bounds [bound_intros]:
  "lo \<le> hi \<Longrightarrow> lo \<le> range_check_int v hi lo \<and> range_check_int v hi lo \<le> hi"
  by (simp add: range_check_int_def)

lemma range_check_int_id: "lo \<le> v \<Longrightarrow> v \<le> hi \<Longrightarrow> range_check_int v hi lo = v"
  by (simp add: range_check_int_def)

lemma zero_check_eq: "zero_check x = max 0 x"
  by (simp add: zero_check_def)

lemma less_than_zero_check_eq: "less_than_zero_check x = min 0 x"
  by (simp add: less_than_zero_check_def)

lemma zero_check_nonneg [simp]: "0 \<le> zero_check x"
  by (simp add: zero_check_def)

lemma zero_check_id [simp]: "0 \<le> x \<Longrightarrow> zero_check x = x"
  by (simp add: zero_check_def)

lemma less_than_zero_check_nonpos [simp]: "less_than_zero_check x \<le> 0"
  by (simp add: less_than_zero_check_def)

lemma less_than_zero_check_id [simp]: "x \<le> 0 \<Longrightarrow> less_than_zero_check x = x"
  by (simp add: less_than_zero_check_def)

lemma checks_split: "zero_check x + less_than_zero_check x = x"
  by (simp add: utils_defs)

section \<open>Curves\<close>

text \<open>
  \<^verbatim>\<open>set_curve_points\<close> reads the options map of the variable: \<open>num_options\<close> entries, the
  i-th with the float value \<open>vals i\<close>.  The vector access of the fallback loop is unchecked,
  so the result is \<open>None\<close> when it is out of range.
\<close>

fun push_curve_points :: "(nat \<Rightarrow> flt) \<Rightarrow> nat \<Rightarrow> nat \<Rightarrow> bool \<Rightarrow> (flt \<times> flt) list \<Rightarrow>
    (bool \<times> (flt \<times> flt) list) option" where
  "push_curve_points vals i 0 valid cv = Some (valid, cv)"
| "push_curve_points vals i (Suc k) valid cv =
     (if \<not> valid then Some (valid, cv) else
      let cv = cv @ [(vals i, vals (Suc i))]
      in if i > 0 \<and> fst (cv ! (i div 2)) \<le> fst (cv ! (i div 2 - 1))
         then push_curve_points vals (i + 2) k False cv
         else push_curve_points vals (i + 2) k valid cv)"

fun zero_curve_points :: "nat \<Rightarrow> nat \<Rightarrow> (flt \<times> flt) list \<Rightarrow> (flt \<times> flt) list option" where
  "zero_curve_points i 0 cv = Some cv"
| "zero_curve_points i (Suc k) cv =
     (if i < length cv then zero_curve_points (Suc i) k (cv[i := (of_nat i, 0)]) else None)"

definition set_curve_points :: "(nat \<Rightarrow> flt) \<Rightarrow> nat \<Rightarrow> (flt \<times> flt) list \<Rightarrow> (flt \<times> flt) list option"
where
  "set_curve_points vals num_options cv =
     (let num_points = num_options div 2;
          curve_points_valid = (\<not> num_options \<le> 2 \<and> num_options mod 2 \<noteq> 1)
      in case push_curve_points vals 0 (if curve_points_valid then num_points else 0)
                curve_points_valid cv of
           None \<Rightarrow> None
         | Some (valid, cv') \<Rightarrow>
             if valid then Some cv' else zero_curve_points 0 num_points cv')"

text \<open>The line through two neighbouring points, and the search for the segment.\<close>

definition curve_line :: "flt \<times> flt \<Rightarrow> flt \<times> flt \<Rightarrow> flt \<Rightarrow> flt \<times> flt \<Rightarrow> flt" where
  "curve_line p q ind_var anchor =
     (snd q - snd p) / (fst q - fst p) * (ind_var - fst anchor) + snd anchor"

text \<open>Beyond the ends the slope of the end segment is used; a vertical end segment divides by zero.\<close>

definition curve_extend :: "flt \<times> flt \<Rightarrow> flt \<times> flt \<Rightarrow> flt \<Rightarrow> flt \<times> flt \<Rightarrow> flt option" where
  "curve_extend p q ind_var anchor = (if fst q = fst p then None else Some (curve_line p q ind_var anchor))"

fun curve_segment :: "flt \<Rightarrow> (flt \<times> flt) list \<Rightarrow> flt" where
  "curve_segment ind_var (p # q # rest) =
     (if ind_var \<ge> fst p \<and> ind_var < fst q then curve_line p q ind_var q
      else curve_segment ind_var (q # rest))"
| "curve_segment ind_var _ = 0"

text \<open>With fewer than two points the code reads outside the vector: \<open>None\<close>.\<close>

definition get_curve_cmd :: "flt \<Rightarrow> (flt \<times> flt) list \<Rightarrow> flt option" where
  "get_curve_cmd ind_var curve_points =
     (let n = length curve_points in
      if n < 2 then None
      else if ind_var < fst (curve_points ! 0)
        then curve_extend (curve_points ! 0) (curve_points ! 1) ind_var (curve_points ! 0)
      else if ind_var \<ge> fst (curve_points ! (n - 1))
        then curve_extend (curve_points ! (n - 2)) (curve_points ! (n - 1)) ind_var
               (curve_points ! (n - 1))
      else Some (curve_segment ind_var curve_points))"

text \<open>Strictly increasing x coordinates: what \<^verbatim>\<open>set_curve_points\<close> checks.\<close>

fun increasing_xs :: "(flt \<times> flt) list \<Rightarrow> bool" where
  "increasing_xs (p # q # rest) = (fst p < fst q \<and> increasing_xs (q # rest))"
| "increasing_xs _ = True"

lemma curve_line_left: "fst p \<noteq> fst q \<Longrightarrow> curve_line p q x q = curve_line p q x p"
proof -
  assume d: "fst p \<noteq> fst q"
  define m where "m = (snd q - snd p) / (fst q - fst p)"
  have "m * (fst q - fst p) = snd q - snd p" using d by (simp add: m_def)
  then have "m * (x - fst q) + snd q = m * (x - fst p) + snd p" by (simp add: algebra_simps)
  then show ?thesis by (simp add: curve_line_def m_def)
qed

lemma curve_line_at: "curve_line p q (fst a) a = snd a"
  by (simp add: curve_line_def)

lemma curve_line_between:
  assumes "fst p \<le> x" "x \<le> fst q" "fst p < fst q"
  shows "min (snd p) (snd q) \<le> curve_line p q x p \<and> curve_line p q x p \<le> max (snd p) (snd q)"
proof -
  define t where "t = (x - fst p) / (fst q - fst p)"
  have t: "0 \<le> t" "t \<le> 1" using assms by (auto simp: t_def field_simps)
  have eq: "curve_line p q x p = (1 - t) * snd p + t * snd q"
    using assms by (simp add: curve_line_def t_def diff_divide_distrib algebra_simps)
  have "(1 - t) * min (snd p) (snd q) \<le> (1 - t) * snd p" "t * min (snd p) (snd q) \<le> t * snd q"
    "(1 - t) * snd p \<le> (1 - t) * max (snd p) (snd q)" "t * snd q \<le> t * max (snd p) (snd q)"
    using t by (auto intro: mult_left_mono)
  then show ?thesis unfolding eq by (simp add: algebra_simps)
qed

lemma curve_segment_between:
  assumes "increasing_xs c" "2 \<le> length c" "fst (hd c) \<le> x" "x < fst (last c)"
  shows "\<exists>p q. (\<exists>us vs. c = us @ p # q # vs) \<and> fst p \<le> x \<and> x < fst q \<and>
           curve_segment x c = curve_line p q x p"
  using assms
proof (induction x c rule: curve_segment.induct)
  case (1 x p q rest)
  show ?case
  proof (cases "x < fst q")
    case True
    with "1.prems" have "curve_segment x (p # q # rest) = curve_line p q x p"
      by (simp add: curve_line_left)
    with True "1.prems" show ?thesis by (intro exI [of _ p] exI [of _ q]) (auto intro: exI [of _ "[]"])
  next
    case False
    with "1.prems" have "rest \<noteq> []" by auto
    with False 1 obtain p' q' us vs where "q # rest = us @ p' # q' # vs"
      "fst p' \<le> x" "x < fst q'" "curve_segment x (q # rest) = curve_line p' q' x p'"
      by (auto simp: Suc_le_eq)
    moreover from this have "p # q # rest = (p # us) @ p' # q' # vs" by simp
    ultimately show ?thesis using False by (metis curve_segment.simps(1))
  qed
qed auto

lemma get_curve_cmd_interpolates:
  assumes "increasing_xs c" "2 \<le> length c" "fst (hd c) \<le> x" "x < fst (last c)"
  shows "\<exists>p q y. p \<in> set c \<and> q \<in> set c \<and> get_curve_cmd x c = Some y \<and>
           min (snd p) (snd q) \<le> y \<and> y \<le> max (snd p) (snd q)"
proof -
  from curve_segment_between [OF assms] obtain p q us vs where
    c: "c = us @ p # q # vs" and x: "fst p \<le> x" "x < fst q" and
    seg: "curve_segment x c = curve_line p q x p" by blast
  have "c \<noteq> []" using c by simp
  then have "get_curve_cmd x c = Some (curve_line p q x p)"
    using assms seg by (auto simp: get_curve_cmd_def Let_def hd_conv_nth last_conv_nth)
  moreover have "p \<in> set c" "q \<in> set c" using c by auto
  ultimately show ?thesis using x curve_line_between [of p x q] by (smt (verit))
qed

lemma curve_segment_knot:
  assumes "increasing_xs (p # q # rest)"
  shows "curve_segment (fst p) (p # q # rest) = snd p"
  using assms by (simp add: curve_line_left curve_line_at)

lemma increasing_xs_append: "increasing_xs (us @ vs) \<Longrightarrow> increasing_xs vs"
  by (induction us rule: increasing_xs.induct; cases vs) auto

lemma increasing_xs_hd_le:
  "increasing_xs (p # c) \<Longrightarrow> q \<in> set c \<Longrightarrow> fst p < fst q"
proof (induction c arbitrary: p)
  case (Cons a c)
  show ?case
  proof (cases "q = a")
    case False
    with Cons have "fst a < fst q" by simp
    with Cons.prems(1) show ?thesis by simp
  qed (use Cons.prems in simp)
qed simp

lemma curve_segment_skip:
  assumes "increasing_xs (us @ p # q # vs)"
  shows "curve_segment (fst p) (us @ p # q # vs) = snd p"
  using assms
proof (induction us)
  case Nil
  then show ?case using curve_segment_knot by simp
next
  case (Cons a us)
  then obtain b rest where eq: "us @ p # q # vs = b # rest" by (cases us) auto
  have "fst b \<le> fst p"
    using Cons.prems eq increasing_xs_hd_le [of b rest p]
    by (cases us) (auto simp: less_imp_le)
  with Cons eq show ?case by simp
qed

lemma get_curve_cmd_knot:
  assumes "increasing_xs (us @ p # vs)" "2 \<le> length (us @ p # vs)"
  shows "get_curve_cmd (fst p) (us @ p # vs) = Some (snd p)"
proof (cases vs)
  case Nil
  have "us \<noteq> []" using assms(2) Nil by auto
  then have "fst ((us @ [p]) ! 0) < fst p"
    using assms(1) Nil increasing_xs_hd_le [of "hd us" "tl us @ [p]" p] by (cases us) auto
  moreover have "increasing_xs (us @ [p])" using assms(1) Nil by simp
  then have "increasing_xs [last us, p]"
    using \<open>us \<noteq> []\<close> increasing_xs_append [of "butlast us" "[last us, p]"]
    by (metis append.assoc append_Cons append_Nil append_butlast_last_id)
  then have "fst (us ! (length us - 1)) < fst p" using \<open>us \<noteq> []\<close> by (simp add: last_conv_nth)
  ultimately show ?thesis using Nil \<open>us \<noteq> []\<close>
    by (auto simp: get_curve_cmd_def curve_extend_def Let_def curve_line_at nth_append Suc_le_eq)
next
  case (Cons q ws)
  let ?c = "us @ p # q # ws"
  have inc: "increasing_xs ?c" using assms(1) Cons by simp
  have "fst (?c ! 0) \<le> fst p"
    using inc increasing_xs_hd_le [of "hd us" "tl us @ p # q # ws" p]
    by (cases us) (auto simp: less_imp_le)
  moreover have "fst p < fst (last ?c)"
    using increasing_xs_hd_le [of p "q # ws" "last (q # ws)"] increasing_xs_append [OF inc] by simp
  then have "fst p < fst (?c ! (length ?c - 1))" by (simp add: last_conv_nth)
  ultimately show ?thesis
    using Cons curve_segment_skip [OF inc] by (auto simp: get_curve_cmd_def Let_def)
qed

section \<open>Building a curve\<close>

definition curve_of :: "(nat \<Rightarrow> flt) \<Rightarrow> nat \<Rightarrow> (flt \<times> flt) list" where
  "curve_of vals m = map (\<lambda>j. (vals (2 * j), vals (Suc (2 * j)))) [0..<m]"

lemma curve_of_Suc: "curve_of vals (Suc m) = curve_of vals m @ [(vals (2 * m), vals (Suc (2 * m)))]"
  by (simp add: curve_of_def)

lemma length_curve_of [simp]: "length (curve_of vals m) = m"
  by (simp add: curve_of_def)

lemma fst_curve_of [simp]: "j < m \<Longrightarrow> fst (curve_of vals m ! j) = vals (2 * j)"
  by (simp add: curve_of_def)

lemma push_curve_points_increasing:
  assumes "\<And>t. Suc t < m + k \<Longrightarrow> vals (2 * t) < vals (2 * Suc t)"
  shows "push_curve_points vals (2 * m) k True (curve_of vals m) = Some (True, curve_of vals (m + k))"
  using assms
proof (induction k arbitrary: m)
  case (Suc k)
  have step: "\<not> fst (curve_of vals (Suc m) ! m) \<le> fst (curve_of vals (Suc m) ! (m - 1))" if "0 < m"
    using Suc.prems [of "m - 1"] that by simp
  have "push_curve_points vals (2 * m) (Suc k) True (curve_of vals m) =
        push_curve_points vals (2 * Suc m) k True (curve_of vals (Suc m))"
    using step by (auto simp: Let_def simp flip: curve_of_Suc)
  also have "\<dots> = Some (True, curve_of vals (Suc m + k))"
    using Suc.prems by (intro Suc.IH) simp
  finally show ?case by simp
qed simp

lemma increasing_xs_iff_nth:
  "increasing_xs c \<longleftrightarrow> (\<forall>t. Suc t < length c \<longrightarrow> fst (c ! t) < fst (c ! Suc t))"
proof (induction c rule: increasing_xs.induct)
  case (1 p q rest)
  show ?case unfolding increasing_xs.simps "1.IH"
    by (auto simp: nth_Cons split: nat.splits)
qed auto

lemma set_curve_points_increasing:
  assumes "2 \<le> m" and "\<And>t. Suc t < m \<Longrightarrow> vals (2 * t) < vals (2 * Suc t)"
  shows "set_curve_points vals (2 * m) [] = Some (curve_of vals m) \<and> increasing_xs (curve_of vals m)"
  using assms push_curve_points_increasing [of 0 m vals]
  by (auto simp: set_curve_points_def Let_def increasing_xs_iff_nth curve_of_def)

text \<open>
  The fallback for an invalid curve writes entries that were never pushed: on an empty
  vector it is out of range as soon as a point is missing.
\<close>

lemma zero_curve_points_short:
  "i \<le> length cv \<Longrightarrow> i + k > length cv \<Longrightarrow> zero_curve_points i k cv = None"
  by (induction i k cv rule: zero_curve_points.induct) auto

lemma set_curve_points_two_options: "set_curve_points vals 2 [] = None"
  by (simp add: set_curve_points_def numeral_2_eq_2)

section \<open>Time\<close>

definition check_expired_time :: "timespec \<Rightarrow> timespec \<Rightarrow> bool" where
  "check_expired_time current_time target_time \<longleftrightarrow>
     (if tv_sec current_time > tv_sec target_time then True
      else if tv_sec current_time < tv_sec target_time then False
      else tv_nsec current_time > tv_nsec target_time + 1000000)"

definition get_elapsed_time :: "timespec \<Rightarrow> timespec \<Rightarrow> int" where
  "get_elapsed_time current_time target_time =
     (tv_nsec target_time - tv_nsec current_time) sdiv 1000000 +
     (tv_sec target_time - tv_sec current_time) * 1000"

definition increment_timespec_ms :: "timespec \<Rightarrow> int \<Rightarrow> timespec" where
  "increment_timespec_ms time_struct ms_inc =
     (let s_inc = ms_inc sdiv 1000;
          t = time_struct\<lparr>tv_sec := tv_sec time_struct + s_inc\<rparr>;
          ms_inc = ms_inc smod 1000;
          ns_inc = ms_inc * 1000000;
          ns_left_in_sec = 1000000000 - tv_nsec t
      in if ns_left_in_sec \<le> ns_inc
         then (let ns_overflow = ns_inc - ns_left_in_sec
               in t\<lparr>tv_sec := tv_sec t + 1, tv_nsec := ns_overflow\<rparr>)
         else t\<lparr>tv_nsec := tv_nsec t + ns_inc\<rparr>)"

lemma sdiv_nonneg: "0 \<le> a \<Longrightarrow> 0 < b \<Longrightarrow> (a::int) sdiv b = a div b"
  by (cases "a = 0") (simp_all add: signed_divide_int_def)

lemma smod_nonneg: "0 \<le> a \<Longrightarrow> 0 < b \<Longrightarrow> (a::int) smod b = a mod b"
  by (cases "a = 0") (simp_all add: signed_modulo_int_def sdiv_nonneg minus_div_mult_eq_mod)

lemma increment_timespec_ms_correct:
  assumes "valid_ts t" "0 \<le> ms"
  shows "valid_ts (increment_timespec_ms t ms) \<and>
         ts_nanos (increment_timespec_ms t ms) = ts_nanos t + ms * 1000000"
proof -
  define q r where "q = ms div 1000" and "r = ms mod 1000"
  have r: "0 \<le> r" "r < 1000" "ms = q * 1000 + r" by (simp_all add: q_def r_def)
  have "ms sdiv 1000 = q" "ms smod 1000 = r"
    using assms(2) by (simp_all add: sdiv_nonneg smod_nonneg q_def r_def)
  then show ?thesis
    using assms r by (simp add: increment_timespec_ms_def valid_ts_def ts_nanos_def Let_def)
qed

text \<open>An expired target is a past one; within the same second only after one more millisecond.\<close>

lemma check_expired_time_past:
  assumes "valid_ts c" "valid_ts t" "check_expired_time c t"
  shows "ts_nanos t < ts_nanos c"
  using assms by (auto simp: check_expired_time_def valid_ts_def ts_nanos_def split: if_splits)

lemma check_expired_time_complete:
  assumes "valid_ts c" "valid_ts t" "ts_nanos t + 1000000 < ts_nanos c"
  shows "check_expired_time c t"
  using assms by (auto simp: check_expired_time_def valid_ts_def ts_nanos_def)

lemma check_expired_time_mono:
  assumes "valid_ts c" "valid_ts c'" "ts_nanos c \<le> ts_nanos c'" "check_expired_time c t"
  shows "check_expired_time c' t"
  using assms by (auto simp: check_expired_time_def valid_ts_def ts_nanos_def split: if_splits)

section \<open>Strings\<close>

text \<open>
  \<^verbatim>\<open>std::string::find\<close>, and the splitting loop.  With an empty delimiter the loop erases
  nothing and never ends, so it is a partial function: \<open>None\<close> is not returning.
\<close>

fun starts_with :: "string \<Rightarrow> string \<Rightarrow> bool" where
  "starts_with [] s = True"
| "starts_with (c # cs) [] = False"
| "starts_with (c # cs) (d # ds) = (c = d \<and> starts_with cs ds)"

fun find_sub :: "string \<Rightarrow> string \<Rightarrow> nat option" where
  "find_sub delim [] = (if delim = [] then Some 0 else None)"
| "find_sub delim (c # cs) =
     (if starts_with delim (c # cs) then Some 0 else map_option Suc (find_sub delim cs))"

partial_function (option) split_loop :: "string \<Rightarrow> string \<Rightarrow> string list \<Rightarrow> string list option" where
  "split_loop str delimiter fragments =
     (if str = [] then Some fragments
      else let fragment = (case find_sub delimiter str of Some pos \<Rightarrow> take pos str | None \<Rightarrow> str);
               fragments' = (if fragment \<noteq> [] then fragments @ [fragment] else fragments)
           in split_loop (drop (length fragment + length delimiter) str) delimiter fragments')"

declare split_loop.simps [code]

definition split :: "string \<Rightarrow> string \<Rightarrow> string list option" where
  "split str delimiter = split_loop str delimiter []"

definition has_suffix :: "string \<Rightarrow> string \<Rightarrow> bool" where
  "has_suffix str suffix =
     (if length suffix > length str then False
      else if length suffix = 0 then True
      else drop (length str - length suffix) str = suffix)"

definition trim_suffix_if_exists :: "string \<Rightarrow> string \<Rightarrow> bool \<times> string" where
  "trim_suffix_if_exists str suffix =
     (if \<not> has_suffix str suffix then (False, str)
      else (True, take (length str - length suffix) str))"

lemma has_suffix_iff: "has_suffix str suffix \<longleftrightarrow> (\<exists>pre. str = pre @ suffix)"
proof
  assume h: "has_suffix str suffix"
  then have "str = take (length str - length suffix) str @ suffix"
    by (auto simp: has_suffix_def split: if_splits) (metis append_take_drop_id)
  then show "\<exists>pre. str = pre @ suffix" by blast
qed (auto simp: has_suffix_def)

lemma trim_suffix_appended [simp]: "trim_suffix_if_exists (pre @ suffix) suffix = (True, pre)"
  using has_suffix_iff by (auto simp: trim_suffix_if_exists_def)

lemma split_loop_terminates:
  "delimiter \<noteq> [] \<Longrightarrow> \<exists>r. split_loop str delimiter fragments = Some r"
proof (induction "length str" arbitrary: str fragments rule: less_induct)
  case less
  show ?case
  proof (cases "str = []")
    case False
    with less.prems have "length (drop (n + length delimiter) str) < length str" for n
      by (cases delimiter) auto
    then have "\<exists>r. split_loop (drop (n + length delimiter) str) delimiter fs = Some r" for n fs
      using less.prems by (rule less.hyps)
    with False show ?thesis by (subst split_loop.simps) (simp add: Let_def)
  qed (simp add: split_loop.simps)
qed

lemma find_sub_char_None: "c \<notin> set s \<Longrightarrow> find_sub [c] s = None"
  by (induction s) auto

lemma find_sub_char: "c \<notin> set s \<Longrightarrow> find_sub [c] (s @ c # t) = Some (length s)"
  by (induction s) auto

text \<open>Joining fragments with a separator character, each preceded by it, as routes are.\<close>

definition join_slash :: "char \<Rightarrow> string list \<Rightarrow> string" where
  "join_slash c frs = concat (map (\<lambda>f. c # f) frs)"

lemma split_loop_sep: "split_loop (c # s) [c] acc = split_loop s [c] acc"
  by (subst split_loop.simps) simp

lemma split_loop_join:
  assumes "\<forall>f \<in> set frs. f \<noteq> [] \<and> c \<notin> set f"
  shows "split_loop (join_slash c frs) [c] acc = Some (acc @ frs)"
  using assms
proof (induction frs arbitrary: acc)
  case Nil
  then show ?case by (simp add: join_slash_def split_loop.simps)
next
  case (Cons f frs)
  have f: "f \<noteq> []" "c \<notin> set f" using Cons.prems by auto
  have step: "split_loop (f @ join_slash c frs) [c] acc = split_loop (join_slash c frs) [c] (acc @ [f])"
  proof (cases frs)
    case Nil
    then show ?thesis using Cons.prems
      by (subst split_loop.simps) (simp add: join_slash_def find_sub_char_None split_loop.simps)
  next
    case (Cons g gs)
    with f show ?thesis
      by (subst split_loop.simps) (simp add: join_slash_def find_sub_char split_loop_sep)
  qed
  have "split_loop (join_slash c (f # frs)) [c] acc = split_loop (f @ join_slash c frs) [c] acc"
    by (simp add: join_slash_def split_loop_sep)
  with step Cons show ?case by simp
qed

lemma split_join: "\<forall>f \<in> set frs. f \<noteq> [] \<and> c \<notin> set f \<Longrightarrow> split (join_slash c frs) [c] = Some frs"
  using split_loop_join [of frs c "[]"] by (simp add: split_def)

section \<open>Properties\<close>

text \<open>A curve configured with strictly increasing x values is stored as given, and evaluating it
  at any of its points returns that point's y value.\<close>

theorem curve_through_points:
  assumes "2 \<le> m" "\<forall>t. Suc t < m \<longrightarrow> vals (2 * t) < vals (2 * Suc t)" "j < m"
  shows "\<exists>c. set_curve_points vals (2 * m) [] = Some c \<and> length c = m \<and>
    get_curve_cmd (vals (2 * j)) c = Some (vals (Suc (2 * j)))"
proof -
  let ?c = "curve_of vals m"
  have c: "set_curve_points vals (2 * m) [] = Some ?c" "increasing_xs ?c"
    using set_curve_points_increasing [OF assms(1)] assms(2) by blast+
  have split: "?c = take j ?c @ ?c ! j # drop (Suc j) ?c"
    using assms(3) by (intro id_take_nth_drop) simp
  have nth: "?c ! j = (vals (2 * j), vals (Suc (2 * j)))" using assms(3) by (simp add: curve_of_def)
  have "get_curve_cmd (fst (?c ! j)) (take j ?c @ ?c ! j # drop (Suc j) ?c) = Some (snd (?c ! j))"
    by (rule get_curve_cmd_knot) (use c(2) assms(1) in \<open>simp_all only: split [symmetric] length_curve_of\<close>)
  then have "get_curve_cmd (vals (2 * j)) ?c = Some (vals (Suc (2 * j)))"
    unfolding split [symmetric] by (simp add: nth)
  with c(1) show ?thesis by auto
qed

theorem curve_through_points_witness:
  "\<exists>c. set_curve_points (\<lambda>i. of_nat i) 6 [] = Some c \<and> length c = 3 \<and> get_curve_cmd 2 c = Some 3"
  using curve_through_points [of 3 "\<lambda>i. of_nat i" 1] by simp

text \<open>Between two points the interpolation never leaves the range of the points' y values.\<close>

theorem curve_interpolation_bounded:
  assumes "increasing_xs c" "2 \<le> length c" "fst (hd c) \<le> x" "x < fst (last c)"
    and "\<forall>p \<in> set c. lo \<le> snd p \<and> snd p \<le> hi"
  shows "\<exists>y. get_curve_cmd x c = Some y \<and> lo \<le> y \<and> y \<le> hi"
  using get_curve_cmd_interpolates [OF assms(1-4)] assms(5) by (smt (verit))

theorem curve_interpolation_bounded_witness:
  "\<exists>y. get_curve_cmd 3 [(0, 1), (2, 5), (4, -1)] = Some y \<and> -1 \<le> y \<and> y \<le> 5"
  using curve_interpolation_bounded [of "[(0, 1), (2, 5), (4, -1)]" 3 "-1" 5] by simp

text \<open>An invalid curve is not replaced by a flat one as intended: the fallback writes points that
  were never added to the vector, so with two options, or with a first x value that is not
  below the second, the access is out of range.\<close>

theorem invalid_curve_out_of_range:
  "set_curve_points vals 2 [] = None \<and>
   set_curve_points (\<lambda>i. if i = 0 then 1 else 0) 6 [] = None"
proof
  show "set_curve_points vals 2 [] = None" by (rule set_curve_points_two_options)
  show "set_curve_points (\<lambda>i. if i = 0 then 1 else 0) 6 [] = None"
    by (simp add: set_curve_points_def numeral_3_eq_3 Let_def)
qed

text \<open>Adding milliseconds to a time keeps it normalised and advances it by exactly that much.\<close>

theorem increment_timespec_exact:
  assumes "valid_ts t" "0 \<le> ms"
  shows "valid_ts (increment_timespec_ms t ms) \<and>
         ts_nanos (increment_timespec_ms t ms) = ts_nanos t + ms * 1000000"
  using assms by (rule increment_timespec_ms_correct)

theorem increment_timespec_exact_witness:
  "ts_nanos (increment_timespec_ms (mk_ts 1 999000000) 1500) = 3499000000"
  using increment_timespec_exact [of "mk_ts 1 999000000" 1500] by (simp add: valid_ts_def ts_nanos_def)

text \<open>C40. A timer is reported expired only after its target, and surely once more than a
  millisecond has passed; once expired it stays expired.\<close>

theorem expiry_sound_and_complete:
  assumes "valid_ts c" "valid_ts t" "valid_ts c'" "ts_nanos c \<le> ts_nanos c'"
  shows "(check_expired_time c t \<longrightarrow> ts_nanos t < ts_nanos c \<and> check_expired_time c' t) \<and>
    (ts_nanos t + 1000000 < ts_nanos c \<longrightarrow> check_expired_time c t)"
  using assms check_expired_time_past check_expired_time_complete check_expired_time_mono by blast

theorem expiry_sound_and_complete_witness:
  "check_expired_time (mk_ts 5 2000000) (mk_ts 5 0) \<and> check_expired_time (mk_ts 6 0) (mk_ts 5 0)"
  using expiry_sound_and_complete [of "mk_ts 5 2000000" "mk_ts 5 0" "mk_ts 6 0"]
  by (simp add: valid_ts_def ts_nanos_def)

text \<open>Splitting terminates for every non-empty delimiter, and splitting a route recovers exactly
  the fragments it was built from.\<close>

theorem split_route_roundtrip:
  assumes "\<forall>f \<in> set frs. f \<noteq> [] \<and> c \<notin> set f" "delimiter \<noteq> []"
  shows "split (join_slash c frs) [c] = Some frs \<and> (\<exists>r. split str delimiter = Some r)"
  using assms split_join [of frs c] split_loop_terminates [of delimiter str "[]"] by (simp add: split_def)

theorem split_route_roundtrip_witness:
  "split ''/ess/start'' ''/'' = Some [''ess'', ''start'']"
  using split_route_roundtrip [of "[''ess'', ''start'']" "CHR ''/''" "''/''" "[]"]
  by (simp add: join_slash_def)

end
