(* ===== verification/Values.thy ===== *)
theory Values
  imports Site_Utils "HOL-Library.Word" "HOL-Library.Sublist"
begin

unbundle bit_operations_syntax

text \<open>
  \<^verbatim>\<open>Value_Object.cpp\<close>, \<^verbatim>\<open>Fims_Object.cpp\<close> and \<^verbatim>\<open>Input_Sources.cpp\<close>: the typed value
  cell, the FIMS variable built on it, and the priority list of input sources that decides
  which input of a multiple-input variable is in effect.
\<close>

section \<open>Value objects\<close>

datatype valueType = T_Int | T_Float | T_Bool | T_Bit_Field | T_Random_Enum | T_String | T_Status | T_Invalid

record value_object =
  vtype :: valueType
  value_int :: int
  value_string :: string
  value_float :: flt
  value_bit_field :: "64 word"
  value_and_mask :: "64 word"
  invert_mask :: "64 word"
  value_bool :: bool

text \<open>
  The default constructor.  It leaves \<^verbatim>\<open>invert_mask\<close> uninitialised, so the mask is an argument.
\<close>

definition Value_Object :: "64 word \<Rightarrow> value_object" where
  "Value_Object im = \<lparr>vtype = T_Invalid, value_int = 0, value_string = '''', value_float = 0,
     value_bit_field = 0, value_and_mask = 0, invert_mask = im, value_bool = False\<rparr>"

definition set_bool :: "bool \<Rightarrow> value_object \<Rightarrow> value_object" where
  "set_bool v o' = o'\<lparr>vtype := T_Bool, value_bool := v\<rparr>"

definition set_int :: "int \<Rightarrow> value_object \<Rightarrow> value_object" where
  "set_int v o' = o'\<lparr>vtype := T_Int, value_int := v, value_float := of_int v\<rparr>"

definition set_float :: "flt \<Rightarrow> value_object \<Rightarrow> value_object" where
  "set_float v o' = o'\<lparr>vtype := T_Float, value_float := v, value_int := c_trunc v\<rparr>"

definition set_bits :: "64 word \<Rightarrow> value_object \<Rightarrow> value_object" where
  "set_bits v o' = o'\<lparr>vtype := T_Bit_Field, value_bit_field := v\<rparr>"

definition set_string :: "string \<Rightarrow> value_object \<Rightarrow> value_object" where
  "set_string v o' = o'\<lparr>vtype := T_String, value_string := v\<rparr>"

text \<open>\<^verbatim>\<open>set(Value_Object&)\<close> keeps the type of the target and copies the matching field.\<close>

definition set_from :: "value_object \<Rightarrow> value_object \<Rightarrow> value_object" where
  "set_from new o' = (case vtype o' of
       T_Bool \<Rightarrow> o'\<lparr>value_bool := value_bool new\<rparr>
     | T_Int \<Rightarrow> o'\<lparr>value_int := value_int new, value_float := of_int (value_int new)\<rparr>
     | T_Float \<Rightarrow> o'\<lparr>value_float := value_float new, value_int := c_trunc (value_float new)\<rparr>
     | T_Bit_Field \<Rightarrow> o'\<lparr>value_bit_field := value_bit_field new\<rparr>
     | T_String \<Rightarrow> o'\<lparr>value_string := value_string new\<rparr>
     | _ \<Rightarrow> o')"

text \<open>The two numeric fields of an \<^verbatim>\<open>Int\<close> or \<^verbatim>\<open>Float\<close> object agree up to truncation.\<close>

definition numeric_sync :: "value_object \<Rightarrow> bool" where
  "numeric_sync o' \<longleftrightarrow> value_int o' = c_trunc (value_float o')"

lemma numeric_sync_setters:
  "numeric_sync (Value_Object im)" "numeric_sync (set_int i o')" "numeric_sync (set_float f o')"
  "numeric_sync o' \<Longrightarrow> numeric_sync (set_bool b o')"
  "numeric_sync o' \<Longrightarrow> numeric_sync (set_bits w o')"
  "numeric_sync o' \<Longrightarrow> numeric_sync (set_string s o')"
  by (simp_all add: numeric_sync_def set_int_def set_float_def set_bool_def set_bits_def
      set_string_def Value_Object_def c_trunc_def)

lemma numeric_sync_set_from:
  "numeric_sync o' \<Longrightarrow> numeric_sync (set_from new o')"
  by (simp add: numeric_sync_def set_from_def split: valueType.splits)

lemma vtype_set_from [simp]: "vtype (set_from new o') = vtype o'"
  by (simp add: set_from_def split: valueType.splits)

section \<open>Input sources\<close>

record input_source =
  is_name :: string
  uri_suffix :: string
  enabled :: bool

record input_source_list =
  selected_input_source_index :: nat
  input_sources :: "input_source list"
  id_to_index :: "string \<Rightarrow> nat option"

text \<open>The search loop for the first enabled source; the index is unchanged if there is none.\<close>

fun first_enabled :: "nat \<Rightarrow> input_source list \<Rightarrow> nat \<Rightarrow> nat" where
  "first_enabled i [] sel = sel"
| "first_enabled i (s # ss) sel = (if enabled s then i else first_enabled (Suc i) ss sel)"

definition set_source_enable_flag ::
    "string \<Rightarrow> bool \<Rightarrow> input_source_list \<Rightarrow> string \<times> input_source_list" where
  "set_source_enable_flag source_id enable_flag l =
     (if input_sources l = [] then ('''', l)
      else case id_to_index l source_id of
        None \<Rightarrow> (is_name (input_sources l ! selected_input_source_index l), l)
      | Some source_index \<Rightarrow>
          let l1 = (if source_index \<noteq> length (input_sources l) - 1
                    then l\<lparr>input_sources := (input_sources l)[source_index :=
                            (input_sources l ! source_index)\<lparr>enabled := enable_flag\<rparr>]\<rparr>
                    else l);
              l2 = (if enable_flag \<and> source_index < selected_input_source_index l1
                    then l1\<lparr>selected_input_source_index := source_index\<rparr>
                    else if \<not> enable_flag \<and> source_index = selected_input_source_index l1
                    then l1\<lparr>selected_input_source_index :=
                           first_enabled 0 (input_sources l1) (selected_input_source_index l1)\<rparr>
                    else l1)
          in (is_name (input_sources l2 ! selected_input_source_index l2), l2))"

text \<open>
  What the list promises: the last source is always enabled, and the selected source is the
  enabled one of highest priority (lowest index).
\<close>

definition sources_wf :: "input_source_list \<Rightarrow> bool" where
  "sources_wf l \<longleftrightarrow> input_sources l \<noteq> [] \<and> enabled (last (input_sources l)) \<and>
     (\<forall>k i. id_to_index l k = Some i \<longrightarrow> i < length (input_sources l))"

definition selects_first :: "input_source_list \<Rightarrow> bool" where
  "selects_first l \<longleftrightarrow> selected_input_source_index l < length (input_sources l) \<and>
     enabled (input_sources l ! selected_input_source_index l) \<and>
     (\<forall>j < selected_input_source_index l. \<not> enabled (input_sources l ! j))"

lemma first_enabled_props:
  assumes "\<exists>s \<in> set ss. enabled s"
  shows "i \<le> first_enabled i ss sel \<and> first_enabled i ss sel < i + length ss \<and>
    enabled (ss ! (first_enabled i ss sel - i)) \<and>
    (\<forall>j. j + i < first_enabled i ss sel \<longrightarrow> \<not> enabled (ss ! j))"
  using assms
proof (induction i ss sel rule: first_enabled.induct)
  case (2 i s ss sel)
  show ?case
  proof (cases "enabled s")
    case False
    with "2.prems" have "\<exists>s \<in> set ss. enabled s" by auto
    note IH = "2.IH" [OF False this]
    define f where "f = first_enabled (Suc i) ss sel"
    have f: "Suc i \<le> f" "f < Suc i + length ss" "enabled (ss ! (f - Suc i))"
      "\<forall>j. j + Suc i < f \<longrightarrow> \<not> enabled (ss ! j)"
      using IH by (auto simp: f_def)
    have "enabled ((s # ss) ! (f - i))" using f by (simp add: nth_Cons')
    moreover have "\<not> enabled ((s # ss) ! j)" if "j + i < f" for j
      using f(4) that False by (cases j) auto
    ultimately show ?thesis using f False by (simp add: f_def)
  qed simp
qed simp

lemma set_source_wf:
  assumes "sources_wf l"
  shows "sources_wf (snd (set_source_enable_flag sid flag l))"
  using assms
  by (auto simp: sources_wf_def set_source_enable_flag_def Let_def last_conv_nth nth_list_update
      split: option.splits)

lemma set_source_selects_first:
  assumes "sources_wf l" "selects_first l"
  shows "selects_first (snd (set_source_enable_flag sid flag l))"
proof (cases "id_to_index l sid")
  case None
  with assms show ?thesis by (simp add: set_source_enable_flag_def)
next
  case (Some i)
  let ?n = "length (input_sources l) - 1"
  define ss where "ss = (if i \<noteq> ?n then (input_sources l)[i := (input_sources l ! i)\<lparr>enabled := flag\<rparr>]
    else input_sources l)"
  define sel where "sel = selected_input_source_index l"
  have i: "i < length (input_sources l)" and ne: "input_sources l \<noteq> []"
    using assms(1) Some by (auto simp: sources_wf_def)
  have last: "enabled (input_sources l ! ?n)" using assms(1) ne last_conv_nth [OF ne] by (simp add: sources_wf_def)
  have en: "enabled (ss ! j) = (if j = i \<and> i \<noteq> ?n then flag else enabled (input_sources l ! j))"
    for j using i by (auto simp: ss_def nth_list_update)
  have len: "length ss = length (input_sources l)" by (simp add: ss_def)
  have "enabled (ss ! ?n)" using last en by auto
  then have ex: "\<exists>s \<in> set ss. enabled s" using ne len
    by (metis diff_less length_greater_0_conv less_numeral_extra(1) nth_mem)
  define sel' where "sel' = (if flag \<and> i < sel then i
    else if \<not> flag \<and> i = sel then first_enabled 0 ss sel else sel)"
  have res: "selected_input_source_index (snd (set_source_enable_flag sid flag l)) = sel'"
    "input_sources (snd (set_source_enable_flag sid flag l)) = ss"
    using ne Some by (auto simp: set_source_enable_flag_def Let_def sel'_def ss_def sel_def)
  have sf: "sel < length (input_sources l)" "enabled (input_sources l ! sel)"
    "\<forall>j < sel. \<not> enabled (input_sources l ! j)" using assms(2) by (auto simp: selects_first_def sel_def)
  have "sel' < length ss \<and> enabled (ss ! sel') \<and> (\<forall>j < sel'. \<not> enabled (ss ! j))"
  proof (cases "\<not> flag \<and> i = sel")
    case True
    then show ?thesis using first_enabled_props [OF ex, of 0 sel] by (simp add: sel'_def)
  next
    case False
    then show ?thesis using sf i len en last by (auto simp: sel'_def)
  qed
  then show ?thesis by (simp add: selects_first_def res)
qed

section \<open>FIMS variables\<close>

datatype statusType = bit_field | random_enum | invalid_status

record fims_object =
  variable_id :: string
  component_uri :: string
  write_uri :: string
  fo_type :: string
  status_type :: statusType
  default_status_name :: string
  ui_enabled :: bool
  options_map :: "(64 word \<times> string \<times> value_object) list"
  multiple_inputs :: bool
  fo_inputs :: "value_object list"
  component_control_value :: value_object
  fo_value :: value_object
  configured :: bool

text \<open>
  \<^verbatim>\<open>parse_input_source_index\<close>: what follows the last underscore of the endpoint names the
  input source; the two exceptions are \<open>None\<close>.
\<close>

definition after_last :: "char \<Rightarrow> string \<Rightarrow> string option" where
  "after_last c s = (if c \<in> set s then Some (rev (takeWhile (\<lambda>d. d \<noteq> c) (rev s))) else None)"

definition parse_input_source_index :: "input_source_list \<Rightarrow> string \<Rightarrow> nat option" where
  "parse_input_source_index srcs uri_endpoint =
     (case after_last (CHR ''_'') uri_endpoint of
        None \<Rightarrow> None
      | Some input_source_id \<Rightarrow>
          if input_source_id = [] then None else id_to_index srcs input_source_id)"

text \<open>
  The setters share one shape: a multiple-input variable is addressed by a prefix test
  and writes the named input, and the value as well when that input is the selected one; a
  single-input variable is addressed by its exact id.  The vector write is unchecked in the
  source; \<open>fims_wf\<close> below says why the index is in range.
\<close>

definition fims_set ::
    "(value_object \<Rightarrow> value_object) \<Rightarrow> input_source_list \<Rightarrow> string \<Rightarrow> fims_object \<Rightarrow> bool \<times> fims_object"
where
  "fims_set upd srcs uri_endpoint fo =
     (if multiple_inputs fo then
        if \<not> prefix (variable_id fo) uri_endpoint then (False, fo)
        else case parse_input_source_index srcs uri_endpoint of
          None \<Rightarrow> (False, fo)
        | Some i \<Rightarrow>
            let fo1 = fo\<lparr>fo_inputs := (fo_inputs fo)[i := upd (fo_inputs fo ! i)]\<rparr>
            in (True, if selected_input_source_index srcs = i
                      then fo1\<lparr>fo_value := upd (fo_value fo1)\<rparr> else fo1)
      else if variable_id fo = uri_endpoint then (True, fo\<lparr>fo_value := upd (fo_value fo)\<rparr>)
      else (False, fo))"

definition set_fims_float :: "input_source_list \<Rightarrow> string \<Rightarrow> flt \<Rightarrow> fims_object \<Rightarrow> bool \<times> fims_object" where
  "set_fims_float srcs uri_endpoint body_float fo = fims_set (set_float body_float) srcs uri_endpoint fo"

definition set_fims_int :: "input_source_list \<Rightarrow> string \<Rightarrow> int \<Rightarrow> fims_object \<Rightarrow> bool \<times> fims_object" where
  "set_fims_int srcs uri_endpoint body_int fo = fims_set (set_int body_int) srcs uri_endpoint fo"

definition set_fims_bool :: "input_source_list \<Rightarrow> string \<Rightarrow> bool \<Rightarrow> fims_object \<Rightarrow> bool \<times> fims_object" where
  "set_fims_bool srcs uri_endpoint body_bool fo = fims_set (set_bool body_bool) srcs uri_endpoint fo"

definition set_fims_bit_field :: "string \<Rightarrow> 64 word \<Rightarrow> fims_object \<Rightarrow> bool \<times> fims_object" where
  "set_fims_bit_field uri_endpoint body fo =
     (if variable_id fo = uri_endpoint then (True, fo\<lparr>fo_value := set_bits body (fo_value fo)\<rparr>)
      else (False, fo))"

text \<open>
  The mask test converts the shifted \<^verbatim>\<open>int\<close> to 64 bits (sign-extending bit 31); a shift
  count above 31 is undefined: \<open>None\<close>.
\<close>

definition set_fims_masked_int ::
    "input_source_list \<Rightarrow> string \<Rightarrow> int \<Rightarrow> 64 word \<Rightarrow> fims_object \<Rightarrow> (bool \<times> fims_object) option" where
  "set_fims_masked_int srcs uri_endpoint body_int msk fo =
     (case get_int_from_bit_position body_int of
        None \<Rightarrow> None
      | Some bit' \<Rightarrow>
          if msk AND word_of_int bit' \<noteq> 0
          then Some (fims_set (set_int body_int) srcs uri_endpoint fo)
          else Some (False, fo))"

definition clear_fims_bit_field :: "fims_object \<Rightarrow> fims_object" where
  "clear_fims_bit_field fo =
     fo\<lparr>fo_value := (fo_value fo)\<lparr>value_bit_field := 0\<rparr>, options_map := []\<rparr>"

definition update_present_register :: "nat \<Rightarrow> fims_object \<Rightarrow> fims_object" where
  "update_present_register i fo =
     (if i < length (fo_inputs fo) then fo\<lparr>fo_value := set_from (fo_inputs fo ! i) (fo_value fo)\<rparr> else fo)"

definition handle_masking :: "64 word \<Rightarrow> fims_object \<Rightarrow> 64 word" where
  "handle_masking new_value fo =
     (let invert_mask_value = invert_mask (fo_value fo) XOR new_value
      in value_and_mask (fo_value fo) AND invert_mask_value)"

text \<open>The scan of \<^verbatim>\<open>get_status_string\<close> over the bit positions, lowest first.\<close>

fun status_scan :: "nat list \<Rightarrow> 64 word \<Rightarrow> (64 word \<Rightarrow> (string \<times> value_object) option) \<Rightarrow> string option" where
  "status_scan [] w om = None"
| "status_scan (p # ps) w om =
     (if bit w p then
        case om (word_of_nat p) of
          Some (nm, v) \<Rightarrow> if nm \<noteq> [] then Some nm else status_scan ps w om
        | None \<Rightarrow> status_scan ps w om
      else status_scan ps w om)"

definition get_status_string :: "fims_object \<Rightarrow> string" where
  "get_status_string fo =
     (if vtype (fo_value fo) = T_Bool \<and> variable_id fo = ''breaker_status''
      then (if value_bool (fo_value fo) then ''Closed'' else ''Open'')
      else if fo_type fo = ''Status'' then
        if options_map fo \<noteq> [] then
          case status_type fo of
            bit_field \<Rightarrow>
              (case status_scan [0..<64] (value_bit_field (fo_value fo)) (map_of (options_map fo)) of
                 Some nm \<Rightarrow> nm | None \<Rightarrow> [])
          | random_enum \<Rightarrow>
              (case map_of (options_map fo) (value_bit_field (fo_value fo)) of
                 Some (nm, v) \<Rightarrow> if nm \<noteq> [] then nm else [] | None \<Rightarrow> [])
          | invalid_status \<Rightarrow> []
        else default_status_name fo
      else [])"

text \<open>
  \<^verbatim>\<open>send_to_component\<close>: the result and the SET message handed to FIMS, if one is, as the
  target URI and the value object whose JSON form is the body.
\<close>

definition json_printable :: "value_object \<Rightarrow> bool" where
  "json_printable v \<longleftrightarrow> vtype v \<in> {T_Bool, T_Int, T_Float, T_String}"

definition send_to_component :: "bool \<Rightarrow> bool \<Rightarrow> fims_object \<Rightarrow> bool \<times> (string \<times> value_object) option" where
  "send_to_component is_primary use_write_uri fo =
     (if \<not> is_primary then (True, None)
      else if \<not> use_write_uri \<and> component_uri fo = [] then (False, None)
      else if \<not> use_write_uri \<and> \<not> json_printable (component_control_value fo) \<or>
              use_write_uri \<and> \<not> json_printable (fo_value fo) then (False, None)
      else if \<not> use_write_uri then (True, Some (component_uri fo, component_control_value fo))
      else if write_uri fo \<noteq> [] then (True, Some (write_uri fo, fo_value fo))
      else (True, None))"

definition fims_wf :: "input_source_list \<Rightarrow> fims_object \<Rightarrow> bool" where
  "fims_wf srcs fo \<longleftrightarrow> (multiple_inputs fo \<longrightarrow> length (fo_inputs fo) = length (input_sources srcs))"

section \<open>What a SET does\<close>

lemma after_last_suffix [simp]:
  "c \<notin> set sfx \<Longrightarrow> after_last c (pre @ c # sfx) = Some sfx"
proof -
  assume "c \<notin> set sfx"
  then have "takeWhile (\<lambda>d. d \<noteq> c) (rev sfx @ c # rev pre) = rev sfx"
    by (subst takeWhile_append2) auto
  then show ?thesis by (simp add: after_last_def)
qed

lemma parse_input_source_index_bound:
  "sources_wf srcs \<Longrightarrow> parse_input_source_index srcs e = Some i \<Longrightarrow> i < length (input_sources srcs)"
  by (auto simp: parse_input_source_index_def sources_wf_def split: option.splits if_splits)

lemma fims_set_frame [frame_simps]:
  "variable_id (snd (fims_set upd srcs e fo)) = variable_id fo"
  "multiple_inputs (snd (fims_set upd srcs e fo)) = multiple_inputs fo"
  "ui_enabled (snd (fims_set upd srcs e fo)) = ui_enabled fo"
  "options_map (snd (fims_set upd srcs e fo)) = options_map fo"
  "component_control_value (snd (fims_set upd srcs e fo)) = component_control_value fo"
  "configured (snd (fims_set upd srcs e fo)) = configured fo"
  "write_uri (snd (fims_set upd srcs e fo)) = write_uri fo"
  "length (fo_inputs (snd (fims_set upd srcs e fo))) = length (fo_inputs fo)"
  by (simp_all add: fims_set_def Let_def split: option.splits)

lemma fims_wf_set: "fims_wf srcs fo \<Longrightarrow> fims_wf srcs (snd (fims_set upd srcs e fo))"
  by (simp add: fims_wf_def frame_simps)

lemma fims_set_rejected: "\<not> fst (fims_set upd srcs e fo) \<Longrightarrow> snd (fims_set upd srcs e fo) = fo"
  by (cases "multiple_inputs fo"; cases "variable_id fo = e"; cases "prefix (variable_id fo) e";
      cases "parse_input_source_index srcs e") (simp_all add: fims_set_def Let_def)

lemma fims_set_single:
  "\<not> multiple_inputs fo \<Longrightarrow>
   fims_set upd srcs e fo = (if e = variable_id fo then (True, fo\<lparr>fo_value := upd (fo_value fo)\<rparr>) else (False, fo))"
  by (auto simp: fims_set_def)

lemma fims_set_multi:
  assumes "multiple_inputs fo" "CHR ''_'' \<notin> set sfx" "sfx \<noteq> []" "id_to_index srcs sfx = Some i"
  shows "fims_set upd srcs (variable_id fo @ CHR ''_'' # sfx) fo =
    (True, fo\<lparr>fo_inputs := (fo_inputs fo)[i := upd (fo_inputs fo ! i)],
       fo_value := (if selected_input_source_index srcs = i then upd (fo_value fo) else fo_value fo)\<rparr>)"
  using assms by (simp add: fims_set_def parse_input_source_index_def Let_def)

text \<open>
  The value of a multiple-input variable follows the selected input: after a SET through the
  selected source, loading the register from that source again changes nothing.
\<close>

lemma set_from_upd_float: "vtype (set_float f v) = T_Float"
  by (simp add: set_float_def)

lemma update_present_register_after_set:
  assumes "multiple_inputs fo" "CHR ''_'' \<notin> set sfx" "sfx \<noteq> []"
    "id_to_index srcs sfx = Some (selected_input_source_index srcs)"
    "selected_input_source_index srcs < length (fo_inputs fo)"
  shows "update_present_register (selected_input_source_index srcs)
      (snd (set_fims_float srcs (variable_id fo @ CHR ''_'' # sfx) f fo)) =
    snd (set_fims_float srcs (variable_id fo @ CHR ''_'' # sfx) f fo)"
  using assms by (simp add: set_fims_float_def fims_set_multi update_present_register_def
      set_from_def set_float_def)

lemma status_scan_first:
  assumes "sorted ps" "p \<in> set ps" "bit w p" "om (word_of_nat p) = Some (nm, v)" "nm \<noteq> []"
    and "\<And>q. q \<in> set ps \<Longrightarrow> q < p \<Longrightarrow> \<not> bit w q"
  shows "status_scan ps w om = Some nm"
  using assms
proof (induction ps)
  case (Cons q ps)
  show ?case
  proof (cases "q = p")
    case False
    with Cons.prems(1,2) have "q < p" by (auto simp: order.order_iff_strict)
    with Cons.prems(6) have "\<not> bit w q" by simp
    with Cons False show ?thesis by simp
  qed (use Cons.prems in simp)
qed simp

lemma bit_handle_masking:
  "bit (handle_masking w fo) n \<longleftrightarrow>
   n < 64 \<and> bit (value_and_mask (fo_value fo)) n \<and> (bit (invert_mask (fo_value fo)) n \<noteq> bit w n)"
  by (auto simp: handle_masking_def bit_and_iff bit_xor_iff dest: bit_imp_le_length)

section \<open>The source list as a component\<close>

definition source_step :: "string \<times> bool \<Rightarrow> input_source_list \<Rightarrow> input_source_list" where
  "source_step i l = snd (set_source_enable_flag (fst i) (snd i) l)"

interpretation srcl: machine source_step "\<lambda>l. sources_wf l \<and> selects_first l"
  by standard (simp add: source_step_def set_source_wf set_source_selects_first)

section \<open>Properties\<close>

text \<open>C38. After any sequence of enables and disables the selected input source is enabled and no
  source of higher priority is; the lowest-priority source can never be disabled.\<close>

theorem input_source_priority:
  assumes "sources_wf l" "selects_first l"
  shows "let l' = fold source_step cmds l in
    enabled (input_sources l' ! selected_input_source_index l') \<and>
    (\<forall>j < selected_input_source_index l'. \<not> enabled (input_sources l' ! j)) \<and>
    enabled (last (input_sources l'))"
  using srcl.run_inv [of l cmds] assms by (simp add: sources_wf_def selects_first_def Let_def)

definition demo_sources :: input_source_list where
  "demo_sources = \<lparr>selected_input_source_index = 1,
     input_sources = [\<lparr>is_name = ''scada'', uri_suffix = ''scada'', enabled = False\<rparr>,
                      \<lparr>is_name = ''ui'', uri_suffix = ''ui'', enabled = True\<rparr>],
     id_to_index = [''scada'' \<mapsto> 0, ''ui'' \<mapsto> 1]\<rparr>"

lemma demo_sources_ok: "sources_wf demo_sources" "selects_first demo_sources"
  by (auto simp: sources_wf_def selects_first_def demo_sources_def split: if_splits)

theorem input_source_priority_witness:
  "enabled (last (input_sources (fold source_step [(''scada'', True), (''ui'', False)] demo_sources)))"
  using input_source_priority [OF demo_sources_ok, of "[(''scada'', True), (''ui'', False)]"]
  unfolding Let_def by blast

text \<open>A SET addressed to a multiple-input variable through one source writes that source's input
  only, and reaches the value in effect exactly when that source is the selected one.\<close>

theorem multi_input_set:
  assumes "multiple_inputs fo" "CHR ''_'' \<notin> set sfx" "sfx \<noteq> []" "id_to_index srcs sfx = Some i"
    and "sources_wf srcs" "fims_wf srcs fo"
  shows "fst (set_fims_float srcs (variable_id fo @ CHR ''_'' # sfx) f fo) \<and>
    (let fo' = snd (set_fims_float srcs (variable_id fo @ CHR ''_'' # sfx) f fo)
     in value_float (fo_inputs fo' ! i) = f \<and> (\<forall>j. j \<noteq> i \<longrightarrow> fo_inputs fo' ! j = fo_inputs fo ! j) \<and>
        fo_value fo' = (if selected_input_source_index srcs = i then set_float f (fo_value fo) else fo_value fo))"
proof -
  have "i < length (fo_inputs fo)" using assms by (auto simp: sources_wf_def fims_wf_def)
  then show ?thesis using assms by (simp add: set_fims_float_def fims_set_multi Let_def set_float_def)
qed

definition demo_fims :: fims_object where
  "demo_fims = \<lparr>variable_id = ''cmd'', component_uri = [], write_uri = [], fo_type = [],
     status_type = bit_field, default_status_name = [], ui_enabled = True, options_map = [],
     multiple_inputs = True, fo_inputs = [Value_Object 0, Value_Object 0],
     component_control_value = Value_Object 0, fo_value = Value_Object 0, configured = True\<rparr>"

theorem multi_input_set_witness:
  "value_float (fo_value (snd (set_fims_float demo_sources ''cmd_ui'' 5 demo_fims))) = 5"
  using multi_input_set [OF _ _ _ _ demo_sources_ok(1), of demo_fims "''ui''" 1 5]
  by (simp add: demo_fims_def demo_sources_def fims_wf_def set_float_def Let_def)

text \<open>A bit-field status shows the lowest set bit that has a name: the comment in the code says
  the highest.\<close>

theorem status_shows_lowest_bit:
  assumes "fo_type fo = ''Status''" "vtype (fo_value fo) \<noteq> T_Bool" "status_type fo = bit_field"
    and "bit (value_bit_field (fo_value fo)) p" "p < 64"
    and "map_of (options_map fo) (word_of_nat p) = Some (nm, v)" "nm \<noteq> []"
    and "\<forall>q < p. \<not> bit (value_bit_field (fo_value fo)) q"
  shows "get_status_string fo = nm"
proof -
  have "status_scan [0..<64] (value_bit_field (fo_value fo)) (map_of (options_map fo)) = Some nm"
    using assms by (intro status_scan_first [of _ p]) auto
  moreover have "options_map fo \<noteq> []" using assms(6) by auto
  ultimately show ?thesis using assms by (simp add: get_status_string_def)
qed

theorem status_shows_lowest_bit_witness:
  "get_status_string (demo_fims\<lparr>fo_type := ''Status'', fo_value := (Value_Object 0)\<lparr>value_bit_field := 3\<rparr>,
     options_map := [(0, ''Low'', Value_Object 0), (1, ''High'', Value_Object 0)]\<rparr>) = ''Low''"
  using status_shows_lowest_bit [of "demo_fims\<lparr>fo_type := ''Status'', fo_value := (Value_Object 0)\<lparr>value_bit_field := 3\<rparr>,
     options_map := [(0, ''Low'', Value_Object 0), (1, ''High'', Value_Object 0)]\<rparr>" 0 "''Low''" "Value_Object 0"]
  by (simp add: demo_fims_def Value_Object_def)

end
