(* ===== verification/Slew.thy ===== *)
theory Slew
  imports Site_Utils
begin

text \<open>
  \<^verbatim>\<open>Slew_Object.cpp\<close>: a target is admitted only as far as the slew rate allows in the time
  since the last update.  \<^verbatim>\<open>clock_gettime\<close> is the argument \<open>now\<close> of the operations that
  read the clock.
\<close>

section \<open>State and operations\<close>

record slew_object =
  slew_rate :: int
  current_value :: flt
  slew_delta_time :: flt
  slew_max_value :: flt
  slew_min_value :: flt
  slew_current_time :: timespec
  slew_prev_time :: timespec

text \<open>The constructor does not initialise the two timespecs: they are arguments.\<close>

definition Slew_Object :: "timespec \<Rightarrow> timespec \<Rightarrow> slew_object" where
  "Slew_Object ct pt = \<lparr>slew_rate = 1000000, current_value = 0, slew_delta_time = 0,
     slew_max_value = 0, slew_min_value = 0, slew_current_time = ct, slew_prev_time = pt\<rparr>"

definition get_slew_target :: "slew_object \<Rightarrow> flt \<Rightarrow> flt" where
  "get_slew_target s target_value =
     (if target_value > current_value s
      then (if target_value > slew_max_value s then slew_max_value s else target_value)
      else if target_value < current_value s
      then (if target_value < slew_min_value s then slew_min_value s else target_value)
      else target_value)"

text \<open>The microseconds between two clock readings, with the truncating division of the source.\<close>

definition delta_us :: "timespec \<Rightarrow> timespec \<Rightarrow> int" where
  "delta_us cur prev = (tv_sec cur - tv_sec prev) * 1000000 + (tv_nsec cur - tv_nsec prev) sdiv 1000"

definition update_slew_target :: "timespec \<Rightarrow> flt \<Rightarrow> slew_object \<Rightarrow> slew_object" where
  "update_slew_target now target_value s =
     (let s = s\<lparr>current_value := get_slew_target s target_value\<rparr>;
          s = s\<lparr>slew_current_time := now\<rparr>;
          s = s\<lparr>slew_delta_time :=
                 (1 / 1000000) * of_int (delta_us (slew_current_time s) (slew_prev_time s))\<rparr>;
          s = s\<lparr>slew_max_value := current_value s + of_int (slew_rate s) * slew_delta_time s\<rparr>;
          s = s\<lparr>slew_min_value := current_value s - of_int (slew_rate s) * slew_delta_time s\<rparr>
      in s\<lparr>slew_prev_time := slew_current_time s\<rparr>)"

definition reset_slew_target :: "timespec \<Rightarrow> slew_object \<Rightarrow> slew_object" where
  "reset_slew_target now s = s\<lparr>slew_current_time := now, slew_prev_time := now\<rparr>"

definition reset_slew_target_diff :: "timespec \<Rightarrow> int \<Rightarrow> slew_object \<Rightarrow> slew_object" where
  "reset_slew_target_diff now diff s = s\<lparr>slew_current_time := now,
     slew_prev_time := now\<lparr>tv_sec := tv_sec now - diff\<rparr>\<rparr>"

definition set_slew_rate :: "int \<Rightarrow> slew_object \<Rightarrow> slew_object" where
  "set_slew_rate rate s = s\<lparr>slew_rate := rate\<rparr>"

section \<open>Properties\<close>

text \<open>The invariant: the admitted window contains the current value.\<close>

definition slew_inv :: "slew_object \<Rightarrow> bool" where
  "slew_inv s \<longleftrightarrow> slew_min_value s \<le> current_value s \<and> current_value s \<le> slew_max_value s"

lemma delta_us_nonneg:
  assumes "valid_ts c" "valid_ts p" "ts_nanos p \<le> ts_nanos c"
  shows "0 \<le> delta_us c p"
proof (cases "tv_sec c = tv_sec p")
  case True
  with assms show ?thesis by (simp add: delta_us_def ts_nanos_def sdiv_nonneg pos_imp_zdiv_nonneg_iff)
next
  case False
  with assms have s: "tv_sec p + 1 \<le> tv_sec c" by (auto simp: valid_ts_def ts_nanos_def)
  have n: "\<bar>tv_nsec c - tv_nsec p\<bar> \<le> 999999999" using assms by (auto simp: valid_ts_def)
  have "- 999999 \<le> (tv_nsec c - tv_nsec p) sdiv 1000"
    using n by (auto simp: signed_divide_int_def sgn_if abs_if)
  with s show ?thesis by (simp add: delta_us_def)
qed

lemma get_slew_target_window:
  assumes "slew_inv s"
  shows "slew_min_value s \<le> get_slew_target s t \<and> get_slew_target s t \<le> slew_max_value s"
  using assms by (simp add: get_slew_target_def slew_inv_def)

lemma get_slew_target_clamp:
  assumes "slew_inv s"
  shows "get_slew_target s t = max (slew_min_value s) (min t (slew_max_value s))"
  using assms by (simp add: get_slew_target_def slew_inv_def)

lemma get_slew_target_idem:
  "slew_inv s \<Longrightarrow> get_slew_target s (get_slew_target s t) = get_slew_target s t"
  by (simp add: get_slew_target_def slew_inv_def)

lemma update_slew_target_fields:
  "current_value (update_slew_target now t s) = get_slew_target s t"
  "slew_max_value (update_slew_target now t s) =
     get_slew_target s t + of_int (slew_rate s) * of_int (delta_us now (slew_prev_time s)) / 1000000"
  "slew_min_value (update_slew_target now t s) =
     get_slew_target s t - of_int (slew_rate s) * of_int (delta_us now (slew_prev_time s)) / 1000000"
  "slew_prev_time (update_slew_target now t s) = now"
  "slew_rate (update_slew_target now t s) = slew_rate s"
  by (simp_all add: update_slew_target_def Let_def)

lemma update_slew_target_inv:
  assumes "0 \<le> slew_rate s" "0 \<le> delta_us now (slew_prev_time s)"
  shows "slew_inv (update_slew_target now t s)"
  using assms by (simp add: slew_inv_def update_slew_target_fields)

text \<open>
  Two updates in a row: the second admitted value differs from the first by at most the slew
  rate times the time between the readings of the clock of the first update and the one before.
\<close>

lemma slew_step_bound:
  assumes "0 \<le> slew_rate s" "0 \<le> delta_us now (slew_prev_time s)"
  shows "\<bar>get_slew_target (update_slew_target now t s) u - get_slew_target s t\<bar>
     \<le> of_int (slew_rate s) * of_int (delta_us now (slew_prev_time s)) / 1000000"
  using get_slew_target_window [OF update_slew_target_inv [OF assms, of t], of u]
  unfolding update_slew_target_fields by linarith

text \<open>The slew limiter bounds the rate of change: of two consecutive updates with a clock that
  does not go back, the second admits a value that differs from the value the first admitted
  by at most the slew rate times the time elapsed at the first.\<close>

theorem slew_rate_limit:
  assumes "0 \<le> slew_rate s" "valid_ts now" "valid_ts (slew_prev_time s)"
    and "ts_nanos (slew_prev_time s) \<le> ts_nanos now"
  shows "\<bar>current_value (update_slew_target now' u (update_slew_target now t s)) -
          current_value (update_slew_target now t s)\<bar>
     \<le> of_int (slew_rate s) * of_int (delta_us now (slew_prev_time s)) / 1000000"
  using slew_step_bound [OF assms(1) delta_us_nonneg [OF assms(2-4)], of t u]
  by (simp only: update_slew_target_fields)

theorem slew_rate_limit_witness:
  "\<bar>current_value (update_slew_target (mk_ts 2 0) 500 (update_slew_target (mk_ts 1 0) 100 (Slew_Object (mk_ts 0 0) (mk_ts 0 0)))) -
    current_value (update_slew_target (mk_ts 1 0) 100 (Slew_Object (mk_ts 0 0) (mk_ts 0 0)))\<bar> \<le> 1000000"
  using slew_rate_limit [of "Slew_Object (mk_ts 0 0) (mk_ts 0 0)" "mk_ts 1 0" "mk_ts 2 0" 500 100]
  by (simp add: Slew_Object_def valid_ts_def ts_nanos_def delta_us_def signed_divide_int_def)

text \<open>A target inside the admitted window passes through, and one outside is cut to the nearer
  end of it: the slew target is the clamp of the request to the window.\<close>

theorem slew_target_is_clamp:
  assumes "slew_min_value s \<le> current_value s" "current_value s \<le> slew_max_value s"
  shows "get_slew_target s t = max (slew_min_value s) (min t (slew_max_value s)) \<and>
    get_slew_target s (get_slew_target s t) = get_slew_target s t"
  using assms get_slew_target_clamp get_slew_target_idem by (simp add: slew_inv_def)

theorem slew_target_is_clamp_witness:
  "get_slew_target ((Slew_Object (mk_ts 0 0) (mk_ts 0 0))\<lparr>slew_max_value := 7\<rparr>) 9 = 7"
  using slew_target_is_clamp [of "(Slew_Object (mk_ts 0 0) (mk_ts 0 0))\<lparr>slew_max_value := 7\<rparr>" 9]
  by (simp add: Slew_Object_def)

end
