(* ===== verification/Regulator.thy ===== *)
theory Regulator
  imports Slew
begin

text \<open>
  \<^verbatim>\<open>Variable_Regulator.cpp\<close>: an integer offset moved one step at a time by two debounce
  timers.  Load and solar shedding and both closed loop controls run on it.
\<close>

section \<open>State and operations\<close>

datatype comparison = VALUE_BELOW | VALUE_ABOVE

record variable_regulator =
  offset :: int
  default_offset :: int
  max_offset :: int
  min_offset :: int
  default_threshold :: flt
  default_comparison :: comparison
  control_high_threshold :: flt
  decrease_timer_count :: int
  decrease_timer_duration :: int
  control_low_threshold :: flt
  increase_timer_count :: int
  increase_timer_duration :: int
  delta_time_us :: int
  timerStarted :: bool
  vr_current_time :: timespec
  vr_prev_time :: timespec
  updates_per_second :: flt

definition Variable_Regulator :: "timespec \<Rightarrow> timespec \<Rightarrow> variable_regulator" where
  "Variable_Regulator now1 now2 = \<lparr>offset = 0, default_offset = 0, max_offset = 0, min_offset = 0,
     default_threshold = 0, default_comparison = VALUE_BELOW, control_high_threshold = 0,
     decrease_timer_count = 0, decrease_timer_duration = 0, control_low_threshold = 0,
     increase_timer_count = 0, increase_timer_duration = 0, delta_time_us = 0,
     timerStarted = False, vr_current_time = now2, vr_prev_time = now1, updates_per_second = 10\<rparr>"

definition set_update_rate :: "flt \<Rightarrow> variable_regulator \<Rightarrow> variable_regulator" where
  "set_update_rate rate r = r\<lparr>updates_per_second := rate\<rparr>"

definition set_default_condition :: "flt \<Rightarrow> comparison \<Rightarrow> variable_regulator \<Rightarrow> variable_regulator" where
  "set_default_condition threshold cmp r = r\<lparr>default_threshold := threshold, default_comparison := cmp\<rparr>"

definition set_control_high_threshold :: "flt \<Rightarrow> variable_regulator \<Rightarrow> variable_regulator" where
  "set_control_high_threshold threshold r = r\<lparr>control_high_threshold := threshold\<rparr>"

definition set_decrease_timer_duration_ms :: "int \<Rightarrow> variable_regulator \<Rightarrow> variable_regulator" where
  "set_decrease_timer_duration_ms ms r =
     (let r = r\<lparr>decrease_timer_duration := c_trunc (of_int ms * updates_per_second r / 1000)\<rparr>
      in r\<lparr>decrease_timer_count := decrease_timer_duration r\<rparr>)"

definition set_control_low_threshold :: "flt \<Rightarrow> variable_regulator \<Rightarrow> variable_regulator" where
  "set_control_low_threshold threshold r = r\<lparr>control_low_threshold := threshold\<rparr>"

definition set_increase_timer_duration_ms :: "int \<Rightarrow> variable_regulator \<Rightarrow> variable_regulator" where
  "set_increase_timer_duration_ms ms r =
     (let r = r\<lparr>increase_timer_duration := c_trunc (of_int ms * updates_per_second r / 1000)\<rparr>
      in r\<lparr>increase_timer_count := increase_timer_duration r\<rparr>)"

definition reset_timers :: "variable_regulator \<Rightarrow> variable_regulator" where
  "reset_timers r = r\<lparr>decrease_timer_count := decrease_timer_duration r,
     increase_timer_count := increase_timer_duration r\<rparr>"

definition reset :: "variable_regulator \<Rightarrow> variable_regulator" where
  "reset r = reset_timers (r\<lparr>offset := default_offset r\<rparr>)"

definition update_decrease_timer :: "flt \<Rightarrow> variable_regulator \<Rightarrow> variable_regulator" where
  "update_decrease_timer control_value r =
     (if offset r \<le> min_offset r then r
      else if control_value > control_high_threshold r then
        if decrease_timer_count r > 0 then r\<lparr>decrease_timer_count := decrease_timer_count r - 1\<rparr>
        else if decrease_timer_count r = 0
        then r\<lparr>offset := offset r - 1, decrease_timer_count := decrease_timer_duration r\<rparr>
        else r
      else if decrease_timer_count r < decrease_timer_duration r
      then r\<lparr>decrease_timer_count := decrease_timer_count r + 1\<rparr>
      else r)"

definition update_increase_timer :: "flt \<Rightarrow> variable_regulator \<Rightarrow> variable_regulator" where
  "update_increase_timer control_value r =
     (if offset r \<ge> max_offset r then r
      else if control_value < control_low_threshold r then
        if increase_timer_count r > 0 then r\<lparr>increase_timer_count := increase_timer_count r - 1\<rparr>
        else if increase_timer_count r = 0
        then r\<lparr>offset := offset r + 1, increase_timer_count := increase_timer_duration r\<rparr>
        else r
      else if increase_timer_count r < increase_timer_duration r
      then r\<lparr>increase_timer_count := increase_timer_count r + 1\<rparr>
      else r)"

text \<open>
  \<^verbatim>\<open>delta_time_us\<close> is unsigned and 64 bits wide, so a clock that went back makes it
  huge; the comparison with the update period is in floating point, and with a rate of zero
  the period is infinite.
\<close>

definition regulate_variable_offset ::
    "timespec \<Rightarrow> flt \<Rightarrow> flt \<Rightarrow> variable_regulator \<Rightarrow> bool \<times> variable_regulator" where
  "regulate_variable_offset now base_case_input regulation_input r =
     (let r = r\<lparr>vr_current_time := now\<rparr> in
      if \<not> timerStarted r then (False, r\<lparr>timerStarted := True, vr_prev_time := now\<rparr>)
      else let r = r\<lparr>delta_time_us := delta_us now (vr_prev_time r) mod 2 ^ 64\<rparr> in
      if updates_per_second r = 0 \<or> of_int (delta_time_us r) < 1000000 / updates_per_second r
      then (False, r)
      else
        let r = (if base_case_input < default_threshold r \<and> default_comparison r = VALUE_BELOW \<or>
                    base_case_input > default_threshold r \<and> default_comparison r = VALUE_ABOVE
                 then reset r
                 else update_increase_timer regulation_input
                        (update_decrease_timer regulation_input r))
        in (True, r\<lparr>vr_prev_time := now\<rparr>))"

section \<open>Invariant\<close>

definition regulator_inv :: "variable_regulator \<Rightarrow> bool" where
  "regulator_inv r \<longleftrightarrow>
     min_offset r \<le> offset r \<and> offset r \<le> max_offset r \<and>
     min_offset r \<le> default_offset r \<and> default_offset r \<le> max_offset r \<and>
     0 \<le> decrease_timer_count r \<and> decrease_timer_count r \<le> decrease_timer_duration r \<and>
     0 \<le> increase_timer_count r \<and> increase_timer_count r \<le> increase_timer_duration r"

lemma Variable_Regulator_inv: "regulator_inv (Variable_Regulator n1 n2)"
  by (simp add: regulator_inv_def Variable_Regulator_def)

lemma update_decrease_timer_inv: "regulator_inv r \<Longrightarrow> regulator_inv (update_decrease_timer v r)"
  by (auto simp: regulator_inv_def update_decrease_timer_def)

lemma update_increase_timer_inv: "regulator_inv r \<Longrightarrow> regulator_inv (update_increase_timer v r)"
  by (auto simp: regulator_inv_def update_increase_timer_def)

lemma reset_inv: "regulator_inv r \<Longrightarrow> regulator_inv (reset r)"
  by (auto simp: regulator_inv_def reset_def reset_timers_def)

lemma regulator_inv_times [simp]:
  "regulator_inv (r\<lparr>vr_current_time := t\<rparr>) = regulator_inv r"
  "regulator_inv (r\<lparr>vr_prev_time := t\<rparr>) = regulator_inv r"
  "regulator_inv (r\<lparr>delta_time_us := d\<rparr>) = regulator_inv r"
  "regulator_inv (r\<lparr>timerStarted := b\<rparr>) = regulator_inv r"
  by (simp_all add: regulator_inv_def)

lemma regulate_variable_offset_inv:
  "regulator_inv r \<Longrightarrow> regulator_inv (snd (regulate_variable_offset now b v r))"
  by (simp add: regulate_variable_offset_def Let_def reset_inv update_decrease_timer_inv
      update_increase_timer_inv)

text \<open>One accepted call moves the offset by at most one step, unless it resets it.\<close>

lemma update_timers_step:
  "\<bar>offset (update_decrease_timer v r) - offset r\<bar> \<le> 1"
  "\<bar>offset (update_increase_timer v r) - offset r\<bar> \<le> 1"
  by (auto simp: update_decrease_timer_def update_increase_timer_def)

lemma regulate_frame:
  "min_offset (snd (regulate_variable_offset now b v r)) = min_offset r"
  "max_offset (snd (regulate_variable_offset now b v r)) = max_offset r"
  "default_offset (snd (regulate_variable_offset now b v r)) = default_offset r"
  by (simp_all add: regulate_variable_offset_def Let_def reset_def reset_timers_def
      update_decrease_timer_def update_increase_timer_def)

lemma regulate_rejected_offset:
  "\<not> fst (regulate_variable_offset now b v r) \<Longrightarrow> offset (snd (regulate_variable_offset now b v r)) = offset r"
  by (auto simp: regulate_variable_offset_def Let_def split: if_splits)

text \<open>
  The setters of a regulator whose rate is positive leave a full, non-negative timer.
\<close>

lemma set_timers_nonneg:
  assumes "0 \<le> updates_per_second r" "0 \<le> ms"
  shows "0 \<le> decrease_timer_duration (set_decrease_timer_duration_ms ms r)"
    "decrease_timer_count (set_decrease_timer_duration_ms ms r) = decrease_timer_duration (set_decrease_timer_duration_ms ms r)"
    "0 \<le> increase_timer_duration (set_increase_timer_duration_ms ms r)"
    "increase_timer_count (set_increase_timer_duration_ms ms r) = increase_timer_duration (set_increase_timer_duration_ms ms r)"
  using assms by (simp_all add: set_decrease_timer_duration_ms_def set_increase_timer_duration_ms_def Let_def)

section \<open>The regulator as a component\<close>

text \<open>One call with its three inputs, as a machine step.\<close>

definition regulator_step :: "timespec \<times> flt \<times> flt \<Rightarrow> variable_regulator \<Rightarrow> variable_regulator" where
  "regulator_step i r = (case i of (now, b, v) \<Rightarrow> snd (regulate_variable_offset now b v r))"

interpretation reg: bounded_machine regulator_step regulator_inv offset min_offset max_offset
proof
  show "regulator_inv r \<Longrightarrow> regulator_inv (regulator_step i r)" for r i
    by (simp add: regulator_step_def regulate_variable_offset_inv split: prod.splits)
  show "min_offset (regulator_step i r) = min_offset r" "max_offset (regulator_step i r) = max_offset r" for r i
    by (simp_all add: regulator_step_def regulate_frame split: prod.splits)
  show "regulator_inv r \<Longrightarrow> min_offset r \<le> offset r \<and> offset r \<le> max_offset r" for r
    by (simp add: regulator_inv_def)
qed

text \<open>The countdown: the timer runs down one tick per call and the offset then moves.\<close>

lemma decrease_countdown:
  assumes "int n \<le> decrease_timer_count r" "min_offset r < offset r" "control_high_threshold r < v"
  shows "(update_decrease_timer v ^^ n) r = r\<lparr>decrease_timer_count := decrease_timer_count r - int n\<rparr>"
  using assms(1) by (induction n) (use assms(2,3) in \<open>simp_all add: update_decrease_timer_def\<close>)

lemma decrease_fires:
  assumes "0 \<le> decrease_timer_count r" "min_offset r < offset r" "control_high_threshold r < v"
  shows "(update_decrease_timer v ^^ Suc (nat (decrease_timer_count r))) r =
    r\<lparr>offset := offset r - 1, decrease_timer_count := decrease_timer_duration r\<rparr>"
  using assms decrease_countdown [of "nat (decrease_timer_count r)" r v]
  by (simp add: update_decrease_timer_def)

lemma increase_countdown:
  assumes "int n \<le> increase_timer_count r" "offset r < max_offset r" "v < control_low_threshold r"
  shows "(update_increase_timer v ^^ n) r = r\<lparr>increase_timer_count := increase_timer_count r - int n\<rparr>"
  using assms(1) by (induction n) (use assms(2,3) in \<open>simp_all add: update_increase_timer_def\<close>)

lemma increase_fires:
  assumes "0 \<le> increase_timer_count r" "offset r < max_offset r" "v < control_low_threshold r"
  shows "(update_increase_timer v ^^ Suc (nat (increase_timer_count r))) r =
    r\<lparr>offset := offset r + 1, increase_timer_count := increase_timer_duration r\<rparr>"
  using assms increase_countdown [of "nat (increase_timer_count r)" r v]
  by (simp add: update_increase_timer_def)

section \<open>Properties\<close>

text \<open>Whatever sequence of inputs and clock readings drives it, the regulator's offset stays
  between its minimum and maximum, and both countdowns stay between zero and their durations.\<close>

theorem regulator_offset_bounded:
  assumes "regulator_inv r"
  shows "min_offset r \<le> offset (fold regulator_step is r) \<and> offset (fold regulator_step is r) \<le> max_offset r \<and>
    regulator_inv (fold regulator_step is r)"
  using reg.run_bounds [OF assms] reg.run_inv [OF assms] by blast

theorem regulator_offset_bounded_witness:
  "offset (fold regulator_step [(mk_ts 1 0, 5, 7), (mk_ts 2 0, 5, 7)] (Variable_Regulator (mk_ts 0 0) (mk_ts 0 0))) \<le> 0"
  using regulator_offset_bounded [of "Variable_Regulator (mk_ts 0 0) (mk_ts 0 0)"
      "[(mk_ts 1 0, 5, 7), (mk_ts 2 0, 5, 7)]"]
  by (simp only: Variable_Regulator_inv) (simp add: Variable_Regulator_def)

text \<open>The decrease timer fires: while the input stays above the high threshold the timer runs
  down, and on the call after it reached zero the offset drops by exactly one and the timer
  is full again.\<close>

theorem regulator_decrease_fires:
  assumes "regulator_inv r" "min_offset r < offset r" "control_high_threshold r < v"
  shows "(update_decrease_timer v ^^ Suc (nat (decrease_timer_count r))) r =
    r\<lparr>offset := offset r - 1, decrease_timer_count := decrease_timer_duration r\<rparr>"
  using assms by (intro decrease_fires) (simp_all add: regulator_inv_def)

theorem regulator_decrease_fires_witness:
  "offset ((update_decrease_timer 9 ^^ 3)
     ((Variable_Regulator (mk_ts 0 0) (mk_ts 0 0))\<lparr>min_offset := -5, decrease_timer_duration := 2,
        decrease_timer_count := 2\<rparr>)) = -1"
  using regulator_decrease_fires [of "(Variable_Regulator (mk_ts 0 0) (mk_ts 0 0))\<lparr>min_offset := -5,
        decrease_timer_duration := 2, decrease_timer_count := 2\<rparr>" 9]
  by (simp add: Variable_Regulator_def regulator_inv_def numeral_3_eq_3)

end
