(* ===== verification/Asset_Cmd.thy ===== *)
theory Asset_Cmd
  imports Slew
begin

text \<open>
  \<^verbatim>\<open>Asset_Cmd_Object.cpp\<close>: the power dispatcher.  The command object holds one data record
  per asset type; pointers to the four records are modelled by the asset type they point to.
\<close>

section \<open>Data\<close>

datatype asset_type = ESS | FEEDERS | GENERATORS | SOLAR

datatype discharge_type = LOAD | REQUESTS | DEMAND

datatype load_compensation = NO_COMPENSATION | LOAD_OFFSET | LOAD_MINIMUM

record asset_cmd_data =
  kW_request :: flt
  saved_kW_request :: flt
  kW_cmd :: flt
  saved_kW_cmd :: flt
  actual_kW :: flt
  start_first_kW :: flt
  start_first_flag :: bool
  auto_restart_flag :: bool
  min_potential_kW :: flt
  max_potential_kW :: flt
  kVAR_cmd :: flt
  actual_kVAR :: flt
  potential_kVAR :: flt

record asset_cmd_object =
  ess_data :: asset_cmd_data
  feeder_data :: asset_cmd_data
  gen_data :: asset_cmd_data
  solar_data :: asset_cmd_data
  poi_cmd :: flt
  site_kW_load :: flt
  load_buffer :: "flt list"
  load_iterator :: nat
  load_method :: load_compensation
  additional_load_compensation :: flt
  feature_kW_demand :: flt
  site_kW_demand :: flt
  uncorrected_site_kW_demand :: flt
  site_kVAR_demand :: flt
  total_potential_kVAR :: flt
  site_kW_charge_production :: flt
  site_kW_discharge_production :: flt

fun data_of :: "asset_type \<Rightarrow> asset_cmd_object \<Rightarrow> asset_cmd_data" where
  "data_of ESS a = ess_data a"
| "data_of FEEDERS a = feeder_data a"
| "data_of GENERATORS a = gen_data a"
| "data_of SOLAR a = solar_data a"

fun put_data :: "asset_type \<Rightarrow> asset_cmd_data \<Rightarrow> asset_cmd_object \<Rightarrow> asset_cmd_object" where
  "put_data ESS d a = a\<lparr>ess_data := d\<rparr>"
| "put_data FEEDERS d a = a\<lparr>feeder_data := d\<rparr>"
| "put_data GENERATORS d a = a\<lparr>gen_data := d\<rparr>"
| "put_data SOLAR d a = a\<lparr>solar_data := d\<rparr>"

interpretation acs: keyed_store data_of put_data
proof
  show "data_of k (put_data k d a) = d" for k d a by (cases k) simp_all
  show "k \<noteq> k' \<Longrightarrow> data_of k' (put_data k d a) = data_of k' a" for k k' d a
    by (cases k; cases k') simp_all
  show "put_data k (data_of k a) a = a" for k a by (cases k) simp_all
qed

lemma put_data_frame [frame_simps]:
  "site_kW_discharge_production (put_data k d a) = site_kW_discharge_production a"
  "site_kW_charge_production (put_data k d a) = site_kW_charge_production a"
  "site_kW_demand (put_data k d a) = site_kW_demand a"
  "feature_kW_demand (put_data k d a) = feature_kW_demand a"
  "site_kW_load (put_data k d a) = site_kW_load a"
  "load_method (put_data k d a) = load_method a"
  "additional_load_compensation (put_data k d a) = additional_load_compensation a"
  by (cases k; simp)+

lemma data_of_frame [frame_simps]:
  "data_of k (a\<lparr>site_kW_discharge_production := x\<rparr>) = data_of k a"
  "data_of k (a\<lparr>site_kW_charge_production := x\<rparr>) = data_of k a"
  "data_of k (a\<lparr>site_kW_demand := x\<rparr>) = data_of k a"
  "data_of k (a\<lparr>feature_kW_demand := x\<rparr>) = data_of k a"
  "data_of k (a\<lparr>load_method := m\<rparr>) = data_of k a"
  by (cases k; simp)+

section \<open>Power contribution of one asset type\<close>

definition calculate_unused_charge_kW :: "asset_cmd_data \<Rightarrow> flt" where
  "calculate_unused_charge_kW d =
     (if kW_cmd d > 0 then 0 else less_than_zero_check (min_potential_kW d - kW_cmd d))"

definition calculate_unused_dischg_kW :: "asset_cmd_data \<Rightarrow> flt" where
  "calculate_unused_dischg_kW d =
     (if kW_cmd d < 0 then 0 else zero_check (max_potential_kW d - kW_cmd d))"

definition calculate_source_kW_contribution :: "flt \<Rightarrow> asset_cmd_data \<Rightarrow> flt \<times> asset_cmd_data" where
  "calculate_source_kW_contribution cmd d =
     (let unused_kW = calculate_unused_dischg_kW d;
          d = d\<lparr>start_first_flag := (cmd \<ge> start_first_kW d \<and> auto_restart_flag d)\<rparr>
      in if cmd \<le> 0 \<or> unused_kW \<le> 0 then (0, d)
         else let old_kW_cmd = kW_cmd d;
                  d = d\<lparr>kW_cmd := kW_cmd d + (if cmd > unused_kW then unused_kW else cmd)\<rparr>;
                  asset_contribution = kW_cmd d - old_kW_cmd;
                  d = (if kW_request d > 0
                       then d\<lparr>kW_request := zero_check (kW_request d - asset_contribution)\<rparr> else d)
              in (asset_contribution, d))"

text \<open>The contract of a source of power, as the dispatch loops rely on it.\<close>

locale power_source =
  fixes contribute :: "flt \<Rightarrow> 'd \<Rightarrow> flt \<times> 'd"
    and unused :: "'d \<Rightarrow> flt"
    and level :: "'d \<Rightarrow> flt"
  assumes unused_nonneg: "0 \<le> unused d"
    and contribution: "fst (contribute c d) = (if c \<le> 0 then 0 else min c (unused d))"
    and level_after: "level (snd (contribute c d)) = level d + fst (contribute c d)"
    and unused_after: "unused (snd (contribute c d)) = unused d - fst (contribute c d)"
begin

lemma contribution_nonneg: "0 \<le> fst (contribute c d)"
  using unused_nonneg [of d] by (simp add: contribution)

lemma contribution_le: "0 \<le> c \<Longrightarrow> fst (contribute c d) \<le> c"
  using unused_nonneg [of d] by (simp add: contribution)

lemma contribution_le_unused: "fst (contribute c d) \<le> unused d"
  using unused_nonneg [of d] by (simp add: contribution)

lemma level_mono: "level d \<le> level (snd (contribute c d))"
  using contribution_nonneg by (simp add: level_after)

end

lemma unused_dischg_nonneg: "0 \<le> calculate_unused_dischg_kW d"
  by (simp add: calculate_unused_dischg_kW_def)

lemma contribution_frame [frame_simps]:
  "max_potential_kW (snd (calculate_source_kW_contribution c d)) = max_potential_kW d"
  "min_potential_kW (snd (calculate_source_kW_contribution c d)) = min_potential_kW d"
  by (simp_all add: calculate_source_kW_contribution_def Let_def)

interpretation src: power_source calculate_source_kW_contribution calculate_unused_dischg_kW kW_cmd
proof
  fix c d
  show "0 \<le> calculate_unused_dischg_kW d" by (rule unused_dischg_nonneg)
  show "fst (calculate_source_kW_contribution c d) =
      (if c \<le> 0 then 0 else min c (calculate_unused_dischg_kW d))"
    using unused_dischg_nonneg [of d]
    by (auto simp: calculate_source_kW_contribution_def Let_def)
  show "kW_cmd (snd (calculate_source_kW_contribution c d)) =
      kW_cmd d + fst (calculate_source_kW_contribution c d)"
    by (simp add: calculate_source_kW_contribution_def Let_def)
  show "calculate_unused_dischg_kW (snd (calculate_source_kW_contribution c d)) =
      calculate_unused_dischg_kW d - fst (calculate_source_kW_contribution c d)"
    by (auto simp: calculate_source_kW_contribution_def Let_def calculate_unused_dischg_kW_def
        zero_check_def)
qed

text \<open>A contribution never lifts a command above the maximum potential.\<close>

lemma contribution_within_potential:
  assumes "kW_cmd d \<le> max_potential_kW d"
  shows "kW_cmd (snd (calculate_source_kW_contribution c d)) \<le> max_potential_kW d"
proof -
  have "fst (calculate_source_kW_contribution c d) \<le> max_potential_kW d - kW_cmd d"
    using src.contribution_le_unused [of c d] assms
    by (auto simp: calculate_unused_dischg_kW_def zero_check_def split: if_splits)
  then show ?thesis by (simp add: src.level_after)
qed

section \<open>Priority lists\<close>

text \<open>
  \<^verbatim>\<open>erase(find(..))\<close> of an element that is absent is undefined behaviour; every exclusion
  is one of the four asset types and occurs once in the list.
\<close>

fun remove_asset_types :: "asset_type list \<Rightarrow> asset_type list \<Rightarrow> asset_type list" where
  "remove_asset_types data_list [] = data_list"
| "remove_asset_types data_list (t # ts) = remove_asset_types (remove1 t data_list) ts"

definition basic_priority :: "int \<Rightarrow> asset_type list" where
  "basic_priority asset_priority =
     (if asset_priority = 0 then [SOLAR, GENERATORS, ESS, FEEDERS]
      else if asset_priority = 1 then [SOLAR, FEEDERS, ESS, GENERATORS]
      else if asset_priority = 2 then [GENERATORS, ESS, SOLAR, FEEDERS]
      else if asset_priority = 3 then [GENERATORS, SOLAR, ESS, FEEDERS]
      else if asset_priority = 4 then [ESS, SOLAR, GENERATORS, FEEDERS]
      else if asset_priority = 5 then [ESS, SOLAR, FEEDERS, GENERATORS]
      else if asset_priority = 6 then [SOLAR, GENERATORS, FEEDERS, ESS]
      else [SOLAR, GENERATORS, ESS, FEEDERS])"

definition list_assets_by_discharge_priority ::
    "int \<Rightarrow> asset_type list \<Rightarrow> asset_cmd_object \<Rightarrow> asset_type list" where
  "list_assets_by_discharge_priority asset_priority exclusions a =
     (let list_by_priority = remove_asset_types (basic_priority asset_priority) exclusions
      in filter (\<lambda>k. kW_request (data_of k a) > 0) list_by_priority @
         filter (\<lambda>k. kW_request (data_of k a) \<le> 0) list_by_priority)"

definition aggregate_unused_kW :: "asset_type list \<Rightarrow> asset_cmd_object \<Rightarrow> flt" where
  "aggregate_unused_kW data_list a =
     foldl (\<lambda>t k. t + calculate_unused_dischg_kW (data_of k a)) 0 data_list"

lemma basic_priority_set: "set (basic_priority p) = UNIV" "distinct (basic_priority p)"
  "length (basic_priority p) = 4"
  using asset_type.exhaust by (auto simp: basic_priority_def)

lemma remove_asset_types_set:
  "distinct xs \<Longrightarrow> set (remove_asset_types xs ts) = set xs - set ts \<and> distinct (remove_asset_types xs ts)"
  by (induction ts arbitrary: xs) auto

lemma list_assets_set:
  "set (list_assets_by_discharge_priority p ex a) = UNIV - set ex"
  using remove_asset_types_set [of "basic_priority p" ex] basic_priority_set
  by (auto simp: list_assets_by_discharge_priority_def Let_def)

lemma list_assets_distinct: "distinct (list_assets_by_discharge_priority p ex a)"
  using remove_asset_types_set [of "basic_priority p" ex] basic_priority_set
  by (auto simp: list_assets_by_discharge_priority_def Let_def)

lemma aggregate_unused_kW_eq:
  "aggregate_unused_kW ks a = sum_list (map (\<lambda>k. calculate_unused_dischg_kW (data_of k a)) ks)"
proof -
  have "foldl (\<lambda>t k. t + f k) c ks = c + sum_list (map f ks)" for f :: "asset_type \<Rightarrow> flt" and c
    by (induction ks arbitrary: c) auto
  then show ?thesis by (simp add: aggregate_unused_kW_def)
qed

lemma aggregate_unused_kW_nonneg: "0 \<le> aggregate_unused_kW ks a"
  by (simp add: aggregate_unused_kW_eq sum_list_nonneg_map unused_dischg_nonneg)

section \<open>Discharge dispatch\<close>

definition dispatch_one :: "discharge_type \<Rightarrow> asset_type \<Rightarrow> flt \<times> asset_cmd_object \<Rightarrow> flt \<times> asset_cmd_object"
where
  "dispatch_one command_type k = (\<lambda>(cmd, a).
     if k = FEEDERS \<and> command_type \<noteq> LOAD then (cmd, a)
     else if command_type = REQUESTS then
       if kW_request (data_of k a) > 0 then
         let asset_request = min (kW_request (data_of k a)) cmd;
             (c, d) = calculate_source_kW_contribution asset_request (data_of k a)
         in (cmd - c, put_data k d a)
       else (cmd, a)
     else let (c, d) = calculate_source_kW_contribution cmd (data_of k a)
          in (cmd - c, put_data k d a))"

definition dispatch_site_kW_discharge_cmd ::
    "int \<Rightarrow> flt \<Rightarrow> discharge_type \<Rightarrow> asset_cmd_object \<Rightarrow> flt \<times> asset_cmd_object" where
  "dispatch_site_kW_discharge_cmd asset_priority cmd command_type a =
     (if less_than_or_near cmd 0 (1 / 1000) then (0, a)
      else let asset_list = list_assets_by_discharge_priority asset_priority [] a;
               received_cmd = min (min cmd (site_kW_discharge_production a)) (aggregate_unused_kW asset_list a);
               (cmd, a) = fold (dispatch_one command_type) asset_list (received_cmd, a);
               a = a\<lparr>site_kW_discharge_production :=
                      site_kW_discharge_production a - (received_cmd - cmd)\<rparr>
           in (received_cmd - cmd, a))"

text \<open>
  What one asset type does in the loop: it takes a non-negative share of the remaining
  command, its own level rises by that share, and nothing else moves.
\<close>

definition takes :: "asset_type \<Rightarrow> flt \<Rightarrow> asset_cmd_object \<Rightarrow> flt \<Rightarrow> asset_cmd_object \<Rightarrow> bool" where
  "takes k cmd a cmd' a' \<longleftrightarrow>
     0 \<le> cmd - cmd' \<and> (0 \<le> cmd \<longrightarrow> 0 \<le> cmd') \<and>
     cmd - cmd' \<le> calculate_unused_dischg_kW (data_of k a) \<and>
     kW_cmd (data_of k a') = kW_cmd (data_of k a) + (cmd - cmd') \<and>
     max_potential_kW (data_of k a') = max_potential_kW (data_of k a) \<and>
     min_potential_kW (data_of k a') = min_potential_kW (data_of k a) \<and>
     calculate_unused_dischg_kW (data_of k a') = calculate_unused_dischg_kW (data_of k a) - (cmd - cmd') \<and>
     (\<forall>j. j \<noteq> k \<longrightarrow> data_of j a' = data_of j a) \<and>
     site_kW_discharge_production a' = site_kW_discharge_production a \<and>
     site_kW_charge_production a' = site_kW_charge_production a \<and>
     site_kW_demand a' = site_kW_demand a \<and>
     (kW_cmd (data_of k a) \<le> max_potential_kW (data_of k a) \<longrightarrow>
      kW_cmd (data_of k a') \<le> max_potential_kW (data_of k a'))"

lemma contribution_takes:
  assumes "c \<le> cmd" "calculate_source_kW_contribution c (data_of k a) = (x, d)"
  shows "takes k cmd a (cmd - x) (put_data k d a)"
proof -
  note eq = assms(2) [symmetric]
  have x: "x = fst (calculate_source_kW_contribution c (data_of k a))"
    and d: "d = snd (calculate_source_kW_contribution c (data_of k a))" by (simp_all add: assms(2))
  have "0 \<le> cmd \<longrightarrow> x \<le> cmd"
    using src.contribution_le [of c "data_of k a"] assms(1) src.contribution [of c "data_of k a"]
    by (auto simp: x)
  moreover have "kW_cmd (data_of k a) \<le> max_potential_kW (data_of k a) \<longrightarrow> kW_cmd d \<le> max_potential_kW d"
    unfolding d by (auto simp: frame_simps intro: contribution_within_potential)
  ultimately show ?thesis
    using src.contribution_nonneg [of c "data_of k a"] src.contribution_le_unused [of c "data_of k a"]
      src.level_after [of c "data_of k a"] src.unused_after [of c "data_of k a"]
      contribution_frame [of c "data_of k a"]
    by (simp add: takes_def acs.get_put_same acs.get_put_other frame_simps flip: x d)
qed

lemma takes_refl: "takes k cmd a cmd a"
  by (simp add: takes_def unused_dischg_nonneg)

lemma dispatch_one_takes:
  "takes k cmd a (fst (dispatch_one t k (cmd, a))) (snd (dispatch_one t k (cmd, a)))"
proof -
  let ?r = "calculate_source_kW_contribution (min (kW_request (data_of k a)) cmd) (data_of k a)"
  let ?q = "calculate_source_kW_contribution cmd (data_of k a)"
  have "takes k cmd a (cmd - fst ?r) (put_data k (snd ?r) a)" by (rule contribution_takes) simp_all
  moreover have "takes k cmd a (cmd - fst ?q) (put_data k (snd ?q) a)" by (rule contribution_takes) simp_all
  ultimately show ?thesis by (simp add: dispatch_one_def takes_refl Let_def split_beta)
qed

definition total_kW :: "asset_type list \<Rightarrow> asset_cmd_object \<Rightarrow> flt" where
  "total_kW ks a = sum_list (map (\<lambda>k. kW_cmd (data_of k a)) ks)"

definition within_potentials :: "asset_cmd_object \<Rightarrow> bool" where
  "within_potentials a \<longleftrightarrow> (\<forall>k. kW_cmd (data_of k a) \<le> max_potential_kW (data_of k a))"

abbreviation all_assets :: "asset_type list" where
  "all_assets \<equiv> [ESS, FEEDERS, GENERATORS, SOLAR]"

lemma set_all_assets: "set all_assets = UNIV"
  using asset_type.exhaust by auto

text \<open>The effect of any number of shares, closed under composition.\<close>

definition delivers :: "flt \<Rightarrow> asset_cmd_object \<Rightarrow> flt \<Rightarrow> asset_cmd_object \<Rightarrow> bool" where
  "delivers cmd a cmd' a' \<longleftrightarrow>
     0 \<le> cmd - cmd' \<and> (0 \<le> cmd \<longrightarrow> 0 \<le> cmd') \<and>
     total_kW all_assets a' = total_kW all_assets a + (cmd - cmd') \<and>
     (\<forall>k. kW_cmd (data_of k a) \<le> kW_cmd (data_of k a')) \<and>
     (\<forall>k. max_potential_kW (data_of k a') = max_potential_kW (data_of k a)) \<and>
     (\<forall>k. min_potential_kW (data_of k a') = min_potential_kW (data_of k a)) \<and>
     (within_potentials a \<longrightarrow> within_potentials a') \<and>
     site_kW_discharge_production a' = site_kW_discharge_production a \<and>
     site_kW_charge_production a' = site_kW_charge_production a \<and>
     site_kW_demand a' = site_kW_demand a"

lemma takes_delivers:
  assumes "takes k cmd a cmd' a'"
  shows "delivers cmd a cmd' a'"
proof -
  have other: "data_of j a' = data_of j a" if "j \<noteq> k" for j using assms that by (simp add: takes_def)
  have kW: "kW_cmd (data_of j a') = kW_cmd (data_of j a) + (if j = k then cmd - cmd' else 0)" for j
    using assms other by (cases "j = k") (simp_all add: takes_def)
  have "total_kW all_assets a' = total_kW all_assets a + (cmd - cmd')"
    by (cases k) (simp_all add: total_kW_def kW del: data_of.simps)
  moreover have J: "kW_cmd (data_of j a) \<le> kW_cmd (data_of j a') \<and>
      max_potential_kW (data_of j a') = max_potential_kW (data_of j a) \<and>
      min_potential_kW (data_of j a') = min_potential_kW (data_of j a) \<and>
      (kW_cmd (data_of j a) \<le> max_potential_kW (data_of j a) \<longrightarrow>
       kW_cmd (data_of j a') \<le> max_potential_kW (data_of j a'))" for j
    using assms other by (cases "j = k") (auto simp: takes_def)
  moreover have "within_potentials a \<longrightarrow> within_potentials a'"
    unfolding within_potentials_def using J by blast
  ultimately show ?thesis using assms by (simp add: delivers_def takes_def)
qed

lemma delivers_refl: "delivers cmd a cmd a"
  by (simp add: delivers_def)

lemma delivers_trans: "delivers c a c' a' \<Longrightarrow> delivers c' a' c'' a'' \<Longrightarrow> delivers c a c'' a''"
proof -
  assume 1: "delivers c a c' a'" and 2: "delivers c' a' c'' a''"
  have "kW_cmd (data_of k a) \<le> kW_cmd (data_of k a'')" for k
    using 1 2 order_trans unfolding delivers_def by blast
  with 1 2 show ?thesis by (simp add: delivers_def)
qed

lemma fold_dispatch_delivers:
  "delivers cmd a (fst (fold (dispatch_one t) ks (cmd, a))) (snd (fold (dispatch_one t) ks (cmd, a)))"
proof (induction ks arbitrary: cmd a)
  case (Cons k ks)
  show ?case
    using delivers_trans [OF takes_delivers [OF dispatch_one_takes [of k cmd a t]]
        Cons.IH [of "fst (dispatch_one t k (cmd, a))" "snd (dispatch_one t k (cmd, a))"]]
    by simp
qed (simp add: delivers_refl)

text \<open>
  How much the loop leaves over: a command for load is taken by every asset type up to its
  unused power, one for demand by every type but the feeders.
\<close>

definition serves :: "discharge_type \<Rightarrow> asset_type \<Rightarrow> bool" where
  "serves t k \<longleftrightarrow> t = LOAD \<or> t = DEMAND \<and> k \<noteq> FEEDERS"

lemma fold_dispatch_remainder:
  assumes "distinct ks" "0 \<le> cmd" "t \<noteq> REQUESTS"
  shows "fst (fold (dispatch_one t) ks (cmd, a)) =
    max 0 (cmd - sum_list (map (\<lambda>k. calculate_unused_dischg_kW (data_of k a)) (filter (serves t) ks)))"
  using assms(1,2)
proof (induction ks arbitrary: cmd a)
  case (Cons k ks)
  let ?u = "\<lambda>a k. calculate_unused_dischg_kW (data_of k a)"
  define r where "r = dispatch_one t k (cmd, a)"
  have tk: "takes k cmd a (fst r) (snd r)" unfolding r_def by (rule dispatch_one_takes)
  have "data_of j (snd r) = data_of j a" if "j \<in> set ks" for j
    using tk Cons.prems that by (auto simp: takes_def)
  then have same: "map (?u (snd r)) (filter (serves t) ks) = map (?u a) (filter (serves t) ks)" by auto
  have fst_r: "fst r = (if serves t k then max 0 (cmd - ?u a k) else cmd)"
    using assms(3) Cons.prems(2) src.contribution [of cmd "data_of k a"] unused_dischg_nonneg [of "data_of k a"]
    by (cases t) (auto simp: r_def dispatch_one_def Let_def split_beta serves_def)
  have nn: "0 \<le> sum_list (map (?u a) (filter (serves t) ks))"
    by (intro sum_list_nonneg_map unused_dischg_nonneg)
  have "fold (dispatch_one t) (k # ks) (cmd, a) = fold (dispatch_one t) ks (fst r, snd r)"
    by (simp add: r_def)
  also have "fst \<dots> = max 0 (fst r - sum_list (map (?u (snd r)) (filter (serves t) ks)))"
    using Cons.prems tk by (intro Cons.IH) (auto simp: takes_def)
  finally show ?case
    using nn Cons.prems(2) unused_dischg_nonneg [of "data_of k a"] by (auto simp: same fst_r max_def)
qed simp

lemma dispatch_discharge_cases:
  fixes a cmd p t
  defines "ks \<equiv> list_assets_by_discharge_priority p [] a"
  defines "rc \<equiv> min (min cmd (site_kW_discharge_production a)) (aggregate_unused_kW ks a)"
  assumes "\<not> less_than_or_near cmd 0 (1 / 1000)"
  shows "dispatch_site_kW_discharge_cmd p cmd t a =
    (rc - fst (fold (dispatch_one t) ks (rc, a)),
     (snd (fold (dispatch_one t) ks (rc, a)))\<lparr>site_kW_discharge_production :=
        site_kW_discharge_production a - (rc - fst (fold (dispatch_one t) ks (rc, a)))\<rparr>)"
  using assms(3) fold_dispatch_delivers [of rc a t ks]
  by (simp add: dispatch_site_kW_discharge_cmd_def Let_def split_beta delivers_def flip: ks_def rc_def)

section \<open>Charge dispatch\<close>

text \<open>
  The loop that moves power from the sources to the ESS: it stops once the request is
  satisfied and skips a source with nothing to give.
\<close>

definition charge_step :: "asset_type \<Rightarrow> flt \<Rightarrow> asset_cmd_object \<Rightarrow> asset_cmd_object" where
  "charge_step k contribution a =
     (let a = a\<lparr>ess_data := (ess_data a)\<lparr>kW_cmd := kW_cmd (ess_data a) - contribution\<rparr>\<rparr>
      in put_data k ((data_of k a)\<lparr>kW_cmd := kW_cmd (data_of k a) + contribution\<rparr>) a)"

fun charge_loop :: "asset_type list \<Rightarrow> flt \<Rightarrow> asset_cmd_object \<Rightarrow> asset_cmd_object" where
  "charge_loop [] remainder a = a"
| "charge_loop (k # ks) remainder a =
     (if remainder \<le> 0 then a
      else let contribution = min remainder (calculate_unused_dischg_kW (data_of k a)) in
        if contribution \<le> 0 then charge_loop ks remainder a
        else charge_loop ks (remainder - contribution) (charge_step k contribution a))"

definition charge_exclusions :: "bool \<Rightarrow> bool \<Rightarrow> bool \<Rightarrow> asset_type list" where
  "charge_exclusions solar_source_flag gen_source_flag feeder_source_flag =
     [ESS] @ (if \<not> solar_source_flag then [SOLAR] else []) @
     (if \<not> gen_source_flag then [GENERATORS] else []) @
     (if \<not> feeder_source_flag then [FEEDERS] else [])"

definition dispatch_site_kW_charge_cmd ::
    "int \<Rightarrow> bool \<Rightarrow> bool \<Rightarrow> bool \<Rightarrow> asset_cmd_object \<Rightarrow> flt \<times> asset_cmd_object" where
  "dispatch_site_kW_charge_cmd asset_priority solar_source_flag gen_source_flag feeder_source_flag a =
     (if kW_cmd (ess_data a) > 0 \<or> min_potential_kW (ess_data a) \<ge> 0 \<or> site_kW_charge_production a \<ge> 0
      then (0, a\<lparr>site_kW_demand := site_kW_demand a - less_than_zero_check (site_kW_charge_production a),
                 site_kW_charge_production := 0,
                 ess_data := (ess_data a)\<lparr>kW_request :=
                   kW_request (ess_data a) - less_than_zero_check (kW_request (ess_data a))\<rparr>\<rparr>)
      else
        let old_ess_cmd = kW_cmd (ess_data a);
            exclusions = charge_exclusions solar_source_flag gen_source_flag feeder_source_flag;
            asset_list = list_assets_by_discharge_priority asset_priority exclusions a;
            ess_limited_request = min (zero_check (-1 * site_kW_charge_production a))
                                      (zero_check (-1 * calculate_unused_charge_kW (ess_data a)));
            dispatch_charge_remainder = min ess_limited_request (aggregate_unused_kW asset_list a);
            a = a\<lparr>site_kW_charge_production := site_kW_charge_production a + dispatch_charge_remainder,
                  site_kW_discharge_production := site_kW_discharge_production a - ess_limited_request,
                  site_kW_demand := site_kW_demand a + (ess_limited_request - dispatch_charge_remainder)\<rparr>;
            a = charge_loop asset_list dispatch_charge_remainder a
        in (kW_cmd (ess_data a) - old_ess_cmd, a))"

text \<open>
  The loop conserves power: whatever the sources give, the ESS takes, so the sum over the
  four types does not move; and it takes exactly the smaller of the request and what the
  sources have unused.
\<close>

lemma charge_step_data:
  "k \<noteq> ESS \<Longrightarrow> data_of j (charge_step k c a) =
     (if j = ESS then (data_of ESS a)\<lparr>kW_cmd := kW_cmd (data_of ESS a) - c\<rparr>
      else if j = k then (data_of k a)\<lparr>kW_cmd := kW_cmd (data_of k a) + c\<rparr> else data_of j a)"
  by (cases k; cases j) (simp_all add: charge_step_def)

lemma charge_loop_ess:
  assumes "distinct ks" "ESS \<notin> set ks" "0 \<le> r"
  shows "kW_cmd (ess_data (charge_loop ks r a)) = kW_cmd (ess_data a) -
     min r (sum_list (map (\<lambda>k. calculate_unused_dischg_kW (data_of k a)) ks))"
  using assms
proof (induction ks arbitrary: r a)
  case (Cons k ks)
  let ?u = "\<lambda>a k. calculate_unused_dischg_kW (data_of k a)"
  define c where "c = min r (?u a k)"
  have nn: "0 \<le> ?u a k" "0 \<le> sum_list (map (?u a) ks)"
    by (simp_all add: unused_dischg_nonneg sum_list_nonneg_map)
  show ?case
  proof (cases "r \<le> 0 \<or> c \<le> 0")
    case True
    then show ?thesis using Cons nn by (auto simp: c_def min_def split: if_splits)
  next
    case False
    define a' where "a' = charge_step k c a"
    have "map (?u a') ks = map (?u a) ks" using Cons.prems by (auto simp: a'_def charge_step_data)
    then have "sum_list (map (?u a') ks) = sum_list (map (?u a) ks)" by (rule arg_cong)
    moreover have "kW_cmd (ess_data a') = kW_cmd (ess_data a) - c"
      using charge_step_data [of k ESS c a] Cons.prems by (auto simp: a'_def)
    moreover have "kW_cmd (ess_data (charge_loop ks (r - c) a')) =
        kW_cmd (ess_data a') - min (r - c) (sum_list (map (?u a') ks))"
      using Cons.prems by (intro Cons.IH) (auto simp: c_def)
    moreover have "charge_loop (k # ks) r a = charge_loop ks (r - c) a'"
      using False by (simp add: Let_def c_def a'_def)
    ultimately show ?thesis using nn by (simp add: c_def min_def)
  qed
qed simp

text \<open>What every iteration of the loop keeps.\<close>

definition shifts :: "asset_cmd_object \<Rightarrow> asset_cmd_object \<Rightarrow> bool" where
  "shifts a a' \<longleftrightarrow> total_kW all_assets a' = total_kW all_assets a \<and>
     (\<forall>k. k \<noteq> ESS \<longrightarrow> kW_cmd (data_of k a) \<le> kW_cmd (data_of k a')) \<and>
     (\<forall>k. max_potential_kW (data_of k a') = max_potential_kW (data_of k a) \<and>
          min_potential_kW (data_of k a') = min_potential_kW (data_of k a) \<and>
          kW_request (data_of k a') = kW_request (data_of k a)) \<and>
     site_kW_discharge_production a' = site_kW_discharge_production a \<and>
     (within_potentials a \<longrightarrow> within_potentials a')"

lemma shifts_refl: "shifts a a"
  by (simp add: shifts_def)

lemma shifts_trans: "shifts a b \<Longrightarrow> shifts b c \<Longrightarrow> shifts a c"
  unfolding shifts_def by (metis order_trans)

lemma charge_step_shifts:
  assumes "k \<noteq> ESS" "0 < c" "c \<le> calculate_unused_dischg_kW (data_of k a)"
  shows "shifts a (charge_step k c a)"
proof -
  note data = charge_step_data [OF assms(1), of _ c a]
  have "total_kW all_assets (charge_step k c a) = total_kW all_assets a"
    using assms(1) by (cases k) (simp_all add: total_kW_def charge_step_def)
  moreover have "kW_cmd (data_of k a) + c \<le> max_potential_kW (data_of k a)"
    using assms(2,3) by (auto simp: calculate_unused_dischg_kW_def zero_check_def split: if_splits)
  then have "within_potentials (charge_step k c a)" if "within_potentials a"
  proof -
    have "kW_cmd (ess_data a) - c \<le> max_potential_kW (ess_data a)"
      using that [unfolded within_potentials_def, THEN spec, of ESS] assms(2) by simp
    with that \<open>_ + c \<le> _\<close> show ?thesis by (auto simp: within_potentials_def data)
  qed
  moreover have "site_kW_discharge_production (charge_step k c a) = site_kW_discharge_production a"
    by (simp add: charge_step_def Let_def frame_simps)
  ultimately show ?thesis using assms by (auto simp: shifts_def data)
qed

lemma charge_loop_shifts: "ESS \<notin> set ks \<Longrightarrow> shifts a (charge_loop ks r a)"
proof (induction ks arbitrary: r a)
  case (Cons k ks)
  let ?c = "min r (calculate_unused_dischg_kW (data_of k a))"
  have step: "shifts a (charge_loop ks (r - ?c) (charge_step k ?c a))" if "0 < ?c"
  proof (rule shifts_trans)
    show "shifts a (charge_step k ?c a)" using Cons.prems that by (intro charge_step_shifts) auto
    show "shifts (charge_step k ?c a) (charge_loop ks (r - ?c) (charge_step k ?c a))"
      using Cons.prems by (intro Cons.IH) auto
  qed
  have skip: "shifts a (charge_loop ks r a)" using Cons.prems by (intro Cons.IH) auto
  consider "r \<le> 0" | "0 < r" "?c \<le> 0" | "0 < r" "0 < ?c" by linarith
  then show ?case
  proof cases
    case 2
    then have "charge_loop (k # ks) r a = charge_loop ks r a"
      by (auto simp: Let_def min_def split: if_splits)
    with skip show ?thesis by simp
  next
    case 3
    then have "charge_loop (k # ks) r a = charge_loop ks (r - ?c) (charge_step k ?c a)"
      by (simp add: Let_def)
    with step 3 show ?thesis by simp
  qed (simp add: shifts_refl)
qed (simp add: shifts_refl)

section \<open>Demand and load\<close>

definition get_site_kW_load_inclusion :: "asset_cmd_object \<Rightarrow> bool" where
  "get_site_kW_load_inclusion a \<longleftrightarrow> load_method a \<noteq> NO_COMPENSATION"

definition calculate_net_poi_export :: "asset_cmd_object \<Rightarrow> flt" where
  "calculate_net_poi_export a = kW_cmd (ess_data a) + kW_cmd (gen_data a) + kW_cmd (solar_data a) +
     kW_cmd (feeder_data a) - c_bool (get_site_kW_load_inclusion a) * site_kW_load a"

text \<open>
  The rolling average.  The buffer is indexed without a check: \<open>None\<close> when the position is
  outside it, or when the buffer is empty and the division has no finite result.
\<close>

definition calculate_site_kW_load :: "asset_cmd_object \<Rightarrow> asset_cmd_object option" where
  "calculate_site_kW_load a =
     (if load_iterator a < length (load_buffer a) then
        let buf = (load_buffer a)[load_iterator a := actual_kW (ess_data a) + actual_kW (gen_data a) +
                    actual_kW (solar_data a) + actual_kW (feeder_data a)]
        in Some (a\<lparr>load_buffer := buf, load_iterator := (load_iterator a + 1) mod length buf,
             site_kW_load := foldl (+) 0 buf / of_nat (length buf), load_method := NO_COMPENSATION\<rparr>)
      else None)"

definition create_site_kW_load_buffer :: "nat \<Rightarrow> asset_cmd_object \<Rightarrow> asset_cmd_object" where
  "create_site_kW_load_buffer size' a =
     a\<lparr>load_buffer := replicate (if size' = 0 then 1 else size') 0, load_iterator := 0\<rparr>"

definition set_load_compensation_method :: "load_compensation \<Rightarrow> asset_cmd_object \<Rightarrow> asset_cmd_object" where
  "set_load_compensation_method m a = a\<lparr>load_method := m\<rparr>"

definition calculate_additional_load_compensation ::
    "load_compensation \<Rightarrow> flt \<Rightarrow> flt \<Rightarrow> flt \<Rightarrow> flt \<Rightarrow> flt \<Rightarrow> flt" where
  "calculate_additional_load_compensation meth load demand ess_req gen_req solar_req =
     (if meth = NO_COMPENSATION then 0
      else if meth = LOAD_OFFSET then load
      else let feature_discharge_request =
                 zero_check demand + zero_check ess_req + zero_check gen_req + zero_check solar_req
           in zero_check (load - feature_discharge_request))"

text \<open>
  The slewed load.  Only a site demand of zero is guarded; an unslewed demand of zero makes
  the divisor zero and the result infinite or NaN: \<open>None\<close>.
\<close>

definition track_slewed_load ::
    "load_compensation \<Rightarrow> flt \<Rightarrow> flt \<Rightarrow> flt \<Rightarrow> slew_object \<Rightarrow> flt option" where
  "track_slewed_load meth demand unslewed_demand addl feature_slew =
     (if meth = NO_COMPENSATION then Some addl
      else if demand = 0 then Some (min addl (slew_max_value feature_slew))
      else let slew_divisor = \<bar>unslewed_demand / demand\<bar> in fdiv addl slew_divisor)"

definition calculate_site_kW_production_limits ::
    "flt \<Rightarrow> flt \<Rightarrow> flt \<Rightarrow> load_compensation \<Rightarrow> flt \<Rightarrow> flt \<Rightarrow> flt \<Rightarrow> flt \<times> flt" where
  "calculate_site_kW_production_limits ess_req gen_req solar_req meth addl feature_demand demand =
     (let requested_discharge = zero_check ess_req + zero_check gen_req + zero_check solar_req;
          requested_discharge = (if meth = LOAD_MINIMUM then requested_discharge + addl
                                 else requested_discharge);
          charge = less_than_zero_check (feature_demand - requested_discharge);
          discharge = zero_check (feature_demand - charge);
          standalone_modification = demand - feature_demand;
          (sign_change, charge, discharge) =
            (if feature_demand < 0 \<or> feature_demand = 0 \<and> standalone_modification < 0
             then (zero_check (charge + standalone_modification),
                   less_than_zero_check (charge + standalone_modification), discharge)
             else (less_than_zero_check (discharge + standalone_modification), charge,
                   zero_check (discharge + standalone_modification)))
      in if sign_change < 0 then (charge + sign_change, discharge)
         else if sign_change > 0 then (charge, discharge + sign_change)
         else (charge, discharge))"

definition production_limits_of :: "asset_cmd_object \<Rightarrow> flt \<times> flt" where
  "production_limits_of a = calculate_site_kW_production_limits (kW_request (ess_data a))
     (kW_request (gen_data a)) (kW_request (solar_data a)) (load_method a)
     (additional_load_compensation a) (feature_kW_demand a) (site_kW_demand a)"

definition set_production_limits :: "asset_cmd_object \<Rightarrow> asset_cmd_object" where
  "set_production_limits a = a\<lparr>site_kW_charge_production := fst (production_limits_of a),
     site_kW_discharge_production := snd (production_limits_of a)\<rparr>"

fun ess_load_loop :: "asset_type list \<Rightarrow> flt \<Rightarrow> asset_cmd_object \<Rightarrow> bool \<times> asset_cmd_object" where
  "ess_load_loop [] uncompensated a = (False, a)"
| "ess_load_loop (k # ks) uncompensated a =
     (if uncompensated \<le> 0 then (False, a)
      else let uncompensated = uncompensated - calculate_unused_dischg_kW (data_of k a) in
        if k = ESS then
          let a = set_production_limits a;
              a = a\<lparr>feature_kW_demand := feature_kW_demand a - less_than_zero_check (site_kW_charge_production a)\<rparr>;
              a = a\<lparr>site_kW_demand := site_kW_demand a - less_than_zero_check (site_kW_charge_production a)\<rparr>;
              a = a\<lparr>ess_data := (ess_data a)\<lparr>kW_request := 0\<rparr>\<rparr>
          in (True, a)
        else ess_load_loop ks uncompensated a)"

definition determine_ess_load_requirement :: "int \<Rightarrow> asset_cmd_object \<Rightarrow> bool \<times> asset_cmd_object" where
  "determine_ess_load_requirement asset_priority a =
     (let a = set_production_limits a in
      if load_method a \<noteq> LOAD_MINIMUM \<or> kW_request (ess_data a) \<ge> 0 \<and> site_kW_charge_production a \<ge> 0
      then (False, a)
      else ess_load_loop (list_assets_by_discharge_priority asset_priority [] a) (site_kW_load a) a)"

definition calculate_feature_kW_demand :: "int \<Rightarrow> asset_cmd_object \<Rightarrow> asset_cmd_object" where
  "calculate_feature_kW_demand asset_priority a =
     (let a = a\<lparr>site_kW_demand := site_kW_demand a +
            (kW_request (ess_data a) + kW_request (gen_data a) + kW_request (solar_data a))\<rparr>;
          a = a\<lparr>feature_kW_demand := site_kW_demand a\<rparr>
      in snd (determine_ess_load_requirement asset_priority a))"

definition preserve_uncorrected_site_kW_demand :: "asset_cmd_object \<Rightarrow> asset_cmd_object" where
  "preserve_uncorrected_site_kW_demand a = a\<lparr>uncorrected_site_kW_demand := site_kW_demand a\<rparr>"

section \<open>Limits, saving and resetting\<close>

definition get_limited_kW_cmd :: "asset_cmd_data \<Rightarrow> flt" where
  "get_limited_kW_cmd d = range_check (kW_cmd d) (max_potential_kW d) (min_potential_kW d)"

definition get_limited_ess_kW_cmd :: "asset_cmd_object \<Rightarrow> flt" where
  "get_limited_ess_kW_cmd a = get_limited_kW_cmd (ess_data a)"

definition get_limited_feeder_kW_cmd :: "asset_cmd_object \<Rightarrow> flt" where
  "get_limited_feeder_kW_cmd a = get_limited_kW_cmd (feeder_data a)"

definition get_limited_gen_kW_cmd :: "asset_cmd_object \<Rightarrow> flt" where
  "get_limited_gen_kW_cmd a = get_limited_kW_cmd (gen_data a)"

definition get_limited_solar_kW_cmd :: "asset_cmd_object \<Rightarrow> flt" where
  "get_limited_solar_kW_cmd a = get_limited_kW_cmd (solar_data a)"

definition get_total_available_charge_kW :: "asset_cmd_object \<Rightarrow> flt" where
  "get_total_available_charge_kW a =
     less_than_zero_check (min_potential_kW (ess_data a) - less_than_zero_check (kW_cmd (ess_data a)))"

definition get_total_available_discharge_kW :: "asset_cmd_object \<Rightarrow> flt" where
  "get_total_available_discharge_kW a = calculate_unused_dischg_kW (ess_data a) +
     calculate_unused_dischg_kW (gen_data a) + calculate_unused_dischg_kW (solar_data a)"

definition get_total_available_charge_kVAR :: "asset_cmd_object \<Rightarrow> flt" where
  "get_total_available_charge_kVAR a =
     less_than_zero_check (-1 * potential_kVAR (ess_data a) - less_than_zero_check (kVAR_cmd (ess_data a))) +
     less_than_zero_check (-1 * potential_kVAR (solar_data a) - less_than_zero_check (kVAR_cmd (solar_data a)))"

definition get_total_available_discharge_kVAR :: "asset_cmd_object \<Rightarrow> flt" where
  "get_total_available_discharge_kVAR a =
     zero_check (potential_kVAR (ess_data a) - zero_check (kVAR_cmd (ess_data a))) +
     zero_check (potential_kVAR (solar_data a) - zero_check (kVAR_cmd (solar_data a)))"

definition save_one :: "asset_type \<Rightarrow> asset_cmd_object \<Rightarrow> asset_cmd_object" where
  "save_one k a = put_data k ((data_of k a)\<lparr>saved_kW_request := kW_request (data_of k a),
     saved_kW_cmd := kW_cmd (data_of k a)\<rparr>) a"

definition save_state :: "asset_cmd_object \<Rightarrow> asset_cmd_object" where
  "save_state a = fold save_one (list_assets_by_discharge_priority 0 [] a) a"

definition restore_one :: "asset_type \<Rightarrow> asset_cmd_object \<Rightarrow> asset_cmd_object" where
  "restore_one k a = put_data k ((data_of k a)\<lparr>kW_request := saved_kW_request (data_of k a),
     kW_cmd := saved_kW_cmd (data_of k a)\<rparr>) a"

definition restore_state :: "asset_cmd_object \<Rightarrow> asset_cmd_object" where
  "restore_state a = fold restore_one (list_assets_by_discharge_priority 0 [] a) a"

definition reset_kW_dispatch :: "asset_cmd_object \<Rightarrow> asset_cmd_object" where
  "reset_kW_dispatch a = a\<lparr>
     ess_data := (ess_data a)\<lparr>kW_cmd := 0, kW_request := 0\<rparr>,
     feeder_data := (feeder_data a)\<lparr>kW_cmd := 0\<rparr>,
     gen_data := (gen_data a)\<lparr>kW_cmd := 0, kW_request := 0\<rparr>,
     solar_data := (solar_data a)\<lparr>kW_cmd := 0, kW_request := 0\<rparr>,
     site_kW_demand := 0, feature_kW_demand := 0,
     site_kW_charge_production := 0, site_kW_discharge_production := 0\<rparr>"

definition reset_kVAR_dispatch :: "asset_cmd_object \<Rightarrow> asset_cmd_object" where
  "reset_kVAR_dispatch a = a\<lparr>
     ess_data := (ess_data a)\<lparr>kVAR_cmd := 0\<rparr>, gen_data := (gen_data a)\<lparr>kVAR_cmd := 0\<rparr>,
     solar_data := (solar_data a)\<lparr>kVAR_cmd := 0\<rparr>\<rparr>"

section \<open>Reactive power\<close>

definition calculate_total_potential_kVAR :: "asset_cmd_object \<Rightarrow> asset_cmd_object" where
  "calculate_total_potential_kVAR a = a\<lparr>total_potential_kVAR :=
     potential_kVAR (ess_data a) + potential_kVAR (gen_data a) + potential_kVAR (solar_data a)\<rparr>"

definition dispatch_reactive_power :: "asset_cmd_object \<Rightarrow> asset_cmd_object" where
  "dispatch_reactive_power a =
     (if total_potential_kVAR a = 0 \<or> site_kVAR_demand a = 0 then a
      else let percent_cmd = (if site_kVAR_demand a < 0 then -1 else 1);
               percent_cmd = (if total_potential_kVAR a > \<bar>site_kVAR_demand a\<bar>
                              then percent_cmd * (\<bar>site_kVAR_demand a\<bar> / total_potential_kVAR a)
                              else percent_cmd)
           in a\<lparr>ess_data := (ess_data a)\<lparr>kVAR_cmd := percent_cmd * potential_kVAR (ess_data a)\<rparr>,
                solar_data := (solar_data a)\<lparr>kVAR_cmd := percent_cmd * potential_kVAR (solar_data a)\<rparr>,
                gen_data := (gen_data a)\<lparr>kVAR_cmd := percent_cmd * potential_kVAR (gen_data a)\<rparr>\<rparr>)"

section \<open>Lemmas for the properties\<close>

lemma sum_list_all: "sum_list (map f (list_assets_by_discharge_priority p [] a)) = sum_list (map f all_assets)"
  for f :: "asset_type \<Rightarrow> flt"
proof -
  have "set (list_assets_by_discharge_priority p [] a) = set all_assets"
    by (simp only: list_assets_set set_all_assets) simp
  then show ?thesis
    using sum_list_distinct_conv_sum_set [OF list_assets_distinct, of f p "[]" a]
      sum_list_distinct_conv_sum_set [of all_assets f] by simp
qed

lemma sum_list_filter_all:
  "sum_list (map f (filter P (list_assets_by_discharge_priority p [] a))) = sum_list (map f (filter P all_assets))"
  for f :: "asset_type \<Rightarrow> flt"
proof -
  have "set (filter P (list_assets_by_discharge_priority p [] a)) = set (filter P all_assets)"
    by (simp only: set_filter list_assets_set set_all_assets) simp
  moreover have "distinct (filter P (list_assets_by_discharge_priority p [] a))"
    by (simp add: list_assets_distinct)
  moreover have "distinct (filter P all_assets)" by simp
  ultimately show ?thesis by (metis sum_list_distinct_conv_sum_set)
qed

text \<open>The aggregate of unused discharge power over the whole site.\<close>

definition site_unused_kW :: "asset_cmd_object \<Rightarrow> flt" where
  "site_unused_kW a = sum_list (map (\<lambda>k. calculate_unused_dischg_kW (data_of k a)) all_assets)"

lemma aggregate_unused_site: "aggregate_unused_kW (list_assets_by_discharge_priority p [] a) a = site_unused_kW a"
  by (simp only: aggregate_unused_kW_eq sum_list_all site_unused_kW_def)

lemma site_unused_nonneg: "0 \<le> site_unused_kW a"
  unfolding site_unused_kW_def by (intro sum_list_nonneg_map unused_dischg_nonneg)

lemma not_near_pos: "\<not> less_than_or_near cmd 0 (1 / 1000) \<Longrightarrow> 1 / 1000 \<le> cmd"
  by (auto simp: less_than_or_near_def near_def)

lemma dispatch_discharge_delivers:
  assumes "\<not> less_than_or_near cmd 0 (1 / 1000)"
    and "dispatch_site_kW_discharge_cmd p cmd t a = (x, a')"
  defines "rc \<equiv> min (min cmd (site_kW_discharge_production a)) (site_unused_kW a)"
  shows "\<exists>b. delivers rc a (rc - x) b \<and>
    a' = b\<lparr>site_kW_discharge_production := site_kW_discharge_production a - x\<rparr>"
proof -
  let ?ks = "list_assets_by_discharge_priority p [] a"
  let ?f = "fold (dispatch_one t) ?ks (rc, a)"
  have "(x, a') = (rc - fst ?f, (snd ?f)\<lparr>site_kW_discharge_production := site_kW_discharge_production a - (rc - fst ?f)\<rparr>)"
    using dispatch_discharge_cases [OF assms(1), of p t a] assms(2) by (simp add: rc_def aggregate_unused_site)
  with fold_dispatch_delivers [of rc a t ?ks] show ?thesis
    by (intro exI [of _ "snd ?f"]) simp
qed

lemma within_potentials_frame [simp]:
  "within_potentials (a\<lparr>site_kW_discharge_production := x\<rparr>) = within_potentials a"
  "total_kW ks (a\<lparr>site_kW_discharge_production := x\<rparr>) = total_kW ks a"
  by (simp_all add: within_potentials_def total_kW_def frame_simps)

lemma dispatch_discharge_amount:
  assumes "t \<noteq> REQUESTS" "\<not> less_than_or_near cmd 0 (1 / 1000)" "0 \<le> site_kW_discharge_production a"
  defines "rc \<equiv> min (min cmd (site_kW_discharge_production a)) (site_unused_kW a)"
  shows "fst (dispatch_site_kW_discharge_cmd p cmd t a) =
    min rc (sum_list (map (\<lambda>k. calculate_unused_dischg_kW (data_of k a)) (filter (serves t) all_assets)))"
proof -
  have rc: "0 \<le> rc"
    using not_near_pos [OF assms(2)] assms(3) site_unused_nonneg [of a] by (simp add: rc_def)
  have "fst (dispatch_site_kW_discharge_cmd p cmd t a) =
      rc - fst (fold (dispatch_one t) (list_assets_by_discharge_priority p [] a) (rc, a))"
    using dispatch_discharge_cases [OF assms(2), of p t a] by (simp add: rc_def aggregate_unused_site)
  also have "fst (fold (dispatch_one t) (list_assets_by_discharge_priority p [] a) (rc, a)) =
      max 0 (rc - sum_list (map (\<lambda>k. calculate_unused_dischg_kW (data_of k a)) (filter (serves t) all_assets)))"
    using fold_dispatch_remainder [OF list_assets_distinct rc assms(1), of p "[]" a a]
    by (simp only: sum_list_filter_all)
  finally show ?thesis by simp
qed

lemma production_limits_sum:
  assumes "meth = LOAD_MINIMUM \<Longrightarrow> 0 \<le> addl"
    and "calculate_site_kW_production_limits e g s meth addl f d = (c, x)"
  shows "c \<le> 0 \<and> 0 \<le> x \<and> c + x = d"
proof -
  define r where "r = zero_check e + zero_check g + zero_check s + (if meth = LOAD_MINIMUM then addl else 0)"
  have r: "0 \<le> r" using assms(1) by (auto simp: r_def)
  have eq: "(if meth = LOAD_MINIMUM then zero_check e + zero_check g + zero_check s + addl
      else zero_check e + zero_check g + zero_check s) = r" by (simp add: r_def)
  show ?thesis
    using assms(2) r unfolding calculate_site_kW_production_limits_def Let_def eq
    by (auto simp: less_than_zero_check_def zero_check_def split: if_splits)
qed

lemma charge_dispatch_active:
  assumes "kW_cmd (ess_data a) \<le> 0" "min_potential_kW (ess_data a) < 0" "site_kW_charge_production a < 0"
    "min_potential_kW (ess_data a) \<le> kW_cmd (ess_data a)"
    "dispatch_site_kW_charge_cmd p sf gf ff a = (x, a')"
  defines "req \<equiv> min (- site_kW_charge_production a) (kW_cmd (ess_data a) - min_potential_kW (ess_data a))"
    and "ks \<equiv> list_assets_by_discharge_priority p (charge_exclusions sf gf ff) a"
  shows "x = - min req (aggregate_unused_kW ks a) \<and> total_kW all_assets a' = total_kW all_assets a \<and>
    (within_potentials a \<longrightarrow> within_potentials a') \<and> kW_cmd (ess_data a') = kW_cmd (ess_data a) + x \<and>
    site_kW_discharge_production a' = site_kW_discharge_production a - req \<and>
    (\<forall>k. k \<noteq> ESS \<longrightarrow> kW_cmd (data_of k a) \<le> kW_cmd (data_of k a')) \<and>
    (\<forall>k. max_potential_kW (data_of k a') = max_potential_kW (data_of k a) \<and>
         min_potential_kW (data_of k a') = min_potential_kW (data_of k a))"
proof -
  define b where "b = a\<lparr>site_kW_charge_production := site_kW_charge_production a + min req (aggregate_unused_kW ks a),
    site_kW_discharge_production := site_kW_discharge_production a - req,
    site_kW_demand := site_kW_demand a + (req - min req (aggregate_unused_kW ks a))\<rparr>"
  have d: "data_of k b = data_of k a" for k by (simp add: b_def frame_simps)
  have req: "min (zero_check (- site_kW_charge_production a)) (zero_check (- calculate_unused_charge_kW (ess_data a))) = req"
    using assms(1-4) by (simp add: req_def calculate_unused_charge_kW_def zero_check_def less_than_zero_check_def)
  have "0 \<le> req" using assms(3,4) by (simp add: req_def)
  then have r: "0 \<le> min req (aggregate_unused_kW ks a)" by (simp add: aggregate_unused_kW_nonneg)
  have res: "x = kW_cmd (ess_data (charge_loop ks (min req (aggregate_unused_kW ks a)) b)) - kW_cmd (ess_data a)"
    "a' = charge_loop ks (min req (aggregate_unused_kW ks a)) b"
    using assms(1,2,3,5)
    unfolding dispatch_site_kW_charge_cmd_def Let_def
    by (auto simp: req b_def simp del: zero_check_id simp flip: ks_def)
  have ess: "ESS \<notin> set ks" by (simp add: ks_def list_assets_set charge_exclusions_def)
  have "distinct ks" by (simp add: ks_def list_assets_distinct)
  moreover have "ess_data b = ess_data a" by (simp add: b_def)
  ultimately have "x = - min req (aggregate_unused_kW ks a)" 
    using charge_loop_ess [of ks "min req (aggregate_unused_kW ks a)" b] ess r
    by (simp add: res d flip: aggregate_unused_kW_eq)
  moreover have "total_kW all_assets b = total_kW all_assets a" "within_potentials b = within_potentials a"
    by (simp_all only: total_kW_def within_potentials_def d)
  moreover have "site_kW_discharge_production b = site_kW_discharge_production a - req" by (simp add: b_def)
  ultimately show ?thesis
    using charge_loop_shifts [OF ess, of b "min req (aggregate_unused_kW ks a)"] res d by (simp add: shifts_def)
qed

lemma fold_put_data:
  assumes "distinct ks"
  shows "data_of j (fold (\<lambda>k a. put_data k (f (data_of k a)) a) ks a) =
    (if j \<in> set ks then f (data_of j a) else data_of j a)"
  using assms by (induction ks arbitrary: a) (auto simp: acs.get_put)

lemma save_state_data: "data_of k (save_state a) =
    (data_of k a)\<lparr>saved_kW_request := kW_request (data_of k a), saved_kW_cmd := kW_cmd (data_of k a)\<rparr>"
proof -
  define sv where "sv = (\<lambda>d :: asset_cmd_data. d\<lparr>saved_kW_request := kW_request d, saved_kW_cmd := kW_cmd d\<rparr>)"
  have eq: "save_one = (\<lambda>k a. put_data k (sv (data_of k a)) a)"
    by (simp add: fun_eq_iff save_one_def sv_def)
  show ?thesis
    unfolding save_state_def eq fold_put_data [where f = sv, OF list_assets_distinct] list_assets_set
    by (simp add: sv_def)
qed

lemma restore_state_data: "data_of k (restore_state a) =
    (data_of k a)\<lparr>kW_request := saved_kW_request (data_of k a), kW_cmd := saved_kW_cmd (data_of k a)\<rparr>"
proof -
  define sv where "sv = (\<lambda>d :: asset_cmd_data. d\<lparr>kW_request := saved_kW_request d, kW_cmd := saved_kW_cmd d\<rparr>)"
  have eq: "restore_one = (\<lambda>k a. put_data k (sv (data_of k a)) a)"
    by (simp add: fun_eq_iff restore_one_def sv_def)
  show ?thesis
    unfolding restore_state_def eq fold_put_data [where f = sv, OF list_assets_distinct] list_assets_set
    by (simp add: sv_def)
qed

lemma foldl_plus: "foldl (+) (c::flt) xs = c + sum_list xs"
  by (induction xs arbitrary: c) auto

lemma average_bounds:
  assumes "xs \<noteq> []" "\<And>x. x \<in> set xs \<Longrightarrow> lo \<le> x \<and> x \<le> (hi::flt)"
  shows "lo \<le> foldl (+) 0 xs / of_nat (length xs) \<and> foldl (+) 0 xs / of_nat (length xs) \<le> hi"
proof -
  have "of_nat (length xs) * lo \<le> sum_list xs \<and> sum_list xs \<le> of_nat (length xs) * hi"
    using assms(2) by (induction xs) (auto simp: algebra_simps intro: add_mono)
  with assms(1) show ?thesis by (simp add: foldl_plus field_simps)
qed

lemma ess_load_loop_true:
  assumes "ess_load_loop ks u a = (True, a')"
  shows "a' = (let b = set_production_limits a in
     b\<lparr>feature_kW_demand := feature_kW_demand b - less_than_zero_check (site_kW_charge_production b),
       site_kW_demand := site_kW_demand b - less_than_zero_check (site_kW_charge_production b),
       ess_data := (ess_data b)\<lparr>kW_request := 0\<rparr>\<rparr>)"
  using assms by (induction ks u a rule: ess_load_loop.induct) (auto simp: Let_def split: if_splits)

lemma discharge_dispatch_effect:
  assumes "0 \<le> site_kW_discharge_production a"
    and "dispatch_site_kW_discharge_cmd p cmd t a = (x, a')"
  shows "0 \<le> x \<and> x \<le> max 0 cmd \<and> x \<le> site_kW_discharge_production a \<and>
    total_kW all_assets a' = total_kW all_assets a + x \<and>
    site_kW_discharge_production a' = site_kW_discharge_production a - x \<and>
    (\<forall>k. kW_cmd (data_of k a) \<le> kW_cmd (data_of k a')) \<and>
    (within_potentials a \<longrightarrow> within_potentials a') \<and>
    (\<forall>k. max_potential_kW (data_of k a') = max_potential_kW (data_of k a) \<and>
         min_potential_kW (data_of k a') = min_potential_kW (data_of k a))"
proof (cases "less_than_or_near cmd 0 (1 / 1000)")
  case True
  with assms show ?thesis by (simp add: dispatch_site_kW_discharge_cmd_def)
next
  case False
  let ?rc = "min (min cmd (site_kW_discharge_production a)) (site_unused_kW a)"
  from dispatch_discharge_delivers [OF False assms(2)] obtain b where
    "delivers ?rc a (?rc - x) b" "a' = b\<lparr>site_kW_discharge_production := site_kW_discharge_production a - x\<rparr>"
    by blast
  moreover have "0 \<le> ?rc" using not_near_pos [OF False] assms(1) site_unused_nonneg [of a] by simp
  ultimately show ?thesis using not_near_pos [OF False] by (auto simp: delivers_def frame_simps)
qed

text \<open>
  What a charge dispatch keeps, whether or not it charges: the site total, the potentials, the
  lower limit of the ESS; it never raises the discharge production.
\<close>

lemma charge_dispatch_effect:
  assumes "dispatch_site_kW_charge_cmd p sf gf ff a = (x, a')"
    and "min_potential_kW (ess_data a) \<le> kW_cmd (ess_data a)"
  shows "x \<le> 0 \<and> total_kW all_assets a' = total_kW all_assets a \<and>
    site_kW_discharge_production a' \<le> site_kW_discharge_production a \<and>
    min_potential_kW (ess_data a) \<le> kW_cmd (ess_data a') \<and>
    (\<forall>k. k \<noteq> ESS \<longrightarrow> kW_cmd (data_of k a) \<le> kW_cmd (data_of k a')) \<and>
    (within_potentials a \<longrightarrow> within_potentials a') \<and>
    (\<forall>k. max_potential_kW (data_of k a') = max_potential_kW (data_of k a) \<and>
         min_potential_kW (data_of k a') = min_potential_kW (data_of k a))"
proof (cases "kW_cmd (ess_data a) > 0 \<or> min_potential_kW (ess_data a) \<ge> 0 \<or> site_kW_charge_production a \<ge> 0")
  case True
  then have x: "x = 0" and a': "a' = a\<lparr>site_kW_demand := site_kW_demand a - less_than_zero_check (site_kW_charge_production a),
      site_kW_charge_production := 0,
      ess_data := (ess_data a)\<lparr>kW_request := kW_request (ess_data a) - less_than_zero_check (kW_request (ess_data a))\<rparr>\<rparr>"
    using assms(1) by (auto simp: dispatch_site_kW_charge_cmd_def)
  have d: "kW_cmd (data_of k a') = kW_cmd (data_of k a)" "max_potential_kW (data_of k a') = max_potential_kW (data_of k a)"
      "min_potential_kW (data_of k a') = min_potential_kW (data_of k a)" for k
    by (cases k; simp add: a')+
  then show ?thesis using assms(2) x by (simp add: total_kW_def within_potentials_def) (simp add: a')
next
  case False
  then have "kW_cmd (ess_data a) \<le> 0" "min_potential_kW (ess_data a) < 0" "site_kW_charge_production a < 0" by auto
  note c = charge_dispatch_active [OF this assms(2,1)]
  then have "x \<le> 0" "- x \<le> kW_cmd (ess_data a) - min_potential_kW (ess_data a)"
    using assms(2) aggregate_unused_kW_nonneg \<open>site_kW_charge_production a < 0\<close> by (auto simp: min_def)
  moreover have "0 \<le> min (- site_kW_charge_production a) (kW_cmd (ess_data a) - min_potential_kW (ess_data a))"
    using assms(2) \<open>site_kW_charge_production a < 0\<close> by simp
  ultimately show ?thesis using c by auto
qed

section \<open>Properties of the dispatcher\<close>

text \<open>C26. Discharge dispatch conserves power and respects its caps: the amount it reports is
  non-negative, at most the command and at most the remaining discharge production; the
  commands of the four asset types rise by exactly that amount in total and none of them
  falls; the discharge production shrinks by it; and no command passes the maximum potential
  of its asset type if none did before.\<close>

theorem discharge_dispatch_conserves:
  assumes "0 \<le> site_kW_discharge_production a"
    and "dispatch_site_kW_discharge_cmd p cmd t a = (x, a')"
  shows "0 \<le> x \<and> x \<le> max 0 cmd \<and> x \<le> site_kW_discharge_production a \<and>
    total_kW all_assets a' = total_kW all_assets a + x \<and>
    site_kW_discharge_production a' = site_kW_discharge_production a - x \<and>
    (\<forall>k. kW_cmd (data_of k a) \<le> kW_cmd (data_of k a')) \<and>
    (within_potentials a \<longrightarrow> within_potentials a')"
  using discharge_dispatch_effect [OF assms] by blast

text \<open>Dispatching for load uses every asset type as far as it goes: a command above the
  1 W dead zone is served in full, up to the discharge production and the power the site has
  unused.\<close>

theorem load_dispatch_complete:
  assumes "0 \<le> site_kW_discharge_production a" "1 / 1000 \<le> cmd"
  shows "fst (dispatch_site_kW_discharge_cmd p cmd LOAD a) =
    min (min cmd (site_kW_discharge_production a)) (site_unused_kW a)"
proof -
  have "\<not> less_than_or_near cmd 0 (1 / 1000)" using assms(2) by (simp add: less_than_or_near_def near_def)
  from dispatch_discharge_amount [OF _ this assms(1), of LOAD p] show ?thesis
    by (simp add: serves_def site_unused_kW_def)
qed

text \<open>Dispatching a plain demand never draws on the feeders: what is served is additionally
  capped by the unused power of the ESS, the generators and the solar assets.\<close>

theorem demand_dispatch_amount:
  assumes "0 \<le> site_kW_discharge_production a" "1 / 1000 \<le> cmd"
  shows "fst (dispatch_site_kW_discharge_cmd p cmd DEMAND a) =
    min (min (min cmd (site_kW_discharge_production a)) (site_unused_kW a)) (get_total_available_discharge_kW a)"
proof -
  have "\<not> less_than_or_near cmd 0 (1 / 1000)" using assms(2) by (simp add: less_than_or_near_def near_def)
  from dispatch_discharge_amount [OF _ this assms(1), of DEMAND p] show ?thesis
    by (simp add: serves_def get_total_available_discharge_kW_def add.assoc)
qed

text \<open>Charge dispatch moves power between the assets and never changes the site total: the ESS
  takes exactly the smaller of the charge requested, the charge the ESS can still accept and
  the unused power of the permitted sources; the ESS stays above its minimum potential and no
  source passes its maximum.\<close>

theorem charge_dispatch_exact:
  assumes "kW_cmd (ess_data a) \<le> 0" "min_potential_kW (ess_data a) < 0" "site_kW_charge_production a < 0"
    and "min_potential_kW (ess_data a) \<le> kW_cmd (ess_data a)" "within_potentials a"
    and "dispatch_site_kW_charge_cmd p sf gf ff a = (x, a')"
  shows "x = - min (min (- site_kW_charge_production a) (kW_cmd (ess_data a) - min_potential_kW (ess_data a)))
                   (aggregate_unused_kW (list_assets_by_discharge_priority p (charge_exclusions sf gf ff) a) a) \<and>
    total_kW all_assets a' = total_kW all_assets a \<and> within_potentials a' \<and>
    min_potential_kW (ess_data a) \<le> kW_cmd (ess_data a')"
proof -
  note c = charge_dispatch_active [OF assms(1-4,6)]
  then have "kW_cmd (ess_data a') = kW_cmd (ess_data a) + x" by blast
  moreover have "- x \<le> kW_cmd (ess_data a) - min_potential_kW (ess_data a)" using c by simp
  ultimately have "min_potential_kW (ess_data a) \<le> kW_cmd (ess_data a')" by simp
  with c assms(5) show ?thesis by blast
qed

text \<open>The charge and discharge production limits split the site demand: one is never positive,
  the other never negative, and together they are the demand, whatever the standalone features
  changed about it.\<close>

theorem production_limits_split_demand:
  assumes "meth = LOAD_MINIMUM \<longrightarrow> 0 \<le> addl"
  shows "case calculate_site_kW_production_limits e g s meth addl f d of
    (c, x) \<Rightarrow> c \<le> 0 \<and> 0 \<le> x \<and> c + x = d"
  using production_limits_sum [of meth addl e g s f d] assms by (auto split: prod.splits)

text \<open>When the ESS is found to be needed for load, its charge request is dropped and the charge
  is taken out of the site demand, which becomes exactly the discharge production.\<close>

theorem ess_load_requirement_removes_charge:
  assumes "determine_ess_load_requirement p a = (True, a')" "0 \<le> additional_load_compensation a"
  shows "kW_request (ess_data a') = 0 \<and> site_kW_demand a' = site_kW_discharge_production a' \<and>
    0 \<le> site_kW_demand a'"
proof -
  let ?b = "set_production_limits (set_production_limits a)"
  have "ess_load_loop (list_assets_by_discharge_priority p [] (set_production_limits a))
      (site_kW_load (set_production_limits a)) (set_production_limits a) = (True, a')"
    using assms(1) by (auto simp: determine_ess_load_requirement_def Let_def split: if_splits)
  note eq = ess_load_loop_true [OF this]
  have p: "production_limits_of (set_production_limits a) = production_limits_of a"
    by (simp add: production_limits_of_def set_production_limits_def)
  obtain c x where cx: "production_limits_of a = (c, x)" by force
  have "c \<le> 0 \<and> 0 \<le> x \<and> c + x = site_kW_demand a"
    using production_limits_sum [OF _ cx [unfolded production_limits_of_def]] assms(2) by blast
  then show ?thesis
    by (simp add: eq Let_def set_production_limits_def [of "set_production_limits a"] p cx)
       (simp add: set_production_limits_def cx)
qed

text \<open>Reactive dispatch delivers the demand clamped to the potential: after the potential has
  been totalled, the three commands add up to the site's kVAR demand limited to plus or minus
  the total potential.\<close>

theorem reactive_dispatch_total:
  assumes "0 \<le> potential_kVAR (ess_data a)" "0 \<le> potential_kVAR (gen_data a)" "0 \<le> potential_kVAR (solar_data a)"
    and "site_kVAR_demand a \<noteq> 0" "0 < potential_kVAR (ess_data a) + potential_kVAR (gen_data a) + potential_kVAR (solar_data a)"
  defines "b \<equiv> calculate_total_potential_kVAR a"
  shows "kVAR_cmd (ess_data (dispatch_reactive_power b)) + kVAR_cmd (gen_data (dispatch_reactive_power b)) +
      kVAR_cmd (solar_data (dispatch_reactive_power b)) =
    range_check (site_kVAR_demand a) (total_potential_kVAR b) (- total_potential_kVAR b)"
proof -
  define t where "t = potential_kVAR (ess_data a) + potential_kVAR (gen_data a) + potential_kVAR (solar_data a)"
  define q where "q = (if site_kVAR_demand a < 0 then -1 else 1) *
    (if t > \<bar>site_kVAR_demand a\<bar> then \<bar>site_kVAR_demand a\<bar> / t else 1)"
  have t: "0 < t" "total_potential_kVAR b = t" using assms(5) by (simp_all add: t_def b_def calculate_total_potential_kVAR_def)
  have "kVAR_cmd (ess_data (dispatch_reactive_power b)) + kVAR_cmd (gen_data (dispatch_reactive_power b)) +
      kVAR_cmd (solar_data (dispatch_reactive_power b)) = q * t"
    using t assms(4) by (simp add: dispatch_reactive_power_def b_def calculate_total_potential_kVAR_def
        Let_def q_def t_def algebra_simps)
  also have "q * t = range_check (site_kVAR_demand a) t (- t)"
    using t(1) assms(4) by (auto simp: q_def range_check_def abs_if)
  finally show ?thesis by (simp add: t)
qed

text \<open>The rolling load average is safe once the buffer has been created: the position stays
  inside the buffer, whose size never changes, and the average lies between any bounds that
  hold for the new sample and the samples already in the buffer.\<close>

theorem site_load_average_bounded:
  assumes "load_iterator a < length (load_buffer a)"
    and "\<forall>x \<in> set (load_buffer a). lo \<le> x \<and> x \<le> hi"
    and "lo \<le> actual_kW (ess_data a) + actual_kW (gen_data a) + actual_kW (solar_data a) + actual_kW (feeder_data a)"
    and "actual_kW (ess_data a) + actual_kW (gen_data a) + actual_kW (solar_data a) + actual_kW (feeder_data a) \<le> hi"
  shows "\<exists>a'. calculate_site_kW_load a = Some a' \<and> load_iterator a' < length (load_buffer a') \<and>
    length (load_buffer a') = length (load_buffer a) \<and> lo \<le> site_kW_load a' \<and> site_kW_load a' \<le> hi"
proof -
  let ?s = "actual_kW (ess_data a) + actual_kW (gen_data a) + actual_kW (solar_data a) + actual_kW (feeder_data a)"
  let ?buf = "(load_buffer a)[load_iterator a := ?s]"
  have "lo \<le> x \<and> x \<le> hi" if "x \<in> set ?buf" for x
    using that assms(2-4) set_update_subset_insert [of "load_buffer a" "load_iterator a" ?s] by auto
  then have "lo \<le> foldl (+) 0 ?buf / of_nat (length ?buf) \<and> foldl (+) 0 ?buf / of_nat (length ?buf) \<le> hi"
    using assms(1) by (intro average_bounds) auto
  moreover have "(load_iterator a + 1) mod length (load_buffer a) < length (load_buffer a)"
    using assms(1) by (intro mod_less_divisor) linarith
  ultimately show ?thesis using assms(1)
    by (simp add: calculate_site_kW_load_def Let_def)
qed

text \<open>C39. Restoring a saved state brings back every asset's request and command, whatever was
  dispatched in between, as long as the saved copies were not overwritten.\<close>

theorem restore_after_save:
  assumes "\<forall>k. saved_kW_request (data_of k b) = saved_kW_request (data_of k (save_state a)) \<and>
               saved_kW_cmd (data_of k b) = saved_kW_cmd (data_of k (save_state a))"
  shows "kW_request (data_of k (restore_state b)) = kW_request (data_of k a) \<and>
    kW_cmd (data_of k (restore_state b)) = kW_cmd (data_of k a)"
  using assms by (simp add: restore_state_data save_state_data)

text \<open>With load as a minimum, the additional compensation tops the feature's own discharge up to
  the load and is never more than what is missing.\<close>

theorem load_minimum_compensation:
  "let c = calculate_additional_load_compensation LOAD_MINIMUM load demand e g s;
       own = zero_check demand + zero_check e + zero_check g + zero_check s
   in 0 \<le> c \<and> own + c = max own load"
  by (simp add: calculate_additional_load_compensation_def zero_check_def Let_def)

text \<open>Tracking slewed load has no finite result exactly when compensation is on, the slewed
  demand is not zero and the unslewed demand is: the guard in the code tests the wrong operand
  of the quotient.\<close>

theorem track_slewed_load_undefined_iff:
  "track_slewed_load meth demand unslewed addl s = None \<longleftrightarrow>
     meth \<noteq> NO_COMPENSATION \<and> demand \<noteq> 0 \<and> unslewed = 0"
  by (auto simp: track_slewed_load_def Let_def)

section \<open>A concrete site\<close>

definition demo_data :: "flt \<Rightarrow> flt \<Rightarrow> flt \<Rightarrow> asset_cmd_data" where
  "demo_data cmd lo hi = \<lparr>kW_request = 0, saved_kW_request = 0, kW_cmd = cmd, saved_kW_cmd = 0,
     actual_kW = 0, start_first_kW = 0, start_first_flag = False, auto_restart_flag = True,
     min_potential_kW = lo, max_potential_kW = hi, kVAR_cmd = 0, actual_kVAR = 0, potential_kVAR = 10\<rparr>"

definition demo_site :: asset_cmd_object where
  "demo_site = \<lparr>ess_data = demo_data 0 (-100) 100, feeder_data = demo_data 0 0 50,
     gen_data = demo_data 0 0 30, solar_data = demo_data 5 0 20, poi_cmd = 0, site_kW_load = 0,
     load_buffer = [0, 0], load_iterator = 0, load_method = LOAD_MINIMUM,
     additional_load_compensation = 0, feature_kW_demand = -40, site_kW_demand = -40,
     uncorrected_site_kW_demand = 0, site_kVAR_demand = 15, total_potential_kVAR = 0,
     site_kW_charge_production = -40, site_kW_discharge_production = 60\<rparr>"

lemma within_potentials_simp:
  "within_potentials a \<longleftrightarrow> kW_cmd (ess_data a) \<le> max_potential_kW (ess_data a) \<and>
     kW_cmd (feeder_data a) \<le> max_potential_kW (feeder_data a) \<and>
     kW_cmd (gen_data a) \<le> max_potential_kW (gen_data a) \<and>
     kW_cmd (solar_data a) \<le> max_potential_kW (solar_data a)"
proof -
  have "(\<forall>k. P k) \<longleftrightarrow> P ESS \<and> P FEEDERS \<and> P GENERATORS \<and> P SOLAR" for P
    using asset_type.exhaust by metis
  then show ?thesis by (simp add: within_potentials_def)
qed

lemmas demo_defs = demo_site_def demo_data_def

theorem discharge_dispatch_conserves_witness:
  "0 \<le> site_kW_discharge_production demo_site \<and>
   (let r = dispatch_site_kW_discharge_cmd 0 45 LOAD demo_site
    in 0 \<le> fst r \<and> fst r \<le> max 0 45 \<and> total_kW all_assets (snd r) = total_kW all_assets demo_site + fst r \<and>
       within_potentials (snd r))"
proof -
  have h: "0 \<le> site_kW_discharge_production demo_site" "within_potentials demo_site"
    by (simp_all add: within_potentials_simp demo_defs)
  show ?thesis
    unfolding Let_def
    using h discharge_dispatch_conserves [OF h(1) prod.collapse [symmetric], of 0 45 LOAD] by blast
qed

theorem load_dispatch_complete_witness:
  "fst (dispatch_site_kW_discharge_cmd 0 45 LOAD demo_site) = 45"
  using load_dispatch_complete [of demo_site 45 0]
  by (simp add: demo_defs site_unused_kW_def calculate_unused_dischg_kW_def)

theorem demand_dispatch_amount_witness:
  "fst (dispatch_site_kW_discharge_cmd 0 45 DEMAND demo_site) = 45"
  using demand_dispatch_amount [of demo_site 45 0]
  by (simp add: demo_defs site_unused_kW_def calculate_unused_dischg_kW_def get_total_available_discharge_kW_def)

theorem charge_dispatch_exact_witness:
  "fst (dispatch_site_kW_charge_cmd 0 True True False demo_site) = -40 \<and>
   total_kW all_assets (snd (dispatch_site_kW_charge_cmd 0 True True False demo_site)) = total_kW all_assets demo_site"
  using charge_dispatch_exact [of demo_site 0 True True False
      "fst (dispatch_site_kW_charge_cmd 0 True True False demo_site)"
      "snd (dispatch_site_kW_charge_cmd 0 True True False demo_site)"]
  by (simp add: demo_defs within_potentials_simp list_assets_by_discharge_priority_def basic_priority_def
      charge_exclusions_def aggregate_unused_kW_def calculate_unused_dischg_kW_def)

theorem production_limits_split_demand_witness:
  "case calculate_site_kW_production_limits 10 (-5) 20 LOAD_MINIMUM 7 (-30) (-50) of
    (c, x) \<Rightarrow> c \<le> 0 \<and> 0 \<le> x \<and> c + x = -50"
  using production_limits_split_demand [where meth = LOAD_MINIMUM and addl = 7 and
      e = 10 and g = "-5" and s = 20 and f = "-30" and d = "-50"] by simp

theorem ess_load_requirement_removes_charge_witness:
  "let a = demo_site\<lparr>site_kW_load := 60\<rparr>; r = determine_ess_load_requirement 4 a
   in fst r \<and> kW_request (ess_data (snd r)) = 0 \<and>
      site_kW_demand (snd r) = site_kW_discharge_production (snd r)"
proof -
  let ?a = "demo_site\<lparr>site_kW_load := 60\<rparr>"
  have f: "fst (determine_ess_load_requirement 4 ?a)"
    by (simp add: determine_ess_load_requirement_def Let_def demo_defs set_production_limits_def
        production_limits_of_def calculate_site_kW_production_limits_def
        list_assets_by_discharge_priority_def basic_priority_def calculate_unused_dischg_kW_def utils_defs)
  then show ?thesis
    using ess_load_requirement_removes_charge [of 4 ?a "snd (determine_ess_load_requirement 4 ?a)"]
    by (cases "determine_ess_load_requirement 4 ?a") (simp add: Let_def demo_defs)
qed

theorem reactive_dispatch_total_witness:
  "kVAR_cmd (ess_data (dispatch_reactive_power (calculate_total_potential_kVAR demo_site))) +
   kVAR_cmd (gen_data (dispatch_reactive_power (calculate_total_potential_kVAR demo_site))) +
   kVAR_cmd (solar_data (dispatch_reactive_power (calculate_total_potential_kVAR demo_site))) = 15"
  using reactive_dispatch_total [of demo_site]
  by (simp add: demo_defs range_check_def calculate_total_potential_kVAR_def)

theorem site_load_average_bounded_witness:
  "\<exists>a'. calculate_site_kW_load demo_site = Some a' \<and> length (load_buffer a') = 2 \<and> site_kW_load a' \<le> 1"
  using site_load_average_bounded [of demo_site 0 1] by (auto simp: demo_defs)

theorem restore_after_save_witness:
  "kW_cmd (solar_data (restore_state (save_state demo_site))) = 5"
  using restore_after_save [of "save_state demo_site" demo_site SOLAR] by (simp add: demo_defs)

end
