(* ===== verification/Features.thy ===== *)
theory Features
  imports Asset_Cmd Values
begin

text \<open>
  \<^verbatim>\<open>Features/Feature.cpp\<close>: the base class of the site features.  The FIMS variables of a
  feature are the members a \<^verbatim>\<open>Fims_Object*\<close> can point to; a feature class gives them as a
  datatype of variable names, and \<open>vars\<close> is the member a name stands for.  A derived class
  is a record that extends \<open>feature\<close> with its own state (slew objects, regulators, curves).
  The input source list the variables point to is an argument of the SET operations.
\<close>

section \<open>The base class\<close>

record 'v feature =
  available :: bool
  vars :: "'v \<Rightarrow> fims_object"

definition fval :: "'v \<Rightarrow> ('v, 'm) feature_scheme \<Rightarrow> flt" where
  "fval v f = value_float (fo_value (vars f v))"

definition ival :: "'v \<Rightarrow> ('v, 'm) feature_scheme \<Rightarrow> int" where
  "ival v f = value_int (fo_value (vars f v))"

definition bval :: "'v \<Rightarrow> ('v, 'm) feature_scheme \<Rightarrow> bool" where
  "bval v f = value_bool (fo_value (vars f v))"

definition upd_var :: "'v \<Rightarrow> (fims_object \<Rightarrow> fims_object) \<Rightarrow> ('v, 'm) feature_scheme \<Rightarrow> ('v, 'm) feature_scheme" where
  "upd_var v g f = f\<lparr>vars := (vars f)(v := g (vars f v))\<rparr>"

text \<open>\<^verbatim>\<open>var.value.set(x)\<close> and assignments to one field of the value.\<close>

definition store_float :: "'v \<Rightarrow> flt \<Rightarrow> ('v, 'm) feature_scheme \<Rightarrow> ('v, 'm) feature_scheme" where
  "store_float v x f = upd_var v (\<lambda>fo. fo\<lparr>fo_value := set_float x (fo_value fo)\<rparr>) f"

definition store_int :: "'v \<Rightarrow> int \<Rightarrow> ('v, 'm) feature_scheme \<Rightarrow> ('v, 'm) feature_scheme" where
  "store_int v x f = upd_var v (\<lambda>fo. fo\<lparr>fo_value := set_int x (fo_value fo)\<rparr>) f"

definition store_bool :: "'v \<Rightarrow> bool \<Rightarrow> ('v, 'm) feature_scheme \<Rightarrow> ('v, 'm) feature_scheme" where
  "store_bool v x f = upd_var v (\<lambda>fo. fo\<lparr>fo_value := set_bool x (fo_value fo)\<rparr>) f"

definition assign_float :: "'v \<Rightarrow> flt \<Rightarrow> ('v, 'm) feature_scheme \<Rightarrow> ('v, 'm) feature_scheme" where
  "assign_float v x f = upd_var v (\<lambda>fo. fo\<lparr>fo_value := (fo_value fo)\<lparr>value_float := x\<rparr>\<rparr>) f"

definition assign_int :: "'v \<Rightarrow> int \<Rightarrow> ('v, 'm) feature_scheme \<Rightarrow> ('v, 'm) feature_scheme" where
  "assign_int v x f = upd_var v (\<lambda>fo. fo\<lparr>fo_value := (fo_value fo)\<lparr>value_int := x\<rparr>\<rparr>) f"

definition assign_bool :: "'v \<Rightarrow> bool \<Rightarrow> ('v, 'm) feature_scheme \<Rightarrow> ('v, 'm) feature_scheme" where
  "assign_bool v x f = upd_var v (\<lambda>fo. fo\<lparr>fo_value := (fo_value fo)\<lparr>value_bool := x\<rparr>\<rparr>) f"

text \<open>\<^verbatim>\<open>var.set_fims_float(endpoint, x)\<close> with its result ignored, and the result alone.\<close>

definition put_float :: "input_source_list \<Rightarrow> string \<Rightarrow> 'v \<Rightarrow> flt \<Rightarrow> ('v, 'm) feature_scheme \<Rightarrow> ('v, 'm) feature_scheme" where
  "put_float srcs e v x f = upd_var v (\<lambda>fo. snd (set_fims_float srcs e x fo)) f"

definition put_int :: "input_source_list \<Rightarrow> string \<Rightarrow> 'v \<Rightarrow> int \<Rightarrow> ('v, 'm) feature_scheme \<Rightarrow> ('v, 'm) feature_scheme" where
  "put_int srcs e v x f = upd_var v (\<lambda>fo. snd (set_fims_int srcs e x fo)) f"

definition put_bool :: "input_source_list \<Rightarrow> string \<Rightarrow> 'v \<Rightarrow> bool \<Rightarrow> ('v, 'm) feature_scheme \<Rightarrow> ('v, 'm) feature_scheme" where
  "put_bool srcs e v x f = upd_var v (\<lambda>fo. snd (set_fims_bool srcs e x fo)) f"

definition hits :: "input_source_list \<Rightarrow> string \<Rightarrow> fims_object \<Rightarrow> bool" where
  "hits srcs e fo = fst (fims_set id srcs e fo)"

definition toggle_ui_enabled :: "'v list \<Rightarrow> bool \<Rightarrow> ('v, 'm) feature_scheme \<Rightarrow> ('v, 'm) feature_scheme" where
  "toggle_ui_enabled feature_vars flag f =
     fold (\<lambda>v. upd_var v (\<lambda>fo. fo\<lparr>ui_enabled := flag\<rparr>)) feature_vars f"

definition get_variable_ids_list :: "('v \<times> string) list \<Rightarrow> string list" where
  "get_variable_ids_list variable_ids = map snd variable_ids"

named_theorems feature_ops \<open>how the feature operations act on the variables\<close>

lemmas [feature_ops] = upd_var_def store_float_def store_int_def store_bool_def assign_float_def
  assign_int_def assign_bool_def put_float_def put_int_def put_bool_def fval_def ival_def bval_def

lemma vals_upd_var:
  "fval w (upd_var v g f) = (if w = v then value_float (fo_value (g (vars f v))) else fval w f)"
  "ival w (upd_var v g f) = (if w = v then value_int (fo_value (g (vars f v))) else ival w f)"
  "bval w (upd_var v g f) = (if w = v then value_bool (fo_value (g (vars f v))) else bval w f)"
  by (simp_all add: upd_var_def fval_def ival_def bval_def)

lemma vals_store [simp]:
  "fval w (store_float v x f) = (if w = v then x else fval w f)"
  "ival w (store_float v x f) = (if w = v then c_trunc x else ival w f)"
  "bval w (store_float v x f) = bval w f"
  "fval w (store_int v i f) = (if w = v then of_int i else fval w f)"
  "ival w (store_int v i f) = (if w = v then i else ival w f)"
  "bval w (store_int v i f) = bval w f"
  "fval w (store_bool v b f) = fval w f" "ival w (store_bool v b f) = ival w f"
  "bval w (store_bool v b f) = (if w = v then b else bval w f)"
  "fval w (assign_float v x f) = (if w = v then x else fval w f)"
  "ival w (assign_float v x f) = ival w f" "bval w (assign_float v x f) = bval w f"
  "fval w (assign_int v i f) = fval w f" "ival w (assign_int v i f) = (if w = v then i else ival w f)"
  "bval w (assign_int v i f) = bval w f"
  "fval w (assign_bool v b f) = fval w f" "ival w (assign_bool v b f) = ival w f"
  "bval w (assign_bool v b f) = (if w = v then b else bval w f)"
  by (simp_all add: store_float_def store_int_def store_bool_def assign_float_def assign_int_def
      assign_bool_def vals_upd_var set_float_def set_int_def set_bool_def)
   (simp_all add: fval_def ival_def bval_def)

lemma more_upd_var [simp]:
  "feature.more (upd_var v g f) = feature.more f" "available (upd_var v g f) = available f"
  by (simp_all add: upd_var_def)

lemma more_store [simp]:
  "feature.more (store_float v x f) = feature.more f" "feature.more (store_int v i f) = feature.more f"
  "feature.more (store_bool v b f) = feature.more f" "feature.more (assign_float v x f) = feature.more f"
  "feature.more (assign_int v i f) = feature.more f" "feature.more (assign_bool v b f) = feature.more f"
  by (simp_all add: store_float_def store_int_def store_bool_def assign_float_def assign_int_def assign_bool_def)

lemma hits_upd: "fst (fims_set upd srcs e fo) = hits srcs e fo"
  by (simp add: hits_def fims_set_def Let_def split: option.splits)

lemma toggle_ui_enabled_var:
  "vars (toggle_ui_enabled vs flag f) v = (if v \<in> set vs then (vars f v)\<lparr>ui_enabled := flag\<rparr> else vars f v)"
proof (induction vs arbitrary: f)
  case (Cons w vs)
  show ?case unfolding toggle_ui_enabled_def fold_simps comp_apply
    using Cons [of "upd_var w (\<lambda>fo. fo\<lparr>ui_enabled := flag\<rparr>) f"]
    by (auto simp: toggle_ui_enabled_def upd_var_def)
qed (simp add: toggle_ui_enabled_def)

section \<open>What a SET may change\<close>

text \<open>
  A SET to an endpoint may change a variable only if the endpoint addresses it, and then only
  its value and inputs.
\<close>

definition fims_frame :: "fims_object \<Rightarrow> fims_object \<Rightarrow> bool" where
  "fims_frame fo fo' \<longleftrightarrow> variable_id fo' = variable_id fo \<and> multiple_inputs fo' = multiple_inputs fo \<and>
     ui_enabled fo' = ui_enabled fo \<and> options_map fo' = options_map fo \<and> configured fo' = configured fo \<and>
     component_control_value fo' = component_control_value fo \<and>
     length (fo_inputs fo') = length (fo_inputs fo)"

definition set_ok :: "input_source_list \<Rightarrow> string \<Rightarrow> fims_object \<Rightarrow> fims_object \<Rightarrow> bool" where
  "set_ok srcs e fo fo' \<longleftrightarrow> fims_frame fo fo' \<and> (\<not> hits srcs e fo \<longrightarrow> fo' = fo)"

definition feature_set_ok :: "input_source_list \<Rightarrow> string \<Rightarrow> ('v, 'm) feature_scheme \<Rightarrow> ('v, 'm) feature_scheme \<Rightarrow> bool" where
  "feature_set_ok srcs e f f' \<longleftrightarrow> available f' = available f \<and> (\<forall>v. set_ok srcs e (vars f v) (vars f' v))"

lemma hits_frame: "fims_frame fo fo' \<Longrightarrow> hits srcs e fo' = hits srcs e fo"
  by (simp add: fims_frame_def hits_def fims_set_def Let_def split: option.splits)

lemma set_ok_refl: "set_ok srcs e fo fo"
  by (simp add: set_ok_def fims_frame_def)

lemma set_ok_trans: "set_ok srcs e a b \<Longrightarrow> set_ok srcs e b c \<Longrightarrow> set_ok srcs e a c"
  using hits_frame [of a b srcs e] by (auto simp: set_ok_def fims_frame_def)

lemma set_ok_fims_set: "set_ok srcs e fo (snd (fims_set upd srcs e fo))"
  using fims_set_rejected [of upd srcs e fo] by (auto simp: set_ok_def fims_frame_def frame_simps hits_upd)

lemma set_ok_sets:
  "set_ok srcs e fo (snd (set_fims_float srcs e x fo))"
  "set_ok srcs e fo (snd (set_fims_int srcs e i fo))"
  "set_ok srcs e fo (snd (set_fims_bool srcs e b fo))"
  by (simp_all add: set_fims_float_def set_fims_int_def set_fims_bool_def set_ok_fims_set)

named_theorems handler_intros \<open>every step of a SET handler is a permitted change\<close>

lemma feature_set_ok_refl [handler_intros]: "feature_set_ok srcs e f f"
  by (simp add: feature_set_ok_def set_ok_refl)

lemma feature_set_ok_upd:
  assumes "feature_set_ok srcs e f f'" "\<And>fo. set_ok srcs e fo (g fo)"
  shows "feature_set_ok srcs e f (upd_var v g f')"
  using assms set_ok_trans by (fastforce simp: feature_set_ok_def upd_var_def)

lemma feature_set_ok_put [handler_intros]:
  "feature_set_ok srcs e f f' \<Longrightarrow> feature_set_ok srcs e f (put_float srcs e v x f')"
  "feature_set_ok srcs e f f' \<Longrightarrow> feature_set_ok srcs e f (put_int srcs e v i f')"
  "feature_set_ok srcs e f f' \<Longrightarrow> feature_set_ok srcs e f (put_bool srcs e v b f')"
  by (simp_all add: put_float_def put_int_def put_bool_def feature_set_ok_upd set_ok_sets)

text \<open>The contract of every \<^verbatim>\<open>handle_fims_set\<close>, with what follows for a sequence of messages.\<close>

locale fims_feature =
  fixes handle :: "input_source_list \<Rightarrow> string \<Rightarrow> cjson \<Rightarrow> ('v, 'm) feature_scheme \<Rightarrow> ('v, 'm) feature_scheme"
  assumes handle_ok: "feature_set_ok srcs e f (handle srcs e msg f)"
begin

lemma handle_unaddressed: "\<not> hits srcs e (vars f v) \<Longrightarrow> vars (handle srcs e msg f) v = vars f v"
  using handle_ok [of srcs e f msg] by (simp add: feature_set_ok_def set_ok_def)

lemma handle_frame: "fims_frame (vars f v) (vars (handle srcs e msg f) v)"
  using handle_ok [of srcs e f msg] by (simp add: feature_set_ok_def set_ok_def)

lemma run_frame: "fims_frame (vars f v) (vars (fold (\<lambda>(e, msg). handle srcs e msg) ms f) v)"
proof (induction ms arbitrary: f)
  case (Cons m ms)
  then show ?case
    using Cons [of "handle srcs (fst m) (snd m) f"] handle_frame [of f v srcs "fst m" "snd m"]
    by (auto simp: fims_frame_def split_beta)
qed (simp add: fims_frame_def)

lemma run_unaddressed:
  "\<forall>m \<in> set ms. \<not> hits srcs (fst m) (vars f v) \<Longrightarrow>
   vars (fold (\<lambda>(e, msg). handle srcs e msg) ms f) v = vars f v"
proof (induction ms arbitrary: f)
  case (Cons m ms)
  then show ?case
    using handle_unaddressed [of srcs "fst m" f v "snd m"] by (simp add: split_beta)
qed simp

lemma run_available: "available (fold (\<lambda>(e, msg). handle srcs e msg) ms f) = available f"
proof (induction ms arbitrary: f)
  case (Cons m ms)
  then show ?case using handle_ok [of srcs "fst m" f "snd m"] by (simp add: feature_set_ok_def split_beta)
qed simp

end


section \<open>When a SET takes effect\<close>

text \<open>The value in effect changes when the variable is addressed through the selected source.\<close>

definition takes_effect :: "input_source_list \<Rightarrow> string \<Rightarrow> fims_object \<Rightarrow> bool" where
  "takes_effect srcs e fo \<longleftrightarrow>
     (if multiple_inputs fo
      then prefix (variable_id fo) e \<and> parse_input_source_index srcs e = Some (selected_input_source_index srcs)
      else variable_id fo = e)"

lemma fo_value_fims_set:
  "fo_value (snd (fims_set upd srcs e fo)) = (if takes_effect srcs e fo then upd (fo_value fo) else fo_value fo)"
  by (auto simp: fims_set_def takes_effect_def Let_def split: option.splits)

lemma vals_put [simp]:
  "fval w (put_float srcs e v x f) = (if w = v \<and> takes_effect srcs e (vars f v) then x else fval w f)"
  "bval w (put_float srcs e v x f) = bval w f"
  "ival w (put_int srcs e v i f) = (if w = v \<and> takes_effect srcs e (vars f v) then i else ival w f)"
  "bval w (put_int srcs e v i f) = bval w f"
  "bval w (put_bool srcs e v b f) = (if w = v \<and> takes_effect srcs e (vars f v) then b else bval w f)"
  "fval w (put_bool srcs e v b f) = fval w f" "ival w (put_bool srcs e v b f) = ival w f"
  "ival w (put_float srcs e v x f) = (if w = v \<and> takes_effect srcs e (vars f v) then c_trunc x else ival w f)"
  "fval w (put_int srcs e v i f) = (if w = v \<and> takes_effect srcs e (vars f v) then of_int i else fval w f)"
  by (auto simp: feature_ops set_fims_float_def set_fims_int_def set_fims_bool_def fo_value_fims_set
      set_float_def set_int_def set_bool_def)

lemma vars_put_other [simp]:
  "w \<noteq> v \<Longrightarrow> vars (put_float srcs e v x f) w = vars f w"
  "w \<noteq> v \<Longrightarrow> vars (put_int srcs e v i f) w = vars f w"
  "w \<noteq> v \<Longrightarrow> vars (put_bool srcs e v b f) w = vars f w"
  by (simp_all add: put_float_def put_int_def put_bool_def upd_var_def)

section \<open>Conversions shared by the features\<close>

text \<open>
  \<^verbatim>\<open>static_cast<load_compensation>\<close> of the configured integer; an integer that names no
  enumerator has no meaning.
\<close>

definition load_compensation_of_int :: "int \<Rightarrow> load_compensation option" where
  "load_compensation_of_int i =
     (if i = 0 then Some NO_COMPENSATION else if i = 1 then Some LOAD_OFFSET
      else if i = 2 then Some LOAD_MINIMUM else None)"

definition MAX_SLEW :: int where
  "MAX_SLEW = 1210000"

text \<open>The check at the start of several features that the slew object has the configured rate.\<close>

definition sync_slew_rate :: "int \<Rightarrow> slew_object \<Rightarrow> slew_object" where
  "sync_slew_rate rate s = (if slew_rate s \<noteq> rate then set_slew_rate rate s else s)"

lemma sync_slew_rate_simps [simp]:
  "slew_rate (sync_slew_rate r s) = r" "current_value (sync_slew_rate r s) = current_value s"
  "slew_max_value (sync_slew_rate r s) = slew_max_value s" "slew_min_value (sync_slew_rate r s) = slew_min_value s"
  "slew_prev_time (sync_slew_rate r s) = slew_prev_time s"
  by (simp_all add: sync_slew_rate_def set_slew_rate_def)

lemma get_slew_target_sync [simp]: "get_slew_target (sync_slew_rate r s) t = get_slew_target s t"
  by (simp add: get_slew_target_def)

text \<open>
  The values of an option map by position, from which the curve features build their curves.  A
  missing key reads the default value zero, which the source also inserts.
\<close>

definition options_floats :: "fims_object \<Rightarrow> nat \<Rightarrow> flt" where
  "options_floats fo i = (case map_of (options_map fo) (word_of_nat i) of Some (nm, v) \<Rightarrow> value_float v | None \<Rightarrow> 0)"

text \<open>\<^verbatim>\<open>std::signbit\<close>, with negative zero identified with zero.\<close>

definition signbit :: "flt \<Rightarrow> bool" where
  "signbit x \<longleftrightarrow> x < 0"

text \<open>A single-input variable with a given id and value, for examples.\<close>

definition demo_var :: "string \<Rightarrow> flt \<Rightarrow> fims_object" where
  "demo_var i x = demo_fims\<lparr>variable_id := i, multiple_inputs := False, fo_value := set_float x (Value_Object 0)\<rparr>"

end
