(* ===== verification/Active_Features.thy ===== *)
theory Active_Features
  imports Features
begin

text \<open>
  The active power features of run mode 1: \<^verbatim>\<open>Active_Power_Setpoint\<close>, \<^verbatim>\<open>Target_SOC\<close>,
  \<^verbatim>\<open>Energy_Arbitrage\<close>, \<^verbatim>\<open>Manual\<close>, \<^verbatim>\<open>ESS_Calibration\<close> and \<^verbatim>\<open>Watt_Watt\<close>.  Each feature has its
  variables, the constructor's lists, the helper that computes, \<^verbatim>\<open>execute\<close> that moves the values
  between the helper and the command object, and \<^verbatim>\<open>handle_fims_set\<close>.
\<close>

section \<open>Active power setpoint\<close>

datatype aps_var = APS_enable_flag | APS_kW_cmd | APS_kW_slew_rate | APS_load_method
  | APS_absolute_mode_flag | APS_direction_flag | APS_maximize_solar_flag
  | APS_ess_charge_support_enable_flag

record active_power_setpoint = "aps_var feature" +
  aps_kW_slew :: slew_object

definition aps_feature_vars :: "aps_var list" where
  "aps_feature_vars = [APS_enable_flag, APS_kW_cmd, APS_kW_slew_rate, APS_load_method,
     APS_absolute_mode_flag, APS_direction_flag, APS_maximize_solar_flag, APS_ess_charge_support_enable_flag]"

definition aps_variable_ids :: "(aps_var \<times> string) list" where
  "aps_variable_ids =
    [(APS_enable_flag, ''active_power_setpoint_mode_enable_flag''),
     (APS_ess_charge_support_enable_flag, ''ess_charge_support_enable_flag''),
     (APS_kW_cmd, ''active_power_setpoint_kW_cmd''),
     (APS_load_method, ''active_power_setpoint_load_method''),
     (APS_kW_slew_rate, ''active_power_setpoint_kW_slew_rate''),
     (APS_absolute_mode_flag, ''active_power_setpoint_absolute_mode_flag''),
     (APS_direction_flag, ''active_power_setpoint_direction_flag''),
     (APS_maximize_solar_flag, ''active_power_setpoint_maximize_solar_flag'')]"

text \<open>
  \<^verbatim>\<open>execute_helper\<close>: the outputs are the solar request, the POI command, the load method, the
  additional load compensation and the demand, in the order of \<^verbatim>\<open>External_Outputs\<close>.
\<close>

definition aps_execute_helper ::
    "timespec \<Rightarrow> flt \<Rightarrow> flt \<Rightarrow> flt \<Rightarrow> flt \<Rightarrow> flt \<Rightarrow> flt \<Rightarrow> flt \<Rightarrow> flt \<Rightarrow> active_power_setpoint \<Rightarrow>
     ((flt \<times> flt \<times> load_compensation \<times> flt \<times> flt) \<times> active_power_setpoint) option" where
  "aps_execute_helper now solar_max load demand ess_req gen_req solar_req site_rated_discharge site_rated_charge f =
     (case load_compensation_of_int (ival APS_load_method f) of
        None \<Rightarrow> None
      | Some meth \<Rightarrow>
          let f = f\<lparr>aps_kW_slew := sync_slew_rate (ival APS_kW_slew_rate f) (aps_kW_slew f)\<rparr>;
              local_kW_cmd = fval APS_kW_cmd f;
              local_kW_cmd = (if bval APS_absolute_mode_flag f
                              then \<bar>local_kW_cmd\<bar> * (if bval APS_direction_flag f then -1 else 1)
                              else local_kW_cmd);
              new_solar_kW_request = (if bval APS_maximize_solar_flag f then solar_max else solar_req);
              poi = local_kW_cmd;
              intermediate_load_compensation =
                calculate_additional_load_compensation meth load demand ess_req gen_req new_solar_kW_request;
              local_kW_cmd = local_kW_cmd + intermediate_load_compensation;
              slewed_target_kW_cmd = get_slew_target (aps_kW_slew f) local_kW_cmd;
              slewed_target_kW_cmd = min slewed_target_kW_cmd site_rated_discharge;
              slewed_target_kW_cmd = max slewed_target_kW_cmd site_rated_charge;
              new_demand = slewed_target_kW_cmd;
              f = f\<lparr>aps_kW_slew := update_slew_target now slewed_target_kW_cmd (aps_kW_slew f)\<rparr>
          in case track_slewed_load meth new_demand local_kW_cmd intermediate_load_compensation (aps_kW_slew f) of
               None \<Rightarrow> None
             | Some addl \<Rightarrow> Some ((new_solar_kW_request, poi, meth, addl, new_demand), f))"

definition aps_execute ::
    "timespec \<Rightarrow> flt \<Rightarrow> flt \<Rightarrow> active_power_setpoint \<times> asset_cmd_object \<Rightarrow> (active_power_setpoint \<times> asset_cmd_object) option" where
  "aps_execute now site_rated_discharge site_rated_charge = (\<lambda>(f, a).
     case aps_execute_helper now (max_potential_kW (solar_data a)) (site_kW_load a) (site_kW_demand a)
            (kW_request (ess_data a)) (kW_request (gen_data a)) (kW_request (solar_data a))
            site_rated_discharge site_rated_charge f of
       None \<Rightarrow> None
     | Some ((sol, poi, meth, addl, dem), f') \<Rightarrow>
         Some (f', a\<lparr>solar_data := (solar_data a)\<lparr>kW_request := sol\<rparr>, poi_cmd := poi, load_method := meth,
                    additional_load_compensation := addl, site_kW_demand := dem\<rparr>))"

definition charge_support_execute_helper ::
    "flt \<Rightarrow> flt \<Rightarrow> flt \<Rightarrow> flt \<Rightarrow> flt \<Rightarrow> active_power_setpoint \<Rightarrow> flt" where
  "charge_support_execute_helper ess_cmd ess_min gen_min solar_min load f =
     (let overload_kW = gen_min + solar_min + ess_cmd - zero_check (load - fval APS_kW_cmd f);
          unused_ess_kW = ess_cmd - ess_min
      in if overload_kW > 0 \<and> unused_ess_kW > 0 then ess_cmd - min overload_kW unused_ess_kW else ess_cmd)"

definition charge_support_execute :: "active_power_setpoint \<Rightarrow> asset_cmd_object \<Rightarrow> asset_cmd_object" where
  "charge_support_execute f a = a\<lparr>ess_data := (ess_data a)\<lparr>kW_cmd :=
     charge_support_execute_helper (kW_cmd (ess_data a)) (min_potential_kW (ess_data a))
       (min_potential_kW (gen_data a)) (min_potential_kW (solar_data a)) (site_kW_load a) f\<rparr>\<rparr>"

definition aps_handle_fims_set ::
    "input_source_list \<Rightarrow> string \<Rightarrow> cjson \<Rightarrow> active_power_setpoint \<Rightarrow> active_power_setpoint" where
  "aps_handle_fims_set srcs e msg f = (case msg of
       JNumber d i \<Rightarrow>
         let f = put_float srcs e APS_kW_cmd d f;
             f = put_int srcs e APS_load_method i f;
             rate = range_check_int i MAX_SLEW 1;
             hit = fst (set_fims_int srcs e rate (vars f APS_kW_slew_rate));
             f = put_int srcs e APS_kW_slew_rate rate f
         in if hit then f\<lparr>aps_kW_slew := set_slew_rate (ival APS_kW_slew_rate f) (aps_kW_slew f)\<rparr> else f
     | _ \<Rightarrow> if is_bool_json msg then
         let b = (msg \<noteq> JFalse);
             f = put_bool srcs e APS_enable_flag b f;
             f = put_bool srcs e APS_absolute_mode_flag b f;
             f = put_bool srcs e APS_direction_flag b f;
             f = put_bool srcs e APS_maximize_solar_flag b f
         in put_bool srcs e APS_ess_charge_support_enable_flag b f
         else f)"

section \<open>Target state of charge\<close>

datatype tsoc_var = TSOC_enable_flag | TSOC_load_enable_flag

type_synonym target_soc_feature = "tsoc_var feature"

definition tsoc_feature_vars :: "tsoc_var list" where
  "tsoc_feature_vars = [TSOC_load_enable_flag]"

definition tsoc_variable_ids :: "(tsoc_var \<times> string) list" where
  "tsoc_variable_ids = [(TSOC_enable_flag, ''target_soc_mode_enable_flag''),
     (TSOC_load_enable_flag, ''target_soc_load_enable_flag'')]"

text \<open>The load method is the flag times the value of \<^verbatim>\<open>LOAD_MINIMUM\<close>: that method or none.\<close>

definition tsoc_execute_helper :: "flt \<Rightarrow> flt \<Rightarrow> flt \<Rightarrow> flt \<Rightarrow> target_soc_feature \<Rightarrow> flt \<times> load_compensation \<times> flt \<times> flt" where
  "tsoc_execute_helper solar_max load demand ess_req f =
     (let new_solar_kW_request = solar_max;
          new_load_method = (if bval TSOC_load_enable_flag f then LOAD_MINIMUM else NO_COMPENSATION);
          addl = calculate_additional_load_compensation new_load_method load demand ess_req 0 new_solar_kW_request
      in (new_solar_kW_request, new_load_method, addl, demand + addl))"

definition tsoc_execute :: "target_soc_feature \<Rightarrow> asset_cmd_object \<Rightarrow> asset_cmd_object" where
  "tsoc_execute f a =
     (let (sol, meth, addl, dem) = tsoc_execute_helper (max_potential_kW (solar_data a)) (site_kW_load a)
            (site_kW_demand a) (kW_request (ess_data a)) f
      in a\<lparr>solar_data := (solar_data a)\<lparr>kW_request := sol\<rparr>, load_method := meth,
           additional_load_compensation := addl, site_kW_demand := dem\<rparr>)"

definition tsoc_handle_fims_set :: "input_source_list \<Rightarrow> string \<Rightarrow> cjson \<Rightarrow> target_soc_feature \<Rightarrow> target_soc_feature" where
  "tsoc_handle_fims_set srcs e msg f =
     (if is_bool_json msg then put_bool srcs e TSOC_load_enable_flag (msg \<noteq> JFalse) f else f)"

section \<open>Energy arbitrage\<close>

datatype arb_var = ARB_enable_flag | ARB_price | ARB_threshold_charge_1 | ARB_threshold_charge_2
  | ARB_threshold_dischg_1 | ARB_threshold_dischg_2 | ARB_soc_min_limit | ARB_soc_max_limit
  | ARB_max_charge_1 | ARB_max_charge_2 | ARB_max_dischg_1 | ARB_max_dischg_2

type_synonym energy_arbitrage = "arb_var feature"

definition arb_feature_vars :: "arb_var list" where
  "arb_feature_vars = [ARB_price, ARB_threshold_charge_1, ARB_threshold_charge_2, ARB_threshold_dischg_1,
     ARB_threshold_dischg_2, ARB_soc_min_limit, ARB_soc_max_limit, ARB_max_charge_1, ARB_max_charge_2,
     ARB_max_dischg_1, ARB_max_dischg_2]"

definition arb_summary_vars :: "arb_var list" where
  "arb_summary_vars = [ARB_threshold_charge_2, ARB_threshold_charge_1, ARB_threshold_dischg_1,
     ARB_threshold_dischg_2, ARB_price]"

definition arb_variable_ids :: "(arb_var \<times> string) list" where
  "arb_variable_ids =
    [(ARB_enable_flag, ''energy_arb_enable_flag''), (ARB_price, ''price''),
     (ARB_threshold_charge_1, ''threshold_charge_1''), (ARB_threshold_charge_2, ''threshold_charge_2''),
     (ARB_threshold_dischg_1, ''threshold_dischg_1''), (ARB_threshold_dischg_2, ''threshold_dischg_2''),
     (ARB_soc_min_limit, ''soc_min_limit''), (ARB_soc_max_limit, ''soc_max_limit''),
     (ARB_max_charge_1, ''max_charge_1''), (ARB_max_charge_2, ''max_charge_2''),
     (ARB_max_dischg_1, ''max_dischg_1''), (ARB_max_dischg_2, ''max_dischg_2'')]"

record arb_outputs =
  arb_ess_kW_request :: flt
  arb_solar_kW_request :: flt
  arb_solar_max_potential_kW :: flt
  arb_load_method :: load_compensation
  arb_additional_load_compensation :: flt
  arb_site_kW_demand :: flt
  arb_should_alarm :: bool

definition arb_valid_pricing :: "energy_arbitrage \<Rightarrow> bool" where
  "arb_valid_pricing f \<longleftrightarrow>
     fval ARB_threshold_charge_2 f < fval ARB_threshold_charge_1 f \<and>
     fval ARB_threshold_charge_1 f < fval ARB_threshold_dischg_1 f \<and>
     fval ARB_threshold_dischg_1 f < fval ARB_threshold_dischg_2 f"

definition arb_price_request :: "flt \<Rightarrow> energy_arbitrage \<Rightarrow> flt" where
  "arb_price_request soc_avg_running f =
     (if fval ARB_price f \<ge> fval ARB_threshold_dischg_2 f then \<bar>fval ARB_max_dischg_2 f\<bar>
      else if fval ARB_price f \<ge> fval ARB_threshold_dischg_1 f \<and> soc_avg_running > fval ARB_soc_min_limit f
      then \<bar>fval ARB_max_dischg_1 f\<bar>
      else if fval ARB_price f \<le> fval ARB_threshold_charge_2 f then -1 * \<bar>fval ARB_max_charge_2 f\<bar>
      else if fval ARB_price f \<le> fval ARB_threshold_charge_1 f \<and> soc_avg_running < fval ARB_soc_max_limit f
      then -1 * \<bar>fval ARB_max_charge_1 f\<bar>
      else 0)"

definition arb_execute_helper ::
    "flt \<Rightarrow> flt \<Rightarrow> flt \<Rightarrow> load_compensation \<Rightarrow> flt \<Rightarrow> flt \<Rightarrow> bool \<Rightarrow> flt \<Rightarrow> flt \<Rightarrow> flt \<Rightarrow> energy_arbitrage \<Rightarrow> arb_outputs" where
  "arb_execute_helper ess_req solar_req solar_max meth addl demand is_alarming soc_avg_running load gen_req f =
     (let out = \<lparr>arb_ess_kW_request = ess_req, arb_solar_kW_request = solar_req,
                 arb_solar_max_potential_kW = solar_max, arb_load_method = meth,
                 arb_additional_load_compensation = addl, arb_site_kW_demand = demand, arb_should_alarm = False\<rparr>;
          invalid_pricing = (\<not> arb_valid_pricing f);
          new_ess = (if invalid_pricing then 0 else arb_price_request soc_avg_running f);
          new_solar_max = (if invalid_pricing then 0 else if fval ARB_price f \<le> 0 then 0 else solar_max);
          new_solar_req = (if invalid_pricing then 0 else new_solar_max);
          out = (if \<not> is_alarming \<and> invalid_pricing then out\<lparr>arb_should_alarm := True\<rparr>
                 else out\<lparr>arb_solar_max_potential_kW := new_solar_max, arb_ess_kW_request := new_ess,
                          arb_solar_kW_request := new_solar_req\<rparr>);
          out = out\<lparr>arb_load_method := LOAD_MINIMUM\<rparr>;
          out = out\<lparr>arb_additional_load_compensation := calculate_additional_load_compensation
                     (arb_load_method out) load demand (arb_ess_kW_request out) gen_req (arb_solar_kW_request out)\<rparr>
      in out\<lparr>arb_site_kW_demand := arb_site_kW_demand out + arb_additional_load_compensation out\<rparr>)"

text \<open>The alarm array is indexed with the constant \<^verbatim>\<open>alarm_index\<close>, 3.\<close>

definition arb_execute :: "flt \<Rightarrow> (nat \<Rightarrow> bool) \<Rightarrow> energy_arbitrage \<Rightarrow> asset_cmd_object \<Rightarrow> bool \<times> asset_cmd_object" where
  "arb_execute soc_avg_running active_alarm_array f a =
     (let out = arb_execute_helper (kW_request (ess_data a)) (kW_request (solar_data a))
            (max_potential_kW (solar_data a)) (load_method a) (additional_load_compensation a)
            (site_kW_demand a) (active_alarm_array 3) soc_avg_running (site_kW_load a) (kW_request (gen_data a)) f
      in (arb_should_alarm out,
          a\<lparr>ess_data := (ess_data a)\<lparr>kW_request := arb_ess_kW_request out\<rparr>,
            solar_data := (solar_data a)\<lparr>kW_request := arb_solar_kW_request out,
                            max_potential_kW := arb_solar_max_potential_kW out\<rparr>,
            load_method := arb_load_method out,
            additional_load_compensation := arb_additional_load_compensation out,
            site_kW_demand := arb_site_kW_demand out\<rparr>))"

definition arb_handle_fims_set :: "input_source_list \<Rightarrow> string \<Rightarrow> cjson \<Rightarrow> energy_arbitrage \<Rightarrow> energy_arbitrage" where
  "arb_handle_fims_set srcs e msg f = (case msg of
       JNumber d i \<Rightarrow>
         let f = put_float srcs e ARB_threshold_charge_1 d f;
             f = put_float srcs e ARB_threshold_charge_2 d f;
             f = put_float srcs e ARB_threshold_dischg_1 d f;
             f = put_float srcs e ARB_threshold_dischg_2 d f;
             f = put_float srcs e ARB_max_charge_1 d f;
             f = put_float srcs e ARB_max_charge_2 d f;
             f = put_float srcs e ARB_max_dischg_1 d f;
             f = put_float srcs e ARB_max_dischg_2 d f
         in put_float srcs e ARB_price d f
     | _ \<Rightarrow> f)"

section \<open>Manual mode\<close>

datatype man_var = MAN_enable_flag | MAN_solar_kW_cmd | MAN_ess_kW_cmd | MAN_gen_kW_cmd
  | MAN_solar_kW_slew_rate | MAN_ess_kW_slew_rate | MAN_gen_kW_slew_rate

record manual_feature = "man_var feature" +
  manual_solar_kW_slew :: slew_object
  manual_ess_kW_slew :: slew_object
  manual_gen_kW_slew :: slew_object

definition man_feature_vars :: "man_var list" where
  "man_feature_vars = [MAN_solar_kW_cmd, MAN_ess_kW_cmd, MAN_gen_kW_cmd,
     MAN_solar_kW_slew_rate, MAN_ess_kW_slew_rate, MAN_gen_kW_slew_rate]"

definition man_variable_ids :: "(man_var \<times> string) list" where
  "man_variable_ids =
    [(MAN_enable_flag, ''manual_mode_enable_flag''), (MAN_solar_kW_cmd, ''manual_solar_kW_cmd''),
     (MAN_ess_kW_cmd, ''manual_ess_kW_cmd''), (MAN_gen_kW_cmd, ''manual_gen_kW_cmd''),
     (MAN_solar_kW_slew_rate, ''manual_solar_kW_slew_rate''), (MAN_ess_kW_slew_rate, ''manual_ess_kW_slew_rate''),
     (MAN_gen_kW_slew_rate, ''manual_gen_kW_slew_rate'')]"

text \<open>The outputs: request and maximum potential of the storage, the solar and the generators.\<close>

definition man_execute_helper :: "flt \<Rightarrow> flt \<Rightarrow> flt \<Rightarrow> manual_feature \<Rightarrow>
    ((flt \<times> flt) \<times> (flt \<times> flt) \<times> (flt \<times> flt)) \<times> manual_feature" where
  "man_execute_helper ess_max solar_max gen_max f =
     (let f = f\<lparr>manual_solar_kW_slew := sync_slew_rate (ival MAN_solar_kW_slew_rate f) (manual_solar_kW_slew f)\<rparr>;
          f = f\<lparr>manual_ess_kW_slew := sync_slew_rate (ival MAN_ess_kW_slew_rate f) (manual_ess_kW_slew f)\<rparr>;
          f = f\<lparr>manual_gen_kW_slew := sync_slew_rate (ival MAN_gen_kW_slew_rate f) (manual_gen_kW_slew f)\<rparr>;
          new_ess = get_slew_target (manual_ess_kW_slew f) (fval MAN_ess_kW_cmd f);
          new_ess_max = min ess_max (zero_check new_ess);
          new_solar = get_slew_target (manual_solar_kW_slew f) (zero_check (fval MAN_solar_kW_cmd f));
          new_solar_max = min solar_max new_solar;
          new_gen = get_slew_target (manual_gen_kW_slew f) (zero_check (fval MAN_gen_kW_cmd f));
          new_gen_max = min gen_max new_gen
      in (((new_ess, new_ess_max), (new_solar, new_solar_max), (new_gen, new_gen_max)), f))"

definition man_execute :: "manual_feature \<times> asset_cmd_object \<Rightarrow> manual_feature \<times> asset_cmd_object" where
  "man_execute = (\<lambda>(f, a).
     case man_execute_helper (max_potential_kW (ess_data a)) (max_potential_kW (solar_data a))
            (max_potential_kW (gen_data a)) f of
       (((er, em), (sr, sm), (gr, gm)), f') \<Rightarrow>
         (f', a\<lparr>ess_data := (ess_data a)\<lparr>kW_request := er, max_potential_kW := em\<rparr>,
                solar_data := (solar_data a)\<lparr>kW_request := sr, max_potential_kW := sm\<rparr>,
                gen_data := (gen_data a)\<lparr>kW_request := gr, max_potential_kW := gm\<rparr>\<rparr>))"

definition man_handle_fims_set :: "input_source_list \<Rightarrow> string \<Rightarrow> cjson \<Rightarrow> manual_feature \<Rightarrow> manual_feature" where
  "man_handle_fims_set srcs e msg f = (case msg of
       JNumber d i \<Rightarrow>
         let f = put_float srcs e MAN_solar_kW_cmd d f;
             f = put_float srcs e MAN_ess_kW_cmd d f;
             f = put_float srcs e MAN_gen_kW_cmd d f;
             rate = range_check_int i MAX_SLEW 1;
             hit = fst (set_fims_int srcs e rate (vars f MAN_solar_kW_slew_rate));
             f = put_int srcs e MAN_solar_kW_slew_rate rate f;
             f = (if hit then f\<lparr>manual_solar_kW_slew :=
                    set_slew_rate (ival MAN_solar_kW_slew_rate f) (manual_solar_kW_slew f)\<rparr> else f);
             hit = fst (set_fims_int srcs e rate (vars f MAN_ess_kW_slew_rate));
             f = put_int srcs e MAN_ess_kW_slew_rate rate f;
             f = (if hit then f\<lparr>manual_ess_kW_slew :=
                    set_slew_rate (ival MAN_ess_kW_slew_rate f) (manual_ess_kW_slew f)\<rparr> else f);
             hit = fst (set_fims_int srcs e rate (vars f MAN_gen_kW_slew_rate));
             f = put_int srcs e MAN_gen_kW_slew_rate rate f
         in if hit then f\<lparr>manual_gen_kW_slew :=
                    set_slew_rate (ival MAN_gen_kW_slew_rate f) (manual_gen_kW_slew f)\<rparr> else f
     | _ \<Rightarrow> f)"

section \<open>ESS calibration\<close>

datatype cal_var = CAL_enable_flag | CAL_kW_cmd | CAL_soc_limits_enable | CAL_min_soc_limit
  | CAL_max_soc_limit | CAL_cell_voltage_limits_enable | CAL_min_cell_voltage_limit
  | CAL_max_cell_voltage_limit | CAL_rack_voltage_limits_enable | CAL_min_rack_voltage_limit
  | CAL_max_rack_voltage_limit | CAL_num_setpoint | CAL_num_limited | CAL_num_zero

type_synonym ess_calibration = "cal_var feature"

definition cal_feature_vars :: "cal_var list" where
  "cal_feature_vars = [CAL_kW_cmd, CAL_soc_limits_enable, CAL_min_soc_limit, CAL_max_soc_limit,
     CAL_cell_voltage_limits_enable, CAL_min_cell_voltage_limit, CAL_max_cell_voltage_limit,
     CAL_rack_voltage_limits_enable, CAL_min_rack_voltage_limit, CAL_max_rack_voltage_limit,
     CAL_num_setpoint, CAL_num_limited, CAL_num_zero]"

definition cal_variable_ids :: "(cal_var \<times> string) list" where
  "cal_variable_ids =
    [(CAL_enable_flag, ''ess_calibration_enable_flag''), (CAL_kW_cmd, ''ess_calibration_kW_cmd''),
     (CAL_soc_limits_enable, ''ess_calibration_soc_limits_enable''),
     (CAL_min_soc_limit, ''ess_calibration_min_soc_limit''), (CAL_max_soc_limit, ''ess_calibration_max_soc_limit''),
     (CAL_cell_voltage_limits_enable, ''ess_calibration_cell_voltage_limits_enable''),
     (CAL_min_cell_voltage_limit, ''ess_calibration_min_cell_voltage_limit''),
     (CAL_max_cell_voltage_limit, ''ess_calibration_max_cell_voltage_limit''),
     (CAL_rack_voltage_limits_enable, ''ess_calibration_rack_voltage_limits_enable''),
     (CAL_min_rack_voltage_limit, ''ess_calibration_min_rack_voltage_limit''),
     (CAL_max_rack_voltage_limit, ''ess_calibration_max_rack_voltage_limit''),
     (CAL_num_setpoint, ''ess_calibration_num_setpoint''), (CAL_num_limited, ''ess_calibration_num_limited''),
     (CAL_num_zero, ''ess_calibration_num_zero'')]"

definition cal_execute_helper :: "int \<Rightarrow> flt \<Rightarrow> flt \<Rightarrow> ess_calibration \<Rightarrow> flt \<times> flt \<times> flt" where
  "cal_execute_helper num_ess_controllable ess_max ess_min f =
     (let total_feature_cmd = fval CAL_kW_cmd f * of_int num_ess_controllable
      in (max total_feature_cmd ess_max, min total_feature_cmd ess_min, total_feature_cmd))"

definition cal_execute :: "int \<Rightarrow> ess_calibration \<Rightarrow> asset_cmd_object \<Rightarrow> asset_cmd_object" where
  "cal_execute num_ess_controllable f a =
     (let (hi, lo, req) = cal_execute_helper num_ess_controllable (max_potential_kW (ess_data a))
            (min_potential_kW (ess_data a)) f
      in a\<lparr>ess_data := (ess_data a)\<lparr>max_potential_kW := hi, min_potential_kW := lo, kW_request := req\<rparr>\<rparr>)"

definition cal_handle_fims_set :: "input_source_list \<Rightarrow> string \<Rightarrow> cjson \<Rightarrow> ess_calibration \<Rightarrow> ess_calibration" where
  "cal_handle_fims_set srcs e msg f = (case msg of
       JNumber d i \<Rightarrow>
         let f = put_float srcs e CAL_min_cell_voltage_limit \<bar>d\<bar> f;
             f = put_float srcs e CAL_max_cell_voltage_limit \<bar>d\<bar> f;
             f = put_float srcs e CAL_min_rack_voltage_limit \<bar>d\<bar> f;
             f = put_float srcs e CAL_max_rack_voltage_limit \<bar>d\<bar> f;
             f = put_float srcs e CAL_kW_cmd d f
         in if d \<ge> 0 \<and> d \<le> 100
            then put_float srcs e CAL_max_soc_limit d (put_float srcs e CAL_min_soc_limit d f)
            else f
     | _ \<Rightarrow> if is_bool_json msg then
         let b = (msg \<noteq> JFalse);
             f = put_bool srcs e CAL_soc_limits_enable b f;
             f = put_bool srcs e CAL_cell_voltage_limits_enable b f
         in put_bool srcs e CAL_rack_voltage_limits_enable b f
         else f)"

section \<open>Watt-Watt\<close>

datatype ww_var = WW_enable_flag | WW_points

record watt_watt = "ww_var feature" +
  watt_watt_curve :: "(flt \<times> flt) list"
  site_kW_demand_correction :: flt

definition ww_feature_vars :: "ww_var list" where
  "ww_feature_vars = [WW_points]"

definition ww_variable_ids :: "(ww_var \<times> string) list" where
  "ww_variable_ids = [(WW_enable_flag, ''watt_watt_adjustment_enable_flag''), (WW_points, ''watt_watt_points'')]"

text \<open>
  \<^verbatim>\<open>init_curve\<close> reads the values of the option map of the points variable; the demand is
  undefined (\<open>None\<close>) for a curve of fewer than two points.
\<close>

definition ww_init_curve :: "watt_watt \<Rightarrow> watt_watt option" where
  "ww_init_curve f =
     (case set_curve_points (options_floats (vars f WW_points)) (length (options_map (vars f WW_points))) (watt_watt_curve f) of
        None \<Rightarrow> None | Some c \<Rightarrow> Some (f\<lparr>watt_watt_curve := c\<rparr>))"

definition ww_execute_helper :: "flt \<Rightarrow> watt_watt \<Rightarrow> (flt \<times> watt_watt) option" where
  "ww_execute_helper demand f =
     (case get_curve_cmd demand (watt_watt_curve f) of
        None \<Rightarrow> None
      | Some new_demand \<Rightarrow> Some (new_demand, f\<lparr>site_kW_demand_correction := new_demand - demand\<rparr>))"

definition ww_execute :: "watt_watt \<times> asset_cmd_object \<Rightarrow> (watt_watt \<times> asset_cmd_object) option" where
  "ww_execute = (\<lambda>(f, a). case ww_execute_helper (site_kW_demand a) f of
       None \<Rightarrow> None | Some (d, f') \<Rightarrow> Some (f', a\<lparr>site_kW_demand := d\<rparr>))"

definition ww_handle_fims_set :: "input_source_list \<Rightarrow> string \<Rightarrow> cjson \<Rightarrow> watt_watt \<Rightarrow> watt_watt" where
  "ww_handle_fims_set srcs e msg f =
     (if is_bool_json msg \<and> available f then put_bool srcs e WW_enable_flag (msg \<noteq> JFalse) f else f)"

section \<open>The SET handlers keep the feature contract\<close>

lemma active_state_frame [handler_intros]:
  "feature_set_ok srcs e f f' \<Longrightarrow> feature_set_ok srcs e f (aps_kW_slew_update g f')"
  "feature_set_ok srcs e m m' \<Longrightarrow> feature_set_ok srcs e m (manual_solar_kW_slew_update g m')"
  "feature_set_ok srcs e m m' \<Longrightarrow> feature_set_ok srcs e m (manual_ess_kW_slew_update g m')"
  "feature_set_ok srcs e m m' \<Longrightarrow> feature_set_ok srcs e m (manual_gen_kW_slew_update g m')"
  by (simp_all add: feature_set_ok_def)

interpretation aps: fims_feature aps_handle_fims_set
  by standard (auto simp: aps_handle_fims_set_def Let_def split: cjson.splits intro!: handler_intros)

interpretation tsoc: fims_feature tsoc_handle_fims_set
  by standard (auto simp: tsoc_handle_fims_set_def intro!: handler_intros)

interpretation arb: fims_feature arb_handle_fims_set
  by standard (auto simp: arb_handle_fims_set_def Let_def split: cjson.splits intro!: handler_intros)

interpretation man: fims_feature man_handle_fims_set
  by standard (simp add: man_handle_fims_set_def Let_def split: cjson.split;
      intro conjI impI allI handler_intros)

interpretation cal: fims_feature cal_handle_fims_set
  by standard (auto simp: cal_handle_fims_set_def Let_def split: cjson.splits intro!: handler_intros)

interpretation ww: fims_feature ww_handle_fims_set
  by standard (auto simp: ww_handle_fims_set_def intro!: handler_intros)

section \<open>Active power setpoint: what the demand is\<close>

definition aps_command :: "active_power_setpoint \<Rightarrow> flt" where
  "aps_command f = (if bval APS_absolute_mode_flag f
     then (if bval APS_direction_flag f then - \<bar>fval APS_kW_cmd f\<bar> else \<bar>fval APS_kW_cmd f\<bar>)
     else fval APS_kW_cmd f)"

lemma vals_slew_update [simp]:
  "fval v (aps_kW_slew_update g f) = fval v f" "ival v (aps_kW_slew_update g f) = ival v f"
  "bval v (aps_kW_slew_update g f) = bval v f"
  by (simp_all add: fval_def ival_def bval_def)

lemma aps_slew_overwrite:
  "aps_kW_slew (f\<lparr>aps_kW_slew := s\<rparr>) = s" "f\<lparr>aps_kW_slew := s, aps_kW_slew := t\<rparr> = f\<lparr>aps_kW_slew := t\<rparr>"
  by simp_all

lemma aps_command_eq:
  "(if bval APS_absolute_mode_flag f then \<bar>fval APS_kW_cmd f\<bar> * (if bval APS_direction_flag f then -1 else 1)
    else fval APS_kW_cmd f) = aps_command f"
  by (simp add: aps_command_def)

lemma aps_execute_helper_eq:
  assumes "load_compensation_of_int (ival APS_load_method f) = Some meth"
    and sol: "sol = (if bval APS_maximize_solar_flag f then sm else sr)"
    and lcomp: "lcomp = calculate_additional_load_compensation meth load dem er gr sol"
    and d: "d = max (min (get_slew_target (aps_kW_slew f) (aps_command f + lcomp)) rd) rc"
    and s: "s = update_slew_target now d (sync_slew_rate (ival APS_kW_slew_rate f) (aps_kW_slew f))"
  shows "aps_execute_helper now sm load dem er gr sr rd rc f =
    (case track_slewed_load meth d (aps_command f + lcomp) lcomp s of None \<Rightarrow> None
     | Some addl \<Rightarrow> Some ((sol, aps_command f, meth, addl, d), f\<lparr>aps_kW_slew := s\<rparr>))"
  unfolding aps_execute_helper_def assms(1) option.case Let_def
  by (simp only: aps_slew_overwrite vals_slew_update aps_command_eq sol [symmetric] lcomp [symmetric]
      get_slew_target_sync d [symmetric] s [symmetric])

section \<open>Properties\<close>

lemma track_slewed_load_total:
  "meth = NO_COMPENSATION \<or> unslewed \<noteq> 0 \<Longrightarrow> \<exists>x. track_slewed_load meth d unslewed addl s = Some x"
  by (auto simp: track_slewed_load_def Let_def fdiv_def)

text \<open>Active power setpoint: for a valid load method, and as long as command and load compensation
  do not cancel to zero, the feature returns; the demand is the command plus the load
  compensation cut first to the slew window and then to the site's rating, the POI command is
  the signed command alone, and nothing but the solar request changes in the assets' data.\<close>

theorem aps_demand_exact:
  assumes "load_compensation_of_int (ival APS_load_method f) = Some meth"
    and "slew_min_value (aps_kW_slew f) \<le> current_value (aps_kW_slew f)"
      "current_value (aps_kW_slew f) \<le> slew_max_value (aps_kW_slew f)" "rc \<le> rd"
    and "sol = (if bval APS_maximize_solar_flag f then max_potential_kW (solar_data a) else kW_request (solar_data a))"
    and "lcomp = calculate_additional_load_compensation meth (site_kW_load a) (site_kW_demand a)
           (kW_request (ess_data a)) (kW_request (gen_data a)) sol"
    and "meth = NO_COMPENSATION \<or> aps_command f + lcomp \<noteq> 0"
  shows "\<exists>f' a'. aps_execute now rd rc (f, a) = Some (f', a') \<and>
    site_kW_demand a' = max rc (min rd (max (slew_min_value (aps_kW_slew f))
        (min (aps_command f + lcomp) (slew_max_value (aps_kW_slew f))))) \<and>
    rc \<le> site_kW_demand a' \<and> site_kW_demand a' \<le> rd \<and> poi_cmd a' = aps_command f \<and>
    solar_data a' = (solar_data a)\<lparr>kW_request := sol\<rparr> \<and>
    ess_data a' = ess_data a \<and> gen_data a' = gen_data a \<and> feeder_data a' = feeder_data a"
proof -
  have clamp: "get_slew_target (aps_kW_slew f) t = max (slew_min_value (aps_kW_slew f)) (min t (slew_max_value (aps_kW_slew f)))"
    for t using assms(2,3) by (intro get_slew_target_clamp) (simp add: slew_inv_def)
  define d where "d = max (min (get_slew_target (aps_kW_slew f) (aps_command f + lcomp)) rd) rc"
  define s where "s = update_slew_target now d (sync_slew_rate (ival APS_kW_slew_rate f) (aps_kW_slew f))"
  obtain addl where "track_slewed_load meth d (aps_command f + lcomp) lcomp s = Some addl"
    using track_slewed_load_total [OF assms(7)] by blast
  then have "aps_execute_helper now (max_potential_kW (solar_data a)) (site_kW_load a) (site_kW_demand a)
      (kW_request (ess_data a)) (kW_request (gen_data a)) (kW_request (solar_data a)) rd rc f =
      Some ((sol, aps_command f, meth, addl, d), f\<lparr>aps_kW_slew := s\<rparr>)"
    by (simp add: aps_execute_helper_eq [OF assms(1,5,6) d_def s_def])
  then have run: "aps_execute now rd rc (f, a) = Some (f\<lparr>aps_kW_slew := s\<rparr>,
      a\<lparr>solar_data := (solar_data a)\<lparr>kW_request := sol\<rparr>, poi_cmd := aps_command f, load_method := meth,
        additional_load_compensation := addl, site_kW_demand := d\<rparr>)"
    unfolding aps_execute_def by simp
  have d: "d = max rc (min rd (max (slew_min_value (aps_kW_slew f)) (min (aps_command f + lcomp) (slew_max_value (aps_kW_slew f)))))"
    by (simp only: d_def clamp max.commute [of _ rc] min.commute [of _ rd])
  have "rc \<le> d" "d \<le> rd" using assms(4) by (simp_all add: d_def)
  then show ?thesis unfolding d [symmetric] run by simp
qed

definition demo_aps :: active_power_setpoint where
  "demo_aps = \<lparr>available = True, vars = (\<lambda>v. demo_var ''x'' 0)(APS_kW_cmd := demo_var ''active_power_setpoint_kW_cmd'' 70,
       APS_kW_slew_rate := demo_var ''active_power_setpoint_kW_slew_rate'' 10),
     aps_kW_slew = (Slew_Object (mk_ts 0 0) (mk_ts 0 0))\<lparr>slew_max_value := 60, slew_min_value := -60\<rparr>\<rparr>"

lemma demo_aps_vals [simp]:
  "ival APS_load_method demo_aps = 0" "bval v demo_aps = False" "fval APS_kW_cmd demo_aps = 70"
  "aps_command demo_aps = 70" "slew_max_value (aps_kW_slew demo_aps) = 60"
  "slew_min_value (aps_kW_slew demo_aps) = -60" "current_value (aps_kW_slew demo_aps) = 0"
  by (simp_all add: demo_aps_def demo_var_def feature_ops set_float_def Slew_Object_def aps_command_def
      Value_Object_def c_trunc_def)

theorem aps_demand_exact_witness:
  "\<exists>f' a'. aps_execute (mk_ts 1 0) 50 (-100) (demo_aps, demo_site) = Some (f', a') \<and> site_kW_demand a' = 50"
  using aps_demand_exact [OF _ _ _ _ refl refl, of demo_aps NO_COMPENSATION "-100" 50 demo_site "mk_ts 1 0"]
  by (auto simp: load_compensation_of_int_def calculate_additional_load_compensation_def)

text \<open>Charge support lowers the storage command only as far as its charge potential allows and
  only as far as needed: afterwards the site is not overloaded or the storage is at its limit.\<close>

theorem charge_support_relieves:
  assumes "ess_min \<le> ess_cmd" "r = charge_support_execute_helper ess_cmd ess_min gen_min solar_min load f"
  shows "ess_min \<le> r \<and> r \<le> ess_cmd \<and>
    (r = ess_min \<or> gen_min + solar_min + r \<le> zero_check (load - fval APS_kW_cmd f)) \<and>
    (r < ess_cmd \<longrightarrow> zero_check (load - fval APS_kW_cmd f) \<le> gen_min + solar_min + r)"
  using assms by (auto simp: charge_support_execute_helper_def Let_def)

theorem charge_support_relieves_witness:
  "charge_support_execute_helper 0 (-50) 30 0 10 demo_aps = -30"
  using charge_support_relieves [of "-50" 0 "charge_support_execute_helper 0 (-50) 30 0 10 demo_aps" 30 0 10 demo_aps]
  by (simp add: demo_aps_def demo_var_def feature_ops set_float_def Value_Object_def charge_support_execute_helper_def Let_def utils_defs)

text \<open>Energy arbitrage follows the price: with thresholds in order it requests discharge only at or
  above the first discharge threshold and charge only at or below the first charge threshold,
  never more than the configured amounts; between the two it requests nothing.\<close>

theorem arbitrage_follows_price:
  assumes "arb_valid_pricing f"
    and "r = arb_ess_kW_request (arb_execute_helper er sr sm lm addl dem al soc load gr f)"
  shows "(0 < r \<longrightarrow> fval ARB_threshold_dischg_1 f \<le> fval ARB_price f) \<and>
    (r < 0 \<longrightarrow> fval ARB_price f \<le> fval ARB_threshold_charge_1 f) \<and>
    - max \<bar>fval ARB_max_charge_1 f\<bar> \<bar>fval ARB_max_charge_2 f\<bar> \<le> r \<and>
    r \<le> max \<bar>fval ARB_max_dischg_1 f\<bar> \<bar>fval ARB_max_dischg_2 f\<bar>"
proof -
  have "r = arb_price_request soc f" using assms by (simp add: arb_execute_helper_def Let_def)
  then show ?thesis using assms(1) by (auto simp: arb_price_request_def arb_valid_pricing_def)
qed

definition demo_arb :: energy_arbitrage where
  "demo_arb = \<lparr>available = True, vars = (\<lambda>v. demo_var ''x'' 0)(ARB_price := demo_var ''price'' 50,
     ARB_threshold_charge_2 := demo_var ''c2'' 10, ARB_threshold_charge_1 := demo_var ''c1'' 20,
     ARB_threshold_dischg_1 := demo_var ''d1'' 30, ARB_threshold_dischg_2 := demo_var ''d2'' 40,
     ARB_max_dischg_2 := demo_var ''m'' 500)\<rparr>"

theorem arbitrage_follows_price_witness:
  "arb_ess_kW_request (arb_execute_helper 0 0 20 NO_COMPENSATION 0 0 False 50 0 0 demo_arb) \<le> 500"
  using arbitrage_follows_price [OF _ refl, of demo_arb 0 0 20 NO_COMPENSATION 0 0 False 50 0 0]
  by (simp add: arb_valid_pricing_def demo_arb_def demo_var_def feature_ops set_float_def)

text \<open>Thresholds out of order make the feature report an alarm once and leave the asset requests alone;
  while the alarm is active the storage and the solar are held at zero.\<close>

theorem arbitrage_invalid_pricing:
  assumes "\<not> arb_valid_pricing f" "arb_execute soc alarms f a = (alarm, a')"
  shows "alarm = (\<not> alarms 3) \<and>
    (if alarms 3 then kW_request (ess_data a') = 0 \<and> kW_request (solar_data a') = 0 \<and> max_potential_kW (solar_data a') = 0
     else ess_data a' = ess_data a \<and> solar_data a' = solar_data a)"
  using assms by (auto simp: arb_execute_def arb_execute_helper_def Let_def)

theorem arbitrage_invalid_pricing_witness:
  "fst (arb_execute 50 (\<lambda>_. False) (demo_arb\<lparr>vars := (\<lambda>_. demo_var ''x'' 0)\<rparr>) demo_site)"
  using arbitrage_invalid_pricing [of "demo_arb\<lparr>vars := (\<lambda>_. demo_var ''x'' 0)\<rparr>" 50 "\<lambda>_. False" demo_site]
  by (metis (no_types, lifting) arb_valid_pricing_def feature.select_convs(2) feature.surjective
      feature.update_convs(2) fval_def less_irrefl prod.collapse)

text \<open>Manual mode leaves no headroom: no asset's potential exceeds what is requested of it, nor
  what it was before.\<close>

theorem manual_leaves_no_headroom:
  "let (f', a') = man_execute (f, a) in
     max_potential_kW (ess_data a') = min (max_potential_kW (ess_data a)) (zero_check (kW_request (ess_data a'))) \<and>
     max_potential_kW (solar_data a') = min (max_potential_kW (solar_data a)) (kW_request (solar_data a')) \<and>
     max_potential_kW (gen_data a') = min (max_potential_kW (gen_data a)) (kW_request (gen_data a')) \<and>
     feeder_data a' = feeder_data a \<and> site_kW_demand a' = site_kW_demand a"
  by (simp add: man_execute_def man_execute_helper_def Let_def split_beta)

text \<open>A sequence of SETs changes, of the setpoint feature's variables, only those one of its
  endpoints addresses, and never a variable's id, its input count or the feature's
  availability.\<close>

theorem aps_sets_are_local:
  assumes "\<forall>m \<in> set ms. \<not> hits srcs (fst m) (vars f v)"
  shows "vars (fold (\<lambda>(e, msg). aps_handle_fims_set srcs e msg) ms f) v = vars f v \<and>
    (\<forall>w. fims_frame (vars f w) (vars (fold (\<lambda>(e, msg). aps_handle_fims_set srcs e msg) ms f) w)) \<and>
    available (fold (\<lambda>(e, msg). aps_handle_fims_set srcs e msg) ms f) = available f"
  using aps.run_unaddressed [OF assms] aps.run_frame aps.run_available by blast

theorem aps_sets_are_local_witness:
  "vars (fold (\<lambda>(e, msg). aps_handle_fims_set demo_sources e msg)
     [(''active_power_setpoint_kW_cmd'', JNumber 5 5)] demo_aps) APS_direction_flag = demo_var ''x'' 0"
  using aps_sets_are_local [of "[(''active_power_setpoint_kW_cmd'', JNumber 5 5)]" demo_sources demo_aps APS_direction_flag]
  by (simp add: demo_aps_def demo_var_def demo_fims_def hits_def fims_set_def)

end
