(* ===== verification/Standalone_Features.thy ===== *)
theory Standalone_Features
  imports Features Regulator
begin

text \<open>
  The stand-alone features of run mode 1, which act on the demand of whichever feature is
  selected: the POI limits (active and reactive), the closed loop controls (active and
  reactive), the aggregated asset limit and the ESS discharge prevention.
\<close>

section \<open>Active power POI limits\<close>

datatype poi_var = POI_enable_flag | POI_max_kW | POI_min_kW | POI_soc_poi_limits_enable | POI_target_soc
  | POI_soc_low_min_kW | POI_soc_low_max_kW | POI_soc_high_min_kW | POI_soc_high_max_kW

type_synonym active_power_poi_limits = "poi_var feature"

definition poi_feature_vars :: "poi_var list" where
  "poi_feature_vars = [POI_max_kW, POI_min_kW, POI_soc_poi_limits_enable, POI_target_soc, POI_soc_low_min_kW,
     POI_soc_low_max_kW, POI_soc_high_min_kW, POI_soc_high_max_kW]"

definition poi_summary_vars :: "poi_var list" where
  "poi_summary_vars = [POI_max_kW, POI_min_kW]"

definition poi_variable_ids :: "(poi_var \<times> string) list" where
  "poi_variable_ids =
    [(POI_enable_flag, ''active_power_poi_limits_enable''), (POI_max_kW, ''active_power_poi_limits_max_kW''),
     (POI_min_kW, ''active_power_poi_limits_min_kW''),
     (POI_soc_poi_limits_enable, ''active_power_soc_poi_limits_enable''),
     (POI_target_soc, ''active_power_soc_poi_target_soc''),
     (POI_soc_low_min_kW, ''active_power_soc_poi_limits_low_min_kW''),
     (POI_soc_low_max_kW, ''active_power_soc_poi_limits_low_max_kW''),
     (POI_soc_high_min_kW, ''active_power_soc_poi_limits_high_min_kW''),
     (POI_soc_high_max_kW, ''active_power_soc_poi_limits_high_max_kW'')]"

text \<open>The maximum and minimum POI limit in force for the running state of charge.\<close>

definition poi_limits_in_force :: "flt \<Rightarrow> active_power_poi_limits \<Rightarrow> flt \<times> flt" where
  "poi_limits_in_force soc_avg_running f =
     (if bval POI_soc_poi_limits_enable f then
        if soc_avg_running \<le> fval POI_target_soc f
        then (fval POI_soc_low_max_kW f, fval POI_soc_low_min_kW f)
        else (fval POI_soc_high_max_kW f, fval POI_soc_high_min_kW f)
      else (fval POI_max_kW f, fval POI_min_kW f))"

text \<open>The two reported site limits are reference parameters: they are arguments and results.\<close>

definition poi_execute :: "flt \<Rightarrow> int \<Rightarrow> active_power_poi_limits \<Rightarrow> asset_cmd_object \<times> flt \<times> flt \<Rightarrow> asset_cmd_object \<times> flt \<times> flt" where
  "poi_execute soc_avg_running asset_priority_runmode1 f = (\<lambda>(a, total_site_kW_charge_limit, total_site_kW_discharge_limit).
     let (max_poi_limit, min_poi_limit) = poi_limits_in_force soc_avg_running f;
         a = a\<lparr>poi_cmd := range_check (poi_cmd a) max_poi_limit min_poi_limit\<rparr>;
         a = a\<lparr>feeder_data := (feeder_data a)\<lparr>max_potential_kW :=
               min (max_potential_kW (feeder_data a)) (-1 * min_poi_limit)\<rparr>\<rparr>;
         a = snd (determine_ess_load_requirement asset_priority_runmode1 a);
         min_limit_with_load = min_poi_limit + c_bool (get_site_kW_load_inclusion a) * site_kW_load a;
         max_limit_with_load = max_poi_limit + c_bool (get_site_kW_load_inclusion a) * site_kW_load a;
         a = a\<lparr>site_kW_demand := range_check (site_kW_demand a) max_limit_with_load min_limit_with_load\<rparr>
     in (a, range_check (total_site_kW_charge_limit + site_kW_load a) max_poi_limit min_poi_limit,
         range_check (total_site_kW_discharge_limit + site_kW_load a) max_poi_limit min_poi_limit))"

definition ui_var :: "'v \<Rightarrow> bool \<Rightarrow> ('v, 'm) feature_scheme \<Rightarrow> ('v, 'm) feature_scheme" where
  "ui_var v flag f = upd_var v (\<lambda>fo. fo\<lparr>ui_enabled := flag\<rparr>) f"

definition poi_toggle_ui_enabled :: "bool \<Rightarrow> active_power_poi_limits \<Rightarrow> active_power_poi_limits" where
  "poi_toggle_ui_enabled flag f =
     (let poi_limits_enabled_status = flag \<and> \<not> bval POI_soc_poi_limits_enable f;
          soc_limits_enabled_status = flag \<and> bval POI_soc_poi_limits_enable f;
          f = toggle_ui_enabled poi_feature_vars poi_limits_enabled_status f;
          f = ui_var POI_soc_poi_limits_enable flag f;
          f = ui_var POI_target_soc soc_limits_enabled_status f;
          f = ui_var POI_soc_low_min_kW soc_limits_enabled_status f;
          f = ui_var POI_soc_low_max_kW soc_limits_enabled_status f;
          f = ui_var POI_soc_high_min_kW soc_limits_enabled_status f
      in ui_var POI_soc_high_max_kW soc_limits_enabled_status f)"

definition poi_handle_fims_set :: "input_source_list \<Rightarrow> string \<Rightarrow> cjson \<Rightarrow> active_power_poi_limits \<Rightarrow> active_power_poi_limits" where
  "poi_handle_fims_set srcs e msg f = (case msg of
       JNumber d i \<Rightarrow>
         let f = put_float srcs e POI_max_kW \<bar>d\<bar> f;
             f = put_float srcs e POI_min_kW (-1 * \<bar>d\<bar>) f;
             f = put_float srcs e POI_target_soc \<bar>d\<bar> f;
             f = put_float srcs e POI_soc_low_min_kW (-1 * \<bar>d\<bar>) f;
             f = put_float srcs e POI_soc_low_max_kW \<bar>d\<bar> f;
             f = put_float srcs e POI_soc_high_min_kW (-1 * \<bar>d\<bar>) f
         in put_float srcs e POI_soc_high_max_kW \<bar>d\<bar> f
     | _ \<Rightarrow> if is_bool_json msg then
         let b = (msg \<noteq> JFalse);
             f = (if available f then put_bool srcs e POI_enable_flag b f else f)
         in put_bool srcs e POI_soc_poi_limits_enable b f
         else f)"

section \<open>Reactive power POI limits\<close>

datatype rpoi_var = RPOI_enable_flag | RPOI_min_kVAR | RPOI_max_kVAR

type_synonym reactive_power_poi_limits = "rpoi_var feature"

definition rpoi_feature_vars :: "rpoi_var list" where
  "rpoi_feature_vars = [RPOI_min_kVAR, RPOI_max_kVAR]"

definition rpoi_summary_vars :: "rpoi_var list" where
  "rpoi_summary_vars = [RPOI_min_kVAR, RPOI_max_kVAR]"

definition rpoi_variable_ids :: "(rpoi_var \<times> string) list" where
  "rpoi_variable_ids = [(RPOI_enable_flag, ''reactive_power_poi_limits_enable''),
     (RPOI_min_kVAR, ''reactive_power_poi_limits_min_kVAR''), (RPOI_max_kVAR, ''reactive_power_poi_limits_max_kVAR'')]"

definition rpoi_execute_helper :: "flt \<Rightarrow> reactive_power_poi_limits \<Rightarrow> flt" where
  "rpoi_execute_helper demand f = range_check demand (fval RPOI_max_kVAR f) (fval RPOI_min_kVAR f)"

definition rpoi_execute :: "reactive_power_poi_limits \<Rightarrow> asset_cmd_object \<Rightarrow> asset_cmd_object" where
  "rpoi_execute f a = a\<lparr>site_kVAR_demand := rpoi_execute_helper (site_kVAR_demand a) f\<rparr>"

definition rpoi_handle_fims_set :: "input_source_list \<Rightarrow> string \<Rightarrow> cjson \<Rightarrow> reactive_power_poi_limits \<Rightarrow> reactive_power_poi_limits" where
  "rpoi_handle_fims_set srcs e msg f = (case msg of
       JNumber d i \<Rightarrow>
         let f = put_float srcs e RPOI_min_kVAR (-1 * \<bar>d\<bar>) f
         in put_float srcs e RPOI_max_kVAR \<bar>d\<bar> f
     | _ \<Rightarrow> if is_bool_json msg \<and> available f then put_bool srcs e RPOI_enable_flag (msg \<noteq> JFalse) f else f)"

section \<open>Active power closed loop control\<close>

datatype cl_var = CL_enable_flag | CL_default_offset | CL_min_offset | CL_max_offset | CL_step_size_kW
  | CL_total_correction | CL_zero_bypass_enable | CL_zero_bypass_deadband_kW | CL_steady_state_deadband_kW
  | CL_regulation_deadband_kW | CL_update_rate_ms | CL_decrease_timer_ms | CL_increase_timer_ms
  | CL_manual_offset_kW

record closed_loop = "cl_var feature" +
  regulator :: variable_regulator
  prev_feature_cmd :: flt

definition cl_feature_vars :: "cl_var list" where
  "cl_feature_vars = [CL_step_size_kW, CL_default_offset, CL_min_offset, CL_max_offset, CL_total_correction,
     CL_zero_bypass_enable, CL_zero_bypass_deadband_kW, CL_steady_state_deadband_kW, CL_regulation_deadband_kW,
     CL_update_rate_ms, CL_decrease_timer_ms, CL_increase_timer_ms, CL_manual_offset_kW]"

definition cl_variable_ids :: "(cl_var \<times> string) list" where
  "cl_variable_ids =
    [(CL_enable_flag, ''active_power_closed_loop_enable''),
     (CL_default_offset, ''active_power_closed_loop_default_offset''),
     (CL_min_offset, ''active_power_closed_loop_min_offset''),
     (CL_max_offset, ''active_power_closed_loop_max_offset''),
     (CL_step_size_kW, ''active_power_closed_loop_step_size_kW''),
     (CL_total_correction, ''active_power_closed_loop_total_correction''),
     (CL_zero_bypass_enable, ''active_power_closed_loop_zero_bypass_enable''),
     (CL_zero_bypass_deadband_kW, ''active_power_closed_loop_zero_bypass_deadband_kW''),
     (CL_steady_state_deadband_kW, ''active_power_closed_loop_steady_state_deadband_kW''),
     (CL_regulation_deadband_kW, ''active_power_closed_loop_regulation_deadband_kW''),
     (CL_update_rate_ms, ''active_power_closed_loop_update_rate_ms''),
     (CL_decrease_timer_ms, ''active_power_closed_loop_decrease_timer_ms''),
     (CL_increase_timer_ms, ''active_power_closed_loop_increase_timer_ms''),
     (CL_manual_offset_kW, ''_active_power_closed_loop_manual_offset_kW'')]"

text \<open>
  The regulator's limits for this call: the configured ones, tightened by the steps that the
  power still available in either direction allows.
\<close>

definition limit_regulator :: "int \<Rightarrow> int \<Rightarrow> flt \<Rightarrow> flt \<Rightarrow> flt \<Rightarrow> variable_regulator \<Rightarrow> variable_regulator" where
  "limit_regulator lo hi negative_power_available positive_power_available step_size r =
     (let r = r\<lparr>min_offset := lo, max_offset := hi\<rparr>;
          min_allowable_offset = c_trunc (negative_power_available / step_size);
          max_allowable_offset = c_trunc (positive_power_available / step_size);
          r = (if min_offset r < min_allowable_offset then r\<lparr>min_offset := min_allowable_offset\<rparr> else r)
      in if max_offset r > max_allowable_offset then r\<lparr>max_offset := max_allowable_offset\<rparr> else r)"

text \<open>The regulation step both closed loops share: regulate, then pull the offset into the limits.\<close>

definition regulate_and_bound :: "timespec \<Rightarrow> flt \<Rightarrow> flt \<Rightarrow> variable_regulator \<Rightarrow> bool \<times> variable_regulator" where
  "regulate_and_bound now base_input regulation_input r =
     (let (command_accepted, r) = regulate_variable_offset now base_input regulation_input r
      in (command_accepted, r\<lparr>offset := range_check_int (offset r) (max_offset r) (min_offset r)\<rparr>))"

text \<open>The outputs: charge and discharge production, total correction, demand, feeder potential.\<close>

definition cl_execute_helper ::
    "timespec \<Rightarrow> flt \<Rightarrow> flt \<Rightarrow> flt \<Rightarrow> flt \<Rightarrow> flt \<Rightarrow> flt \<Rightarrow> flt \<Rightarrow> load_compensation \<Rightarrow> flt \<Rightarrow> flt \<Rightarrow> flt \<Rightarrow> flt \<Rightarrow>
     closed_loop \<Rightarrow> (flt \<times> flt \<times> flt \<times> flt \<times> flt) \<times> closed_loop" where
  "cl_execute_helper now demand addl poi feeder_actual_kW ess_req gen_req solar_req meth feature_demand
       rated_charge rated_discharge feeder_max f =
     (let current_cmd = demand - addl;
          current_cmd = (if poi \<noteq> 0 then poi else current_cmd);
          poi_value = -1 * feeder_actual_kW;
          (chg, dis) = calculate_site_kW_production_limits ess_req gen_req solar_req meth addl feature_demand demand
      in if bval CL_zero_bypass_enable f \<and> \<bar>current_cmd\<bar> \<le> \<bar>fval CL_zero_bypass_deadband_kW f\<bar>
         then ((chg, dis, 0, demand, max feeder_max current_cmd), f\<lparr>regulator := (regulator f)\<lparr>offset := 0\<rparr>\<rparr>)
         else
           let f = (if fval CL_step_size_kW f = 0 then assign_float CL_step_size_kW 1 f else f);
               negative_charge_increase = less_than_zero_check (rated_charge - chg);
               negative_discharge_decrease = min rated_discharge dis;
               negative_power_available = negative_charge_increase - negative_discharge_decrease;
               positive_charge_decrease = max rated_charge chg;
               positive_discharge_increase = zero_check (rated_discharge - dis);
               positive_power_available = positive_discharge_increase - positive_charge_decrease;
               r = limit_regulator (ival CL_min_offset f) (ival CL_max_offset f)
                     negative_power_available positive_power_available (fval CL_step_size_kW f) (regulator f);
               (command_accepted, r) = regulate_and_bound now \<bar>current_cmd - prev_feature_cmd f\<bar> (poi_value - current_cmd) r;
               f = f\<lparr>regulator := r\<rparr>;
               new_total_correction = fval CL_manual_offset_kW f + of_int (offset r) * fval CL_step_size_kW f;
               new_demand = demand + new_total_correction;
               new_feeder_max = max feeder_max (current_cmd * -1 + zero_check (-1 * new_total_correction));
               f = (if command_accepted then f\<lparr>prev_feature_cmd := current_cmd\<rparr> else f)
           in ((chg, dis, new_total_correction, new_demand, new_feeder_max), f))"

definition cl_execute :: "timespec \<Rightarrow> flt \<Rightarrow> flt \<Rightarrow> flt \<Rightarrow> closed_loop \<times> asset_cmd_object \<Rightarrow> closed_loop \<times> asset_cmd_object" where
  "cl_execute now feeder_actual_kW rated_charge rated_discharge = (\<lambda>(f, a).
     case cl_execute_helper now (site_kW_demand a) (additional_load_compensation a) (poi_cmd a) feeder_actual_kW
            (kW_request (ess_data a)) (kW_request (gen_data a)) (kW_request (solar_data a)) (load_method a)
            (feature_kW_demand a) rated_charge rated_discharge (max_potential_kW (feeder_data a)) f of
       ((chg, dis, corr, dem, fmax), f') \<Rightarrow>
         (assign_float CL_total_correction corr f',
          a\<lparr>site_kW_charge_production := chg, site_kW_discharge_production := dis, site_kW_demand := dem,
            feeder_data := (feeder_data a)\<lparr>max_potential_kW := fmax\<rparr>\<rparr>))"

definition cl_handle_fims_set :: "input_source_list \<Rightarrow> string \<Rightarrow> cjson \<Rightarrow> closed_loop \<Rightarrow> closed_loop" where
  "cl_handle_fims_set srcs e msg f = (case msg of
       JNumber d i \<Rightarrow>
         let f = put_float srcs e CL_manual_offset_kW d f;
             f = put_int srcs e CL_min_offset (-1 * \<bar>i\<bar>) f;
             f = put_int srcs e CL_max_offset \<bar>i\<bar> f;
             f = put_float srcs e CL_step_size_kW \<bar>d\<bar> f;
             f = put_float srcs e CL_zero_bypass_deadband_kW \<bar>d\<bar> f;
             f = put_float srcs e CL_steady_state_deadband_kW \<bar>d\<bar> f
         in put_float srcs e CL_regulation_deadband_kW \<bar>d\<bar> f
     | _ \<Rightarrow> if is_bool_json msg \<and> available f then
         let b = (msg \<noteq> JFalse)
         in put_bool srcs e CL_zero_bypass_enable b (put_bool srcs e CL_enable_flag b f)
         else f)"

section \<open>Reactive power closed loop control\<close>

text \<open>
  The class has the same variables without the manual offset; its step size and deadbands keep
  the names of the active feature in the source although they are in kVAR.
\<close>

datatype rcl_var = RCL_enable_flag | RCL_default_offset | RCL_min_offset | RCL_max_offset | RCL_step_size_kW
  | RCL_total_correction | RCL_zero_bypass_enable | RCL_zero_bypass_deadband_kVAR | RCL_steady_state_deadband_kW
  | RCL_regulation_deadband_kW | RCL_update_rate_ms | RCL_decrease_timer_ms | RCL_increase_timer_ms

record reactive_closed_loop = "rcl_var feature" +
  rcl_regulator :: variable_regulator
  prev_reactive_power_feature_cmd :: flt

definition rcl_feature_vars :: "rcl_var list" where
  "rcl_feature_vars = [RCL_step_size_kW, RCL_default_offset, RCL_min_offset, RCL_max_offset, RCL_total_correction,
     RCL_zero_bypass_enable, RCL_zero_bypass_deadband_kVAR, RCL_steady_state_deadband_kW, RCL_regulation_deadband_kW,
     RCL_update_rate_ms, RCL_decrease_timer_ms, RCL_increase_timer_ms]"

definition rcl_variable_ids :: "(rcl_var \<times> string) list" where
  "rcl_variable_ids =
    [(RCL_enable_flag, ''reactive_power_closed_loop_enable''),
     (RCL_default_offset, ''reactive_power_closed_loop_default_offset''),
     (RCL_min_offset, ''reactive_power_closed_loop_min_offset''),
     (RCL_max_offset, ''reactive_power_closed_loop_max_offset''),
     (RCL_step_size_kW, ''reactive_power_closed_loop_step_size_kVAR''),
     (RCL_total_correction, ''reactive_power_closed_loop_total_correction''),
     (RCL_zero_bypass_enable, ''reactive_power_closed_loop_zero_bypass_enable''),
     (RCL_zero_bypass_deadband_kVAR, ''reactive_power_closed_loop_zero_bypass_deadband_kVAR''),
     (RCL_steady_state_deadband_kW, ''reactive_power_closed_loop_steady_state_deadband_kVAR''),
     (RCL_regulation_deadband_kW, ''reactive_power_closed_loop_regulation_deadband_kVAR''),
     (RCL_update_rate_ms, ''reactive_power_closed_loop_update_rate_ms''),
     (RCL_decrease_timer_ms, ''reactive_power_closed_loop_decrease_timer_ms''),
     (RCL_increase_timer_ms, ''reactive_power_closed_loop_increase_timer_ms'')]"

definition rcl_init :: "reactive_closed_loop \<Rightarrow> reactive_closed_loop" where
  "rcl_init f =
     (let r = (rcl_regulator f)\<lparr>min_offset := ival RCL_min_offset f, max_offset := ival RCL_max_offset f,
                offset := ival RCL_default_offset f, default_offset := ival RCL_default_offset f\<rparr>;
          f = store_int RCL_update_rate_ms (max (ival RCL_update_rate_ms f) 10) f;
          r = set_update_rate (1000 / of_int (ival RCL_update_rate_ms f)) r;
          r = set_default_condition (fval RCL_steady_state_deadband_kW f) VALUE_ABOVE r;
          r = set_control_high_threshold (fval RCL_regulation_deadband_kW f) r;
          r = set_decrease_timer_duration_ms (ival RCL_decrease_timer_ms f) r;
          r = set_control_low_threshold (-1 * fval RCL_regulation_deadband_kW f) r;
          r = set_increase_timer_duration_ms (ival RCL_increase_timer_ms f) r
      in f\<lparr>rcl_regulator := r\<rparr>)"

definition rcl_execute_helper :: "timespec \<Rightarrow> flt \<Rightarrow> flt \<Rightarrow> flt \<Rightarrow> flt \<Rightarrow> reactive_closed_loop \<Rightarrow> flt \<times> reactive_closed_loop" where
  "rcl_execute_helper now feeder_actual_kVAR demand rated_charge rated_discharge f =
     (let poi_value = -1 * feeder_actual_kVAR;
          current_cmd = demand
      in if bval RCL_zero_bypass_enable f \<and> \<bar>current_cmd\<bar> \<le> \<bar>fval RCL_zero_bypass_deadband_kVAR f\<bar>
         then (demand, store_float RCL_total_correction 0 (f\<lparr>rcl_regulator := (rcl_regulator f)\<lparr>offset := 0\<rparr>\<rparr>))
         else
           let f = (if fval RCL_step_size_kW f = 0 then assign_float RCL_step_size_kW 1 f else f);
               negative_charge_increase = less_than_zero_check (rated_charge - current_cmd);
               negative_discharge_decrease = min rated_discharge (zero_check current_cmd);
               negative_power_available = negative_charge_increase - negative_discharge_decrease;
               positive_charge_decrease = max rated_charge (less_than_zero_check current_cmd);
               positive_discharge_increase = zero_check (rated_discharge - current_cmd);
               positive_power_available = positive_discharge_increase - positive_charge_decrease;
               r = limit_regulator (ival RCL_min_offset f) (ival RCL_max_offset f)
                     negative_power_available positive_power_available (fval RCL_step_size_kW f) (rcl_regulator f);
               (command_accepted, r) = regulate_and_bound now \<bar>current_cmd - prev_reactive_power_feature_cmd f\<bar> (poi_value - current_cmd) r;
               f = f\<lparr>rcl_regulator := r\<rparr>;
               f = store_float RCL_total_correction (of_int (offset r) * fval RCL_step_size_kW f) f;
               new_demand = demand + fval RCL_total_correction f;
               f = (if command_accepted then f\<lparr>prev_reactive_power_feature_cmd := current_cmd\<rparr> else f)
           in (new_demand, f))"

definition rcl_execute :: "timespec \<Rightarrow> flt \<Rightarrow> flt \<Rightarrow> flt \<Rightarrow> reactive_closed_loop \<times> asset_cmd_object \<Rightarrow> reactive_closed_loop \<times> asset_cmd_object" where
  "rcl_execute now feeder_actual_kVAR rated_charge rated_discharge = (\<lambda>(f, a).
     case rcl_execute_helper now feeder_actual_kVAR (site_kVAR_demand a) rated_charge rated_discharge f of
       (d, f') \<Rightarrow> (f', a\<lparr>site_kVAR_demand := d\<rparr>))"

definition rcl_handle_fims_set :: "input_source_list \<Rightarrow> string \<Rightarrow> cjson \<Rightarrow> reactive_closed_loop \<Rightarrow> reactive_closed_loop" where
  "rcl_handle_fims_set srcs e msg f = (case msg of
       JNumber d i \<Rightarrow>
         let f = put_int srcs e RCL_min_offset (-1 * \<bar>i\<bar>) f;
             f = put_int srcs e RCL_max_offset \<bar>i\<bar> f;
             f = put_float srcs e RCL_step_size_kW \<bar>d\<bar> f;
             f = put_float srcs e RCL_zero_bypass_deadband_kVAR \<bar>d\<bar> f;
             f = put_float srcs e RCL_steady_state_deadband_kW \<bar>d\<bar> f
         in put_float srcs e RCL_regulation_deadband_kW \<bar>d\<bar> f
     | _ \<Rightarrow> if is_bool_json msg \<and> available f then
         let b = (msg \<noteq> JFalse)
         in put_bool srcs e RCL_zero_bypass_enable b (put_bool srcs e RCL_enable_flag b f)
         else f)"

section \<open>Aggregated asset limit\<close>

datatype aal_var = AAL_enable_flag | AAL_agg_asset_limit_kw

type_synonym aggregated_asset_limit = "aal_var feature"

definition aal_feature_vars :: "aal_var list" where
  "aal_feature_vars = [AAL_agg_asset_limit_kw]"

definition aal_variable_ids :: "(aal_var \<times> string) list" where
  "aal_variable_ids = [(AAL_enable_flag, ''agg_asset_limit_enable''), (AAL_agg_asset_limit_kw, ''agg_asset_limit_kw'')]"

text \<open>
  The quantities the two ESS limit features read and write: the site manager's copy of the ESS
  potentials, the command object's copy, and the discharge limit of the whole site.
\<close>

record ess_limits =
  sm_max_potential_ess_kW :: flt
  cmd_ess_max_potential_kW :: flt
  sm_min_potential_ess_kW :: flt
  cmd_ess_min_potential_kW :: flt
  total_asset_kW_discharge_limit :: flt

definition aal_execute_helper :: "flt \<Rightarrow> flt \<Rightarrow> flt \<Rightarrow> flt \<Rightarrow> aggregated_asset_limit \<Rightarrow> ess_limits \<Rightarrow> ess_limits" where
  "aal_execute_helper solar_actual_kW uncontrolled_solar_kW uncontrolled_ess_kW ess_total_kW_discharge_limit f l =
     (let out = l;
          solar_power = solar_actual_kW + uncontrolled_solar_kW;
          ess_limit = zero_check (fval AAL_agg_asset_limit_kw f - solar_power - uncontrolled_ess_kW)
      in if ess_limit < cmd_ess_max_potential_kW l then
           let out = out\<lparr>sm_max_potential_ess_kW := zero_check ess_limit\<rparr>;
               out = out\<lparr>cmd_ess_max_potential_kW := sm_max_potential_ess_kW out\<rparr>;
               out = out\<lparr>total_asset_kW_discharge_limit :=
                       total_asset_kW_discharge_limit out - (ess_total_kW_discharge_limit + ess_limit)\<rparr>
           in if cmd_ess_min_potential_kW out > sm_max_potential_ess_kW out then
                let out = out\<lparr>sm_min_potential_ess_kW := sm_max_potential_ess_kW out\<rparr>
                in out\<lparr>cmd_ess_min_potential_kW := sm_min_potential_ess_kW out\<rparr>
              else out
         else out)"

definition limits_of :: "asset_cmd_object \<Rightarrow> flt \<Rightarrow> flt \<Rightarrow> flt \<Rightarrow> ess_limits" where
  "limits_of a sm_max sm_min tot = \<lparr>sm_max_potential_ess_kW = sm_max,
     cmd_ess_max_potential_kW = max_potential_kW (ess_data a), sm_min_potential_ess_kW = sm_min,
     cmd_ess_min_potential_kW = min_potential_kW (ess_data a), total_asset_kW_discharge_limit = tot\<rparr>"

definition write_limits :: "ess_limits \<Rightarrow> asset_cmd_object \<Rightarrow> asset_cmd_object \<times> flt \<times> flt \<times> flt" where
  "write_limits l a = (a\<lparr>ess_data := (ess_data a)\<lparr>max_potential_kW := cmd_ess_max_potential_kW l,
       min_potential_kW := cmd_ess_min_potential_kW l\<rparr>\<rparr>,
     sm_max_potential_ess_kW l, sm_min_potential_ess_kW l, total_asset_kW_discharge_limit l)"

definition aal_execute :: "flt \<Rightarrow> flt \<Rightarrow> flt \<Rightarrow> aggregated_asset_limit \<Rightarrow> asset_cmd_object \<times> flt \<times> flt \<times> flt \<Rightarrow>
    asset_cmd_object \<times> flt \<times> flt \<times> flt" where
  "aal_execute uncontrolled_ess_kW uncontrolled_solar_kW ess_total_kW_discharge_limit f = (\<lambda>(a, sm_max, sm_min, tot).
     write_limits (aal_execute_helper (actual_kW (solar_data a)) uncontrolled_solar_kW uncontrolled_ess_kW
       ess_total_kW_discharge_limit f (limits_of a sm_max sm_min tot)) a)"

definition aal_handle_fims_set :: "input_source_list \<Rightarrow> string \<Rightarrow> cjson \<Rightarrow> aggregated_asset_limit \<Rightarrow> aggregated_asset_limit" where
  "aal_handle_fims_set srcs e msg f =
     (if is_bool_json msg \<and> available f then put_bool srcs e AAL_enable_flag (msg \<noteq> JFalse) f else f)"

section \<open>ESS discharge prevention\<close>

datatype edp_var = EDP_enable_flag | EDP_soc

type_synonym ess_discharge_prevention = "edp_var feature"

definition edp_feature_vars :: "edp_var list" where
  "edp_feature_vars = [EDP_soc]"

definition edp_variable_ids :: "(edp_var \<times> string) list" where
  "edp_variable_ids = [(EDP_enable_flag, ''ess_discharge_prevention_enable''), (EDP_soc, ''ess_discharge_prevention_soc'')]"

definition edp_execute_helper :: "flt \<Rightarrow> flt \<Rightarrow> ess_discharge_prevention \<Rightarrow> ess_limits \<Rightarrow> ess_limits" where
  "edp_execute_helper soc_avg_running ess_total_kW_discharge_limit f l =
     (let out = l in
      if soc_avg_running \<le> fval EDP_soc f then
        let out = (if cmd_ess_max_potential_kW l > 0 then
                     out\<lparr>sm_max_potential_ess_kW := 0, cmd_ess_max_potential_kW := 0,
                         total_asset_kW_discharge_limit :=
                           total_asset_kW_discharge_limit out - ess_total_kW_discharge_limit\<rparr>
                   else out)
        in if cmd_ess_min_potential_kW l > 0
           then out\<lparr>sm_min_potential_ess_kW := 0, cmd_ess_min_potential_kW := 0\<rparr> else out
      else out)"

definition edp_execute :: "flt \<Rightarrow> flt \<Rightarrow> ess_discharge_prevention \<Rightarrow> asset_cmd_object \<times> flt \<times> flt \<times> flt \<Rightarrow>
    asset_cmd_object \<times> flt \<times> flt \<times> flt" where
  "edp_execute soc_avg_running ess_total_kW_discharge_limit f = (\<lambda>(a, sm_max, sm_min, tot).
     write_limits (edp_execute_helper soc_avg_running ess_total_kW_discharge_limit f (limits_of a sm_max sm_min tot)) a)"

definition edp_handle_fims_set :: "input_source_list \<Rightarrow> string \<Rightarrow> cjson \<Rightarrow> ess_discharge_prevention \<Rightarrow> ess_discharge_prevention" where
  "edp_handle_fims_set srcs e msg f = (case msg of
       JNumber d i \<Rightarrow> put_float srcs e EDP_soc (range_check d 100 0) f
     | _ \<Rightarrow> if is_bool_json msg \<and> available f then put_bool srcs e EDP_enable_flag (msg \<noteq> JFalse) f else f)"

section \<open>The SET handlers keep the feature contract\<close>

lemma standalone_bool_json [simp]: "is_bool_json JTrue" "is_bool_json JFalse" "\<not> is_bool_json JNull"
  "\<not> is_bool_json (JNumber d i)" "\<not> is_bool_json (JString s)"
  by (simp_all add: is_bool_json_def)

interpretation poi: fims_feature poi_handle_fims_set
  by standard (simp add: poi_handle_fims_set_def Let_def split: cjson.split; intro conjI impI allI handler_intros)

interpretation rpoi: fims_feature rpoi_handle_fims_set
  by standard (simp add: rpoi_handle_fims_set_def Let_def split: cjson.split; intro conjI impI allI handler_intros)

interpretation cl: fims_feature cl_handle_fims_set
  by standard (simp add: cl_handle_fims_set_def Let_def split: cjson.split; intro conjI impI allI handler_intros)

interpretation rcl: fims_feature rcl_handle_fims_set
  by standard (simp add: rcl_handle_fims_set_def Let_def split: cjson.split; intro conjI impI allI handler_intros)

interpretation aal: fims_feature aal_handle_fims_set
  by standard (simp add: aal_handle_fims_set_def; intro conjI impI allI handler_intros)

interpretation edp: fims_feature edp_handle_fims_set
  by standard (simp add: edp_handle_fims_set_def Let_def split: cjson.split; intro conjI impI allI handler_intros)

section \<open>The POI limits\<close>

lemma determine_ess_load_requirement_frame [frame_simps]:
  "poi_cmd (snd (determine_ess_load_requirement p a)) = poi_cmd a"
  "feeder_data (snd (determine_ess_load_requirement p a)) = feeder_data a"
  "site_kW_load (snd (determine_ess_load_requirement p a)) = site_kW_load a"
  "load_method (snd (determine_ess_load_requirement p a)) = load_method a"
proof -
  have loop: "poi_cmd (snd (ess_load_loop ks u b)) = poi_cmd b \<and> feeder_data (snd (ess_load_loop ks u b)) = feeder_data b \<and>
      site_kW_load (snd (ess_load_loop ks u b)) = site_kW_load b \<and> load_method (snd (ess_load_loop ks u b)) = load_method b"
    for ks u b by (induction ks u b rule: ess_load_loop.induct) (simp_all add: Let_def set_production_limits_def)
  show "poi_cmd (snd (determine_ess_load_requirement p a)) = poi_cmd a"
    "feeder_data (snd (determine_ess_load_requirement p a)) = feeder_data a"
    "site_kW_load (snd (determine_ess_load_requirement p a)) = site_kW_load a"
    "load_method (snd (determine_ess_load_requirement p a)) = load_method a"
    by (simp_all add: determine_ess_load_requirement_def Let_def loop) (simp_all add: set_production_limits_def)
qed

lemma range_check_shift:
  "lo \<le> hi \<Longrightarrow> lo \<le> range_check v (hi + x) (lo + x) - x \<and> range_check v (hi + x) (lo + x) - x \<le> hi"
  by (simp add: range_check_def)

lemma poi_execute_limits:
  assumes "poi_limits_in_force soc f = (hi, lo)" "lo \<le> hi" "poi_execute soc p f (a, c, d) = (a', c', d')"
  shows "lo \<le> poi_cmd a' \<and> poi_cmd a' \<le> hi"
    "lo \<le> site_kW_demand a' - c_bool (get_site_kW_load_inclusion a') * site_kW_load a'"
    "site_kW_demand a' - c_bool (get_site_kW_load_inclusion a') * site_kW_load a' \<le> hi"
    "max_potential_kW (feeder_data a') \<le> - lo"
    "lo \<le> c' \<and> c' \<le> hi" "lo \<le> d' \<and> d' \<le> hi"
  using assms(3) range_check_bounds [OF assms(2)] range_check_shift [OF assms(2)]
  by (auto simp: poi_execute_def assms(1) Let_def frame_simps get_site_kW_load_inclusion_def)

text \<open>Limits of the right sign, which every SET keeps because the handler takes absolute values.\<close>

definition poi_signs :: "active_power_poi_limits \<Rightarrow> bool" where
  "poi_signs f \<longleftrightarrow> fval POI_min_kW f \<le> 0 \<and> 0 \<le> fval POI_max_kW f \<and>
     fval POI_soc_low_min_kW f \<le> 0 \<and> 0 \<le> fval POI_soc_low_max_kW f \<and>
     fval POI_soc_high_min_kW f \<le> 0 \<and> 0 \<le> fval POI_soc_high_max_kW f"

definition poi_set_step :: "input_source_list \<times> string \<times> cjson \<Rightarrow> active_power_poi_limits \<Rightarrow> active_power_poi_limits" where
  "poi_set_step m f = (case m of (srcs, e, msg) \<Rightarrow> poi_handle_fims_set srcs e msg f)"

lemma poi_signs_handle: "poi_signs f \<Longrightarrow> poi_signs (poi_handle_fims_set srcs e msg f)"
  by (cases msg) (simp_all add: poi_handle_fims_set_def poi_signs_def Let_def)

interpretation poi_sets: machine poi_set_step poi_signs
  by standard (simp add: poi_set_step_def poi_signs_handle split: prod.splits)

lemma poi_signs_in_force: "poi_signs f \<Longrightarrow> poi_limits_in_force soc f = (hi, lo) \<Longrightarrow> lo \<le> 0 \<and> 0 \<le> hi"
  by (auto simp: poi_signs_def poi_limits_in_force_def split: if_splits)

section \<open>The closed loops\<close>

lemma cl_vals [simp]:
  "fval v (regulator_update g f) = fval v f" "fval v (prev_feature_cmd_update h f) = fval v f"
  "ival v (regulator_update g f) = ival v f" "bval v (regulator_update g f) = bval v f"
  by (simp_all add: fval_def ival_def bval_def)

lemma rcl_vals [simp]:
  "fval v (rcl_regulator_update g f) = fval v f" "ival v (rcl_regulator_update g f) = ival v f"
  "bval v (rcl_regulator_update g f) = bval v f"
  by (simp_all add: fval_def ival_def bval_def)

lemma rcl_state [simp]:
  "rcl_regulator (store_float v x f) = rcl_regulator f" "rcl_regulator (assign_float v x f) = rcl_regulator f"
  by (simp_all add: store_float_def assign_float_def upd_var_def)

lemma limit_regulator_bounds:
  assumes "0 < st" "lo \<le> 0" "0 \<le> hi" "neg \<le> 0" "0 \<le> pos" "r' = limit_regulator lo hi neg pos st r"
  shows "min_offset r' \<le> 0" "0 \<le> max_offset r'" "lo \<le> min_offset r'" "max_offset r' \<le> hi"
    "neg \<le> of_int (min_offset r') * st" "of_int (max_offset r') * st \<le> pos"
proof -
  have n: "neg / st \<le> of_int (c_trunc (neg / st))" "c_trunc (neg / st) \<le> 0"
    using assms(1,4) by (simp_all add: c_trunc_ge_self divide_nonpos_pos)
  have p: "of_int (c_trunc (pos / st)) \<le> pos / st" "0 \<le> c_trunc (pos / st)"
    using assms(1,5) by (simp_all add: c_trunc_le_self)
  have mn: "min_offset r' = max lo (c_trunc (neg / st))" and mx: "max_offset r' = min hi (c_trunc (pos / st))"
    using assms(6) by (auto simp: limit_regulator_def Let_def)
  show "min_offset r' \<le> 0" "0 \<le> max_offset r'" "lo \<le> min_offset r'" "max_offset r' \<le> hi"
    using mn mx n(2) p(2) assms(2,3) by auto
  have "of_int (c_trunc (neg / st)) \<le> (of_int (min_offset r') :: real)" by (simp add: mn)
  with n(1) have "neg / st \<le> of_int (min_offset r')" by linarith
  with assms(1) show "neg \<le> of_int (min_offset r') * st" by (simp add: divide_le_eq)
  have "(of_int (max_offset r') :: real) \<le> of_int (c_trunc (pos / st))" by (simp add: mx)
  with p(1) have "of_int (max_offset r') \<le> pos / st" by linarith
  with assms(1) show "of_int (max_offset r') * st \<le> pos" by (simp add: le_divide_eq)
qed

lemma regulate_and_bound_limits:
  assumes "regulate_and_bound now b v r = (acc, r')" "min_offset r \<le> max_offset r"
  shows "min_offset r \<le> offset r' \<and> offset r' \<le> max_offset r"
  using assms range_check_int_bounds [OF assms(2)]
  by (auto simp: regulate_and_bound_def regulate_frame Let_def split_beta)

lemma regulated_correction:
  assumes "0 < st" "lo \<le> 0" "0 \<le> hi" "neg \<le> 0" "0 \<le> pos"
    and "regulate_and_bound now b v (limit_regulator lo hi neg pos st r) = (acc, r')"
  shows "neg \<le> of_int (offset r') * st \<and> of_int (offset r') * st \<le> pos \<and> lo \<le> offset r' \<and> offset r' \<le> hi"
proof -
  note b = limit_regulator_bounds [OF assms(1-5) refl, of r]
  have o: "min_offset (limit_regulator lo hi neg pos st r) \<le> offset r'"
    "offset r' \<le> max_offset (limit_regulator lo hi neg pos st r)"
    using regulate_and_bound_limits [OF assms(6)] b(1,2) by linarith+
  have "of_int (min_offset (limit_regulator lo hi neg pos st r)) * st \<le> of_int (offset r') * st"
    "of_int (offset r') * st \<le> of_int (max_offset (limit_regulator lo hi neg pos st r)) * st"
    using o assms(1) by (simp_all add: mult_right_mono)
  then show ?thesis using b o by linarith
qed

section \<open>Properties\<close>

text \<open>C27. The POI limits hold whatever SETs were received: starting from limits of the right sign, after
  any sequence of SETs the feature leaves the POI command, the demand without the included
  load, and both reported site limits within the limits in force, and the feeder's potential
  within the import limit.\<close>

theorem poi_limits_always_hold:
  assumes "poi_signs f" "poi_limits_in_force soc (fold poi_set_step ms f) = (hi, lo)"
    and "poi_execute soc p (fold poi_set_step ms f) (a, c, d) = (a', c', d')"
  shows "lo \<le> 0 \<and> 0 \<le> hi \<and> lo \<le> poi_cmd a' \<and> poi_cmd a' \<le> hi \<and>
    lo \<le> site_kW_demand a' - c_bool (get_site_kW_load_inclusion a') * site_kW_load a' \<and>
    site_kW_demand a' - c_bool (get_site_kW_load_inclusion a') * site_kW_load a' \<le> hi \<and>
    max_potential_kW (feeder_data a') \<le> - lo \<and> lo \<le> c' \<and> c' \<le> hi \<and> lo \<le> d' \<and> d' \<le> hi"
proof -
  have "lo \<le> 0 \<and> 0 \<le> hi" using poi_signs_in_force [OF poi_sets.run_inv [OF assms(1)] assms(2)] .
  then show ?thesis using poi_execute_limits [OF assms(2) _ assms(3)] by simp
qed

definition demo_poi :: active_power_poi_limits where
  "demo_poi = \<lparr>available = True, vars = (\<lambda>v. demo_var ''x'' 0)(POI_max_kW := demo_var ''max'' 30,
     POI_min_kW := demo_var ''min'' (-20))\<rparr>"

lemma demo_poi_vals: "poi_signs demo_poi" "poi_limits_in_force soc (fold poi_set_step [] demo_poi) = (30, -20)"
  by (simp_all add: poi_signs_def poi_limits_in_force_def demo_poi_def demo_var_def feature_ops set_float_def
      demo_fims_def Value_Object_def)

theorem poi_limits_always_hold_witness:
  "-20 \<le> poi_cmd (fst (poi_execute 50 0 (fold poi_set_step [] demo_poi) (demo_site, -100, 100)))"
  using poi_limits_always_hold [OF demo_poi_vals]
  by (metis prod.collapse)

text \<open>The active closed loop never corrects beyond the site's rating: with the requested production
  inside the rating and offset limits around zero, the corrected demand without the manual
  test offset stays between the rated charge and the rated discharge, and the regulator's
  offset within its configured limits.\<close>

theorem closed_loop_within_rating:
  assumes "0 \<le> fval CL_step_size_kW f" "ival CL_min_offset f \<le> 0" "0 \<le> ival CL_max_offset f"
    and "\<not> bval CL_zero_bypass_enable f" "meth = LOAD_MINIMUM \<longrightarrow> 0 \<le> addl"
    and "calculate_site_kW_production_limits er gr sr meth addl fd dem = (c, x)" "rc \<le> c" "x \<le> rd"
    and "cl_execute_helper now dem addl poi fa er gr sr meth fd rc rd fm f = ((c', x', corr, dem', fm'), f')"
  shows "rc \<le> dem' - fval CL_manual_offset_kW f \<and> dem' - fval CL_manual_offset_kW f \<le> rd \<and>
    dem' = dem + corr \<and> c' = c \<and> x' = x \<and>
    ival CL_min_offset f \<le> offset (regulator f') \<and> offset (regulator f') \<le> ival CL_max_offset f"
proof -
  have cx: "c \<le> 0" "0 \<le> x" "c + x = dem" using production_limits_sum [OF _ assms(6)] assms(5) by blast+
  define st where "st = (if fval CL_step_size_kW f = 0 then 1 else fval CL_step_size_kW f)"
  have st: "0 < st" using assms(1) by (auto simp: st_def)
  have f1: "fval CL_step_size_kW (if fval CL_step_size_kW f = 0 then assign_float CL_step_size_kW 1 f else f) = st"
    "ival v (if fval CL_step_size_kW f = 0 then assign_float CL_step_size_kW 1 f else f) = ival v f"
    "regulator (if fval CL_step_size_kW f = 0 then assign_float CL_step_size_kW 1 f else f) = regulator f"
    "fval CL_manual_offset_kW (if fval CL_step_size_kW f = 0 then assign_float CL_step_size_kW 1 f else f) = fval CL_manual_offset_kW f"
    for v by (simp_all add: st_def) (simp add: assign_float_def upd_var_def)
  define neg where "neg = less_than_zero_check (rc - c) - min rd x"
  define pos where "pos = zero_check (rd - x) - max rc c"
  have np: "neg = rc - c - x" "pos = rd - x - c" using cx assms(7,8) by (auto simp: neg_def pos_def utils_defs)
  have "neg \<le> 0" "0 \<le> pos" using np cx assms(7,8) by auto
  note corr = regulated_correction [OF st assms(2,3) this]
  obtain b v r acc r' where run: "regulate_and_bound now b v (limit_regulator (ival CL_min_offset f) (ival CL_max_offset f) neg pos st r) = (acc, r')"
      and c1: "corr = fval CL_manual_offset_kW f + of_int (offset r') * st" and "regulator f' = r'"
      "dem' = dem + corr" "c' = c" "x' = x"
    using assms(9) by (auto simp: cl_execute_helper_def assms(4,6) f1 Let_def neg_def [symmetric] pos_def [symmetric]
        cl_vals split: prod.splits if_splits)
  then show ?thesis using corr [OF run] np cx by simp
qed

definition demo_cl :: closed_loop where
  "demo_cl = \<lparr>available = True, vars = (\<lambda>v. demo_var ''x'' 0)(CL_step_size_kW := demo_var ''st'' 5,
     CL_max_offset := demo_var ''max'' 10, CL_min_offset := demo_var ''min'' (-10)),
     regulator = Variable_Regulator (mk_ts 0 0) (mk_ts 0 0), prev_feature_cmd = 0\<rparr>"

lemma demo_cl_vals:
  "fval CL_step_size_kW demo_cl = 5" "ival CL_min_offset demo_cl = -10" "ival CL_max_offset demo_cl = 10"
  "\<not> bval v demo_cl" "fval CL_manual_offset_kW demo_cl = 0"
  by (simp_all add: demo_cl_def demo_var_def feature_ops set_float_def demo_fims_def Value_Object_def c_trunc_def)

theorem closed_loop_within_rating_witness:
  "fst (snd (snd (snd (fst (cl_execute_helper (mk_ts 1 0) 40 0 0 (-30) 0 0 0 NO_COMPENSATION 40 (-50) 60 100 demo_cl))))) \<le> 60"
proof -
  obtain c' x' corr d' m' f' where run:
    "cl_execute_helper (mk_ts 1 0) 40 0 0 (-30) 0 0 0 NO_COMPENSATION 40 (-50) 60 100 demo_cl = ((c', x', corr, d', m'), f')"
    by (metis prod.collapse)
  have "d' \<le> 60" using closed_loop_within_rating [OF _ _ _ _ _ _ _ _ run, of 0 40]
    by (simp add: demo_cl_vals calculate_site_kW_production_limits_def Let_def utils_defs)
  with run show ?thesis by simp
qed

text \<open>The reactive closed loop bounds the corrected demand only up to the magnitude of the command:
  the rating is widened by the command when the correction points the other way.\<close>

theorem reactive_closed_loop_bound:
  assumes "0 \<le> fval RCL_step_size_kW f" "ival RCL_min_offset f \<le> 0" "0 \<le> ival RCL_max_offset f"
    and "\<not> bval RCL_zero_bypass_enable f" "rc \<le> 0" "0 \<le> rd" "rc \<le> dem" "dem \<le> rd"
    and "rcl_execute_helper now fa dem rc rd f = (dem', f')"
  shows "rc - zero_check dem \<le> dem' \<and> dem' \<le> rd - less_than_zero_check dem \<and>
    ival RCL_min_offset f \<le> offset (rcl_regulator f') \<and> offset (rcl_regulator f') \<le> ival RCL_max_offset f"
proof -
  define st where "st = (if fval RCL_step_size_kW f = 0 then 1 else fval RCL_step_size_kW f)"
  have st: "0 < st" using assms(1) by (auto simp: st_def)
  have f1: "fval RCL_step_size_kW (if fval RCL_step_size_kW f = 0 then assign_float RCL_step_size_kW 1 f else f) = st"
    "ival v (if fval RCL_step_size_kW f = 0 then assign_float RCL_step_size_kW 1 f else f) = ival v f"
    "rcl_regulator (if fval RCL_step_size_kW f = 0 then assign_float RCL_step_size_kW 1 f else f) = rcl_regulator f"
    for v by (simp_all add: st_def)
  define neg where "neg = less_than_zero_check (rc - dem) - min rd (zero_check dem)"
  define pos where "pos = zero_check (rd - dem) - max rc (less_than_zero_check dem)"
  have np: "neg = rc - dem - zero_check dem" "pos = rd - dem - less_than_zero_check dem"
    using assms(5-8) by (auto simp: neg_def pos_def utils_defs)
  have "neg \<le> 0" "0 \<le> pos" using assms(5-8) by (auto simp: neg_def pos_def utils_defs)
  note corr = regulated_correction [OF st assms(2,3) this]
  obtain b v r acc r' where run: "regulate_and_bound now b v (limit_regulator (ival RCL_min_offset f) (ival RCL_max_offset f) neg pos st r) = (acc, r')"
      and "dem' = dem + of_int (offset r') * st" and "rcl_regulator f' = r'"
    using assms(9) by (auto simp: rcl_execute_helper_def assms(4) f1 Let_def neg_def [symmetric] pos_def [symmetric]
        rcl_state split: prod.splits if_splits)
  then show ?thesis using corr [OF run] np by auto
qed

definition demo_rcl :: reactive_closed_loop where
  "demo_rcl = \<lparr>available = True, vars = (\<lambda>v. demo_var ''x'' 0)(RCL_step_size_kW := demo_var ''st'' 1,
     RCL_max_offset := demo_var ''max'' 500, RCL_min_offset := demo_var ''min'' (-500)),
     rcl_regulator = (Variable_Regulator (mk_ts 0 0) (mk_ts 0 0))\<lparr>offset := -200\<rparr>, prev_reactive_power_feature_cmd = 0\<rparr>"

lemma demo_rcl_vals:
  "fval RCL_step_size_kW demo_rcl = 1" "ival RCL_min_offset demo_rcl = -500" "ival RCL_max_offset demo_rcl = 500"
  "\<not> bval v demo_rcl"
  by (simp_all add: demo_rcl_def demo_var_def feature_ops set_float_def demo_fims_def Value_Object_def c_trunc_def)

theorem reactive_closed_loop_bound_witness:
  "-150 \<le> fst (rcl_execute_helper (mk_ts 1 0) 0 50 (-100) 100 demo_rcl)"
  using reactive_closed_loop_bound [OF _ _ _ _ _ _ _ _ prod.collapse [symmetric], of demo_rcl "-100" 100 50 "mk_ts 1 0" 0]
  by (simp add: demo_rcl_vals utils_defs)

text \<open>That bound is attained: a reactive demand of 50 kVAR on a site rated at 100 kVAR either way
  can be corrected to -150 kVAR, because the power available for a negative correction counts
  the present discharge twice.\<close>

theorem reactive_closed_loop_exceeds_rating:
  "fst (rcl_execute_helper (mk_ts 1 0) 0 50 (-100) 100 demo_rcl) = -150"
  by (simp add: rcl_execute_helper_def demo_rcl_vals Let_def regulate_and_bound_def limit_regulator_def
      regulate_variable_offset_def c_trunc_def utils_defs demo_rcl_def [THEN arg_cong, of rcl_regulator]
      Variable_Regulator_def)

text \<open>The aggregated asset limit caps the storage: when solar and uncontrolled power alone stay
  within the limit, the storage's discharge potential added to them does too, and a minimum
  below the maximum stays so.\<close>

theorem aggregated_limit_caps_storage:
  assumes "solar + usolar + uess \<le> fval AAL_agg_asset_limit_kw f"
    and "l' = aal_execute_helper solar usolar uess etot f l" "cmd_ess_min_potential_kW l \<le> cmd_ess_max_potential_kW l"
  shows "solar + usolar + uess + cmd_ess_max_potential_kW l' \<le> fval AAL_agg_asset_limit_kw f \<and>
    cmd_ess_max_potential_kW l' \<le> cmd_ess_max_potential_kW l \<and>
    cmd_ess_min_potential_kW l' \<le> cmd_ess_max_potential_kW l'"
  using assms by (auto simp: aal_execute_helper_def Let_def utils_defs)

definition demo_aal :: aggregated_asset_limit where
  "demo_aal = \<lparr>available = True, vars = (\<lambda>v. demo_var ''x'' 100)\<rparr>"

definition demo_limits :: ess_limits where
  "demo_limits = \<lparr>sm_max_potential_ess_kW = 80, cmd_ess_max_potential_kW = 80, sm_min_potential_ess_kW = -80,
     cmd_ess_min_potential_kW = -80, total_asset_kW_discharge_limit = 80\<rparr>"

theorem aggregated_limit_caps_storage_witness:
  "40 + 0 + 10 + cmd_ess_max_potential_kW (aal_execute_helper 40 0 10 80 demo_aal demo_limits) \<le> 100"
  using aggregated_limit_caps_storage [OF _ refl, of 40 0 10 demo_aal demo_limits 80]
  by (simp add: demo_aal_def demo_var_def feature_ops set_float_def demo_limits_def)

text \<open>The site discharge limit the same feature reports is wrong: where the storage's share should
  be replaced by the new limit, the new limit is subtracted as well, so a site whose only
  source is the storage reports minus the power it can still discharge.\<close>

theorem aggregated_limit_report_wrong:
  assumes "nlim = zero_check (fval AAL_agg_asset_limit_kw f - (solar + usolar) - uess)" "nlim < cmd_ess_max_potential_kW l"
    and "total_asset_kW_discharge_limit l = etot"
  shows "total_asset_kW_discharge_limit (aal_execute_helper solar usolar uess etot f l) = - nlim \<and>
    cmd_ess_max_potential_kW (aal_execute_helper solar usolar uess etot f l) = nlim"
  using assms by (auto simp: aal_execute_helper_def Let_def)

theorem aggregated_limit_report_wrong_witness:
  "total_asset_kW_discharge_limit (aal_execute_helper 40 0 10 80 demo_aal demo_limits) = - 50"
  using aggregated_limit_report_wrong [OF refl, of demo_aal 40 0 10 demo_limits 80]
  by (simp add: demo_aal_def demo_var_def feature_ops set_float_def demo_limits_def utils_defs)

text \<open>Discharge prevention: at or below the configured state of charge the storage can neither be
  asked nor forced to discharge; above it nothing changes.\<close>

theorem discharge_prevention_effect:
  "(let l' = edp_execute_helper soc etot f l in
    if soc \<le> fval EDP_soc f
    then cmd_ess_max_potential_kW l' = min 0 (cmd_ess_max_potential_kW l) \<and>
         cmd_ess_min_potential_kW l' = min 0 (cmd_ess_min_potential_kW l) \<and>
         total_asset_kW_discharge_limit l' = total_asset_kW_discharge_limit l -
           (if 0 < cmd_ess_max_potential_kW l then etot else 0)
    else l' = l)"
  by (simp add: edp_execute_helper_def Let_def)

end
