(* ===== verification/Reactive_Features.thy ===== *)
theory Reactive_Features
  imports Features
begin

text \<open>
  The reactive power features of run mode 1: \<^verbatim>\<open>Reactive_Setpoint\<close>, \<^verbatim>\<open>Constant_Power_Factor\<close>,
  \<^verbatim>\<open>Direct_Power_Factor\<close>, \<^verbatim>\<open>Watt_Var\<close> and \<^verbatim>\<open>AVR\<close>.  The result of an \<^verbatim>\<open>execute_helper\<close> is the
  new reactive demand and the power factor flag.
\<close>

section \<open>Reactive setpoint\<close>

datatype rsp_var = RSP_enable_flag | RSP_kVAR_cmd | RSP_kVAR_slew_rate

record reactive_setpoint = "rsp_var feature" +
  kVAR_cmd_slew :: slew_object

definition rsp_feature_vars :: "rsp_var list" where
  "rsp_feature_vars = [RSP_kVAR_cmd, RSP_kVAR_slew_rate]"

definition rsp_variable_ids :: "(rsp_var \<times> string) list" where
  "rsp_variable_ids = [(RSP_enable_flag, ''reactive_setpoint_mode_enable_flag''),
     (RSP_kVAR_cmd, ''reactive_setpoint_kVAR_cmd''), (RSP_kVAR_slew_rate, ''reactive_setpoint_kVAR_slew_rate'')]"

definition rsp_execute_helper :: "flt \<Rightarrow> reactive_setpoint \<Rightarrow> (flt \<times> bool) \<times> reactive_setpoint" where
  "rsp_execute_helper total_potential f =
     (let f = f\<lparr>kVAR_cmd_slew := sync_slew_rate (ival RSP_kVAR_slew_rate f) (kVAR_cmd_slew f)\<rparr>;
          kVAR_request = get_slew_target (kVAR_cmd_slew f) (fval RSP_kVAR_cmd f);
          new_demand = min total_potential \<bar>kVAR_request\<bar>;
          new_demand = new_demand * (if signbit kVAR_request then -1 else 1)
      in ((new_demand, False), f))"

definition rsp_execute :: "reactive_setpoint \<times> asset_cmd_object \<Rightarrow> bool \<times> reactive_setpoint \<times> asset_cmd_object" where
  "rsp_execute = (\<lambda>(f, a). case rsp_execute_helper (total_potential_kVAR a) f of
     ((d, pf), f') \<Rightarrow> (pf, f', a\<lparr>site_kVAR_demand := d\<rparr>))"

definition rsp_handle_fims_set :: "input_source_list \<Rightarrow> string \<Rightarrow> cjson \<Rightarrow> reactive_setpoint \<Rightarrow> reactive_setpoint" where
  "rsp_handle_fims_set srcs e msg f = (case msg of
       JNumber d i \<Rightarrow>
         let f = put_float srcs e RSP_kVAR_cmd d f;
             rate = range_check_int i MAX_SLEW 1;
             hit = fst (set_fims_int srcs e rate (vars f RSP_kVAR_slew_rate));
             f = put_int srcs e RSP_kVAR_slew_rate rate f
         in if hit then f\<lparr>kVAR_cmd_slew := set_slew_rate (ival RSP_kVAR_slew_rate f) (kVAR_cmd_slew f)\<rparr> else f
     | _ \<Rightarrow> f)"

section \<open>Constant power factor\<close>

datatype cpf_var = CPF_enable_flag | CPF_power_factor_setpoint | CPF_lagging_limit | CPF_leading_limit
  | CPF_absolute_mode | CPF_lagging_direction

type_synonym constant_power_factor = "cpf_var feature"

definition cpf_feature_vars :: "cpf_var list" where
  "cpf_feature_vars = [CPF_power_factor_setpoint, CPF_lagging_limit, CPF_leading_limit, CPF_absolute_mode, CPF_lagging_direction]"

definition cpf_variable_ids :: "(cpf_var \<times> string) list" where
  "cpf_variable_ids =
    [(CPF_enable_flag, ''constant_power_factor_mode_enable_flag''),
     (CPF_power_factor_setpoint, ''constant_power_factor_setpoint''),
     (CPF_lagging_limit, ''constant_power_factor_lagging_limit''),
     (CPF_leading_limit, ''constant_power_factor_leading_limit''),
     (CPF_absolute_mode, ''constant_power_factor_absolute_mode''),
     (CPF_lagging_direction, ''constant_power_factor_lagging_direction'')]"

definition cpf_execute_helper :: "flt \<Rightarrow> flt \<Rightarrow> constant_power_factor \<Rightarrow> (flt \<times> bool) \<times> constant_power_factor" where
  "cpf_execute_helper demand total_potential f =
     (let f = store_float CPF_lagging_limit (range_check (-1 * \<bar>fval CPF_lagging_limit f\<bar>) 0 (-1)) f;
          f = store_float CPF_leading_limit (range_check \<bar>fval CPF_leading_limit f\<bar> 1 0) f;
          cpf_direction = (if bval CPF_absolute_mode f then bval CPF_lagging_direction f
                           else signbit (fval CPF_power_factor_setpoint f));
          f = (if cpf_direction then
                 let f = store_float CPF_power_factor_setpoint (-1 * \<bar>fval CPF_power_factor_setpoint f\<bar>) f
                 in store_float CPF_power_factor_setpoint
                      (range_check (fval CPF_power_factor_setpoint f) (fval CPF_lagging_limit f) (-1)) f
               else
                 let f = store_float CPF_power_factor_setpoint \<bar>fval CPF_power_factor_setpoint f\<bar> f
                 in store_float CPF_power_factor_setpoint
                      (range_check (fval CPF_power_factor_setpoint f) 1 (fval CPF_leading_limit f)) f);
          pf = fval CPF_power_factor_setpoint f;
          new_demand = (if pf \<noteq> 0 then min \<bar>demand * sqrt (1 / pf ^ 2 - 1)\<bar> \<bar>total_potential\<bar>
                        else \<bar>total_potential\<bar>);
          new_demand = (if cpf_direction then -1 * new_demand else new_demand)
      in ((new_demand, False), f))"

definition cpf_execute :: "constant_power_factor \<times> asset_cmd_object \<Rightarrow> bool \<times> constant_power_factor \<times> asset_cmd_object" where
  "cpf_execute = (\<lambda>(f, a). case cpf_execute_helper (uncorrected_site_kW_demand a) (total_potential_kVAR a) f of
     ((d, pf), f') \<Rightarrow> (pf, f', a\<lparr>site_kVAR_demand := d\<rparr>))"

definition cpf_handle_fims_set :: "input_source_list \<Rightarrow> string \<Rightarrow> cjson \<Rightarrow> constant_power_factor \<Rightarrow> constant_power_factor" where
  "cpf_handle_fims_set srcs e msg f = (case msg of
       JNumber d i \<Rightarrow>
         let f = put_float srcs e CPF_power_factor_setpoint d f;
             f = put_float srcs e CPF_lagging_limit d f
         in put_float srcs e CPF_leading_limit d f
     | _ \<Rightarrow> if is_bool_json msg then
         let b = (msg \<noteq> JFalse)
         in put_bool srcs e CPF_lagging_direction b (put_bool srcs e CPF_absolute_mode b f)
         else f)"

section \<open>Direct power factor\<close>

datatype dpf_var = DPF_enable_flag | DPF_power_factor_cmd

record direct_power_factor = "dpf_var feature" +
  prev_asset_pf_cmd :: flt

definition dpf_feature_vars :: "dpf_var list" where
  "dpf_feature_vars = [DPF_power_factor_cmd]"

definition dpf_variable_ids :: "(dpf_var \<times> string) list" where
  "dpf_variable_ids = [(DPF_enable_flag, ''power_factor_mode_enable_flag''), (DPF_power_factor_cmd, ''power_factor_cmd'')]"

definition dpf_execute_helper :: "flt \<times> bool" where
  "dpf_execute_helper = (0, True)"

definition dpf_execute :: "asset_cmd_object \<Rightarrow> bool \<times> asset_cmd_object" where
  "dpf_execute a = (case dpf_execute_helper of (d, pf) \<Rightarrow> (pf, a\<lparr>site_kVAR_demand := d\<rparr>))"

definition dpf_handle_fims_set :: "input_source_list \<Rightarrow> string \<Rightarrow> cjson \<Rightarrow> direct_power_factor \<Rightarrow> direct_power_factor" where
  "dpf_handle_fims_set srcs e msg f = (case msg of
       JNumber d i \<Rightarrow> put_float srcs e DPF_power_factor_cmd (zero_check (if d > 1 then 1 else d)) f
     | _ \<Rightarrow> f)"

section \<open>Watt-Var\<close>

datatype wv_var = WV_enable_flag | WV_points

record watt_var = "wv_var feature" +
  watt_var_curve :: "(flt \<times> flt) list"
  site_kVAR_demand_correction :: flt

definition wv_feature_vars :: "wv_var list" where
  "wv_feature_vars = [WV_points]"

definition wv_variable_ids :: "(wv_var \<times> string) list" where
  "wv_variable_ids = [(WV_enable_flag, ''watt_var_mode_enable_flag''), (WV_points, ''watt_var_points'')]"

definition wv_init_curve :: "watt_var \<Rightarrow> watt_var option" where
  "wv_init_curve f =
     (case set_curve_points (options_floats (vars f WV_points)) (length (options_map (vars f WV_points))) (watt_var_curve f) of
        None \<Rightarrow> None | Some c \<Rightarrow> Some (f\<lparr>watt_var_curve := c\<rparr>))"

definition wv_execute_helper :: "flt \<Rightarrow> flt \<Rightarrow> watt_var \<Rightarrow> ((flt \<times> bool) \<times> watt_var) option" where
  "wv_execute_helper demand active_power f =
     (case get_curve_cmd active_power (watt_var_curve f) of
        None \<Rightarrow> None
      | Some new_demand \<Rightarrow> Some ((new_demand, False), f\<lparr>site_kVAR_demand_correction := new_demand - demand\<rparr>))"

definition wv_execute :: "flt \<Rightarrow> watt_var \<times> asset_cmd_object \<Rightarrow> (bool \<times> watt_var \<times> asset_cmd_object) option" where
  "wv_execute active_power = (\<lambda>(f, a). case wv_execute_helper (site_kVAR_demand a) active_power f of
       None \<Rightarrow> None | Some ((d, pf), f') \<Rightarrow> Some (pf, f', a\<lparr>site_kVAR_demand := d\<rparr>))"

section \<open>Automatic voltage regulation\<close>

datatype avr_var = AVR_enable_flag | AVR_over_deadband | AVR_over_droop | AVR_over_rated_kVAR
  | AVR_under_deadband | AVR_under_droop | AVR_under_rated_kVAR | AVR_voltage_cmd | AVR_voltage_cmd_max
  | AVR_voltage_cmd_min | AVR_actual_volts | AVR_status_flag | AVR_request | AVR_kVAR_slew_rate

record avr = "avr_var feature" +
  avr_kVAR_slew :: slew_object
  symmetric_variables :: bool

definition avr_variable_ids :: "(avr_var \<times> string) list" where
  "avr_variable_ids =
    [(AVR_enable_flag, ''avr_enable_flag''), (AVR_over_deadband, ''avr_over_deadband_volts''),
     (AVR_over_droop, ''avr_over_droop_volts''), (AVR_over_rated_kVAR, ''avr_over_rated_kVAR''),
     (AVR_under_deadband, ''avr_under_deadband_volts''), (AVR_under_droop, ''avr_under_droop_volts''),
     (AVR_under_rated_kVAR, ''avr_under_rated_kVAR''), (AVR_voltage_cmd, ''avr_cmd_volts''),
     (AVR_voltage_cmd_max, ''avr_cmd_volts_max''), (AVR_voltage_cmd_min, ''avr_cmd_volts_min''),
     (AVR_actual_volts, ''avr_actual_volts''), (AVR_status_flag, ''avr_status_flag''),
     (AVR_request, ''avr_request_kVAR''), (AVR_kVAR_slew_rate, ''avr_kVAR_slew_rate'')]"

definition initialize_feature_vars :: "avr \<Rightarrow> avr_var list" where
  "initialize_feature_vars f =
     (if symmetric_variables f
      then [AVR_over_deadband, AVR_over_droop, AVR_over_rated_kVAR, AVR_voltage_cmd, AVR_voltage_cmd_max,
            AVR_voltage_cmd_min, AVR_actual_volts, AVR_status_flag, AVR_request, AVR_kVAR_slew_rate]
      else [AVR_over_deadband, AVR_over_droop, AVR_over_rated_kVAR, AVR_under_deadband, AVR_under_droop,
            AVR_under_rated_kVAR, AVR_voltage_cmd, AVR_voltage_cmd_max, AVR_voltage_cmd_min,
            AVR_actual_volts, AVR_status_flag, AVR_request, AVR_kVAR_slew_rate])"

text \<open>The first part of \<^verbatim>\<open>execute_helper\<close>: signs, slew rate and voltage command put in order.\<close>

definition avr_normalise :: "avr \<Rightarrow> avr" where
  "avr_normalise f =
     (let f = store_float AVR_over_deadband \<bar>fval AVR_over_deadband f\<bar> f;
          f = store_float AVR_over_droop \<bar>fval AVR_over_droop f\<bar> f;
          f = store_float AVR_over_rated_kVAR \<bar>fval AVR_over_rated_kVAR f\<bar> f;
          f = (if symmetric_variables f then
                 let f = store_float AVR_under_deadband (fval AVR_over_deadband f) f;
                     f = store_float AVR_under_droop (fval AVR_over_droop f) f
                 in store_float AVR_under_rated_kVAR (fval AVR_over_rated_kVAR f) f
               else
                 let f = store_float AVR_under_deadband \<bar>fval AVR_under_deadband f\<bar> f;
                     f = store_float AVR_under_droop \<bar>fval AVR_under_droop f\<bar> f
                 in store_float AVR_under_rated_kVAR \<bar>fval AVR_under_rated_kVAR f\<bar> f);
          f = store_int AVR_kVAR_slew_rate (range_check_int (ival AVR_kVAR_slew_rate f) MAX_SLEW 1) f;
          f = f\<lparr>avr_kVAR_slew := set_slew_rate (ival AVR_kVAR_slew_rate f) (avr_kVAR_slew f)\<rparr>
      in store_float AVR_voltage_cmd (range_check (fval AVR_voltage_cmd f) (fval AVR_voltage_cmd_max f) (fval AVR_voltage_cmd_min f)) f)"

text \<open>The deviation from the reference voltage, signed as the response is, and the raw request.\<close>

definition avr_delta_volts :: "avr \<Rightarrow> flt" where
  "avr_delta_volts f =
     (let over_voltage = fval AVR_actual_volts f > fval AVR_voltage_cmd f;
          reference_volts = (if over_voltage then fval AVR_voltage_cmd f + fval AVR_over_deadband f
                             else fval AVR_voltage_cmd f - fval AVR_under_deadband f)
      in if over_voltage
         then (if fval AVR_actual_volts f > reference_volts then reference_volts - fval AVR_actual_volts f else 0)
         else (if fval AVR_actual_volts f < reference_volts then reference_volts - fval AVR_actual_volts f else 0))"

definition avr_kVAR_request :: "avr \<Rightarrow> flt" where
  "avr_kVAR_request f =
     (let over_voltage = fval AVR_actual_volts f > fval AVR_voltage_cmd f;
          delta_volts = avr_delta_volts f;
          kVAR_request = (if over_voltage \<and> fval AVR_over_droop f \<noteq> 0
                          then delta_volts / fval AVR_over_droop f * fval AVR_over_rated_kVAR f
                          else if fval AVR_under_droop f \<noteq> 0
                          then delta_volts / fval AVR_under_droop f * fval AVR_under_rated_kVAR f
                          else 0)
      in if over_voltage then max kVAR_request (-1 * fval AVR_over_rated_kVAR f)
         else min kVAR_request (fval AVR_under_rated_kVAR f))"

definition avr_execute_helper :: "timespec \<Rightarrow> flt \<Rightarrow> avr \<Rightarrow> (flt \<times> bool) \<times> avr" where
  "avr_execute_helper now total_potential f =
     (let f = avr_normalise f;
          f = store_bool AVR_status_flag (avr_delta_volts f \<noteq> 0) f;
          slewed_cmd = get_slew_target (avr_kVAR_slew f) (avr_kVAR_request f);
          f = f\<lparr>avr_kVAR_slew := update_slew_target now slewed_cmd (avr_kVAR_slew f)\<rparr>;
          f = store_float AVR_request slewed_cmd f;
          new_demand = min total_potential \<bar>slewed_cmd\<bar>;
          new_demand = new_demand * (if signbit slewed_cmd then -1 else 1)
      in ((new_demand, False), f))"

definition avr_execute :: "timespec \<Rightarrow> avr \<times> asset_cmd_object \<Rightarrow> bool \<times> avr \<times> asset_cmd_object" where
  "avr_execute now = (\<lambda>(f, a). case avr_execute_helper now (total_potential_kVAR a) f of
     ((d, pf), f') \<Rightarrow> (pf, f', a\<lparr>site_kVAR_demand := d\<rparr>))"

definition avr_handle_fims_set :: "input_source_list \<Rightarrow> string \<Rightarrow> cjson \<Rightarrow> avr \<Rightarrow> avr" where
  "avr_handle_fims_set srcs e msg f = (case msg of
       JNumber d i \<Rightarrow>
         let f = put_float srcs e AVR_voltage_cmd_max d f;
             f = put_float srcs e AVR_voltage_cmd_min d f;
             f = (if d \<le> fval AVR_voltage_cmd_max f \<and> d \<ge> fval AVR_voltage_cmd_min f
                  then put_float srcs e AVR_voltage_cmd d f else f);
             f = put_float srcs e AVR_over_deadband d f;
             f = put_float srcs e AVR_over_droop d f;
             f = put_float srcs e AVR_over_rated_kVAR d f;
             f = (if \<not> symmetric_variables f then
                    let f = put_float srcs e AVR_under_deadband d f;
                        f = put_float srcs e AVR_under_droop d f
                    in put_float srcs e AVR_under_rated_kVAR d f
                  else f);
             rate = range_check_int i 100000000 1;
             hit = fst (set_fims_int srcs e rate (vars f AVR_kVAR_slew_rate));
             f = put_int srcs e AVR_kVAR_slew_rate rate f
         in if hit then f\<lparr>avr_kVAR_slew := set_slew_rate (ival AVR_kVAR_slew_rate f) (avr_kVAR_slew f)\<rparr> else f
     | _ \<Rightarrow> f)"

section \<open>The SET handlers keep the feature contract\<close>

lemma reactive_state_frame [handler_intros]:
  "feature_set_ok srcs e f f' \<Longrightarrow> feature_set_ok srcs e f (kVAR_cmd_slew_update g f')"
  "feature_set_ok srcs e m m' \<Longrightarrow> feature_set_ok srcs e m (avr_kVAR_slew_update g m')"
  by (simp_all add: feature_set_ok_def)

interpretation rsp: fims_feature rsp_handle_fims_set
  by standard (simp add: rsp_handle_fims_set_def Let_def split: cjson.split; intro conjI impI allI handler_intros)

interpretation cpf: fims_feature cpf_handle_fims_set
  by standard (simp add: cpf_handle_fims_set_def Let_def split: cjson.split; intro conjI impI allI handler_intros)

interpretation dpf: fims_feature dpf_handle_fims_set
  by standard (simp add: dpf_handle_fims_set_def Let_def split: cjson.split; intro conjI impI allI handler_intros)

lemma feature_set_ok_if [handler_intros]:
  "feature_set_ok srcs e f a \<Longrightarrow> feature_set_ok srcs e f b \<Longrightarrow> feature_set_ok srcs e f (if c then a else b)"
  by simp

interpretation avr: fims_feature avr_handle_fims_set
  by standard (auto simp: avr_handle_fims_set_def Let_def split: cjson.split intro!: handler_intros)

section \<open>Constant power factor: what is dispatched\<close>

definition cpf_lagging :: "constant_power_factor \<Rightarrow> bool" where
  "cpf_lagging f = (if bval CPF_absolute_mode f then bval CPF_lagging_direction f
     else signbit (fval CPF_power_factor_setpoint f))"

definition cpf_setpoint :: "constant_power_factor \<Rightarrow> flt" where
  "cpf_setpoint f = (if cpf_lagging f
     then range_check (- \<bar>fval CPF_power_factor_setpoint f\<bar>) (range_check (- \<bar>fval CPF_lagging_limit f\<bar>) 0 (-1)) (-1)
     else range_check \<bar>fval CPF_power_factor_setpoint f\<bar> 1 (range_check \<bar>fval CPF_leading_limit f\<bar> 1 0))"

lemma cpf_execute_helper_result:
  "fst (fst (cpf_execute_helper p q f)) = (if cpf_lagging f then -1 else 1) *
     (if cpf_setpoint f = 0 then \<bar>q\<bar> else min \<bar>p * sqrt (1 / cpf_setpoint f ^ 2 - 1)\<bar> \<bar>q\<bar>)"
  "fval CPF_power_factor_setpoint (snd (cpf_execute_helper p q f)) = cpf_setpoint f"
  by (simp_all add: cpf_execute_helper_def Let_def cpf_lagging_def cpf_setpoint_def)

lemma cpf_setpoint_range: "-1 \<le> cpf_setpoint f" "cpf_setpoint f \<le> 1"
proof -
  define lag where "lag = range_check (- \<bar>fval CPF_lagging_limit f\<bar>) 0 (-1)"
  define lead where "lead = range_check \<bar>fval CPF_leading_limit f\<bar> 1 0"
  have "-1 \<le> lag" "lag \<le> 0" "0 \<le> lead" "lead \<le> 1"
    using range_check_bounds [of "-1" 0] range_check_bounds [of 0 1] by (simp_all add: lag_def lead_def)
  then show "-1 \<le> cpf_setpoint f" "cpf_setpoint f \<le> 1"
    using range_check_bounds [of "-1" lag "- \<bar>fval CPF_power_factor_setpoint f\<bar>"]
      range_check_bounds [of lead 1 "\<bar>fval CPF_power_factor_setpoint f\<bar>"]
    by (auto simp: cpf_setpoint_def lag_def [symmetric] lead_def [symmetric])
qed

lemma reactive_of_power_factor:
  assumes "pf \<noteq> 0" "-1 \<le> pf" "pf \<le> (1::real)"
  shows "p ^ 2 + (p * sqrt (1 / pf ^ 2 - 1)) ^ 2 = (p / pf) ^ 2"
proof -
  have "pf ^ 2 \<le> 1" using assms(2,3) by (simp add: abs_square_le_1 abs_le_iff)
  then have "0 \<le> 1 / pf ^ 2 - 1" using assms(1) by (simp add: le_divide_eq)
  then have "(p * sqrt (1 / pf ^ 2 - 1)) ^ 2 = p ^ 2 * (1 / pf ^ 2 - 1)" by (simp add: power_mult_distrib)
  then show ?thesis by (simp add: power_divide right_diff_distrib)
qed

section \<open>Voltage regulation: what is requested\<close>

lemma avr_slew_vals [simp]:
  "fval v (avr_kVAR_slew_update g f) = fval v f" "ival v (avr_kVAR_slew_update g f) = ival v f"
  by (simp_all add: fval_def ival_def)

lemma avr_state [simp]:
  "symmetric_variables (store_float v x f) = symmetric_variables f"
  "avr_kVAR_slew (store_float v x f) = avr_kVAR_slew f" "avr_kVAR_slew (store_bool v b f) = avr_kVAR_slew f"
  "avr_kVAR_slew (store_int v i f) = avr_kVAR_slew f"
  by (simp_all add: store_float_def store_bool_def store_int_def upd_var_def)

definition avr_ordered :: "avr \<Rightarrow> bool" where
  "avr_ordered f \<longleftrightarrow> 0 \<le> fval AVR_over_deadband f \<and> 0 \<le> fval AVR_over_droop f \<and> 0 \<le> fval AVR_over_rated_kVAR f \<and>
     0 \<le> fval AVR_under_deadband f \<and> 0 \<le> fval AVR_under_droop f \<and> 0 \<le> fval AVR_under_rated_kVAR f"

lemma avr_ordered_normalise: "avr_ordered (avr_normalise f)"
  by (simp add: avr_ordered_def avr_normalise_def Let_def)

lemma avr_request_over:
  assumes "avr_ordered f" "fval AVR_voltage_cmd f < fval AVR_actual_volts f"
  shows "- fval AVR_over_rated_kVAR f \<le> avr_kVAR_request f \<and> avr_kVAR_request f \<le> 0"
proof -
  have "avr_delta_volts f \<le> 0" using assms(2) by (simp add: avr_delta_volts_def Let_def)
  then have "avr_delta_volts f / fval AVR_over_droop f * fval AVR_over_rated_kVAR f \<le> 0"
    "avr_delta_volts f / fval AVR_under_droop f * fval AVR_under_rated_kVAR f \<le> 0"
    using assms(1) by (simp_all add: avr_ordered_def mult_nonpos_nonneg divide_nonpos_nonneg)
  then show ?thesis using assms by (simp add: avr_kVAR_request_def Let_def avr_ordered_def)
qed

lemma avr_request_under:
  assumes "avr_ordered f" "fval AVR_actual_volts f \<le> fval AVR_voltage_cmd f"
  shows "0 \<le> avr_kVAR_request f \<and> avr_kVAR_request f \<le> fval AVR_under_rated_kVAR f"
proof -
  have "0 \<le> avr_delta_volts f" using assms(2) by (simp add: avr_delta_volts_def Let_def)
  then have "0 \<le> avr_delta_volts f / fval AVR_under_droop f * fval AVR_under_rated_kVAR f"
    using assms(1) by (simp add: avr_ordered_def)
  then show ?thesis using assms by (simp add: avr_kVAR_request_def Let_def avr_ordered_def)
qed

section \<open>Properties\<close>

text \<open>Constant power factor: the setpoint that results lies between the limits, the reactive demand
  has the sign of the direction and never exceeds the site's reactive potential, and when it
  is not cut to the potential the active and the reactive power have exactly the power factor
  of the setpoint.\<close>

theorem constant_power_factor_exact:
  assumes "cpf_execute_helper p q f = ((d, flag), f')" "pf = fval CPF_power_factor_setpoint f'"
  shows "-1 \<le> pf \<and> pf \<le> 1 \<and> \<bar>d\<bar> \<le> \<bar>q\<bar> \<and> (if cpf_lagging f then d \<le> 0 else 0 \<le> d) \<and>
    (pf \<noteq> 0 \<and> \<bar>d\<bar> < \<bar>q\<bar> \<longrightarrow> p ^ 2 + d ^ 2 = (p / pf) ^ 2)"
proof -
  have pf: "pf = cpf_setpoint f" and d: "d = (if cpf_lagging f then -1 else 1) *
      (if pf = 0 then \<bar>q\<bar> else min \<bar>p * sqrt (1 / pf ^ 2 - 1)\<bar> \<bar>q\<bar>)"
    using cpf_execute_helper_result [of p q f] assms by simp_all
  have "p ^ 2 + d ^ 2 = (p / pf) ^ 2" if "pf \<noteq> 0" "\<bar>d\<bar> < \<bar>q\<bar>"
  proof -
    have "\<bar>d\<bar> = \<bar>p * sqrt (1 / pf ^ 2 - 1)\<bar>" using d that by (auto simp: abs_mult min_def split: if_splits)
    then have "d ^ 2 = (p * sqrt (1 / pf ^ 2 - 1)) ^ 2" by (metis power2_abs)
    with reactive_of_power_factor [of pf p] that(1) pf cpf_setpoint_range show ?thesis by simp
  qed
  moreover have "\<bar>d\<bar> \<le> \<bar>q\<bar> \<and> (if cpf_lagging f then d \<le> 0 else 0 \<le> d)" using d by (simp add: min_def)
  ultimately show ?thesis using pf cpf_setpoint_range [of f] by simp
qed

definition demo_cpf :: constant_power_factor where
  "demo_cpf = \<lparr>available = True, vars = (\<lambda>v. demo_var ''x'' 0)(CPF_power_factor_setpoint := demo_var ''pf'' (-1/2))\<rparr>"

theorem constant_power_factor_exact_witness:
  "\<bar>fst (fst (cpf_execute_helper 30 10 demo_cpf))\<bar> \<le> 10"
  using constant_power_factor_exact [of 30 10 demo_cpf, OF _ refl]
  by (metis abs_numeral prod.collapse)

text \<open>Voltage regulation: the response opposes the deviation and is bounded: an over-voltage never
  requests more than the rated absorption and never a supply, an under-voltage never more
  than the rated supply and never an absorption, and the dispatched demand is the slewed
  request cut to the reactive potential.\<close>

theorem avr_response_bounded:
  assumes "avr_execute_helper now q f = ((d, flag), f')" "0 \<le> q" "f0 = avr_normalise f"
  shows "(if fval AVR_voltage_cmd f0 < fval AVR_actual_volts f0
          then - fval AVR_over_rated_kVAR f0 \<le> avr_kVAR_request f0 \<and> avr_kVAR_request f0 \<le> 0
          else 0 \<le> avr_kVAR_request f0 \<and> avr_kVAR_request f0 \<le> fval AVR_under_rated_kVAR f0) \<and>
    \<bar>d\<bar> = min q \<bar>get_slew_target (avr_kVAR_slew f0) (avr_kVAR_request f0)\<bar> \<and>
    fval AVR_request f' = get_slew_target (avr_kVAR_slew f0) (avr_kVAR_request f0)"
proof -
  have val: "avr_kVAR_request (store_bool v b g) = avr_kVAR_request g" for v b g
    by (simp add: avr_kVAR_request_def avr_delta_volts_def Let_def)
  have "\<bar>d\<bar> = min q \<bar>get_slew_target (avr_kVAR_slew f0) (avr_kVAR_request f0)\<bar>"
    "fval AVR_request f' = get_slew_target (avr_kVAR_slew f0) (avr_kVAR_request f0)"
    using assms by (auto simp: avr_execute_helper_def Let_def val abs_mult)
  then show ?thesis
    using avr_request_over avr_request_under avr_ordered_normalise assms(3) by (simp add: not_less)
qed

definition demo_avr :: avr where
  "demo_avr = \<lparr>available = True, vars = (\<lambda>v. demo_var ''x'' 1), avr_kVAR_slew = Slew_Object (mk_ts 0 0) (mk_ts 0 0),
     symmetric_variables = True\<rparr>"

theorem avr_response_bounded_witness:
  "\<bar>fst (fst (avr_execute_helper (mk_ts 1 0) 7 demo_avr))\<bar> \<le> 7"
  using avr_response_bounded [of "mk_ts 1 0" 7 demo_avr, OF _ _ refl]
  by (metis min.cobounded1 prod.collapse zero_le_numeral)

text \<open>A zero over-voltage droop does not silence the regulator: with separate under-voltage settings
  the under-voltage droop answers the over-voltage, where the comment in the code says the
  request is zero.\<close>

theorem avr_zero_droop_still_responds:
  assumes "fval AVR_voltage_cmd f < fval AVR_actual_volts f" "fval AVR_over_droop f = 0"
    and "fval AVR_under_droop f \<noteq> 0"
  shows "avr_kVAR_request f = max (avr_delta_volts f / fval AVR_under_droop f * fval AVR_under_rated_kVAR f)
    (- fval AVR_over_rated_kVAR f)"
  using assms by (simp add: avr_kVAR_request_def Let_def)

definition demo_avr2 :: avr where
  "demo_avr2 = demo_avr\<lparr>vars := (\<lambda>v. demo_var ''x'' 1)(AVR_over_droop := demo_var ''d'' 0, AVR_actual_volts := demo_var ''a'' 3)\<rparr>"

theorem avr_zero_droop_still_responds_witness:
  "avr_kVAR_request demo_avr2 = -1"
  using avr_zero_droop_still_responds [of demo_avr2]
  by (simp add: demo_avr2_def demo_avr_def demo_var_def feature_ops set_float_def avr_delta_volts_def Let_def)

end
