(* ===== verification/Island_Features.thy ===== *)
theory Island_Features
  imports Features Regulator
begin

text \<open>
  The features of the islanded site (run mode 2) and of site operation: \<^verbatim>\<open>Load_Shed\<close>,
  \<^verbatim>\<open>Solar_Shed\<close>, \<^verbatim>\<open>Generator_Charge\<close>, \<^verbatim>\<open>Watchdog\<close>, \<^verbatim>\<open>Charge_Control\<close> and \<^verbatim>\<open>Charge_Dispatch\<close>.
  A message sent to a component is a result: the target URI and the value object whose JSON
  form is the body.
\<close>

section \<open>Load shedding\<close>

datatype ls_var = LS_enable_flag | LS_value | LS_max_value | LS_min_value | LS_max_shedding_threshold
  | LS_high_threshold | LS_low_threshold | LS_spare_ess_kw | LS_increase_timer_ms | LS_decrease_timer_ms
  | LS_increase_display_timer | LS_decrease_display_timer

record load_shed = "ls_var feature" +
  load_shed_calculator :: variable_regulator

type_synonym fims_out = "(string \<times> value_object) option"

definition ls_feature_vars :: "ls_var list" where
  "ls_feature_vars = [LS_value, LS_max_value, LS_min_value, LS_max_shedding_threshold, LS_high_threshold,
     LS_low_threshold, LS_spare_ess_kw, LS_increase_timer_ms, LS_decrease_timer_ms,
     LS_increase_display_timer, LS_decrease_display_timer]"

definition ls_variable_ids :: "(ls_var \<times> string) list" where
  "ls_variable_ids =
    [(LS_enable_flag, ''load_shed_enable''), (LS_value, ''load_shed_value''),
     (LS_max_value, ''load_shed_max_value''), (LS_min_value, ''load_shed_min_value''),
     (LS_max_shedding_threshold, ''load_shed_max_shedding_threshold''),
     (LS_high_threshold, ''load_shed_high_threshold''), (LS_decrease_timer_ms, ''load_shed_decrease_timer_ms''),
     (LS_low_threshold, ''load_shed_low_threshold''), (LS_increase_timer_ms, ''load_shed_increase_timer_ms''),
     (LS_increase_display_timer, ''load_shed_increase_display_timer''),
     (LS_decrease_display_timer, ''load_shed_decrease_display_timer''),
     (LS_spare_ess_kw, ''load_shed_spare_ess_kw'')]"

definition ls_send :: "bool \<Rightarrow> load_shed \<Rightarrow> fims_out" where
  "ls_send is_primary f = snd (send_to_component is_primary True (vars f LS_value))"

definition ls_init :: "bool \<Rightarrow> load_shed \<Rightarrow> fims_out \<times> load_shed" where
  "ls_init is_primary f =
     (let r = load_shed_calculator f;
          r = r\<lparr>min_offset := ival LS_min_value f\<rparr>;
          r = r\<lparr>max_offset := ival LS_max_value f\<rparr>;
          r = r\<lparr>offset := max_offset r\<rparr>;
          r = r\<lparr>default_offset := max_offset r\<rparr>;
          (out, f) = (if ival LS_value f \<noteq> offset r then
                        let f = store_int LS_value (offset r) f in (ls_send is_primary f, f)
                      else (None, f));
          r = set_default_condition (fval LS_max_shedding_threshold f) VALUE_BELOW r;
          r = set_control_high_threshold (fval LS_high_threshold f) r;
          r = set_decrease_timer_duration_ms (ival LS_decrease_timer_ms f) r;
          r = set_control_low_threshold (fval LS_low_threshold f) r;
          r = set_increase_timer_duration_ms (ival LS_increase_timer_ms f) r
      in (out, f\<lparr>load_shed_calculator := r\<rparr>))"

definition ls_reset :: "bool \<Rightarrow> load_shed \<Rightarrow> fims_out \<times> load_shed" where
  "ls_reset is_primary f =
     (let f = f\<lparr>load_shed_calculator := (load_shed_calculator f)\<lparr>offset := max_offset (load_shed_calculator f)\<rparr>\<rparr>
      in if ival LS_value f \<noteq> offset (load_shed_calculator f) then
           let f = store_int LS_value (offset (load_shed_calculator f)) f in (ls_send is_primary f, f)
         else (None, f))"

definition ls_execute :: "timespec \<Rightarrow> bool \<Rightarrow> flt \<Rightarrow> load_shed \<Rightarrow> fims_out \<times> load_shed" where
  "ls_execute now is_primary soc_avg_running f =
     (let prev_load_shed = offset (load_shed_calculator f);
          r = snd (regulate_variable_offset now soc_avg_running (fval LS_spare_ess_kw f) (load_shed_calculator f));
          f = f\<lparr>load_shed_calculator := r\<rparr>;
          curr_load_shed = offset r
      in if curr_load_shed \<noteq> prev_load_shed then
           let f = store_int LS_value curr_load_shed f in (ls_send is_primary f, f)
         else (None, f))"

definition ls_handle_fims_set :: "input_source_list \<Rightarrow> string \<Rightarrow> cjson \<Rightarrow> load_shed \<Rightarrow> load_shed" where
  "ls_handle_fims_set srcs e msg f =
     (if is_bool_json msg \<and> available f then put_bool srcs e LS_enable_flag (msg \<noteq> JFalse) f else f)"

section \<open>Solar shedding\<close>

datatype ss_var = SS_enable_flag | SS_value | SS_max_value | SS_min_value | SS_max_shedding_threshold
  | SS_high_threshold | SS_low_threshold | SS_spare_ess_kw | SS_increase_timer_ms | SS_decrease_timer_ms
  | SS_increase_display_timer | SS_decrease_display_timer

record solar_shed = "ss_var feature" +
  solar_shed_calculator :: variable_regulator

definition ss_feature_vars :: "ss_var list" where
  "ss_feature_vars = [SS_value, SS_max_value, SS_min_value, SS_max_shedding_threshold, SS_high_threshold,
     SS_low_threshold, SS_spare_ess_kw, SS_increase_timer_ms, SS_decrease_timer_ms,
     SS_increase_display_timer, SS_decrease_display_timer]"

definition ss_variable_ids :: "(ss_var \<times> string) list" where
  "ss_variable_ids =
    [(SS_enable_flag, ''solar_shed_enable''), (SS_value, ''solar_shed_value''),
     (SS_max_value, ''solar_shed_max_value''), (SS_min_value, ''solar_shed_min_value''),
     (SS_max_shedding_threshold, ''solar_shed_max_shedding_threshold''),
     (SS_high_threshold, ''solar_shed_high_threshold''), (SS_decrease_timer_ms, ''solar_shed_decrease_timer_ms''),
     (SS_low_threshold, ''solar_shed_low_threshold''), (SS_increase_timer_ms, ''solar_shed_increase_timer_ms''),
     (SS_increase_display_timer, ''solar_shed_increase_display_timer''),
     (SS_decrease_display_timer, ''solar_shed_decrease_display_timer''),
     (SS_spare_ess_kw, ''solar_shed_spare_ess_kw'')]"

definition ss_init :: "solar_shed \<Rightarrow> solar_shed" where
  "ss_init f =
     (let r = solar_shed_calculator f;
          r = r\<lparr>min_offset := ival SS_min_value f\<rparr>;
          r = r\<lparr>max_offset := ival SS_max_value f\<rparr>;
          r = r\<lparr>offset := max_offset r\<rparr>;
          r = r\<lparr>default_offset := max_offset r\<rparr>;
          f = store_int SS_value (offset r) f;
          r = set_default_condition (fval SS_max_shedding_threshold f) VALUE_ABOVE r;
          r = set_control_high_threshold (fval SS_high_threshold f) r;
          r = set_decrease_timer_duration_ms (ival SS_decrease_timer_ms f) r;
          r = set_control_low_threshold (fval SS_low_threshold f) r;
          r = set_increase_timer_duration_ms (ival SS_increase_timer_ms f) r
      in f\<lparr>solar_shed_calculator := r\<rparr>)"

definition ss_reset :: "solar_shed \<Rightarrow> solar_shed" where
  "ss_reset f =
     (let r = (solar_shed_calculator f)\<lparr>offset := max_offset (solar_shed_calculator f)\<rparr>
      in store_int SS_value (offset r) (f\<lparr>solar_shed_calculator := r\<rparr>))"

text \<open>The division is by the range of the shed values; equal limits divide by zero (\<open>None\<close>).\<close>

definition ss_execute_helper :: "timespec \<Rightarrow> flt \<Rightarrow> flt \<Rightarrow> flt \<Rightarrow> solar_shed \<Rightarrow> ((flt \<times> flt) \<times> solar_shed) option" where
  "ss_execute_helper now soc_avg_running solar_total_rated_active_power solar_max_potential f =
     (let r = snd (regulate_variable_offset now soc_avg_running (fval SS_spare_ess_kw f) (solar_shed_calculator f));
          f = f\<lparr>solar_shed_calculator := r\<rparr>;
          f = store_int SS_value (offset r) f
      in case fdiv (of_int (max_offset r) - of_int (offset r)) (of_int (max_offset r - min_offset r)) of
           None \<Rightarrow> None
         | Some percent_shedding \<Rightarrow>
             let solar_max = solar_total_rated_active_power * percent_shedding;
                 solar_max = min solar_max solar_max_potential
             in Some ((solar_max, solar_max), f))"

definition ss_execute :: "timespec \<Rightarrow> flt \<Rightarrow> flt \<Rightarrow> solar_shed \<times> asset_cmd_object \<Rightarrow> (flt \<times> solar_shed \<times> asset_cmd_object) option" where
  "ss_execute now soc_avg_running solar_total_rated_active_power = (\<lambda>(f, a).
     case ss_execute_helper now soc_avg_running solar_total_rated_active_power (max_potential_kW (solar_data a)) f of
       None \<Rightarrow> None
     | Some ((m, s), f') \<Rightarrow> Some (s, f', a\<lparr>solar_data := (solar_data a)\<lparr>max_potential_kW := m\<rparr>\<rparr>))"

definition ss_handle_fims_set :: "input_source_list \<Rightarrow> string \<Rightarrow> cjson \<Rightarrow> solar_shed \<Rightarrow> solar_shed" where
  "ss_handle_fims_set srcs e msg f =
     (if is_bool_json msg \<and> available f then put_bool srcs e SS_enable_flag (msg \<noteq> JFalse) f else f)"

section \<open>Generator charge\<close>

datatype gc_var = GC_enable_flag | GC_additional_buffer

type_synonym generator_charge = "gc_var feature"

definition gc_feature_vars :: "gc_var list" where
  "gc_feature_vars = [GC_additional_buffer]"

definition gc_variable_ids :: "(gc_var \<times> string) list" where
  "gc_variable_ids = [(GC_enable_flag, ''generator_charge_enable''), (GC_additional_buffer, ''generator_charge_additional_buffer'')]"

definition gc_execute_helper :: "int \<Rightarrow> int \<Rightarrow> flt \<Rightarrow> flt \<Rightarrow> flt \<Rightarrow> flt \<Rightarrow> flt \<Rightarrow> generator_charge \<Rightarrow> flt \<times> flt" where
  "gc_execute_helper shed_offset shed_min_offset shed_high_threshold solar_max load ess_min gen_max f =
     (let solar_additional_buffer = (if shed_offset = shed_min_offset then 0 else shed_high_threshold);
          actual_solar_compensation = solar_max - load;
          available_ess_after_solar = zero_check (zero_check (-1 * ess_min) - actual_solar_compensation);
          calc_gen_limit = zero_check (available_ess_after_solar - solar_additional_buffer - fval GC_additional_buffer f);
          max_gen_limit = min calc_gen_limit gen_max
      in (max_gen_limit, max_gen_limit))"

definition gc_execute :: "solar_shed \<Rightarrow> generator_charge \<Rightarrow> asset_cmd_object \<Rightarrow> flt \<times> asset_cmd_object" where
  "gc_execute shed f a =
     (case gc_execute_helper (offset (solar_shed_calculator shed)) (min_offset (solar_shed_calculator shed))
         (fval SS_high_threshold shed) (max_potential_kW (solar_data a)) (site_kW_load a)
         (min_potential_kW (ess_data a)) (max_potential_kW (gen_data a)) f of
        (m, s) \<Rightarrow> (s, a\<lparr>gen_data := (gen_data a)\<lparr>max_potential_kW := m\<rparr>\<rparr>))"

section \<open>Watchdog\<close>

datatype wd_var = WD_enable_flag | WD_watchdog_duration_ms | WD_watchdog_pet | WD_heartbeat_counter
  | WD_heartbeat_duration_ms | WD_max_heartbeat | WD_min_heartbeat

record watchdog = "wd_var feature" +
  watchdog_old_pet :: int
  heartbeat_timer :: timespec
  watchdog_timeout :: timespec

definition wd_feature_vars :: "wd_var list" where
  "wd_feature_vars = [WD_watchdog_duration_ms, WD_watchdog_pet, WD_heartbeat_counter, WD_heartbeat_duration_ms]"

definition wd_variable_ids :: "(wd_var \<times> string) list" where
  "wd_variable_ids = [(WD_enable_flag, ''watchdog_enable''), (WD_watchdog_duration_ms, ''watchdog_duration_ms''),
     (WD_watchdog_pet, ''watchdog_pet''), (WD_heartbeat_counter, ''heartbeat_counter''),
     (WD_heartbeat_duration_ms, ''heartbeat_duration_ms'')]"

definition wd_optional_variable_ids :: "(wd_var \<times> string) list" where
  "wd_optional_variable_ids = [(WD_max_heartbeat, ''max_heartbeat''), (WD_min_heartbeat, ''min_heartbeat'')]"

definition Watchdog :: "timespec \<Rightarrow> timespec \<Rightarrow> (wd_var \<Rightarrow> fims_object) \<Rightarrow> watchdog" where
  "Watchdog now1 now2 vs = \<lparr>available = False, vars = vs, watchdog_old_pet = 0, heartbeat_timer = now1,
     watchdog_timeout = increment_timespec_ms now2 (value_int (fo_value (vs WD_watchdog_duration_ms)))\<rparr>"

definition INT_MAX :: int where
  "INT_MAX = 2147483647"

text \<open>
  \<^verbatim>\<open>beat\<close>; \<open>now\<close> is the clock read when the timer is reset.  Incrementing a counter that holds
  the largest \<^verbatim>\<open>int\<close> is undefined: \<open>None\<close>.
\<close>

definition beat :: "timespec \<Rightarrow> timespec \<Rightarrow> watchdog \<Rightarrow> watchdog option" where
  "beat current_time now f =
     (if check_expired_time current_time (heartbeat_timer f) then
        let min_beat = (if configured (vars f WD_min_heartbeat) then ival WD_min_heartbeat f else 0);
            max_beat = (if configured (vars f WD_max_heartbeat) then ival WD_max_heartbeat f else INT_MAX)
        in if ival WD_heartbeat_counter f = INT_MAX then None
           else
             let f = assign_int WD_heartbeat_counter (ival WD_heartbeat_counter f + 1) f;
                 f = (if ival WD_heartbeat_counter f > max_beat then store_int WD_heartbeat_counter min_beat f else f);
                 f = (if ival WD_heartbeat_counter f < min_beat then store_int WD_heartbeat_counter min_beat f else f)
             in Some (f\<lparr>heartbeat_timer := increment_timespec_ms now (ival WD_heartbeat_duration_ms f)\<rparr>)
      else Some f)"

definition should_bark :: "timespec \<Rightarrow> timespec \<Rightarrow> watchdog \<Rightarrow> bool \<times> watchdog" where
  "should_bark current_time now f =
     (if watchdog_old_pet f \<noteq> ival WD_watchdog_pet f then
        let f = f\<lparr>watchdog_old_pet := ival WD_watchdog_pet f\<rparr>
        in (False, f\<lparr>watchdog_timeout := increment_timespec_ms now (ival WD_watchdog_duration_ms f)\<rparr>)
      else (check_expired_time current_time (watchdog_timeout f), f))"

definition wd_handle_fims_set :: "input_source_list \<Rightarrow> string \<Rightarrow> cjson \<Rightarrow> watchdog \<Rightarrow> watchdog" where
  "wd_handle_fims_set srcs e msg f = (case msg of
       JNumber d i \<Rightarrow>
         let f = put_int srcs e WD_watchdog_pet \<bar>i\<bar> f;
             f = put_int srcs e WD_watchdog_duration_ms \<bar>i\<bar> f;
             f = (if configured (vars f WD_min_heartbeat) then put_int srcs e WD_min_heartbeat i f else f)
         in if configured (vars f WD_max_heartbeat) then put_int srcs e WD_max_heartbeat i f else f
     | _ \<Rightarrow> if is_bool_json msg \<and> available f then put_bool srcs e WD_enable_flag (msg \<noteq> JFalse) f else f)"

section \<open>Charge control and charge dispatch\<close>

datatype cc_var = CC_enable_flag | CC_kW_request | CC_target_soc | CC_kW_limit | CC_charge_disable | CC_discharge_disable

type_synonym charge_control = "cc_var feature"

definition cc_feature_vars :: "cc_var list" where
  "cc_feature_vars = [CC_kW_request, CC_target_soc, CC_kW_limit, CC_charge_disable, CC_discharge_disable]"

definition cc_variable_ids :: "(cc_var \<times> string) list" where
  "cc_variable_ids =
    [(CC_enable_flag, ''_ess_charge_control_enable_flag''), (CC_kW_request, ''ess_charge_control_kW_request''),
     (CC_kW_limit, ''ess_charge_control_kW_limit''), (CC_target_soc, ''ess_charge_control_target_soc''),
     (CC_charge_disable, ''ess_charge_control_charge_disable''),
     (CC_discharge_disable, ''ess_charge_control_discharge_disable'')]"

definition cc_handle_fims_set :: "input_source_list \<Rightarrow> string \<Rightarrow> cjson \<Rightarrow> charge_control \<Rightarrow> charge_control" where
  "cc_handle_fims_set srcs e msg f = (case msg of
       JNumber d i \<Rightarrow>
         let f = (if d \<ge> 0 \<and> d \<le> 100 then put_float srcs e CC_target_soc d f else f)
         in put_float srcs e CC_kW_limit \<bar>d\<bar> f
     | _ \<Rightarrow> if is_bool_json msg then
         let b = (msg \<noteq> JFalse)
         in put_bool srcs e CC_discharge_disable b (put_bool srcs e CC_charge_disable b f)
         else f)"

datatype cd_var = CD_enable_flag | CD_kW_command | CD_solar_enable_flag | CD_gen_enable_flag | CD_feeder_enable_flag

type_synonym charge_dispatch = "cd_var feature"

definition cd_feature_vars :: "cd_var list" where
  "cd_feature_vars = [CD_kW_command, CD_solar_enable_flag, CD_gen_enable_flag, CD_feeder_enable_flag]"

definition cd_variable_ids :: "(cd_var \<times> string) list" where
  "cd_variable_ids =
    [(CD_enable_flag, ''_charge_dispatch_enable_flag''), (CD_kW_command, ''charge_dispatch_kW_command''),
     (CD_gen_enable_flag, ''charge_dispatch_gen_enable_flag''),
     (CD_solar_enable_flag, ''charge_dispatch_solar_enable_flag''),
     (CD_feeder_enable_flag, ''charge_dispatch_feeder_enable_flag'')]"

definition cd_handle_fims_set :: "input_source_list \<Rightarrow> string \<Rightarrow> cjson \<Rightarrow> charge_dispatch \<Rightarrow> charge_dispatch" where
  "cd_handle_fims_set srcs e msg f =
     (if is_bool_json msg then
        let b = (msg \<noteq> JFalse);
            f = put_bool srcs e CD_solar_enable_flag b f;
            f = put_bool srcs e CD_gen_enable_flag b f
        in put_bool srcs e CD_feeder_enable_flag b f
      else f)"

section \<open>The SET handlers keep the feature contract\<close>

interpretation ls: fims_feature ls_handle_fims_set
  by standard (auto simp: ls_handle_fims_set_def intro!: handler_intros)

interpretation ss: fims_feature ss_handle_fims_set
  by standard (auto simp: ss_handle_fims_set_def intro!: handler_intros)

interpretation wd: fims_feature wd_handle_fims_set
  by standard (auto simp: wd_handle_fims_set_def Let_def split: cjson.split intro!: handler_intros)

interpretation cc: fims_feature cc_handle_fims_set
  by standard (auto simp: cc_handle_fims_set_def Let_def split: cjson.split intro!: handler_intros)

interpretation cd: fims_feature cd_handle_fims_set
  by standard (auto simp: cd_handle_fims_set_def Let_def intro!: handler_intros)

section \<open>The shed value follows the regulator\<close>

lemma ls_vals [simp]:
  "ival v (load_shed_calculator_update g f) = ival v f" "fval v (load_shed_calculator_update g f) = fval v f"
  "load_shed_calculator (store_int v i f) = load_shed_calculator f"
  by (simp_all add: ival_def fval_def store_int_def upd_var_def)

lemma ss_vals [simp]:
  "ival v (solar_shed_calculator_update g h) = ival v h" "fval v (solar_shed_calculator_update g h) = fval v h"
  "solar_shed_calculator (store_int v i h) = solar_shed_calculator h"
  by (simp_all add: ival_def fval_def store_int_def upd_var_def)

definition ls_inv :: "load_shed \<Rightarrow> bool" where
  "ls_inv f \<longleftrightarrow> regulator_inv (load_shed_calculator f) \<and> ival LS_value f = offset (load_shed_calculator f)"

definition ls_step :: "timespec \<times> bool \<times> flt \<Rightarrow> load_shed \<Rightarrow> load_shed" where
  "ls_step i f = (case i of (now, prim, soc) \<Rightarrow> snd (ls_execute now prim soc f))"

lemma ls_execute_inv: "ls_inv f \<Longrightarrow> ls_inv (snd (ls_execute now prim soc f))"
  by (simp add: ls_inv_def ls_execute_def Let_def regulate_variable_offset_inv)

lemma ls_step_limits:
  "min_offset (load_shed_calculator (ls_step i f)) = min_offset (load_shed_calculator f)"
  "max_offset (load_shed_calculator (ls_step i f)) = max_offset (load_shed_calculator f)"
  by (simp_all add: ls_step_def ls_execute_def Let_def regulate_frame split: prod.splits)

interpretation lsm: bounded_machine ls_step ls_inv "ival LS_value"
  "\<lambda>f. min_offset (load_shed_calculator f)" "\<lambda>f. max_offset (load_shed_calculator f)"
proof
  show "ls_inv f \<Longrightarrow> ls_inv (ls_step i f)" for f i by (simp add: ls_step_def ls_execute_inv split: prod.splits)
  show "ls_inv f \<Longrightarrow> min_offset (load_shed_calculator f) \<le> ival LS_value f \<and> ival LS_value f \<le> max_offset (load_shed_calculator f)"
    for f by (simp add: ls_inv_def regulator_inv_def)
qed (simp_all add: ls_step_limits)

lemma ls_init_inv:
  assumes "ival LS_min_value f \<le> ival LS_max_value f" "0 \<le> ival LS_decrease_timer_ms f"
    and "0 \<le> ival LS_increase_timer_ms f" "0 \<le> updates_per_second (load_shed_calculator f)"
  shows "ls_inv (snd (ls_init prim f))"
    "min_offset (load_shed_calculator (snd (ls_init prim f))) = ival LS_min_value f"
    "max_offset (load_shed_calculator (snd (ls_init prim f))) = ival LS_max_value f"
  using assms by (simp_all add: ls_init_def ls_inv_def Let_def regulator_inv_def set_default_condition_def
      set_control_high_threshold_def set_control_low_threshold_def set_decrease_timer_duration_ms_def
      set_increase_timer_duration_ms_def)

section \<open>Properties\<close>

text \<open>Load shedding: after initialisation and any sequence of executions the published shed value is
  the regulator's offset and lies between the configured minimum and maximum.\<close>

theorem load_shed_value_bounded:
  assumes "ival LS_min_value f \<le> ival LS_max_value f" "0 \<le> ival LS_decrease_timer_ms f"
    and "0 \<le> ival LS_increase_timer_ms f" "0 \<le> updates_per_second (load_shed_calculator f)"
    and "f' = fold ls_step is (snd (ls_init prim f))"
  shows "ival LS_value f' = offset (load_shed_calculator f') \<and>
    ival LS_min_value f \<le> ival LS_value f' \<and> ival LS_value f' \<le> ival LS_max_value f"
proof -
  note start = ls_init_inv [OF assms(1-4), of prim]
  show ?thesis using lsm.run_bounds [OF start(1)] lsm.run_inv [OF start(1)] start(2,3) assms(5)
    by (simp add: ls_inv_def)
qed

definition demo_ls :: load_shed where
  "demo_ls = \<lparr>available = True, vars = (\<lambda>v. demo_var ''x'' 0)(LS_max_value := demo_var ''max'' 5),
     load_shed_calculator = Variable_Regulator (mk_ts 0 0) (mk_ts 0 0)\<rparr>"

theorem load_shed_value_bounded_witness:
  "ival LS_value (fold ls_step [(mk_ts 1 0, True, 50), (mk_ts 2 0, True, 50)] (snd (ls_init True demo_ls))) \<le> 5"
  using load_shed_value_bounded [of demo_ls _ "[(mk_ts 1 0, True, 50), (mk_ts 2 0, True, 50)]" True, OF _ _ _ _ refl]
  by (simp add: demo_ls_def demo_var_def feature_ops set_float_def demo_fims_def Value_Object_def c_trunc_def Variable_Regulator_def)

text \<open>Solar shedding: with distinct limits the feature returns, and the solar potential it leaves is
  between zero and the rated power and never above what it was; with equal limits it divides
  by zero.\<close>

theorem solar_shed_range:
  assumes "regulator_inv (solar_shed_calculator f)" "0 \<le> rated" "0 \<le> smax"
  shows "if min_offset (solar_shed_calculator f) = max_offset (solar_shed_calculator f)
    then ss_execute_helper now soc rated smax f = None
    else \<exists>m f'. ss_execute_helper now soc rated smax f = Some ((m, m), f') \<and>
           0 \<le> m \<and> m \<le> rated \<and> m \<le> smax \<and> ival SS_value f' = offset (solar_shed_calculator f')"
proof -
  define r where "r = snd (regulate_variable_offset now soc (fval SS_spare_ess_kw f) (solar_shed_calculator f))"
  have fr: "min_offset r = min_offset (solar_shed_calculator f)" "max_offset r = max_offset (solar_shed_calculator f)"
    by (simp_all add: r_def regulate_frame)
  have o: "min_offset r \<le> offset r" "offset r \<le> max_offset r"
    using regulate_variable_offset_inv [OF assms(1)] by (simp_all add: r_def regulator_inv_def)
  define p where "p = (of_int (max_offset r) - of_int (offset r)) / (of_int (max_offset r - min_offset r) :: real)"
  have "0 \<le> p" "p \<le> 1" if "min_offset r \<noteq> max_offset r" using o that by (simp_all add: p_def divide_le_eq)
  then have "0 \<le> rated * p" "rated * p \<le> rated" if "min_offset r \<noteq> max_offset r"
    using assms(2) that by (simp_all add: mult_left_le)
  moreover have "ss_execute_helper now soc rated smax f =
      (if min_offset r = max_offset r then None
       else Some ((min (rated * p) smax, min (rated * p) smax), store_int SS_value (offset r) (f\<lparr>solar_shed_calculator := r\<rparr>)))"
    by (simp add: ss_execute_helper_def Let_def r_def [symmetric] fdiv_def p_def)
  ultimately show ?thesis using assms(3) fr by (auto simp: min.coboundedI1)
qed

definition demo_ss :: solar_shed where
  "demo_ss = \<lparr>available = True, vars = (\<lambda>v. demo_var ''x'' 0),
     solar_shed_calculator = (Variable_Regulator (mk_ts 0 0) (mk_ts 0 0))\<lparr>max_offset := 4\<rparr>\<rparr>"

theorem solar_shed_range_witness:
  "\<exists>m f'. ss_execute_helper (mk_ts 1 0) 50 100 80 demo_ss = Some ((m, m), f') \<and> m \<le> 80"
  using solar_shed_range [of demo_ss 100 80 "mk_ts 1 0" 50]
  by (auto simp: demo_ss_def Variable_Regulator_def regulator_inv_def)

text \<open>Generator charge: the generator never gets more than its own potential, and what it gets
  together with the solar surplus and the buffers fits into what the storage can absorb.\<close>

theorem generator_charge_fits:
  assumes "gc_execute_helper off mn thr solar load ess_min gmax f = (m, s)" "0 < m"
    and "0 \<le> thr" "0 \<le> fval GC_additional_buffer f"
  shows "m \<le> gmax \<and> s = m \<and>
    m + zero_check (solar - load) \<le> zero_check (- ess_min) + zero_check (load - solar) -
      (if off = mn then 0 else thr) - fval GC_additional_buffer f"
  using assms by (auto simp: gc_execute_helper_def Let_def zero_check_def split: if_splits)

definition demo_gc :: "flt \<Rightarrow> generator_charge" where
  "demo_gc x = \<lparr>available = True, vars = (\<lambda>v. demo_var ''x'' x)\<rparr>"

theorem generator_charge_fits_witness:
  "fst (gc_execute_helper 0 0 0 30 10 (-100) 60 (demo_gc 5)) \<le> 60"
  using generator_charge_fits [OF prod.collapse [symmetric], of 0 0 0 30 10 "-100" 60 "demo_gc 5"]
  by (simp add: gc_execute_helper_def demo_gc_def demo_var_def feature_ops set_float_def utils_defs)

text \<open>The watchdog barks neither early nor late: once a new pet is seen at clock reading
  \<open>now\<close>, a later check with the same pet is silent up to the end of the configured duration
  and barks once more than a millisecond has passed beyond it.\<close>

theorem watchdog_timing:
  assumes "watchdog_old_pet f \<noteq> ival WD_watchdog_pet f" "0 \<le> ival WD_watchdog_duration_ms f"
    and "valid_ts now" "valid_ts c"
    and "should_bark c0 now f = (b, f')"
  shows "\<not> b \<and>
    (ts_nanos c \<le> ts_nanos now + ival WD_watchdog_duration_ms f * 1000000 \<longrightarrow> \<not> fst (should_bark c n f')) \<and>
    (ts_nanos now + ival WD_watchdog_duration_ms f * 1000000 + 1000000 < ts_nanos c \<longrightarrow> fst (should_bark c n f'))"
proof -
  let ?t = "increment_timespec_ms now (ival WD_watchdog_duration_ms f)"
  have t: "valid_ts ?t" "ts_nanos ?t = ts_nanos now + ival WD_watchdog_duration_ms f * 1000000"
    using increment_timespec_ms_correct [OF assms(3,2)] by auto
  have f': "b = False" "watchdog_timeout f' = ?t" "watchdog_old_pet f' = ival WD_watchdog_pet f'"
    using assms(1,5) by (auto simp: should_bark_def Let_def ival_def)
  then have "fst (should_bark c n f') = check_expired_time c ?t" by (simp add: should_bark_def)
  then show ?thesis
    using f'(1) t check_expired_time_past [OF assms(4) t(1)] check_expired_time_complete [OF assms(4) t(1)] by force
qed

definition demo_wd :: watchdog where
  "demo_wd = Watchdog (mk_ts 0 0) (mk_ts 0 0) ((\<lambda>v. demo_var ''x'' 0)(WD_watchdog_pet := demo_var ''pet'' 1,
     WD_watchdog_duration_ms := demo_var ''dur'' 2000, WD_max_heartbeat := demo_var ''max'' 9))"

lemma demo_wd_vals: "watchdog_old_pet demo_wd = 0" "ival WD_watchdog_pet demo_wd = 1"
  "ival WD_watchdog_duration_ms demo_wd = 2000"
  by (simp_all add: demo_wd_def Watchdog_def demo_var_def feature_ops set_float_def c_trunc_def)

theorem watchdog_timing_witness:
  "fst (should_bark (mk_ts 4 0) (mk_ts 4 0) (snd (should_bark (mk_ts 1 0) (mk_ts 1 0) demo_wd)))"
  using watchdog_timing [OF _ _ _ _ prod.collapse [symmetric], of demo_wd "mk_ts 1 0" "mk_ts 4 0" "mk_ts 1 0" "mk_ts 4 0"]
  by (simp add: demo_wd_vals valid_ts_def ts_nanos_def)

text \<open>The heartbeat stays in range: with an upper limit below the largest integer, an expired timer
  leaves a counter between the configured limits; without an upper limit the counter runs on
  until incrementing it overflows.\<close>

theorem heartbeat_range:
  assumes "check_expired_time c (heartbeat_timer f)"
    and "configured (vars f WD_min_heartbeat)" "ival WD_min_heartbeat f \<le> ival WD_max_heartbeat f"
    and "ival WD_heartbeat_counter f < INT_MAX"
  shows "if configured (vars f WD_max_heartbeat)
    then \<exists>f'. beat c now f = Some f' \<and> ival WD_min_heartbeat f \<le> ival WD_heartbeat_counter f' \<and>
             ival WD_heartbeat_counter f' \<le> ival WD_max_heartbeat f
    else beat c now (assign_int WD_heartbeat_counter INT_MAX f) = None"
proof -
  have timer: "ival v (heartbeat_timer_update g h) = ival v h" for v g and h :: watchdog by (simp add: ival_def)
  have keep: "heartbeat_timer (assign_int v i f) = heartbeat_timer f" for v i
    by (simp add: assign_int_def upd_var_def)
  show ?thesis using assms by (auto simp: beat_def Let_def timer keep)
qed

theorem heartbeat_range_witness:
  "\<exists>f'. beat (mk_ts 1 0) (mk_ts 1 0) demo_wd = Some f' \<and> ival WD_heartbeat_counter f' \<le> 9"
  using heartbeat_range [of "mk_ts 1 0" demo_wd "mk_ts 1 0"]
  by (auto simp: demo_wd_def Watchdog_def demo_var_def demo_fims_def feature_ops set_float_def c_trunc_def
      check_expired_time_def INT_MAX_def Value_Object_def)

end
