(* ===== verification/Frequency.thy ===== *)
theory Frequency
  imports Features
begin

text \<open>
  \<^verbatim>\<open>Features/Freq_Resp_Component.cpp\<close> and \<^verbatim>\<open>Features/Frequency_Response.cpp\<close>: the frequency
  response.  Each component is a state machine that waits for the grid frequency to leave a
  band, responds for a bounded time, recovers and cools down; the feature adds up the outputs
  of the enabled components.  A component holds its variables like a feature does (the
  availability flag of the record is not used); the readings of the clock that one call may
  take are arguments.
\<close>

section \<open>Data\<close>

datatype frc_var = FRC_active_cmd_kw | FRC_inactive_cmd_kw | FRC_trigger_freq_hz | FRC_force_start
  | FRC_trigger_duration_sec | FRC_droop_freq_hz | FRC_droop_limit_flag | FRC_droop_bypass_flag
  | FRC_recovery_freq_hz | FRC_recovery_duration_sec | FRC_recovery_latch | FRC_instant_recovery_freq_hz
  | FRC_cooldown_duration_sec | FRC_slew_rate_kw | FRC_cooldown_slew_rate_kw | FRC_ess_slew_override
  | FRC_freeze_active_cmd_flag | FRC_active_response_status | FRC_in_cooldown | FRC_in_recovery | FRC_output_kw

record freq_resp_component = "frc_var feature" +
  component_id :: string
  prev_active_cmd_kw :: flt
  prev_droop_limit_flag :: bool
  prev_slew_rate_kw :: int
  prev_cooldown_slew_rate_kw :: int
  is_underfrequency_component :: bool
  trigger_over_time :: timespec
  recovery_over_time :: timespec
  cooldown_over_time :: timespec
  droop_curve :: "(flt \<times> flt) list"
  slew_cmd_kw :: slew_object
  signed_active_cmd_kw :: flt
  latest_active_cmd_kw_received :: flt

record frc_clocks =
  ck_slew :: timespec
  ck_start :: timespec
  ck_recovery :: timespec
  ck_end :: timespec

definition frc_variable_ids :: "(frc_var \<times> string) list" where
  "frc_variable_ids =
    [(FRC_active_cmd_kw, ''active_cmd_kw''), (FRC_inactive_cmd_kw, ''inactive_cmd_kw''),
     (FRC_trigger_freq_hz, ''trigger_freq_hz''), (FRC_force_start, ''force_start''),
     (FRC_trigger_duration_sec, ''trigger_duration_sec''), (FRC_droop_freq_hz, ''droop_freq_hz''),
     (FRC_droop_limit_flag, ''droop_limit_flag''), (FRC_droop_bypass_flag, ''droop_bypass_flag''),
     (FRC_recovery_freq_hz, ''recovery_freq_hz''), (FRC_recovery_duration_sec, ''recovery_duration_sec''),
     (FRC_recovery_latch, ''recovery_latch''), (FRC_instant_recovery_freq_hz, ''instant_recovery_freq_hz''),
     (FRC_cooldown_duration_sec, ''cooldown_duration_sec''), (FRC_slew_rate_kw, ''slew_rate_kw''),
     (FRC_ess_slew_override, ''ess_slew_override''), (FRC_freeze_active_cmd_flag, ''freeze_active_cmd_flag''),
     (FRC_active_response_status, ''active_response_status''), (FRC_in_cooldown, ''in_cooldown''),
     (FRC_in_recovery, ''in_recovery''), (FRC_output_kw, ''output_kw'')]"

definition frc_get_feature_vars :: "freq_resp_component \<Rightarrow> frc_var list" where
  "frc_get_feature_vars f = map fst frc_variable_ids @
     (if configured (vars f FRC_cooldown_slew_rate_kw) then [FRC_cooldown_slew_rate_kw] else [])"

section \<open>The frequency bands\<close>

definition is_beyond_trigger :: "flt \<Rightarrow> freq_resp_component \<Rightarrow> bool" where
  "is_beyond_trigger freq f \<longleftrightarrow> (if is_underfrequency_component f then freq < fval FRC_trigger_freq_hz f
     else freq > fval FRC_trigger_freq_hz f)"

definition is_beyond_recovery :: "flt \<Rightarrow> freq_resp_component \<Rightarrow> bool" where
  "is_beyond_recovery freq f \<longleftrightarrow> (if is_underfrequency_component f then freq < fval FRC_recovery_freq_hz f
     else freq > fval FRC_recovery_freq_hz f)"

definition is_within_recovery :: "flt \<Rightarrow> freq_resp_component \<Rightarrow> bool" where
  "is_within_recovery freq f \<longleftrightarrow> (if is_underfrequency_component f then freq > fval FRC_recovery_freq_hz f
     else freq < fval FRC_recovery_freq_hz f)"

definition is_within_instant_recovery :: "flt \<Rightarrow> freq_resp_component \<Rightarrow> bool" where
  "is_within_instant_recovery freq f \<longleftrightarrow> (if is_underfrequency_component f then freq > fval FRC_instant_recovery_freq_hz f
     else freq < fval FRC_instant_recovery_freq_hz f)"

section \<open>The droop curve\<close>

definition compare_droop_curve_points :: "flt \<times> flt \<Rightarrow> flt \<times> flt \<Rightarrow> bool" where
  "compare_droop_curve_points p1 p2 = (if fst p1 = fst p2 then snd p1 > snd p2 else fst p1 < fst p2)"

text \<open>Sorting with the comparison; equal points are identical, so the result does not depend on the algorithm.\<close>

fun droop_insert :: "flt \<times> flt \<Rightarrow> (flt \<times> flt) list \<Rightarrow> (flt \<times> flt) list" where
  "droop_insert p [] = [p]"
| "droop_insert p (q # qs) = (if compare_droop_curve_points q p then q # droop_insert p qs else p # q # qs)"

definition droop_sort :: "(flt \<times> flt) list \<Rightarrow> (flt \<times> flt) list" where
  "droop_sort ps = foldr droop_insert ps []"

definition build_droop_curve :: "freq_resp_component \<Rightarrow> freq_resp_component" where
  "build_droop_curve f =
     (let directional_offset = (if is_underfrequency_component f then -1 else 1);
          c = [(fval FRC_trigger_freq_hz f - directional_offset, 0),
               (fval FRC_trigger_freq_hz f, 0),
               (fval FRC_droop_freq_hz f, signed_active_cmd_kw f)];
          c = (if bval FRC_droop_limit_flag f
               then c @ [(fval FRC_droop_freq_hz f + directional_offset, signed_active_cmd_kw f)] else c)
      in f\<lparr>droop_curve := droop_sort c\<rparr>)"

definition sync_active_cmd_kw :: "freq_resp_component \<Rightarrow> freq_resp_component" where
  "sync_active_cmd_kw f =
     (let f = store_float FRC_active_cmd_kw (if fval FRC_active_cmd_kw f < 0 then -1 * fval FRC_active_cmd_kw f
                                             else fval FRC_active_cmd_kw f) f
      in f\<lparr>signed_active_cmd_kw := (if is_underfrequency_component f then fval FRC_active_cmd_kw f
                                    else -1 * fval FRC_active_cmd_kw f)\<rparr>)"

section \<open>The state machine\<close>

definition add_secs :: "timespec \<Rightarrow> int \<Rightarrow> timespec" where
  "add_secs t s = t\<lparr>tv_sec := tv_sec t + s\<rparr>"

definition start_active_response :: "timespec \<Rightarrow> freq_resp_component \<Rightarrow> freq_resp_component" where
  "start_active_response now f =
     (let f = assign_bool FRC_active_response_status True f;
          f = f\<lparr>trigger_over_time := add_secs now (ival FRC_trigger_duration_sec f)\<rparr>
      in f\<lparr>slew_cmd_kw := set_slew_rate (c_trunc (fval FRC_slew_rate_kw f)) (slew_cmd_kw f)\<rparr>)"

definition end_active_response :: "timespec \<Rightarrow> freq_resp_component \<Rightarrow> freq_resp_component" where
  "end_active_response now f =
     (let f = assign_bool FRC_active_response_status False f;
          f = assign_bool FRC_in_recovery False f;
          f = f\<lparr>cooldown_over_time := add_secs now (ival FRC_cooldown_duration_sec f)\<rparr>;
          f = assign_bool FRC_in_cooldown True f;
          f = assign_float FRC_active_cmd_kw (latest_active_cmd_kw_received f) f
      in if configured (vars f FRC_cooldown_slew_rate_kw)
         then f\<lparr>slew_cmd_kw := set_slew_rate (c_trunc (fval FRC_cooldown_slew_rate_kw f)) (slew_cmd_kw f)\<rparr> else f)"

text \<open>The last part of \<^verbatim>\<open>update_state\<close>, reached only with the droop bypassed.\<close>

definition update_recovery :: "frc_clocks \<Rightarrow> timespec \<Rightarrow> flt \<Rightarrow> freq_resp_component \<Rightarrow> freq_resp_component" where
  "update_recovery ck current_time freq f =
     (if \<not> bval FRC_in_recovery f then
        let f = f\<lparr>recovery_over_time := add_secs (ck_recovery ck) (ival FRC_recovery_duration_sec f)\<rparr>
        in assign_bool FRC_in_recovery (is_within_recovery freq f) f
      else
        let f = (if \<not> bval FRC_recovery_latch f \<and> is_beyond_recovery freq f then
                   let f = assign_bool FRC_in_recovery False f
                   in f\<lparr>recovery_over_time := add_secs (ck_recovery ck) (ival FRC_recovery_duration_sec f)\<rparr>
                 else f)
        in if bval FRC_in_recovery f \<and> check_expired_time current_time (recovery_over_time f) \<and> \<not> bval FRC_force_start f
           then end_active_response (ck_end ck) f else f)"

text \<open>What \<^verbatim>\<open>update_state\<close> does once no cooldown stands in the way.\<close>

definition update_response :: "frc_clocks \<Rightarrow> timespec \<Rightarrow> flt \<Rightarrow> freq_resp_component \<Rightarrow> freq_resp_component" where
  "update_response ck current_time freq f =
     (let f = (if \<not> bval FRC_active_response_status f \<and> (is_beyond_trigger freq f \<or> bval FRC_force_start f)
               then start_active_response (ck_start ck) f else f)
      in if \<not> bval FRC_active_response_status f then f
         else if (if bval FRC_force_start f then check_expired_time current_time (trigger_over_time f)
                  else check_expired_time current_time (trigger_over_time f) \<or> is_within_instant_recovery freq f)
         then end_active_response (ck_end ck) f
         else if \<not> bval FRC_droop_bypass_flag f then f
         else update_recovery ck current_time freq f)"

definition update_state :: "frc_clocks \<Rightarrow> timespec \<Rightarrow> flt \<Rightarrow> freq_resp_component \<Rightarrow> freq_resp_component" where
  "update_state ck current_time freq f =
     (if bval FRC_in_cooldown f then
        if \<not> check_expired_time current_time (cooldown_over_time f) then f
        else update_response ck current_time freq (assign_bool FRC_in_cooldown False f)
      else update_response ck current_time freq f)"

definition calculate_kw_output :: "flt \<Rightarrow> freq_resp_component \<Rightarrow> flt option" where
  "calculate_kw_output freq f =
     (if \<not> bval FRC_active_response_status f then Some (fval FRC_inactive_cmd_kw f)
      else if bval FRC_droop_bypass_flag f \<or> bval FRC_force_start f then Some (signed_active_cmd_kw f)
      else get_curve_cmd freq (droop_curve f))"

text \<open>The updates at the start of \<^verbatim>\<open>frequency_response\<close> for variables that changed.\<close>

definition frc_refresh :: "freq_resp_component \<Rightarrow> freq_resp_component" where
  "frc_refresh f =
     (let f = (if prev_active_cmd_kw f \<noteq> fval FRC_active_cmd_kw f \<or> prev_droop_limit_flag f \<noteq> bval FRC_droop_limit_flag f then
                 let f = (if prev_active_cmd_kw f \<noteq> fval FRC_active_cmd_kw f then sync_active_cmd_kw f else f);
                     f = build_droop_curve f
                 in f\<lparr>prev_active_cmd_kw := fval FRC_active_cmd_kw f, prev_droop_limit_flag := bval FRC_droop_limit_flag f\<rparr>
               else f);
          f = (if prev_slew_rate_kw f \<noteq> ival FRC_slew_rate_kw f then
                 let f = (if \<not> bval FRC_in_cooldown f
                          then f\<lparr>slew_cmd_kw := set_slew_rate (ival FRC_slew_rate_kw f) (slew_cmd_kw f)\<rparr> else f)
                 in f\<lparr>prev_slew_rate_kw := ival FRC_slew_rate_kw f\<rparr>
               else f)
      in if configured (vars f FRC_cooldown_slew_rate_kw) \<and> prev_cooldown_slew_rate_kw f \<noteq> ival FRC_cooldown_slew_rate_kw f then
           let f = (if bval FRC_in_cooldown f
                    then f\<lparr>slew_cmd_kw := set_slew_rate (ival FRC_cooldown_slew_rate_kw f) (slew_cmd_kw f)\<rparr> else f)
           in f\<lparr>prev_cooldown_slew_rate_kw := ival FRC_cooldown_slew_rate_kw f\<rparr>
         else f)"

text \<open>
  \<^verbatim>\<open>frequency_response\<close>: the inputs are the ESS potentials and rating, the frequency and the time;
  the outputs the power and the two potentials.
\<close>

definition frequency_response ::
    "frc_clocks \<Rightarrow> flt \<Rightarrow> flt \<Rightarrow> flt \<Rightarrow> flt \<Rightarrow> timespec \<Rightarrow> freq_resp_component \<Rightarrow> ((flt \<times> flt \<times> flt) \<times> freq_resp_component) option" where
  "frequency_response ck ess_max ess_min ess_rated freq current_time f =
     (let f = frc_refresh f;
          f = f\<lparr>slew_cmd_kw := update_slew_target (ck_slew ck) (fval FRC_output_kw f) (slew_cmd_kw f)\<rparr>;
          f = update_state ck current_time freq f
      in case calculate_kw_output freq f of
           None \<Rightarrow> None
         | Some raw_output_kw \<Rightarrow>
             let f = assign_float FRC_output_kw (get_slew_target (slew_cmd_kw f) raw_output_kw) f
             in Some (if bval FRC_active_response_status f \<and> bval FRC_ess_slew_override f
                      then ((fval FRC_output_kw f, ess_rated, - ess_rated), f)
                      else ((fval FRC_output_kw f, ess_max, ess_min), f)))"

definition clear_outputs :: "freq_resp_component \<Rightarrow> freq_resp_component" where
  "clear_outputs f =
     (let f = assign_bool FRC_active_response_status False f;
          f = assign_bool FRC_in_cooldown False f;
          f = assign_bool FRC_in_recovery False f
      in assign_float FRC_output_kw 0 f)"

definition initialize_state :: "timespec \<Rightarrow> flt \<Rightarrow> freq_resp_component \<Rightarrow> bool \<times> freq_resp_component" where
  "initialize_state now grid_target_freq_hz f =
     (let f = f\<lparr>is_underfrequency_component := (fval FRC_trigger_freq_hz f < grid_target_freq_hz)\<rparr>
      in if (if is_underfrequency_component f then fval FRC_droop_freq_hz f > fval FRC_trigger_freq_hz f
             else fval FRC_droop_freq_hz f < fval FRC_trigger_freq_hz f)
         then (False, f)
         else
           let f = sync_active_cmd_kw f;
               f = build_droop_curve f;
               f = f\<lparr>slew_cmd_kw := reset_slew_target now (slew_cmd_kw f)\<rparr>;
               f = f\<lparr>slew_cmd_kw := set_slew_rate (ival FRC_slew_rate_kw f) (slew_cmd_kw f)\<rparr>;
               f = f\<lparr>prev_active_cmd_kw := fval FRC_active_cmd_kw f, prev_droop_limit_flag := bval FRC_droop_limit_flag f,
                     prev_slew_rate_kw := ival FRC_slew_rate_kw f\<rparr>
           in (True, f\<lparr>latest_active_cmd_kw_received := fval FRC_active_cmd_kw f\<rparr>))"

text \<open>
  \<^verbatim>\<open>handle_fims_set\<close> reads the three fields of the JSON node whatever its type; the booleans of
  the setters say whether one of them took the message.
\<close>

definition frc_handle_fims_set :: "input_source_list \<Rightarrow> flt \<times> int \<times> cjson \<Rightarrow> string \<Rightarrow> freq_resp_component \<Rightarrow> freq_resp_component" where
  "frc_handle_fims_set srcs body e f =
     (case body of (body_float, body_int, msg) \<Rightarrow>
      let body_bool = (if is_bool_json msg then msg = JTrue else False);
          hit = (\<lambda>v. hits srcs e (vars f v))
      in if prefix (variable_id (vars f FRC_active_cmd_kw)) e then
           let f = f\<lparr>latest_active_cmd_kw_received := body_float\<rparr>
           in if \<not> bval FRC_freeze_active_cmd_flag f \<or> \<not> bval FRC_active_response_status f
              then put_float srcs e FRC_active_cmd_kw body_float f else f
         else if hit FRC_trigger_duration_sec then put_int srcs e FRC_trigger_duration_sec body_int f
         else if hit FRC_droop_limit_flag then put_bool srcs e FRC_droop_limit_flag body_bool f
         else if hit FRC_droop_bypass_flag then put_bool srcs e FRC_droop_bypass_flag body_bool f
         else if hit FRC_inactive_cmd_kw then put_float srcs e FRC_inactive_cmd_kw body_float f
         else if hit FRC_slew_rate_kw then put_int srcs e FRC_slew_rate_kw body_int f
         else if hit FRC_ess_slew_override then put_bool srcs e FRC_ess_slew_override body_bool f
         else if hit FRC_cooldown_duration_sec then put_int srcs e FRC_cooldown_duration_sec body_int f
         else if hit FRC_recovery_duration_sec then put_int srcs e FRC_recovery_duration_sec body_int f
         else if hit FRC_recovery_latch then put_bool srcs e FRC_recovery_latch body_bool f
         else if hit FRC_freeze_active_cmd_flag then put_bool srcs e FRC_freeze_active_cmd_flag body_bool f
         else if hit FRC_force_start then put_bool srcs e FRC_force_start body_bool f
         else if configured (vars f FRC_cooldown_slew_rate_kw) \<and> hit FRC_cooldown_slew_rate_kw
         then put_float srcs e FRC_cooldown_slew_rate_kw body_float f
         else f)"

section \<open>The feature\<close>

datatype fr_var = FR_enable_flag | FR_enable_mask | FR_target_freq_hz | FR_freq_offset_hz | FR_total_output_kw

record frequency_feature = "fr_var feature" +
  response_components :: "freq_resp_component list"

definition fr_variable_ids :: "(fr_var \<times> string) list" where
  "fr_variable_ids = [(FR_enable_mask, ''fr_enable_mask''), (FR_target_freq_hz, ''fr_target_freq_hz''),
     (FR_freq_offset_hz, ''fr_freq_offset_hz''), (FR_enable_flag, ''fr_mode_enable_flag''),
     (FR_total_output_kw, ''fr_total_output_kw'')]"

definition fr_get_variable_ids_list :: "string list" where
  "fr_get_variable_ids_list = [''frequency_response'', ''fr_mode_enable_flag'']"

text \<open>
  The loop over the components with its index.  The bit test shifts a 32-bit one by the index,
  so a component beyond the 32nd is undefined (\<open>None\<close>); every component has its own clock readings.
\<close>

fun aggregate_loop :: "(nat \<Rightarrow> frc_clocks) \<Rightarrow> int \<Rightarrow> flt \<times> flt \<times> flt \<times> flt \<times> timespec \<Rightarrow> nat \<Rightarrow> freq_resp_component list \<Rightarrow>
    flt \<times> flt \<times> flt \<Rightarrow> ((flt \<times> flt \<times> flt) \<times> freq_resp_component list) option" where
  "aggregate_loop cks msk ins i [] agg = Some (agg, [])"
| "aggregate_loop cks msk ins i (c # cs) agg =
     (if i \<ge> 32 then None
      else case ins of (ess_max, ess_min, ess_rated, freq, current_time) \<Rightarrow>
        if bit msk i then
          case frequency_response (cks i) ess_max ess_min ess_rated freq current_time c of
            None \<Rightarrow> None
          | Some ((out, cmax, cmin), c') \<Rightarrow>
              let agg' = (fst agg + out, (if cmax \<noteq> ess_max then cmax else fst (snd agg)),
                          (if cmin \<noteq> ess_min then cmin else snd (snd agg)))
              in map_option (\<lambda>(a, cs'). (a, c' # cs')) (aggregate_loop cks msk ins (Suc i) cs agg')
        else map_option (\<lambda>(a, cs'). (a, clear_outputs c # cs')) (aggregate_loop cks msk ins (Suc i) cs agg))"

definition aggregate_response_components ::
    "(nat \<Rightarrow> frc_clocks) \<Rightarrow> flt \<Rightarrow> flt \<Rightarrow> flt \<Rightarrow> flt \<Rightarrow> flt \<Rightarrow> timespec \<Rightarrow> frequency_feature \<Rightarrow>
     ((flt \<times> flt \<times> flt) \<times> frequency_feature) option" where
  "aggregate_response_components cks demand ess_max ess_min ess_rated freq current_time f =
     (case aggregate_loop cks (ival FR_enable_mask f)
             (ess_max, ess_min, ess_rated, freq + fval FR_freq_offset_hz f, current_time) 0
             (response_components f) (demand, ess_max, ess_min) of
        None \<Rightarrow> None
      | Some (agg, cs) \<Rightarrow> Some (agg, store_float FR_total_output_kw (fst agg) (f\<lparr>response_components := cs\<rparr>)))"

definition fr_execute ::
    "(nat \<Rightarrow> frc_clocks) \<Rightarrow> flt \<Rightarrow> flt \<Rightarrow> timespec \<Rightarrow> frequency_feature \<times> asset_cmd_object \<Rightarrow> (frequency_feature \<times> asset_cmd_object) option" where
  "fr_execute cks ess_total_rated_active_power site_frequency current_time = (\<lambda>(f, a).
     case aggregate_response_components cks (site_kW_demand a) (max_potential_kW (ess_data a)) (min_potential_kW (ess_data a))
            ess_total_rated_active_power site_frequency current_time f of
       None \<Rightarrow> None
     | Some ((out, cmax, cmin), f') \<Rightarrow>
         Some (f', a\<lparr>ess_data := (ess_data a)\<lparr>max_potential_kW := cmax, min_potential_kW := cmin\<rparr>, site_kW_demand := out\<rparr>))"

definition clear_all_component_outputs :: "frequency_feature \<Rightarrow> frequency_feature" where
  "clear_all_component_outputs f = f\<lparr>response_components := map clear_outputs (response_components f)\<rparr>"

text \<open>The component whose id is the longest prefix of the endpoint, the first of equal length.\<close>

fun longest_match :: "string \<Rightarrow> nat \<Rightarrow> freq_resp_component list \<Rightarrow> nat \<times> nat option \<Rightarrow> nat \<times> nat option" where
  "longest_match e i [] best = best"
| "longest_match e i (c # cs) best =
     longest_match e (Suc i) cs
       (if prefix (component_id c) e \<and> length (component_id c) > fst best then (length (component_id c), Some i) else best)"

definition fr_handle_fims_set :: "input_source_list \<Rightarrow> string \<Rightarrow> flt \<times> int \<times> cjson \<Rightarrow> frequency_feature \<Rightarrow> frequency_feature" where
  "fr_handle_fims_set srcs e body f =
     (case body of (d, i, msg) \<Rightarrow>
      if hits srcs e (vars f FR_enable_mask) then put_int srcs e FR_enable_mask i f
      else if hits srcs e (vars f FR_freq_offset_hz) then put_float srcs e FR_freq_offset_hz (of_int i) f
      else
        let f = (case snd (longest_match e 0 (response_components f) (0, None)) of
                   None \<Rightarrow> f
                 | Some k \<Rightarrow> f\<lparr>response_components := (response_components f)[k :=
                      frc_handle_fims_set srcs body e (response_components f ! k)]\<rparr>)
        in if is_bool_json msg \<and> available f then put_bool srcs e FR_enable_flag (msg \<noteq> JFalse) f else f)"

section \<open>What the operations leave alone\<close>

lemma frc_vals [simp]:
  "fval v (slew_cmd_kw_update g f) = fval v f" "ival v (slew_cmd_kw_update g f) = ival v f" "bval v (slew_cmd_kw_update g f) = bval v f"
  "fval v (trigger_over_time_update h f) = fval v f" "ival v (trigger_over_time_update h f) = ival v f" "bval v (trigger_over_time_update h f) = bval v f"
  "fval v (recovery_over_time_update h f) = fval v f" "ival v (recovery_over_time_update h f) = ival v f" "bval v (recovery_over_time_update h f) = bval v f"
  "fval v (cooldown_over_time_update h f) = fval v f" "ival v (cooldown_over_time_update h f) = ival v f" "bval v (cooldown_over_time_update h f) = bval v f"
  "bval v (droop_curve_update k f) = bval v f" "bval v (signed_active_cmd_kw_update l f) = bval v f"
  "bval v (prev_active_cmd_kw_update l f) = bval v f" "bval v (prev_droop_limit_flag_update m f) = bval v f"
  "bval v (prev_slew_rate_kw_update n f) = bval v f" "bval v (prev_cooldown_slew_rate_kw_update n f) = bval v f"
  "bval v (latest_active_cmd_kw_received_update l f) = bval v f"
  by (simp_all add: fval_def ival_def bval_def)

lemma frc_keep [simp]:
  "trigger_over_time (assign_bool v b f) = trigger_over_time f" "cooldown_over_time (assign_bool v b f) = cooldown_over_time f"
  "recovery_over_time (assign_bool v b f) = recovery_over_time f" "slew_cmd_kw (assign_bool v b f) = slew_cmd_kw f"
  "latest_active_cmd_kw_received (assign_bool v b f) = latest_active_cmd_kw_received f"
  "cooldown_over_time (assign_float v x f) = cooldown_over_time f" "slew_cmd_kw (assign_float v x f) = slew_cmd_kw f"
  "signed_active_cmd_kw (assign_bool v b f) = signed_active_cmd_kw f"
  "droop_curve (assign_bool v b f) = droop_curve f" "droop_curve (assign_float v x f) = droop_curve f"
  by (simp_all add: assign_bool_def assign_float_def upd_var_def)

lemma bval_refresh [simp]: "bval v (frc_refresh f) = bval v f"
  by (simp add: frc_refresh_def Let_def sync_active_cmd_kw_def build_droop_curve_def)

section \<open>The phases of a response\<close>

text \<open>A response is never active while cooling down, and recovery is a part of an active response.\<close>

definition phase_ok :: "freq_resp_component \<Rightarrow> bool" where
  "phase_ok f \<longleftrightarrow> (bval FRC_active_response_status f \<longrightarrow> \<not> bval FRC_in_cooldown f) \<and>
     (bval FRC_in_recovery f \<longrightarrow> bval FRC_active_response_status f)"

lemma phase_ok_end: "phase_ok (end_active_response now f)"
  by (simp add: phase_ok_def end_active_response_def Let_def)

lemma phase_ok_start: "\<not> bval FRC_in_cooldown f \<Longrightarrow> phase_ok (start_active_response now f)"
  by (simp add: phase_ok_def start_active_response_def Let_def)

lemma phase_ok_recovery:
  "phase_ok f \<Longrightarrow> bval FRC_active_response_status f \<Longrightarrow> phase_ok (update_recovery ck t fr f)"
  using phase_ok_end by (simp add: update_recovery_def Let_def) (auto simp: phase_ok_def)

lemma start_status [simp]: "bval FRC_active_response_status (start_active_response now f)"
  "bval FRC_in_cooldown (start_active_response now f) = bval FRC_in_cooldown f"
  by (simp_all add: start_active_response_def Let_def)

lemma phase_ok_response: "phase_ok f \<Longrightarrow> \<not> bval FRC_in_cooldown f \<Longrightarrow> phase_ok (update_response ck t fr f)"
  using phase_ok_start phase_ok_end phase_ok_recovery by (simp add: update_response_def Let_def)

lemma phase_ok_update_state: "phase_ok f \<Longrightarrow> phase_ok (update_state ck t fr f)"
proof -
  assume f: "phase_ok f"
  then have "phase_ok (assign_bool FRC_in_cooldown False f)" by (simp add: phase_ok_def)
  with f show ?thesis using phase_ok_response by (simp add: update_state_def)
qed

lemma phase_ok_frequency_response:
  assumes "frequency_response ck mx mn rt fr t f = Some (out, f')" "phase_ok f"
  shows "phase_ok f'"
proof -
  let ?g = "update_state ck t fr (frc_refresh f\<lparr>slew_cmd_kw := update_slew_target (ck_slew ck)
    (fval FRC_output_kw (frc_refresh f)) (slew_cmd_kw (frc_refresh f))\<rparr>)"
  have "phase_ok ?g" using assms(2) by (intro phase_ok_update_state) (simp add: phase_ok_def)
  moreover obtain x where "f' = assign_float FRC_output_kw x ?g"
    using assms(1) by (auto simp: frequency_response_def Let_def split: option.splits if_splits)
  ultimately show ?thesis by (simp add: phase_ok_def)
qed

lemma phase_ok_clear: "phase_ok (clear_outputs f)"
  by (simp add: phase_ok_def clear_outputs_def Let_def)

lemma frc_handle_outputs:
  "v \<in> {FRC_active_response_status, FRC_in_cooldown, FRC_in_recovery} \<Longrightarrow>
   bval v (frc_handle_fims_set srcs body e f) = bval v f"
  by (cases body) (auto simp: frc_handle_fims_set_def Let_def)

text \<open>The operations on a component as a step relation.\<close>

inductive frc_step :: "freq_resp_component \<Rightarrow> freq_resp_component \<Rightarrow> bool" where
  respond: "frequency_response ck mx mn rt fr t f = Some (out, f') \<Longrightarrow> frc_step f f'"
| clear: "frc_step f (clear_outputs f)"
| fims: "frc_step f (frc_handle_fims_set srcs body e f)"

lemma phase_ok_step: "frc_step f f' \<Longrightarrow> phase_ok f \<Longrightarrow> phase_ok f'"
proof (induction rule: frc_step.induct)
  case (respond ck mx mn rt fr t f out f')
  then show ?case by (rule phase_ok_frequency_response)
next
  case (clear f)
  show ?case by (rule phase_ok_clear)
next
  case (fims f srcs body e)
  then show ?case by (simp add: phase_ok_def frc_handle_outputs)
qed

lemma phase_ok_reachable: "frc_step\<^sup>*\<^sup>* f f' \<Longrightarrow> phase_ok f \<Longrightarrow> phase_ok f'"
  by (induction rule: rtranclp_induct) (auto dest: phase_ok_step)

section \<open>The droop curve\<close>

lemma droop_sort_under:
  assumes "d < t" shows
    "droop_sort [(t + 1, 0), (t, 0), (d, s)] = [(d, s), (t, 0), (t + 1, 0)]"
    "droop_sort [(t + 1, 0), (t, 0), (d, s), (d - 1, s)] = [(d - 1, s), (d, s), (t, 0), (t + 1, 0)]"
  using assms by (simp_all add: droop_sort_def compare_droop_curve_points_def)

lemma droop_sort_over:
  assumes "t < d" shows
    "droop_sort [(t - 1, 0), (t, 0), (d, s)] = [(t - 1, 0), (t, 0), (d, s)]"
    "droop_sort [(t - 1, 0), (t, 0), (d, s), (d + 1, s)] = [(t - 1, 0), (t, 0), (d, s), (d + 1, s)]"
  using assms by (simp_all add: droop_sort_def compare_droop_curve_points_def)

lemma droop_under:
  assumes "is_underfrequency_component f" "fval FRC_droop_freq_hz f < fval FRC_trigger_freq_hz f" "bval FRC_droop_limit_flag f"
  shows "droop_curve (build_droop_curve f) =
    [(fval FRC_droop_freq_hz f - 1, signed_active_cmd_kw f), (fval FRC_droop_freq_hz f, signed_active_cmd_kw f),
     (fval FRC_trigger_freq_hz f, 0), (fval FRC_trigger_freq_hz f + 1, 0)]"
  using assms droop_sort_under by (simp add: build_droop_curve_def Let_def)

lemma flat_ends:
  assumes "d < (t::real)" "0 \<le> s"
  shows "\<exists>y. get_curve_cmd x [(d - 1, s), (d, s), (t, 0), (t + 1, 0)] = Some y \<and> 0 \<le> y \<and> y \<le> s"
proof -
  let ?c = "[(d - 1, s), (d, s), (t, 0), (t + 1, 0)]"
  consider "x < d - 1" | "t + 1 \<le> x" | "d - 1 \<le> x" "x < t + 1" by linarith
  then show ?thesis
  proof cases
    case 3
    have inc: "increasing_xs ?c" using assms by simp
    show ?thesis using get_curve_cmd_interpolates [of ?c x] inc 3 assms by (force simp: numeral_2_eq_2)
  qed (use assms in \<open>simp_all add: get_curve_cmd_def curve_extend_def curve_line_def Let_def\<close>)
qed

section \<open>Aggregation\<close>

fun enabled_output :: "int \<Rightarrow> nat \<Rightarrow> freq_resp_component list \<Rightarrow> flt" where
  "enabled_output msk i [] = 0"
| "enabled_output msk i (c # cs) = (if bit msk i then fval FRC_output_kw c else 0) + enabled_output msk (Suc i) cs"

lemma frequency_response_output:
  "frequency_response ck mx mn rt fr t f = Some ((out, cmax, cmin), f') \<Longrightarrow> fval FRC_output_kw f' = out"
  by (auto simp: frequency_response_def Let_def split: option.splits if_splits)

lemma clear_outputs_vals:
  "fval FRC_output_kw (clear_outputs f) = 0" "\<not> bval FRC_active_response_status (clear_outputs f)"
  by (simp_all add: clear_outputs_def Let_def)

lemma aggregate_loop_total:
  "aggregate_loop cks msk ins i cs agg = Some (agg', cs') \<Longrightarrow>
   fst agg' = fst agg + enabled_output msk i cs' \<and> length cs' = length cs \<and>
   (\<forall>k < length cs'. \<not> bit msk (i + k) \<longrightarrow> fval FRC_output_kw (cs' ! k) = 0 \<and> \<not> bval FRC_active_response_status (cs' ! k))"
proof (induction cks msk ins i cs agg arbitrary: agg' cs' rule: aggregate_loop.induct)
  case (2 cks msk ins i c cs agg)
  obtain mx mn rt fr t where ins: "ins = (mx, mn, rt, fr, t)" by (cases ins)
  show ?case
  proof (cases "bit msk i")
    case True
    with "2.prems" obtain out cmax cmin c' agg1 cs1 where
      r: "frequency_response (cks i) mx mn rt fr t c = Some ((out, cmax, cmin), c')" and
      l: "aggregate_loop cks msk ins (Suc i) cs (fst agg + out, (if cmax \<noteq> mx then cmax else fst (snd agg)),
            (if cmin \<noteq> mn then cmin else snd (snd agg))) = Some (agg1, cs1)" and
      res: "agg' = agg1" "cs' = c' # cs1" and i: "\<not> 32 \<le> i"
      by (auto simp: ins Let_def split: if_splits option.splits)
    note IH = "2.IH"(1) [OF i ins [symmetric] refl refl refl True r refl refl refl refl l]
    show ?thesis using IH res True frequency_response_output [OF r] by (simp add: all_less_Suc_split)
  next
    case False
    with "2.prems" obtain agg1 cs1 where l: "aggregate_loop cks msk ins (Suc i) cs agg = Some (agg1, cs1)"
      and res: "agg' = agg1" "cs' = clear_outputs c # cs1" and i: "\<not> 32 \<le> i"
      by (auto simp: ins split: if_splits)
    note IH = "2.IH"(2) [OF i ins [symmetric] refl refl refl False l]
    show ?thesis using IH res False by (simp add: all_less_Suc_split clear_outputs_vals)
  qed
qed simp

section \<open>Frozen commands\<close>

lemma frc_handle_frozen:
  assumes "bval FRC_freeze_active_cmd_flag f" "bval FRC_active_response_status f"
    and "prefix (variable_id (vars f FRC_active_cmd_kw)) e"
  shows "frc_handle_fims_set srcs (x, i, msg) e f = f\<lparr>latest_active_cmd_kw_received := x\<rparr>"
  using assms by (simp add: frc_handle_fims_set_def Let_def)

section \<open>Properties\<close>

text \<open>Whatever sequence of executions, SETs and resets a frequency response component goes through, a
  response is never active during its cooldown, and it is in recovery only while active.\<close>

theorem response_phases_exclusive:
  assumes "frc_step\<^sup>*\<^sup>* (clear_outputs f) f'"
  shows "(bval FRC_active_response_status f' \<longrightarrow> \<not> bval FRC_in_cooldown f') \<and>
    (bval FRC_in_recovery f' \<longrightarrow> bval FRC_active_response_status f')"
  using phase_ok_reachable [OF assms phase_ok_clear] by (simp add: phase_ok_def)

definition demo_frc :: freq_resp_component where
  "demo_frc = \<lparr>available = True, vars = (\<lambda>v. demo_var ''x'' 0)(FRC_trigger_freq_hz := demo_var ''t'' 60,
       FRC_droop_freq_hz := demo_var ''d'' 59, FRC_active_cmd_kw := demo_var ''a'' 100,
       FRC_cooldown_duration_sec := demo_var ''c'' 5),
     component_id = ''uf'', prev_active_cmd_kw = 100, prev_droop_limit_flag = False, prev_slew_rate_kw = 0,
     prev_cooldown_slew_rate_kw = 0, is_underfrequency_component = True, trigger_over_time = mk_ts 10 0,
     recovery_over_time = mk_ts 0 0, cooldown_over_time = mk_ts 0 0, droop_curve = [],
     slew_cmd_kw = Slew_Object (mk_ts 0 0) (mk_ts 0 0), signed_active_cmd_kw = 100,
     latest_active_cmd_kw_received = 70\<rparr>"

theorem response_phases_exclusive_witness:
  "\<not> bval FRC_in_recovery (clear_outputs (clear_outputs demo_frc))"
  using response_phases_exclusive [of demo_frc "clear_outputs (clear_outputs demo_frc)"]
    r_into_rtranclp [of frc_step "clear_outputs demo_frc", OF frc_step.clear]
  by (simp add: clear_outputs_def Let_def)

text \<open>Executions before the cooldown that ends at \<open>T\<close> has run out, and SETs in any order between them.\<close>

inductive cooling :: "timespec \<Rightarrow> freq_resp_component \<Rightarrow> freq_resp_component \<Rightarrow> bool" for T where
  respond: "frequency_response ck mx mn rt fr t f = Some (out, f') \<Longrightarrow> \<not> check_expired_time t T \<Longrightarrow> cooling T f f'"
| fims: "cooling T f (frc_handle_fims_set srcs body e f)"

definition cooled :: "timespec \<Rightarrow> freq_resp_component \<Rightarrow> bool" where
  "cooled T f \<longleftrightarrow> bval FRC_in_cooldown f \<and> \<not> bval FRC_active_response_status f \<and> cooldown_over_time f = T"

lemma cooldown_time_puts [simp]:
  "cooldown_over_time (put_float srcs e v x f) = cooldown_over_time f" "cooldown_over_time (put_int srcs e v i f) = cooldown_over_time f"
  "cooldown_over_time (put_bool srcs e v b f) = cooldown_over_time f" "cooldown_over_time (store_float v x f) = cooldown_over_time f"
  "cooldown_over_time (assign_float v x f) = cooldown_over_time f" "cooldown_over_time (assign_bool v b f) = cooldown_over_time f"
  by (simp_all add: put_float_def put_int_def put_bool_def upd_var_def store_float_def assign_float_def assign_bool_def)

lemma cooldown_time_refresh [simp]: "cooldown_over_time (frc_refresh f) = cooldown_over_time f"
  by (simp add: frc_refresh_def Let_def sync_active_cmd_kw_def build_droop_curve_def)

lemma cooled_step:
  assumes "cooling T f f'" "cooled T f"
  shows "cooled T f'"
  using assms
proof (induction rule: cooling.induct)
  case (respond ck mx mn rt fr t f out f')
  let ?g = "frc_refresh f\<lparr>slew_cmd_kw := update_slew_target (ck_slew ck)
    (fval FRC_output_kw (frc_refresh f)) (slew_cmd_kw (frc_refresh f))\<rparr>"
  have c: "cooled T ?g" using respond.prems by (simp add: cooled_def)
  then have "update_state ck t fr ?g = ?g" using respond.hyps(2) by (simp add: update_state_def cooled_def)
  then obtain x where "f' = assign_float FRC_output_kw x ?g"
    using respond.hyps(1) by (auto simp: frequency_response_def Let_def split: option.splits if_splits)
  with c show ?case by (simp add: cooled_def)
next
  case (fims f srcs body e)
  have "cooldown_over_time (frc_handle_fims_set srcs body e f) = cooldown_over_time f"
    by (cases body) (auto simp: frc_handle_fims_set_def Let_def)
  with fims show ?case by (simp add: cooled_def frc_handle_outputs)
qed

lemma cooling_one_set: "(cooling T)\<^sup>*\<^sup>* f (frc_handle_fims_set srcs body e f)"
  by (rule r_into_rtranclp, rule cooling.fims)

lemma cooled_run: "(cooling T)\<^sup>*\<^sup>* f f' \<Longrightarrow> cooled T f \<Longrightarrow> cooled T f'"
  by (induction rule: rtranclp_induct) (auto dest: cooled_step)

text \<open>C32. A response is bounded in time: once the trigger duration has run out the next update ends it,
  starts the cooldown from the clock reading, and puts the command last received in force; and
  from there no number of executions before the cooldown has run out starts a response, whatever the frequency
  and whatever SETs arrive in between.  Only clearing the outputs, which is what a disabled component or feature does, ends
  the cooldown earlier.\<close>

theorem response_bounded_in_time:
  assumes "\<not> bval FRC_in_cooldown f" "bval FRC_active_response_status f"
    and "check_expired_time t (trigger_over_time f)" "f' = update_state ck t freq f"
    and "(cooling (add_secs (ck_end ck) (ival FRC_cooldown_duration_sec f)))\<^sup>*\<^sup>* f' g"
  shows "\<not> bval FRC_active_response_status f' \<and> bval FRC_in_cooldown f' \<and> \<not> bval FRC_in_recovery f' \<and>
    fval FRC_active_cmd_kw f' = latest_active_cmd_kw_received f \<and>
    \<not> bval FRC_active_response_status g \<and> bval FRC_in_cooldown g"
proof -
  have f': "f' = end_active_response (ck_end ck) f"
    using assms(1-4) by (simp add: update_state_def update_response_def)
  then have "cooled (add_secs (ck_end ck) (ival FRC_cooldown_duration_sec f)) f'"
    by (simp add: cooled_def end_active_response_def Let_def)
  from cooled_run [OF assms(5) this] show ?thesis by (simp add: f' cooled_def) (simp add: end_active_response_def Let_def)
qed

definition demo_clocks :: frc_clocks where
  "demo_clocks = \<lparr>ck_slew = mk_ts 12 0, ck_start = mk_ts 12 0, ck_recovery = mk_ts 12 0, ck_end = mk_ts 12 0\<rparr>"

theorem response_bounded_in_time_witness:
  "bval FRC_in_cooldown (frc_handle_fims_set demo_sources (55, 55, JNull) ''a''
     (update_state demo_clocks (mk_ts 11 0) 58 (assign_bool FRC_active_response_status True demo_frc)))"
  using response_bounded_in_time [OF _ _ _ refl cooling_one_set, of "assign_bool FRC_active_response_status True demo_frc" "mk_ts 11 0"]
  by (simp add: demo_frc_def demo_clocks_def check_expired_time_def add_secs_def demo_var_def demo_fims_def feature_ops
      set_float_def Value_Object_def c_trunc_def)

text \<open>With a droop frequency below the trigger and the droop limit on, an under-frequency response
  is defined at every frequency and lies between zero and the configured command.\<close>

theorem droop_response_bounded:
  assumes "is_underfrequency_component f" "fval FRC_droop_freq_hz f < fval FRC_trigger_freq_hz f"
    and "bval FRC_droop_limit_flag f" "0 \<le> signed_active_cmd_kw f" "bval FRC_active_response_status f"
    and "\<not> bval FRC_droop_bypass_flag f" "\<not> bval FRC_force_start f"
  shows "\<exists>y. calculate_kw_output freq (build_droop_curve f) = Some y \<and> 0 \<le> y \<and> y \<le> signed_active_cmd_kw f"
  using flat_ends [OF assms(2,4), of freq] assms droop_under
  by (simp add: calculate_kw_output_def build_droop_curve_def Let_def)

theorem droop_response_bounded_witness:
  "\<exists>y. calculate_kw_output 58 (build_droop_curve (assign_bool FRC_active_response_status True
     (assign_bool FRC_droop_limit_flag True demo_frc))) = Some y \<and> y \<le> 100"
  using droop_response_bounded [of "assign_bool FRC_active_response_status True (assign_bool FRC_droop_limit_flag True demo_frc)" 58]
  by (auto simp: demo_frc_def demo_var_def demo_fims_def feature_ops set_float_def Value_Object_def)

text \<open>The configuration check accepts a droop frequency equal to the trigger frequency; without the
  droop limit an under-frequency response beyond the trigger then divides by zero.\<close>

theorem equal_droop_frequency_undefined:
  assumes "fval FRC_droop_freq_hz f = fval FRC_trigger_freq_hz f" "is_underfrequency_component f"
    and "\<not> bval FRC_droop_limit_flag f" "0 < signed_active_cmd_kw f" "freq < fval FRC_trigger_freq_hz f"
  shows "get_curve_cmd freq (droop_curve (build_droop_curve f)) = None"
  using assms by (simp add: build_droop_curve_def Let_def droop_sort_def compare_droop_curve_points_def
      get_curve_cmd_def curve_extend_def)

theorem equal_droop_frequency_undefined_witness:
  "get_curve_cmd 59 (droop_curve (build_droop_curve (assign_float FRC_droop_freq_hz 60 demo_frc))) = None"
  using equal_droop_frequency_undefined [of "assign_float FRC_droop_freq_hz 60 demo_frc" 59]
  by (simp add: demo_frc_def demo_var_def demo_fims_def feature_ops set_float_def Value_Object_def)

text \<open>With the freeze flag set, a command received during an active response does not change the
  command in force: it is remembered and takes effect when the response ends.\<close>

theorem frozen_command_takes_effect_after:
  assumes "bval FRC_freeze_active_cmd_flag f" "bval FRC_active_response_status f" "\<not> bval FRC_in_cooldown f"
    and "prefix (variable_id (vars f FRC_active_cmd_kw)) e" "check_expired_time t (trigger_over_time f)"
    and "g = frc_handle_fims_set srcs (x, i, msg) e f"
  shows "fval FRC_active_cmd_kw g = fval FRC_active_cmd_kw f \<and> signed_active_cmd_kw g = signed_active_cmd_kw f \<and>
    fval FRC_active_cmd_kw (update_state ck t freq g) = x"
proof -
  have g: "g = f\<lparr>latest_active_cmd_kw_received := x\<rparr>" using frc_handle_frozen assms by blast
  have "update_state ck t freq g = end_active_response (ck_end ck) g"
    using assms(2,3,5) by (simp add: g update_state_def update_response_def Let_def)
  then show ?thesis by (simp add: g end_active_response_def Let_def) (simp add: fval_def)
qed

theorem frozen_command_takes_effect_after_witness:
  "fval FRC_active_cmd_kw (update_state demo_clocks (mk_ts 11 0) 58 (frc_handle_fims_set demo_sources (55, 55, JNull) ''a''
     (assign_bool FRC_freeze_active_cmd_flag True (assign_bool FRC_active_response_status True demo_frc)))) = 55"
  using frozen_command_takes_effect_after [OF _ _ _ _ _ refl, of
      "assign_bool FRC_freeze_active_cmd_flag True (assign_bool FRC_active_response_status True demo_frc)" "''a''" "mk_ts 11 0"
      demo_sources 55 55 JNull demo_clocks 58]
  by (simp add: demo_frc_def demo_var_def demo_fims_def feature_ops set_float_def Value_Object_def check_expired_time_def)

text \<open>The feature's demand is the demand it found plus the outputs of the enabled components, a
  disabled component is reset to no output and no response, and the total is published.\<close>

theorem aggregate_is_sum:
  assumes "aggregate_response_components cks demand mx mn rt freq t f = Some ((out, cmax, cmin), f')"
  shows "out = demand + enabled_output (ival FR_enable_mask f) 0 (response_components f') \<and>
    fval FR_total_output_kw f' = out \<and> length (response_components f') = length (response_components f) \<and>
    (\<forall>k < length (response_components f'). \<not> bit (ival FR_enable_mask f) k \<longrightarrow>
       fval FRC_output_kw (response_components f' ! k) = 0 \<and>
       \<not> bval FRC_active_response_status (response_components f' ! k))"
proof -
  have keep: "response_components (store_float v x g) = response_components g" for v x and g :: frequency_feature
    by (simp add: store_float_def upd_var_def)
  from assms obtain cs where "aggregate_loop cks (ival FR_enable_mask f) (mx, mn, rt, freq + fval FR_freq_offset_hz f, t) 0
      (response_components f) (demand, mx, mn) = Some ((out, cmax, cmin), cs)"
    and f': "f' = store_float FR_total_output_kw out (f\<lparr>response_components := cs\<rparr>)"
    by (auto simp: aggregate_response_components_def split: option.splits)
  from aggregate_loop_total [OF this(1)] show ?thesis by (simp add: f' keep)
qed

definition demo_fr :: frequency_feature where
  "demo_fr = \<lparr>available = True, vars = (\<lambda>v. demo_var ''x'' 0), response_components = [demo_frc, demo_frc]\<rparr>"

theorem aggregate_is_sum_witness:
  "\<exists>f'. aggregate_response_components (\<lambda>_. demo_clocks) 40 10 (-10) 20 60 (mk_ts 1 0) demo_fr = Some ((40, 10, -10), f') \<and>
     fval FR_total_output_kw f' = 40"
proof -
  let ?f = "store_float FR_total_output_kw 40 (demo_fr\<lparr>response_components := [clear_outputs demo_frc, clear_outputs demo_frc]\<rparr>)"
  have run: "aggregate_response_components (\<lambda>_. demo_clocks) 40 10 (-10) 20 60 (mk_ts 1 0) demo_fr = Some ((40, 10, -10), ?f)"
    by (simp add: aggregate_response_components_def demo_fr_def feature_ops demo_var_def set_float_def c_trunc_def)
  then show ?thesis using aggregate_is_sum [OF run] by blast
qed

end
