(* ===== verification/Sequences.thy ===== *)
theory Sequences
  imports Values "HOL-Library.Monad_Syntax"
begin

text \<open>
  \<^verbatim>\<open>Step.h\<close>, \<^verbatim>\<open>Path.h\<close>, \<^verbatim>\<open>Sequence.cpp\<close>: the start/stop sequences of the site.  A sequence
  is a list of paths, a path a list of steps, and a step a list of entry actions and of exit
  conditions.  Each call of \<^verbatim>\<open>call_sequence\<close> performs the entry actions of the current step once
  and leaves the step when an exit condition holds.

  What a sequence calls outside itself (the functions of the site and of the asset, the events,
  the clock) is an environment: a record of functions over a world of any type, which the call
  threads through in the order of the code.  An index outside its vector makes the result \<open>None\<close>.
\<close>

section \<open>Data\<close>

datatype states = Init | Ready | Startup | RunMode1 | RunMode2 | Standby | Shutdown | Error

datatype Sequence_Type = Site | Asset_ESS | Asset_Solar | Asset_Generator | Asset_Feeder

datatype alert_type = INVALID | INFO_ALERT | STATUS_ALERT | ALARM_ALERT | FAULT_ALERT

text \<open>
  \<^verbatim>\<open>reason_for_exit_failure\<close> and \<^verbatim>\<open>entry_exit_flag\<close> are integers that hold the character codes of
  the four macros; the first is not initialised by the constructor, so any value can stand there.
\<close>

definition ENTRY :: int where "ENTRY = 48"
definition EXIT :: int where "EXIT = 49"
definition DEBOUNCE :: int where "DEBOUNCE = 48"
definition CONDITIONAL :: int where "CONDITIONAL = 49"

record step_action =
  route :: string
  sa_value :: value_object
  sa_result :: bool
  tolerance :: int
  reason_for_exit_failure :: int
  debounce_timer_ms :: int
  debounce_target_time :: timespec

record step =
  step_name :: string
  entry_actions :: "step_action list"
  exit_conditions :: "step_action list"
  path_switch :: bool
  next_path :: nat

record path =
  path_name :: string
  return_id :: string
  return_state :: states
  timeout :: int
  steps :: "step list"
  path_faults :: "(string \<times> 64 word) list"
  num_active_faults :: int
  path_alarms :: "(string \<times> 64 word) list"
  num_active_alarms :: int

record sequences_status =
  current_state :: states
  check_current_state :: states
  step_change :: bool
  path_change :: bool
  sequence_reset :: bool
  should_pub :: bool
  ss_current_time :: timespec
  exit_target_time :: timespec

record sequence =
  sequence_name :: string
  state :: states
  paths :: "path list"
  sequence_type :: Sequence_Type
  step_reset :: bool
  debounce_reset :: bool
  sequence_bypass :: bool
  initial_entry_attempt :: bool
  initial_exit_attempt :: bool
  entry_exit_flag :: int
  current_step_index :: nat
  check_current_step_index :: nat
  current_path_index :: nat
  check_current_path_index :: nat

record 'w seq_env =
  call_sequence_functions :: "string \<Rightarrow> string \<Rightarrow> value_object \<Rightarrow> int \<Rightarrow> 'w \<Rightarrow> bool \<times> 'w"
  call_action_functions :: "string \<Rightarrow> value_object \<Rightarrow> int \<Rightarrow> 'w \<Rightarrow> bool \<times> 'w"
  set_site_status :: "string \<Rightarrow> 'w \<Rightarrow> 'w"
  emit_event :: "string \<Rightarrow> string \<Rightarrow> alert_type \<Rightarrow> 'w \<Rightarrow> 'w"
  set_faults :: "int \<Rightarrow> 'w \<Rightarrow> 'w"
  clock_gettime :: "'w \<Rightarrow> timespec \<times> 'w"

text \<open>The constructors.  The two times of the status are not initialised there.\<close>

definition Sequences_Status :: "timespec \<Rightarrow> timespec \<Rightarrow> sequences_status" where
  "Sequences_Status now target =
     \<lparr>current_state = Init, check_current_state = Init, step_change = True, path_change = True,
      sequence_reset = False, should_pub = False, ss_current_time = now, exit_target_time = target\<rparr>"

definition Sequence :: "sequence" where
  "Sequence =
     \<lparr>sequence_name = '''', state = Init, paths = [], sequence_type = Site, step_reset = True,
      debounce_reset = True, sequence_bypass = False, initial_entry_attempt = True,
      initial_exit_attempt = True, entry_exit_flag = ENTRY, current_step_index = 0,
      check_current_step_index = 0, current_path_index = 0, check_current_path_index = 0\<rparr>"

section \<open>Reading and writing the current step\<close>

definition nth_opt :: "nat \<Rightarrow> 'a list \<Rightarrow> 'a option" where
  "nth_opt i xs = (if i < length xs then Some (xs ! i) else None)"

definition cur_path :: "sequence \<Rightarrow> path option" where
  "cur_path s = nth_opt (current_path_index s) (paths s)"

definition cur_step :: "sequence \<Rightarrow> step option" where
  "cur_step s = cur_path s \<bind> (\<lambda>p. nth_opt (current_step_index s) (steps p))"

definition map_nth :: "nat \<Rightarrow> ('a \<Rightarrow> 'a) \<Rightarrow> 'a list \<Rightarrow> 'a list" where
  "map_nth i f xs = (if i < length xs then xs[i := f (xs ! i)] else xs)"

definition upd_step :: "(step \<Rightarrow> step) \<Rightarrow> sequence \<Rightarrow> sequence" where
  "upd_step f s = s\<lparr>paths := map_nth (current_path_index s)
     (\<lambda>p. p\<lparr>steps := map_nth (current_step_index s) f (steps p)\<rparr>) (paths s)\<rparr>"

text \<open>\<^verbatim>\<open>snprintf\<close> into a buffer of \<^verbatim>\<open>MEDIUM_MSG_LEN\<close> characters.\<close>

definition medium_msg :: "string \<Rightarrow> string" where
  "medium_msg m = take 511 m"

definition add_seconds :: "timespec \<Rightarrow> int \<Rightarrow> timespec" where
  "add_seconds t n = t\<lparr>tv_sec := tv_sec t + n\<rparr>"

section \<open>Entry actions and exit conditions\<close>

text \<open>
  The target and the command of a route: its first two fragments, or the first one twice.
  \<^verbatim>\<open>split\<close> always returns for the delimiter \<open>/\<close> (\<open>split_slash_total\<close>); \<open>None\<close> is the empty route.
\<close>

definition route_target :: "string \<Rightarrow> (string \<times> string) option" where
  "route_target r = (case split r ''/'' of
       Some (target # fragments) \<Rightarrow> Some (target, if fragments = [] then target else hd fragments)
     | _ \<Rightarrow> None)"

text \<open>The switch on the sequence type; \<open>None\<close> is the default branch, which returns.\<close>

definition call_target ::
    "'w seq_env \<Rightarrow> Sequence_Type \<Rightarrow> step_action \<Rightarrow> 'w \<Rightarrow> (bool \<times> 'w) option" where
  "call_target env ty a w = (case route_target (route a) of
       None \<Rightarrow> None
     | Some (target_asset, asset_cmd) \<Rightarrow> (case ty of
           Site \<Rightarrow> Some (call_sequence_functions env target_asset asset_cmd (sa_value a) (tolerance a) w)
         | Asset_ESS \<Rightarrow> Some (call_action_functions env asset_cmd (sa_value a) (tolerance a) w)
         | _ \<Rightarrow> None))"

fun entry_loop ::
    "'w seq_env \<Rightarrow> Sequence_Type \<Rightarrow> step_action list \<Rightarrow> bool \<Rightarrow> 'w \<Rightarrow> step_action list \<times> bool \<times> 'w" where
  "entry_loop env ty [] return_value w = ([], return_value, w)"
| "entry_loop env ty (a # as) return_value w = (case call_target env ty a w of
       None \<Rightarrow> (a # as, return_value, w)
     | Some (r, w') \<Rightarrow>
         let (as', return_value', w'') = entry_loop env ty as (return_value \<or> r) w'
         in (a\<lparr>sa_result := r\<rparr> # as', return_value', w''))"

text \<open>
  The debounce check of one exit condition whose result \<open>r\<close> has been stored: the condition, what
  it adds to the result of the step, the reset flag and the world.
\<close>

definition debounce_check ::
    "'w seq_env \<Rightarrow> timespec \<Rightarrow> step_action \<Rightarrow> bool \<Rightarrow> 'w \<Rightarrow> step_action \<times> bool \<times> bool \<times> 'w" where
  "debounce_check env now a reset_flag w =
     (if debounce_timer_ms a = 0 then (a, sa_result a, reset_flag, w)
      else let (a, reset_flag, w) =
             (if reset_flag \<or> \<not> sa_result a
              then let (t, w) = clock_gettime env w
                   in (a\<lparr>debounce_target_time := add_seconds t (debounce_timer_ms a sdiv 1000)\<rparr>, False, w)
              else (a, reset_flag, w))
        in if \<not> sa_result a then (a, False, reset_flag, w)
           else if check_expired_time now (debounce_target_time a) then (a, sa_result a, reset_flag, w)
           else (a\<lparr>reason_for_exit_failure := DEBOUNCE\<rparr>, False, reset_flag, w))"

fun exit_loop ::
    "'w seq_env \<Rightarrow> Sequence_Type \<Rightarrow> timespec \<Rightarrow> step_action list \<Rightarrow> bool \<Rightarrow> bool \<Rightarrow> 'w
     \<Rightarrow> step_action list \<times> bool \<times> bool \<times> 'w" where
  "exit_loop env ty now [] return_value reset_flag w = ([], return_value, reset_flag, w)"
| "exit_loop env ty now (a # as) return_value reset_flag w =
     (let a = a\<lparr>reason_for_exit_failure := CONDITIONAL\<rparr> in
      case call_target env ty a w of
        None \<Rightarrow> (a # as, return_value, reset_flag, w)
      | Some (r, w') \<Rightarrow>
          let (a', passed, reset_flag', w'') = debounce_check env now (a\<lparr>sa_result := r\<rparr>) reset_flag w';
              (as', return_value', reset_flag'', w''') =
                exit_loop env ty now as (return_value \<or> passed) reset_flag' w''
          in (a' # as', return_value', reset_flag'', w'''))"

definition handle_entry_action :: "'w seq_env \<Rightarrow> sequence \<Rightarrow> 'w \<Rightarrow> (bool \<times> sequence \<times> 'w) option" where
  "handle_entry_action env s w = do {
     st \<leftarrow> cur_step s;
     let (as, return_value, w) = entry_loop env (sequence_type s) (entry_actions st) False w;
     Some (return_value, upd_step (\<lambda>st. st\<lparr>entry_actions := as\<rparr>) s, w) }"

definition handle_exit_action ::
    "'w seq_env \<Rightarrow> sequences_status \<Rightarrow> sequence \<Rightarrow> 'w \<Rightarrow> (bool \<times> sequence \<times> 'w) option" where
  "handle_exit_action env ss s w = do {
     st \<leftarrow> cur_step s;
     let (as, return_value, reset_flag, w) =
       exit_loop env (sequence_type s) (ss_current_time ss) (exit_conditions st) False (debounce_reset s) w;
     Some (return_value, (upd_step (\<lambda>st. st\<lparr>exit_conditions := as\<rparr>) s)\<lparr>debounce_reset := reset_flag\<rparr>, w) }"

definition call_function ::
    "'w seq_env \<Rightarrow> sequences_status \<Rightarrow> sequence \<Rightarrow> 'w \<Rightarrow> (bool \<times> sequence \<times> 'w) option" where
  "call_function env ss s w =
     (if entry_exit_flag s = ENTRY then handle_entry_action env s w
      else if entry_exit_flag s = EXIT then handle_exit_action env ss s w
      else Some (False, s, w))"

section \<open>The steps of a call\<close>

definition reset_sequence :: "sequences_status \<Rightarrow> sequence \<Rightarrow> sequences_status \<times> sequence" where
  "reset_sequence ss s =
     (ss\<lparr>sequence_reset := False\<rparr>,
      s\<lparr>current_step_index := 0, check_current_step_index := 0, current_path_index := 0,
        check_current_path_index := 0, debounce_reset := True, step_reset := True,
        initial_entry_attempt := True, initial_exit_attempt := True, sequence_bypass := False\<rparr>)"

definition reset_step ::
    "'w seq_env \<Rightarrow> sequences_status \<Rightarrow> sequence \<Rightarrow> 'w \<Rightarrow> (sequences_status \<times> sequence \<times> 'w) option" where
  "reset_step env ss s w =
     (let s = s\<lparr>step_reset := False, initial_entry_attempt := True, initial_exit_attempt := True\<rparr>;
          (t, w) = clock_gettime env w;
          ss = ss\<lparr>exit_target_time := t\<rparr>
      in do {
        p \<leftarrow> cur_path s;
        Some (if timeout p \<noteq> -1
              then ss\<lparr>exit_target_time := add_seconds (exit_target_time ss) (timeout p)\<rparr> else ss, s, w) })"

definition call_sequence_entry ::
    "'w seq_env \<Rightarrow> sequences_status \<Rightarrow> sequence \<Rightarrow> 'w \<Rightarrow> (sequence \<times> 'w) option" where
  "call_sequence_entry env ss s w = do {
     (r, s, w) \<leftarrow> call_function env ss (s\<lparr>debounce_reset := True, entry_exit_flag := ENTRY\<rparr>) w;
     let s = (if r then s\<lparr>check_current_step_index := check_current_step_index s + 1\<rparr> else s);
     Some (s\<lparr>initial_entry_attempt := False\<rparr>, w) }"

text \<open>
  The loop over the exit conditions after a first failed attempt only looks for a condition that
  failed by itself: if there is one and the step may switch, the sequence moves to the next path.
\<close>

definition handle_initial_exit_attempt ::
    "sequences_status \<Rightarrow> sequence \<Rightarrow> (sequences_status \<times> sequence) option" where
  "handle_initial_exit_attempt ss s = do {
     let s = s\<lparr>initial_exit_attempt := False\<rparr>;
     st \<leftarrow> cur_step s;
     Some (if path_switch st \<and> (\<exists>a \<in> set (exit_conditions st). reason_for_exit_failure a = CONDITIONAL)
           then (ss\<lparr>path_change := True, step_change := True\<rparr>,
                 s\<lparr>step_reset := True, current_path_index := next_path st, current_step_index := 0,
                   check_current_step_index := 0\<rparr>)
           else (ss, s)) }"

definition call_sequence_exit ::
    "'w seq_env \<Rightarrow> sequences_status \<Rightarrow> sequence \<Rightarrow> 'w \<Rightarrow> (sequences_status \<times> sequence \<times> 'w) option" where
  "call_sequence_exit env ss s w = do {
     (r, s, w) \<leftarrow> call_function env ss (s\<lparr>entry_exit_flag := EXIT\<rparr>) w;
     if r then
       Some (ss\<lparr>step_change := True\<rparr>,
             s\<lparr>current_step_index := current_step_index s + 1, step_reset := True,
               initial_exit_attempt := True\<rparr>, w)
     else if initial_exit_attempt s then do {
       (ss, s) \<leftarrow> handle_initial_exit_attempt ss s;
       Some (ss, s, w) }
     else Some (ss, s, w) }"

definition check_path_step_change ::
    "'w seq_env \<Rightarrow> sequences_status \<Rightarrow> sequence \<Rightarrow> 'w \<Rightarrow> (sequences_status \<times> 'w) option" where
  "check_path_step_change env ss s w =
     (if path_change ss \<or> step_change ss then do {
        p \<leftarrow> cur_path s;
        st \<leftarrow> cur_step s;
        let w = (if path_change ss
                 then emit_event env ''Site'' (medium_msg (''Path changed to '' @ path_name p)) STATUS_ALERT w
                 else w);
        let w = (if step_change ss
                 then emit_event env ''Site'' (medium_msg (''Step changed to '' @ step_name st)) STATUS_ALERT w
                 else w);
        let w = (if sequence_type s = Site
                 then set_site_status env (medium_msg (path_name p @ '': '' @ step_name st)) w else w);
        Some (ss\<lparr>should_pub := True, path_change := False, step_change := False\<rparr>, w) }
      else Some (ss, w))"

text \<open>The last two parts of \<^verbatim>\<open>call_sequence\<close>: completion, and the time out of the step.\<close>

definition complete_sequence ::
    "'w seq_env \<Rightarrow> sequences_status \<times> sequence \<times> 'w \<Rightarrow> (sequences_status \<times> sequence \<times> 'w) option" where
  "complete_sequence env = (\<lambda>(ss, s, w). do {
     p \<leftarrow> cur_path s;
     Some (if current_step_index s \<ge> length (steps p)
           then (ss\<lparr>step_change := True, path_change := True, current_state := return_state p\<rparr>,
                 s\<lparr>sequence_bypass := True\<rparr>, set_site_status env (sequence_name s) w)
           else (ss, s, w)) })"

definition time_out_step ::
    "'w seq_env \<Rightarrow> sequences_status \<times> sequence \<times> 'w \<Rightarrow> (sequences_status \<times> sequence \<times> 'w) option" where
  "time_out_step env = (\<lambda>(ss, s, w). do {
     p \<leftarrow> cur_path s;
     if timeout p \<noteq> -1 \<and> check_expired_time (ss_current_time ss) (exit_target_time ss) then do {
       st \<leftarrow> cur_step s;
       let w = emit_event env ''Site'' (medium_msg (''Sequence step failed: '' @ step_name st)) FAULT_ALERT w;
       let (t, w) = clock_gettime env w;
       Some (ss\<lparr>exit_target_time := add_seconds t (timeout p)\<rparr>, s, set_faults env 2 w) }
     else Some (ss, s, w) })"

text \<open>Entry and exit of the current step.\<close>

definition run_step ::
    "'w seq_env \<Rightarrow> sequences_status \<Rightarrow> sequence \<Rightarrow> 'w \<Rightarrow> (sequences_status \<times> sequence \<times> 'w) option" where
  "run_step env ss s w = do {
     (s, w) \<leftarrow> (if check_current_step_index s = current_step_index s
                then call_sequence_entry env ss s w else Some (s, w));
     if check_current_step_index s > current_step_index s then call_sequence_exit env ss s w
     else Some (ss, s, w) }"

definition call_sequence ::
    "'w seq_env \<Rightarrow> sequences_status \<Rightarrow> sequence \<Rightarrow> 'w \<Rightarrow> (sequences_status \<times> sequence \<times> 'w) option" where
  "call_sequence env ss s w = do {
     let (ss, s) = (if sequence_reset ss then reset_sequence ss s else (ss, s));
     (ss, s, w) \<leftarrow> (if step_reset s then reset_step env ss s w else Some (ss, s, w));
     if sequence_bypass s then Some (ss, s, w)
     else do {
       (ss, w) \<leftarrow> check_path_step_change env ss s w;
       r \<leftarrow> run_step env ss s w;
       r \<leftarrow> complete_sequence env r;
       time_out_step env r } }"

text \<open>The remaining time of a step and of an action, in the unit of \<^verbatim>\<open>debounce_timer_ms\<close>.\<close>

definition collect_seconds_in_step :: "step \<Rightarrow> int" where
  "collect_seconds_in_step st = sum_list (map debounce_timer_ms (exit_conditions st))"

definition collect_seconds_in_path :: "path \<Rightarrow> int" where
  "collect_seconds_in_path p = sum_list (map collect_seconds_in_step (steps p))"

definition collect_seconds_remaining_in_current_step :: "sequence \<Rightarrow> int" where
  "collect_seconds_remaining_in_current_step s =
     (case cur_step s of None \<Rightarrow> 0 | Some st \<Rightarrow> sum_list (map debounce_timer_ms (exit_conditions st)))"

definition collect_seconds_remaining_in_action :: "sequence \<Rightarrow> int" where
  "collect_seconds_remaining_in_action s =
     (case cur_step s of None \<Rightarrow> 0
      | Some _ \<Rightarrow> sum_list (map collect_seconds_in_step
                    (drop (current_step_index s) (steps (paths s ! current_path_index s)))))"

section \<open>The shape of a sequence\<close>

text \<open>
  What the configuration fixes and no call changes: the time out and the return state of every
  path, the switch of every step, and the routes and debounce times of its actions.
\<close>

type_synonym step_config = "bool \<times> nat \<times> string list \<times> (string \<times> int) list"

definition step_shape :: "step \<Rightarrow> step_config" where
  "step_shape st = (path_switch st, next_path st, map route (entry_actions st),
     map (\<lambda>a. (route a, debounce_timer_ms a)) (exit_conditions st))"

definition shape :: "sequence \<Rightarrow> (int \<times> states \<times> step_config list) list" where
  "shape s = map (\<lambda>p. (timeout p, return_state p, map step_shape (steps p))) (paths s)"

definition config_ok :: "sequence \<Rightarrow> bool" where
  "config_ok s \<longleftrightarrow> paths s \<noteq> [] \<and> (\<forall>(t, r, sws) \<in> set (shape s).
     sws \<noteq> [] \<and> (\<forall>(sw, n, _) \<in> set sws. sw \<longrightarrow> n < length (paths s)))"

definition indices :: "sequence \<Rightarrow> nat \<times> nat \<times> nat" where
  "indices s = (current_path_index s, current_step_index s, check_current_step_index s)"

definition seq_wf :: "sequence \<Rightarrow> bool" where
  "seq_wf s \<longleftrightarrow> config_ok s \<and> current_path_index s < length (paths s) \<and>
     current_step_index s \<le> length (steps (paths s ! current_path_index s)) \<and>
     (check_current_step_index s = current_step_index s \<or> check_current_step_index s = current_step_index s + 1)"

text \<open>A sequence the site may call: it is to be reset, it is complete, or it stands on a step.\<close>

definition runnable :: "sequences_status \<Rightarrow> sequence \<Rightarrow> bool" where
  "runnable ss s \<longleftrightarrow> seq_wf s \<and> (sequence_reset ss \<or> sequence_bypass s \<or> cur_step s \<noteq> None)"

lemma nth_opt_Some [simp]: "nth_opt i xs = Some x \<longleftrightarrow> i < length xs \<and> xs ! i = x"
  by (auto simp: nth_opt_def)

lemma nth_opt_None [simp]: "nth_opt i xs = None \<longleftrightarrow> length xs \<le> i"
  by (auto simp: nth_opt_def)

lemma map_map_nth:
  assumes "i < length xs \<Longrightarrow> g (f (xs ! i)) = g (xs ! i)"
  shows "map g (map_nth i f xs) = map g xs"
proof (cases "i < length xs")
  case True
  with assms have "map g (map_nth i f xs) = (map g xs)[i := map g xs ! i]" by (simp add: map_nth_def map_update)
  then show ?thesis by simp
qed (simp add: map_nth_def)

lemma length_map_nth [simp]: "length (map_nth i f xs) = length xs"
  by (simp add: map_nth_def)

lemma nth_map_nth: "j < length xs \<Longrightarrow> map_nth i f xs ! j = (if j = i then f (xs ! j) else xs ! j)"
  by (simp add: map_nth_def)

lemma split_slash_total: "\<exists>frs. split r ''/'' = Some frs"
  unfolding split_def by (rule split_loop_terminates) simp

lemma shape_upd_step:
  assumes "cur_step s = Some st" "step_shape (f st) = step_shape st"
  shows "shape (upd_step f s) = shape s"
proof -
  have "current_step_index s < length (steps (paths s ! current_path_index s))"
    "steps (paths s ! current_path_index s) ! current_step_index s = st"
    using assms(1) by (auto simp: cur_step_def cur_path_def split: Option.bind_splits)
  then have "map step_shape (map_nth (current_step_index s) f (steps (paths s ! current_path_index s))) =
      map step_shape (steps (paths s ! current_path_index s))"
    using assms(2) by (simp add: map_map_nth)
  then show ?thesis unfolding shape_def upd_step_def by (simp, intro map_map_nth) simp
qed

lemma entry_loop_routes: "map route (fst (entry_loop env ty as b w)) = map route as"
  by (induction as arbitrary: b w) (auto simp: split_beta Let_def split: option.splits)

lemma debounce_check_route [simp]:
  "route (fst (debounce_check env now a f w)) = route a"
  "debounce_timer_ms (fst (debounce_check env now a f w)) = debounce_timer_ms a"
  by (auto simp: debounce_check_def split: prod.splits)

lemma exit_loop_routes:
  "map (\<lambda>a. (route a, debounce_timer_ms a)) (fst (exit_loop env ty now as b f w)) = map (\<lambda>a. (route a, debounce_timer_ms a)) as"
proof (induction as arbitrary: b f w)
  case (Cons a as)
  let ?a = "a\<lparr>reason_for_exit_failure := CONDITIONAL\<rparr>"
  show ?case
  proof (cases "call_target env ty ?a w")
    case (Some rw)
    obtain r w' where rw: "rw = (r, w')" by (cases rw)
    obtain a' q f' w2 where d: "debounce_check env now (?a\<lparr>sa_result := r\<rparr>) f w' = (a', q, f', w2)" by (metis prod_cases4)
    have "route a' = route a" "debounce_timer_ms a' = debounce_timer_ms a"
      using debounce_check_route [of env now "?a\<lparr>sa_result := r\<rparr>" f w'] d by simp_all
    with Cons.IH Some rw d show ?thesis by (simp add: Let_def split_beta)
  qed (simp add: Let_def)
qed simp

lemma indices_upd_step [simp]: "indices (upd_step f s) = indices s"
  by (simp add: upd_step_def indices_def)

lemma length_paths_shape: "shape s = shape t \<Longrightarrow> length (paths s) = length (paths t)"
  by (simp add: shape_def) (drule map_eq_imp_length_eq, assumption)

lemma nth_shape: "i < length (paths s) \<Longrightarrow> shape s ! i = (timeout (paths s ! i), return_state (paths s ! i),
   map step_shape (steps (paths s ! i)))"
  by (simp add: shape_def)

lemma length_steps_shape:
  assumes "shape s = shape t" "i < length (paths s)"
  shows "length (steps (paths s ! i)) = length (steps (paths t ! i)) \<and> timeout (paths s ! i) = timeout (paths t ! i) \<and>
    return_state (paths s ! i) = return_state (paths t ! i)"
proof -
  have "shape s ! i = shape t ! i" "i < length (paths t)" using assms length_paths_shape [OF assms(1)] by auto
  then have "map step_shape (steps (paths s ! i)) =
      map step_shape (steps (paths t ! i))"
    and "timeout (paths s ! i) = timeout (paths t ! i)" "return_state (paths s ! i) = return_state (paths t ! i)"
    using assms(2) by (simp_all add: nth_shape)
  from map_eq_imp_length_eq [OF this(1)] this(2,3) show ?thesis by simp
qed

lemma config_ok_shape:
  assumes "shape s = shape t"
  shows "config_ok s \<longleftrightarrow> config_ok t"
proof -
  have l: "length (paths s) = length (paths t)" by (rule length_paths_shape [OF assms])
  then have "paths s = [] \<longleftrightarrow> paths t = []" by auto
  then show ?thesis by (simp only: config_ok_def assms l)
qed

lemma cur_step_Some_iff: "cur_step s \<noteq> None \<longleftrightarrow> current_path_index s < length (paths s) \<and>
   current_step_index s < length (steps (paths s ! current_path_index s))"
  by (simp add: cur_step_def cur_path_def nth_opt_def)

lemma shape_indices_cong:
  assumes "shape s = shape t" "indices s = indices t"
  shows "seq_wf s \<longleftrightarrow> seq_wf t" and "cur_step s \<noteq> None \<longleftrightarrow> cur_step t \<noteq> None"
proof -
  have i: "current_path_index s = current_path_index t" "current_step_index s = current_step_index t"
    "check_current_step_index s = check_current_step_index t"
    using assms(2) by (simp_all add: indices_def)
  have l: "length (paths s) = length (paths t)" by (rule length_paths_shape [OF assms(1)])
  have c: "config_ok s \<longleftrightarrow> config_ok t" by (rule config_ok_shape [OF assms(1)])
  have "current_path_index t < length (paths t) \<Longrightarrow>
      length (steps (paths s ! current_path_index t)) = length (steps (paths t ! current_path_index t))"
    using length_steps_shape [OF assms(1), of "current_path_index t"] by (simp add: l)
  then show "seq_wf s \<longleftrightarrow> seq_wf t" "cur_step s \<noteq> None \<longleftrightarrow> cur_step t \<noteq> None"
    unfolding seq_wf_def cur_step_Some_iff i l c by (simp_all cong: conj_cong)
qed

lemma config_ok_next_path:
  assumes "config_ok s" "cur_step s = Some st" "path_switch st"
  shows "next_path st < length (paths s)"
proof -
  from assms(2) have i: "current_path_index s < length (paths s)"
    and st: "st \<in> set (steps (paths s ! current_path_index s))"
    by (auto simp: cur_step_def cur_path_def split: Option.bind_splits)
  have "\<forall>(t, r, sws) \<in> set (shape s). sws \<noteq> [] \<and> (\<forall>(sw, n, _) \<in> set sws. sw \<longrightarrow> n < length (paths s))"
    using assms(1) unfolding config_ok_def by (rule conjunct2)
  from bspec [OF this, of "shape s ! current_path_index s"] i
  have sw: "\<forall>(sw, n, _) \<in> set (map step_shape (steps (paths s ! current_path_index s))). sw \<longrightarrow> n < length (paths s)"
    by (simp add: nth_shape) (simp add: shape_def)
  have "step_shape st \<in> set (map step_shape (steps (paths s ! current_path_index s)))" using st by simp
  from bspec [OF sw this] assms(3) show ?thesis by (simp add: step_shape_def)
qed

lemma config_ok_steps: "config_ok s \<Longrightarrow> i < length (paths s) \<Longrightarrow> steps (paths s ! i) \<noteq> []"
  by (force simp: config_ok_def shape_def)

section \<open>What a call keeps\<close>

definition same_place :: "sequence \<Rightarrow> sequence \<Rightarrow> bool" where
  "same_place s t \<longleftrightarrow> shape s = shape t \<and> indices s = indices t \<and> sequence_bypass s = sequence_bypass t \<and>
     initial_exit_attempt s = initial_exit_attempt t \<and> sequence_type s = sequence_type t"

lemma handle_entry_action_total:
  assumes "cur_step s \<noteq> None"
  shows "\<exists>r s' w'. handle_entry_action env s w = Some (r, s', w') \<and> same_place s' s"
proof -
  from assms obtain st where st: "cur_step s = Some st" by auto
  define r where "r = entry_loop env (sequence_type s) (entry_actions st) False w"
  define f where "f = (\<lambda>st :: step. st\<lparr>entry_actions := fst r\<rparr>)"
  have "step_shape (f st) = step_shape st" by (simp add: f_def r_def step_shape_def entry_loop_routes)
  from shape_upd_step [where f = f, OF st this] have "same_place (upd_step f s) s"
    by (simp add: same_place_def) (simp add: upd_step_def)
  moreover have "handle_entry_action env s w = Some (fst (snd r), upd_step f s, snd (snd r))"
    by (simp add: handle_entry_action_def st r_def f_def split_beta)
  ultimately show ?thesis by blast
qed

lemma handle_exit_action_total:
  assumes "cur_step s \<noteq> None"
  shows "\<exists>r s' w'. handle_exit_action env ss s w = Some (r, s', w') \<and> same_place s' s"
proof -
  from assms obtain st where st: "cur_step s = Some st" by auto
  define r where "r = exit_loop env (sequence_type s) (ss_current_time ss) (exit_conditions st) False (debounce_reset s) w"
  define f where "f = (\<lambda>st :: step. st\<lparr>exit_conditions := fst r\<rparr>)"
  define t where "t = (upd_step f s)\<lparr>debounce_reset := fst (snd (snd r))\<rparr>"
  have "step_shape (f st) = step_shape st" by (simp add: f_def r_def step_shape_def exit_loop_routes)
  from shape_upd_step [where f = f, OF st this] have "shape t = shape s" by (simp add: t_def shape_def)
  then have "same_place t s" by (simp add: same_place_def) (simp add: t_def upd_step_def indices_def)
  moreover have "handle_exit_action env ss s w = Some (fst (snd r), t, snd (snd (snd r)))"
    by (simp add: handle_exit_action_def st r_def t_def f_def split_beta)
  ultimately show ?thesis by blast
qed

lemma call_function_total:
  assumes "cur_step s \<noteq> None"
  shows "\<exists>r s' w'. call_function env ss s w = Some (r, s', w') \<and> same_place s' s"
  using handle_entry_action_total [OF assms] handle_exit_action_total [OF assms]
  by (auto simp: call_function_def same_place_def)

lemma shape_flags [simp]:
  "shape (s\<lparr>debounce_reset := b\<rparr>) = shape s" "shape (s\<lparr>entry_exit_flag := i\<rparr>) = shape s"
  "shape (s\<lparr>initial_entry_attempt := b\<rparr>) = shape s" "shape (s\<lparr>initial_exit_attempt := b\<rparr>) = shape s"
  "shape (s\<lparr>step_reset := b\<rparr>) = shape s" "shape (s\<lparr>sequence_bypass := b\<rparr>) = shape s"
  "shape (s\<lparr>current_step_index := n\<rparr>) = shape s" "shape (s\<lparr>check_current_step_index := n\<rparr>) = shape s"
  "shape (s\<lparr>current_path_index := n\<rparr>) = shape s" "shape (s\<lparr>check_current_path_index := n\<rparr>) = shape s"
  by (simp_all add: shape_def)

lemma cur_step_flags [simp]:
  "cur_step (s\<lparr>debounce_reset := b\<rparr>) = cur_step s" "cur_step (s\<lparr>entry_exit_flag := i\<rparr>) = cur_step s"
  "cur_step (s\<lparr>initial_entry_attempt := b\<rparr>) = cur_step s" "cur_step (s\<lparr>initial_exit_attempt := b\<rparr>) = cur_step s"
  "cur_step (s\<lparr>step_reset := b\<rparr>) = cur_step s" "cur_step (s\<lparr>sequence_bypass := b\<rparr>) = cur_step s"
  "cur_step (s\<lparr>check_current_step_index := n\<rparr>) = cur_step s"
  by (simp_all add: cur_step_def cur_path_def)

lemma cur_path_flags [simp]:
  "cur_path (s\<lparr>debounce_reset := b\<rparr>) = cur_path s" "cur_path (s\<lparr>entry_exit_flag := i\<rparr>) = cur_path s"
  "cur_path (s\<lparr>initial_entry_attempt := b\<rparr>) = cur_path s" "cur_path (s\<lparr>initial_exit_attempt := b\<rparr>) = cur_path s"
  "cur_path (s\<lparr>step_reset := b\<rparr>) = cur_path s" "cur_path (s\<lparr>sequence_bypass := b\<rparr>) = cur_path s"
  "cur_path (s\<lparr>check_current_step_index := n\<rparr>) = cur_path s" "cur_path (s\<lparr>current_step_index := n\<rparr>) = cur_path s"
  by (simp_all add: cur_path_def)

lemma call_sequence_entry_total:
  assumes "cur_step s \<noteq> None" "seq_wf s" "check_current_step_index s = current_step_index s"
  shows "\<exists>s' w'. call_sequence_entry env ss s w = Some (s', w') \<and> seq_wf s' \<and> shape s' = shape s \<and>
    current_path_index s' = current_path_index s \<and> current_step_index s' = current_step_index s \<and>
    sequence_bypass s' = sequence_bypass s"
proof -
  let ?s = "s\<lparr>debounce_reset := True, entry_exit_flag := ENTRY\<rparr>"
  have "cur_step ?s \<noteq> None" using assms(1) by simp
  from call_function_total [OF this, of env ss w] obtain r s' w'
    where f: "call_function env ss ?s w = Some (r, s', w')" "same_place s' ?s" by blast
  then have s': "shape s' = shape s" "indices s' = indices s" "sequence_bypass s' = sequence_bypass s"
    by (simp_all add: same_place_def) (simp add: indices_def)
  have wf: "seq_wf s'" using assms(2) shape_indices_cong(1) [OF s'(1,2)] by simp
  have "seq_wf (s'\<lparr>initial_entry_attempt := b\<rparr>)"
    "seq_wf (s'\<lparr>check_current_step_index := check_current_step_index s' + 1, initial_entry_attempt := b\<rparr>)" for b
    using wf assms(3) s'(2) by (simp_all add: seq_wf_def config_ok_def indices_def)
  with f(1) s' show ?thesis by (auto simp: call_sequence_entry_def indices_def)
qed

lemma config_ok_flags [simp]:
  "config_ok (s\<lparr>initial_exit_attempt := b\<rparr>) = config_ok s"
  by (simp add: config_ok_def)

lemma path_switch_wf:
  assumes "seq_wf s" "cur_step s = Some st" "path_switch st"
  shows "seq_wf (s\<lparr>step_reset := True, current_path_index := next_path st, current_step_index := 0,
      check_current_step_index := 0\<rparr>)"
  using assms config_ok_next_path [OF _ assms(2,3)] by (simp add: seq_wf_def config_ok_def)

lemma call_sequence_exit_total:
  assumes "cur_step s \<noteq> None" "seq_wf s" "check_current_step_index s > current_step_index s"
  shows "\<exists>ss' s' w'. call_sequence_exit env ss s w = Some (ss', s', w') \<and> seq_wf s' \<and> shape s' = shape s \<and>
    (current_path_index s' = current_path_index s \<and>
       (current_step_index s' = current_step_index s \<or> current_step_index s' = current_step_index s + 1) \<or>
     current_step_index s' = 0) \<and>
    sequence_bypass s' = sequence_bypass s \<and> sequence_reset ss' = sequence_reset ss"
proof -
  have "cur_step (s\<lparr>entry_exit_flag := EXIT\<rparr>) \<noteq> None" using assms(1) by simp
  from call_function_total [OF this, of env ss w] obtain r s' w'
    where f: "call_function env ss (s\<lparr>entry_exit_flag := EXIT\<rparr>) w = Some (r, s', w')"
      "same_place s' (s\<lparr>entry_exit_flag := EXIT\<rparr>)" by blast
  then have s': "shape s' = shape s" "indices s' = indices s" "sequence_bypass s' = sequence_bypass s"
    by (simp_all add: same_place_def) (simp add: indices_def)
  have wf: "seq_wf s'" and live: "cur_step s' \<noteq> None"
    using assms(1,2) shape_indices_cong [OF s'(1,2)] by simp_all
  from live obtain st where st: "cur_step s' = Some st" by auto
  show ?thesis
  proof (cases r)
    case True
    have "seq_wf (s'\<lparr>current_step_index := current_step_index s' + 1, step_reset := True, initial_exit_attempt := True\<rparr>)"
      using wf live assms(3) s'(2) unfolding cur_step_Some_iff by (auto simp: seq_wf_def config_ok_def indices_def)
    with True f(1) s' show ?thesis by (simp add: call_sequence_exit_def indices_def)
  next
    case False
    let ?t = "s'\<lparr>initial_exit_attempt := False\<rparr>"
    have t: "seq_wf ?t" "cur_step ?t = Some st" using wf st by (simp_all add: seq_wf_def)
    with False f(1) s' wf path_switch_wf [OF t] show ?thesis
      by (auto simp: call_sequence_exit_def handle_initial_exit_attempt_def indices_def Let_def)
  qed
qed

lemma run_step_total:
  assumes "cur_step s \<noteq> None" "seq_wf s"
  shows "\<exists>ss' s' w'. run_step env ss s w = Some (ss', s', w') \<and> seq_wf s' \<and> shape s' = shape s \<and>
    (current_path_index s' = current_path_index s \<and>
       (current_step_index s' = current_step_index s \<or> current_step_index s' = current_step_index s + 1) \<or>
     current_step_index s' = 0) \<and>
    sequence_bypass s' = sequence_bypass s \<and> sequence_reset ss' = sequence_reset ss"
proof (cases "check_current_step_index s = current_step_index s")
  case True
  from call_sequence_entry_total [OF assms True, of env ss w] obtain t v
    where t: "call_sequence_entry env ss s w = Some (t, v)" "seq_wf t" "shape t = shape s"
      "current_path_index t = current_path_index s" "current_step_index t = current_step_index s"
      "sequence_bypass t = sequence_bypass s" by blast
  have "cur_step t \<noteq> None"
    using assms(1) length_paths_shape [OF t(3)] length_steps_shape [OF t(3), of "current_path_index s"] t(4,5)
    unfolding cur_step_Some_iff by simp
  with t True show ?thesis
    by (cases "check_current_step_index t > current_step_index t")
      (use call_sequence_exit_total [of t env ss v] in \<open>auto simp: run_step_def\<close>)
next
  case False
  with assms have "check_current_step_index s > current_step_index s" by (auto simp: seq_wf_def)
  from call_sequence_exit_total [OF assms this, of env ss w] False this show ?thesis by (simp add: run_step_def)
qed

text \<open>The parts after the step: completion keeps the indices, the time out keeps the sequence.\<close>

lemma complete_sequence_total:
  assumes "seq_wf s"
  shows "\<exists>ss' s' w'. complete_sequence env (ss, s, w) = Some (ss', s', w') \<and> seq_wf s' \<and> shape s' = shape s \<and>
    indices s' = indices s \<and> (sequence_bypass s' \<or> cur_step s' \<noteq> None) \<and> sequence_reset ss' = sequence_reset ss"
proof -
  have i: "current_path_index s < length (paths s)" using assms by (simp add: seq_wf_def)
  then have "cur_path s = Some (paths s ! current_path_index s)" by (simp add: cur_path_def)
  moreover have "seq_wf (s\<lparr>sequence_bypass := True\<rparr>)" using assms by (simp add: seq_wf_def config_ok_def)
  ultimately show ?thesis using assms i unfolding cur_step_Some_iff
    by (auto simp: complete_sequence_def cur_step_Some_iff indices_def)
qed

lemma time_out_step_cases:
  assumes "seq_wf s" "sequence_bypass s \<or> cur_step s \<noteq> None"
  shows "(\<exists>ss' w'. time_out_step env (ss, s, w) = Some (ss', s, w') \<and> sequence_reset ss' = sequence_reset ss) \<or>
    time_out_step env (ss, s, w) = None \<and> timeout (paths s ! current_path_index s) \<noteq> -1 \<and>
      check_expired_time (ss_current_time ss) (exit_target_time ss) \<and> cur_step s = None"
proof -
  have i: "current_path_index s < length (paths s)" using assms by (simp add: seq_wf_def)
  then have "cur_path s = Some (paths s ! current_path_index s)" by (simp add: cur_path_def)
  then show ?thesis by (cases "cur_step s") (auto simp: time_out_step_def Let_def split: prod.splits)
qed

lemma reset_step_total:
  assumes "seq_wf s"
  shows "\<exists>ss' s' w'. reset_step env ss s w = Some (ss', s', w') \<and> shape s' = shape s \<and> indices s' = indices s \<and>
    sequence_bypass s' = sequence_bypass s \<and> sequence_reset ss' = sequence_reset ss"
proof -
  have "current_path_index s < length (paths s)" using assms by (simp add: seq_wf_def)
  then have "cur_path s = Some (paths s ! current_path_index s)" by (simp add: cur_path_def)
  then show ?thesis by (auto simp: reset_step_def indices_def Let_def split: prod.splits)
qed

lemma reset_sequence_wf:
  assumes "seq_wf s" "reset_sequence ss s = (ss', s')"
  shows "seq_wf s' \<and> cur_step s' \<noteq> None \<and> shape s' = shape s \<and> \<not> sequence_reset ss' \<and> current_step_index s' = 0"
proof -
  have "paths s \<noteq> []" "steps (paths s ! 0) \<noteq> []"
    using assms(1) config_ok_steps [of s 0] by (auto simp: seq_wf_def config_ok_def)
  moreover have "shape s' = shape s" using assms(2) by (auto simp: reset_sequence_def)
  moreover have "config_ok s'" using assms(1) config_ok_shape [OF calculation(3)] by (simp add: seq_wf_def)
  ultimately show ?thesis using assms(2) unfolding cur_step_Some_iff
    by (auto simp: reset_sequence_def seq_wf_def)
qed

lemma check_path_step_change_total:
  assumes "cur_step s \<noteq> None"
  shows "\<exists>ss' w'. check_path_step_change env ss s w = Some (ss', w') \<and> sequence_reset ss' = sequence_reset ss"
proof -
  from assms obtain p st where "cur_path s = Some p" "cur_step s = Some st"
    by (auto simp: cur_step_def split: Option.bind_splits)
  then show ?thesis by (simp add: check_path_step_change_def Let_def)
qed

text \<open>One step of a sequence as its callers see it.\<close>

definition step_moves :: "sequence \<Rightarrow> sequence \<Rightarrow> bool" where
  "step_moves s s' \<longleftrightarrow> current_path_index s' = current_path_index s \<and>
     (current_step_index s' = current_step_index s \<or> current_step_index s' = current_step_index s + 1) \<or>
     current_step_index s' \<le> 1"

lemma call_live_step:
  assumes "seq_wf s" "cur_step s \<noteq> None" "\<not> sequence_bypass s"
  shows "case (do { (ss, w) \<leftarrow> check_path_step_change env ss s w; r \<leftarrow> run_step env ss s w;
                    r \<leftarrow> complete_sequence env r; time_out_step env r }) of
      Some (ss', s', w') \<Rightarrow> seq_wf s' \<and> (sequence_bypass s' \<or> cur_step s' \<noteq> None) \<and> shape s' = shape s \<and>
        sequence_reset ss' = sequence_reset ss \<and> step_moves s s'
    | None \<Rightarrow> \<exists>p \<in> set (paths s). timeout p \<noteq> -1"
proof -
  obtain ss1 w1 where 1: "check_path_step_change env ss s w = Some (ss1, w1)" "sequence_reset ss1 = sequence_reset ss"
    using check_path_step_change_total [OF assms(2), of env ss w] by blast
  obtain ss2 s2 w2 where 2: "run_step env ss1 s w1 = Some (ss2, s2, w2)" "seq_wf s2" "shape s2 = shape s"
    "current_path_index s2 = current_path_index s \<and>
       (current_step_index s2 = current_step_index s \<or> current_step_index s2 = current_step_index s + 1) \<or>
     current_step_index s2 = 0" "sequence_reset ss2 = sequence_reset ss1"
    using run_step_total [OF assms(2,1), of env ss1 w1] by blast
  obtain ss3 s3 w3 where 3: "complete_sequence env (ss2, s2, w2) = Some (ss3, s3, w3)" "seq_wf s3" "shape s3 = shape s2"
    "indices s3 = indices s2" "sequence_bypass s3 \<or> cur_step s3 \<noteq> None" "sequence_reset ss3 = sequence_reset ss2"
    using complete_sequence_total [OF 2(2), of env ss2 w2] by blast
  have m: "step_moves s s3" using 2(4) 3(4) by (auto simp: step_moves_def indices_def)
  have i: "current_path_index s3 < length (paths s3)" using 3(2) by (simp add: seq_wf_def)
  have p: "paths s ! current_path_index s3 \<in> set (paths s)"
    "timeout (paths s3 ! current_path_index s3) = timeout (paths s ! current_path_index s3)"
    using i length_paths_shape [of s3 s] length_steps_shape [of s3 s, OF _ i] 2(3) 3(3) by auto
  from time_out_step_cases [OF 3(2,5), of env ss3 w3] show ?thesis
    by (elim disjE) (use 1 2 3 m p in auto)
qed

lemma call_sequence_safe:
  assumes "runnable ss s"
  shows "case call_sequence env ss s w of
      Some (ss', s', w') \<Rightarrow> runnable ss' s' \<and> shape s' = shape s \<and> \<not> sequence_reset ss' \<and> step_moves s s'
    | None \<Rightarrow> \<exists>p \<in> set (paths s). timeout p \<noteq> -1"
proof -
  obtain ss1 s1 where 1: "(if sequence_reset ss then reset_sequence ss s else (ss, s)) = (ss1, s1)" by fastforce
  have wf: "seq_wf s1" "shape s1 = shape s" "\<not> sequence_reset ss1" "sequence_bypass s1 \<or> cur_step s1 \<noteq> None"
      "s1 = s \<or> current_step_index s1 = 0"
    using assms 1 reset_sequence_wf [of s ss ss1 s1] by (auto simp: runnable_def split: if_splits)
  obtain ss2 s2 w2 where 2: "(if step_reset s1 then reset_step env ss1 s1 w else Some (ss1, s1, w)) = Some (ss2, s2, w2)"
    "shape s2 = shape s1" "indices s2 = indices s1" "sequence_bypass s2 = sequence_bypass s1"
    "sequence_reset ss2 = sequence_reset ss1"
    using reset_step_total [OF wf(1), of env ss1 w] by (cases "step_reset s1") auto
  have wf2: "seq_wf s2" "sequence_bypass s2 \<or> cur_step s2 \<noteq> None"
    using wf(1,4) 2(4) shape_indices_cong [OF 2(2,3)] by auto
  have m: "step_moves s s2" "\<And>t. step_moves s2 t \<Longrightarrow> step_moves s t"
    using wf(5) 2(3) by (auto simp: step_moves_def indices_def)
  have t: "\<exists>p \<in> set (paths s2). timeout p \<noteq> -1 \<Longrightarrow> \<exists>p \<in> set (paths s). timeout p \<noteq> -1"
  proof -
    assume "\<exists>p \<in> set (paths s2). timeout p \<noteq> -1"
    then have "\<exists>q \<in> set (shape s2). fst q \<noteq> -1" by (force simp: shape_def)
    with wf(2) 2(2) show ?thesis by (force simp: shape_def)
  qed
  show ?thesis
  proof (cases "sequence_bypass s2")
    case True
    with 1 2 wf wf2 m show ?thesis by (simp add: call_sequence_def runnable_def)
  next
    case False
    with wf2 have "cur_step s2 \<noteq> None" by simp
    from call_live_step [OF wf2(1) this False, where env = env and ss = ss2 and w = w2] show ?thesis
      using 1 2 False wf m t by (auto simp: call_sequence_def runnable_def split: option.splits)
  qed
qed

section \<open>Progress\<close>

text \<open>
  A step that is answered at once: its first entry action and its first exit condition have a
  route, and the exit condition has no debounce time.
\<close>

definition answerable :: "step_config \<Rightarrow> bool" where
  "answerable c = (case c of (_, _, es, xs) \<Rightarrow>
     es \<noteq> [] \<and> route_target (hd es) \<noteq> None \<and> xs \<noteq> [] \<and> route_target (fst (hd xs)) \<noteq> None \<and> snd (hd xs) = 0)"

definition answers_true :: "'w seq_env \<Rightarrow> bool" where
  "answers_true env \<longleftrightarrow> (\<forall>target_asset asset_cmd v tol w.
     fst (call_sequence_functions env target_asset asset_cmd v tol w))"

lemma entry_loop_True: "fst (snd (entry_loop env ty as True w))"
  by (induction as arbitrary: w) (auto simp: split_beta Let_def split: option.splits)

lemma exit_loop_True: "fst (snd (exit_loop env ty now as True f w))"
  by (induction as arbitrary: f w) (auto simp: split_beta Let_def split: option.splits)

lemma call_target_true:
  assumes "answers_true env" "route_target (route a) \<noteq> None"
  shows "\<exists>w'. call_target env Site a w = Some (True, w')"
proof -
  from assms(2) obtain t c where "route_target (route a) = Some (t, c)" by auto
  moreover have "fst (call_sequence_functions env t c (sa_value a) (tolerance a) w)"
    using assms(1) by (simp add: answers_true_def)
  ultimately show ?thesis
    by (cases "call_sequence_functions env t c (sa_value a) (tolerance a) w") (simp add: call_target_def)
qed

lemma entry_loop_answers:
  assumes "answers_true env" "as \<noteq> []" "route_target (route (hd as)) \<noteq> None"
  shows "fst (snd (entry_loop env Site as False w))"
proof (cases as)
  case (Cons a bs)
  with call_target_true [OF assms(1), of a w] assms(3) obtain w' where "call_target env Site a w = Some (True, w')" by auto
  with Cons entry_loop_True [of env Site bs w'] show ?thesis by (simp add: split_beta Let_def)
qed (use assms in simp)

lemma exit_loop_answers:
  assumes "answers_true env" "as \<noteq> []" "route_target (route (hd as)) \<noteq> None" "debounce_timer_ms (hd as) = 0"
  shows "fst (snd (exit_loop env Site now as False f w))"
proof (cases as)
  case (Cons a bs)
  let ?a = "a\<lparr>reason_for_exit_failure := CONDITIONAL\<rparr>"
  from call_target_true [OF assms(1), of ?a w] assms(3) Cons
  obtain w' where "call_target env Site ?a w = Some (True, w')" by auto
  with Cons assms(4) exit_loop_True [of env Site now bs f w'] show ?thesis
    by (simp add: split_beta Let_def debounce_check_def)
qed (use assms in simp)

lemma call_function_answers:
  assumes "call_function env ss s w = Some (r, s', w')" "cur_step s = Some st" "sequence_type s = Site"
    "answers_true env" "answerable (step_shape st)" "entry_exit_flag s = ENTRY \<or> entry_exit_flag s = EXIT"
  shows r
proof -
  have "EXIT \<noteq> ENTRY" by (simp add: EXIT_def ENTRY_def)
  have 1: "entry_actions st \<noteq> []" "route_target (route (hd (entry_actions st))) \<noteq> None" "exit_conditions st \<noteq> []"
    "route_target (route (hd (exit_conditions st))) \<noteq> None" "debounce_timer_ms (hd (exit_conditions st)) = 0"
    using assms(5) by (auto simp: answerable_def step_shape_def hd_map)
  from assms(6) show ?thesis
  proof
    assume "entry_exit_flag s = ENTRY"
    with assms(1-3) entry_loop_answers [OF assms(4) 1(1,2), of w] show ?thesis
      by (auto simp: call_function_def handle_entry_action_def split_beta)
  next
    assume "entry_exit_flag s = EXIT"
    with assms(1-3) exit_loop_answers [OF assms(4) 1(3-5), of "ss_current_time ss" "debounce_reset s" w] \<open>EXIT \<noteq> ENTRY\<close>
    show ?thesis by (auto simp: call_function_def handle_exit_action_def split_beta)
  qed
qed

definition all_answer :: "sequence \<Rightarrow> bool" where
  "all_answer s \<longleftrightarrow> sequence_type s = Site \<and> (\<forall>(t, r, cs) \<in> set (shape s). t = -1 \<and> (\<forall>c \<in> set cs. answerable c))"

lemma all_answer_step:
  assumes "all_answer s" "cur_step s = Some st"
  shows "answerable (step_shape st)" "timeout (paths s ! current_path_index s) = -1"
proof -
  have i: "current_path_index s < length (paths s)" and st: "st \<in> set (steps (paths s ! current_path_index s))"
    using assms(2) by (auto simp: cur_step_def cur_path_def split: Option.bind_splits)
  have "\<forall>(t, r, cs) \<in> set (shape s). t = -1 \<and> (\<forall>c \<in> set cs. answerable c)"
    using assms(1) unfolding all_answer_def by (rule conjunct2)
  from bspec [OF this, of "shape s ! current_path_index s"] i st
  show "answerable (step_shape st)" "timeout (paths s ! current_path_index s) = -1"
    by (simp_all add: nth_shape) (simp_all add: shape_def)
qed

lemma all_answer_cong: "shape s = shape t \<Longrightarrow> sequence_type s = sequence_type t \<Longrightarrow> all_answer s \<longleftrightarrow> all_answer t"
  by (simp add: all_answer_def)

text \<open>One call on an answered step: it is entered and left.\<close>

definition at_step :: "nat \<Rightarrow> sequence \<Rightarrow> bool" where
  "at_step k s \<longleftrightarrow> current_path_index s = 0 \<and> current_step_index s = k \<and> check_current_step_index s = k"

lemma cur_step_at: "at_step k s \<Longrightarrow> seq_wf s \<Longrightarrow> k < length (steps (paths s ! 0)) \<Longrightarrow> cur_step s \<noteq> None"
  unfolding cur_step_Some_iff by (simp add: at_step_def seq_wf_def)

lemma run_step_answers:
  assumes s: "seq_wf s" "at_step k s" "k < length (steps (paths s ! 0))" and env: "answers_true env" "all_answer s"
  shows "\<exists>ss' s' w'. run_step env ss s w = Some (ss', s', w') \<and> at_step (Suc k) s' \<and> shape s' = shape s \<and>
    sequence_type s' = sequence_type s \<and> sequence_bypass s' = sequence_bypass s \<and> seq_wf s' \<and>
    sequence_reset ss' = sequence_reset ss \<and> step_change ss'"
proof -
  let ?s = "s\<lparr>debounce_reset := True, entry_exit_flag := ENTRY\<rparr>"
  have live: "cur_step s \<noteq> None" by (rule cur_step_at [OF s(2,1,3)])
  then obtain st where st: "cur_step s = Some st" by auto
  obtain r1 s1 w1 where 1: "call_function env ss ?s w = Some (r1, s1, w1)" "same_place s1 ?s"
    using call_function_total [of ?s env ss w] live by auto
  have r1: r1 by (rule call_function_answers [OF 1(1)]) (use st env all_answer_step(1) [OF env(2) st] in \<open>auto simp: all_answer_def\<close>)
  define t where "t = s1\<lparr>check_current_step_index := check_current_step_index s1 + 1, initial_entry_attempt := False\<rparr>"
  have t: "shape t = shape s" "sequence_type t = sequence_type s" "sequence_bypass t = sequence_bypass s"
    "current_path_index t = 0" "current_step_index t = k" "check_current_step_index t = Suc k"
    using 1(2) s(2) by (simp_all add: t_def same_place_def at_step_def indices_def)
  have wt: "cur_step t \<noteq> None" "seq_wf t"
    using s live t length_paths_shape [OF t(1)] length_steps_shape [OF t(1), of 0] config_ok_shape [OF t(1)]
    unfolding cur_step_Some_iff seq_wf_def at_step_def by simp_all
  then obtain st' where st': "cur_step t = Some st'" by auto
  let ?t = "t\<lparr>entry_exit_flag := EXIT\<rparr>"
  obtain r2 s2 w2 where 2: "call_function env ss ?t w1 = Some (r2, s2, w2)" "same_place s2 ?t"
    using call_function_total [of ?t env ss w1] wt by auto
  have at: "all_answer t" using env(2) all_answer_cong [OF t(1,2)] by simp
  have r2: r2 by (rule call_function_answers [OF 2(1)]) (use st' env at all_answer_step(1) [OF at st'] in \<open>auto simp: all_answer_def\<close>)
  define u where "u = s2\<lparr>current_step_index := current_step_index s2 + 1, step_reset := True, initial_exit_attempt := True\<rparr>"
  have u: "shape u = shape s" "sequence_type u = sequence_type s" "sequence_bypass u = sequence_bypass s" "at_step (Suc k) u"
    using 2(2) t by (simp_all add: u_def same_place_def at_step_def indices_def)
  have "run_step env ss s w = Some (ss\<lparr>step_change := True\<rparr>, u, w2)"
    using 1(1) 2(1) r1 r2 s(2) t by (simp add: run_step_def call_sequence_entry_def call_sequence_exit_def at_step_def t_def u_def)
  moreover have "seq_wf u"
    using s u length_paths_shape [OF u(1)] length_steps_shape [OF u(1), of 0] config_ok_shape [OF u(1)]
    by (simp add: seq_wf_def at_step_def)
  ultimately show ?thesis using u by auto
qed

lemma call_sequence_answers:
  assumes s: "seq_wf s" "at_step k s" "k < length (steps (paths s ! 0))" and env: "answers_true env" "all_answer s"
    and flags: "\<not> sequence_bypass s" "\<not> sequence_reset ss"
  shows "\<exists>ss' s' w'. call_sequence env ss s w = Some (ss', s', w') \<and> at_step (Suc k) s' \<and> shape s' = shape s \<and>
    sequence_type s' = sequence_type s \<and> seq_wf s' \<and> \<not> sequence_reset ss' \<and>
    (sequence_bypass s' \<longleftrightarrow> Suc k = length (steps (paths s ! 0))) \<and>
    (Suc k = length (steps (paths s ! 0)) \<longrightarrow> current_state ss' = return_state (paths s ! 0))"
proof -
  have type: "sequence_type s1 = sequence_type s" if "reset_step env ss s w = Some (ss1, s1, w1)" for ss1 s1 w1
    using that by (auto simp: reset_step_def Let_def split: prod.splits Option.bind_splits)
  obtain ss1 s1 w1 where 1: "(if step_reset s then reset_step env ss s w else Some (ss, s, w)) = Some (ss1, s1, w1)"
    "shape s1 = shape s" "indices s1 = indices s" "sequence_bypass s1 = sequence_bypass s"
    "sequence_reset ss1 = sequence_reset ss" "sequence_type s1 = sequence_type s"
    using reset_step_total [OF s(1), of env ss w] type by (cases "step_reset s") auto
  have l: "length (steps (paths s1 ! 0)) = length (steps (paths s ! 0))" "return_state (paths s1 ! 0) = return_state (paths s ! 0)"
    and ne: "0 < length (paths s)"
    using length_steps_shape [OF 1(2), of 0] length_paths_shape [OF 1(2)] s(1,2) by (auto simp: seq_wf_def at_step_def)
  have wf1: "seq_wf s1" "at_step k s1" "k < length (steps (paths s1 ! 0))" "all_answer s1"
    using s env(2) 1 shape_indices_cong(1) [OF 1(2,3)] all_answer_cong [OF 1(2,6)] l by (simp_all add: at_step_def indices_def)
  obtain ss2 w2 where 2: "check_path_step_change env ss1 s1 w1 = Some (ss2, w2)" "sequence_reset ss2 = sequence_reset ss1"
    using check_path_step_change_total [OF cur_step_at [OF wf1(2,1,3)], of env ss1 w1] by blast
  obtain ss3 s3 w3 where 3: "run_step env ss2 s1 w2 = Some (ss3, s3, w3)" "at_step (Suc k) s3" "shape s3 = shape s1"
    "sequence_type s3 = sequence_type s1" "sequence_bypass s3 = sequence_bypass s1" "seq_wf s3" "sequence_reset ss3 = sequence_reset ss2"
    using run_step_answers [OF wf1(1-3) env(1) wf1(4), of ss2 w2] by blast
  have p: "cur_path s3 = Some (paths s3 ! 0)" "timeout (paths s3 ! 0) = -1" "length (steps (paths s3 ! 0)) = length (steps (paths s ! 0))"
    "return_state (paths s3 ! 0) = return_state (paths s ! 0)"
    using 3(2,6) length_steps_shape [OF 3(3), of 0] l length_paths_shape [OF 3(3)] length_paths_shape [OF 1(2)] ne
      wf1(2) all_answer_step(2) [OF wf1(4)] cur_step_at [OF wf1(2,1,3)]
    by (auto simp: cur_path_def at_step_def seq_wf_def)
  have "seq_wf (s3\<lparr>sequence_bypass := True\<rparr>)" using 3(6) by (simp add: seq_wf_def config_ok_def)
  with 1 2 3 p s(3) flags show ?thesis
    by (auto simp: call_sequence_def complete_sequence_def time_out_step_def at_step_def)
qed

section \<open>Runs\<close>

text \<open>The site sets the time of the status before each call; a run is a list of such times.\<close>

definition opt_call ::
    "'w seq_env \<Rightarrow> timespec \<Rightarrow> (sequences_status \<times> sequence \<times> 'w) option \<Rightarrow> (sequences_status \<times> sequence \<times> 'w) option" where
  "opt_call env now r = (case r of None \<Rightarrow> None
     | Some (ss, s, w) \<Rightarrow> call_sequence env (ss\<lparr>ss_current_time := now\<rparr>) s w)"

definition not_stuck :: "(sequences_status \<times> sequence \<times> 'w) option \<Rightarrow> bool" where
  "not_stuck r = (case r of None \<Rightarrow> False
     | Some (ss, s, w) \<Rightarrow> runnable ss s \<and> (\<forall>q \<in> set (shape s). fst q = -1))"

lemma no_time_out_shape: "(\<forall>q \<in> set (shape s). fst q = -1) \<longleftrightarrow> (\<forall>p \<in> set (paths s). timeout p = -1)"
  by (force simp: shape_def)

interpretation seqr: machine "opt_call env" not_stuck for env :: "'w seq_env"
proof
  fix r :: "(sequences_status \<times> sequence \<times> 'w) option" and now
  assume "not_stuck r"
  then obtain ss s w where r: "r = Some (ss, s, w)" "runnable ss s" "\<forall>q \<in> set (shape s). fst q = -1"
    by (auto simp: not_stuck_def split: option.splits)
  have "runnable (ss\<lparr>ss_current_time := now\<rparr>) s" using r(2) by (simp add: runnable_def)
  moreover have "\<forall>p \<in> set (paths s). timeout p = -1" using r(3) no_time_out_shape by blast
  ultimately show "not_stuck (opt_call env now r)"
    using call_sequence_safe [of "ss\<lparr>ss_current_time := now\<rparr>" s env w] r
    by (auto simp: not_stuck_def opt_call_def split: option.splits)
qed

lemma run_answers:
  assumes "seq_wf s" "at_step k s" "k \<le> length (steps (paths s ! 0))" "answers_true env" "all_answer s"
    and "\<not> sequence_reset ss" "sequence_bypass s \<longleftrightarrow> k = length (steps (paths s ! 0))"
    and "k = length (steps (paths s ! 0)) \<longrightarrow> current_state ss = return_state (paths s ! 0)"
    and "k + length clk \<le> length (steps (paths s ! 0))"
  shows "\<exists>ss' s' w'. fold (opt_call env) clk (Some (ss, s, w)) = Some (ss', s', w') \<and> at_step (k + length clk) s' \<and>
    (sequence_bypass s' \<longleftrightarrow> k + length clk = length (steps (paths s ! 0))) \<and>
    (k + length clk = length (steps (paths s ! 0)) \<longrightarrow> current_state ss' = return_state (paths s ! 0))"
  using assms
proof (induction clk arbitrary: k ss s w)
  case (Cons now clk)
  from Cons.prems(9) have k: "k < length (steps (paths s ! 0))" by simp
  with Cons.prems have "\<not> sequence_bypass s" "\<not> sequence_reset (ss\<lparr>ss_current_time := now\<rparr>)" by simp_all
  from call_sequence_answers [OF Cons.prems(1,2) k Cons.prems(4,5) this, of w] obtain ss' s' w' where
    1: "call_sequence env (ss\<lparr>ss_current_time := now\<rparr>) s w = Some (ss', s', w')" "at_step (Suc k) s'" "shape s' = shape s"
      "sequence_type s' = sequence_type s" "seq_wf s'" "\<not> sequence_reset ss'"
      "sequence_bypass s' \<longleftrightarrow> Suc k = length (steps (paths s ! 0))"
      "Suc k = length (steps (paths s ! 0)) \<longrightarrow> current_state ss' = return_state (paths s ! 0)" by blast
  have "0 < length (paths s')" using 1(2,5) by (simp add: seq_wf_def at_step_def)
  then have l: "length (steps (paths s' ! 0)) = length (steps (paths s ! 0))" "return_state (paths s' ! 0) = return_state (paths s ! 0)"
    using length_steps_shape [OF 1(3), of 0] by simp_all
  have "all_answer s'" using Cons.prems(5) all_answer_cong [OF 1(3,4)] by simp
  from Cons.IH [OF 1(5,2) _ Cons.prems(4) this 1(6), of w'] 1 k l Cons.prems(9) show ?case by (simp add: opt_call_def)
qed (use assms in simp)

lemma exit_loop_passed:
  assumes "exit_loop env ty now as False f w = (as', True, f', w')"
  shows "\<exists>a \<in> set as'. sa_result a \<and> (debounce_timer_ms a = 0 \<or> check_expired_time now (debounce_target_time a))"
  using assms
proof (induction as arbitrary: as' f f' w w')
  case (Cons a as)
  let ?a = "a\<lparr>reason_for_exit_failure := CONDITIONAL\<rparr>"
  from Cons.prems obtain r v where c: "call_target env ty ?a w = Some (r, v)"
    by (auto simp: Let_def split: option.splits)
  obtain a' q g v' where d: "debounce_check env now (?a\<lparr>sa_result := r\<rparr>) f v = (a', q, g, v')" by (metis prod_cases4)
  obtain bs b h u where e: "exit_loop env ty now as q g v' = (bs, b, h, u)" by (metis prod_cases4)
  have as': "as' = a' # bs" "b" using Cons.prems c d e by (auto simp: Let_def)
  show ?case
  proof (cases q)
    case True
    with d have "sa_result a' \<and> (debounce_timer_ms a' = 0 \<or> check_expired_time now (debounce_target_time a'))"
      by (auto simp: debounce_check_def Let_def split: if_splits prod.splits)
    with as' show ?thesis by simp
  next
    case False
    with e as'(2) have "exit_loop env ty now as False g v' = (bs, True, h, u)" by simp
    from Cons.IH [OF this] as'(1) show ?thesis by auto
  qed
qed simp

section \<open>Leaving a step\<close>

definition exit_holds :: "timespec \<Rightarrow> step \<Rightarrow> bool" where
  "exit_holds now st \<longleftrightarrow> (\<exists>a \<in> set (exit_conditions st). sa_result a \<and>
     (debounce_timer_ms a = 0 \<or> check_expired_time now (debounce_target_time a)))"

text \<open>The three ways from one place in the sequence to the next; the step that is left is read after the call.\<close>

definition leaves :: "timespec \<Rightarrow> bool \<Rightarrow> sequence \<Rightarrow> sequence \<Rightarrow> bool" where
  "leaves now first s s' \<longleftrightarrow>
     (let st = steps (paths s' ! current_path_index s) ! current_step_index s
      in current_path_index s' = current_path_index s \<and> current_step_index s' = current_step_index s \<or>
         current_path_index s' = current_path_index s \<and> current_step_index s' = current_step_index s + 1 \<and> exit_holds now st \<or>
         path_switch st \<and> first \<and> current_path_index s' = next_path st \<and> current_step_index s' = 0 \<and>
           (\<exists>a \<in> set (exit_conditions st). reason_for_exit_failure a = CONDITIONAL))"

lemma exit_action_passed:
  assumes "handle_exit_action env ss s w = Some (r, s', w')"
  shows "\<exists>st. cur_step s' = Some st \<and> (r \<longrightarrow> exit_holds (ss_current_time ss) st) \<and> indices s' = indices s \<and>
    initial_exit_attempt s' = initial_exit_attempt s"
proof -
  from assms obtain st where st: "cur_step s = Some st" by (auto simp: handle_exit_action_def split: Option.bind_splits)
  obtain as b f v where e: "exit_loop env (sequence_type s) (ss_current_time ss) (exit_conditions st) False (debounce_reset s) w =
      (as, b, f, v)" by (metis prod_cases4)
  have b: "r = b" and s': "s' = (upd_step (\<lambda>st. st\<lparr>exit_conditions := as\<rparr>) s)\<lparr>debounce_reset := f\<rparr>"
    using assms st e by (auto simp: handle_exit_action_def)
  have "cur_step s' = Some (st\<lparr>exit_conditions := as\<rparr>)"
    using st by (auto simp: s' cur_step_def cur_path_def upd_step_def nth_map_nth split: Option.bind_splits)
  moreover have "indices s' = indices s" "initial_exit_attempt s' = initial_exit_attempt s"
    by (simp_all add: s' upd_step_def indices_def)
  moreover have "r \<Longrightarrow> exit_holds (ss_current_time ss) (st\<lparr>exit_conditions := as\<rparr>)"
    using exit_loop_passed [of env "sequence_type s" "ss_current_time ss"] e b by (simp add: exit_holds_def)
  ultimately show ?thesis by blast
qed

lemma cur_step_nth:
  "cur_step s = Some st \<Longrightarrow> steps (paths s ! current_path_index s) ! current_step_index s = st"
  by (auto simp: cur_step_def cur_path_def split: Option.bind_splits)

lemma exit_leaves:
  assumes "call_sequence_exit env ss s w = Some (ss', s', w')"
  shows "leaves (ss_current_time ss) (initial_exit_attempt s) s s'"
proof -
  have "EXIT \<noteq> ENTRY" by (simp add: EXIT_def ENTRY_def)
  with assms obtain r t v where t: "handle_exit_action env ss (s\<lparr>entry_exit_flag := EXIT\<rparr>) w = Some (r, t, v)"
    and r: "(if r then Some (ss\<lparr>step_change := True\<rparr>, t\<lparr>current_step_index := current_step_index t + 1, step_reset := True,
        initial_exit_attempt := True\<rparr>, v)
      else if initial_exit_attempt t then handle_initial_exit_attempt ss t \<bind> (\<lambda>(ss, s). Some (ss, s, v)) else Some (ss, t, v)) =
      Some (ss', s', w')"
    by (auto simp: call_sequence_exit_def call_function_def split: Option.bind_splits)
  from exit_action_passed [OF t] obtain st where st: "cur_step t = Some st" "r \<longrightarrow> exit_holds (ss_current_time ss) st"
    "indices t = indices s" "initial_exit_attempt t = initial_exit_attempt s" by (auto simp: indices_def)
  have i: "current_path_index t = current_path_index s" "current_step_index t = current_step_index s" using st(3) by (simp_all add: indices_def)
  note n = cur_step_nth [OF st(1), unfolded i]
  show ?thesis
  proof (cases r)
    case True
    with r have "s' = t\<lparr>current_step_index := current_step_index t + 1, step_reset := True, initial_exit_attempt := True\<rparr>" by simp
    with True st(2) i n show ?thesis by (simp add: leaves_def)
  next
    case False
    then show ?thesis using r st(1,4) i n
      by (auto simp: leaves_def handle_initial_exit_attempt_def Let_def split: if_splits)
  qed
qed

lemma entry_keeps:
  assumes "call_sequence_entry env ss s w = Some (s', w')"
  shows "current_path_index s' = current_path_index s \<and> current_step_index s' = current_step_index s \<and>
    initial_exit_attempt s' = initial_exit_attempt s"
proof -
  obtain r t where t: "handle_entry_action env (s\<lparr>debounce_reset := True, entry_exit_flag := ENTRY\<rparr>) w = Some (r, t, w')"
    and s': "s' = (if r then t\<lparr>check_current_step_index := check_current_step_index t + 1\<rparr> else t)\<lparr>initial_entry_attempt := False\<rparr>"
    using assms by (auto simp: call_sequence_entry_def call_function_def split: Option.bind_splits)
  have "current_path_index t = current_path_index s \<and> current_step_index t = current_step_index s \<and>
      initial_exit_attempt t = initial_exit_attempt s"
    using t by (auto simp: handle_entry_action_def upd_step_def split_beta split: Option.bind_splits)
  then show ?thesis by (simp add: s')
qed

lemma run_step_leaves:
  assumes "run_step env ss s w = Some (ss', s', w')"
  shows "leaves (ss_current_time ss) (initial_exit_attempt s) s s'"
proof -
  obtain t v where t: "(if check_current_step_index s = current_step_index s then call_sequence_entry env ss s w else Some (s, w)) = Some (t, v)"
    and e: "(if check_current_step_index t > current_step_index t then call_sequence_exit env ss t v else Some (ss, t, v)) = Some (ss', s', w')"
    using assms by (auto simp: run_step_def split: Option.bind_splits)
  have k: "current_path_index t = current_path_index s" "current_step_index t = current_step_index s"
      "initial_exit_attempt t = initial_exit_attempt s"
    using t entry_keeps [of env ss s w t v] by (auto split: if_splits)
  have "leaves (ss_current_time ss) (initial_exit_attempt t) t s'"
    using e exit_leaves [of env ss t v ss' s' w'] by (auto simp: leaves_def split: if_splits)
  then show ?thesis by (simp add: leaves_def k)
qed

lemma call_leaves:
  assumes "call_sequence env ss s w = Some (ss', s', w')" "\<not> sequence_reset ss"
  shows "leaves (ss_current_time ss) (step_reset s \<or> initial_exit_attempt s) s s'"
proof -
  from assms obtain ss1 s1 w1 where 1: "(if step_reset s then reset_step env ss s w else Some (ss, s, w)) = Some (ss1, s1, w1)"
    by (auto simp: call_sequence_def Let_def split: Option.bind_splits)
  have k: "current_path_index s1 = current_path_index s" "current_step_index s1 = current_step_index s"
      "initial_exit_attempt s1 = (step_reset s \<or> initial_exit_attempt s)" "ss_current_time ss1 = ss_current_time ss" "paths s1 = paths s"
    using 1 by (auto simp: reset_step_def Let_def split: if_splits prod.splits Option.bind_splits)
  show ?thesis
  proof (cases "sequence_bypass s1")
    case True
    then have "s' = s1" using assms 1 by (simp add: call_sequence_def)
    then show ?thesis using k by (simp add: leaves_def)
  next
    case False
    with assms 1 obtain ss2 w2 ss3 s3 w3 ss4 s4 w4 where 2: "check_path_step_change env ss1 s1 w1 = Some (ss2, w2)"
      "run_step env ss2 s1 w2 = Some (ss3, s3, w3)" "complete_sequence env (ss3, s3, w3) = Some (ss4, s4, w4)"
      "time_out_step env (ss4, s4, w4) = Some (ss', s', w')"
      by (auto simp: call_sequence_def split: Option.bind_splits)
    have "ss_current_time ss2 = ss_current_time ss1"
      using 2(1) by (auto simp: check_path_step_change_def Let_def split: if_splits Option.bind_splits)
    with run_step_leaves [OF 2(2)] have "leaves (ss_current_time ss) (step_reset s \<or> initial_exit_attempt s) s1 s3" by (simp add: k)
    moreover have "paths s4 = paths s3 \<and> current_path_index s4 = current_path_index s3 \<and> current_step_index s4 = current_step_index s3"
      using 2(3) by (auto simp: complete_sequence_def split: if_splits Option.bind_splits)
    moreover have "s' = s4" using 2(4) by (auto simp: time_out_step_def Let_def split: if_splits prod.splits Option.bind_splits)
    ultimately show ?thesis by (simp add: leaves_def k)
  qed
qed

section \<open>Properties\<close>

text \<open>C12. A sequence whose paths have no time out never gets stuck: from a configuration with no empty path, which
  the parser rejects, and with every path switch inside the sequence, which it does not check (it only turns a missing or
  negative index into 0), however the called functions answer and
  whatever the clock says, every call of \<^verbatim>\<open>call_sequence\<close> returns with the step and path indices inside
  their vectors, for any number of calls.\<close>
theorem sequence_never_stuck:
  assumes "runnable ss s" "\<forall>p \<in> set (paths s). timeout p = -1"
  shows "\<exists>ss' s' w'. fold (opt_call env) clk (Some (ss, s, w)) = Some (ss', s', w') \<and> runnable ss' s'"
proof -
  have "not_stuck (Some (ss, s, w))" using assms by (simp add: not_stuck_def no_time_out_shape)
  from seqr.run_inv [OF this, of env clk] show ?thesis by (auto simp: not_stuck_def split: option.splits)
qed

text \<open>C14. A call of \<^verbatim>\<open>call_sequence\<close> on a sequence the site may call keeps it callable, changes nothing of
  its configuration, and moves it by at most one step (or to the start of a path); it can only fail
  when some path has a time out.\<close>
theorem sequence_call_moves_one_step:
  assumes "runnable ss s"
  shows "case call_sequence env ss s w of
      Some (ss', s', w') \<Rightarrow> runnable ss' s' \<and> shape s' = shape s \<and> \<not> sequence_reset ss' \<and> step_moves s s'
    | None \<Rightarrow> \<exists>p \<in> set (paths s). timeout p \<noteq> -1"
  by (rule call_sequence_safe [OF assms])

text \<open>C13. Progress: when every function the steps call answers true, a sequence of the site of \<open>n\<close> steps
  without time outs, each of which has an entry action and an exit condition whose first routes are not empty and no
  debounce time on its first exit condition, is complete after exactly \<open>n\<close> calls, not before, and the site is
  then in the return state of its path.\<close>
theorem sequence_completes:
  assumes "seq_wf s" "at_step 0 s" "all_answer s" "answers_true env"
    and "\<not> sequence_reset ss" "\<not> sequence_bypass s"
    and "length clk \<le> length (steps (paths s ! 0))"
  shows "\<exists>ss' s' w'. fold (opt_call env) clk (Some (ss, s, w)) = Some (ss', s', w') \<and>
    current_step_index s' = length clk \<and>
    (sequence_bypass s' \<longleftrightarrow> length clk = length (steps (paths s ! 0))) \<and>
    (sequence_bypass s' \<longrightarrow> current_state ss' = return_state (paths s ! 0))"
proof -
  have "0 < length (steps (paths s ! 0))"
    using assms(1,2) config_ok_steps [of s 0] by (auto simp: seq_wf_def at_step_def)
  with run_answers [OF assms(1,2) _ assms(4,3,5), of clk w] assms(6,7) show ?thesis by (auto simp: at_step_def)
qed

text \<open>C15. A step is left only when one of its exit conditions holds, or by its path switch: a call of
  \<^verbatim>\<open>call_sequence\<close> that does not reset the sequence leaves the indices where they were, or goes to the next step and one
  exit condition of the step that was left was answered true and either has no debounce time or its debounce target
  has expired, or goes to the start of the path the step switches to, at the first attempt to leave the step
  and with an exit condition that failed by itself.\<close>
theorem step_left_only_when_satisfied:
  assumes "call_sequence env ss s w = Some (ss', s', w')" "\<not> sequence_reset ss"
    and "st = steps (paths s' ! current_path_index s) ! current_step_index s"
  shows "current_path_index s' = current_path_index s \<and> current_step_index s' = current_step_index s \<or>
    current_path_index s' = current_path_index s \<and> current_step_index s' = current_step_index s + 1 \<and>
      (\<exists>a \<in> set (exit_conditions st). sa_result a \<and>
        (debounce_timer_ms a = 0 \<or> check_expired_time (ss_current_time ss) (debounce_target_time a))) \<or>
    path_switch st \<and> (step_reset s \<or> initial_exit_attempt s) \<and> current_path_index s' = next_path st \<and> current_step_index s' = 0 \<and>
      (\<exists>a \<in> set (exit_conditions st). reason_for_exit_failure a = CONDITIONAL)"
  using call_leaves [OF assms(1,2)] unfolding leaves_def exit_holds_def assms(3) Let_def by blast

lemma call_target_reason [simp]: "call_target env ty (a\<lparr>reason_for_exit_failure := r\<rparr>) w = call_target env ty a w"
  by (simp add: call_target_def split: option.split Sequence_Type.split)

text \<open>The debounce flag is shared by the conditions of a step: when two conditions with a debounce time
  are both true at the first evaluation, only the first one starts its timer; whether the second one lets
  the step end is decided by the target time it held before the step was entered.\<close>
theorem second_debounce_uses_old_timer:
  assumes "debounce_timer_ms a \<noteq> 0" "debounce_timer_ms b \<noteq> 0"
    and "call_target env ty a w = Some (True, w1)" "clock_gettime env w1 = (t, w2)"
    and "call_target env ty b w2 = Some (True, w3)"
    and "\<not> check_expired_time now (add_seconds t (debounce_timer_ms a sdiv 1000))"
  shows "fst (snd (exit_loop env ty now [a, b] False True w)) \<longleftrightarrow> check_expired_time now (debounce_target_time b)"
  using assms by (simp add: debounce_check_def Let_def)

text \<open>A sequence that leaves its last step in the call in which the time out of that step has expired
  is not handled: the message of the time out reads the step after the last one.\<close>
theorem time_out_at_completion_undefined:
  assumes "\<not> sequence_reset ss" "\<not> step_reset s" "\<not> sequence_bypass s"
    and "check_path_step_change env ss s w = Some (ss1, w1)" "run_step env ss1 s w1 = Some (ss2, s2, w2)"
    and "cur_path s2 = Some p" "current_step_index s2 = length (steps p)"
    and "timeout p \<noteq> -1" "check_expired_time (ss_current_time ss2) (exit_target_time ss2)"
  shows "call_sequence env ss s w = None"
  using assms by (simp add: call_sequence_def complete_sequence_def time_out_step_def cur_step_def nth_opt_def)

section \<open>A concrete sequence\<close>

text \<open>An environment that answers \<open>b\<close> to every call and whose clock shows the world, and a one-path
  sequence of two \<^verbatim>\<open>/bypass\<close> steps.\<close>

definition steady_env :: "bool \<Rightarrow> int seq_env" where
  "steady_env b = \<lparr>call_sequence_functions = (\<lambda>_ _ _ _ w. (b, w)), call_action_functions = (\<lambda>_ _ _ w. (b, w)),
     set_site_status = (\<lambda>_ w. w), emit_event = (\<lambda>_ _ _ w. w), set_faults = (\<lambda>_ w. w), clock_gettime = (\<lambda>w. (mk_ts w 0, w))\<rparr>"

definition bypass_action :: "int \<Rightarrow> step_action" where
  "bypass_action ms = \<lparr>route = ''/bypass'', sa_value = Value_Object 0, sa_result = False, tolerance = 0,
     reason_for_exit_failure = 0, debounce_timer_ms = ms, debounce_target_time = mk_ts 0 0\<rparr>"

definition bypass_step :: "string \<Rightarrow> step" where
  "bypass_step n = \<lparr>step_name = n, entry_actions = [bypass_action 0], exit_conditions = [bypass_action 0],
     path_switch = False, next_path = 0\<rparr>"

definition startup_sequence :: "int \<Rightarrow> sequence" where
  "startup_sequence limit_sec = Sequence\<lparr>state := Startup, paths := [\<lparr>path_name = ''main'', return_id = ''RunMode1'',
     return_state = RunMode1, timeout = limit_sec, steps = [bypass_step ''close'', bypass_step ''start''], path_faults = [],
     num_active_faults = 0, path_alarms = [], num_active_alarms = 0\<rparr>]\<rparr>"

lemma route_target_bypass [simp]: "route_target ''/bypass'' = Some (''bypass'', ''bypass'')"
  using split_join [of "[''bypass'']" "CHR ''/''"] by (simp add: route_target_def join_slash_def)

lemmas demo_defs = steady_env_def bypass_action_def bypass_step_def startup_sequence_def Sequence_def Sequences_Status_def

lemma startup_sequence_ok: "seq_wf (startup_sequence l)" "at_step 0 (startup_sequence l)" "\<not> sequence_bypass (startup_sequence l)"
    "length (steps (paths (startup_sequence l) ! 0)) = 2" "return_state (paths (startup_sequence l) ! 0) = RunMode1"
    "all_answer (startup_sequence (-1))" "answers_true (steady_env True)"
  by (simp_all add: demo_defs seq_wf_def config_ok_def shape_def step_shape_def at_step_def all_answer_def answerable_def answers_true_def)

lemma startup_sequence_runnable: "runnable ss (startup_sequence l)"
proof -
  have "cur_step (startup_sequence l) \<noteq> None" unfolding cur_step_Some_iff by (simp add: demo_defs)
  then show ?thesis using startup_sequence_ok(1) [of l] by (simp only: runnable_def simp_thms)
qed

theorem sequence_never_stuck_witness:
  "\<exists>ss' s' w'. fold (opt_call (steady_env False)) [mk_ts 1 0, mk_ts 2 0]
     (Some (Sequences_Status (mk_ts 0 0) (mk_ts 0 0), startup_sequence (-1), 0)) = Some (ss', s', w') \<and> runnable ss' s'"
  by (rule sequence_never_stuck) (simp_all add: startup_sequence_runnable, simp add: demo_defs)

theorem sequence_call_moves_one_step_witness:
  "case call_sequence (steady_env True) (Sequences_Status (mk_ts 0 0) (mk_ts 0 0)) (startup_sequence 5) 0 of
      Some (ss', s', w') \<Rightarrow> runnable ss' s' \<and> shape s' = shape (startup_sequence 5) \<and> \<not> sequence_reset ss' \<and>
        step_moves (startup_sequence 5) s'
    | None \<Rightarrow> \<exists>p \<in> set (paths (startup_sequence 5)). timeout p \<noteq> -1"
  by (rule sequence_call_moves_one_step) (rule startup_sequence_runnable)

theorem sequence_completes_witness:
  "\<exists>ss' s' w'. fold (opt_call (steady_env True)) [mk_ts 1 0, mk_ts 2 0]
     (Some (Sequences_Status (mk_ts 0 0) (mk_ts 0 0), startup_sequence (-1), 0)) = Some (ss', s', w') \<and>
    current_step_index s' = 2 \<and> sequence_bypass s' \<and> current_state ss' = RunMode1"
proof -
  let ?r = "fold (opt_call (steady_env True)) [mk_ts 1 0, mk_ts 2 0]
     (Some (Sequences_Status (mk_ts 0 0) (mk_ts 0 0), startup_sequence (-1), 0))"
  have "\<not> sequence_reset (Sequences_Status (mk_ts 0 0) (mk_ts 0 0))" by (simp add: Sequences_Status_def)
  moreover have l: "length [mk_ts 1 0, mk_ts 2 0] = 2" by simp
  moreover have "(2::nat) \<le> 2" by simp
  ultimately obtain ss' s' w' where "?r = Some (ss', s', w')" "current_step_index s' = 2" "sequence_bypass s'" "current_state ss' = RunMode1"
    using sequence_completes [OF startup_sequence_ok(1,2,6,7) _ startup_sequence_ok(3), of _ "[mk_ts 1 0, mk_ts 2 0]" 0]
    unfolding startup_sequence_ok l by blast
  then show ?thesis by blast
qed

theorem step_left_only_when_satisfied_witness:
  "\<exists>ss' s' w'. call_sequence (steady_env True) (Sequences_Status (mk_ts 1 0) (mk_ts 0 0)) (startup_sequence (-1)) 0 = Some (ss', s', w') \<and>
    current_step_index s' = 1 \<and> (\<exists>a \<in> set (exit_conditions (steps (paths s' ! 0) ! 0)). sa_result a \<and>
      (debounce_timer_ms a = 0 \<or> check_expired_time (mk_ts 1 0) (debounce_target_time a)))"
proof -
  have r: "\<not> sequence_reset (Sequences_Status (mk_ts 1 0) (mk_ts 0 0))" "ss_current_time (Sequences_Status (mk_ts 1 0) (mk_ts 0 0)) = mk_ts 1 0"
    by (simp_all add: Sequences_Status_def)
  have k: "0 < length (steps (paths (startup_sequence (-1)) ! 0))" by (simp add: startup_sequence_ok)
  obtain ss' s' w' where c: "call_sequence (steady_env True) (Sequences_Status (mk_ts 1 0) (mk_ts 0 0)) (startup_sequence (-1)) 0 = Some (ss', s', w')"
    "at_step (Suc 0) s'"
    using call_sequence_answers [OF startup_sequence_ok(1,2) k startup_sequence_ok(7,6,3) r(1), of 0] by blast
  have "current_path_index (startup_sequence (-1)) = 0" "current_step_index (startup_sequence (-1)) = 0"
    by (simp_all add: demo_defs)
  with step_left_only_when_satisfied [OF c(1) r(1) refl] c show ?thesis unfolding r(2) by (auto simp: at_step_def)
qed

theorem second_debounce_uses_old_timer_witness:
  "fst (snd (exit_loop (steady_env True) Site (mk_ts 100 0) [bypass_action 60000, bypass_action 60000] False True 100))"
  using second_debounce_uses_old_timer [of "bypass_action 60000" "bypass_action 60000" "steady_env True" Site 100 100
      "mk_ts 100 0" 100 100 "mk_ts 100 0"]
  by (simp add: demo_defs call_target_def check_expired_time_def add_seconds_def)

theorem time_out_at_completion_undefined_witness:
  "call_sequence (steady_env True) ((Sequences_Status (mk_ts 9 0) (mk_ts 5 0))\<lparr>path_change := False, step_change := False\<rparr>)
     ((startup_sequence 5)\<lparr>step_reset := False, current_step_index := 1, check_current_step_index := 1\<rparr>) 9 = None"
  by (rule time_out_at_completion_undefined)
    (auto simp: demo_defs check_path_step_change_def run_step_def call_sequence_entry_def call_sequence_exit_def
      call_function_def handle_entry_action_def handle_exit_action_def cur_step_def cur_path_def nth_opt_def call_target_def
      debounce_check_def upd_step_def map_nth_def ENTRY_def EXIT_def check_expired_time_def)

end
