(* ===== verification/Path_Alerts.thy ===== *)
theory Path_Alerts
  imports Sequences Asset_Cmd
begin

text \<open>
  The fault and alarm checks of a path (\<^verbatim>\<open>Path.cpp\<close>) and the alert registers of the site they
  raise (\<^verbatim>\<open>Site_Manager.cpp\<close>).  The site keeps one Boolean per alert number; a check compares the
  state of the assets with the alerts the path lists, counts those that hold and raises the
  registers that were not raised yet.

  The readings of the assets are a record of functions, an argument of the checks.  Events are
  appended to a list in the order in which they are emitted.  An index outside the registers, or a
  read of the first fragment of an empty name, is \<open>None\<close>.
\<close>

section \<open>Numbers in messages and names\<close>

definition digit_char :: "nat \<Rightarrow> char" where
  "digit_char n = char_of (48 + n)"

fun show_nat :: "nat \<Rightarrow> string" where
  "show_nat n = (if n < 10 then [digit_char n] else show_nat (n div 10) @ [digit_char (n mod 10)])"

declare show_nat.simps [simp del]

definition show_int :: "int \<Rightarrow> string" where
  "show_int i = (if i < 0 then CHR ''-'' # show_nat (nat (- i)) else show_nat (nat i))"

definition is_digit :: "char \<Rightarrow> bool" where
  "is_digit c \<longleftrightarrow> 48 \<le> (of_char c :: nat) \<and> (of_char c :: nat) \<le> 57"

definition read_digits :: "string \<Rightarrow> nat" where
  "read_digits ds = fold (\<lambda>c n. 10 * n + (of_char c - 48)) ds 0"

definition is_space :: "char \<Rightarrow> bool" where
  "is_space c \<longleftrightarrow> c = CHR '' '' \<or> (9 \<le> (of_char c :: nat) \<and> (of_char c :: nat) \<le> 13)"

text \<open>\<^verbatim>\<open>std::stoi\<close>: white space, a sign, the longest prefix of digits; \<open>None\<close> for the two exceptions.\<close>

definition stoi :: "string \<Rightarrow> int option" where
  "stoi s =
     (let s = dropWhile is_space s;
          (neg, s) = (case s of c # cs \<Rightarrow> if c = CHR ''-'' then (True, cs) else if c = CHR ''+'' then (False, cs) else (False, s)
                      | [] \<Rightarrow> (False, []));
          ds = takeWhile is_digit s;
          n = (if neg then - int (read_digits ds) else int (read_digits ds))
      in if ds = [] then None
         else if n < - (2 ^ 31) \<or> n > 2 ^ 31 - 1 then None
         else Some n)"

text \<open>\<^verbatim>\<open>static_cast<int>\<close> of a 64-bit mask keeps the low 32 bits.\<close>

definition mask_to_int :: "64 word \<Rightarrow> int" where
  "mask_to_int m = sint (ucast m :: 32 word)"

section \<open>The alert registers of the site\<close>

record site_alerts =
  active_fault_array :: "bool list"
  active_alarm_array :: "bool list"
  fault_status_flag :: bool
  alarm_status_flag :: bool
  fault_options :: "int \<Rightarrow> string option"
  alarm_options :: "int \<Rightarrow> string option"
  events :: "(string \<times> string \<times> alert_type) list"

definition emit :: "string \<Rightarrow> alert_type \<Rightarrow> site_alerts \<Rightarrow> site_alerts" where
  "emit message severity sa = sa\<lparr>events := events sa @ [(''Site'', message, severity)]\<rparr>"

definition reg_read :: "int \<Rightarrow> bool list \<Rightarrow> bool option" where
  "reg_read i rs = (if 0 \<le> i then nth_opt (nat i) rs else None)"

definition reg_write :: "int \<Rightarrow> bool \<Rightarrow> bool list \<Rightarrow> bool list option" where
  "reg_write i b rs = (if 0 \<le> i \<and> nat i < length rs then Some (rs[nat i := b]) else None)"

definition get_active_faults :: "int \<Rightarrow> site_alerts \<Rightarrow> bool option" where
  "get_active_faults i sa = reg_read i (active_fault_array sa)"

definition get_active_alarms :: "int \<Rightarrow> site_alerts \<Rightarrow> bool option" where
  "get_active_alarms i sa = reg_read i (active_alarm_array sa)"

definition short_msg :: "string \<Rightarrow> string" where
  "short_msg m = take 255 m"

definition set_fault :: "int \<Rightarrow> site_alerts \<Rightarrow> site_alerts option" where
  "set_fault fault_number sa = do {
     let fault_message = (case fault_options sa fault_number of
         Some m \<Rightarrow> m | None \<Rightarrow> ''internal fault tracking error'');
     rs \<leftarrow> reg_write fault_number True (active_fault_array sa);
     let sa = emit (short_msg (''Fault: '' @ fault_message)) FAULT_ALERT (sa\<lparr>active_fault_array := rs\<rparr>);
     Some (sa\<lparr>fault_status_flag := True\<rparr>) }"

definition set_alarms :: "int \<Rightarrow> site_alerts \<Rightarrow> site_alerts option" where
  "set_alarms alarm_number sa = do {
     let alarm_message = (case alarm_options sa alarm_number of
         Some m \<Rightarrow> m | None \<Rightarrow> ''internal alarm tracking error'');
     rs \<leftarrow> reg_write alarm_number True (active_alarm_array sa);
     let sa = emit (short_msg (''Alarm: '' @ alarm_message)) ALARM_ALERT (sa\<lparr>active_alarm_array := rs\<rparr>);
     Some (sa\<lparr>alarm_status_flag := True\<rparr>) }"

definition get_faults :: "site_alerts \<Rightarrow> bool" where
  "get_faults sa \<longleftrightarrow> (\<exists>b \<in> set (take 64 (active_fault_array sa)). b)"

definition get_alarms :: "site_alerts \<Rightarrow> bool" where
  "get_alarms sa \<longleftrightarrow> (\<exists>b \<in> set (take 64 (active_alarm_array sa)). b)"

definition clear_alarms :: "int \<Rightarrow> site_alerts \<Rightarrow> site_alerts option" where
  "clear_alarms alarm_number sa = do {
     rs \<leftarrow> reg_write alarm_number False (active_alarm_array sa);
     let sa = sa\<lparr>active_alarm_array := rs\<rparr>;
     Some (if get_alarms sa then sa else sa\<lparr>alarm_status_flag := False\<rparr>) }"

text \<open>The registers are arrays of 64 entries, all of which are cleared.\<close>

definition clear_fault_registers :: "site_alerts \<Rightarrow> site_alerts" where
  "clear_fault_registers sa = sa\<lparr>fault_status_flag := False, alarm_status_flag := False,
     active_fault_array := replicate 64 False, active_alarm_array := replicate 64 False\<rparr>"

text \<open>
  \<^verbatim>\<open>build_active_faults\<close> and \<^verbatim>\<open>build_active_alarms\<close>: the options and the bit field of the active
  alerts among the \<open>n\<close> configured ones, and then their number.
\<close>

definition build_active ::
    "nat \<Rightarrow> (nat \<Rightarrow> 'o option) \<Rightarrow> bool list \<Rightarrow> (nat \<Rightarrow> 'o option) \<times> value_object
     \<Rightarrow> ((nat \<Rightarrow> 'o option) \<times> value_object) option" where
  "build_active n opts rs = (\<lambda>(active_opts, vo).
     if n > length rs then None
     else let ids = filter (\<lambda>i. rs ! i) [0..<n]
          in Some (\<lambda>i. if i \<in> set ids then opts i else active_opts i,
               set_int (int (length ids)) (vo\<lparr>value_bit_field := fold (\<lambda>i m. m OR push_bit i 1) ids 0\<rparr>)))"

section \<open>The checks of a path at the site level\<close>

record asset_view =
  am_num_active_faults :: "asset_type \<Rightarrow> int"
  am_num_active_alarms :: "asset_type \<Rightarrow> int"
  get_num_running :: "asset_type \<Rightarrow> int"
  get_num_avail :: "asset_type \<Rightarrow> int"
  get_num_controllable :: "asset_type \<Rightarrow> int"
  check_asset_for_alert :: "string \<Rightarrow> string \<Rightarrow> string \<Rightarrow> 64 word \<Rightarrow> bool"
  validate_feeder_id :: "string \<Rightarrow> bool"
  get_feeder_state :: "string \<Rightarrow> bool"
  get_reserved_bool :: "int \<Rightarrow> bool \<times> string"

definition check_asset_alert :: "asset_view \<Rightarrow> string \<times> 64 word \<Rightarrow> bool" where
  "check_asset_alert v alert = (case split (fst alert) ''/'' of
       Some [_, ty, asset_id, alert_id] \<Rightarrow>
         ty \<in> {''ess'', ''solar'', ''generators'', ''feeders''} \<and> check_asset_for_alert v ty asset_id alert_id (snd alert)
     | _ \<Rightarrow> False)"

definition alert_names_upper :: "alert_type \<Rightarrow> string" where
  "alert_names_upper ty = (case ty of INVALID \<Rightarrow> ''Invalid'' | INFO_ALERT \<Rightarrow> ''Info'' | STATUS_ALERT \<Rightarrow> ''Status''
     | ALARM_ALERT \<Rightarrow> ''Alarm'' | FAULT_ALERT \<Rightarrow> ''Fault'')"

definition too_few :: "string \<Rightarrow> int \<Rightarrow> int \<Rightarrow> bool \<times> string" where
  "too_few what expected actual = (expected \<ge> actual, ''insufficient number of '' @ what @ ''. Expected at least '' @
     show_int (expected + 1) @ '' but detected '' @ show_int actual)"

text \<open>The conditions on the assets of the site: whether one holds, and its message.\<close>

definition asset_condition :: "asset_view \<Rightarrow> string \<Rightarrow> 64 word \<Rightarrow> (bool \<times> string) option" where
  "asset_condition v cmd m =
     (if cmd = ''get_any_ess_faults'' then Some (am_num_active_faults v ESS > 0, ''ESS fault(s) detected'')
      else if cmd = ''get_any_ess_alarms'' then Some (am_num_active_alarms v ESS > 0, ''ESS alarm(s) detected'')
      else if cmd = ''get_num_ess_running'' then Some (too_few ''ESS running'' (mask_to_int m) (get_num_running v ESS))
      else if cmd = ''get_num_ess_available'' then Some (too_few ''ESS available'' (mask_to_int m) (get_num_avail v ESS))
      else if cmd = ''get_num_ess_controllable'' then Some (too_few ''ESS controllable'' (mask_to_int m) (get_num_controllable v ESS))
      else if cmd = ''get_any_solar_faults'' then Some (am_num_active_faults v SOLAR > 0, ''solar fault(s) detected'')
      else if cmd = ''get_any_solar_alarms'' then Some (am_num_active_alarms v SOLAR > 0, ''solar alarm(s) detected'')
      else if cmd = ''get_num_solar_running'' then Some (too_few ''solar running'' (mask_to_int m) (get_num_running v SOLAR))
      else if cmd = ''get_num_solar_available'' then Some (too_few ''solar available'' (mask_to_int m) (get_num_avail v SOLAR))
      else if cmd = ''get_num_solar_controllable'' then Some (too_few ''solar controllable'' (mask_to_int m) (get_num_controllable v SOLAR))
      else if cmd = ''get_any_gen_faults'' then Some (am_num_active_faults v GENERATORS > 0, ''generator fault(s) detected'')
      else if cmd = ''get_any_gen_alarms'' then Some (am_num_active_alarms v GENERATORS > 0, ''generator alarm(s) detected'')
      else if cmd = ''get_num_gen_running'' then Some (too_few ''generators running'' (mask_to_int m) (get_num_running v GENERATORS))
      else if cmd = ''get_num_gen_available'' then Some (too_few ''generators available'' (mask_to_int m) (get_num_avail v GENERATORS))
      else if cmd = ''get_num_gen_controllable'' then Some (too_few ''generators controllable'' (mask_to_int m) (get_num_controllable v GENERATORS))
      else if cmd = ''get_num_assets_controllable''
      then Some (too_few ''assets controllable across all types'' (mask_to_int m)
        (get_num_controllable v ESS + get_num_controllable v GENERATORS + get_num_controllable v SOLAR))
      else None)"

definition feeder_condition :: "asset_view \<Rightarrow> string \<Rightarrow> 64 word \<Rightarrow> bool \<times> string" where
  "feeder_condition v feeder m =
     (if \<not> validate_feeder_id v feeder then (False, '''')
      else if m = 0 \<and> \<not> get_feeder_state v feeder then (True, feeder @ '' breaker is open'')
      else if m = 1 \<and> get_feeder_state v feeder then (True, feeder @ '' breaker is closed'')
      else (False, ''''))"

definition get_alert :: "alert_type \<Rightarrow> int \<Rightarrow> site_alerts \<Rightarrow> bool option" where
  "get_alert ty i sa = (if ty = FAULT_ALERT then get_active_faults i sa else get_active_alarms i sa)"

definition set_alert :: "alert_type \<Rightarrow> int \<Rightarrow> site_alerts \<Rightarrow> site_alerts option" where
  "set_alert ty i sa = (if ty = FAULT_ALERT then set_fault i sa else set_alarms i sa)"

text \<open>
  One entry of the list of a path: how much it adds to the count, the registers, and whether the
  loop is left.  \<open>raise_alert\<close> is the block every condition that holds runs: count it, and if its
  register is not raised yet emit the event and raise it.
\<close>

definition raise_alert :: "alert_type \<Rightarrow> int \<Rightarrow> string \<Rightarrow> bool \<Rightarrow> site_alerts \<Rightarrow> (int \<times> site_alerts \<times> bool) option" where
  "raise_alert ty i msg holds sa =
     (if \<not> holds then Some (0, sa, False)
      else do {
        active \<leftarrow> get_alert ty i sa;
        sa \<leftarrow> (if active then Some sa else set_alert ty i (emit (medium_msg msg) ty sa));
        Some (1, sa, False) })"

definition reserved_condition :: "asset_view \<Rightarrow> string \<Rightarrow> 64 word \<Rightarrow> (int \<times> bool \<times> string) option" where
  "reserved_condition v var_name m = (case split var_name ''_'' of
       Some (_ # var_type # var_index # _) \<Rightarrow>
         if var_type = ''bool'' then
           let bool_index = (case stoi var_index of Some n \<Rightarrow> n | None \<Rightarrow> 0) in
           if bool_index \<noteq> 0 then
             let (b, name) = (if 1 \<le> bool_index \<and> bool_index \<le> 16 then get_reserved_bool v bool_index else (False, ''''))
             in Some (15 + bool_index, b \<noteq> (m \<noteq> 0), name)
           else None
         else None
     | _ \<Rightarrow> None)"

definition site_alert_one ::
    "asset_view \<Rightarrow> alert_type \<Rightarrow> string \<times> 64 word \<Rightarrow> site_alerts \<Rightarrow> (int \<times> site_alerts \<times> bool) option" where
  "site_alert_one v ty nm sa = (case split (fst nm) ''/'' of
       None \<Rightarrow> None
     | Some [] \<Rightarrow> None
     | Some (f0 # rest) \<Rightarrow>
         if f0 = ''bypass'' then Some (0, sa, False)
         else if ty = FAULT_ALERT \<and> f0 = ''test_fault'' then raise_alert ty 0 ''Test fault detected'' True sa
         else if ty = ALARM_ALERT \<and> f0 = ''test_alarm'' then raise_alert ty 0 ''Test alarm detected'' True sa
         else if rest \<noteq> [] then
           if f0 = ''site'' then
             if hd rest = ''watchdog_alarm'' then do {
               barked \<leftarrow> get_active_alarms 4 sa;
               raise_alert ty 1 (alert_names_upper ty @ '': watchdog_alarm detected'') barked sa }
             else Some (0, sa, False)
           else if f0 = ''assets'' then
             (case asset_condition v (hd rest) (snd nm) of
                Some (holds, msg) \<Rightarrow> raise_alert ty 1 (alert_names_upper ty @ '': '' @ msg) holds sa
              | None \<Rightarrow>
                  if check_asset_alert v nm then do {
                    active \<leftarrow> get_alert ty 1 sa;
                    if active then Some (1, sa, False)
                    else if length rest \<noteq> 3 then Some (1, sa, True)
                    else do { sa \<leftarrow> set_alert ty 1 sa; Some (1, sa, False) } }
                  else Some (0, sa, False))
           else if hd rest = ''get_feeder_on_array'' then
             let (holds, msg) = feeder_condition v f0 (snd nm)
             in raise_alert ty 1 (alert_names_upper ty @ '': '' @ msg) holds sa
           else Some (0, sa, False)
         else if starts_with ''reserved_'' f0 then
           (case reserved_condition v f0 (snd nm) of
              None \<Rightarrow> Some (0, sa, False)
            | Some (i, holds, name) \<Rightarrow> raise_alert ty i (alert_names_upper ty @ '': '' @ name) holds sa)
         else Some (0, sa, False))"

fun site_alert_loop ::
    "asset_view \<Rightarrow> alert_type \<Rightarrow> (string \<times> 64 word) list \<Rightarrow> int \<Rightarrow> site_alerts \<Rightarrow> (int \<times> site_alerts) option" where
  "site_alert_loop v ty [] n sa = Some (n, sa)"
| "site_alert_loop v ty (nm # nms) n sa = (case site_alert_one v ty nm sa of
       None \<Rightarrow> None
     | Some (k, sa', leave) \<Rightarrow> if leave then Some (n + k, sa') else site_alert_loop v ty nms (n + k) sa')"

definition alert_list :: "alert_type \<Rightarrow> path \<Rightarrow> (string \<times> 64 word) list" where
  "alert_list ty p = (if ty = FAULT_ALERT then path_faults p else path_alarms p)"

definition store_count :: "alert_type \<Rightarrow> int \<Rightarrow> path \<Rightarrow> path" where
  "store_count ty n p = (if ty = FAULT_ALERT then p\<lparr>num_active_faults := n\<rparr>
     else if ty = ALARM_ALERT then p\<lparr>num_active_alarms := n\<rparr> else p)"

definition handle_site_check_alerts ::
    "asset_view \<Rightarrow> alert_type \<Rightarrow> path \<Rightarrow> site_alerts \<Rightarrow> (path \<times> site_alerts) option" where
  "handle_site_check_alerts v ty p sa = do {
     (n, sa) \<leftarrow> site_alert_loop v ty (alert_list ty p) 0 sa;
     Some (store_count ty n p, sa) }"

section \<open>The checks of a path at the level of one ESS\<close>

record ess_alert_state =
  actions_faults :: "64 word"
  actions_alarms :: "64 word"
  latched_faults :: "(string \<times> 64 word) list"
  saved_alarms :: "(string \<times> 64 word) list"
  ess_is_running :: bool
  ess_is_available :: bool
  ess_is_controllable :: bool

definition asset_num_active_faults :: "ess_alert_state \<Rightarrow> int" where
  "asset_num_active_faults e = int (length (filter (\<lambda>nv. snd nv > 0) (latched_faults e))) +
     (if actions_faults e \<noteq> 0 then 1 else 0)"

definition asset_num_active_alarms :: "ess_alert_state \<Rightarrow> int" where
  "asset_num_active_alarms e = int (length (filter (\<lambda>nv. snd nv > 0) (saved_alarms e))) +
     (if actions_alarms e \<noteq> 0 then 1 else 0)"

definition ess_alert_one :: "alert_type \<Rightarrow> string \<Rightarrow> ess_alert_state \<Rightarrow> int \<times> ess_alert_state" where
  "ess_alert_one ty frag e =
     (if frag = ''bypass'' then (0, e)
      else if ty = FAULT_ALERT \<and> frag = ''test_fault'' then (1, e\<lparr>actions_faults := actions_faults e OR 1\<rparr>)
      else if ty = ALARM_ALERT \<and> frag = ''test_alarm'' then (1, e\<lparr>actions_alarms := actions_alarms e OR 1\<rparr>)
      else (if frag = ''is_faulted'' then (if asset_num_active_faults e > 0 then 1 else 0)
            else if frag = ''is_alarmed'' then (if asset_num_active_alarms e > 0 then 1 else 0)
            else if frag = ''is_not_running'' then (if ess_is_running e then 0 else 1)
            else if frag = ''is_not_available'' then (if ess_is_available e then 0 else 1)
            else if frag = ''is_not_controllable'' then (if ess_is_controllable e then 0 else 1)
            else 0, e))"

text \<open>A name that is not a single fragment returns at once: the count of the path is not stored.\<close>

fun ess_alert_loop ::
    "alert_type \<Rightarrow> (string \<times> 64 word) list \<Rightarrow> int \<Rightarrow> ess_alert_state \<Rightarrow> int option \<times> ess_alert_state" where
  "ess_alert_loop ty [] n e = (Some n, e)"
| "ess_alert_loop ty (nm # nms) n e = (case split (fst nm) ''/'' of
       Some [frag] \<Rightarrow> let (k, e') = ess_alert_one ty frag e in ess_alert_loop ty nms (n + k) e'
     | _ \<Rightarrow> (None, e))"

definition handle_ess_check_alerts :: "alert_type \<Rightarrow> path \<Rightarrow> ess_alert_state \<Rightarrow> path \<times> ess_alert_state" where
  "handle_ess_check_alerts ty p e =
     (let (n, e) = ess_alert_loop ty (alert_list ty p) 0 e
      in (case n of None \<Rightarrow> p | Some n \<Rightarrow> store_count ty n p, e))"

definition check_alerts ::
    "asset_view \<Rightarrow> alert_type \<Rightarrow> Sequence_Type \<Rightarrow> path \<Rightarrow> site_alerts \<Rightarrow> ess_alert_state
     \<Rightarrow> (bool \<times> path \<times> site_alerts \<times> ess_alert_state) option" where
  "check_alerts v ty sty p sa e =
     (if ty \<noteq> ALARM_ALERT \<and> ty \<noteq> FAULT_ALERT then Some (False, p, sa, e)
      else case sty of
        Site \<Rightarrow> do {
          (p, sa) \<leftarrow> handle_site_check_alerts v ty p sa;
          Some (if ty = FAULT_ALERT then get_faults sa else get_alarms sa, p, sa, e) }
      | Asset_ESS \<Rightarrow>
          (let (p, e) = handle_ess_check_alerts ty p e
           in Some (if ty = FAULT_ALERT then asset_num_active_faults e \<noteq> 0 else asset_num_active_alarms e \<noteq> 0, p, sa, e))
      | _ \<Rightarrow> Some (False, p, sa, e))"

text \<open>\<^verbatim>\<open>Sequence::check_faults\<close> and \<^verbatim>\<open>check_alarms\<close>: the check of the current path.\<close>

definition check_path_alerts ::
    "asset_view \<Rightarrow> alert_type \<Rightarrow> sequence \<Rightarrow> site_alerts \<Rightarrow> ess_alert_state
     \<Rightarrow> (bool \<times> sequence \<times> site_alerts \<times> ess_alert_state) option" where
  "check_path_alerts v ty s sa e = do {
     p \<leftarrow> cur_path s;
     (b, p, sa, e) \<leftarrow> check_alerts v ty (sequence_type s) p sa e;
     Some (b, s\<lparr>paths := (paths s)[current_path_index s := p]\<rparr>, sa, e) }"

section \<open>What a check keeps\<close>

definition regs_ok :: "site_alerts \<Rightarrow> bool" where
  "regs_ok sa \<longleftrightarrow> length (active_fault_array sa) = 64 \<and> length (active_alarm_array sa) = 64"

definition regs_of :: "alert_type \<Rightarrow> site_alerts \<Rightarrow> bool list" where
  "regs_of ty sa = (if ty = FAULT_ALERT then active_fault_array sa else active_alarm_array sa)"

definition latches :: "site_alerts \<Rightarrow> site_alerts \<Rightarrow> bool" where
  "latches sa sa' \<longleftrightarrow> list_all2 (\<longrightarrow>) (active_fault_array sa) (active_fault_array sa') \<and>
     list_all2 (\<longrightarrow>) (active_alarm_array sa) (active_alarm_array sa')"

lemma latches_refl [simp]: "latches sa sa"
  by (simp add: latches_def list_all2_refl)

lemma latches_trans: "latches a b \<Longrightarrow> latches b c \<Longrightarrow> latches a c"
  unfolding latches_def list_all2_conv_all_nth by auto

lemma latches_regs_ok: "latches sa sa' \<Longrightarrow> regs_ok sa' \<longleftrightarrow> regs_ok sa"
  by (auto simp: latches_def regs_ok_def dest: list_all2_lengthD)

lemma latches_set: "latches sa sa' \<Longrightarrow> True \<in> set (regs_of ty sa) \<Longrightarrow> True \<in> set (regs_of ty sa')"
  by (auto simp: latches_def regs_of_def in_set_conv_nth list_all2_conv_all_nth)

lemma get_faults_iff: "regs_ok sa \<Longrightarrow> get_faults sa \<longleftrightarrow> True \<in> set (regs_of FAULT_ALERT sa)"
  by (auto simp: get_faults_def regs_ok_def regs_of_def)

lemma get_alarms_iff: "regs_ok sa \<Longrightarrow> get_alarms sa \<longleftrightarrow> True \<in> set (regs_of ALARM_ALERT sa)"
  by (auto simp: get_alarms_def regs_ok_def regs_of_def)

lemma list_all2_imp_update: "list_all2 (\<longrightarrow>) xs (xs[i := True])"
  by (auto simp: list_all2_conv_all_nth) (metis nth_list_update_eq nth_list_update_neq)

lemma get_alert_regs: "get_alert ty i sa = reg_read i (regs_of ty sa)"
  by (simp add: get_alert_def regs_of_def get_active_faults_def get_active_alarms_def)

text \<open>Raising a register sets it and touches no other register.\<close>

lemma set_alert_props:
  assumes "set_alert ty i sa = Some sa'"
  shows "latches sa sa' \<and> regs_of ty sa' = (regs_of ty sa)[nat i := True] \<and> 0 \<le> i \<and> nat i < length (regs_of ty sa) \<and>
    (ty = FAULT_ALERT \<longrightarrow> active_alarm_array sa' = active_alarm_array sa) \<and> (ty \<noteq> FAULT_ALERT \<longrightarrow> active_fault_array sa' = active_fault_array sa)"
  using assms
  by (auto simp: set_alert_def set_fault_def set_alarms_def reg_write_def emit_def latches_def regs_of_def
      list_all2_refl list_all2_imp_update split: if_splits)

lemma regs_emit [simp]: "regs_of ty (emit m t sa) = regs_of ty sa" "active_alarm_array (emit m t sa) = active_alarm_array sa"
    "active_fault_array (emit m t sa) = active_fault_array sa"
    "latches (emit m t sa) sa' = latches sa sa'"
  by (simp_all add: emit_def regs_of_def latches_def)

text \<open>
  What one entry does: nothing, or it counts one and leaves a raised register behind, which it
  raised only if it was not raised already.
\<close>

definition alert_effect :: "alert_type \<Rightarrow> site_alerts \<Rightarrow> int \<Rightarrow> site_alerts \<Rightarrow> bool" where
  "alert_effect ty sa k sa' \<longleftrightarrow> latches sa sa' \<and> (ty = FAULT_ALERT \<longrightarrow> active_alarm_array sa' = active_alarm_array sa) \<and> (ty \<noteq> FAULT_ALERT \<longrightarrow> active_fault_array sa' = active_fault_array sa) \<and>
     (k = 0 \<and> sa' = sa \<or> k = 1 \<and> True \<in> set (regs_of ty sa'))"

lemma reg_read_True: "reg_read i rs = Some True \<Longrightarrow> True \<in> set rs"
  by (auto simp: reg_read_def in_set_conv_nth split: if_splits)

lemma set_alert_effect: "set_alert ty i sa = Some sa' \<Longrightarrow> alert_effect ty sa 1 sa'"
  using set_alert_props [of ty i sa sa'] by (auto simp: alert_effect_def set_update_memI)

lemma alert_effect_emit: "alert_effect ty (emit m t sa) 1 sa' \<Longrightarrow> alert_effect ty sa 1 sa'"
  by (simp add: alert_effect_def)

lemma raise_alert_effect:
  assumes "raise_alert ty i msg holds sa = Some (k, sa', leave)"
  shows "alert_effect ty sa k sa' \<and> \<not> leave \<and> (k = 1 \<longleftrightarrow> holds) \<and> (holds \<longrightarrow> get_alert ty i sa' = Some True)"
proof (cases holds)
  case True
  with assms obtain a where a: "get_alert ty i sa = Some a" by (auto simp: raise_alert_def split: Option.bind_splits)
  show ?thesis
  proof (cases a)
    case True
    with a assms \<open>holds\<close> reg_read_True [of i "regs_of ty sa"] show ?thesis
      by (auto simp: raise_alert_def alert_effect_def get_alert_regs)
  next
    case False
    with a assms \<open>holds\<close> have s: "set_alert ty i (emit (medium_msg msg) ty sa) = Some sa'" "k = 1" "\<not> leave"
      by (auto simp: raise_alert_def split: Option.bind_splits)
    have "get_alert ty i sa' = Some True" using set_alert_props [OF s(1)] by (simp add: get_alert_regs reg_read_def)
    with s \<open>holds\<close> alert_effect_emit [OF set_alert_effect [OF s(1)]] show ?thesis by simp
  qed
qed (use assms in \<open>auto simp: raise_alert_def alert_effect_def\<close>)

lemma check_asset_alert_fragments: "check_asset_alert v nm \<Longrightarrow> split (fst nm) ''/'' = Some (f0 # rest) \<Longrightarrow> length rest = 3"
  by (auto simp: check_asset_alert_def split: list.splits)

lemma alert_effect_none [simp]: "alert_effect ty sa 0 sa' \<longleftrightarrow> sa' = sa"
  by (auto simp: alert_effect_def)

lemma alert_effect_active: "get_alert ty i sa = Some True \<Longrightarrow> alert_effect ty sa 1 sa"
  using reg_read_True [of i "regs_of ty sa"] by (simp add: alert_effect_def get_alert_regs)

lemma site_alert_one_effect:
  assumes "site_alert_one v ty nm sa = Some (k, sa', leave)"
  shows "alert_effect ty sa k sa' \<and> \<not> leave"
proof -
  from assms obtain f0 rest where f: "split (fst nm) ''/'' = Some (f0 # rest)"
    by (auto simp: site_alert_one_def split: option.splits list.splits)
  have asset: "alert_effect ty sa k sa' \<and> \<not> leave"
    if "check_asset_alert v nm" "(do { active \<leftarrow> get_alert ty 1 sa; if active then Some (1, sa, False)
        else if length rest \<noteq> 3 then Some (1, sa, True) else do { sa \<leftarrow> set_alert ty 1 sa; Some (1, sa, False) } }) =
        Some (k, sa', leave)"
    using that check_asset_alert_fragments [OF that(1) f]
    by (auto intro: alert_effect_active set_alert_effect split: Option.bind_splits if_splits)
  have raised: "alert_effect ty sa k sa' \<and> \<not> leave" if "raise_alert ty i msg holds sa = Some (k, sa', leave)" for i msg holds
    using raise_alert_effect [OF that] by simp
  show ?thesis using assms f raised asset
    by (auto simp: site_alert_one_def simp del: bind_eq_Some_conv split: if_splits option.splits prod.splits Option.bind_splits)
qed

lemma site_alert_loop_effect:
  "site_alert_loop v ty nms n sa = Some (m, sa') \<Longrightarrow>
     latches sa sa' \<and> n \<le> m \<and> (ty = FAULT_ALERT \<longrightarrow> active_alarm_array sa' = active_alarm_array sa) \<and> (ty \<noteq> FAULT_ALERT \<longrightarrow> active_fault_array sa' = active_fault_array sa) \<and> (m = n \<and> sa' = sa \<or> n < m \<and> True \<in> set (regs_of ty sa'))"
proof (induction nms arbitrary: n sa)
  case (Cons nm nms)
  from Cons.prems obtain k sa1 leave where 1: "site_alert_one v ty nm sa = Some (k, sa1, leave)"
    by (auto split: option.splits)
  from site_alert_one_effect [OF this] have e: "alert_effect ty sa k sa1" "\<not> leave" by simp_all
  with Cons.prems 1 have "site_alert_loop v ty nms (n + k) sa1 = Some (m, sa')" by simp
  from Cons.IH [OF this] e(1) latches_trans [of sa sa1 sa'] latches_set [of sa1 sa' ty] show ?case
    by (auto simp: alert_effect_def)
qed simp

text \<open>A second check finds every register it needs already raised.\<close>

lemma get_alert_latched: "get_alert ty i sa = Some True \<Longrightarrow> latches sa sa' \<Longrightarrow> get_alert ty i sa' = Some True"
  by (auto simp: get_alert_regs reg_read_def regs_of_def latches_def list_all2_conv_all_nth split: if_splits)

lemma raise_alert_again:
  assumes "raise_alert ty i msg holds sa = Some (k, sa1, leave)" "latches sa1 sa2"
  shows "raise_alert ty i msg holds sa2 = Some (k, sa2, False)"
proof (cases holds)
  case True
  with raise_alert_effect [OF assms(1)] get_alert_latched [OF _ assms(2), of ty i] have "get_alert ty i sa2 = Some True" "k = 1" by auto
  with True show ?thesis by (simp add: raise_alert_def)
qed (use assms in \<open>simp add: raise_alert_def\<close>)

lemma set_alert_again: "set_alert ty i sa = Some sa1 \<Longrightarrow> latches sa1 sa2 \<Longrightarrow> get_alert ty i sa2 = Some True"
  using set_alert_props [of ty i sa sa1] get_alert_latched [of ty i sa1 sa2] by (simp add: get_alert_regs reg_read_def)

text \<open>The same entry evaluated before (\<open>r\<close>) and after (\<open>r2\<close>) the registers were raised.\<close>

definition stable :: "site_alerts \<Rightarrow> (int \<times> site_alerts \<times> bool) option \<Rightarrow> (int \<times> site_alerts \<times> bool) option \<Rightarrow> bool" where
  "stable sa2 r r2 \<longleftrightarrow> (\<forall>k sa1 leave. r = Some (k, sa1, leave) \<longrightarrow> latches sa1 sa2 \<longrightarrow> r2 = Some (k, sa2, False))"

lemma stable_skip: "stable sa2 (Some (0, sa, False)) (Some (0, sa2, False))"
  by (simp add: stable_def)

lemma stable_raise: "stable sa2 (raise_alert ty i m h sa) (raise_alert ty i m h sa2)"
  by (auto simp: stable_def intro: raise_alert_again)

lemma stable_None: "stable sa2 None r2"
  by (simp add: stable_def)

lemma stable_if: "(c \<Longrightarrow> stable sa2 a a') \<Longrightarrow> (\<not> c \<Longrightarrow> stable sa2 b b') \<Longrightarrow> stable sa2 (if c then a else b) (if c then a' else b')"
  by simp

lemma stable_option: "stable sa2 a a' \<Longrightarrow> (\<And>x. opt = Some x \<Longrightarrow> stable sa2 (f x) (g x)) \<Longrightarrow>
    stable sa2 (case opt of None \<Rightarrow> a | Some x \<Rightarrow> f x) (case opt of None \<Rightarrow> a' | Some x \<Rightarrow> g x)"
  by (simp split: option.split)

lemma stable_list: "stable sa2 a a' \<Longrightarrow> (\<And>x xs. l = x # xs \<Longrightarrow> stable sa2 (f x xs) (g x xs)) \<Longrightarrow>
    stable sa2 (case l of [] \<Rightarrow> a | x # xs \<Rightarrow> f x xs) (case l of [] \<Rightarrow> a' | x # xs \<Rightarrow> g x xs)"
  by (simp split: list.split)

lemma stable_prod: "(\<And>x y. stable sa2 (f x y) (g x y)) \<Longrightarrow> stable sa2 (case q of (x, y) \<Rightarrow> f x y) (case q of (x, y) \<Rightarrow> g x y)"
  by (simp split: prod.split)

lemma stable_bind: "(\<And>x. stable sa2 (f x) (g x)) \<Longrightarrow> stable sa2 (opt \<bind> f) (opt \<bind> g)"
  by (cases opt) (simp_all add: stable_def)

lemma stable_asset:
  assumes "n = (3 :: nat)"
  shows "stable sa2
    (do { active \<leftarrow> get_alert ty 1 sa; if active then Some (1, sa, False)
        else if n \<noteq> 3 then Some (1, sa, True) else do { sa \<leftarrow> set_alert ty 1 sa; Some (1, sa, False) } })
    (do { active \<leftarrow> get_alert ty 1 sa2; if active then Some (1, sa2, False)
        else if n \<noteq> 3 then Some (1, sa2, True) else do { sa \<leftarrow> set_alert ty 1 sa2; Some (1, sa, False) } })"
proof (cases "get_alert ty 1 sa")
  case (Some active)
  show ?thesis
  proof (cases active)
    case True
    with Some assms get_alert_latched [of ty 1 sa sa2] show ?thesis by (simp add: stable_def)
  next
    case False
    with Some assms set_alert_again [of ty 1 sa _ sa2] show ?thesis
      by (cases "set_alert ty 1 sa") (simp_all add: stable_def)
  qed
qed (simp add: stable_None)

lemmas stable_intros = stable_None stable_skip stable_raise stable_if stable_option stable_list stable_prod stable_bind

lemma site_alert_one_again:
  assumes "site_alert_one v FAULT_ALERT nm sa = Some (k, sa1, leave)" "latches sa1 sa2"
    "active_alarm_array sa2 = active_alarm_array sa"
  shows "site_alert_one v FAULT_ALERT nm sa2 = Some (k, sa2, False)"
proof -
  have barked: "get_active_alarms 4 sa2 = get_active_alarms 4 sa" using assms(3) by (simp add: get_active_alarms_def)
  have "stable sa2 (site_alert_one v FAULT_ALERT nm sa) (site_alert_one v FAULT_ALERT nm sa2)"
    unfolding site_alert_one_def barked Let_def
    by (intro stable_intros stable_asset) (auto dest: check_asset_alert_fragments)
  with assms(1,2) show ?thesis by (simp add: stable_def)
qed

lemma site_alert_loop_again:
  assumes "site_alert_loop v FAULT_ALERT nms n sa = Some (m, sa1)" "latches sa1 sa2" "active_alarm_array sa2 = active_alarm_array sa"
  shows "site_alert_loop v FAULT_ALERT nms n sa2 = Some (m, sa2)"
  using assms
proof (induction nms arbitrary: n sa)
  case (Cons nm nms)
  from Cons.prems obtain k sa0 leave where 1: "site_alert_one v FAULT_ALERT nm sa = Some (k, sa0, leave)"
    by (auto split: option.splits)
  from site_alert_one_effect [OF this] have e: "alert_effect FAULT_ALERT sa k sa0" "\<not> leave" by simp_all
  with Cons.prems 1 have l: "site_alert_loop v FAULT_ALERT nms (n + k) sa0 = Some (m, sa1)" by simp
  have a: "active_alarm_array sa0 = active_alarm_array sa" using e(1) by (simp add: alert_effect_def)
  have "latches sa0 sa2" using site_alert_loop_effect [OF l] latches_trans Cons.prems(2) by blast
  from site_alert_one_again [OF 1 this Cons.prems(3)] Cons.IH [OF l Cons.prems(2)] a Cons.prems(3) show ?case by simp
qed simp

section \<open>Properties\<close>

text \<open>One check of a path of the site: what it counts, stores and answers.\<close>

lemma path_check_effect:
  assumes "check_alerts v ty Site p sa e = Some (b, p', sa', e')" "ty = FAULT_ALERT \<or> ty = ALARM_ALERT"
  shows "\<exists>n. site_alert_loop v ty (alert_list ty p) 0 sa = Some (n, sa') \<and> p' = store_count ty n p \<and> e' = e \<and>
    b = (if ty = FAULT_ALERT then get_faults sa' else get_alarms sa') \<and> latches sa sa' \<and> 0 \<le> n \<and>
    (ty = ALARM_ALERT \<longrightarrow> active_fault_array sa' = active_fault_array sa)"
proof -
  from assms obtain n where "site_alert_loop v ty (alert_list ty p) 0 sa = Some (n, sa')" "p' = store_count ty n p" "e' = e"
    "b = (if ty = FAULT_ALERT then get_faults sa' else get_alarms sa')"
    by (auto simp: check_alerts_def handle_site_check_alerts_def split: Option.bind_splits)
  with site_alert_loop_effect [OF this(1)] show ?thesis by (intro exI [of _ n]) auto
qed

lemma path_fault_check:
  assumes "regs_ok sa" "check_alerts v FAULT_ALERT Site p sa e = Some (b, p', sa', e')"
  shows "latches sa sa' \<and> regs_ok sa' \<and> 0 \<le> num_active_faults p' \<and> b = get_faults sa' \<and>
    (b \<longleftrightarrow> get_faults sa \<or> 0 < num_active_faults p')"
proof -
  from path_check_effect [OF assms(2)] obtain n where l: "site_alert_loop v FAULT_ALERT (alert_list FAULT_ALERT p) 0 sa = Some (n, sa')"
    and p: "num_active_faults p' = n" "b = get_faults sa'" by (auto simp: store_count_def)
  from site_alert_loop_effect [OF l] have e: "latches sa sa'" "0 \<le> n"
    "n = 0 \<and> sa' = sa \<or> 0 < n \<and> True \<in> set (regs_of FAULT_ALERT sa')" by auto
  from e(1) assms(1) have ok: "regs_ok sa'" using latches_regs_ok by blast
  with e assms(1) p latches_set [OF e(1), of FAULT_ALERT] show ?thesis by (auto simp: get_faults_iff)
qed

text \<open>C16. The fault check of a path reports a fault exactly when one was latched before or the check
  counts one now; it never lowers a register, and the count it stores is not negative.  (The site
  enters its shutdown state on this answer.)\<close>
theorem path_faults_reported:
  assumes "regs_ok sa" "check_alerts v FAULT_ALERT Site p sa e = Some (b, p', sa', e')"
  shows "latches sa sa' \<and> regs_ok sa' \<and> 0 \<le> num_active_faults p' \<and> (b \<longleftrightarrow> get_faults sa \<or> 0 < num_active_faults p')"
  using path_fault_check [OF assms] by blast

text \<open>Checking the faults of a path a second time with the same readings changes nothing: the same
  answer and count, no register written and no event emitted again.\<close>
theorem path_fault_check_idempotent:
  assumes "check_alerts v FAULT_ALERT Site p sa e = Some (b, p', sa', e')"
  shows "check_alerts v FAULT_ALERT Site p' sa' e' = Some (b, p', sa', e')"
proof -
  from assms obtain n where l: "site_alert_loop v FAULT_ALERT (path_faults p) 0 sa = Some (n, sa')"
    and p: "p' = p\<lparr>num_active_faults := n\<rparr>" "b = get_faults sa'" "e' = e"
    by (auto simp: check_alerts_def handle_site_check_alerts_def alert_list_def store_count_def split: Option.bind_splits)
  have "active_alarm_array sa' = active_alarm_array sa" using site_alert_loop_effect [OF l] by simp
  from site_alert_loop_again [OF l latches_refl this] p show ?thesis
    by (simp add: check_alerts_def handle_site_check_alerts_def alert_list_def store_count_def)
qed

lemma reserved_out_of_range_condition:
  "reserved_condition v ''reserved_bool_49'' m = Some (64, m \<noteq> 0, '''')"
proof -
  have "split ''reserved_bool_49'' ''_'' = Some [''reserved'', ''bool'', ''49'']"
    using split_join [of "[''reserved'', ''bool'', ''49'']" "CHR ''_''"] split_loop_sep [of "CHR ''_''" "''reserved_bool_49''" "[]"]
    by (simp add: join_slash_def split_def)
  then show ?thesis by (simp add: reserved_condition_def stoi_def is_space_def is_digit_def read_digits_def Let_def)
qed

text \<open>The number of a reserved variable is not checked: a fault or alarm entry that names
  \<^verbatim>\<open>reserved_bool_49\<close>, which does not exist, and expects it to be true is compared with a default
  value and then reads the register with index 64, outside the arrays of the site.\<close>
theorem reserved_bool_out_of_range:
  assumes "regs_ok sa" "m \<noteq> 0"
  shows "site_alert_one v ty (''/reserved_bool_49'', m) sa = None"
proof -
  have "split ''/reserved_bool_49'' ''/'' = Some [''reserved_bool_49'']"
    using split_join [of "[''reserved_bool_49'']" "CHR ''/''"] by (simp add: join_slash_def)
  moreover have "get_alert ty 64 sa = None" using assms(1) by (simp add: get_alert_regs reg_read_def regs_of_def regs_ok_def)
  ultimately show ?thesis
    using assms(2) by (simp add: site_alert_one_def reserved_out_of_range_condition raise_alert_def)
qed

lemma bit_fold_or:
  fixes m :: "64 word"
  assumes "\<forall>i \<in> set ids. i < 64"
  shows "bit (fold (\<lambda>i m. m OR push_bit i 1) ids m) j \<longleftrightarrow> bit m j \<or> j \<in> set ids"
  using assms by (induction ids arbitrary: m) (auto simp: bit_or_iff bit_push_bit_iff bit_exp_iff)

text \<open>The reported bit field and count agree with the registers: bit \<open>i\<close> is set exactly for the
  configured alerts whose register is raised, and the count is their number.\<close>
theorem active_alerts_reported:
  assumes "n \<le> length rs" "n \<le> 64"
  shows "\<exists>active_opts' vo'. build_active n opts rs (active_opts, vo) = Some (active_opts', vo') \<and>
    (\<forall>i. bit (value_bit_field vo') i \<longleftrightarrow> i < n \<and> rs ! i) \<and> value_int vo' = int (card {i. i < n \<and> rs ! i})"
proof -
  have "card {i. i < n \<and> rs ! i} = length (filter (\<lambda>i. rs ! i) [0..<n])"
    by (subst distinct_card [symmetric]) (auto intro!: arg_cong [where f = card])
  with assms show ?thesis by (auto simp: build_active_def set_int_def bit_fold_or Let_def simp del: push_bit_of_1)
qed

section \<open>A concrete site\<close>

definition quiet_site :: site_alerts where
  "quiet_site = \<lparr>active_fault_array = replicate 64 False, active_alarm_array = replicate 64 False,
     fault_status_flag = False, alarm_status_flag = False, fault_options = (\<lambda>_. None), alarm_options = (\<lambda>_. None), events = []\<rparr>"

definition idle_view :: asset_view where
  "idle_view = \<lparr>am_num_active_faults = (\<lambda>_. 0), am_num_active_alarms = (\<lambda>_. 0), get_num_running = (\<lambda>_. 0),
     get_num_avail = (\<lambda>_. 0), get_num_controllable = (\<lambda>_. 0), check_asset_for_alert = (\<lambda>_ _ _ _. False),
     validate_feeder_id = (\<lambda>_. False), get_feeder_state = (\<lambda>_. False), get_reserved_bool = (\<lambda>_. (False, ''''))\<rparr>"

definition idle_ess :: ess_alert_state where
  "idle_ess = \<lparr>actions_faults = 0, actions_alarms = 0, latched_faults = [], saved_alarms = [], ess_is_running = False,
     ess_is_available = True, ess_is_controllable = True\<rparr>"

definition faulted_path :: path where
  "faulted_path = \<lparr>path_name = ''main'', return_id = '''', return_state = Ready, timeout = -1, steps = [],
     path_faults = [(''/assets/get_num_ess_running'', 0)], num_active_faults = 0, path_alarms = [], num_active_alarms = 0\<rparr>"

lemma idle_fault_check:
  "\<exists>p' sa'. check_alerts idle_view FAULT_ALERT Site faulted_path quiet_site idle_ess = Some (True, p', sa', idle_ess) \<and>
     num_active_faults p' = 1"
proof -
  have "split ''/assets/get_num_ess_running'' ''/'' = Some [''assets'', ''get_num_ess_running'']"
    using split_join [of "[''assets'', ''get_num_ess_running'']" "CHR ''/''"] by (simp add: join_slash_def)
  moreover have "True \<in> set ((replicate 64 False)[1 := True])" by (rule set_update_memI) simp
  then have "\<exists>b \<in> set ((replicate 64 False)[Suc 0 := True]). b" by auto
  ultimately show ?thesis
    by (simp add: check_alerts_def handle_site_check_alerts_def alert_list_def store_count_def faulted_path_def
        site_alert_one_def asset_condition_def too_few_def mask_to_int_def idle_view_def raise_alert_def get_alert_regs
        regs_of_def quiet_site_def reg_read_def set_alert_def set_fault_def reg_write_def emit_def get_faults_def nth_opt_def)
qed

theorem path_faults_reported_witness:
  "\<exists>p' sa'. check_alerts idle_view FAULT_ALERT Site faulted_path quiet_site idle_ess = Some (True, p', sa', idle_ess) \<and>
     regs_ok sa' \<and> 0 < num_active_faults p'"
proof -
  obtain p' sa' where c: "check_alerts idle_view FAULT_ALERT Site faulted_path quiet_site idle_ess = Some (True, p', sa', idle_ess)"
    "num_active_faults p' = 1" using idle_fault_check by blast
  have "regs_ok quiet_site" by (simp add: regs_ok_def quiet_site_def)
  from path_faults_reported [OF this c(1)] c show ?thesis by auto
qed

theorem path_fault_check_idempotent_witness:
  "\<exists>p' sa'. check_alerts idle_view FAULT_ALERT Site faulted_path quiet_site idle_ess = Some (True, p', sa', idle_ess) \<and>
     check_alerts idle_view FAULT_ALERT Site p' sa' idle_ess = Some (True, p', sa', idle_ess)"
proof -
  obtain p' sa' where c: "check_alerts idle_view FAULT_ALERT Site faulted_path quiet_site idle_ess = Some (True, p', sa', idle_ess)"
    using idle_fault_check by blast
  from c path_fault_check_idempotent [OF c] show ?thesis by blast
qed

theorem reserved_bool_out_of_range_witness: "site_alert_one idle_view FAULT_ALERT (''/reserved_bool_49'', 1) quiet_site = None"
  by (rule reserved_bool_out_of_range) (simp_all add: regs_ok_def quiet_site_def)

theorem active_alerts_reported_witness:
  "\<exists>active_opts' vo'. build_active 2 (\<lambda>_. None :: string option) [True, False] (\<lambda>_. None, Value_Object 0) = Some (active_opts', vo') \<and>
    (\<forall>i. bit (value_bit_field vo') i \<longleftrightarrow> i < 2 \<and> [True, False] ! i) \<and> value_int vo' = int (card {i. i < 2 \<and> [True, False] ! i})"
  by (rule active_alerts_reported) simp_all

end
