(* ===== verification/Actions.thy ===== *)
theory Actions
  imports Path_Alerts
begin

text \<open>
  \<^verbatim>\<open>Action.cpp\<close> and the parts of \<^verbatim>\<open>Asset.cpp\<close> that drive it: automated maintenance actions of an
  asset.  An action is a sequence with a status; when it ends it may hand over to a shutdown
  action, and it keeps the status \<^verbatim>\<open>EXITING\<close> until that one has ended.

  The actions of an asset live in two vectors and \<^verbatim>\<open>quick_action_access\<close> points into them, so an
  action is addressed by a reference: the vector and the index.  The alert registers of the asset
  are part of the world its functions change, read and written through two functions of the
  environment.
\<close>

section \<open>Data\<close>

datatype ACTION_STATUS_STATE = INACTIVE | IN_PROGRESS | COMPLETED | FAILED | ABORTED | EXITING

record action =
  act_seq :: sequence
  status :: ACTION_STATUS_STATE
  status_swap :: ACTION_STATUS_STATE
  is_shutdown_sequence :: bool
  shutdown_sequence :: string

datatype act_ref = In_actions nat | In_shutdown nat

record asset_actions =
  actions :: "action list"
  shutdown_actions :: "action list"
  quick_action_access :: "act_ref option"
  action_status :: sequences_status
  current_sequence_name :: string
  inMaintenance :: bool

record 'w act_env =
  fn_env :: "'w seq_env"
  read_alerts :: "'w \<Rightarrow> ess_alert_state"
  write_alerts :: "ess_alert_state \<Rightarrow> 'w \<Rightarrow> 'w"

definition Action :: "ACTION_STATUS_STATE \<Rightarrow> action" where
  "Action uninitialised = \<lparr>act_seq = Sequence, status = INACTIVE, status_swap = uninitialised,
     is_shutdown_sequence = False, shutdown_sequence = ''''\<rparr>"

definition status_string :: "action \<Rightarrow> string" where
  "status_string a = (case status a of INACTIVE \<Rightarrow> ''Inactive'' | IN_PROGRESS \<Rightarrow> ''In Progress'' | COMPLETED \<Rightarrow> ''Completed''
     | FAILED \<Rightarrow> ''Failed'' | ABORTED \<Rightarrow> ''Aborted'' | EXITING \<Rightarrow> ''Exiting'')"

section \<open>References\<close>

fun get_action :: "act_ref \<Rightarrow> asset_actions \<Rightarrow> action option" where
  "get_action (In_actions i) A = nth_opt i (actions A)"
| "get_action (In_shutdown i) A = nth_opt i (shutdown_actions A)"

fun put_action :: "act_ref \<Rightarrow> action \<Rightarrow> asset_actions \<Rightarrow> asset_actions" where
  "put_action (In_actions i) a A = A\<lparr>actions := (actions A)[i := a]\<rparr>"
| "put_action (In_shutdown i) a A = A\<lparr>shutdown_actions := (shutdown_actions A)[i := a]\<rparr>"

section \<open>Operations of an action\<close>

text \<open>
  \<^verbatim>\<open>decouple_quick_action_access\<close> and \<^verbatim>\<open>couple_quick_action_access\<close> do nothing but log for an action
  of the site; \<^verbatim>\<open>get_actions\<close> and \<^verbatim>\<open>get_shutdown_actions\<close> give a null pointer there.
\<close>

definition is_asset_type :: "Sequence_Type \<Rightarrow> bool" where
  "is_asset_type ty \<longleftrightarrow> ty \<noteq> Site"

definition decouple_quick_action_access :: "action \<Rightarrow> asset_actions \<Rightarrow> asset_actions" where
  "decouple_quick_action_access a A =
     (if is_asset_type (sequence_type (act_seq a)) then A\<lparr>quick_action_access := None\<rparr> else A)"

definition couple_quick_action_access :: "act_ref \<Rightarrow> action \<Rightarrow> asset_actions \<Rightarrow> asset_actions" where
  "couple_quick_action_access r a A =
     (if is_asset_type (sequence_type (act_seq a)) then A\<lparr>quick_action_access := Some r\<rparr> else A)"

definition clear_action :: "act_ref \<Rightarrow> asset_actions \<Rightarrow> asset_actions option" where
  "clear_action r A = do {
     a \<leftarrow> get_action r A;
     let (ss, s) = reset_sequence (action_status A) (act_seq a);
     Some ((put_action r (a\<lparr>act_seq := s, status := INACTIVE\<rparr>) A)\<lparr>action_status := ss\<lparr>should_pub := True\<rparr>\<rparr>) }"

definition entered :: "sequence \<Rightarrow> sequence" where
  "entered s = s\<lparr>current_step_index := 0, check_current_step_index := 0, current_path_index := 0,
     check_current_path_index := 0, debounce_reset := True, step_reset := True, initial_entry_attempt := True,
     initial_exit_attempt := True, sequence_bypass := False\<rparr>"

definition enter_automation :: "act_ref \<Rightarrow> string \<Rightarrow> asset_actions \<Rightarrow> asset_actions option" where
  "enter_automation r action_id A = do {
     a \<leftarrow> get_action r A;
     Some ((put_action r (a\<lparr>act_seq := entered (act_seq a), status := IN_PROGRESS\<rparr>) A)
       \<lparr>current_sequence_name := action_id, action_status := (action_status A)\<lparr>step_change := True\<rparr>\<rparr>) }"

text \<open>The loop over the shutdown actions: every one with the name is entered, the last one is kept.\<close>

fun enter_shutdown :: "string \<Rightarrow> nat list \<Rightarrow> asset_actions \<Rightarrow> asset_actions option" where
  "enter_shutdown name [] A = Some A"
| "enter_shutdown name (i # is) A = do {
     a \<leftarrow> get_action (In_shutdown i) A;
     A \<leftarrow> (if sequence_name (act_seq a) = name then do {
              A \<leftarrow> enter_automation (In_shutdown i) name A;
              Some (couple_quick_action_access (In_shutdown i) a A) }
           else Some A);
     enter_shutdown name is A }"

definition swap_exiting :: "action \<Rightarrow> action" where
  "swap_exiting a = (if status a = EXITING then a\<lparr>status := status_swap a\<rparr> else a)"

definition exit_automation :: "act_ref \<Rightarrow> ACTION_STATUS_STATE \<Rightarrow> asset_actions \<Rightarrow> asset_actions option" where
  "exit_automation r set_status A = do {
     this \<leftarrow> get_action r A;
     let A = decouple_quick_action_access this (A\<lparr>action_status := (action_status A)\<lparr>should_pub := True\<rparr>\<rparr>);
     if shutdown_sequence this = '''' then
       (if is_shutdown_sequence this \<and> \<not> is_asset_type (sequence_type (act_seq this)) then None
        else do {
          let A = (if is_shutdown_sequence this then A\<lparr>actions := map swap_exiting (actions A)\<rparr> else A);
          this \<leftarrow> get_action r A;
          Some ((put_action r (this\<lparr>status := set_status\<rparr>) A)\<lparr>current_sequence_name := ''''\<rparr>) })
     else if \<not> is_asset_type (sequence_type (act_seq this)) then None
     else do {
       let A = put_action r (this\<lparr>status := EXITING, status_swap := set_status\<rparr>) A;
       enter_shutdown (shutdown_sequence this) [0..<length (shutdown_actions A)] A } }"

text \<open>The fault an action that timed out leaves in the register of its asset.\<close>

definition set_action_fault :: "'w act_env \<Rightarrow> Sequence_Type \<Rightarrow> 'w \<Rightarrow> 'w" where
  "set_action_fault env ty w =
     (if is_asset_type ty
      then let e = read_alerts env w in write_alerts env (e\<lparr>actions_faults := actions_faults e OR 2\<rparr>) w else w)"

definition action_call_sequence :: "'w act_env \<Rightarrow> act_ref \<Rightarrow> asset_actions \<Rightarrow> 'w \<Rightarrow> (asset_actions \<times> 'w) option" where
  "action_call_sequence env r A w = do {
     a \<leftarrow> get_action r A;
     let ss = action_status A;
     let s = act_seq a;
     (ss, s, w) \<leftarrow> (if step_reset s then reset_step (fn_env env) ss s w else Some (ss, s, w));
     (ss, w) \<leftarrow> check_path_step_change (fn_env env) ss s w;
     (ss, s, w) \<leftarrow> run_step (fn_env env) ss s w;
     let A = (put_action r (a\<lparr>act_seq := s\<rparr>) A)\<lparr>action_status := ss\<rparr>;
     p \<leftarrow> cur_path s;
     A \<leftarrow> (if current_step_index s \<ge> length (steps p) then exit_automation r COMPLETED A else Some A);
     a \<leftarrow> get_action r A;
     let s = act_seq a;
     p \<leftarrow> cur_path s;
     if timeout p \<noteq> -1 \<and> check_expired_time (ss_current_time (action_status A)) (exit_target_time (action_status A)) then do {
       st \<leftarrow> cur_step s;
       let w = emit_event (fn_env env) ''Asset'' (medium_msg (''Action step failed: '' @ step_name st)) FAULT_ALERT w;
       let (t, w) = clock_gettime (fn_env env) w;
       let A = A\<lparr>action_status := (action_status A)\<lparr>exit_target_time := add_seconds t (timeout p)\<rparr>\<rparr>;
       let w = set_action_fault env (sequence_type s) w;
       A \<leftarrow> exit_automation r FAILED A;
       Some (A, w) }
     else Some (A, w) }"

text \<open>One of the two alert checks on the sequence of an action.\<close>

definition action_check ::
    "asset_view \<Rightarrow> 'w act_env \<Rightarrow> alert_type \<Rightarrow> act_ref \<Rightarrow> asset_actions \<Rightarrow> site_alerts \<times> 'w
     \<Rightarrow> (bool \<times> asset_actions \<times> site_alerts \<times> 'w) option" where
  "action_check v env ty r A = (\<lambda>(sa, w). do {
     a \<leftarrow> get_action r A;
     (b, s, sa, e) \<leftarrow> check_path_alerts v ty (act_seq a) sa (read_alerts env w);
     Some (b, put_action r (a\<lparr>act_seq := s\<rparr>) A, sa, write_alerts env e w) })"

definition process_action ::
    "asset_view \<Rightarrow> 'w act_env \<Rightarrow> act_ref \<Rightarrow> asset_actions \<Rightarrow> site_alerts \<times> 'w \<Rightarrow> (asset_actions \<times> site_alerts \<times> 'w) option" where
  "process_action v env r A saw = do {
     a \<leftarrow> get_action r A;
     if is_shutdown_sequence a then do {
       (A, w) \<leftarrow> action_call_sequence env r A (snd saw);
       Some (A, fst saw, w) }
     else do {
       (faulted, A, saw) \<leftarrow> action_check v env FAULT_ALERT r A saw;
       (_, A, sa, w) \<leftarrow> action_check v env ALARM_ALERT r A saw;
       if faulted then do {
         A \<leftarrow> exit_automation r FAILED A;
         Some (A, sa, w) }
       else do {
         (A, w) \<leftarrow> action_call_sequence env r A w;
         Some (A, sa, w) } } }"

section \<open>The asset\<close>

text \<open>The last action of a vector with a name, as the loops without a break find it.\<close>

definition last_named :: "string \<Rightarrow> action list \<Rightarrow> nat option" where
  "last_named name as = (case filter (\<lambda>i. sequence_name (act_seq (as ! i)) = name) [0..<length as] of
     [] \<Rightarrow> None | is \<Rightarrow> Some (last is))"

definition find_quick_action :: "asset_actions \<Rightarrow> act_ref option" where
  "find_quick_action A = (case quick_action_access A of
       Some r \<Rightarrow> Some r
     | None \<Rightarrow> (case last_named (current_sequence_name A) (actions A) of
           Some i \<Rightarrow> Some (In_actions i)
         | None \<Rightarrow> map_option In_shutdown (last_named (current_sequence_name A) (shutdown_actions A))))"

text \<open>Out of maintenance mode the pointer is used without a check, hence \<open>None\<close> when it is null.\<close>

definition process_asset_actions ::
    "asset_view \<Rightarrow> 'w act_env \<Rightarrow> asset_actions \<Rightarrow> site_alerts \<times> 'w \<Rightarrow> (asset_actions \<times> site_alerts \<times> 'w) option" where
  "process_asset_actions v env A saw =
     (if current_sequence_name A = '''' then Some (A, saw)
      else let A = A\<lparr>quick_action_access := find_quick_action A\<rparr> in
        case quick_action_access A of
          Some r \<Rightarrow>
            if inMaintenance A then process_action v env r A saw
            else do {
              A \<leftarrow> clear_action r A;
              Some (A\<lparr>current_sequence_name := ''''\<rparr>, saw) }
        | None \<Rightarrow> if inMaintenance A then Some (A, saw) else None)"

definition first_named :: "string \<Rightarrow> action list \<Rightarrow> nat option" where
  "first_named name as = List.find (\<lambda>i. sequence_name (act_seq (as ! i)) = name) [0..<length as]"

text \<open>
  \<^verbatim>\<open>handle_actions_set\<close> on a message of six fragments whose fifth and sixth are the action and the
  command; the other messages return without a change.
\<close>

definition handle_actions_set :: "string \<Rightarrow> string \<Rightarrow> asset_actions \<Rightarrow> (bool \<times> asset_actions) option" where
  "handle_actions_set action_id desired_action A = (case first_named action_id (actions A) of
       None \<Rightarrow> Some (False, A)
     | Some i \<Rightarrow> do {
         let A = A\<lparr>action_status := (action_status A)\<lparr>should_pub := True\<rparr>\<rparr>;
         a \<leftarrow> get_action (In_actions i) A;
         A \<leftarrow> (if desired_action = ''start'' then
                 if current_sequence_name A \<noteq> '''' then Some A
                 else if inMaintenance A then enter_automation (In_actions i) action_id A
                 else Some A
               else if desired_action = ''clear'' then
                 if status a = IN_PROGRESS \<or> status a = EXITING then Some A else clear_action (In_actions i) A
               else if desired_action = ''stop'' then
                 if current_sequence_name A = action_id \<and> status a = IN_PROGRESS
                 then exit_automation (In_actions i) ABORTED A else Some A
               else Some A);
         Some (True, A) })"

section \<open>Handing over to a shutdown action\<close>

lemma enter_shutdown_append:
  "enter_shutdown name (is @ js) A = (enter_shutdown name is A \<bind> enter_shutdown name js)"
proof (induction "is" arbitrary: A)
  case (Cons i "is")
  then show ?case by (cases "get_action (In_shutdown i) A") (auto split: Option.bind_splits)
qed simp

lemma enter_shutdown_none:
  "\<forall>i \<in> set is. i < length (shutdown_actions A) \<and> sequence_name (act_seq (shutdown_actions A ! i)) \<noteq> name \<Longrightarrow>
     enter_shutdown name is A = Some A"
  by (induction "is") (auto simp: nth_opt_def)

definition named_once :: "string \<Rightarrow> nat \<Rightarrow> asset_actions \<Rightarrow> bool" where
  "named_once name j A \<longleftrightarrow> j < length (shutdown_actions A) \<and>
     (\<forall>i < length (shutdown_actions A). sequence_name (act_seq (shutdown_actions A ! i)) = name \<longleftrightarrow> i = j)"

definition enter_at :: "string \<Rightarrow> nat \<Rightarrow> asset_actions \<Rightarrow> asset_actions" where
  "enter_at name j A = A\<lparr>shutdown_actions := (shutdown_actions A)[j := (shutdown_actions A ! j)
       \<lparr>act_seq := entered (act_seq (shutdown_actions A ! j)), status := IN_PROGRESS\<rparr>],
     current_sequence_name := name, action_status := (action_status A)\<lparr>step_change := True\<rparr>,
     quick_action_access := Some (In_shutdown j)\<rparr>"

lemma enter_shutdown_unique:
  assumes "named_once name j A" "is_asset_type (sequence_type (act_seq (shutdown_actions A ! j)))"
  shows "enter_shutdown name [0..<length (shutdown_actions A)] A = Some (enter_at name j A)"
proof -
  let ?n = "length (shutdown_actions A)"
  have j: "j < ?n" and nm: "sequence_name (act_seq (shutdown_actions A ! i)) = name \<longleftrightarrow> i = j" if "i < ?n" for i
    using assms(1) that by (auto simp: named_once_def)
  have j: "j < ?n" using assms(1) by (simp add: named_once_def)
  have "[0..<?n] = [0..<j] @ [j..<?n]" using j upt_add_eq_append [of 0 j "?n - j"] by simp
  then have l: "[0..<?n] = [0..<j] @ j # [Suc j..<?n]" using j upt_conv_Cons [of j ?n] by simp
  have "enter_shutdown name [0..<j] A = Some A" using j nm by (intro enter_shutdown_none) auto
  moreover have "enter_shutdown name [Suc j..<?n] (enter_at name j A) = Some (enter_at name j A)"
    using j nm by (intro enter_shutdown_none) (auto simp: enter_at_def)
  ultimately show ?thesis unfolding l enter_shutdown_append using j nm [OF j] assms(2)
    by (simp add: nth_opt_def enter_automation_def couple_quick_action_access_def enter_at_def)
qed

lemma exit_hands_over:
  assumes "get_action (In_actions i) A = Some a" "shutdown_sequence a \<noteq> ''''" "is_asset_type (sequence_type (act_seq a))"
    and "named_once (shutdown_sequence a) j A" "is_asset_type (sequence_type (act_seq (shutdown_actions A ! j)))"
  shows "exit_automation (In_actions i) st A =
    Some (enter_at (shutdown_sequence a) j (A\<lparr>action_status := (action_status A)\<lparr>should_pub := True\<rparr>, quick_action_access := None,
      actions := (actions A)[i := a\<lparr>status := EXITING, status_swap := st\<rparr>]\<rparr>))"
  using assms enter_shutdown_unique [of "shutdown_sequence a" j "A\<lparr>action_status := (action_status A)\<lparr>should_pub := True\<rparr>,
      quick_action_access := None, actions := (actions A)[i := a\<lparr>status := EXITING, status_swap := st\<rparr>]\<rparr>"]
  by (auto simp: exit_automation_def decouple_quick_action_access_def named_once_def nth_opt_def Let_def)

section \<open>Properties\<close>

text \<open>C28. Ending an action that has a shutdown action: the action waits in \<^verbatim>\<open>EXITING\<close> while the shutdown
  action runs under the asset's name, and when that one ends the action gets the status it was ended
  with and the asset is free again.\<close>
theorem shutdown_action_restores_status:
  assumes "get_action (In_actions i) A = Some a" "shutdown_sequence a \<noteq> ''''" "is_asset_type (sequence_type (act_seq a))"
    and "named_once (shutdown_sequence a) j A" "shutdown_sequence (shutdown_actions A ! j) = ''''"
    and "is_shutdown_sequence (shutdown_actions A ! j)" "is_asset_type (sequence_type (act_seq (shutdown_actions A ! j)))"
  shows "\<exists>A1 A2. exit_automation (In_actions i) st A = Some A1 \<and>
    status (actions A1 ! i) = EXITING \<and> status (shutdown_actions A1 ! j) = IN_PROGRESS \<and>
    quick_action_access A1 = Some (In_shutdown j) \<and> current_sequence_name A1 = shutdown_sequence a \<and>
    exit_automation (In_shutdown j) st' A1 = Some A2 \<and> status (actions A2 ! i) = st \<and>
    status (shutdown_actions A2 ! j) = st' \<and> quick_action_access A2 = None \<and> current_sequence_name A2 = ''''"
proof -
  have i: "i < length (actions A)" and a: "actions A ! i = a" and j: "j < length (shutdown_actions A)"
    using assms(1,4) by (auto simp: named_once_def)
  show ?thesis unfolding exit_hands_over [OF assms(1-4,7)] using i a j assms(5-7)
    by (simp add: enter_at_def exit_automation_def nth_opt_def decouple_quick_action_access_def is_asset_type_def entered_def swap_exiting_def)
qed

text \<open>If the asset leaves maintenance mode while a shutdown action runs, only the shutdown action is
  cleared: the action that waits for it stays in \<^verbatim>\<open>EXITING\<close> although the asset is free, and a request to
  clear it is refused.\<close>
theorem maintenance_exit_strands_action:
  assumes "current_sequence_name A \<noteq> ''''" "quick_action_access A = Some (In_shutdown j)" "j < length (shutdown_actions A)"
    and "\<not> inMaintenance A" "i < length (actions A)" "status (actions A ! i) = EXITING"
    and "first_named (sequence_name (act_seq (actions A ! i))) (actions A) = Some i"
  shows "\<exists>A1 b A2. process_asset_actions v env A saw = Some (A1, saw) \<and> current_sequence_name A1 = '''' \<and>
    status (actions A1 ! i) = EXITING \<and>
    handle_actions_set (sequence_name (act_seq (actions A ! i))) ''clear'' A1 = Some (b, A2) \<and> status (actions A2 ! i) = EXITING"
  using assms by (auto simp: process_asset_actions_def find_quick_action_def clear_action_def nth_opt_def handle_actions_set_def
      split: prod.splits)

text \<open>If the shutdown action an action names does not exist, ending the action leaves the asset
  occupied by it: the action is \<^verbatim>\<open>EXITING\<close>, the asset keeps its name, and every later start request is
  ignored.\<close>
theorem missing_shutdown_action_blocks_asset:
  assumes "get_action (In_actions i) A = Some a" "shutdown_sequence a \<noteq> ''''" "is_asset_type (sequence_type (act_seq a))"
    and "\<forall>b \<in> set (shutdown_actions A). sequence_name (act_seq b) \<noteq> shutdown_sequence a" "current_sequence_name A \<noteq> ''''"
  shows "\<exists>A1. exit_automation (In_actions i) st A = Some A1 \<and> status (actions A1 ! i) = EXITING \<and>
    current_sequence_name A1 = current_sequence_name A \<and>
    (\<forall>action_id b A2. handle_actions_set action_id ''start'' A1 = Some (b, A2) \<longrightarrow> actions A2 = actions A1)"
proof -
  let ?A = "A\<lparr>action_status := (action_status A)\<lparr>should_pub := True\<rparr>, quick_action_access := None,
      actions := (actions A)[i := a\<lparr>status := EXITING, status_swap := st\<rparr>]\<rparr>"
  have "enter_shutdown (shutdown_sequence a) [0..<length (shutdown_actions ?A)] ?A = Some ?A"
    using assms(4) by (intro enter_shutdown_none) simp
  with assms(1-3) have "exit_automation (In_actions i) st A = Some ?A"
    by (auto simp: exit_automation_def decouple_quick_action_access_def nth_opt_def Let_def)
  moreover have "actions A2 = actions A1" if "handle_actions_set action_id ''start'' A1 = Some (b, A2)" "current_sequence_name A1 \<noteq> ''''"
    for action_id b A1 A2
    using that by (auto simp: handle_actions_set_def split: option.splits Option.bind_splits)
  ultimately show ?thesis using assms(1,5) by auto
qed

section \<open>A concrete asset\<close>

definition demo_action :: "string \<Rightarrow> string \<Rightarrow> bool \<Rightarrow> ACTION_STATUS_STATE \<Rightarrow> action" where
  "demo_action name shutdown is_shut st = (Action INACTIVE)\<lparr>act_seq := Sequence\<lparr>sequence_name := name, sequence_type := Asset_ESS\<rparr>,
     status := st, is_shutdown_sequence := is_shut, shutdown_sequence := shutdown\<rparr>"

definition demo_asset :: "ACTION_STATUS_STATE \<Rightarrow> string \<Rightarrow> act_ref option \<Rightarrow> bool \<Rightarrow> asset_actions" where
  "demo_asset st name r maint = \<lparr>actions = [demo_action ''calibrate'' ''restore'' False st],
     shutdown_actions = [demo_action ''restore'' '''' True INACTIVE], quick_action_access = r,
     action_status = Sequences_Status (mk_ts 0 0) (mk_ts 0 0), current_sequence_name = name, inMaintenance = maint\<rparr>"

definition demo_env :: "int act_env" where
  "demo_env = \<lparr>fn_env = steady_env True, read_alerts = (\<lambda>_. idle_ess), write_alerts = (\<lambda>_ w. w)\<rparr>"

lemmas demo_action_defs = demo_action_def demo_asset_def Action_def Sequence_def

theorem shutdown_action_restores_status_witness:
  "\<exists>A1 A2. exit_automation (In_actions 0) FAILED (demo_asset IN_PROGRESS ''calibrate'' (Some (In_actions 0)) True) = Some A1 \<and>
    status (actions A1 ! 0) = EXITING \<and> exit_automation (In_shutdown 0) COMPLETED A1 = Some A2 \<and> status (actions A2 ! 0) = FAILED"
  using shutdown_action_restores_status [of 0 "demo_asset IN_PROGRESS ''calibrate'' (Some (In_actions 0)) True"
      "demo_action ''calibrate'' ''restore'' False IN_PROGRESS" 0 FAILED COMPLETED]
  by (auto simp: demo_action_defs named_once_def is_asset_type_def nth_opt_def)

theorem maintenance_exit_strands_action_witness:
  "\<exists>A1 b A2. process_asset_actions idle_view demo_env (demo_asset EXITING ''restore'' (Some (In_shutdown 0)) False) (quiet_site, 0) =
      Some (A1, quiet_site, 0) \<and>
    status (actions A1 ! 0) = EXITING \<and> handle_actions_set ''calibrate'' ''clear'' A1 = Some (b, A2) \<and> status (actions A2 ! 0) = EXITING"
  using maintenance_exit_strands_action [of "demo_asset EXITING ''restore'' (Some (In_shutdown 0)) False" 0 0 idle_view demo_env "(quiet_site, 0)"]
  by (auto simp: demo_action_defs first_named_def)

theorem missing_shutdown_action_blocks_asset_witness:
  "\<exists>A1. exit_automation (In_actions 0) FAILED ((demo_asset IN_PROGRESS ''calibrate'' None True)\<lparr>shutdown_actions := []\<rparr>) = Some A1 \<and>
    status (actions A1 ! 0) = EXITING \<and> current_sequence_name A1 = ''calibrate''"
  using missing_shutdown_action_blocks_asset [of 0 "(demo_asset IN_PROGRESS ''calibrate'' None True)\<lparr>shutdown_actions := []\<rparr>"
      "demo_action ''calibrate'' ''restore'' False IN_PROGRESS" FAILED]
  by (auto simp: demo_action_defs is_asset_type_def nth_opt_def)

end
