(* ===== verification/Site_Power.thy ===== *)
theory Site_Power
  imports Active_Features Standalone_Features Reactive_Features Island_Features Frequency Path_Alerts
begin

text \<open>
  The power pipeline of \<^verbatim>\<open>Site_Manager.cpp\<close>: in each run mode the site runs the selected active
  power feature, the standalone features, the dispatch of the active power, the reactive power
  feature and dispatch, and then sets the commands of the asset types.  This theory composes the
  models of the features and of the command object in the order of the code.

  The site is a record of its features, its command object and the numbers it keeps; a FIMS
  variable of the site of which only the value is used is that value.  What the pipeline reads from
  the asset manager is a record of readings, what it tells the asset manager is a list of calls in
  their order, and the readings of the clock the features take are an argument.
\<close>

section \<open>Data\<close>

datatype asset_call =
    Set_solar_curtailment_enabled bool
  | Start_first_gen bool
  | Start_available_ess
  | Start_available_solar
  | Enter_standby_all_solar
  | Enter_standby_all_ess
  | Exit_standby_all_ess
  | Exit_standby_all_solar
  | Set_first_gen_is_starting_flag bool
  | Turn_off_start_cmd

record site_readings =
  rd_ess_total_uncontrollable_active_power :: flt
  rd_solar_total_uncontrollable_active_power :: flt
  rd_ess_total_kW_discharge_limit :: flt
  rd_ess_total_rated_active_power :: flt
  rd_solar_total_rated_active_power :: flt
  rd_num_ess_controllable :: int
  rd_num_solar_controllable :: int

record site_clocks =
  ck_aps :: timespec
  ck_cl :: timespec
  ck_rcl :: timespec
  ck_avr :: timespec
  ck_ss :: timespec
  ck_ls :: timespec
  ck_fr :: "nat \<Rightarrow> frc_clocks"

record site_features =
  target_soc :: target_soc_feature
  active_power_setpoint_mode :: active_power_setpoint
  manual_power_mode :: manual_feature
  energy_arbitrage_mode :: energy_arbitrage
  ess_calibration_mode :: ess_calibration
  agg_asset_limit :: aggregated_asset_limit
  ess_discharge_prevention_f :: ess_discharge_prevention
  frequency_response_f :: frequency_feature
  active_power_poi_limits_f :: active_power_poi_limits
  watt_watt_f :: watt_watt
  active_power_closed_loop :: closed_loop
  avr_f :: avr
  watt_var_f :: watt_var
  reactive_setpoint_f :: reactive_setpoint
  power_factor :: direct_power_factor
  constant_power_factor_f :: constant_power_factor
  reactive_power_poi_limits_f :: reactive_power_poi_limits
  reactive_power_closed_loop :: reactive_closed_loop
  solar_shed_f :: solar_shed
  load_shed_f :: load_shed
  generator_charge_f :: generator_charge
  charge_control_f :: charge_control
  charge_dispatch_f :: charge_dispatch

record site_power =
  features :: site_features
  asset_cmd :: asset_cmd_object
  alerts :: site_alerts
  asset_pf_flag :: bool
  num_solar_running :: int
  max_potential_ess_kW :: flt
  min_potential_ess_kW :: flt
  max_potential_solar_kW :: flt
  max_potential_gen_kW :: flt
  total_asset_kW_charge_limit :: flt
  total_asset_kW_discharge_limit :: flt
  total_site_kW_charge_limit :: flt
  total_site_kW_discharge_limit :: flt
  total_site_kW_rated_charge :: flt
  total_site_kW_rated_discharge :: flt
  total_site_kVAR_rated_charge :: flt
  total_site_kVAR_rated_discharge :: flt
  asset_priority_runmode1 :: int
  asset_priority_runmode2 :: int
  soc_avg_running :: flt
  start_first_gen_soc :: flt
  feeder_actual_kW :: flt
  feeder_actual_kVAR :: flt
  site_frequency :: flt
  v_feature_kW_demand :: flt
  v_site_kW_charge_production :: flt
  v_site_kW_discharge_production :: flt
  v_site_kVAR_demand :: flt
  ess_kW_cmd :: flt
  feeder_kW_cmd :: flt
  gen_kW_cmd :: flt
  solar_kW_cmd :: flt
  ess_kVAR_cmd :: flt
  gen_kVAR_cmd :: flt
  solar_kVAR_cmd :: flt
  ess_kVAR_cmd_slew :: slew_object
  gen_kVAR_cmd_slew :: slew_object
  solar_kVAR_cmd_slew :: slew_object
  calls :: "asset_call list"

abbreviation upd_features :: "(site_features \<Rightarrow> site_features) \<Rightarrow> site_power \<Rightarrow> site_power" where
  "upd_features g s \<equiv> s\<lparr>features := g (features s)\<rparr>"

definition tell :: "asset_call \<Rightarrow> site_power \<Rightarrow> site_power" where
  "tell c s = s\<lparr>calls := calls s @ [c]\<rparr>"

section \<open>Selecting the features\<close>

text \<open>
  The alarm the arbitrage raises on an invalid price has the index 3; the registers are read
  through a total function there, and writing one out of range is \<open>None\<close>.
\<close>

definition process_runmode1_kW_feature :: "site_readings \<Rightarrow> site_clocks \<Rightarrow> site_power \<Rightarrow> site_power option" where
  "process_runmode1_kW_feature rd ck s = do {
     let f = features s;
     s \<leftarrow> (if bval TSOC_enable_flag (target_soc f) then
              Some (s\<lparr>asset_cmd := tsoc_execute (target_soc f) (asset_cmd s)\<rparr>)
            else if bval APS_enable_flag (active_power_setpoint_mode f) then do {
              (g, a) \<leftarrow> aps_execute (ck_aps ck) (total_site_kW_rated_discharge s) (total_site_kW_rated_charge s)
                         (active_power_setpoint_mode f, asset_cmd s);
              Some (s\<lparr>features := f\<lparr>active_power_setpoint_mode := g\<rparr>, asset_cmd := a\<rparr>) }
            else if bval MAN_enable_flag (manual_power_mode f) then
              let (g, a) = man_execute (manual_power_mode f, asset_cmd s)
              in Some (s\<lparr>features := f\<lparr>manual_power_mode := g\<rparr>, asset_cmd := a\<rparr>)
            else if bval ARB_enable_flag (energy_arbitrage_mode f) then
              let (ok, a) = arb_execute (soc_avg_running s) (\<lambda>i. active_alarm_array (alerts s) ! i) (energy_arbitrage_mode f) (asset_cmd s)
              in if ok then Some (s\<lparr>asset_cmd := a\<rparr>)
                 else do { sa \<leftarrow> set_alarms 3 (alerts s); Some (s\<lparr>asset_cmd := a, alerts := sa\<rparr>) }
            else if bval CAL_enable_flag (ess_calibration_mode f) then
              Some (s\<lparr>asset_cmd := cal_execute (rd_num_ess_controllable rd) (ess_calibration_mode f) (asset_cmd s)\<rparr>)
            else Some s);
     Some (s\<lparr>asset_cmd := calculate_feature_kW_demand (asset_priority_runmode1 s) (asset_cmd s)\<rparr>) }"

text \<open>The last argument of \<^verbatim>\<open>calculate_feature_kW_demand\<close> is the float value of the priority, converted back.\<close>

definition process_runmode2_kW_feature :: "site_power \<Rightarrow> site_power" where
  "process_runmode2_kW_feature s =
     (let a = (asset_cmd s)\<lparr>load_method := LOAD_MINIMUM\<rparr>;
          a = a\<lparr>additional_load_compensation := calculate_additional_load_compensation (load_method a) (site_kW_load a)
                 (site_kW_demand a) (kW_request (ess_data a)) (kW_request (gen_data a)) (kW_request (solar_data a))\<rparr>;
          a = a\<lparr>site_kW_demand := site_kW_demand a + additional_load_compensation a\<rparr>;
          a = a\<lparr>ess_data := (ess_data a)\<lparr>kW_request := min_potential_kW (ess_data a)\<rparr>\<rparr>;
          s = s\<lparr>asset_cmd := a\<rparr>;
          s = (if bval GC_enable_flag (generator_charge_f (features s)) then
                 let (m, a) = gc_execute (solar_shed_f (features s)) (generator_charge_f (features s)) (asset_cmd s)
                 in s\<lparr>asset_cmd := a, max_potential_gen_kW := m\<rparr>
               else s)
      in s\<lparr>asset_cmd := calculate_feature_kW_demand (asset_priority_runmode2 s) (asset_cmd s)\<rparr>)"

definition process_runmode1_kVAR_feature :: "site_clocks \<Rightarrow> site_power \<Rightarrow> site_power option" where
  "process_runmode1_kVAR_feature ck s = do {
     let f = features s;
     s \<leftarrow> (if bval AVR_enable_flag (avr_f f) then
              let (pf, g, a) = avr_execute (ck_avr ck) (avr_f f, asset_cmd s)
              in Some (s\<lparr>features := f\<lparr>avr_f := g\<rparr>, asset_cmd := a, asset_pf_flag := pf\<rparr>)
            else if bval WV_enable_flag (watt_var_f f) then do {
              (pf, g, a) \<leftarrow> wv_execute (ess_kW_cmd s + solar_kW_cmd s + gen_kW_cmd s) (watt_var_f f, asset_cmd s);
              Some (s\<lparr>features := f\<lparr>watt_var_f := g\<rparr>, asset_cmd := a, asset_pf_flag := pf\<rparr>) }
            else if bval RSP_enable_flag (reactive_setpoint_f f) then
              let (pf, g, a) = rsp_execute (reactive_setpoint_f f, asset_cmd s)
              in Some (s\<lparr>features := f\<lparr>reactive_setpoint_f := g\<rparr>, asset_cmd := a, asset_pf_flag := pf\<rparr>)
            else if bval DPF_enable_flag (power_factor f) then
              let (pf, a) = dpf_execute (asset_cmd s) in Some (s\<lparr>asset_cmd := a, asset_pf_flag := pf\<rparr>)
            else if bval CPF_enable_flag (constant_power_factor_f f) then
              let (pf, g, a) = cpf_execute (constant_power_factor_f f, asset_cmd s)
              in Some (s\<lparr>features := f\<lparr>constant_power_factor_f := g\<rparr>, asset_cmd := a, asset_pf_flag := pf\<rparr>)
            else Some (s\<lparr>asset_cmd := (asset_cmd s)\<lparr>site_kVAR_demand := 0\<rparr>, asset_pf_flag := False\<rparr>));
     Some (s\<lparr>v_site_kVAR_demand := site_kVAR_demand (asset_cmd s)\<rparr>) }"

section \<open>Dispatching\<close>

text \<open>The command object goes through the dispatch of load, charge, requests and demand.\<close>

definition dispatch_cmds :: "int \<Rightarrow> charge_dispatch \<Rightarrow> asset_cmd_object \<Rightarrow> flt \<times> asset_cmd_object" where
  "dispatch_cmds asset_priority cd a =
     (let (x1, a) = (if load_method a = LOAD_MINIMUM
                     then dispatch_site_kW_discharge_cmd asset_priority (site_kW_load a) LOAD a else (0, a));
          (x2, a) = dispatch_site_kW_charge_cmd asset_priority (bval CD_solar_enable_flag cd) (bval CD_gen_enable_flag cd)
                      (bval CD_feeder_enable_flag cd) a;
          (x3, a) = dispatch_site_kW_discharge_cmd asset_priority (site_kW_discharge_production a) REQUESTS a;
          (x4, a) = dispatch_site_kW_discharge_cmd asset_priority (site_kW_discharge_production a) DEMAND a
      in (x1 + x2 + x3 + x4, a))"

definition dispatch_active_power :: "int \<Rightarrow> site_power \<Rightarrow> site_power" where
  "dispatch_active_power asset_priority s =
     (let a = set_production_limits (asset_cmd s);
          s = s\<lparr>v_feature_kW_demand := feature_kW_demand a, v_site_kW_charge_production := site_kW_charge_production a,
                v_site_kW_discharge_production := site_kW_discharge_production a\<rparr>;
          (x, a) = dispatch_cmds asset_priority (charge_dispatch_f (features s)) a
      in upd_features (\<lambda>f. f\<lparr>charge_dispatch_f := store_float CD_kW_command x (charge_dispatch_f f)\<rparr>) (s\<lparr>asset_cmd := a\<rparr>))"

definition set_asset_power_commands :: "site_power \<Rightarrow> site_power" where
  "set_asset_power_commands s =
     (let a = asset_cmd s
      in s\<lparr>ess_kW_cmd := get_limited_ess_kW_cmd a, feeder_kW_cmd := get_limited_feeder_kW_cmd a,
           gen_kW_cmd := get_limited_gen_kW_cmd a, solar_kW_cmd := get_limited_solar_kW_cmd a,
           ess_kVAR_cmd := get_slew_target (ess_kVAR_cmd_slew s) (kVAR_cmd (ess_data a)),
           gen_kVAR_cmd := get_slew_target (gen_kVAR_cmd_slew s) (kVAR_cmd (gen_data a)),
           solar_kVAR_cmd := get_slew_target (solar_kVAR_cmd_slew s) (kVAR_cmd (solar_data a))\<rparr>)"

definition calculate_total_site_kW_limits :: "site_power \<Rightarrow> site_power" where
  "calculate_total_site_kW_limits s =
     s\<lparr>total_site_kW_charge_limit := max (total_site_kW_charge_limit s) (total_asset_kW_charge_limit s),
       total_site_kW_discharge_limit := min (total_site_kW_discharge_limit s) (total_asset_kW_discharge_limit s)\<rparr>"

section \<open>Run mode 1\<close>

text \<open>
  \<^verbatim>\<open>runmode1_state\<close> in parts: the charge control, the selected feature, the standalone features and the
  POI limits shape the active power demand up to the point where it is preserved; then come the corrections for the POI and the dispatch, the reactive power, and
  the commands with the calls to the asset manager.
\<close>

definition rm1_charge_control :: "site_power \<Rightarrow> site_power" where
  "rm1_charge_control s =
     (let s = (if num_solar_running s > 0 then tell (Set_solar_curtailment_enabled True) s else s);
          cc = charge_control_f (features s)
      in if bval CC_enable_flag cc
         then s\<lparr>asset_cmd := (asset_cmd s)\<lparr>ess_data := (ess_data (asset_cmd s))
                \<lparr>kW_request := range_check (fval CC_kW_request cc) (fval CC_kW_limit cc) (-1 * fval CC_kW_limit cc)\<rparr>\<rparr>\<rparr>
         else s)"

definition rm1_standalone :: "site_readings \<Rightarrow> site_clocks \<Rightarrow> timespec \<Rightarrow> site_power \<Rightarrow> site_power option" where
  "rm1_standalone rd ck now s = do {
     let s = (if bval AAL_enable_flag (agg_asset_limit (features s))
              then let (a, hi, lo, tot) = aal_execute (rd_ess_total_uncontrollable_active_power rd)
                     (rd_solar_total_uncontrollable_active_power rd) (rd_ess_total_kW_discharge_limit rd)
                     (agg_asset_limit (features s))
                     (asset_cmd s, max_potential_ess_kW s, min_potential_ess_kW s, total_asset_kW_discharge_limit s)
                   in s\<lparr>asset_cmd := a, max_potential_ess_kW := hi, min_potential_ess_kW := lo, total_asset_kW_discharge_limit := tot\<rparr>
              else s);
     let s = (if bval EDP_enable_flag (ess_discharge_prevention_f (features s))
              then let (a, hi, lo, tot) = edp_execute (soc_avg_running s) (rd_ess_total_kW_discharge_limit rd)
                     (ess_discharge_prevention_f (features s))
                     (asset_cmd s, max_potential_ess_kW s, min_potential_ess_kW s, total_asset_kW_discharge_limit s)
                   in s\<lparr>asset_cmd := a, max_potential_ess_kW := hi, min_potential_ess_kW := lo, total_asset_kW_discharge_limit := tot\<rparr>
              else s);
     (if bval FR_enable_flag (frequency_response_f (features s)) then
             (if \<not> bval EDP_enable_flag (ess_discharge_prevention_f (features s)) then do {
                (g, a) \<leftarrow> fr_execute (ck_fr ck) (rd_ess_total_rated_active_power rd) (site_frequency s) now
                            (frequency_response_f (features s), asset_cmd s);
                Some (upd_features (\<lambda>f. f\<lparr>frequency_response_f := g\<rparr>) (s\<lparr>asset_cmd := a\<rparr>)) }
              else Some s)
           else Some (upd_features (\<lambda>f. f\<lparr>frequency_response_f := clear_all_component_outputs (frequency_response_f f)\<rparr>) s)) }"

definition rm1_poi :: "site_power \<Rightarrow> site_power" where
  "rm1_poi s =
     (if bval POI_enable_flag (active_power_poi_limits_f (features s))
      then let (a, c, d) = poi_execute (soc_avg_running s) (asset_priority_runmode1 s) (active_power_poi_limits_f (features s))
                 (asset_cmd s, total_site_kW_charge_limit s, total_site_kW_discharge_limit s)
           in s\<lparr>asset_cmd := a, total_site_kW_charge_limit := c, total_site_kW_discharge_limit := d\<rparr>
      else s)"

definition rm1_demand :: "site_readings \<Rightarrow> site_clocks \<Rightarrow> timespec \<Rightarrow> site_power \<Rightarrow> site_power option" where
  "rm1_demand rd ck now s = do {
     s \<leftarrow> process_runmode1_kW_feature rd ck (rm1_charge_control s);
     s \<leftarrow> rm1_standalone rd ck now s;
     let s = rm1_poi s;
     Some (s\<lparr>asset_cmd := preserve_uncorrected_site_kW_demand (asset_cmd s)\<rparr>) }"

definition rm1_dispatch :: "site_clocks \<Rightarrow> site_power \<Rightarrow> site_power option" where
  "rm1_dispatch ck s = do {
     let s = upd_features (\<lambda>f. f\<lparr>charge_dispatch_f := store_float CD_kW_command 0 (charge_dispatch_f f)\<rparr>) s;
     s \<leftarrow> (if bval WW_enable_flag (watt_watt_f (features s)) then do {
             (g, a) \<leftarrow> ww_execute (watt_watt_f (features s), asset_cmd s);
             Some (upd_features (\<lambda>f. f\<lparr>watt_watt_f := g\<rparr>) (s\<lparr>asset_cmd := a\<rparr>)) }
           else Some s);
     let s = (if bval CL_enable_flag (active_power_closed_loop (features s))
              then let (g, a) = cl_execute (ck_cl ck) (feeder_actual_kW s) (total_site_kW_rated_charge s)
                     (total_site_kW_rated_discharge s) (active_power_closed_loop (features s), asset_cmd s)
                   in upd_features (\<lambda>f. f\<lparr>active_power_closed_loop := g\<rparr>) (s\<lparr>asset_cmd := a\<rparr>)
              else upd_features (\<lambda>f. f\<lparr>active_power_closed_loop := (active_power_closed_loop f)
                     \<lparr>regulator := reset (regulator (active_power_closed_loop f))\<rparr>\<rparr>) s);
     let s = dispatch_active_power (asset_priority_runmode1 s) s;
     Some (if bval APS_ess_charge_support_enable_flag (active_power_setpoint_mode (features s))
           then s\<lparr>asset_cmd := charge_support_execute (active_power_setpoint_mode (features s)) (asset_cmd s)\<rparr>
           else s) }"

definition rm1_reactive :: "site_clocks \<Rightarrow> site_power \<Rightarrow> site_power option" where
  "rm1_reactive ck s = do {
     s \<leftarrow> process_runmode1_kVAR_feature ck s;
     let s = (if bval RPOI_enable_flag (reactive_power_poi_limits_f (features s))
              then s\<lparr>asset_cmd := rpoi_execute (reactive_power_poi_limits_f (features s)) (asset_cmd s)\<rparr> else s);
     let s = (if bval RCL_enable_flag (reactive_power_closed_loop (features s))
              then let (g, a) = rcl_execute (ck_rcl ck) (feeder_actual_kVAR s) (total_site_kVAR_rated_charge s)
                     (total_site_kVAR_rated_discharge s) (reactive_power_closed_loop (features s), asset_cmd s)
                   in upd_features (\<lambda>f. f\<lparr>reactive_power_closed_loop := g\<rparr>) (s\<lparr>asset_cmd := a\<rparr>)
              else upd_features (\<lambda>f. f\<lparr>reactive_power_closed_loop := (reactive_power_closed_loop f)
                     \<lparr>rcl_regulator := reset (rcl_regulator (reactive_power_closed_loop f))\<rparr>\<rparr>) s);
     Some (s\<lparr>asset_cmd := dispatch_reactive_power (asset_cmd s)\<rparr>) }"

definition first_gen_wanted :: "site_power \<Rightarrow> bool" where
  "first_gen_wanted s \<longleftrightarrow> (start_first_flag (gen_data (asset_cmd s)) \<or> soc_avg_running s \<le> start_first_gen_soc s) \<and>
     auto_restart_flag (gen_data (asset_cmd s))"

definition start_ess_and_solar :: "site_power \<Rightarrow> site_power" where
  "start_ess_and_solar s =
     (let s = (if auto_restart_flag (ess_data (asset_cmd s)) then tell Start_available_ess s else s)
      in if auto_restart_flag (solar_data (asset_cmd s)) then tell Start_available_solar s else s)"

definition runmode1_state :: "site_readings \<Rightarrow> site_clocks \<Rightarrow> timespec \<Rightarrow> site_power \<Rightarrow> site_power option" where
  "runmode1_state rd ck now s = do {
     s \<leftarrow> rm1_demand rd ck now s;
     s \<leftarrow> rm1_dispatch ck s;
     s \<leftarrow> rm1_reactive ck s;
     let s = calculate_total_site_kW_limits (set_asset_power_commands s);
     let s = tell (Start_first_gen (first_gen_wanted s)) s;
     Some (start_ess_and_solar s) }"

section \<open>Run mode 2\<close>

text \<open>The message the load shed sends is an output of the state.\<close>

definition runmode2_state ::
    "bool \<Rightarrow> site_readings \<Rightarrow> site_clocks \<Rightarrow> site_power \<Rightarrow> (fims_out \<times> site_power) option" where
  "runmode2_state is_primary rd ck s = do {
     let s = (if num_solar_running s > 0 then tell (Set_solar_curtailment_enabled False) s else s);
     s \<leftarrow> (if bval SS_enable_flag (solar_shed_f (features s)) then do {
             (m, g, a) \<leftarrow> ss_execute (ck_ss ck) (soc_avg_running s) (rd_solar_total_rated_active_power rd)
                           (solar_shed_f (features s), asset_cmd s);
             Some (upd_features (\<lambda>f. f\<lparr>solar_shed_f := g\<rparr>) (s\<lparr>asset_cmd := a, max_potential_solar_kW := m\<rparr>)) }
           else Some s);
     let s = process_runmode2_kW_feature s;
     let s = dispatch_active_power (asset_priority_runmode2 s) s;
     let (out, s) = (if bval LS_enable_flag (load_shed_f (features s))
                     then let (out, g) = ls_execute (ck_ls ck) is_primary (soc_avg_running s) (load_shed_f (features s))
                          in (out, upd_features (\<lambda>f. f\<lparr>load_shed_f := g\<rparr>) s)
                     else (None, s));
     let s = set_asset_power_commands s;
     let s = start_ess_and_solar s;
     Some (out, tell (Start_first_gen (first_gen_wanted s)) s) }"

section \<open>The dispatch of the whole site\<close>





















section \<open>A concrete site\<close>

definition demo_alerts :: site_alerts where
  "demo_alerts = \<lparr>active_fault_array = replicate 64 False, active_alarm_array = replicate 64 False,
     fault_status_flag = False, alarm_status_flag = False, fault_options = (\<lambda>_. None), alarm_options = (\<lambda>_. None), events = []\<rparr>"

definition plain :: "'v feature" where
  "plain = \<lparr>available = True, vars = (\<lambda>_. demo_var ''x'' 0)\<rparr>"

definition enabled_by :: "'v \<Rightarrow> ('v, 'm) feature_scheme \<Rightarrow> ('v, 'm) feature_scheme" where
  "enabled_by v f = assign_bool v True f"

definition demo_slew :: slew_object where
  "demo_slew = Slew_Object (mk_ts 0 0) (mk_ts 0 0)"

definition demo_features :: site_features where
  "demo_features = \<lparr>target_soc = plain, active_power_setpoint_mode = demo_aps,
     manual_power_mode = \<lparr>available = True, vars = (\<lambda>_. demo_var ''x'' 0), manual_solar_kW_slew = demo_slew,
       manual_ess_kW_slew = demo_slew, manual_gen_kW_slew = demo_slew\<rparr>,
     energy_arbitrage_mode = assign_bool ARB_enable_flag True demo_arb, ess_calibration_mode = plain, agg_asset_limit = plain,
     ess_discharge_prevention_f = plain, frequency_response_f = demo_fr,
     active_power_poi_limits_f = assign_bool POI_enable_flag True demo_poi,
     watt_watt_f = \<lparr>available = True, vars = (\<lambda>_. demo_var ''x'' 0), watt_watt_curve = [], site_kW_demand_correction = 0\<rparr>,
     active_power_closed_loop = demo_cl, avr_f = demo_avr2,
     watt_var_f = \<lparr>available = True, vars = (\<lambda>_. demo_var ''x'' 0), watt_var_curve = [], site_kVAR_demand_correction = 0\<rparr>,
     reactive_setpoint_f = \<lparr>available = True, vars = (\<lambda>_. demo_var ''x'' 0), kVAR_cmd_slew = demo_slew\<rparr>,
     power_factor = \<lparr>available = True, vars = (\<lambda>_. demo_var ''x'' 0), prev_asset_pf_cmd = 0\<rparr>,
     constant_power_factor_f = demo_cpf, reactive_power_poi_limits_f = plain, reactive_power_closed_loop = demo_rcl,
     solar_shed_f = demo_ss, load_shed_f = demo_ls, generator_charge_f = plain, charge_control_f = plain,
     charge_dispatch_f = plain\<rparr>"

definition demo_power :: site_power where
  "demo_power = \<lparr>features = demo_features, asset_cmd = demo_site\<lparr>solar_data := demo_data 0 0 20\<rparr>, alerts = demo_alerts,
     asset_pf_flag = False, num_solar_running = 1, max_potential_ess_kW = 100, min_potential_ess_kW = -100,
     max_potential_solar_kW = 20, max_potential_gen_kW = 30, total_asset_kW_charge_limit = -100,
     total_asset_kW_discharge_limit = 150, total_site_kW_charge_limit = -100, total_site_kW_discharge_limit = 150,
     total_site_kW_rated_charge = -100, total_site_kW_rated_discharge = 150, total_site_kVAR_rated_charge = -30,
     total_site_kVAR_rated_discharge = 30, asset_priority_runmode1 = 0, asset_priority_runmode2 = 0,
     soc_avg_running = 50, start_first_gen_soc = 20, feeder_actual_kW = 0, feeder_actual_kVAR = 0, site_frequency = 60,
     v_feature_kW_demand = 0, v_site_kW_charge_production = 0, v_site_kW_discharge_production = 0, v_site_kVAR_demand = 0,
     ess_kW_cmd = 0, feeder_kW_cmd = 0, gen_kW_cmd = 0, solar_kW_cmd = 0, ess_kVAR_cmd = 0, gen_kVAR_cmd = 0,
     solar_kVAR_cmd = 0, ess_kVAR_cmd_slew = demo_slew, gen_kVAR_cmd_slew = demo_slew, solar_kVAR_cmd_slew = demo_slew,
     calls = []\<rparr>"


section \<open>The demand stays within the limits of the POI\<close>

lemma runmode1_feature_frame:
  assumes "process_runmode1_kW_feature rd ck s = Some s'"
  shows "active_power_poi_limits_f (features s') = active_power_poi_limits_f (features s)"
    "soc_avg_running s' = soc_avg_running s"
  using assms by (auto simp: process_runmode1_kW_feature_def Let_def split: if_splits prod.splits bind_splits)

lemma rm1_charge_control_frame:
  "active_power_poi_limits_f (features (rm1_charge_control s)) = active_power_poi_limits_f (features s)"
  "soc_avg_running (rm1_charge_control s) = soc_avg_running s"
  by (simp_all add: rm1_charge_control_def Let_def tell_def)

lemma rm1_standalone_frame:
  assumes "rm1_standalone rd ck now s = Some s'"
  shows "active_power_poi_limits_f (features s') = active_power_poi_limits_f (features s)"
    "soc_avg_running s' = soc_avg_running s"
  using assms by (auto simp: rm1_standalone_def Let_def split: if_splits prod.splits bind_splits)

text \<open>Without the two corrections the demand reaches the dispatch as it is.\<close>

lemma uncorrected_dispatch:
  assumes "\<not> bval WW_enable_flag (watt_watt_f (features s))" "\<not> bval CL_enable_flag (active_power_closed_loop (features s))"
    and "load_method (asset_cmd s) = LOAD_MINIMUM \<Longrightarrow> 0 \<le> additional_load_compensation (asset_cmd s)"
  shows "\<exists>d. rm1_dispatch ck s = Some d \<and>
    v_site_kW_charge_production d + v_site_kW_discharge_production d = site_kW_demand (asset_cmd s)"
proof -
  obtain c d where cd: "production_limits_of (asset_cmd s) = (c, d)" by force
  with production_limits_sum [OF assms(3)] have "c + d = site_kW_demand (asset_cmd s)" by (simp add: production_limits_of_def)
  then show ?thesis using assms(1,2) cd
    by (simp add: rm1_dispatch_def Let_def dispatch_active_power_def set_production_limits_def split_beta)
qed

text \<open>C11. In run mode 1 the POI limits bound the demand after the selected active power feature, the aggregated
  limit, the discharge prevention and the frequency response: whatever these ask for, the demand, less the load it
  includes, lies within the limits in force for the state of charge, as do the POI command and the two
  site limits, and the demand that the closed loop later compares against is that demand.  Of what follows,
  only the Watt-Watt and the closed loop corrections change the demand again: with both disabled the production limits that are
  dispatched add up to the demand that was limited (with non-negative additional load compensation).\<close>

theorem runmode1_demand_within_poi:
  assumes "rm1_demand rd ck now s = Some s'" "bval POI_enable_flag (active_power_poi_limits_f (features s))"
    and "poi_limits_in_force (soc_avg_running s) (active_power_poi_limits_f (features s)) = (hi, lo)" "lo \<le> hi"
  shows "let a = asset_cmd s'; net = site_kW_demand a - c_bool (get_site_kW_load_inclusion a) * site_kW_load a
    in lo \<le> net \<and> net \<le> hi \<and> lo \<le> poi_cmd a \<and> poi_cmd a \<le> hi \<and>
       uncorrected_site_kW_demand a = site_kW_demand a \<and>
       lo \<le> total_site_kW_charge_limit s' \<and> total_site_kW_discharge_limit s' \<le> hi \<and>
       (\<not> bval WW_enable_flag (watt_watt_f (features s')) \<and> \<not> bval CL_enable_flag (active_power_closed_loop (features s')) \<and>
        (load_method a = LOAD_MINIMUM \<longrightarrow> 0 \<le> additional_load_compensation a) \<longrightarrow>
        (\<exists>d. rm1_dispatch ck s' = Some d \<and> v_site_kW_charge_production d + v_site_kW_discharge_production d = site_kW_demand a))"
proof -
  note f0 = rm1_charge_control_frame [of s]
  from assms(1) obtain s1 s2 where 1: "process_runmode1_kW_feature rd ck (rm1_charge_control s) = Some s1"
    and 2: "rm1_standalone rd ck now s1 = Some s2"
    and s': "s' = (rm1_poi s2)\<lparr>asset_cmd := preserve_uncorrected_site_kW_demand (asset_cmd (rm1_poi s2))\<rparr>"
    by (auto simp: rm1_demand_def Let_def split: bind_splits)
  note f = runmode1_feature_frame [OF 1, unfolded f0] rm1_standalone_frame [OF 2]
  obtain a c d where p: "poi_execute (soc_avg_running s2) (asset_priority_runmode1 s2) (active_power_poi_limits_f (features s2))
      (asset_cmd s2, total_site_kW_charge_limit s2, total_site_kW_discharge_limit s2) = (a, c, d)" by (metis prod_cases3)
  have "poi_limits_in_force (soc_avg_running s2) (active_power_poi_limits_f (features s2)) = (hi, lo)"
    using assms(3) f by simp
  note l = poi_execute_limits [OF this assms(4) p]
  show ?thesis
    using l p assms(2) f uncorrected_dispatch [of s' ck] unfolding Let_def
    by (simp add: s' rm1_poi_def Let_def preserve_uncorrected_site_kW_demand_def get_site_kW_load_inclusion_def)
qed

definition demo_readings :: site_readings where
  "demo_readings = \<lparr>rd_ess_total_uncontrollable_active_power = 0, rd_solar_total_uncontrollable_active_power = 0,
     rd_ess_total_kW_discharge_limit = 100, rd_ess_total_rated_active_power = 100, rd_solar_total_rated_active_power = 20,
     rd_num_ess_controllable = 1, rd_num_solar_controllable = 1\<rparr>"

definition demo_site_clocks :: site_clocks where
  "demo_site_clocks = \<lparr>ck_aps = mk_ts 1 0, ck_cl = mk_ts 1 0, ck_rcl = mk_ts 1 0, ck_avr = mk_ts 1 0, ck_ss = mk_ts 1 0,
     ck_ls = mk_ts 1 0, ck_fr = (\<lambda>_. demo_clocks)\<rparr>"

lemma demo_flags:
  "bval v (plain :: 'v feature) = False" "bval TSOC_enable_flag (target_soc demo_features) = False"
  "bval APS_enable_flag (active_power_setpoint_mode demo_features) = False"
  "bval MAN_enable_flag (manual_power_mode demo_features) = False"
  "bval ARB_enable_flag (energy_arbitrage_mode demo_features)"
  "bval CC_enable_flag (charge_control_f demo_features) = False"
  "bval AAL_enable_flag (agg_asset_limit demo_features) = False"
  "bval EDP_enable_flag (ess_discharge_prevention_f demo_features) = False"
  "bval FR_enable_flag (frequency_response_f demo_features) = False"
  "bval POI_enable_flag (active_power_poi_limits_f demo_features)"
  "poi_limits_in_force 50 (active_power_poi_limits_f demo_features) = (30, -20)"
  "arb_valid_pricing (energy_arbitrage_mode demo_features)"
  by (simp_all add: demo_features_def plain_def demo_aps_def demo_arb_def demo_fr_def demo_poi_def demo_var_def demo_fims_def feature_ops
      set_float_def Value_Object_def poi_limits_in_force_def arb_valid_pricing_def)

section \<open>The alarm of the energy arbitrage\<close>

text \<open>The energy arbitrage is the selected feature.\<close>

definition arbitrage_selected :: "site_features \<Rightarrow> bool" where
  "arbitrage_selected f \<longleftrightarrow> \<not> bval TSOC_enable_flag (target_soc f) \<and> \<not> bval APS_enable_flag (active_power_setpoint_mode f) \<and>
     \<not> bval MAN_enable_flag (manual_power_mode f) \<and> bval ARB_enable_flag (energy_arbitrage_mode f)"

lemma arbitrage_runs:
  assumes "arbitrage_selected (features s)"
    and "arb_execute (soc_avg_running s) (\<lambda>i. active_alarm_array (alerts s) ! i) (energy_arbitrage_mode (features s)) (asset_cmd s) = (b, a)"
    and "sa = (if b then Some (alerts s) else set_alarms 3 (alerts s))"
  shows "process_runmode1_kW_feature rd ck s = map_option (\<lambda>sa. s\<lparr>asset_cmd :=
     calculate_feature_kW_demand (asset_priority_runmode1 s) a, alerts := sa\<rparr>) sa"
  using assms by (auto simp: arbitrage_selected_def process_runmode1_kW_feature_def Let_def split: option.splits bind_splits)

lemma arb_alarm_returned:
  "fst (arb_execute soc alarms f a) = (\<not> alarms 3 \<and> \<not> arb_valid_pricing f)"
  by (simp add: arb_execute_def arb_execute_helper_def Let_def)

lemma set_alarms_raises:
  assumes "length (active_alarm_array sa) = 64"
  shows "\<exists>sa'. set_alarms 3 sa = Some sa' \<and> active_alarm_array sa' = (active_alarm_array sa)[3 := True] \<and> alarm_status_flag sa'"
  using assms by (simp add: set_alarms_def reg_write_def emit_def Let_def)

text \<open>The alarm of the energy arbitrage is raised the wrong way round.  The feature returns whether an
  alarm is due and the site takes the result for success: prices in order raise the alarm in every
  cycle, and prices out of order, which is the case the alarm is for, leave the alarms
  as they are as long as it has not been raised.\<close>

theorem arbitrage_alarm_inverted:
  assumes "arbitrage_selected (features s)" "length (active_alarm_array (alerts s)) = 64"
  shows "(arb_valid_pricing (energy_arbitrage_mode (features s)) \<longrightarrow>
      (\<exists>s'. process_runmode1_kW_feature rd ck s = Some s' \<and> active_alarm_array (alerts s') ! 3 \<and> alarm_status_flag (alerts s'))) \<and>
    (\<not> arb_valid_pricing (energy_arbitrage_mode (features s)) \<and> \<not> active_alarm_array (alerts s) ! 3 \<longrightarrow>
      (\<exists>s'. process_runmode1_kW_feature rd ck s = Some s' \<and> alerts s' = alerts s))"
proof -
  obtain b a where e: "arb_execute (soc_avg_running s) (\<lambda>i. active_alarm_array (alerts s) ! i)
      (energy_arbitrage_mode (features s)) (asset_cmd s) = (b, a)" by force
  have b: "b = (\<not> active_alarm_array (alerts s) ! 3 \<and> \<not> arb_valid_pricing (energy_arbitrage_mode (features s)))"
    using arb_alarm_returned [of "soc_avg_running s" "\<lambda>i. active_alarm_array (alerts s) ! i"
        "energy_arbitrage_mode (features s)" "asset_cmd s"] by (simp add: e)
  from set_alarms_raises [OF assms(2)] obtain sa where "set_alarms 3 (alerts s) = Some sa"
    "active_alarm_array sa = (active_alarm_array (alerts s))[3 := True]" "alarm_status_flag sa" by blast
  then show ?thesis using b assms(2) by (simp add: arbitrage_runs [OF assms(1) e refl])
qed

lemma demo_arbitrage: "arbitrage_selected (features demo_power)" "length (active_alarm_array (alerts demo_power)) = 64"
  by (simp_all add: arbitrage_selected_def demo_power_def demo_flags demo_alerts_def)

theorem arbitrage_alarm_inverted_witness:
  "\<exists>s'. process_runmode1_kW_feature demo_readings demo_site_clocks demo_power = Some s' \<and> alarm_status_flag (alerts s')"
  using arbitrage_alarm_inverted [OF demo_arbitrage, of demo_readings demo_site_clocks]
  by (auto simp: demo_power_def demo_flags)

lemma demo_demand: "\<exists>s'. rm1_demand demo_readings demo_site_clocks (mk_ts 1 0) demo_power = Some s'"
proof -
  let ?s = "rm1_charge_control demo_power"
  have f: "features ?s = demo_features" "alerts ?s = demo_alerts"
    by (simp_all add: rm1_charge_control_def demo_power_def tell_def demo_flags)
  have sel: "arbitrage_selected (features ?s)" by (simp add: f arbitrage_selected_def demo_flags)
  obtain b a where e: "arb_execute (soc_avg_running ?s) (\<lambda>i. active_alarm_array (alerts ?s) ! i)
      (energy_arbitrage_mode (features ?s)) (asset_cmd ?s) = (b, a)" by force
  obtain sa where sa: "set_alarms 3 (alerts ?s) = Some sa"
    using set_alarms_raises [of "alerts ?s"] by (auto simp: f demo_alerts_def)
  have "\<exists>s1. process_runmode1_kW_feature demo_readings demo_site_clocks ?s = Some s1 \<and> features s1 = demo_features"
    using sa by (cases b) (auto simp: arbitrage_runs [OF sel e refl] f)
  then show ?thesis by (auto simp: rm1_demand_def rm1_standalone_def Let_def demo_flags)
qed

theorem runmode1_demand_within_poi_witness:
  "\<exists>s'. rm1_demand demo_readings demo_site_clocks (mk_ts 1 0) demo_power = Some s' \<and>
     poi_cmd (asset_cmd s') \<le> 30 \<and> -20 \<le> poi_cmd (asset_cmd s')"
proof -
  obtain s' where s': "rm1_demand demo_readings demo_site_clocks (mk_ts 1 0) demo_power = Some s'" using demo_demand by blast
  have "bval POI_enable_flag (active_power_poi_limits_f (features demo_power))"
    "poi_limits_in_force (soc_avg_running demo_power) (active_power_poi_limits_f (features demo_power)) = (30, -20)"
    by (simp_all add: demo_power_def demo_flags)
  from runmode1_demand_within_poi [OF s' this] s' show ?thesis by (simp add: Let_def)
qed

end
