(* ===== verification/Site_Functions.thy ===== *)
theory Site_Functions
  imports Site_Power Sequences
begin

text \<open>
  The state of \<^verbatim>\<open>Site_Manager\<close> outside the power pipeline and the functions its sequences call:
  \<^verbatim>\<open>call_sequence_functions\<close> with one handler per target, the alert registers of the site seen from a
  sequence, \<^verbatim>\<open>clear_faults\<close>, the feature selection and the key figures of the storage.

  A site holds the power state of \<open>Site_Power\<close>, the asset manager as a value of the parameter type
  \<open>'a\<close>, its sequences and their status.  The clock is a sequence of readings with the number of
  readings taken so far.  A request to the asset manager is a value of a datatype; the record
  \<open>am_env\<close> says how the asset manager answers one and what it reports.
\<close>

section \<open>Data\<close>

datatype am_request =
    Start_all_ess | Stop_all_ess | Set_all_ess_grid_form | Set_all_ess_grid_follow
  | Set_grid_forming_voltage_slew flt | Open_all_bms_contactors | Close_all_bms_contactors
  | Set_ess_voltage_setpoint flt | Set_ess_frequency_setpoint flt
  | Set_min_generators_active int | Direct_start_gen | Start_all_gen | Stop_all_gen
  | Set_all_gen_grid_follow | Set_all_gen_grid_form | Start_all_solar | Stop_all_solar
  | Set_poi_feeder_state_open | Set_poi_feeder_state_closed
  | Set_sync_feeder_close_permissive_remove | Set_sync_feeder_close_permissive
  | Set_feeder_state_open string | Set_feeder_state_closed string | Site_clear_faults

record 'a am_env =
  am_call :: "am_request \<Rightarrow> 'a \<Rightarrow> bool \<times> 'a"
  am_view :: "'a \<Rightarrow> asset_view"
  get_sync_feeder_status :: "'a \<Rightarrow> bool"
  get_poi_feeder_state :: "'a \<Rightarrow> bool"
  get_feeder_utility_status :: "string \<Rightarrow> 'a \<Rightarrow> bool"
  get_sync_feeder_gridside_avg_voltage :: "'a \<Rightarrow> flt"
  get_sync_feeder_gridside_frequency :: "'a \<Rightarrow> flt"
  get_sync_frequency_offset :: "'a \<Rightarrow> flt"

datatype alt_states = TRANSIENT_INIT | SHUTDOWN | READY | STARTUP | RUNNING_FOLLOWING | FAULTED_STATE
  | RUNNING_FORMING | STANDBY_ERROR

record 'a site =
  pw :: site_power
  am :: 'a
  sequences :: "states \<Rightarrow> sequence"
  status_of :: sequences_status
  enable_flag :: fims_object
  disable_flag :: bool
  standby_flag :: bool
  clear_faults_flag :: fims_object
  running_status_flag :: bool
  site_state :: string
  site_state_enum :: states
  alt_site_state_enum :: alt_states
  site_status :: string
  num_path_faults :: int
  num_path_alarms :: int
  clear_fault_status_flags :: bool
  time_to_clear_fault_status_flags :: timespec
  watchdog_feature :: watchdog
  ldss_enable_flag :: bool
  standby_ess_latch :: bool
  standby_solar_latch :: bool
  prev_ess_kW_cmd :: flt
  prev_solar_kW_cmd :: flt
  prev_ess_kVAR_cmd :: flt
  prev_solar_kVAR_cmd :: flt
  reserved_bool :: "nat \<Rightarrow> bool"
  reserved_float :: "nat \<Rightarrow> flt"
  reserved_name :: "nat \<Rightarrow> string"
  num_ess_available :: int
  num_ess_running :: int
  num_ess_controllable :: int
  num_gen_available :: int
  num_gen_running :: int
  num_gen_active :: int
  num_solar_available :: int
  ess_actual_kW :: flt
  soc_avg_all :: flt
  allow_ess_auto_restart :: bool
  allow_gen_auto_restart :: bool
  allow_solar_auto_restart :: bool
  site_kW_load_v :: flt
  site_kW_demand_v :: flt
  ess_kVAR_slew_rate :: int
  gen_kVAR_slew_rate :: int
  solar_kVAR_slew_rate :: int
  is_primary :: bool
  has_data_endpoint :: bool
  sent :: "fims_out list"
  clk :: "nat \<Rightarrow> timespec"
  tick :: nat

section \<open>Registers, clock and requests\<close>

definition read_clock :: "'a site \<Rightarrow> timespec \<times> 'a site" where
  "read_clock s = (clk s (tick s), s\<lparr>tick := tick s + 1\<rparr>)"

definition upd_pw :: "(site_power \<Rightarrow> site_power) \<Rightarrow> 'a site \<Rightarrow> 'a site" where
  "upd_pw f s = s\<lparr>pw := f (pw s)\<rparr>"

definition upd_alerts :: "(site_alerts \<Rightarrow> site_alerts) \<Rightarrow> 'a site \<Rightarrow> 'a site" where
  "upd_alerts f = upd_pw (\<lambda>p. p\<lparr>alerts := f (alerts p)\<rparr>)"

definition site_emit :: "string \<Rightarrow> string \<Rightarrow> alert_type \<Rightarrow> 'a site \<Rightarrow> 'a site" where
  "site_emit source message severity = upd_alerts (\<lambda>a. a\<lparr>events := events a @ [(source, message, severity)]\<rparr>)"

text \<open>The sequences raise fault 2 only, which the 64 registers have; a number out of range changes nothing here.\<close>

definition site_set_fault :: "int \<Rightarrow> 'a site \<Rightarrow> 'a site" where
  "site_set_fault n = upd_alerts (\<lambda>a. case set_fault n a of None \<Rightarrow> a | Some a \<Rightarrow> a)"

definition ask :: "'a am_env \<Rightarrow> am_request \<Rightarrow> 'a site \<Rightarrow> bool \<times> 'a site" where
  "ask E q s = (let (b, a) = am_call E q (am s) in (b, s\<lparr>am := a\<rparr>))"

abbreviation order :: "'a am_env \<Rightarrow> am_request \<Rightarrow> 'a site \<Rightarrow> 'a site" where
  "order E q s \<equiv> snd (ask E q s)"

definition clear_faults :: "'a am_env \<Rightarrow> 'a site \<Rightarrow> 'a site" where
  "clear_faults E s =
     (let s = site_emit ''Site'' ''Clear faults executed'' INFO_ALERT s;
          s = order E Site_clear_faults s;
          s = s\<lparr>clear_fault_status_flags := True\<rparr>;
          (t, s) = read_clock s
      in s\<lparr>time_to_clear_fault_status_flags := increment_timespec_ms t 1000\<rparr>)"

definition set_flag_inputs :: "bool \<Rightarrow> fims_object \<Rightarrow> fims_object" where
  "set_flag_inputs b f = f\<lparr>fo_value := set_bool b (fo_value f), fo_inputs := map (set_bool b) (fo_inputs f)\<rparr>"

definition set_enable_flag :: "bool \<Rightarrow> 'a site \<Rightarrow> 'a site" where
  "set_enable_flag b s = s\<lparr>enable_flag := set_flag_inputs b (enable_flag s)\<rparr>"

definition set_state :: "states \<Rightarrow> 'a site \<Rightarrow> bool \<times> 'a site" where
  "set_state state_request s =
     (True, if state_request \<noteq> current_state (status_of s)
            then s\<lparr>status_of := (status_of s)\<lparr>current_state := state_request\<rparr>\<rparr> else s)"

definition dogbark :: "'a site \<Rightarrow> 'a site option" where
  "dogbark s = (case get_active_alarms 4 (alerts (pw s)) of
       None \<Rightarrow> None
     | Some b \<Rightarrow> if b then Some s
         else map_option (\<lambda>sa. upd_alerts (\<lambda>_. sa) s) (set_alarms 4 (alerts (pw s))))"

definition synchronize_ess :: "'a am_env \<Rightarrow> 'a site \<Rightarrow> bool \<times> 'a site" where
  "synchronize_ess E s =
     (let s = order E (Set_ess_voltage_setpoint (get_sync_feeder_gridside_avg_voltage E (am s))) s;
          s = order E (Set_ess_frequency_setpoint
                (get_sync_feeder_gridside_frequency E (am s) - get_sync_frequency_offset E (am s))) s
      in (get_sync_feeder_status E (am s), s))"

section \<open>The functions of a sequence\<close>

text \<open>
  A handler gives the value of \<^verbatim>\<open>command_found\<close>, the value of \<^verbatim>\<open>return_value\<close>, which starts true, and
  the site.
\<close>

definition float_matches :: "value_object \<Rightarrow> flt \<Rightarrow> int \<Rightarrow> bool" where
  "float_matches v actual tol \<longleftrightarrow> vtype v = T_Float \<and> get_tolerance (value_float v) actual tol"

definition answer :: "bool \<Rightarrow> 'a site \<Rightarrow> bool \<times> bool \<times> 'a site" where
  "answer b s = (True, b, s)"

definition reserved_index :: "string \<Rightarrow> nat \<Rightarrow> string \<Rightarrow> nat option" where
  "reserved_index pre n cmd = List.find (\<lambda>i. cmd = pre @ show_nat i) [1..<n + 1]"

definition handle_reserved_variable_sequence_functions ::
    "string \<Rightarrow> value_object \<Rightarrow> int \<Rightarrow> 'a site \<Rightarrow> bool \<times> bool \<times> 'a site" where
  "handle_reserved_variable_sequence_functions cmd v tol s = (case reserved_index ''bool_'' 16 cmd of
       Some i \<Rightarrow> answer (reserved_bool s i = value_bool v) s
     | None \<Rightarrow> (case reserved_index ''float_'' 8 cmd of
           Some i \<Rightarrow> answer (float_matches v (reserved_float s i) tol) s
         | None \<Rightarrow> (False, True, s)))"

definition handle_ess_sequence_functions ::
    "'a am_env \<Rightarrow> string \<Rightarrow> value_object \<Rightarrow> int \<Rightarrow> 'a site \<Rightarrow> bool \<times> bool \<times> 'a site" where
  "handle_ess_sequence_functions E cmd v tol s =
     (if cmd = ''get_num_ess_available'' then answer (float_matches v (of_int (num_ess_available s)) tol) s
      else if cmd = ''get_num_ess_running'' then answer (float_matches v (of_int (num_ess_running s)) tol) s
      else if cmd = ''get_num_ess_controllable'' then answer (float_matches v (of_int (num_ess_controllable s)) tol) s
      else if cmd = ''get_ess_active_power'' then answer (float_matches v (ess_actual_kW s) tol) s
      else if cmd = ''start_all_ess'' then (True, ask E Start_all_ess s)
      else if cmd = ''stop_all_ess'' then (True, ask E Stop_all_ess s)
      else if cmd = ''set_all_ess_grid_form'' then answer True (order E Set_all_ess_grid_form s)
      else if cmd = ''set_all_ess_grid_follow'' then answer True (order E Set_all_ess_grid_follow s)
      else if cmd = ''set_voltage_slope'' then answer True (order E (Set_grid_forming_voltage_slew (value_float v)) s)
      else if cmd = ''open_contactors'' then answer True (order E Open_all_bms_contactors s)
      else if cmd = ''close_contactors'' then answer True (order E Close_all_bms_contactors s)
      else if cmd = ''synchronize_ess'' then (True, synchronize_ess E s)
      else if cmd = ''has_faults'' then answer ((am_num_active_faults (am_view E (am s)) ESS > 0) = value_bool v) s
      else if cmd = ''allow_auto_restart'' then answer True (s\<lparr>allow_ess_auto_restart := value_bool v\<rparr>)
      else if cmd = ''controllable_soc_above'' then answer (vtype v = T_Float \<and> soc_avg_running (pw s) > value_float v) s
      else if cmd = ''controllable_soc_below'' then answer (vtype v = T_Float \<and> soc_avg_running (pw s) < value_float v) s
      else if cmd = ''all_soc_above'' then answer (vtype v = T_Float \<and> soc_avg_all s > value_float v) s
      else if cmd = ''all_soc_below'' then answer (vtype v = T_Float \<and> soc_avg_all s < value_float v) s
      else (False, True, s))"

definition handle_gen_sequence_functions ::
    "'a am_env \<Rightarrow> string \<Rightarrow> value_object \<Rightarrow> int \<Rightarrow> 'a site \<Rightarrow> bool \<times> bool \<times> 'a site" where
  "handle_gen_sequence_functions E cmd v tol s =
     (if cmd = ''get_num_gen_available'' then answer (float_matches v (of_int (num_gen_available s)) tol) s
      else if cmd = ''get_num_gen_running'' then answer (float_matches v (of_int (num_gen_running s)) tol) s
      else if cmd = ''get_num_gen_active'' then answer (float_matches v (of_int (num_gen_active s)) tol) s
      else if cmd = ''min_generators_active'' then answer True (order E (Set_min_generators_active (c_trunc (value_float v))) s)
      else if cmd = ''direct_start_gen'' then (True, ask E Direct_start_gen s)
      else if cmd = ''start_all_gen'' then answer True (order E Start_all_gen s)
      else if cmd = ''stop_all_gen'' then (True, ask E Stop_all_gen s)
      else if cmd = ''set_all_gen_grid_follow'' then answer True (order E Set_all_gen_grid_follow s)
      else if cmd = ''set_all_gen_grid_form'' then answer True (order E Set_all_gen_grid_form s)
      else if cmd = ''has_faults'' then answer ((am_num_active_faults (am_view E (am s)) GENERATORS > 0) = value_bool v) s
      else if cmd = ''allow_auto_restart'' then answer True (s\<lparr>allow_gen_auto_restart := value_bool v\<rparr>)
      else (False, True, s))"

definition handle_solar_sequence_functions ::
    "'a am_env \<Rightarrow> string \<Rightarrow> value_object \<Rightarrow> int \<Rightarrow> 'a site \<Rightarrow> bool \<times> bool \<times> 'a site" where
  "handle_solar_sequence_functions E cmd v tol s =
     (if cmd = ''get_num_solar_available'' then answer (float_matches v (of_int (num_solar_available s)) tol) s
      else if cmd = ''get_num_solar_running'' then answer (float_matches v (of_int (num_solar_running (pw s))) tol) s
      else if cmd = ''start_all_solar'' then (True, ask E Start_all_solar s)
      else if cmd = ''stop_all_solar'' then (True, ask E Stop_all_solar s)
      else if cmd = ''has_faults'' then answer ((am_num_active_faults (am_view E (am s)) SOLAR > 0) = value_bool v) s
      else if cmd = ''allow_auto_restart'' then answer True (s\<lparr>allow_solar_auto_restart := value_bool v\<rparr>)
      else (False, True, s))"

definition handle_feed_sequence_functions ::
    "'a am_env \<Rightarrow> string \<Rightarrow> value_object \<Rightarrow> 'a site \<Rightarrow> bool \<times> bool \<times> 'a site" where
  "handle_feed_sequence_functions E cmd v s =
     (if cmd = ''get_sync_feeder_state'' then answer (vtype v = T_Bool \<and> value_bool v = get_sync_feeder_status E (am s)) s
      else if cmd = ''get_poi_feeder_state'' then answer (vtype v = T_Bool \<and> value_bool v = get_poi_feeder_state E (am s)) s
      else if cmd = ''set_poi_feeder_state_open'' then (True, ask E Set_poi_feeder_state_open s)
      else if cmd = ''set_poi_feeder_state_closed'' then (True, ask E Set_poi_feeder_state_closed s)
      else if cmd = ''set_sync_feeder_close_permissive_remove'' then (True, ask E Set_sync_feeder_close_permissive_remove s)
      else if cmd = ''set_sync_feeder_close_permissive'' then (True, ask E Set_sync_feeder_close_permissive s)
      else (False, True, s))"

definition handle_config_sequence_functions ::
    "'a am_env \<Rightarrow> string \<Rightarrow> value_object \<Rightarrow> 'a site \<Rightarrow> bool \<times> bool \<times> 'a site" where
  "handle_config_sequence_functions E cmd v s =
     (if cmd = ''clear_faults'' then answer True (clear_faults E s)
      else if cmd = ''get_standby_flag'' then answer (standby_flag s = value_bool v) s
      else (False, True, s))"

definition handle_feat_sequence_functions :: "string \<Rightarrow> value_object \<Rightarrow> 'a site \<Rightarrow> bool \<times> bool \<times> 'a site" where
  "handle_feat_sequence_functions cmd v s =
     (if cmd = ''reset_load_shed'' then
        let configured_shed_value = c_trunc (value_float v); ls = load_shed_f (features (pw s))
        in if configured_shed_value < ival LS_min_value ls \<or> configured_shed_value > ival LS_max_value ls then (False, True, s)
           else let ls = store_int LS_value configured_shed_value ls;
                    ls = ls\<lparr>load_shed_calculator := (load_shed_calculator ls)\<lparr>offset := configured_shed_value\<rparr>\<rparr>
                in answer True (upd_pw (upd_features (\<lambda>f. f\<lparr>load_shed_f := ls\<rparr>)) s)
      else if cmd = ''enable_ldss'' then answer True (s\<lparr>ldss_enable_flag := value_bool v\<rparr>)
      else (False, True, s))"

definition handle_specific_feed_sequence_functions ::
    "'a am_env \<Rightarrow> string \<Rightarrow> value_object \<Rightarrow> string \<Rightarrow> 'a site \<Rightarrow> bool \<times> bool \<times> 'a site" where
  "handle_specific_feed_sequence_functions E cmd v target_asset s =
     (if \<not> validate_feeder_id (am_view E (am s)) target_asset then (False, True, s)
      else if cmd = ''set_feeder_state_open'' then (True, ask E (Set_feeder_state_open target_asset) s)
      else if cmd = ''set_feeder_state_closed'' then (True, ask E (Set_feeder_state_closed target_asset) s)
      else if cmd = ''get_feeder_state''
      then answer (vtype v = T_Bool \<and> value_bool v = get_feeder_state (am_view E (am s)) target_asset) s
      else if cmd = ''get_utility_status''
      then answer (vtype v = T_Bool \<and> value_bool v = get_feeder_utility_status E target_asset (am s)) s
      else (False, True, s))"

definition site_call_sequence_functions ::
    "'a am_env \<Rightarrow> string \<Rightarrow> string \<Rightarrow> value_object \<Rightarrow> int \<Rightarrow> 'a site \<Rightarrow> bool \<times> 'a site" where
  "site_call_sequence_functions E target_asset cmd v tol s =
     (if target_asset = ''bypass'' then (True, s)
      else if target_asset = ''new_path'' then (False, s)
      else let (command_found, return_value, s) =
          (if target_asset = ''reserved'' then handle_reserved_variable_sequence_functions cmd v tol s
           else if target_asset = ''ess'' then handle_ess_sequence_functions E cmd v tol s
           else if target_asset = ''gen'' then handle_gen_sequence_functions E cmd v tol s
           else if target_asset = ''solar'' then handle_solar_sequence_functions E cmd v tol s
           else if target_asset = ''feeder'' then handle_feed_sequence_functions E cmd v s
           else if target_asset = ''config'' then handle_config_sequence_functions E cmd v s
           else if target_asset = ''features'' then handle_feat_sequence_functions cmd v s
           else handle_specific_feed_sequence_functions E cmd v target_asset s)
        in (command_found \<and> return_value, s))"

text \<open>What a sequence of the site can call.  It never calls the functions of an ESS action.\<close>

definition site_seq_env :: "'a am_env \<Rightarrow> 'a site seq_env" where
  "site_seq_env E = \<lparr>call_sequence_functions = site_call_sequence_functions E,
     call_action_functions = (\<lambda>_ _ _ s. (False, s)),
     set_site_status = (\<lambda>m s. s\<lparr>site_status := m\<rparr>),
     emit_event = site_emit, set_faults = site_set_fault, clock_gettime = read_clock\<rparr>"

end
