(* ===== verification/Site_State.thy ===== *)
theory Site_State
  imports Site_Functions
begin

text \<open>
  The state machine of \<^verbatim>\<open>Site_Manager\<close>: the check that decides which state to run
  (\<^verbatim>\<open>check_state\<close>), the sequence of that state, and the function of each state.  \<open>run_state_machine\<close>
  is the part of \<^verbatim>\<open>process_state\<close> between reading the inputs and writing the outputs.
\<close>

section \<open>Reporting the state\<close>

definition state_name :: "states \<Rightarrow> string" where
  "state_name st = (case st of Init \<Rightarrow> ''Init'' | Ready \<Rightarrow> ''Ready'' | Startup \<Rightarrow> ''Startup'' | RunMode1 \<Rightarrow> ''RunMode1''
     | RunMode2 \<Rightarrow> ''RunMode2'' | Standby \<Rightarrow> ''Standby'' | Shutdown \<Rightarrow> ''Shutdown'' | Error \<Rightarrow> ''Error'')"

definition get_alternate_site_state :: "'a site \<Rightarrow> alt_states" where
  "get_alternate_site_state s = (case site_state_enum s of
       Init \<Rightarrow> TRANSIENT_INIT | Ready \<Rightarrow> READY | Startup \<Rightarrow> STARTUP | RunMode1 \<Rightarrow> RUNNING_FOLLOWING
     | RunMode2 \<Rightarrow> RUNNING_FORMING | Standby \<Rightarrow> STANDBY_ERROR
     | Shutdown \<Rightarrow> if get_faults (alerts (pw s)) then FAULTED_STATE else SHUTDOWN
     | Error \<Rightarrow> STANDBY_ERROR)"

section \<open>Deciding the state\<close>

abbreviation cur :: "'a site \<Rightarrow> states" where
  "cur s \<equiv> current_state (status_of s)"

definition goto :: "states \<Rightarrow> 'a site \<Rightarrow> 'a site" where
  "goto st s = s\<lparr>status_of := (status_of s)\<lparr>current_state := st\<rparr>\<rparr>"

text \<open>The SET of the state that is meant for debugging, to one of the values of the enumeration.\<close>

definition debug_set_state :: "states \<Rightarrow> 'a site \<Rightarrow> 'a site" where
  "debug_set_state st s = (if st \<noteq> cur s then snd (set_state st s) else s)"

definition upd_seq :: "states \<Rightarrow> (sequence \<Rightarrow> sequence) \<Rightarrow> 'a site \<Rightarrow> 'a site" where
  "upd_seq st f s = s\<lparr>sequences := (sequences s)(st := f (sequences s st))\<rparr>"

text \<open>What the alert checks of a path see: the asset manager, and the reserved variables of the site.\<close>

definition site_view :: "'a am_env \<Rightarrow> 'a site \<Rightarrow> asset_view" where
  "site_view E s = (am_view E (am s))\<lparr>get_reserved_bool := (\<lambda>i. (reserved_bool s (nat i), reserved_name s (nat i)))\<rparr>"

text \<open>\<^verbatim>\<open>check_faults\<close> or \<^verbatim>\<open>check_alarms\<close> of the sequence of a state.  A site sequence has no asset, hence the idle one.\<close>

definition seq_check :: "'a am_env \<Rightarrow> alert_type \<Rightarrow> states \<Rightarrow> 'a site \<Rightarrow> (bool \<times> 'a site) option" where
  "seq_check E ty st s = do {
     (b, q, sa, _) \<leftarrow> check_path_alerts (site_view E s) ty (sequences s st) (alerts (pw s)) idle_ess;
     Some (b, upd_alerts (\<lambda>_. sa) (upd_seq st (\<lambda>_. q) s)) }"

text \<open>A state that differs from the one of the last cycle is announced and its sequence is reset.\<close>

definition enter_state :: "'a site \<Rightarrow> 'a site" where
  "enter_state s =
     (if check_current_state (status_of s) \<noteq> cur s then
        let s = site_emit ''Site'' (short_msg (''State changed to '' @ state_name (cur s))) STATUS_ALERT s;
            s = upd_seq (check_current_state (status_of s)) (\<lambda>q. q\<lparr>sequence_bypass := False\<rparr>) s;
            s = s\<lparr>status_of := (status_of s)\<lparr>check_current_state := cur s, sequence_reset := True\<rparr>\<rparr>
        in s\<lparr>site_state := state_name (cur s), site_state_enum := cur s\<rparr>
      else s)"

definition decide_state :: "'a am_env \<Rightarrow> 'a site \<Rightarrow> 'a site option" where
  "decide_state E s = do {
     let st = cur s;
     (faulted, s) \<leftarrow> (if st \<noteq> Init then seq_check E FAULT_ALERT st s else Some (False, s));
     let s = (if st \<noteq> Init \<and> (faulted \<or> disable_flag s) then goto Shutdown s else s);
     (_, s) \<leftarrow> seq_check E ALARM_ALERT st s;
     p \<leftarrow> cur_path (sequences s st);
     Some (s\<lparr>num_path_faults := num_active_faults p, num_path_alarms := num_active_alarms p\<rparr>) }"

definition check_state :: "'a am_env \<Rightarrow> 'a site \<Rightarrow> 'a site option" where
  "check_state E s = do {
     s \<leftarrow> decide_state E s;
     let s = enter_state (s\<lparr>running_status_flag := (cur s = RunMode1 \<or> cur s = RunMode2)\<rparr>);
     Some (s\<lparr>alt_site_state_enum := get_alternate_site_state s\<rparr>) }"

text \<open>The sequence of the current state.\<close>

definition call_current :: "'a am_env \<Rightarrow> 'a site \<Rightarrow> 'a site option" where
  "call_current E s = do {
     (ss, q, s') \<leftarrow> call_sequence (site_seq_env E) (status_of s) (sequences s (cur s)) s;
     Some (upd_seq (cur s) (\<lambda>_. q) (s'\<lparr>status_of := ss\<rparr>)) }"

section \<open>The states\<close>

text \<open>
  Commands and slew limiters at the start and at the shutdown: the commands are zero and the nine
  slew limiters restart at the clock, read once for each.
\<close>

definition zero_cmds :: "'a site \<Rightarrow> 'a site" where
  "zero_cmds s = upd_pw (\<lambda>p. p\<lparr>ess_kW_cmd := 0, gen_kW_cmd := 0, solar_kW_cmd := 0, feeder_kW_cmd := 0,
     ess_kVAR_cmd := 0, gen_kVAR_cmd := 0, solar_kVAR_cmd := 0\<rparr>) (s\<lparr>site_kW_demand_v := 0, site_kW_load_v := 0\<rparr>)"

definition reset_slews :: "'a site \<Rightarrow> 'a site" where
  "reset_slews s =
     (let t = (\<lambda>i. clk s (tick s + i));
          s = upd_pw (upd_features (\<lambda>f. f
            \<lparr>active_power_setpoint_mode := (active_power_setpoint_mode f)
               \<lparr>aps_kW_slew := reset_slew_target (t 0) (aps_kW_slew (active_power_setpoint_mode f))\<rparr>,
             manual_power_mode := (manual_power_mode f)
               \<lparr>manual_solar_kW_slew := reset_slew_target (t 1) (manual_solar_kW_slew (manual_power_mode f)),
                manual_ess_kW_slew := reset_slew_target (t 2) (manual_ess_kW_slew (manual_power_mode f)),
                manual_gen_kW_slew := reset_slew_target (t 3) (manual_gen_kW_slew (manual_power_mode f))\<rparr>,
             reactive_setpoint_f := (reactive_setpoint_f f)
               \<lparr>kVAR_cmd_slew := reset_slew_target (t 7) (kVAR_cmd_slew (reactive_setpoint_f f))\<rparr>,
             avr_f := (avr_f f)\<lparr>avr_kVAR_slew := reset_slew_target (t 8) (avr_kVAR_slew (avr_f f))\<rparr>\<rparr>)) s;
          s = upd_pw (\<lambda>p. p\<lparr>gen_kVAR_cmd_slew := reset_slew_target (t 4) (gen_kVAR_cmd_slew p),
             ess_kVAR_cmd_slew := reset_slew_target (t 5) (ess_kVAR_cmd_slew p),
             solar_kVAR_cmd_slew := reset_slew_target (t 6) (solar_kVAR_cmd_slew p)\<rparr>) s
      in s\<lparr>tick := tick s + 9\<rparr>)"

definition init_closed_loop :: "closed_loop \<Rightarrow> closed_loop" where
  "init_closed_loop f =
     (let r = (regulator f)\<lparr>min_offset := ival CL_min_offset f, max_offset := ival CL_max_offset f,
                offset := ival CL_default_offset f, default_offset := ival CL_default_offset f\<rparr>;
          f = store_int CL_update_rate_ms (max (ival CL_update_rate_ms f) 10) f;
          r = set_update_rate (1000 / of_int (ival CL_update_rate_ms f)) r;
          r = set_default_condition (fval CL_steady_state_deadband_kW f) VALUE_ABOVE r;
          r = set_control_high_threshold (fval CL_regulation_deadband_kW f) r;
          r = set_decrease_timer_duration_ms (ival CL_decrease_timer_ms f) r;
          r = set_control_low_threshold (-1 * fval CL_regulation_deadband_kW f) r;
          r = set_increase_timer_duration_ms (ival CL_increase_timer_ms f) r
      in f\<lparr>regulator := r\<rparr>)"

definition init_slew_rates :: "site_features \<Rightarrow> site_features" where
  "init_slew_rates f = f
     \<lparr>active_power_setpoint_mode := (active_power_setpoint_mode f)
        \<lparr>aps_kW_slew := set_slew_rate (ival APS_kW_slew_rate (active_power_setpoint_mode f)) (aps_kW_slew (active_power_setpoint_mode f))\<rparr>,
      manual_power_mode := (manual_power_mode f)
        \<lparr>manual_solar_kW_slew := set_slew_rate (ival MAN_solar_kW_slew_rate (manual_power_mode f)) (manual_solar_kW_slew (manual_power_mode f)),
         manual_ess_kW_slew := set_slew_rate (ival MAN_ess_kW_slew_rate (manual_power_mode f)) (manual_ess_kW_slew (manual_power_mode f)),
         manual_gen_kW_slew := set_slew_rate (ival MAN_gen_kW_slew_rate (manual_power_mode f)) (manual_gen_kW_slew (manual_power_mode f))\<rparr>,
      avr_f := (avr_f f)\<lparr>avr_kVAR_slew := set_slew_rate (ival AVR_kVAR_slew_rate (avr_f f)) (avr_kVAR_slew (avr_f f))\<rparr>\<rparr>"

definition init_state :: "'a site \<Rightarrow> 'a site option" where
  "init_state s = do {
     let s = goto Ready (site_emit ''Site'' ''System initialized'' INFO_ALERT s);
     let s = reset_slews (zero_cmds s);
     let f = features (pw s);
     wv \<leftarrow> wv_init_curve (watt_var_f f);
     ww \<leftarrow> ww_init_curve (watt_watt_f f);
     let (out, ls) = ls_init (is_primary s) (load_shed_f f);
     let f = f\<lparr>watt_var_f := wv, watt_watt_f := ww, load_shed_f := ls, solar_shed_f := ss_init (solar_shed_f f),
               active_power_closed_loop := init_closed_loop (active_power_closed_loop f),
               reactive_power_closed_loop := rcl_init (reactive_power_closed_loop f)\<rparr>;
     let s = upd_pw (\<lambda>p. p\<lparr>features := init_slew_rates f,
               ess_kVAR_cmd_slew := set_slew_rate (ess_kVAR_slew_rate s) (ess_kVAR_cmd_slew p),
               gen_kVAR_cmd_slew := set_slew_rate (gen_kVAR_slew_rate s) (gen_kVAR_cmd_slew p),
               solar_kVAR_cmd_slew := set_slew_rate (solar_kVAR_slew_rate s) (solar_kVAR_cmd_slew p)\<rparr>) s;
     Some (upd_pw (tell (Set_first_gen_is_starting_flag False)) (s\<lparr>sent := sent s @ [out]\<rparr>)) }"

definition ready_state :: "'a site \<Rightarrow> 'a site" where
  "ready_state s = (if value_bool (fo_value (enable_flag s)) \<and> \<not> disable_flag s then goto Startup s else s)"

definition startup_state :: "'a site \<Rightarrow> 'a site" where
  "startup_state s = s"

definition error_state :: "'a site \<Rightarrow> 'a site" where
  "error_state s = s"

definition site_runmode1 :: "site_readings \<Rightarrow> site_clocks \<Rightarrow> 'a site \<Rightarrow> 'a site option" where
  "site_runmode1 rd ck s = do {
     p \<leftarrow> runmode1_state rd ck (ss_current_time (status_of s)) (pw s);
     let s = s\<lparr>pw := p\<rparr>;
     Some (if standby_flag s then goto Standby (s\<lparr>standby_ess_latch := False, standby_solar_latch := False\<rparr>) else s) }"

definition site_runmode2 :: "site_readings \<Rightarrow> site_clocks \<Rightarrow> 'a site \<Rightarrow> 'a site option" where
  "site_runmode2 rd ck s = do {
     (out, p) \<leftarrow> runmode2_state (is_primary s) rd ck (pw s);
     Some (s\<lparr>pw := p, sent := sent s @ [out]\<rparr>) }"

definition standby_state :: "site_readings \<Rightarrow> 'a site \<Rightarrow> 'a site" where
  "standby_state rd s =
     (let s = upd_pw (\<lambda>p. p\<lparr>ess_kW_cmd := 0, feeder_kW_cmd := 0, gen_kW_cmd := 0, solar_kW_cmd := 0,
                ess_kVAR_cmd := get_slew_target (ess_kVAR_cmd_slew p) 0,
                gen_kVAR_cmd := get_slew_target (gen_kVAR_cmd_slew p) 0,
                solar_kVAR_cmd := get_slew_target (solar_kVAR_cmd_slew p) 0\<rparr>) (s\<lparr>site_kW_demand_v := 0\<rparr>);
          s = (if prev_solar_kW_cmd s = 0 \<and> prev_solar_kVAR_cmd s = 0 \<and>
                  (\<not> standby_solar_latch s \<or> rd_num_solar_controllable rd > 0)
               then upd_pw (tell Enter_standby_all_solar) (s\<lparr>standby_solar_latch := True\<rparr>) else s);
          s = (if prev_ess_kW_cmd s = 0 \<and> prev_ess_kVAR_cmd s = 0 \<and>
                  (\<not> standby_ess_latch s \<or> rd_num_ess_controllable rd > 0)
               then upd_pw (tell Enter_standby_all_ess) (s\<lparr>standby_ess_latch := True\<rparr>) else s)
      in if \<not> standby_flag s
         then goto RunMode1 (upd_pw (tell Exit_standby_all_solar) (upd_pw (tell Exit_standby_all_ess) s))
         else s)"

definition shutdown_state :: "'a site \<Rightarrow> 'a site" where
  "shutdown_state s =
     (let s = reset_slews (zero_cmds s);
          (out, ls) = ls_reset (is_primary s) (load_shed_f (features (pw s)));
          s = upd_pw (upd_features (\<lambda>f. f\<lparr>load_shed_f := ls, solar_shed_f := ss_reset (solar_shed_f f),
                active_power_closed_loop := (active_power_closed_loop f)\<lparr>regulator :=
                  (regulator (active_power_closed_loop f))\<lparr>offset := c_trunc (fval CL_default_offset (active_power_closed_loop f))\<rparr>\<rparr>\<rparr>))
              (s\<lparr>sent := sent s @ [out]\<rparr>);
          s = (if has_data_endpoint s \<and> value_bool (fo_value (enable_flag s)) then upd_pw (tell Turn_off_start_cmd) s else s);
          s = (if sequence_bypass (sequences s Shutdown) then goto Ready s else s);
          s = s\<lparr>clear_faults_flag := set_flag_inputs False (clear_faults_flag s)\<rparr>
      in upd_pw (\<lambda>p. p\<lparr>asset_cmd := (asset_cmd p)
           \<lparr>ess_data := (ess_data (asset_cmd p))\<lparr>start_first_flag := False\<rparr>,
            gen_data := (gen_data (asset_cmd p))\<lparr>start_first_flag := False\<rparr>,
            solar_data := (solar_data (asset_cmd p))\<lparr>start_first_flag := False\<rparr>\<rparr>\<rparr>) s)"

definition run_state :: "site_readings \<Rightarrow> site_clocks \<Rightarrow> 'a site \<Rightarrow> 'a site option" where
  "run_state rd ck s = (case cur s of
       Init \<Rightarrow> init_state s
     | Ready \<Rightarrow> Some (ready_state s)
     | Startup \<Rightarrow> Some (startup_state s)
     | RunMode1 \<Rightarrow> site_runmode1 rd ck s
     | RunMode2 \<Rightarrow> site_runmode2 rd ck s
     | Standby \<Rightarrow> Some (standby_state rd s)
     | Shutdown \<Rightarrow> Some (shutdown_state s)
     | Error \<Rightarrow> Some (error_state s))"

text \<open>The button that clears the faults, and the watchdog.\<close>

definition handle_clear_faults :: "'a am_env \<Rightarrow> 'a site \<Rightarrow> 'a site" where
  "handle_clear_faults E s =
     (if value_bool (fo_value (clear_faults_flag s))
      then let s = clear_faults E s in s\<lparr>clear_faults_flag := set_flag_inputs False (clear_faults_flag s)\<rparr> else s)"

definition run_watchdog :: "'a site \<Rightarrow> 'a site option" where
  "run_watchdog s = do {
     let now = ss_current_time (status_of s);
     s \<leftarrow> (if bval WD_enable_flag (watchdog_feature s) then
             let (t, s) = read_clock s; (bark, wd) = should_bark now t (watchdog_feature s); s = s\<lparr>watchdog_feature := wd\<rparr>
             in if bark then dogbark s else Some s
           else Some s);
     let (t, s) = read_clock s;
     wd \<leftarrow> beat now t (watchdog_feature s);
     Some (s\<lparr>watchdog_feature := wd\<rparr>) }"

definition run_state_machine :: "'a am_env \<Rightarrow> site_readings \<Rightarrow> site_clocks \<Rightarrow> 'a site \<Rightarrow> 'a site option" where
  "run_state_machine E rd ck s = do {
     s \<leftarrow> run_watchdog (handle_clear_faults E s);
     s \<leftarrow> check_state E s;
     s \<leftarrow> call_current E s;
     run_state rd ck s }"

end
