(* ===== verification/Sequence_World.thy ===== *)
theory Sequence_World
  imports Sequences
begin

text \<open>
  What a sequence does to its surroundings: which parts of the world its calls leave alone, stated
  once for every environment whose functions leave them alone, and how it changes the state of the
  site: not at all, or to the return state of the path it has just completed.
\<close>

section \<open>The world outside a sequence\<close>

locale framed_env =
  fixes env :: "'w seq_env"
    and part :: "'w \<Rightarrow> 'p"
  assumes functions_frame: "part (snd (call_sequence_functions env t c v tol w)) = part w"
    and actions_frame: "part (snd (call_action_functions env c v tol w)) = part w"
    and status_frame: "part (set_site_status env m w) = part w"
    and event_frame: "part (emit_event env src m sev w) = part w"
    and faults_frame: "part (set_faults env n w) = part w"
    and clock_frame: "part (snd (clock_gettime env w)) = part w"
begin

lemmas frames = functions_frame actions_frame status_frame event_frame faults_frame clock_frame

lemma clock_eq: "clock_gettime env w = (t, w') \<Longrightarrow> part w' = part w"
  using clock_frame [of w] by simp

lemma call_target_frame: "call_target env ty a w = Some (r, w') \<Longrightarrow> part w' = part w"
  using functions_frame actions_frame
  by (auto simp: call_target_def split: option.splits Sequence_Type.splits) (metis snd_conv)+

lemma entry_loop_frame: "entry_loop env ty as b w = (as', b', w') \<Longrightarrow> part w' = part w"
proof (induction as arbitrary: as' b b' w w')
  case (Cons a as)
  show ?case
  proof (cases "call_target env ty a w")
    case (Some rw)
    obtain r v where rw: "rw = (r, v)" by force
    obtain as'' b'' v' where l: "entry_loop env ty as (b \<or> r) v = (as'', b'', v')" by (metis prod_cases3)
    then have "w' = v'" using Cons.prems Some rw by simp
    with Cons.IH [OF l] call_target_frame Some rw show ?thesis by metis
  qed (use Cons.prems in auto)
qed simp

lemma debounce_check_frame: "debounce_check env now a f w = (a', p, f', w') \<Longrightarrow> part w' = part w"
  by (auto simp: debounce_check_def Let_def split: if_splits prod.splits dest: clock_eq)

lemma exit_loop_frame: "exit_loop env ty now as b f w = (as', b', f', w') \<Longrightarrow> part w' = part w"
proof (induction as arbitrary: as' b b' f f' w w')
  case (Cons a as)
  let ?a = "a\<lparr>reason_for_exit_failure := CONDITIONAL\<rparr>"
  show ?case
  proof (cases "call_target env ty ?a w")
    case (Some rw)
    obtain r v where rw: "rw = (r, v)" by force
    obtain a1 p f1 v1 where d: "debounce_check env now (?a\<lparr>sa_result := r\<rparr>) f v = (a1, p, f1, v1)" by (metis prod_cases4)
    obtain as2 b2 f2 v2 where l: "exit_loop env ty now as (b \<or> p) f1 v1 = (as2, b2, f2, v2)" by (metis prod_cases4)
    have "w' = v2" using Cons.prems Some rw d l by (simp add: Let_def)
    with Cons.IH [OF l] debounce_check_frame [OF d] call_target_frame Some rw show ?thesis by metis
  qed (use Cons.prems in \<open>auto simp: Let_def\<close>)
qed simp

lemma call_function_frame: "call_function env ss s w = Some (r, s', w') \<Longrightarrow> part w' = part w"
  by (auto simp: call_function_def handle_entry_action_def handle_exit_action_def Let_def
      split: if_splits Option.bind_splits prod.splits dest: entry_loop_frame exit_loop_frame)

lemma run_step_frame: "run_step env ss s w = Some (ss', s', w') \<Longrightarrow> part w' = part w"
proof -
  have entry: "part v = part w" if "call_sequence_entry env ss s w = Some (t, v)" for ss s t w v
    using that by (auto simp: call_sequence_entry_def split: Option.bind_splits dest: call_function_frame)
  have exit: "part v = part w" if "call_sequence_exit env ss s w = Some (u, t, v)" for ss s t u w v
    using that by (auto simp: call_sequence_exit_def split: Option.bind_splits if_splits dest: call_function_frame)
  show "part w' = part w" if "run_step env ss s w = Some (ss', s', w')"
    using that by (auto simp: run_step_def split: if_splits Option.bind_splits dest!: entry exit)
qed

lemma call_sequence_frame:
  assumes "call_sequence env ss s w = Some (ss', s', w')"
  shows "part w' = part w"
proof -
  have reset: "part v = part w" if "reset_step env ss s w = Some (u, t, v)" for ss s w u t v
    using that by (auto simp: reset_step_def Let_def split: prod.splits Option.bind_splits dest: clock_eq)
  have change: "part v = part w" if "check_path_step_change env ss s w = Some (u, v)" for ss s w u v
    using that by (auto simp: check_path_step_change_def Let_def frames split: if_splits Option.bind_splits)
  have complete: "part v = part w" if "complete_sequence env (ss, s, w) = Some (u, t, v)" for ss s w u t v
    using that by (auto simp: complete_sequence_def frames split: if_splits Option.bind_splits)
  have out: "part v = part w" if "time_out_step env (ss, s, w) = Some (u, t, v)" for ss s w u t v
    using that by (auto simp: time_out_step_def Let_def frames split: if_splits Option.bind_splits prod.splits dest!: clock_eq)
  show ?thesis using assms
    by (auto simp: call_sequence_def Let_def split: if_splits Option.bind_splits prod.splits
        dest!: reset change run_step_frame complete out)
qed

end

section \<open>The state of the site\<close>

text \<open>The part of the status that only completing a sequence, or nothing of it, changes.\<close>

definition status_core :: "sequences_status \<Rightarrow> states \<times> states \<times> timespec" where
  "status_core ss = (current_state ss, check_current_state ss, ss_current_time ss)"

lemma reset_step_core: "reset_step env ss s w = Some (ss', s', w') \<Longrightarrow> status_core ss' = status_core ss"
  by (auto simp: reset_step_def status_core_def Let_def split: prod.splits Option.bind_splits if_splits)

lemma check_path_step_change_core:
  "check_path_step_change env ss s w = Some (ss', w') \<Longrightarrow> status_core ss' = status_core ss"
  by (auto simp: check_path_step_change_def status_core_def Let_def split: Option.bind_splits if_splits)

lemma run_step_core: "run_step env ss s w = Some (ss', s', w') \<Longrightarrow> status_core ss' = status_core ss"
  by (auto simp: run_step_def call_sequence_exit_def handle_initial_exit_attempt_def status_core_def Let_def
      split: Option.bind_splits if_splits)

lemma time_out_step_core: "time_out_step env (ss, s, w) = Some (ss', s', w') \<Longrightarrow> status_core ss' = status_core ss \<and> s' = s"
  by (auto simp: time_out_step_def status_core_def Let_def split: Option.bind_splits if_splits prod.splits)

lemma complete_sequence_core:
  assumes "complete_sequence env (ss, s, w) = Some (ss', s', w')"
  shows "status_core ss' = status_core ss \<and> s' = s \<and> (\<exists>p. cur_path s = Some p \<and> current_step_index s < length (steps p)) \<or>
    (\<exists>p. cur_path s' = Some p \<and> length (steps p) \<le> current_step_index s' \<and> sequence_bypass s' \<and>
      status_core ss' = (return_state p, snd (status_core ss)))"
  using assms by (auto simp: complete_sequence_def status_core_def split: Option.bind_splits if_splits)

text \<open>
  A call leaves the state alone or sets it to the return state of the path that is now complete,
  with the sequence marked as done.
\<close>

lemma call_sequence_core:
  assumes "call_sequence env ss s w = Some (ss', s', w')"
  shows "status_core ss' = status_core ss \<or>
    (\<exists>p. cur_path s' = Some p \<and> length (steps p) \<le> current_step_index s' \<and> sequence_bypass s' \<and>
      status_core ss' = (return_state p, snd (status_core ss)))"
proof -
  obtain ss0 s0 where 0: "(if sequence_reset ss then reset_sequence ss s else (ss, s)) = (ss0, s0)" by force
  have c0: "status_core ss0 = status_core ss" using 0 by (auto simp: reset_sequence_def status_core_def split: if_splits)
  from assms 0 obtain ss1 s1 w1 where 1: "(if step_reset s0 then reset_step env ss0 s0 w else Some (ss0, s0, w)) = Some (ss1, s1, w1)"
    by (auto simp: call_sequence_def split: Option.bind_splits)
  have c1: "status_core ss1 = status_core ss0" using 1 by (auto dest: reset_step_core split: if_splits)
  show ?thesis
  proof (cases "sequence_bypass s1")
    case True
    with assms 0 1 c0 c1 show ?thesis by (simp add: call_sequence_def)
  next
    case False
    with assms 0 1 obtain ss2 w2 ss3 s3 w3 r where r: "check_path_step_change env ss1 s1 w1 = Some (ss2, w2)"
      "run_step env ss2 s1 w2 = Some (ss3, s3, w3)" "complete_sequence env (ss3, s3, w3) = Some r"
      "time_out_step env r = Some (ss', s', w')"
      by (fastforce simp: call_sequence_def split: Option.bind_splits)
    obtain ss4 s4 w4 where r4: "r = (ss4, s4, w4)" by (metis prod_cases3)
    have c3: "status_core ss3 = status_core ss"
      using check_path_step_change_core [OF r(1)] run_step_core [OF r(2)] c0 c1 by simp
    have c5: "status_core ss' = status_core ss4" "s' = s4" using time_out_step_core [of env ss4 s4 w4] r(4) r4 by auto
    from complete_sequence_core [of env ss3 s3 w3 ss4 s4 w4] r(3) r4 c3 c5 show ?thesis by auto
  qed
qed

text \<open>No operation changes the type of a sequence.\<close>

lemma upd_step_type [simp]: "sequence_type (upd_step f s) = sequence_type s"
  by (simp add: upd_step_def)

lemma call_function_type: "call_function env ss s w = Some (r, s', w') \<Longrightarrow> sequence_type s' = sequence_type s"
  by (auto simp: call_function_def handle_entry_action_def handle_exit_action_def Let_def
      split: if_splits Option.bind_splits prod.splits)

lemma run_step_type: "run_step env ss s w = Some (ss', s', w') \<Longrightarrow> sequence_type s' = sequence_type s"
proof -
  have entry: "sequence_type t = sequence_type s" if "call_sequence_entry env ss s w = Some (t, v)" for ss s t w v
    using that by (auto simp: call_sequence_entry_def split: Option.bind_splits dest!: call_function_type)
  have exit: "sequence_type t = sequence_type s" if "call_sequence_exit env ss s w = Some (u, t, v)" for ss s t u w v
    using that by (auto simp: call_sequence_exit_def handle_initial_exit_attempt_def Let_def
        split: Option.bind_splits if_splits dest!: call_function_type)
  show "sequence_type s' = sequence_type s" if "run_step env ss s w = Some (ss', s', w')"
    using that by (auto simp: run_step_def split: if_splits Option.bind_splits dest!: entry exit)
qed

lemma call_sequence_type:
  assumes "call_sequence env ss s w = Some (ss', s', w')"
  shows "sequence_type s' = sequence_type s"
proof -
  have reset: "sequence_type t = sequence_type s" if "reset_step env ss s w = Some (u, t, v)" for ss s w u t v
    using that by (auto simp: reset_step_def Let_def split: prod.splits Option.bind_splits)
  have complete: "sequence_type t = sequence_type s" if "complete_sequence env (ss, s, w) = Some (u, t, v)" for ss s w u t v
    using that by (auto simp: complete_sequence_def split: if_splits Option.bind_splits)
  have out: "t = s" if "time_out_step env (ss, s, w) = Some (u, t, v)" for ss s w u t v
    using time_out_step_core [OF that] by simp
  show ?thesis using assms
    by (auto simp: call_sequence_def reset_sequence_def Let_def split: if_splits Option.bind_splits prod.splits
        dest!: reset run_step_type complete out)
qed

text \<open>A sequence that has just been reset and whose first path has at least two steps is not complete after one call.\<close>

lemma call_after_reset_incomplete:
  assumes "seq_wf s" "sequence_reset ss" "2 \<le> length (steps (paths s ! 0))"
    and "call_sequence env ss s w = Some (ss', s', w')"
  shows "status_core ss' = status_core ss \<and> \<not> sequence_bypass s'"
proof -
  obtain ss0 s0 where 0: "reset_sequence ss s = (ss0, s0)" by force
  have i0: "indices s0 = (0, 0, 0)" "\<not> sequence_bypass s0" "status_core ss0 = status_core ss" "step_reset s0"
    using 0 by (auto simp: reset_sequence_def indices_def status_core_def)
  note w0 = reset_sequence_wf [OF assms(1) 0]
  obtain ss1 s1 w1 where 1: "reset_step env ss0 s0 w = Some (ss1, s1, w1)" "shape s1 = shape s0" "indices s1 = indices s0"
    "sequence_bypass s1 = sequence_bypass s0" using reset_step_total [of s0 env ss0 w] w0 by blast
  have w1: "seq_wf s1" "cur_step s1 \<noteq> None" using w0 shape_indices_cong [OF 1(2,3)] by auto
  from assms(2,4) 0 1 i0 obtain ss2 w2 ss3 s3 w3 r where r: "check_path_step_change env ss1 s1 w1 = Some (ss2, w2)"
    "run_step env ss2 s1 w2 = Some (ss3, s3, w3)" "complete_sequence env (ss3, s3, w3) = Some r"
    "time_out_step env r = Some (ss', s', w')"
    by (fastforce simp: call_sequence_def split: Option.bind_splits)
  have c3: "status_core ss3 = status_core ss"
    using check_path_step_change_core [OF r(1)] run_step_core [OF r(2)] reset_step_core [OF 1(1)] i0 by simp
  have s3: "seq_wf s3" "shape s3 = shape s" "\<not> sequence_bypass s3"
    "current_path_index s3 = 0 \<and> current_step_index s3 \<le> 1 \<or> current_step_index s3 = 0"
    using run_step_total [OF w1(2,1), of env ss2 w2] r(2) i0 1 w0 by (auto simp: indices_def)
  have "steps (paths s3 ! current_path_index s3) \<noteq> []" "current_path_index s3 < length (paths s3)"
    using s3(1) config_ok_steps by (auto simp: seq_wf_def)
  moreover have "length (steps (paths s3 ! 0)) = length (steps (paths s ! 0))"
    using length_steps_shape [OF s3(2), of 0] s3(1) by (auto simp: seq_wf_def config_ok_def)
  ultimately have live: "current_step_index s3 < length (steps (paths s3 ! current_path_index s3))"
    using s3(4) assms(3) by auto
  have "r = (ss3, s3, w3)"
    using r(3) live \<open>current_path_index s3 < _\<close> by (simp add: complete_sequence_def cur_path_def nth_opt_def)
  with time_out_step_core [of env ss3 s3 w3 ss' s' w'] r(4) c3 s3(3) show ?thesis by simp
qed

end
