(* ===== verification/Site_Machine.thy ===== *)
theory Site_Machine
  imports Site_State Sequence_World
begin

text \<open>
  Properties of the state machine of the site.  What a sequence can call leaves the sequences, the
  status, the flags and the commands of the site alone, so the state changes in exactly three ways
  in a cycle: the check sends it to the shutdown, the sequence of the state completes, and the
  function of the state moves on.  An abstract machine on the eight states has these three moves, in
  this order, and every cycle of the site makes one of each.
\<close>

section \<open>What the sequences leave alone\<close>

definition cmds :: "site_power \<Rightarrow> flt list" where
  "cmds p = [ess_kW_cmd p, gen_kW_cmd p, solar_kW_cmd p, feeder_kW_cmd p, ess_kVAR_cmd p, gen_kVAR_cmd p, solar_kVAR_cmd p]"

type_synonym untouched_parts = "(states \<Rightarrow> sequence) \<times> sequences_status \<times> bool \<times> bool \<times> fims_object \<times> flt list \<times> bool"

definition untouched :: "'a site \<Rightarrow> untouched_parts" where
  "untouched s = (sequences s, status_of s, disable_flag s, standby_flag s, enable_flag s, cmds (pw s), regs_ok (alerts (pw s)))"

lemma untouched_ask: "ask E q s = (b, s') \<Longrightarrow> untouched s' = untouched s"
  by (auto simp: ask_def untouched_def split: prod.splits)

lemma untouched_order [simp]: "untouched (order E q s) = untouched s"
  using untouched_ask [of E q s] by (metis prod.collapse)

lemma set_fault_regs: "set_fault n a = Some b \<Longrightarrow> regs_ok b \<longleftrightarrow> regs_ok a"
  by (auto simp: set_fault_def reg_write_def emit_def regs_ok_def split: if_splits)

lemma set_alarms_regs: "set_alarms n a = Some b \<Longrightarrow> regs_ok b \<longleftrightarrow> regs_ok a"
  by (auto simp: set_alarms_def reg_write_def emit_def regs_ok_def split: if_splits)

lemma untouched_basic [simp]:
  "untouched (site_emit a m t s) = untouched s" "untouched (site_set_fault n s) = untouched s" "untouched (snd (read_clock s)) = untouched s"
  "untouched (s\<lparr>site_status := m\<rparr>) = untouched s" "untouched (s\<lparr>allow_ess_auto_restart := b\<rparr>) = untouched s"
  "untouched (s\<lparr>allow_gen_auto_restart := b\<rparr>) = untouched s" "untouched (s\<lparr>allow_solar_auto_restart := b\<rparr>) = untouched s"
  "untouched (s\<lparr>ldss_enable_flag := b\<rparr>) = untouched s" "untouched (upd_pw (upd_features g) s) = untouched s"
  using set_fault_regs [of n "alerts (pw s)"]
  by (auto simp: untouched_def upd_alerts_def upd_pw_def site_emit_def site_set_fault_def read_clock_def cmds_def regs_ok_def
      split: option.splits)

lemma untouched_clear_faults [simp]: "untouched (clear_faults E s) = untouched s"
proof -
  let ?t = "order E Site_clear_faults (site_emit ''Site'' ''Clear faults executed'' INFO_ALERT s)"
  have "untouched (clear_faults E s) = untouched ?t"
    by (simp add: clear_faults_def Let_def read_clock_def untouched_def)
  then show ?thesis by simp
qed

lemma untouched_sync: "synchronize_ess E s = (b, s') \<Longrightarrow> untouched s' = untouched s"
  by (auto simp: synchronize_ess_def Let_def)

text \<open>The handlers are chains of tests on the command; every branch leaves the parts alone.\<close>

lemma untouched_if:
  "untouched (snd (snd (if b then x else y))) = (if b then untouched (snd (snd x)) else untouched (snd (snd y)))"
  by simp

lemma untouched_answers:
  "untouched (snd (snd (answer b s))) = untouched s" "untouched (snd (snd (True, ask E q s))) = untouched s"
  "untouched (snd (snd (True, synchronize_ess E s))) = untouched s"
  by (simp_all add: answer_def) (metis untouched_sync prod.collapse)

lemma untouched_ess: "untouched (snd (snd (handle_ess_sequence_functions E c v tol s))) = untouched s"
  unfolding handle_ess_sequence_functions_def untouched_if untouched_answers by simp

lemma untouched_gen: "untouched (snd (snd (handle_gen_sequence_functions E c v tol s))) = untouched s"
  unfolding handle_gen_sequence_functions_def untouched_if untouched_answers by simp

lemma untouched_solar: "untouched (snd (snd (handle_solar_sequence_functions E c v tol s))) = untouched s"
  unfolding handle_solar_sequence_functions_def untouched_if untouched_answers by simp

lemma untouched_feeders:
  "untouched (snd (snd (handle_feed_sequence_functions E c v s))) = untouched s"
  "untouched (snd (snd (handle_specific_feed_sequence_functions E c v t s))) = untouched s"
  unfolding handle_feed_sequence_functions_def handle_specific_feed_sequence_functions_def untouched_if untouched_answers
  by simp_all

lemma untouched_site_functions:
  "untouched (snd (snd (handle_reserved_variable_sequence_functions c v tol s))) = untouched s"
  "untouched (snd (snd (handle_config_sequence_functions E c v s))) = untouched s"
  "untouched (snd (snd (handle_feat_sequence_functions c v s))) = untouched s"
  unfolding handle_reserved_variable_sequence_functions_def handle_config_sequence_functions_def
    handle_feat_sequence_functions_def Let_def untouched_if untouched_answers
  by (simp_all add: untouched_answers split: option.split)

lemma untouched_functions: "untouched (snd (site_call_sequence_functions E t c v tol s)) = untouched s"
  by (simp add: site_call_sequence_functions_def split_beta Let_def untouched_if untouched_ess untouched_gen untouched_solar
      untouched_feeders untouched_site_functions)

interpretation site_world: framed_env "site_seq_env E" untouched for E
  by unfold_locales (simp_all add: site_seq_env_def untouched_functions)

section \<open>The abstract machine\<close>

text \<open>The states a sequence can return to, and the moves of the site.\<close>

definition returns :: "'a site \<Rightarrow> states \<Rightarrow> states set" where
  "returns s st = return_state ` set (paths (sequences s st))"

text \<open>The moves of the state functions; a disabled site does not start.\<close>

inductive function_move :: "bool \<Rightarrow> states \<Rightarrow> states \<Rightarrow> bool" for off where
  stay: "function_move off st st"
| initialised: "function_move off Init Ready"
| start: "\<not> off \<Longrightarrow> function_move off Ready Startup"
| stand_by: "function_move off RunMode1 Standby"
| resume: "function_move off Standby RunMode1"
| shut_down: "function_move off Shutdown Ready"

inductive_simps function_move_iff: "function_move off st st'"

text \<open>
  One cycle: first the trip, exactly when the site is not in \<^verbatim>\<open>Init\<close> and a fault is found or it is disabled;
  then the sequence of the state that gives, which stays or completes; then the function of the state.
\<close>

definition cycle_move :: "(states \<Rightarrow> states set) \<Rightarrow> bool \<Rightarrow> bool \<Rightarrow> states \<Rightarrow> states \<Rightarrow> bool" where
  "cycle_move R fault off st st' \<longleftrightarrow>
     (let x = (if st \<noteq> Init \<and> (fault \<or> off) then Shutdown else st)
      in \<exists>y \<in> insert x (R x). function_move off y st')"

lemma returns_shape:
  fixes s s' :: "'b site"
  shows "(\<And>st. shape (sequences s' st) = shape (sequences s st)) \<Longrightarrow> returns s' = returns s"
proof -
  assume "\<And>st. shape (sequences s' st) = shape (sequences s st)"
  moreover have "returns s = (\<lambda>st. (fst \<circ> snd) ` set (shape (sequences s st)))" for s :: "'b site"
    by (force simp: returns_def shape_def)
  ultimately show ?thesis by simp
qed

section \<open>The check of the state\<close>

lemma upd_pw_frame [simp]:
  "status_of (upd_pw f s) = status_of s" "sequences (upd_pw f s) = sequences s" "disable_flag (upd_pw f s) = disable_flag s"
  "enable_flag (upd_pw f s) = enable_flag s" "standby_flag (upd_pw f s) = standby_flag s" "pw (upd_pw f s) = f (pw s)"
  "check_current_state (status_of (goto st s)) = check_current_state (status_of s)" "cur (goto st s) = st"
  "sequences (goto st s) = sequences s" "pw (goto st s) = pw s" "disable_flag (goto st s) = disable_flag s"
  "sequence_reset (status_of (goto st s)) = sequence_reset (status_of s)"
  by (simp_all add: upd_pw_def goto_def)

text \<open>Sequences of the site, well formed, and registers of the right size.\<close>

definition site_ok :: "'a site \<Rightarrow> bool" where
  "site_ok s \<longleftrightarrow> (\<forall>st. sequence_type (sequences s st) = Site \<and> seq_wf (sequences s st)) \<and> regs_ok (alerts (pw s))"

text \<open>A check of the alerts changes the counts of the current path and nothing else of the sequence.\<close>

definition same_run :: "sequence \<Rightarrow> sequence \<Rightarrow> bool" where
  "same_run q q' \<longleftrightarrow> same_place q' q \<and> step_reset q' = step_reset q"

lemma same_run_refl [simp]: "same_run q q"
  by (simp add: same_run_def same_place_def)

lemma same_run_trans: "same_run a b \<Longrightarrow> same_run b c \<Longrightarrow> same_run a c"
  by (simp add: same_run_def same_place_def)

lemma same_run_wf: "same_run q q' \<Longrightarrow> seq_wf q' \<longleftrightarrow> seq_wf q"
  using shape_indices_cong(1) [of q' q] by (simp add: same_run_def same_place_def)

lemma store_count_run:
  assumes "cur_path q = Some p"
  shows "same_run q (q\<lparr>paths := (paths q)[current_path_index q := store_count ty n p]\<rparr>)"
proof -
  have p: "paths q ! current_path_index q = p" "current_path_index q < length (paths q)" using assms by (simp_all add: cur_path_def)
  let ?g = "\<lambda>p. (timeout p, return_state p, map step_shape (steps p))"
  have "?g (store_count ty n p) = ?g p" by (simp add: store_count_def)
  then have "map ?g ((paths q)[current_path_index q := store_count ty n p]) = map ?g (paths q)"
    using p by (metis (no_types, lifting) list_update_id map_update)
  then show ?thesis by (simp add: same_run_def same_place_def shape_def indices_def)
qed

lemma seq_check_effect:
  assumes "seq_check E ty st s = Some (b, s')" "site_ok s" "ty = FAULT_ALERT \<or> ty = ALARM_ALERT"
  shows "\<exists>q sa. same_run (sequences s st) q \<and> s' = upd_alerts (\<lambda>_. sa) (upd_seq st (\<lambda>_. q) s) \<and>
    latches (alerts (pw s)) sa \<and> (ty = FAULT_ALERT \<longrightarrow> b = get_faults sa) \<and>
    (ty = ALARM_ALERT \<longrightarrow> active_fault_array sa = active_fault_array (alerts (pw s)))"
proof -
  have Site: "sequence_type (sequences s st) = Site" using assms(2) by (simp add: site_ok_def)
  from assms(1) Site obtain p p' sa e' where p: "cur_path (sequences s st) = Some p"
    and c: "check_alerts (site_view E s) ty Site p (alerts (pw s)) idle_ess = Some (b, p', sa, e')"
    and s': "s' = upd_alerts (\<lambda>_. sa) (upd_seq st (\<lambda>_. (sequences s st)
      \<lparr>paths := (paths (sequences s st))[current_path_index (sequences s st) := p']\<rparr>) s)"
    by (auto simp: seq_check_def check_path_alerts_def split: Option.bind_splits)
  from path_check_effect [OF c assms(3)] obtain n where n: "p' = store_count ty n p"
    "b = (if ty = FAULT_ALERT then get_faults sa else get_alarms sa)" "latches (alerts (pw s)) sa"
    "ty = ALARM_ALERT \<longrightarrow> active_fault_array sa = active_fault_array (alerts (pw s))" by blast
  let ?q = "(sequences s st)\<lparr>paths := (paths (sequences s st))[current_path_index (sequences s st) := p']\<rparr>"
  have "same_run (sequences s st) ?q" using store_count_run [OF p, of ty n] n(1) by simp
  with s' n show ?thesis by (intro exI [of _ ?q] exI [of _ sa]) simp
qed

lemma enter_state_effect:
  "cur (enter_state s) = cur s \<and> check_current_state (status_of (enter_state s)) = cur s \<and>
   sequence_reset (status_of (enter_state s)) = (sequence_reset (status_of s) \<or> check_current_state (status_of s) \<noteq> cur s) \<and>
   disable_flag (enter_state s) = disable_flag s \<and> cmds (pw (enter_state s)) = cmds (pw s) \<and>
   enable_flag (enter_state s) = enable_flag s \<and> running_status_flag (enter_state s) = running_status_flag s \<and>
   active_fault_array (alerts (pw (enter_state s))) = active_fault_array (alerts (pw s)) \<and>
   active_alarm_array (alerts (pw (enter_state s))) = active_alarm_array (alerts (pw s)) \<and>
   sequences (enter_state s) = (if check_current_state (status_of s) = cur s then sequences s
     else (sequences s)(check_current_state (status_of s) := (sequences s (check_current_state (status_of s)))\<lparr>sequence_bypass := False\<rparr>)) \<and>
   (site_state_enum s = check_current_state (status_of s) \<longrightarrow> site_state_enum (enter_state s) = cur s)"
  by (simp add: enter_state_def Let_def site_emit_def upd_alerts_def upd_seq_def cmds_def upd_pw_def)

text \<open>
  What the check of the state does to a site.  The faults it decides on are those latched at its
  end; leaving a state marks the sequence of that state as not done.
\<close>

definition checked :: "'a site \<Rightarrow> 'a site \<Rightarrow> bool" where
  "checked s s' \<longleftrightarrow>
     cur s' = (if cur s \<noteq> Init \<and> (get_faults (alerts (pw s')) \<or> disable_flag s) then Shutdown else cur s) \<and>
     check_current_state (status_of s') = cur s' \<and>
     sequence_reset (status_of s') = (sequence_reset (status_of s) \<or> check_current_state (status_of s) \<noteq> cur s') \<and>
     running_status_flag s' = (cur s' = RunMode1 \<or> cur s' = RunMode2) \<and>
     (site_state_enum s = check_current_state (status_of s) \<longrightarrow> site_state_enum s' = cur s') \<and>
     latches (alerts (pw s)) (alerts (pw s')) \<and> disable_flag s' = disable_flag s \<and> enable_flag s' = enable_flag s \<and>
     cmds (pw s') = cmds (pw s) \<and> alt_site_state_enum s' = get_alternate_site_state s' \<and>
     (\<forall>st. same_run ((sequences s st)\<lparr>sequence_bypass := sequence_bypass (sequences s' st)\<rparr>) (sequences s' st)) \<and>
     (\<forall>st. sequence_bypass (sequences s' st) =
        (sequence_bypass (sequences s st) \<and> (check_current_state (status_of s) = cur s' \<or> st \<noteq> check_current_state (status_of s))))"

lemma upd_alerts_upd_seq_frame [simp]:
  "status_of (upd_alerts f s) = status_of s" "sequences (upd_alerts f s) = sequences s"
  "disable_flag (upd_alerts f s) = disable_flag s" "enable_flag (upd_alerts f s) = enable_flag s"
  "alerts (pw (upd_alerts f s)) = f (alerts (pw s))" "cmds (pw (upd_alerts f s)) = cmds (pw s)"
  "status_of (upd_seq st g s) = status_of s" "pw (upd_seq st g s) = pw s" "disable_flag (upd_seq st g s) = disable_flag s"
  "enable_flag (upd_seq st g s) = enable_flag s" "sequences (upd_seq st g s) = (sequences s)(st := g (sequences s st))"
  "site_state_enum (upd_alerts f s) = site_state_enum s" "site_state_enum (upd_seq st g s) = site_state_enum s"
  "site_state_enum (goto x s) = site_state_enum s" "enable_flag (goto x s) = enable_flag s"
  by (simp_all add: upd_alerts_def upd_seq_def cmds_def upd_pw_def goto_def)

text \<open>The two checks of the alerts and the decision between them.\<close>

lemma seq_check_frame:
  assumes "seq_check E ty st s = Some (b, s')" "site_ok s" "ty = FAULT_ALERT \<or> ty = ALARM_ALERT"
  shows "status_of s' = status_of s \<and> disable_flag s' = disable_flag s \<and> enable_flag s' = enable_flag s \<and>
    site_state_enum s' = site_state_enum s \<and> cmds (pw s') = cmds (pw s) \<and> latches (alerts (pw s)) (alerts (pw s')) \<and>
    (\<forall>x. same_run (sequences s x) (sequences s' x)) \<and> site_ok s' \<and>
    (ty = FAULT_ALERT \<longrightarrow> b = get_faults (alerts (pw s'))) \<and>
    (ty = ALARM_ALERT \<longrightarrow> get_faults (alerts (pw s')) = get_faults (alerts (pw s)))"
proof -
  from seq_check_effect [OF assms] obtain q sa where e: "same_run (sequences s st) q"
    "s' = upd_alerts (\<lambda>_. sa) (upd_seq st (\<lambda>_. q) s)" "latches (alerts (pw s)) sa" "ty = FAULT_ALERT \<longrightarrow> b = get_faults sa"
    "ty = ALARM_ALERT \<longrightarrow> active_fault_array sa = active_fault_array (alerts (pw s))" by blast
  have "seq_wf q" "sequence_type q = Site" "regs_ok sa"
    using e(1,3) assms(2) same_run_wf [OF e(1)] latches_regs_ok [OF e(3)]
    by (auto simp: site_ok_def same_run_def same_place_def)
  with e assms(2) show ?thesis by (auto simp: site_ok_def get_faults_def)
qed

lemma site_ok_goto [simp]: "site_ok (goto st s) = site_ok s"
  by (simp add: site_ok_def)

lemma decide_state_effect:
  assumes "site_ok s" "decide_state E s = Some s'"
  shows "cur s' = (if cur s \<noteq> Init \<and> (get_faults (alerts (pw s')) \<or> disable_flag s) then Shutdown else cur s) \<and>
    check_current_state (status_of s') = check_current_state (status_of s) \<and>
    sequence_reset (status_of s') = sequence_reset (status_of s) \<and> disable_flag s' = disable_flag s \<and>
    enable_flag s' = enable_flag s \<and> site_state_enum s' = site_state_enum s \<and> cmds (pw s') = cmds (pw s) \<and>
    latches (alerts (pw s)) (alerts (pw s')) \<and> (\<forall>x. same_run (sequences s x) (sequences s' x)) \<and> site_ok s'"
proof -
  from assms(2) obtain f s1 where 1: "(if cur s \<noteq> Init then seq_check E FAULT_ALERT (cur s) s else Some (False, s)) = Some (f, s1)"
    by (auto simp: decide_state_def Let_def split: Option.bind_splits)
  define s2 where "s2 = (if cur s \<noteq> Init \<and> (f \<or> disable_flag s1) then goto Shutdown s1 else s1)"
  from assms(2) 1 obtain b s3 where 3: "seq_check E ALARM_ALERT (cur s) s2 = Some (b, s3)"
    by (auto simp: decide_state_def Let_def s2_def split: Option.bind_splits)
  from assms(2) 1 3 obtain p where p: "cur_path (sequences s3 (cur s)) = Some p"
    by (auto simp: decide_state_def Let_def s2_def split: Option.bind_splits)
  have s': "s' = s3\<lparr>num_path_faults := num_active_faults p, num_path_alarms := num_active_alarms p\<rparr>"
    using assms(2) 1 3 p by (simp add: decide_state_def Let_def s2_def)
  have e1: "status_of s1 = status_of s \<and> disable_flag s1 = disable_flag s \<and> enable_flag s1 = enable_flag s \<and>
    site_state_enum s1 = site_state_enum s \<and> cmds (pw s1) = cmds (pw s) \<and> latches (alerts (pw s)) (alerts (pw s1)) \<and>
    (\<forall>x. same_run (sequences s x) (sequences s1 x)) \<and> site_ok s1 \<and> (cur s \<noteq> Init \<longrightarrow> f = get_faults (alerts (pw s1)))"
    using 1 seq_check_frame [of E FAULT_ALERT "cur s" s f s1] assms(1) by (cases "cur s \<noteq> Init") auto
  then have "site_ok s2" by (simp add: s2_def)
  note e3 = seq_check_frame [OF 3 this]
  have 2: "status_of s2 = (if cur s \<noteq> Init \<and> (f \<or> disable_flag s1) then (status_of s)\<lparr>current_state := Shutdown\<rparr> else status_of s)"
    "disable_flag s2 = disable_flag s" "enable_flag s2 = enable_flag s" "site_state_enum s2 = site_state_enum s"
    "pw s2 = pw s1" "sequences s2 = sequences s1"
    using e1 by (auto simp: s2_def goto_def)
  have "same_run (sequences s x) (sequences s3 x)" for x
    using e1 e3 2 same_run_trans [of "sequences s x" "sequences s1 x"] by auto
  moreover have "latches (alerts (pw s)) (alerts (pw s3))"
    using e1 e3 2 latches_trans [of "alerts (pw s)" "alerts (pw s1)"] by auto
  moreover have "site_ok s'" using e3 by (simp add: s' site_ok_def)
  ultimately show ?thesis using e1 e3 2 by (auto simp: s')
qed

lemma check_state_effect:
  assumes "site_ok s" "check_state E s = Some s'"
  shows "checked s s' \<and> site_ok s'"
proof -
  from assms(2) obtain t where t: "decide_state E s = Some t" by (auto simp: check_state_def split: Option.bind_splits)
  note d = decide_state_effect [OF assms(1) t]
  let ?t = "t\<lparr>running_status_flag := (cur t = RunMode1 \<or> cur t = RunMode2)\<rparr>"
  have s': "s' = (enter_state ?t)\<lparr>alt_site_state_enum := get_alternate_site_state (enter_state ?t)\<rparr>"
    using assms(2) t by (simp add: check_state_def Let_def)
  have g: "get_alternate_site_state s' = get_alternate_site_state (enter_state ?t)"
    by (simp add: s' get_alternate_site_state_def)
  note e = enter_state_effect [of ?t, simplified]
  have gf: "get_faults (alerts (pw s')) = get_faults (alerts (pw t))" using e by (simp add: s' get_faults_def)
  have l: "latches (alerts (pw s)) (alerts (pw s'))" using d e by (simp add: s' latches_def)
  have run: "same_run ((sequences s x)\<lparr>sequence_bypass := sequence_bypass (sequences s' x)\<rparr>) (sequences s' x)" for x
    using d e by (auto simp: s' same_run_def same_place_def indices_def)
  have byp: "sequence_bypass (sequences s' x) = (sequence_bypass (sequences s x) \<and>
      (check_current_state (status_of s) = cur s' \<or> x \<noteq> check_current_state (status_of s)))" for x
    using d e by (auto simp: s' same_run_def same_place_def)
  have "seq_wf (sequences s' x) \<and> sequence_type (sequences s' x) = Site" for x
    using d e assms(1) by (auto simp: s' site_ok_def seq_wf_def config_ok_def)
  then have ok: "site_ok s'" using d e l latches_regs_ok by (auto simp: s' site_ok_def regs_ok_def)
  show ?thesis
    unfolding checked_def gf using d e g l run byp ok by (simp add: s')
qed

text \<open>The faults after the check are those its first half answered.\<close>

lemma check_state_fault:
  assumes "site_ok s" "check_state E s = Some s'" "cur s \<noteq> Init" "seq_check E FAULT_ALERT (cur s) s = Some (b, v)"
  shows "get_faults (alerts (pw s')) = b"
proof -
  from assms(2) obtain t where t: "decide_state E s = Some t" by (auto simp: check_state_def split: Option.bind_splits)
  define u where "u = (if b \<or> disable_flag v then goto Shutdown v else v)"
  have d: "decide_state E s = seq_check E ALARM_ALERT (cur s) u \<bind> (\<lambda>(_, w). cur_path (sequences w (cur s)) \<bind>
      (\<lambda>p. Some (w\<lparr>num_path_faults := num_active_faults p, num_path_alarms := num_active_alarms p\<rparr>)))"
    unfolding decide_state_def Let_def using assms(3,4) by (simp add: u_def)
  from t obtain c w where w: "seq_check E ALARM_ALERT (cur s) u = Some (c, w)" "pw t = pw w"
    unfolding d by (auto split: Option.bind_splits)
  have 1: "site_ok v" "b = get_faults (alerts (pw v))" using seq_check_frame [OF assms(4,1)] by simp_all
  then have "site_ok u" "pw u = pw v" by (simp_all add: u_def)
  with seq_check_frame [OF w(1)] have "get_faults (alerts (pw w)) = b" using 1(2) by simp
  moreover have "get_faults (alerts (pw s')) = get_faults (alerts (pw t))"
  proof -
    let ?t = "t\<lparr>running_status_flag := (cur t = RunMode1 \<or> cur t = RunMode2)\<rparr>"
    have "s' = (enter_state ?t)\<lparr>alt_site_state_enum := get_alternate_site_state (enter_state ?t)\<rparr>"
      using assms(2) t by (simp add: check_state_def Let_def)
    then show ?thesis using enter_state_effect [of ?t, simplified] by (simp add: get_faults_def)
  qed
  ultimately show ?thesis using w(2) by simp
qed

section \<open>The sequence of the state\<close>

lemma call_current_effect:
  assumes "site_ok s" "runnable (status_of s) (sequences s (cur s))" "call_current E s = Some s'"
  shows "(cur s' = cur s \<or> cur s' \<in> returns s (cur s)) \<and>
    check_current_state (status_of s') = check_current_state (status_of s) \<and>
    runnable (status_of s') (sequences s' (cur s)) \<and> (\<forall>x. shape (sequences s' x) = shape (sequences s x)) \<and>
    site_ok s' \<and> disable_flag s' = disable_flag s \<and> cmds (pw s') = cmds (pw s)"
proof -
  from assms(3) obtain ss q t where c: "call_sequence (site_seq_env E) (status_of s) (sequences s (cur s)) s = Some (ss, q, t)"
    by (auto simp: call_current_def split: Option.bind_splits)
  have s': "s' = upd_seq (cur s) (\<lambda>_. q) (t\<lparr>status_of := ss\<rparr>)"
    using assms(3) c by (simp add: call_current_def)
  have u: "untouched t = untouched s" by (rule site_world.call_sequence_frame [OF c])
  from call_sequence_safe [OF assms(2), of "site_seq_env E" s] c
  have q: "runnable ss q" "shape q = shape (sequences s (cur s))" by auto
  have ty: "sequence_type q = Site" using call_sequence_type [OF c] assms(1) by (simp add: site_ok_def)
  have sh: "shape (sequences s' x) = shape (sequences s x)" for x using q(2) u by (simp add: s' untouched_def)
  have "status_core ss = status_core (status_of s) \<or> (\<exists>p \<in> set (paths q). status_core ss = (return_state p, snd (status_core (status_of s))))"
    using call_sequence_core [OF c] by (auto simp: cur_path_def)
  then have st: "check_current_state ss = check_current_state (status_of s)"
    "current_state ss = cur s \<or> current_state ss \<in> return_state ` set (paths q)" by (auto simp: status_core_def)
  have "return_state ` set (paths q) = returns s (cur s)"
    using fun_cong [OF returns_shape [of s' s, OF sh], of "cur s"] by (simp add: returns_def s')
  moreover have "site_ok s'" using assms(1) u q(1) ty by (simp add: s' site_ok_def untouched_def runnable_def)
  ultimately show ?thesis using st q sh u by (simp add: s' untouched_def)
qed

section \<open>The function of the state\<close>

lemma bind_Some: "x \<bind> f = Some z \<longleftrightarrow> (\<exists>y. x = Some y \<and> f y = Some z)"
  by (cases x) auto

lemma runmode1_regs:
  assumes "runmode1_state rd ck now p = Some p'"
  shows "regs_ok (alerts p') = regs_ok (alerts p)"
proof -
  have f: "regs_ok (alerts b) = regs_ok (alerts a)" if "process_runmode1_kW_feature rd ck a = Some b" for a b
    using that by (auto simp: process_runmode1_kW_feature_def Let_def set_alarms_regs split: if_splits prod.splits bind_splits)
  have c: "alerts (rm1_charge_control a) = alerts a" for a by (simp add: rm1_charge_control_def Let_def tell_def)
  have st: "alerts b = alerts a" if "rm1_standalone rd ck now a = Some b" for a b
    using that by (auto simp: rm1_standalone_def Let_def split: if_splits prod.splits bind_splits)
  have po: "alerts (rm1_poi a) = alerts a" for a by (simp add: rm1_poi_def split: prod.splits)
  have d: "alerts b = alerts a" if "rm1_dispatch ck a = Some b" for a b
    using that by (auto simp: rm1_dispatch_def dispatch_active_power_def Let_def split: if_splits prod.splits bind_splits)
  have r: "alerts b = alerts a" if "rm1_reactive ck a = Some b" for a b
    using that by (auto simp: rm1_reactive_def process_runmode1_kVAR_feature_def Let_def split: if_splits prod.splits bind_splits)
  from assms obtain a b e where a: "rm1_demand rd ck now p = Some a" "rm1_dispatch ck a = Some b" "rm1_reactive ck b = Some e"
    and p': "alerts p' = alerts e"
    by (auto simp: runmode1_state_def start_ess_and_solar_def tell_def calculate_total_site_kW_limits_def
        set_asset_power_commands_def Let_def split: bind_splits)
  from a(1) have "regs_ok (alerts a) = regs_ok (alerts p)"
    by (auto simp: rm1_demand_def Let_def po c split: bind_splits dest!: f st)
  then show ?thesis using d [OF a(2)] r [OF a(3)] p' by simp
qed

lemma alerts_frames [simp]:
  "alerts (process_runmode2_kW_feature p) = alerts p" "alerts (dispatch_active_power n p) = alerts p"
  "alerts (set_asset_power_commands p) = alerts p" "alerts (start_ess_and_solar p) = alerts p" "alerts (tell c p) = alerts p"
  by (simp_all add: process_runmode2_kW_feature_def dispatch_active_power_def set_asset_power_commands_def
      start_ess_and_solar_def tell_def Let_def split: prod.split)

lemma runmode2_regs:
  assumes "runmode2_state pr rd ck p = Some (out, p')"
  shows "alerts p' = alerts p"
proof -
  let ?p1 = "if num_solar_running p > 0 then tell (Set_solar_curtailment_enabled False) p else p"
  from assms obtain p2 where 2: "(if bval SS_enable_flag (solar_shed_f (features ?p1)) then do {
             (m, g, a) \<leftarrow> ss_execute (ck_ss ck) (soc_avg_running ?p1) (rd_solar_total_rated_active_power rd)
                           (solar_shed_f (features ?p1), asset_cmd ?p1);
             Some (upd_features (\<lambda>f. f\<lparr>solar_shed_f := g\<rparr>) (?p1\<lparr>asset_cmd := a, max_potential_solar_kW := m\<rparr>)) }
           else Some ?p1) = Some p2"
    unfolding runmode2_state_def Let_def bind_Some by blast
  have "alerts p2 = alerts p" using 2 by (auto split: if_splits bind_splits)
  moreover have "alerts p' = alerts p2"
    using assms 2 unfolding runmode2_state_def Let_def by (auto split: prod.splits if_splits)
  ultimately show ?thesis by simp
qed

text \<open>The function of a state leaves the sequences and the last checked state alone and moves the state as the machine allows.\<close>

definition moved :: "'a site \<Rightarrow> 'a site \<Rightarrow> bool" where
  "moved s s' \<longleftrightarrow> sequences s' = sequences s \<and> (regs_ok (alerts (pw s)) \<longrightarrow> regs_ok (alerts (pw s'))) \<and>
     status_of s' = (status_of s)\<lparr>current_state := cur s'\<rparr> \<and>
     (cur s' = cur s \<or> (cur s, cur s') \<in> {(Init, Ready), (RunMode1, Standby), (Standby, RunMode1), (Shutdown, Ready)} \<or>
      (cur s, cur s') = (Ready, Startup) \<and> \<not> disable_flag s)"

lemma status_same [simp]: "ss\<lparr>current_state := current_state ss\<rparr> = ss"
  by simp

lemma zero_reset_frame [simp]:
  "sequences (zero_cmds s) = sequences s" "status_of (zero_cmds s) = status_of s" "alerts (pw (zero_cmds s)) = alerts (pw s)"
  "sequences (reset_slews s) = sequences s" "status_of (reset_slews s) = status_of s"
  "alerts (pw (reset_slews s)) = alerts (pw s)"
  by (simp_all add: zero_cmds_def reset_slews_def upd_pw_def Let_def)

lemma standby_moved:
  assumes "cur s = Standby"
  shows "moved s (standby_state rd s)"
proof -
  define s1 where "s1 = upd_pw (\<lambda>p. p\<lparr>ess_kW_cmd := 0, feeder_kW_cmd := 0, gen_kW_cmd := 0, solar_kW_cmd := 0,
                ess_kVAR_cmd := get_slew_target (ess_kVAR_cmd_slew p) 0,
                gen_kVAR_cmd := get_slew_target (gen_kVAR_cmd_slew p) 0,
                solar_kVAR_cmd := get_slew_target (solar_kVAR_cmd_slew p) 0\<rparr>) (s\<lparr>site_kW_demand_v := 0\<rparr>)"
  define s2 where "s2 = (if prev_solar_kW_cmd s1 = 0 \<and> prev_solar_kVAR_cmd s1 = 0 \<and>
      (\<not> standby_solar_latch s1 \<or> rd_num_solar_controllable rd > 0)
    then upd_pw (tell Enter_standby_all_solar) (s1\<lparr>standby_solar_latch := True\<rparr>) else s1)"
  define s3 where "s3 = (if prev_ess_kW_cmd s2 = 0 \<and> prev_ess_kVAR_cmd s2 = 0 \<and>
      (\<not> standby_ess_latch s2 \<or> rd_num_ess_controllable rd > 0)
    then upd_pw (tell Enter_standby_all_ess) (s2\<lparr>standby_ess_latch := True\<rparr>) else s2)"
  have r: "standby_state rd s = (if \<not> standby_flag s3
      then goto RunMode1 (upd_pw (tell Exit_standby_all_solar) (upd_pw (tell Exit_standby_all_ess) s3)) else s3)"
    by (simp only: standby_state_def Let_def s1_def s2_def s3_def)
  have "sequences s1 = sequences s" "status_of s1 = status_of s" "alerts (pw s1) = alerts (pw s)" by (simp_all add: s1_def)
  moreover have "sequences s2 = sequences s1" "status_of s2 = status_of s1" "alerts (pw s2) = alerts (pw s1)" by (simp_all add: s2_def)
  moreover have "sequences s3 = sequences s2" "status_of s3 = status_of s2" "alerts (pw s3) = alerts (pw s2)" by (simp_all add: s3_def)
  ultimately show ?thesis using assms unfolding r by (simp add: moved_def) (simp add: goto_def)
qed

lemma run_state_moved:
  assumes "run_state rd ck s = Some s'"
  shows "moved s s'"
proof (cases "cur s")
  case Init
  with assms show ?thesis
    by (auto simp: run_state_def init_state_def moved_def goto_def site_emit_def upd_alerts_def upd_pw_def tell_def regs_ok_def
        Let_def split: bind_splits prod.splits)
next
  case Ready
  with assms show ?thesis by (auto simp: run_state_def ready_state_def moved_def goto_def split: if_splits)
next
  case Startup
  with assms show ?thesis by (auto simp: run_state_def startup_state_def moved_def)
next
  case RunMode1
  with assms show ?thesis
    by (auto simp: run_state_def site_runmode1_def moved_def goto_def Let_def split: bind_splits if_splits dest: runmode1_regs)
next
  case RunMode2
  with assms show ?thesis
    by (auto simp: run_state_def site_runmode2_def moved_def Let_def split: bind_splits dest: runmode2_regs)
next
  case Standby
  with assms standby_moved [of s rd] show ?thesis by (simp add: run_state_def)
next
  case Shutdown
  with assms show ?thesis
    by (auto simp: run_state_def shutdown_state_def moved_def goto_def upd_pw_def tell_def Let_def split: prod.splits)
next
  case Error
  with assms show ?thesis by (auto simp: run_state_def error_state_def moved_def)
qed

end
