(* ===== verification/Site_Cycle.thy ===== *)
theory Site_Cycle
  imports Site_Machine
begin

text \<open>
  The cycle of the site as a whole: the invariant under which no sequence reads past its steps, the
  refinement of the abstract machine on the eight states cycle by cycle, and what a fault or the disable button
  does to the state and to the power commands.
\<close>

section \<open>Before the check\<close>

text \<open>Clearing the faults and the watchdog change neither the state nor the sequences, and the registers only grow.\<close>

definition before_check :: "'a site \<Rightarrow> 'a site \<Rightarrow> bool" where
  "before_check s t \<longleftrightarrow> sequences t = sequences s \<and> status_of t = status_of s \<and> disable_flag t = disable_flag s \<and>
     cmds (pw t) = cmds (pw s) \<and> site_ok t = site_ok s \<and>
     active_fault_array (alerts (pw t)) = active_fault_array (alerts (pw s))"

lemma before_check_trans: "before_check a b \<Longrightarrow> before_check b c \<Longrightarrow> before_check a c"
  by (simp add: before_check_def)

lemma handle_clear_faults_before: "before_check s (handle_clear_faults E s)"
proof -
  have o: "pw (order E q s) = pw s \<and> sequences (order E q s) = sequences s \<and> status_of (order E q s) = status_of s \<and>
    disable_flag (order E q s) = disable_flag s" for q and s :: "'a site"
    by (simp add: ask_def split: prod.split)
  show ?thesis
    by (simp add: handle_clear_faults_def before_check_def clear_faults_def Let_def read_clock_def site_ok_def o site_emit_def regs_ok_def)
qed

lemma dogbark_before: "dogbark s = Some t \<Longrightarrow> before_check s t"
  by (auto simp: dogbark_def before_check_def site_ok_def regs_ok_def set_alarms_def reg_write_def emit_def
      split: option.splits if_splits)

lemma run_watchdog_before:
  assumes "run_watchdog s = Some t"
  shows "before_check s t"
proof -
  have wd: "before_check u (u\<lparr>watchdog_feature := w\<rparr>)" "before_check u (snd (read_clock u))" for u :: "'a site" and w
    by (simp_all add: before_check_def site_ok_def read_clock_def)
  obtain t0 s0 where c: "read_clock s = (t0, s0)" by force
  obtain bk w where sb: "should_bark (ss_current_time (status_of s)) t0 (watchdog_feature s0) = (bk, w)" by force
  from assms obtain u where u: "(if bval WD_enable_flag (watchdog_feature s) then
      if bk then dogbark (s0\<lparr>watchdog_feature := w\<rparr>) else Some (s0\<lparr>watchdog_feature := w\<rparr>) else Some s) = Some u"
    and t: "\<exists>w'. t = (snd (read_clock u))\<lparr>watchdog_feature := w'\<rparr>"
    unfolding run_watchdog_def Let_def bind_Some split_beta c fst_conv snd_conv sb option.inject by blast
  have "before_check s s0" using wd(2) [of s] c by simp
  then have "before_check s (s0\<lparr>watchdog_feature := w\<rparr>)" using wd(1) before_check_trans by blast
  then have "before_check s u" using u dogbark_before before_check_trans
    by (auto simp: before_check_def split: if_splits dest!: dogbark_before)
  moreover have "before_check u t" using t wd(1) [of "snd (read_clock u)"] wd(2) [of u] before_check_trans by blast
  ultimately show ?thesis by (rule before_check_trans)
qed

section \<open>The invariant\<close>

definition site_inv :: "'a site \<Rightarrow> bool" where
  "site_inv s \<longleftrightarrow> site_ok s \<and> runnable (status_of s) (sequences s (check_current_state (status_of s)))"

lemma runnable_cong:
  assumes "same_run q q'" "sequence_reset ss' = sequence_reset ss"
  shows "runnable ss' q' = runnable ss q"
  using assms shape_indices_cong [of q' q] by (auto simp: same_run_def same_place_def runnable_def)

lemma check_state_runnable:
  assumes "site_inv s" "check_state E s = Some s'"
  shows "runnable (status_of s') (sequences s' (cur s'))"
proof -
  have c: "checked s s'" "site_ok s'" using check_state_effect [of s E s'] assms by (auto simp: site_inv_def)
  show ?thesis
  proof (cases "check_current_state (status_of s) = cur s'")
    case True
    have "(sequences s (cur s'))\<lparr>sequence_bypass := sequence_bypass (sequences s' (cur s'))\<rparr> = sequences s (cur s')"
      using c(1) True by (simp add: checked_def)
    moreover have "same_run ((sequences s (cur s'))\<lparr>sequence_bypass := sequence_bypass (sequences s' (cur s'))\<rparr>) (sequences s' (cur s'))"
      using c(1) unfolding checked_def by blast
    ultimately have "same_run (sequences s (cur s')) (sequences s' (cur s'))" by simp
    from runnable_cong [OF this, of "status_of s'" "status_of s"] show ?thesis
      using c(1) True assms(1) by (simp add: checked_def site_inv_def)
  next
    case False
    with c show ?thesis by (simp add: checked_def runnable_def site_ok_def)
  qed
qed

text \<open>The states a cycle passes through.\<close>

lemma cycle_parts:
  assumes "site_inv s" "run_state_machine E rd ck s = Some s'"
  obtains t u v where "before_check s t" "checked t u" "site_ok u" "runnable (status_of u) (sequences u (cur u))"
    "call_current E u = Some v" "site_ok v" "run_state rd ck v = Some s'" "moved v s'"
proof -
  from assms(2) obtain t u v where r: "run_watchdog (handle_clear_faults E s) = Some t" "check_state E t = Some u"
    "call_current E u = Some v" "run_state rd ck v = Some s'"
    by (auto simp: run_state_machine_def split: bind_splits)
  have b: "before_check s t" using run_watchdog_before [OF r(1)] handle_clear_faults_before before_check_trans by blast
  then have i: "site_inv t" using assms(1) by (simp add: before_check_def site_inv_def)
  have c: "checked t u" "site_ok u" using check_state_effect [OF _ r(2)] i by (auto simp: site_inv_def)
  have run: "runnable (status_of u) (sequences u (cur u))" by (rule check_state_runnable [OF i r(2)])
  show ?thesis using that [OF b c run r(3) _ r(4) run_state_moved [OF r(4)]] call_current_effect [OF c(2) run r(3)] by blast
qed

lemma status_move:
  "a = b\<lparr>current_state := x\<rparr> \<Longrightarrow> check_current_state a = check_current_state b \<and> sequence_reset a = sequence_reset b"
  "a = b\<lparr>ss_current_time := y\<rparr> \<Longrightarrow> check_current_state a = check_current_state b \<and> sequence_reset a = sequence_reset b \<and>
     current_state a = current_state b"
  by simp_all

lemma moved_inv: "moved v s' \<Longrightarrow> site_ok v \<Longrightarrow> site_ok s'"
  by (simp add: moved_def site_ok_def)

lemma checked_returns: "checked t u \<Longrightarrow> returns u = returns t"
  by (rule returns_shape) (force simp: checked_def same_run_def same_place_def shape_def)

lemma cycle_inv:
  assumes "site_inv s" "run_state_machine E rd ck s = Some s'"
  shows "site_inv s'"
proof -
  obtain t u v where p: "before_check s t" "checked t u" "site_ok u" "runnable (status_of u) (sequences u (cur u))"
    "call_current E u = Some v" "site_ok v" "run_state rd ck v = Some s'" "moved v s'" by (rule cycle_parts [OF assms])
  have "check_current_state (status_of v) = cur u" "runnable (status_of v) (sequences v (cur u))"
    using call_current_effect [OF p(3,4,5)] p(2) by (auto simp: checked_def)
  moreover have "sequences s' = sequences v" "status_of s' = (status_of v)\<lparr>current_state := cur s'\<rparr>"
    using p(8) unfolding moved_def by blast+
  moreover note status_move(1) [OF this(2)]
  ultimately show ?thesis using moved_inv [OF p(8,6)] unfolding site_inv_def runnable_def by metis
qed

text \<open>
  A run of the site: cycles, and between them new inputs, settings and readings, which leave the
  sequences and their status alone but for the time.
\<close>

definition new_inputs :: "'a site \<Rightarrow> 'a site \<Rightarrow> bool" where
  "new_inputs s t \<longleftrightarrow> sequences t = sequences s \<and> regs_ok (alerts (pw t)) \<and>
     status_of t = (status_of s)\<lparr>ss_current_time := ss_current_time (status_of t)\<rparr>"

inductive site_run :: "'a am_env \<Rightarrow> 'a site \<Rightarrow> 'a site \<Rightarrow> bool" for E where
  here: "site_run E s s"
| inputs: "site_run E s t \<Longrightarrow> new_inputs t u \<Longrightarrow> site_run E s u"
| cycle: "site_run E s t \<Longrightarrow> run_state_machine E rd ck t = Some u \<Longrightarrow> site_run E s u"
| debug: "site_run E s t \<Longrightarrow> site_run E s (debug_set_state st t)"

lemma new_inputs_status:
  assumes "new_inputs s t"
  shows "sequences t = sequences s" "regs_ok (alerts (pw t))" "cur t = cur s"
    "check_current_state (status_of t) = check_current_state (status_of s)"
    "sequence_reset (status_of t) = sequence_reset (status_of s)"
  using assms status_move(2) unfolding new_inputs_def by blast+

lemma new_inputs_inv: "site_inv s \<Longrightarrow> new_inputs s t \<Longrightarrow> site_inv t"
  using new_inputs_status [of s t] by (simp add: site_inv_def site_ok_def runnable_def)

lemma debug_set_state_inv: "site_inv s \<Longrightarrow> site_inv (debug_set_state st s)"
  by (simp add: debug_set_state_def set_state_def site_inv_def site_ok_def runnable_def)

lemma run_site_inv: "site_run E s s' \<Longrightarrow> site_inv s \<Longrightarrow> site_inv s'"
  by (induction rule: site_run.induct) (auto intro: new_inputs_inv cycle_inv debug_set_state_inv)

section \<open>The abstract machine\<close>

lemma moved_cur:
  "moved v s' \<Longrightarrow> cur s' = cur v \<or> (cur v, cur s') \<in> {(Init, Ready), (RunMode1, Standby), (Standby, RunMode1), (Shutdown, Ready), (Ready, Startup)}"
  unfolding moved_def by blast

lemma returns_sequences: "sequences s' = sequences s \<Longrightarrow> returns s' = returns s"
  by (simp add: returns_def fun_eq_iff)

lemma moved_sequences: "moved v s' \<Longrightarrow> sequences s' = sequences v"
  unfolding moved_def by blast

text \<open>Whether the check of the faults in the next cycle finds one: one that is latched, or one of the path of the state.\<close>

definition finds_fault :: "'a am_env \<Rightarrow> 'a site \<Rightarrow> bool" where
  "finds_fault E s = (case run_watchdog (handle_clear_faults E s) of None \<Rightarrow> False
     | Some t \<Rightarrow> (case seq_check E FAULT_ALERT (cur t) t of None \<Rightarrow> False | Some (b, _) \<Rightarrow> b))"

lemma found_checked:
  assumes "site_ok t" "check_state E t = Some u" "cur t \<noteq> Init" "run_watchdog (handle_clear_faults E s) = Some t"
  shows "get_faults (alerts (pw u)) = finds_fault E s"
proof -
  obtain b v where c: "seq_check E FAULT_ALERT (cur t) t = Some (b, v)"
    using assms(2,3) by (auto simp: check_state_def decide_state_def Let_def split: Option.bind_splits)
  with check_state_fault [OF assms(1-3) c] assms(4) show ?thesis by (simp add: finds_fault_def)
qed

text \<open>The parts of a cycle, with the state that is decided.\<close>

lemma cycle_decided:
  assumes "site_inv s" "run_state_machine E rd ck s = Some s'"
  obtains t u v where "before_check s t" "checked t u" "site_ok u" "runnable (status_of u) (sequences u (cur u))"
    "call_current E u = Some v" "run_state rd ck v = Some s'" "moved v s'"
    "cur u = (if cur s \<noteq> Init \<and> (finds_fault E s \<or> disable_flag s) then Shutdown else cur s)"
proof -
  from assms(2) obtain t u v where r: "run_watchdog (handle_clear_faults E s) = Some t" "check_state E t = Some u"
    "call_current E u = Some v" "run_state rd ck v = Some s'"
    by (auto simp: run_state_machine_def split: bind_splits)
  have b: "before_check s t" using run_watchdog_before [OF r(1)] handle_clear_faults_before before_check_trans by blast
  then have i: "site_inv t" using assms(1) by (simp add: before_check_def site_inv_def)
  then have ok: "site_ok t" by (simp add: site_inv_def)
  have c: "checked t u" "site_ok u" using check_state_effect [OF ok r(2)] by auto
  have "cur u = (if cur s \<noteq> Init \<and> (finds_fault E s \<or> disable_flag s) then Shutdown else cur s)"
    using found_checked [OF ok r(2) _ r(1)] b c(1) by (auto simp: checked_def before_check_def)
  then show ?thesis using that [OF b c check_state_runnable [OF i r(2)] r(3,4) run_state_moved [OF r(4)]] by blast
qed

lemma moved_move: "moved v s' \<Longrightarrow> function_move (disable_flag v) (cur v) (cur s')"
  unfolding moved_def function_move_iff by blast

lemma cycle_moves:
  assumes "site_inv s" "run_state_machine E rd ck s = Some s'"
  shows "cycle_move (returns s) (finds_fault E s) (disable_flag s) (cur s) (cur s') \<and> returns s' = returns s"
proof -
  obtain t u v where p: "before_check s t" "checked t u" "site_ok u" "runnable (status_of u) (sequences u (cur u))"
    "call_current E u = Some v" "run_state rd ck v = Some s'" "moved v s'"
    "cur u = (if cur s \<noteq> Init \<and> (finds_fault E s \<or> disable_flag s) then Shutdown else cur s)" by (rule cycle_decided [OF assms])
  have r: "returns u = returns s" using checked_returns [OF p(2)] p(1) by (simp add: returns_def before_check_def fun_eq_iff)
  note c = call_current_effect [OF p(3,4,5)]
  have rv: "returns v = returns s" using returns_shape [of v u] c r by simp
  have "disable_flag v = disable_flag s" using c p(1,2) by (simp add: before_check_def checked_def)
  then have f: "function_move (disable_flag s) (cur v) (cur s')" using moved_move [OF p(7)] by simp
  have "cur v \<in> insert (cur u) (returns s (cur u))" using c r by auto
  with f have "cycle_move (returns s) (finds_fault E s) (disable_flag s) (cur s) (cur s')"
    unfolding cycle_move_def Let_def p(8) [symmetric] by blast
  moreover have "returns s' = returns s" using returns_sequences [OF moved_sequences [OF p(7)]] rv by simp
  ultimately show ?thesis ..
qed

lemma run_returns:
  assumes "site_run E s s'" "site_inv s"
  shows "returns s' = returns s"
  using assms
proof (induction rule: site_run.induct)
  case (inputs s t u)
  from new_inputs_status [OF inputs.hyps(2)] have "returns u = returns t" by (simp add: returns_def fun_eq_iff)
  with inputs show ?case by simp
next
  case (cycle s t rd ck u)
  with cycle_moves [OF run_site_inv [OF cycle.hyps(1) cycle.prems] cycle.hyps(2)] show ?case by simp
next
  case (debug s t st)
  then show ?case by (simp add: debug_set_state_def set_state_def returns_def fun_eq_iff)
qed simp

text \<open>A sequence without time outs always returns.\<close>

lemma untimed_call:
  assumes "runnable (status_of u) (sequences u (cur u))" "\<forall>p \<in> set (paths (sequences u (cur u))). timeout p = -1"
  shows "\<exists>v. call_current E u = Some v"
  using call_sequence_safe [OF assms(1), of "site_seq_env E" u] assms(2) by (auto simp: call_current_def split: option.splits)

lemma untimed_shape:
  assumes "shape q' = shape q" "\<forall>p \<in> set (paths q). timeout p = -1"
  shows "\<forall>p \<in> set (paths q'). timeout p = -1"
proof
  fix p assume "p \<in> set (paths q')"
  then have "(timeout p, return_state p, map step_shape (steps p)) \<in> set (shape q')" by (force simp: shape_def)
  then have "\<exists>r \<in> set (paths q). timeout r = timeout p" unfolding assms(1) by (force simp: shape_def)
  then show "timeout p = -1" using assms(2) by force
qed

lemma decided_call:
  assumes "site_inv s" "run_watchdog (handle_clear_faults E s) = Some t" "check_state E t = Some u"
    and "\<forall>p \<in> set (paths (sequences s (cur u))). timeout p = -1"
  shows "\<exists>v. call_current E u = Some v"
proof -
  have b: "before_check s t" using run_watchdog_before [OF assms(2)] handle_clear_faults_before before_check_trans by blast
  then have i: "site_inv t" using assms(1) by (simp add: before_check_def site_inv_def)
  have c: "checked t u" using check_state_effect [OF _ assms(3)] i by (auto simp: site_inv_def)
  have "shape (sequences u x) = shape (sequences s x)" for x
    using b c by (force simp: checked_def before_check_def same_run_def same_place_def shape_def)
  from untimed_shape [OF this assms(4)] show ?thesis by (rule untimed_call [OF check_state_runnable [OF i assms(3)]])
qed

section \<open>Faults and the disable button\<close>

definition active_states :: "states set" where
  "active_states = {RunMode1, RunMode2, Standby}"

text \<open>A configuration in which only the start-up and the active states hand over to an active state.\<close>

definition guarded :: "'a site \<Rightarrow> bool" where
  "guarded s \<longleftrightarrow> (\<forall>st. st \<noteq> Startup \<and> st \<notin> active_states \<longrightarrow> returns s st \<inter> active_states = {})"

definition tripped :: "'a site \<Rightarrow> bool" where
  "tripped s \<longleftrightarrow> get_faults (alerts (pw s)) \<or> disable_flag s"

lemma latched_faults: "latches a b \<Longrightarrow> get_faults a \<Longrightarrow> get_faults b"
  by (auto simp: get_faults_def latches_def list_all2_conv_all_nth set_conv_nth)

lemma tripped_checked:
  assumes "before_check s t" "checked t u" "tripped s" "cur s \<noteq> Init"
  shows "cur u = Shutdown"
proof -
  have "get_faults (alerts (pw t)) = get_faults (alerts (pw s))" using assms(1) by (simp add: before_check_def get_faults_def)
  with assms latched_faults [of "alerts (pw t)" "alerts (pw u)"] show ?thesis by (auto simp: before_check_def checked_def tripped_def)
qed

lemma moved_active:
  assumes "moved v s'" "cur v \<notin> active_states"
  shows "cur s' \<notin> active_states"
  using moved_cur [OF assms(1)] assms(2) by (auto simp: active_states_def)

lemma guarded_call:
  assumes "site_ok u" "runnable (status_of u) (sequences u (cur u))" "call_current E u = Some v"
    and "guarded u" "cur u \<noteq> Startup" "cur u \<notin> active_states"
  shows "cur v \<notin> active_states"
proof -
  have "cur v = cur u \<or> cur v \<in> returns u (cur u)" using call_current_effect [OF assms(1-3)] by simp
  moreover have "returns u (cur u) \<inter> active_states = {}" using assms(4-6) by (simp add: guarded_def)
  ultimately show ?thesis using assms(6) by auto
qed

text \<open>A cycle up to the function of the state: what is left is \<open>run_state\<close>.\<close>

definition to_function :: "'a am_env \<Rightarrow> 'a site \<Rightarrow> 'a site option" where
  "to_function E s = run_watchdog (handle_clear_faults E s) \<bind> check_state E \<bind> call_current E"

lemma run_to_function: "run_state_machine E rd ck s = to_function E s \<bind> run_state rd ck"
  by (simp add: run_state_machine_def to_function_def)

lemma to_function_cmds:
  assumes "site_inv s" "to_function E s = Some v"
  shows "cmds (pw v) = cmds (pw s) \<and> site_ok v"
proof -
  from assms(2) obtain t u where r: "run_watchdog (handle_clear_faults E s) = Some t" "check_state E t = Some u" "call_current E u = Some v"
    by (auto simp: to_function_def split: bind_splits)
  have b: "before_check s t" using run_watchdog_before [OF r(1)] handle_clear_faults_before before_check_trans by blast
  then have i: "site_inv t" using assms(1) by (simp add: before_check_def site_inv_def)
  have c: "checked t u" "site_ok u" using check_state_effect [OF _ r(2)] i by (auto simp: site_inv_def)
  from call_current_effect [OF c(2) check_state_runnable [OF i r(2)] r(3)] b c(1) show ?thesis by (simp add: before_check_def checked_def)
qed

text \<open>The move of the function of the state starts at the state the sequence left.\<close>

lemma function_moves:
  assumes "site_inv s" "run_state_machine E rd ck s = Some s'"
  shows "\<exists>v. to_function E s = Some v \<and> function_move (disable_flag s) (cur v) (cur s')"
proof -
  from assms(2) obtain v where v: "to_function E s = Some v" "run_state rd ck v = Some s'"
    by (auto simp: run_to_function split: bind_splits)
  then obtain t u where r: "run_watchdog (handle_clear_faults E s) = Some t" "check_state E t = Some u" "call_current E u = Some v"
    by (auto simp: to_function_def split: bind_splits)
  have b: "before_check s t" using run_watchdog_before [OF r(1)] handle_clear_faults_before before_check_trans by blast
  then have i: "site_inv t" using assms(1) by (simp add: before_check_def site_inv_def)
  have c: "checked t u" "site_ok u" using check_state_effect [OF _ r(2)] i by (auto simp: site_inv_def)
  have "disable_flag v = disable_flag s"
    using call_current_effect [OF c(2) check_state_runnable [OF i r(2)] r(3)] b c(1) by (simp add: before_check_def checked_def)
  with moved_move [OF run_state_moved [OF v(2)]] v(1) show ?thesis by simp
qed

section \<open>Properties\<close>

text \<open>C2. The well-formedness invariant of the site holds throughout a run, in which the cycles alternate with
  any new readings, inputs and SETs of the state: every sequence stays a well formed site sequence, the
  alert registers keep their size, and the sequence that runs next is reset, done or at one of its steps.
  So in every cycle of the run the sequence of the state that was decided returns instead of reading a step its path does
  not have, provided the paths of that sequence have no time out (with one, the message of a time out at
  completion reads past the steps).\<close>
theorem site_invariant:
  assumes "site_run E s0 s" "site_inv s0"
  shows "site_inv s \<and> (\<forall>t u. run_watchdog (handle_clear_faults E s) = Some t \<and> check_state E t = Some u \<and>
    (\<forall>p \<in> set (paths (sequences s (cur u))). timeout p = -1) \<longrightarrow> (\<exists>v. call_current E u = Some v))"
  using run_site_inv [OF assms] decided_call by blast

text \<open>C1. The site refines a machine on the eight states, cycle by cycle: in every cycle of a run that reads nothing out of range, in which
  new readings, inputs and even the debug SET of the state can come between the cycles, the state
  goes to the shutdown exactly when it is not \<^verbatim>\<open>Init\<close> and the check of the faults finds one or the
  disable button is pressed; from there it stays or goes to a return state of a path of that state's sequence;
  and from the state the sequence left it stays or makes the one move of that state's function.  A
  disabled site does not start, and the return states are those of the beginning of the run.\<close>
theorem site_refines_machine:
  assumes "site_run E s0 s" "site_inv s0" "run_state_machine E rd ck s = Some s'"
  shows "cycle_move (returns s0) (finds_fault E s) (disable_flag s) (cur s) (cur s') \<and>
    (\<exists>v. to_function E s = Some v \<and> function_move (disable_flag s) (cur v) (cur s'))"
  using cycle_moves [OF run_site_inv [OF assms(1,2)] assms(3)] run_returns [OF assms(1,2)]
    function_moves [OF run_site_inv [OF assms(1,2)] assms(3)] by simp

text \<open>C5. The check of the state goes to the shutdown exactly when the site is not in \<^verbatim>\<open>Init\<close> and a
  fault is latched or the site is disabled; it keeps every latched fault and alarm and the commands, it
  leaves the reported state equal to the state, the running flag true exactly in the two run modes and
  the alternate state equal to its definition, and a sequence entered anew is reset.\<close>
theorem check_state_decides:
  assumes "site_ok s" "check_state E s = Some s'" "site_state_enum s = check_current_state (status_of s)"
  shows "cur s' = (if cur s \<noteq> Init \<and> (get_faults (alerts (pw s')) \<or> disable_flag s) then Shutdown else cur s) \<and>
    latches (alerts (pw s)) (alerts (pw s')) \<and> cmds (pw s') = cmds (pw s) \<and>
    check_current_state (status_of s') = cur s' \<and> site_state_enum s' = cur s' \<and>
    alt_site_state_enum s' = get_alternate_site_state s' \<and>
    running_status_flag s' = (cur s' = RunMode1 \<or> cur s' = RunMode2) \<and>
    (check_current_state (status_of s) \<noteq> cur s' \<longrightarrow> sequence_reset (status_of s'))"
  using check_state_effect [OF assms(1,2)] assms(3) by (simp add: checked_def)

text \<open>C4. In a configuration where only the start-up and active sequences return to an active state, a
  cycle that ends in a run mode or in the standby began in one or in the start-up, with no fault latched
  and the site not disabled.\<close>
theorem active_only_when_healthy:
  assumes "site_inv s" "guarded s" "run_state_machine E rd ck s = Some s'" "cur s' \<in> active_states"
  shows "(cur s = Startup \<or> cur s \<in> active_states) \<and> \<not> get_faults (alerts (pw s)) \<and> \<not> disable_flag s"
proof -
  obtain t u v where p: "before_check s t" "checked t u" "site_ok u" "runnable (status_of u) (sequences u (cur u))"
    "call_current E u = Some v" "site_ok v" "run_state rd ck v = Some s'" "moved v s'" by (rule cycle_parts [OF assms(1,3)])
  have "returns u = returns s" using checked_returns [OF p(2)] p(1) by (simp add: returns_def before_check_def fun_eq_iff)
  then have g: "guarded u" using assms(2) by (simp add: guarded_def)
  have u: "cur u = Startup \<or> cur u \<in> active_states"
    using guarded_call [OF p(3,4,5) g] moved_active [OF p(8)] assms(4) by blast
  moreover have "cur u = cur s \<or> cur u = Shutdown" using p(1,2) by (auto simp: checked_def before_check_def)
  ultimately have s: "cur s = Startup \<or> cur s \<in> active_states" by (auto simp: active_states_def)
  moreover have "\<not> tripped s"
    using tripped_checked [OF p(1,2)] s u by (auto simp: active_states_def)
  ultimately show ?thesis by (simp add: tripped_def)
qed

lemma zero_after_shutdown: "cmds (pw (shutdown_state s)) = [0, 0, 0, 0, 0, 0, 0]"
  by (simp add: shutdown_state_def zero_cmds_def reset_slews_def upd_pw_def cmds_def tell_def Let_def goto_def split: prod.split)

lemma tripped_call:
  assumes "site_ok u" "sequence_reset (status_of u)" "2 \<le> length (steps (paths (sequences u (cur u)) ! 0))"
    and "call_current E u = Some v"
  shows "cur v = cur u \<and> \<not> sequence_bypass (sequences v (cur u))"
proof -
  from assms(4) obtain ss q t where c: "call_sequence (site_seq_env E) (status_of u) (sequences u (cur u)) u = Some (ss, q, t)"
    and v: "v = upd_seq (cur u) (\<lambda>_. q) (t\<lparr>status_of := ss\<rparr>)"
    by (auto simp: call_current_def split: Option.bind_splits)
  have "seq_wf (sequences u (cur u))" using assms(1) by (simp add: site_ok_def)
  from call_after_reset_incomplete [OF this assms(2,3) c] show ?thesis by (simp add: v status_core_def)
qed

lemma trip_zeroes:
  assumes "site_inv s" "cur s \<noteq> Init" "check_current_state (status_of s) \<noteq> Shutdown" "finds_fault E s \<or> disable_flag s"
    and "2 \<le> length (steps (paths (sequences s Shutdown) ! 0))" "run_state_machine E rd ck s = Some s'"
  shows "cur s' = Shutdown \<and> cmds (pw s') = [0, 0, 0, 0, 0, 0, 0]"
proof -
  obtain t u v where p: "before_check s t" "checked t u" "site_ok u" "runnable (status_of u) (sequences u (cur u))"
    "call_current E u = Some v" "run_state rd ck v = Some s'" "moved v s'"
    "cur u = (if cur s \<noteq> Init \<and> (finds_fault E s \<or> disable_flag s) then Shutdown else cur s)" by (rule cycle_decided [OF assms(1,6)])
  then have u: "cur u = Shutdown" using assms(2,4) by simp
  have rs: "sequence_reset (status_of u)" using p(1,2) u assms(3) by (simp add: checked_def before_check_def)
  have sh: "shape (sequences u Shutdown) = shape (sequences s Shutdown)"
    using p(1,2) by (force simp: checked_def before_check_def same_run_def same_place_def shape_def)
  have "0 < length (paths (sequences u Shutdown))" using p(3) by (auto simp: site_ok_def seq_wf_def config_ok_def)
  then have "2 \<le> length (steps (paths (sequences u Shutdown) ! 0))" using length_steps_shape [OF sh, of 0] assms(5) by simp
  then have v: "cur v = Shutdown" "\<not> sequence_bypass (sequences v Shutdown)" using tripped_call [OF p(3) rs _ p(5)] u by auto
  then have s': "s' = shutdown_state v" using p(6) by (simp add: run_state_def)
  have "cur (shutdown_state v) = cur v"
    using v by (simp add: shutdown_state_def Let_def tell_def upd_pw_def zero_cmds_def reset_slews_def split: prod.split)
  with zero_after_shutdown [of v] v s' show ?thesis by simp
qed

text \<open>A fault that is latched is found again.\<close>

lemma latched_found:
  assumes "site_inv s" "run_state_machine E rd ck s = Some s'" "cur s \<noteq> Init" "get_faults (alerts (pw s))"
  shows "finds_fault E s"
proof -
  from assms(2) obtain t u where r: "run_watchdog (handle_clear_faults E s) = Some t" "check_state E t = Some u"
    by (auto simp: run_state_machine_def split: bind_splits)
  have b: "before_check s t" using run_watchdog_before [OF r(1)] handle_clear_faults_before before_check_trans by blast
  then have ok: "site_ok t" "cur t \<noteq> Init" "get_faults (alerts (pw t))"
    using assms(1,3,4) by (simp_all add: before_check_def site_inv_def get_faults_def)
  have "get_faults (alerts (pw u))"
    using check_state_effect [OF ok(1) r(2)] latched_faults [OF _ ok(3)] by (auto simp: checked_def)
  then show ?thesis using found_checked [OF ok(1) r(2) ok(2) r(1)] by simp
qed

text \<open>C3. A cycle whose check of the faults finds one, be it new in this cycle or latched before, or in which the
  disable button is pressed, takes a site that is neither in \<^verbatim>\<open>Init\<close> nor already in the shutdown to the shutdown and ends
  there with every active and reactive power command zero, provided the first path of the
  shutdown sequence has at least two steps (a shorter one completes at once and keeps the commands).\<close>
theorem trip_zeroes_commands:
  assumes "site_inv s" "cur s \<noteq> Init" "check_current_state (status_of s) \<noteq> Shutdown" "finds_fault E s \<or> disable_flag s"
    and "2 \<le> length (steps (paths (sequences s Shutdown) ! 0))" "run_state_machine E rd ck s = Some s'"
  shows "cur s' = Shutdown \<and> cmds (pw s') = [0, 0, 0, 0, 0, 0, 0]"
  by (rule trip_zeroes [OF assms])

section \<open>A concrete site\<close>

text \<open>
  A site of which every sequence is one path of two steps that returns to \<^verbatim>\<open>Ready\<close>, in the state
  \<open>st\<close>, held in standby, with an ESS command of 75 kW.
\<close>

definition demo_env :: "unit am_env" where
  "demo_env = \<lparr>am_call = (\<lambda>_ a. (True, a)), am_view = (\<lambda>_. idle_view), get_sync_feeder_status = (\<lambda>_. False),
     get_poi_feeder_state = (\<lambda>_. False), get_feeder_utility_status = (\<lambda>_ _. False),
     get_sync_feeder_gridside_avg_voltage = (\<lambda>_. 0), get_sync_feeder_gridside_frequency = (\<lambda>_. 0),
     get_sync_frequency_offset = (\<lambda>_. 0)\<rparr>"

definition to_ready :: "step list \<Rightarrow> sequence" where
  "to_ready ss = Sequence\<lparr>paths := [\<lparr>path_name = ''main'', return_id = ''Ready'', return_state = Ready, timeout = -1,
     steps = ss, path_faults = [], num_active_faults = 0, path_alarms = [], num_active_alarms = 0\<rparr>]\<rparr>"

definition demo_steps :: "step list" where
  "demo_steps = [bypass_step ''close'', bypass_step ''start'']"

definition demo_status :: "states \<Rightarrow> sequences_status" where
  "demo_status st = (Sequences_Status (mk_ts 1 0) (mk_ts 0 0))\<lparr>current_state := st, check_current_state := st\<rparr>"

definition demo_flag :: fims_object where
  "demo_flag = demo_var ''flag'' 0"

definition idle_site_of :: "'a \<Rightarrow> states \<Rightarrow> bool \<Rightarrow> step list \<Rightarrow> 'a site" where
  "idle_site_of a st off ss = \<lparr>pw = demo_power\<lparr>ess_kW_cmd := 75\<rparr>, am = a, sequences = (\<lambda>_. to_ready ss), status_of = demo_status st,
     enable_flag = demo_flag, disable_flag = off, standby_flag = True, clear_faults_flag = demo_flag, running_status_flag = False,
     site_state = state_name st, site_state_enum = st, alt_site_state_enum = READY, site_status = '''', num_path_faults = 0,
     num_path_alarms = 0, clear_fault_status_flags = False, time_to_clear_fault_status_flags = mk_ts 0 0,
     watchdog_feature = demo_wd, ldss_enable_flag = False, standby_ess_latch = False, standby_solar_latch = False,
     prev_ess_kW_cmd = 0, prev_solar_kW_cmd = 0, prev_ess_kVAR_cmd = 0, prev_solar_kVAR_cmd = 0, reserved_bool = (\<lambda>_. False),
     reserved_float = (\<lambda>_. 0), reserved_name = (\<lambda>_. ''''), num_ess_available = 1, num_ess_running = 1,
     num_ess_controllable = 1, num_gen_available = 0, num_gen_running = 0, num_gen_active = 0, num_solar_available = 0,
     ess_actual_kW = 75, soc_avg_all = 50, allow_ess_auto_restart = False, allow_gen_auto_restart = False,
     allow_solar_auto_restart = False, site_kW_load_v = 0, site_kW_demand_v = 75, ess_kVAR_slew_rate = 10,
     gen_kVAR_slew_rate = 10, solar_kVAR_slew_rate = 10, is_primary = True, has_data_endpoint = False, sent = [],
     clk = (\<lambda>n. mk_ts (int n) 0), tick = 0\<rparr>"

abbreviation idle_site :: "states \<Rightarrow> bool \<Rightarrow> step list \<Rightarrow> unit site" where
  "idle_site \<equiv> idle_site_of ()"

lemma idle_trip: "map_option cur (to_function demo_env (idle_site RunMode1 True demo_steps)) = Some Shutdown"
  by code_simp

lemma idle_one_step: "map_option (\<lambda>s. (cur s, value_bool (fo_value (enable_flag s)), ess_kW_cmd (pw s)))
    (to_function demo_env (idle_site RunMode1 True [bypass_step ''stop''])) = Some (Ready, False, 75)"
  by code_simp

lemma to_ready_runnable: "ss \<noteq> [] \<Longrightarrow> \<forall>x \<in> set ss. \<not> path_switch x \<Longrightarrow> runnable st (to_ready ss)"
proof -
  assume ss: "ss \<noteq> []" "\<forall>x \<in> set ss. \<not> path_switch x"
  then have "cur_step (to_ready ss) \<noteq> None" unfolding cur_step_Some_iff by (simp add: to_ready_def Sequence_def)
  moreover have "seq_wf (to_ready ss)" using ss
    by (simp add: to_ready_def Sequence_def seq_wf_def config_ok_def shape_def step_shape_def)
  ultimately show ?thesis by (simp only: runnable_def simp_thms)
qed

lemma idle_site_inv: "site_inv (idle_site_of a st off demo_steps)" "site_inv (idle_site_of a st off [bypass_step n])"
proof -
  have "site_inv (idle_site_of a st off ss)" if "ss \<noteq> []" "\<forall>x \<in> set ss. \<not> path_switch x" for ss
  proof -
    have "sequence_type (to_ready ss) = Site" "sequences (idle_site_of a st off ss) x = to_ready ss" for x
      by (simp_all add: to_ready_def Sequence_def idle_site_of_def)
    moreover have "regs_ok (alerts (pw (idle_site_of a st off ss)))" by (simp add: idle_site_of_def demo_power_def demo_alerts_def regs_ok_def)
    ultimately show ?thesis using to_ready_runnable [OF that] by (simp add: site_inv_def site_ok_def runnable_def)
  qed
  then show "site_inv (idle_site_of a st off demo_steps)" "site_inv (idle_site_of a st off [bypass_step n])"
    by (simp_all add: demo_steps_def bypass_step_def)
qed

lemma idle_site_frame:
  "cur (idle_site_of a st off ss) = st" "check_current_state (status_of (idle_site_of a st off ss)) = st"
  "site_state_enum (idle_site_of a st off ss) = st" "disable_flag (idle_site_of a st off ss) = off"
  "returns (idle_site_of a st off ss) = (\<lambda>_. {Ready})" "get_faults (alerts (pw (idle_site_of a st off ss))) = False"
  "cmds (pw (idle_site_of a st off ss)) = [75, 0, 0, 0, 0, 0, 0]"
  by (simp_all add: idle_site_of_def demo_status_def Sequences_Status_def returns_def to_ready_def fun_eq_iff get_faults_def
      demo_power_def demo_alerts_def cmds_def)

lemma idle_cycles:
  "\<exists>s'. run_state_machine demo_env demo_readings demo_site_clocks (idle_site Standby False demo_steps) = Some s' \<and> cur s' = Standby"
  "\<exists>s'. run_state_machine demo_env demo_readings demo_site_clocks (idle_site RunMode1 True demo_steps) = Some s'"
proof -
  have sb: "map_option (\<lambda>s. (cur s, standby_flag s)) (to_function demo_env (idle_site Standby False demo_steps)) = Some (Standby, True)"
    by code_simp
  then obtain v where v: "to_function demo_env (idle_site Standby False demo_steps) = Some v" "cur v = Standby" "standby_flag v" by auto
  moreover have "cur (standby_state demo_readings v) = Standby"
    using v by (simp add: standby_state_def Let_def upd_pw_def)
  ultimately show "\<exists>s'. run_state_machine demo_env demo_readings demo_site_clocks (idle_site Standby False demo_steps) = Some s' \<and>
      cur s' = Standby" by (simp add: run_to_function run_state_def)
  obtain u where "to_function demo_env (idle_site RunMode1 True demo_steps) = Some u" "cur u = Shutdown" using idle_trip by auto
  then show "\<exists>s'. run_state_machine demo_env demo_readings demo_site_clocks (idle_site RunMode1 True demo_steps) = Some s'"
    by (simp add: run_to_function run_state_def)
qed

text \<open>C9. A shutdown sequence that completes in the cycle that entered it skips the shutdown function: when
  the sequence of a cycle ends in \<^verbatim>\<open>Ready\<close>, every power command keeps the value it had before the cycle.\<close>
theorem completed_shutdown_keeps_commands:
  assumes "site_inv s" "to_function E s = Some v" "cur v = Ready"
  shows "\<exists>s'. run_state_machine E rd ck s = Some s' \<and> cmds (pw s') = cmds (pw s)"
  using to_function_cmds [OF assms(1,2)] assms(2,3) by (simp add: run_to_function run_state_def ready_state_def)

theorem site_invariant_witness:
  "site_inv (idle_site RunMode1 True demo_steps) \<and> (\<exists>t u v. run_watchdog (handle_clear_faults demo_env (idle_site RunMode1 True demo_steps)) = Some t \<and>
     check_state demo_env t = Some u \<and> call_current demo_env u = Some v)"
proof -
  obtain v0 where "to_function demo_env (idle_site RunMode1 True demo_steps) = Some v0" using idle_trip by auto
  then obtain t u where r: "run_watchdog (handle_clear_faults demo_env (idle_site RunMode1 True demo_steps)) = Some t"
    "check_state demo_env t = Some u" by (auto simp: to_function_def split: bind_splits)
  have "\<forall>p \<in> set (paths (sequences (idle_site RunMode1 True demo_steps) (cur u))). timeout p = -1"
    by (simp add: idle_site_of_def to_ready_def)
  with site_invariant [OF site_run.here idle_site_inv(1) [of "()" RunMode1 True], of demo_env] r show ?thesis by blast
qed

theorem site_refines_machine_witness:
  "\<exists>s'. run_state_machine demo_env demo_readings demo_site_clocks (idle_site RunMode1 True demo_steps) = Some s' \<and>
     cycle_move (\<lambda>_. {Ready}) (finds_fault demo_env (idle_site RunMode1 True demo_steps)) True RunMode1 (cur s')"
proof -
  obtain s' where s': "run_state_machine demo_env demo_readings demo_site_clocks (idle_site RunMode1 True demo_steps) = Some s'"
    using idle_cycles(2) by blast
  with site_refines_machine [OF site_run.here idle_site_inv(1) s'] show ?thesis by (simp add: idle_site_frame)
qed

theorem check_state_decides_witness:
  "\<exists>s'. check_state demo_env (idle_site RunMode1 True demo_steps) = Some s' \<and> cur s' = Shutdown \<and> sequence_reset (status_of s')"
proof -
  have "map_option (\<lambda>_. ()) (check_state demo_env (idle_site RunMode1 True demo_steps)) = Some ()" by code_simp
  then obtain s' where s': "check_state demo_env (idle_site RunMode1 True demo_steps) = Some s'" by auto
  have "site_ok (idle_site RunMode1 True demo_steps)" using idle_site_inv(1) [of "()" RunMode1 True] by (simp add: site_inv_def)
  from check_state_decides [OF this s'] s' show ?thesis by (simp add: idle_site_frame)
qed

theorem active_only_when_healthy_witness:
  "\<exists>s'. run_state_machine demo_env demo_readings demo_site_clocks (idle_site Standby False demo_steps) = Some s' \<and>
     cur s' \<in> active_states \<and> \<not> get_faults (alerts (pw (idle_site Standby False demo_steps)))"
proof -
  obtain s' where s': "run_state_machine demo_env demo_readings demo_site_clocks (idle_site Standby False demo_steps) = Some s'"
    "cur s' = Standby" using idle_cycles(1) by blast
  have "guarded (idle_site Standby False demo_steps)" by (simp add: guarded_def idle_site_frame active_states_def)
  moreover have a: "cur s' \<in> active_states" using s' by (simp add: active_states_def)
  ultimately show ?thesis using active_only_when_healthy [OF idle_site_inv(1) _ s'(1)] s'(1) by blast
qed

theorem trip_zeroes_commands_witness:
  "\<exists>s'. run_state_machine demo_env demo_readings demo_site_clocks (idle_site RunMode1 True demo_steps) = Some s' \<and>
     cur s' = Shutdown \<and> ess_kW_cmd (pw s') = 0"
proof -
  obtain s' where s': "run_state_machine demo_env demo_readings demo_site_clocks (idle_site RunMode1 True demo_steps) = Some s'"
    using idle_cycles(2) by blast
  have "2 \<le> length (steps (paths (sequences (idle_site RunMode1 True demo_steps) Shutdown) ! 0))"
    by (simp add: idle_site_of_def to_ready_def demo_steps_def)
  from trip_zeroes_commands [OF idle_site_inv(1) _ _ _ this s'] s' show ?thesis by (simp add: idle_site_frame cmds_def)
qed

theorem completed_shutdown_keeps_commands_witness:
  "\<exists>s'. run_state_machine demo_env demo_readings demo_site_clocks (idle_site RunMode1 True [bypass_step ''stop'']) = Some s' \<and>
     ess_kW_cmd (pw s') = 75"
proof -
  obtain v where v: "to_function demo_env (idle_site RunMode1 True [bypass_step ''stop'']) = Some v" "cur v = Ready"
    using idle_one_step by auto
  obtain s' where s': "run_state_machine demo_env demo_readings demo_site_clocks (idle_site RunMode1 True [bypass_step ''stop'']) = Some s'"
    "cmds (pw s') = [75, 0, 0, 0, 0, 0, 0]"
    using completed_shutdown_keeps_commands [OF idle_site_inv(2) v] unfolding idle_site_frame by blast
  then have "ess_kW_cmd (pw s') = 75" unfolding cmds_def by simp
  with s' show ?thesis by blast
qed

end
