(* ===== verification/Assets.thy ===== *)
theory Assets
  imports Sequences Slew
begin

text \<open>
  The base class of the assets (\<^verbatim>\<open>Asset.cpp\<close>): the throttle of the writes to a component, the fault
  and alarm registers, the watchdog of the connection, local mode, maintenance and lockdown, and the
  power an asset can give.

  The registers of the components are FIMS variables; the latched faults and saved alarms are
  association lists, as the maps of the code.  Messages to components and events are appended to
  lists.  A clock reading is an argument.  The square root of a negative number is not a number, and
  \<^verbatim>\<open>std::min\<close> with it as second argument is its first argument.
\<close>

section \<open>Throttle of the writes\<close>

record write_rate_throttle =
  rated_power :: flt
  throttle_timeout :: int
  deadband_percentage :: flt
  status_time :: int
  control_feedback :: flt

definition Write_Rate_Throttle :: write_rate_throttle where
  "Write_Rate_Throttle = \<lparr>rated_power = 0, throttle_timeout = 0, deadband_percentage = 0, status_time = 0, control_feedback = 0\<rparr>"

definition throttle_reset :: "write_rate_throttle \<Rightarrow> write_rate_throttle" where
  "throttle_reset w = w\<lparr>status_time := 0, control_feedback := 0\<rparr>"

definition throttle_configure :: "int \<Rightarrow> flt \<Rightarrow> flt \<Rightarrow> write_rate_throttle \<Rightarrow> write_rate_throttle" where
  "throttle_configure timeout_ms rated deadband w = w\<lparr>throttle_timeout := timeout_ms, rated_power := rated, deadband_percentage := deadband\<rparr>"

definition current_timestamp :: "timespec \<Rightarrow> int" where
  "current_timestamp now = tv_sec now * 1000 + tv_nsec now sdiv 1000000"

definition command_trigger :: "timespec \<Rightarrow> write_rate_throttle \<Rightarrow> bool \<times> write_rate_throttle" where
  "command_trigger now w =
     (let control_time = current_timestamp now
      in if control_time - status_time w > throttle_timeout w then (True, w\<lparr>status_time := control_time\<rparr>) else (False, w))"

definition setpoint_trigger :: "timespec \<Rightarrow> flt \<Rightarrow> write_rate_throttle \<Rightarrow> bool \<times> write_rate_throttle" where
  "setpoint_trigger now control_power w =
     (let control_time = current_timestamp now;
          delta = control_feedback w - control_power;
          percent_power = rated_power w * deadband_percentage w
      in if \<bar>delta\<bar> > percent_power \<or> control_time - status_time w > throttle_timeout w
         then (True, w\<lparr>control_feedback := control_power, status_time := control_time\<rparr>) else (False, w))"

section \<open>The state of an asset\<close>

datatype demandMode = Uncontrolled | Indirect | Direct | Manual_mode

record asset =
  as_id :: string
  as_name :: string
  as_type :: string
  as_primary :: bool
  as_msgs :: "(string \<times> value_object) list"
  as_events :: "(string \<times> string \<times> alert_type) list"
  uri_clear_faults :: string
  clear_fault_registers_flag :: bool
  clear_faults_time :: timespec
  clearFaultsControlEnable :: bool
  component_fault_registers :: "fims_object list"
  component_alarm_registers :: "fims_object list"
  fault_latches :: "(string \<times> 64 word) list"
  alarm_saves :: "(string \<times> 64 word) list"
  action_fault_bits :: "64 word"
  action_alarm_bits :: "64 word"
  watchdog_fault_bits :: "64 word"
  watchdog_text :: string
  watchdog_enable :: bool
  component_connected :: bool
  connected_rising_edge_detect :: bool
  watchdog_status :: bool
  watchdog_heartbeat :: int
  prev_watchdog_heartbeat :: int
  watchdog_timeout_ms :: int
  fims_timeout :: bool
  fims_timer :: timespec
  local_mode_configured :: bool
  local_mode_status_type :: statusType
  local_mode_status_mask :: "64 word"
  local_mode_signal :: int
  local_mode_status :: bool
  local_mode_alarm :: "64 word"
  local_mode_text :: string
  is_faulted :: bool
  is_alarmed :: bool
  newly_faulted :: bool
  status_register :: fims_object
  raw_status :: "64 word"
  internal_status :: "64 word"
  running_status_mask :: "64 word"
  stopped_status_mask :: "64 word"
  isAvail :: bool
  isRunning :: bool
  in_maintenance :: bool
  inStandby :: bool
  inLockdown :: bool
  maint_mode_enabled :: bool
  lock_mode_enabled :: bool
  assetControl :: demandMode
  kW_setpoint :: fims_object
  kVAR_setpoint :: fims_object
  active_power :: flt
  reactive_power :: flt
  apparent_power :: flt
  rated_active_power_kw :: flt
  rated_reactive_power_kvar :: flt
  rated_apparent_power_kva :: flt
  active_power_limit :: "flt option"
  reactive_power_priority :: bool
  active_power_slew :: slew_object
  normal_slew_rate :: flt
  maint_slew_rate :: flt
  maint_slew_configured :: bool
  max_potential_active_power :: flt
  min_potential_active_power :: flt
  max_limited_active_power :: flt
  min_limited_active_power :: flt
  potential_reactive_power :: flt
  kW_throttle :: write_rate_throttle
  kVAR_throttle :: write_rate_throttle
  start_command_throttle :: write_rate_throttle
  stop_command_throttle :: write_rate_throttle

definition as_event :: "string \<Rightarrow> alert_type \<Rightarrow> ('m) asset_scheme \<Rightarrow> ('m) asset_scheme" where
  "as_event m ty a = a\<lparr>as_events := as_events a @ [(''Assets'', medium_msg m, ty)]\<rparr>"

section \<open>Messages to the component\<close>

definition json_object_send :: "value_object \<Rightarrow> string \<Rightarrow> 'm asset_scheme \<Rightarrow> 'm asset_scheme" where
  "json_object_send v uri a =
     (if \<not> as_primary a \<or> local_mode_status a then a
      else if uri = [] then a
      else a\<lparr>as_msgs := as_msgs a @ [(uri, v)]\<rparr>)"

definition send_to_comp_uri :: "value_object \<Rightarrow> string \<Rightarrow> 'm asset_scheme \<Rightarrow> bool \<times> 'm asset_scheme" where
  "send_to_comp_uri v uri a = (if uri = [] then (False, a) else (True, json_object_send v uri a))"

section \<open>Alerts\<close>

definition put_assoc :: "'k \<Rightarrow> 'v \<Rightarrow> ('k \<times> 'v) list \<Rightarrow> ('k \<times> 'v) list" where
  "put_assoc k v = map (\<lambda>(k', v'). if k' = k then (k', v) else (k', v'))"

definition get_num_active_faults :: "'m asset_scheme \<Rightarrow> int" where
  "get_num_active_faults a = int (length (filter (\<lambda>nv. snd nv > 0) (fault_latches a))) +
     (if action_fault_bits a \<noteq> 0 then 1 else 0)"

definition get_num_active_alarms :: "'m asset_scheme \<Rightarrow> int" where
  "get_num_active_alarms a = int (length (filter (\<lambda>nv. snd nv > 0) (alarm_saves a))) +
     (if action_alarm_bits a \<noteq> 0 then 1 else 0)"

definition check_fault :: "string \<Rightarrow> 64 word \<Rightarrow> 'm asset_scheme \<Rightarrow> bool" where
  "check_fault i msk a = (case map_of (fault_latches a) i of Some v \<Rightarrow> v AND msk \<noteq> 0 | None \<Rightarrow> False)"

definition check_alarm :: "string \<Rightarrow> 64 word \<Rightarrow> 'm asset_scheme \<Rightarrow> bool" where
  "check_alarm i msk a = (case map_of (alarm_saves a) i of Some v \<Rightarrow> v AND msk \<noteq> 0 | None \<Rightarrow> False)"

definition check_alert :: "string \<Rightarrow> 64 word \<Rightarrow> 'm asset_scheme \<Rightarrow> bool" where
  "check_alert i msk a = (check_fault i msk a \<or> check_alarm i msk a)"

definition clear_alerts :: "timespec \<Rightarrow> 'm asset_scheme \<Rightarrow> 'm asset_scheme" where
  "clear_alerts now a =
     (let (_, a) = send_to_comp_uri (set_bool True (Value_Object 0)) (uri_clear_faults a) a
      in a\<lparr>clear_fault_registers_flag := True, clear_faults_time := increment_timespec_ms now 1000\<rparr>)"

definition lower_alert_bits :: "'m asset_scheme \<Rightarrow> 'm asset_scheme" where
  "lower_alert_bits a = a
     \<lparr>component_fault_registers := map clear_fims_bit_field (component_fault_registers a),
      watchdog_fault_bits := 0,
      fault_latches := map (\<lambda>(k, v). (k, 0)) (fault_latches a),
      component_alarm_registers := map clear_fims_bit_field (component_alarm_registers a),
      alarm_saves := map (\<lambda>(k, v). (k, 0)) (alarm_saves a),
      action_fault_bits := 0, action_alarm_bits := 0\<rparr>"

text \<open>One event for every bit that is new in a register, lowest first, with the text of that bit.\<close>

definition option_text :: "fims_object \<Rightarrow> nat \<Rightarrow> string" where
  "option_text r i = (case map_of (options_map r) (of_nat i) of Some (t, _) \<Rightarrow> t | None \<Rightarrow> [])"

definition announce :: "alert_type \<Rightarrow> string \<Rightarrow> 64 word \<Rightarrow> fims_object \<Rightarrow> 'm asset_scheme \<Rightarrow> 'm asset_scheme" where
  "announce ty kind new_bits r a =
     (if new_bits = 0 then a
      else fold (\<lambda>i. as_event (''Asset '' @ as_name a @ '' received '' @ kind @ '': '' @ option_text r i) ty)
             (filter (bit new_bits) [0..<64]) (a\<lparr>clearFaultsControlEnable := True\<rparr>))"

abbreviation bits :: "fims_object \<Rightarrow> 64 word" where
  "bits r \<equiv> value_bit_field (fo_value r)"

definition process_fault_register :: "fims_object \<Rightarrow> 'm asset_scheme \<Rightarrow> 'm asset_scheme" where
  "process_fault_register r a =
     (if bits r > 0 then
        case map_of (fault_latches a) (variable_id r) of
          None \<Rightarrow> a
        | Some latched \<Rightarrow>
            let a = (if latched \<noteq> bits r then announce FAULT_ALERT ''fault'' (NOT latched AND bits r) r a else a)
            in a\<lparr>fault_latches := put_assoc (variable_id r) (bits r) (fault_latches a)\<rparr>
      else a)"

fun process_alarm_registers :: "fims_object list \<Rightarrow> 'm asset_scheme \<Rightarrow> 'm asset_scheme" where
  "process_alarm_registers [] a = a"
| "process_alarm_registers (r # rs) a =
     (case map_of (alarm_saves a) (variable_id r) of
        None \<Rightarrow> a
      | Some old_alarm_value \<Rightarrow>
          let a = (if bits r > 0 \<and> old_alarm_value \<noteq> bits r
                   then announce ALARM_ALERT ''alarm'' (NOT old_alarm_value AND bits r) r a else a)
          in process_alarm_registers rs (a\<lparr>alarm_saves := put_assoc (variable_id r) (bits r) (alarm_saves a)\<rparr>))"

section \<open>Connection and local mode\<close>

definition check_fims_timeout :: "timespec \<Rightarrow> 'm asset_scheme \<Rightarrow> bool \<times> 'm asset_scheme" where
  "check_fims_timeout now a =
     (let prev_fims_timeout = fims_timeout a;
          a = (if watchdog_heartbeat a \<noteq> prev_watchdog_heartbeat a
               then a\<lparr>prev_watchdog_heartbeat := watchdog_heartbeat a, fims_timer := increment_timespec_ms now (watchdog_timeout_ms a),
                      fims_timeout := False\<rparr>
               else a\<lparr>fims_timeout := check_expired_time now (fims_timer a)\<rparr>);
          a = (if prev_fims_timeout \<noteq> fims_timeout a then
                 if fims_timeout a then as_event (''Asset '' @ as_name a @ '' watchdog timeout'') ALARM_ALERT a
                 else as_event (''Asset '' @ as_name a @ '' watchdog reconnected'') STATUS_ALERT a
               else a)
      in (fims_timeout a, a))"

definition process_watchdog_status :: "timespec \<Rightarrow> 'm asset_scheme \<Rightarrow> bool \<times> 'm asset_scheme" where
  "process_watchdog_status now a =
     (if \<not> watchdog_enable a then (True, a)
      else
        let (timed_out, a) = check_fims_timeout now a;
            a = a\<lparr>watchdog_status := (\<not> timed_out \<and> component_connected a)\<rparr>;
            a = (case map_of (fault_latches a) ''watchdog_fault'' of
                   None \<Rightarrow> a
                 | Some v \<Rightarrow>
                     if v = 0 \<and> \<not> watchdog_status a
                     then as_event (''Fault received: '' @ watchdog_text a @ '', asset: '' @ as_name a) FAULT_ALERT
                            (a\<lparr>clearFaultsControlEnable := True, watchdog_fault_bits := 1,
                               fault_latches := put_assoc ''watchdog_fault'' 1 (fault_latches a)\<rparr>)
                     else a);
            a = (if connected_rising_edge_detect a \<noteq> component_connected a then
                   let a = (if component_connected a
                            then as_event (''The Asset '' @ as_name a @ '' was connected'') STATUS_ALERT a
                            else as_event (''The Asset '' @ as_name a @ '' was disconnected'') FAULT_ALERT a)
                   in a\<lparr>connected_rising_edge_detect := component_connected a\<rparr>
                 else a)
        in (watchdog_status a, a))"

text \<open>A signal that is not a bit position is a shift the language does not define.\<close>

definition process_local_mode_status :: "'m asset_scheme \<Rightarrow> 'm asset_scheme option" where
  "process_local_mode_status a =
     (if \<not> local_mode_configured a then Some a
      else if local_mode_status_type a = bit_field \<and> \<not> (0 \<le> local_mode_signal a \<and> local_mode_signal a < 64) then None
      else
        let a = (case local_mode_status_type a of
                   random_enum \<Rightarrow> a\<lparr>local_mode_status := (word_of_int (local_mode_signal a) = local_mode_status_mask a)\<rparr>
                 | bit_field \<Rightarrow> a\<lparr>local_mode_status := bit (local_mode_status_mask a) (nat (local_mode_signal a))\<rparr>
                 | invalid_status \<Rightarrow> a);
            a = a\<lparr>local_mode_alarm := (if local_mode_status a then 1 else 0)\<rparr>
        in Some (case map_of (alarm_saves a) ''local_mode_alarm'' of
             None \<Rightarrow> a
           | Some v \<Rightarrow>
               if v = 0 \<and> local_mode_status a
               then as_event (''alarm received: '' @ local_mode_text a @ '', asset: '' @ as_name a) ALARM_ALERT
                      (a\<lparr>alarm_saves := put_assoc ''local_mode_alarm'' 1 (alarm_saves a)\<rparr>)
               else if v = 1 \<and> \<not> local_mode_status a
               then a\<lparr>alarm_saves := put_assoc ''local_mode_alarm'' 0 (alarm_saves a)\<rparr> else a))"

section \<open>Power\<close>

text \<open>\<^verbatim>\<open>sqrtf\<close> of a difference of squares, and \<^verbatim>\<open>std::min\<close> with it as second argument.\<close>

definition other_power :: "flt \<Rightarrow> flt \<Rightarrow> flt option" where
  "other_power apparent used = (if apparent ^ 2 - used ^ 2 < 0 then None else Some (sqrt (apparent ^ 2 - used ^ 2)))"

definition min_nan :: "flt \<Rightarrow> flt option \<Rightarrow> flt" where
  "min_nan x y = (case y of None \<Rightarrow> x | Some v \<Rightarrow> if v < x then v else x)"

definition base_potential_active_power :: "timespec \<Rightarrow> 'm asset_scheme \<Rightarrow> 'm asset_scheme" where
  "base_potential_active_power now a =
     (let sl = update_slew_target now (value_float (component_control_value (kW_setpoint a))) (active_power_slew a);
          mx = (if slew_max_value sl > rated_active_power_kw a then rated_active_power_kw a else slew_max_value sl);
          mn = zero_check (slew_min_value sl)
      in a\<lparr>active_power_slew := sl, max_potential_active_power := mx, max_limited_active_power := mx,
           min_potential_active_power := mn, min_limited_active_power := mn, active_power_limit := Some (rated_active_power_kw a)\<rparr>)"

definition process_potential_reactive_power :: "'m asset_scheme \<Rightarrow> 'm asset_scheme" where
  "process_potential_reactive_power a =
     a\<lparr>potential_reactive_power :=
         (if reactive_power_priority a then rated_reactive_power_kvar a
          else min_nan (rated_reactive_power_kvar a)
                 (other_power (rated_apparent_power_kva a) (value_float (fo_value (kW_setpoint a)))))\<rparr>"

definition get_active_power_slew_min_target :: "'m asset_scheme \<Rightarrow> flt" where
  "get_active_power_slew_min_target a = (if slew_min_value (active_power_slew a) < 0 then 0 else slew_min_value (active_power_slew a))"

section \<open>Processing the readings of a cycle\<close>

definition get_demand_mode :: "'m asset_scheme \<Rightarrow> demandMode" where
  "get_demand_mode a = (if in_maintenance a then Uncontrolled else assetControl a)"

definition is_controllable :: "'m asset_scheme \<Rightarrow> bool" where
  "is_controllable a \<longleftrightarrow> isAvail a \<and> isRunning a \<and> \<not> inStandby a \<and> get_demand_mode a \<noteq> Uncontrolled"

definition process_faults :: "'m asset_scheme \<Rightarrow> 'm asset_scheme" where
  "process_faults a =
     (let previously_no_faults = (get_num_active_faults a = 0);
          a = fold process_fault_register (component_fault_registers a) a;
          a = a\<lparr>is_faulted := (get_num_active_faults a \<noteq> 0)\<rparr>;
          a = a\<lparr>newly_faulted := (if is_faulted a then previously_no_faults else newly_faulted a)\<rparr>
      in a\<lparr>is_alarmed := (get_num_active_alarms a \<noteq> 0)\<rparr>)"

definition process_status :: "'m asset_scheme \<Rightarrow> 'm asset_scheme" where
  "process_status a =
     (if status_type (status_register a) = invalid_status then a
      else if internal_status a \<noteq> raw_status a
      then let a = a\<lparr>internal_status := raw_status a\<rparr>
           in a\<lparr>as_events := as_events a @ [(''Assets'', take 255 (''Asset '' @ as_name a @ '' status changed to: '' @
                   get_status_string (status_register a)), STATUS_ALERT)]\<rparr>
      else a)"

definition status_matches :: "64 word \<Rightarrow> bool \<Rightarrow> 'm asset_scheme \<Rightarrow> bool" where
  "status_matches msk old a = (case status_type (status_register a) of
       random_enum \<Rightarrow> internal_status a = msk | bit_field \<Rightarrow> msk AND internal_status a \<noteq> 0 | invalid_status \<Rightarrow> old)"

definition set_availability :: "bool \<Rightarrow> 'm asset_scheme \<Rightarrow> 'm asset_scheme" where
  "set_availability watchdog_result a =
     (let a = a\<lparr>isAvail := (get_num_active_faults a = 0 \<and> \<not> in_maintenance a \<and> \<not> local_mode_status a \<and> watchdog_result)\<rparr>
      in a\<lparr>isRunning := status_matches (running_status_mask a) (isRunning a) a\<rparr>)"

text \<open>
  Everything of \<^verbatim>\<open>process_asset\<close> before the potential powers, whose computation the asset types
  override: the clearing of the alerts, local mode, faults, alarms, status and availability.
\<close>

definition process_alerts_and_status :: "timespec \<Rightarrow> timespec \<Rightarrow> 'm asset_scheme \<Rightarrow> 'm asset_scheme option" where
  "process_alerts_and_status now now_wd a = do {
     let a = (if clear_fault_registers_flag a \<and> check_expired_time now (clear_faults_time a)
              then snd (send_to_comp_uri (set_bool False (Value_Object 0)) (uri_clear_faults a)
                     ((lower_alert_bits a)\<lparr>clear_fault_registers_flag := False\<rparr>))
              else a);
     a \<leftarrow> process_local_mode_status a;
     let a = process_faults a;
     let a = process_alarm_registers (component_alarm_registers a) a;
     let a = process_status a;
     let (watchdog_result, a) = process_watchdog_status now_wd a;
     Some (set_availability watchdog_result a) }"

section \<open>Maintenance and lockdown\<close>

text \<open>
  The SET of \<^verbatim>\<open>maint_mode\<close> and \<^verbatim>\<open>lock_mode\<close>: the answer, whether the setpoint is passed on to the
  database, and the asset.  The events are those of the code; the log is left out.
\<close>

definition set_maint_mode :: "bool \<Rightarrow> 'm asset_scheme \<Rightarrow> bool \<times> bool \<times> 'm asset_scheme" where
  "set_maint_mode v a =
     (if \<not> in_maintenance a \<and> v then
        (True, True, as_event (''Maintenance Mode entered: '' @ as_type a @ '' asset: '' @ as_name a) INFO_ALERT
          (a\<lparr>in_maintenance := True, inLockdown := False, lock_mode_enabled := True,
             active_power_slew := (if maint_slew_configured a then set_slew_rate (c_trunc (maint_slew_rate a)) (active_power_slew a)
                                   else active_power_slew a)\<rparr>))
      else if in_maintenance a \<and> \<not> v \<and> \<not> inLockdown a then
        (True, True, as_event (''Maintenance Mode exited: '' @ as_type a @ '' asset: '' @ as_name a) INFO_ALERT
          (a\<lparr>in_maintenance := False, inLockdown := False, lock_mode_enabled := False,
             active_power_slew := (if maint_slew_configured a then set_slew_rate (c_trunc (normal_slew_rate a)) (active_power_slew a)
                                   else active_power_slew a)\<rparr>))
      else if in_maintenance a \<and> \<not> v \<and> inLockdown a then
        (False, False, as_event (''Cannot switch '' @ as_type a @ '' asset out of maintenance mode due to lockdown: '' @ as_name a) INFO_ALERT a)
      else if in_maintenance a = v then (True, False, a)
      else (False, False, a))"

definition set_lock_mode :: "bool \<Rightarrow> 'm asset_scheme \<Rightarrow> bool \<times> bool \<times> 'm asset_scheme" where
  "set_lock_mode v a =
     (if inLockdown a \<and> \<not> in_maintenance a then (\<not> v, False, a\<lparr>inLockdown := False\<rparr>)
      else if inLockdown a \<and> in_maintenance a \<and> \<not> v then
        (True, True, as_event (''Lockdown Mode exited: '' @ as_type a @ '' asset: '' @ as_name a) INFO_ALERT (a\<lparr>inLockdown := False, maint_mode_enabled := True\<rparr>))
      else if \<not> inLockdown a \<and> in_maintenance a \<and> v then
        (True, True, as_event (''Lockdown Mode entered: '' @ as_type a @ '' asset: '' @ as_name a) INFO_ALERT (a\<lparr>inLockdown := True, maint_mode_enabled := False\<rparr>))
      else if \<not> inLockdown a \<and> \<not> in_maintenance a \<and> v then
        (False, False, as_event (''Cannot enter lockdown mode for '' @ as_type a @ '' asset: '' @ as_name a @ '' not in maintenance'') INFO_ALERT
          (a\<lparr>inLockdown := False\<rparr>))
      else if inLockdown a = v then (True, False, a)
      else (False, False, a))"

definition handle_generic_asset_controls_set :: "bool option \<Rightarrow> bool option \<Rightarrow> 'm asset_scheme \<Rightarrow> bool \<times> bool \<times> 'm asset_scheme" where
  "handle_generic_asset_controls_set maint_mode_obj lock_mode_obj a = (case maint_mode_obj of
       Some v \<Rightarrow> set_maint_mode v a
     | None \<Rightarrow> (case lock_mode_obj of Some v \<Rightarrow> set_lock_mode v a | None \<Rightarrow> (False, False, a)))"

text \<open>
  A SET names a control and carries a value; the value counts as true when its \<^verbatim>\<open>valueint\<close> is not 0.
\<close>

definition valueint :: "cjson \<Rightarrow> int" where
  "valueint v = (case v of JTrue \<Rightarrow> 1 | JNumber d i \<Rightarrow> i | _ \<Rightarrow> 0)"

definition generic_set :: "string \<Rightarrow> cjson \<Rightarrow> 'm asset_scheme \<Rightarrow> bool \<times> bool \<times> 'm asset_scheme" where
  "generic_set e v = handle_generic_asset_controls_set
     (if e = ''maint_mode'' then Some (valueint v \<noteq> 0) else None) (if e = ''lock_mode'' then Some (valueint v \<noteq> 0) else None)"

section \<open>Totals over assets\<close>

definition get_watchdog_fault :: "'m asset_scheme \<Rightarrow> bool" where
  "get_watchdog_fault a \<longleftrightarrow> watchdog_enable a \<and> watchdog_fault_bits a \<noteq> 0"

definition total_over :: "('a \<Rightarrow> bool) \<Rightarrow> ('a \<Rightarrow> flt) \<Rightarrow> 'a list \<Rightarrow> flt" where
  "total_over P f xs = sum_list (map f (filter P xs))"

definition count_of :: "('a \<Rightarrow> bool) \<Rightarrow> 'a list \<Rightarrow> int" where
  "count_of P xs = int (length (filter P xs))"

definition kW_control :: "'m asset_scheme \<Rightarrow> flt" where
  "kW_control a = value_float (component_control_value (kW_setpoint a))"

definition kVAR_value :: "'m asset_scheme \<Rightarrow> flt" where
  "kVAR_value a = value_float (fo_value (kVAR_setpoint a))"

definition kVAR_control :: "'m asset_scheme \<Rightarrow> flt" where
  "kVAR_control a = value_float (component_control_value (kVAR_setpoint a))"

lemma total_over_sum: "total_over P f xs = (\<Sum>i | i < length xs \<and> P (xs ! i). f (xs ! i))"
proof (induction xs rule: rev_induct)
  case (snoc x xs)
  let ?A = "{i. i < length xs \<and> P (xs ! i)}"
  have "{i. i < length (xs @ [x]) \<and> P ((xs @ [x]) ! i)} = (if P x then insert (length xs) ?A else ?A)"
    by (auto simp: nth_append less_Suc_eq)
  moreover have "(\<Sum>i \<in> ?A. f ((xs @ [x]) ! i)) = (\<Sum>i \<in> ?A. f (xs ! i))" by (rule sum.cong) (auto simp: nth_append)
  ultimately show ?case using snoc by (simp add: total_over_def)
qed (simp add: total_over_def)

lemma count_of_card: "count_of P xs = int (card {i. i < length xs \<and> P (xs ! i)})"
  by (simp add: count_of_def length_filter_conv_card)

end
