(* ===== verification/Generators.thy ===== *)
theory Generators
  imports Assets
begin

text \<open>
  Generators (\<^verbatim>\<open>Asset_Generator.cpp\<close>) and load dependent start/stop (\<^verbatim>\<open>LDSS_Internal\<close> of
  \<^verbatim>\<open>Features/LDSS.cpp\<close>).  A generator extends an asset; a pointer to one is its index in the list of
  generators.  Starting and stopping read the clock of the throttle; \<open>ck i\<close> is the reading for the
  generator of index \<open>i\<close>.  The average state of charge of the storage is the argument \<open>soc\<close>.
\<close>

section \<open>A generator\<close>

datatype gridMode = FOLLOWING | FORMING | UNDEFINED

record generator = asset +
  start_value :: int
  stop_value :: int
  grid_forming_value :: int
  grid_following_value :: int
  grid_mode_setpoint :: fims_object
  grid_mode_allow_set :: bool
  maint_active_power_setpoint :: flt
  maint_reactive_power_setpoint :: flt
  uri_start :: string
  uri_stop :: string
  isBalanced :: bool
  isStopping :: bool
  isStarting :: bool
  isStopped :: bool
  block_ldss_static_starts :: bool
  block_ldss_static_stops :: bool
  cooling_down :: bool
  warming_up :: bool
  cooldown_countdown :: int
  warmup_countdown :: int
  static_start_priority :: int
  static_stop_priority :: int
  dynamic_start_priority :: int
  dynamic_stop_priority :: int

definition gen_start :: "timespec \<Rightarrow> int \<Rightarrow> generator \<Rightarrow> bool \<times> generator" where
  "gen_start now warmup_time g =
     (let (go, w) = command_trigger now (start_command_throttle g); g = g\<lparr>start_command_throttle := w\<rparr>
      in if go
         then send_to_comp_uri (set_int (start_value g) (Value_Object 0)) (uri_start g)
                (g\<lparr>isStarting := True, isStopping := False, warmup_countdown := warmup_time, warming_up := True,
                   block_ldss_static_starts := True\<rparr>)
         else (False, g))"

definition gen_stop :: "timespec \<Rightarrow> int \<Rightarrow> generator \<Rightarrow> bool \<times> generator" where
  "gen_stop now cooldown_time g =
     (let (go, w) = command_trigger now (stop_command_throttle g); g = g\<lparr>stop_command_throttle := w\<rparr>
      in if go
         then send_to_comp_uri (set_int (stop_value g) (Value_Object 0)) (uri_stop g)
                (g\<lparr>isStarting := False, isStopping := False, cooldown_countdown := cooldown_time, cooling_down := True,
                   block_ldss_static_stops := True\<rparr>)
         else (False, g))"

definition set_control :: "flt \<Rightarrow> fims_object \<Rightarrow> fims_object" where
  "set_control x f = f\<lparr>component_control_value := (component_control_value f)\<lparr>value_float := x\<rparr>\<rparr>"

definition gen_set_active_power_setpoint :: "flt \<Rightarrow> generator \<Rightarrow> generator" where
  "gen_set_active_power_setpoint setpoint g =
     g\<lparr>kW_setpoint := set_control (range_check setpoint (max_limited_active_power g) (min_limited_active_power g)) (kW_setpoint g)\<rparr>"

definition gen_set_reactive_power_setpoint :: "flt \<Rightarrow> generator \<Rightarrow> generator" where
  "gen_set_reactive_power_setpoint setpoint g =
     g\<lparr>kVAR_setpoint := set_control (range_check setpoint (potential_reactive_power g) 0) (kVAR_setpoint g)\<rparr>"

definition gen_potential_active_power :: "timespec \<Rightarrow> generator \<Rightarrow> generator" where
  "gen_potential_active_power now g =
     (let g = base_potential_active_power now g;
          g = (if isStopping g then g\<lparr>max_potential_active_power := active_power g, min_potential_active_power := active_power g\<rparr> else g);
          g = (if reactive_power_priority g then
                 let l = other_power (rated_apparent_power_kva g) (value_float (fo_value (kVAR_setpoint g)))
                 in g\<lparr>active_power_limit := l, max_potential_active_power := min_nan (max_potential_active_power g) l\<rparr>
               else g)
      in g\<lparr>max_limited_active_power := max_potential_active_power g\<rparr>)"

text \<open>\<^verbatim>\<open>round\<close>: half a unit away from zero.\<close>

definition c_round :: "flt \<Rightarrow> int" where
  "c_round x = (if x \<ge> 0 then \<lfloor>x + 1 / 2\<rfloor> else - \<lfloor>- x + 1 / 2\<rfloor>)"

text \<open>A setpoint is written when its throttle lets it, and as a whole number.\<close>

definition round_value :: "value_object \<Rightarrow> value_object" where
  "round_value v = (if vtype v = T_Float then v\<lparr>value_float := of_int (c_round (value_float v))\<rparr> else v)"

definition send_setpoint_if_due :: "timespec \<Rightarrow> write_rate_throttle \<Rightarrow> fims_object \<Rightarrow> bool
    \<Rightarrow> bool \<times> (string \<times> value_object) option \<times> write_rate_throttle" where
  "send_setpoint_if_due now w f primary =
     (let (go, w) = setpoint_trigger now (value_float (component_control_value f)) w
      in if go \<and> c_round (value_float (component_control_value f)) \<noteq> c_round (value_float (fo_value f))
         then let (r, out) = send_to_component primary False f in (r, map_option (apsnd round_value) out, w)
         else (False, None, w))"

definition opt_msg :: "'a option \<Rightarrow> 'a list" where
  "opt_msg x = (case x of None \<Rightarrow> [] | Some v \<Rightarrow> [v])"

definition gen_send_to_components :: "timespec \<Rightarrow> timespec \<Rightarrow> generator \<Rightarrow> generator" where
  "gen_send_to_components now1 now2 g =
     (if local_mode_status g then g
      else
        let grid = grid_mode_setpoint g;
            m0 = (if value_int (component_control_value grid) \<noteq> value_int (fo_value grid) \<and> grid_mode_allow_set g
                  then opt_msg (snd (send_to_component (as_primary g) False grid)) else []);
            (_, m1, w1) = send_setpoint_if_due now1 (kW_throttle g) (kW_setpoint g) (as_primary g);
            (_, m2, w2) = send_setpoint_if_due now2 (kVAR_throttle g) (kVAR_setpoint g) (as_primary g)
        in g\<lparr>as_msgs := as_msgs g @ m0 @ opt_msg m1 @ opt_msg m2, kW_throttle := w1, kVAR_throttle := w2\<rparr>)"

definition get_grid_mode :: "generator \<Rightarrow> gridMode" where
  "get_grid_mode g =
     (if value_int (fo_value (grid_mode_setpoint g)) = grid_following_value g then FOLLOWING
      else if value_int (fo_value (grid_mode_setpoint g)) = grid_forming_value g then FORMING else UNDEFINED)"

definition set_grid_mode :: "gridMode \<Rightarrow> generator \<Rightarrow> generator" where
  "set_grid_mode m g =
     (let put = (\<lambda>v. g\<lparr>grid_mode_allow_set := True, grid_mode_setpoint := (grid_mode_setpoint g)
            \<lparr>component_control_value := (component_control_value (grid_mode_setpoint g))\<lparr>value_int := v\<rparr>\<rparr>\<rparr>)
      in case m of FOLLOWING \<Rightarrow> put (grid_following_value g) | FORMING \<Rightarrow> put (grid_forming_value g) | UNDEFINED \<Rightarrow> g)"

definition gen_process_asset :: "timespec \<Rightarrow> timespec \<Rightarrow> timespec \<Rightarrow> generator \<Rightarrow> generator option" where
  "gen_process_asset now now_wd now_slew g = do {
     let g = g\<lparr>raw_status := bits (status_register g)\<rparr>;
     g \<leftarrow> process_alerts_and_status now now_wd g;
     let g = process_potential_reactive_power (gen_potential_active_power now_slew g);
     Some (g\<lparr>isStopped := status_matches (stopped_status_mask g) (isStopped g) g\<rparr>) }"

definition gen_update_asset :: "timespec \<Rightarrow> int \<Rightarrow> generator \<Rightarrow> generator" where
  "gen_update_asset now cooldown_time g =
     (let g = (if get_num_active_faults g \<noteq> 0 \<and> \<not> isStopped g
               then gen_set_reactive_power_setpoint 0 (gen_set_active_power_setpoint 0 (snd (gen_stop now cooldown_time g)))
               else if in_maintenance g then
                 gen_set_reactive_power_setpoint (maint_reactive_power_setpoint g)
                   (gen_set_active_power_setpoint
                     (if maint_slew_configured g
                      then min (max (maint_active_power_setpoint g) (min_limited_active_power g)) (max_limited_active_power g)
                      else maint_active_power_setpoint g) g)
               else g)
      in if isRunning g then g\<lparr>isStarting := False\<rparr>
         else if isStopped g then gen_set_reactive_power_setpoint 0 (gen_set_active_power_setpoint 0 g)
         else g)"

text \<open>A SET of a control of the generator: the answer, whether it is passed on to the database, the generator.\<close>

definition gen_set_number :: "string \<Rightarrow> cjson \<Rightarrow> flt \<Rightarrow> generator \<Rightarrow> bool \<times> bool \<times> generator" where
  "gen_set_number e v d g =
     (if e = ''active_power_setpoint'' then (True, False, gen_set_active_power_setpoint d g)
      else if e = ''reactive_power_setpoint'' then (True, False, gen_set_reactive_power_setpoint d g)
      else if e = ''maint_active_power_setpoint'' then (True, True, gen_set_active_power_setpoint d (g\<lparr>maint_active_power_setpoint := d\<rparr>))
      else if e = ''maint_reactive_power_setpoint'' then (True, True, gen_set_reactive_power_setpoint d (g\<lparr>maint_reactive_power_setpoint := d\<rparr>))
      else if e = ''maint_active_power_slew_rate'' then
        (True, True, g\<lparr>maint_slew_rate := d,
           active_power_slew := (if in_maintenance g then set_slew_rate (c_trunc d) (active_power_slew g) else active_power_slew g)\<rparr>)
      else generic_set e v g)"

definition gen_handle_set :: "timespec \<Rightarrow> int \<Rightarrow> int \<Rightarrow> string \<Rightarrow> cjson \<Rightarrow> generator \<Rightarrow> bool \<times> bool \<times> generator" where
  "gen_handle_set now warmup_time cooldown_time e v g = (case v of
       JTrue \<Rightarrow>
         if e = ''clear_faults'' then (True, False, clear_alerts now g)
         else if e = ''start'' then (True, False, snd (gen_start now warmup_time g))
         else if e = ''stop'' then (True, False, snd (gen_stop now cooldown_time g))
         else generic_set e v g
     | JNumber d _ \<Rightarrow> gen_set_number e v d g
     | _ \<Rightarrow> generic_set e v g)"

section \<open>Load dependent start/stop: priorities\<close>

datatype LDSS_Priority_Setting = STATIC | DYNAMIC

record ldss =
  generators :: "generator list"
  priority_setting :: LDSS_Priority_Setting
  stop_gen_time :: int
  stop_gen_countdown :: int
  start_gen_time :: int
  start_gen_countdown :: int
  warmup_time :: int
  cooldown_time :: int
  min_generators_active :: int
  max_load_threshold_percent :: flt
  min_load_threshold_percent :: flt
  enabled :: bool
  enabled_rising_edge :: bool
  start_first_gen :: bool
  first_gen_is_starting :: bool
  enable_soc_thresholds_flag :: bool
  min_soc_percent :: flt
  max_soc_percent :: flt
  first_check :: bool
  last_check_time :: timespec

definition upd_gen :: "nat \<Rightarrow> (generator \<Rightarrow> generator) \<Rightarrow> ldss \<Rightarrow> ldss" where
  "upd_gen i f l = l\<lparr>generators := map_nth i f (generators l)\<rparr>"

definition adjust_dynamic_start_priorities :: "nat \<Rightarrow> ldss \<Rightarrow> ldss" where
  "adjust_dynamic_start_priorities i l =
     (let old = dynamic_start_priority (generators l ! i)
      in l\<lparr>generators := map (\<lambda>g. if dynamic_start_priority g \<ge> old
             then g\<lparr>dynamic_start_priority := dynamic_start_priority g - 1\<rparr> else g) (generators l)\<rparr>)"

definition adjust_dynamic_stop_priorities :: "nat \<Rightarrow> ldss \<Rightarrow> ldss" where
  "adjust_dynamic_stop_priorities i l =
     (let old = dynamic_stop_priority (generators l ! i)
      in l\<lparr>generators := map (\<lambda>g. if dynamic_stop_priority g \<ge> old
             then g\<lparr>dynamic_stop_priority := dynamic_stop_priority g - 1\<rparr> else g) (generators l)\<rparr>)"

definition behind :: "int \<Rightarrow> int \<Rightarrow> int" where
  "behind old p = (if p < old \<and> p \<noteq> 0 then p + 1 else p)"

definition move_gen_to_front_of_both_start_priority_lists :: "nat \<Rightarrow> ldss \<Rightarrow> ldss" where
  "move_gen_to_front_of_both_start_priority_lists i l =
     (let od = dynamic_start_priority (generators l ! i); os = static_start_priority (generators l ! i)
      in l\<lparr>generators := map (\<lambda>(j, g). if j = i then g\<lparr>dynamic_start_priority := 1, static_start_priority := 1\<rparr>
             else g\<lparr>dynamic_start_priority := behind od (dynamic_start_priority g),
                    static_start_priority := behind os (static_start_priority g)\<rparr>) (enumerate 0 (generators l))\<rparr>)"

definition move_gen_to_front_of_both_stop_priority_lists :: "nat \<Rightarrow> ldss \<Rightarrow> ldss" where
  "move_gen_to_front_of_both_stop_priority_lists i l =
     (let od = dynamic_stop_priority (generators l ! i); os = static_stop_priority (generators l ! i)
      in l\<lparr>generators := map (\<lambda>(j, g). if j = i then g\<lparr>dynamic_stop_priority := 1, static_stop_priority := 1\<rparr>
             else g\<lparr>dynamic_stop_priority := behind od (dynamic_stop_priority g),
                    static_stop_priority := behind os (static_stop_priority g)\<rparr>) (enumerate 0 (generators l))\<rparr>)"

definition move_gen_to_back_of_dynamic_stop_priority_list :: "nat \<Rightarrow> ldss \<Rightarrow> ldss" where
  "move_gen_to_back_of_dynamic_stop_priority_list i l =
     (let m = fold (\<lambda>g m. max m (dynamic_stop_priority g)) (generators l) 0
      in upd_gen i (\<lambda>g. g\<lparr>dynamic_stop_priority := m + 1\<rparr>) l)"

definition move_gen_to_back_of_dynamic_start_priority_list :: "nat \<Rightarrow> ldss \<Rightarrow> ldss" where
  "move_gen_to_back_of_dynamic_start_priority_list i l =
     (let m = fold (\<lambda>(j, g) m. if dynamic_start_priority g > m \<and> j \<noteq> i then dynamic_start_priority g else m)
                (enumerate 0 (generators l)) 0
      in upd_gen i (\<lambda>g. g\<lparr>dynamic_start_priority := m + 1\<rparr>) l)"

text \<open>
  The choice of the next generator.  The scan stops at the first generator that has a priority though
  it already runs (or, for a stop, is stopped); then the priorities are corrected and the scan starts
  again.
\<close>

definition start_priority :: "LDSS_Priority_Setting \<Rightarrow> generator \<Rightarrow> int" where
  "start_priority ps g = (case ps of STATIC \<Rightarrow> if block_ldss_static_starts g then 0 else static_start_priority g
     | DYNAMIC \<Rightarrow> dynamic_start_priority g)"

definition stop_priority :: "LDSS_Priority_Setting \<Rightarrow> generator \<Rightarrow> int" where
  "stop_priority ps g = (case ps of STATIC \<Rightarrow> if block_ldss_static_stops g then 0 else static_stop_priority g
     | DYNAMIC \<Rightarrow> dynamic_stop_priority g)"

definition already_up :: "generator \<Rightarrow> bool" where
  "already_up g \<longleftrightarrow> isStarting g \<or> isRunning g"

fun scan :: "(generator \<Rightarrow> int) \<Rightarrow> (generator \<Rightarrow> bool) \<Rightarrow> (generator \<Rightarrow> bool) \<Rightarrow> (nat \<times> generator) list \<Rightarrow> int \<Rightarrow> nat option
    \<Rightarrow> nat + nat option" where
  "scan prio done can [] min_priority found = Inr found"
| "scan prio done can ((i, g) # gs) min_priority found =
     (if prio g > 0 \<and> done g then Inl i
      else if prio g < min_priority \<and> prio g \<noteq> 0 \<and> can g then scan prio done can gs (prio g) (Some i)
      else scan prio done can gs min_priority found)"

definition INT_MAX_prio :: int where
  "INT_MAX_prio = 2 ^ 31 - 1"

definition start_scan :: "ldss \<Rightarrow> nat + nat option" where
  "start_scan l = scan (start_priority (priority_setting l)) already_up isAvail (enumerate 0 (generators l)) INT_MAX_prio None"

definition stop_scan :: "ldss \<Rightarrow> nat + nat option" where
  "stop_scan l = scan (stop_priority (priority_setting l)) isStopped (\<lambda>g. \<not> in_maintenance g) (enumerate 0 (generators l)) INT_MAX_prio None"

definition start_correction :: "nat \<Rightarrow> ldss \<Rightarrow> ldss" where
  "start_correction i l = adjust_dynamic_start_priorities i (upd_gen i (\<lambda>g. g\<lparr>block_ldss_static_starts := True\<rparr>) l)"

definition stop_correction :: "nat \<Rightarrow> ldss \<Rightarrow> ldss" where
  "stop_correction i l = adjust_dynamic_stop_priorities i (upd_gen i (\<lambda>g. g\<lparr>block_ldss_static_stops := True\<rparr>) l)"

text \<open>Every correction uses up a positive priority: a static one by blocking it, a dynamic one by lowering it.\<close>

definition start_measure :: "ldss \<Rightarrow> nat" where
  "start_measure l = (case priority_setting l of STATIC \<Rightarrow> length (filter (\<lambda>g. \<not> block_ldss_static_starts g) (generators l))
     | DYNAMIC \<Rightarrow> sum_list (map (\<lambda>g. nat (dynamic_start_priority g)) (generators l)))"

definition stop_measure :: "ldss \<Rightarrow> nat" where
  "stop_measure l = (case priority_setting l of STATIC \<Rightarrow> length (filter (\<lambda>g. \<not> block_ldss_static_stops g) (generators l))
     | DYNAMIC \<Rightarrow> sum_list (map (\<lambda>g. nat (dynamic_stop_priority g)) (generators l)))"

lemma scan_Inl:
  "scan prio up can gs m f = Inl i \<Longrightarrow> \<exists>g. (i, g) \<in> set gs \<and> prio g > 0 \<and> up g"
  by (induction prio up can gs m f rule: scan.induct) (auto split: if_splits)

lemma enumerate_member: "(i, g) \<in> set (enumerate 0 gs) \<longleftrightarrow> i < length gs \<and> g = gs ! i"
  by (auto simp: in_set_enumerate_eq)

lemma start_scan_Inl:
  assumes "start_scan l = Inl i"
  shows "i < length (generators l) \<and> start_priority (priority_setting l) (generators l ! i) > 0 \<and> already_up (generators l ! i)"
  using scan_Inl [OF assms [unfolded start_scan_def]] by (auto simp: enumerate_member)

lemma stop_scan_Inl:
  assumes "stop_scan l = Inl i"
  shows "i < length (generators l) \<and> stop_priority (priority_setting l) (generators l ! i) > 0 \<and> isStopped (generators l ! i)"
  using scan_Inl [OF assms [unfolded stop_scan_def]] by (auto simp: enumerate_member)

lemma correction_setting [simp]:
  "priority_setting (start_correction i l) = priority_setting l" "priority_setting (stop_correction i l) = priority_setting l"
  by (simp_all add: start_correction_def stop_correction_def adjust_dynamic_start_priorities_def adjust_dynamic_stop_priorities_def
      upd_gen_def Let_def)

text \<open>Lowering the entries of a list that are at least the positive entry \<open>i\<close> lowers their sum.\<close>

lemma lowered_sum_less:
  fixes ps :: "int list"
  assumes "i < length ps" "ps ! i > 0"
  shows "sum_list (map (\<lambda>p. nat (if p \<ge> ps ! i then p - 1 else p)) ps) < sum_list (map nat ps)"
proof -
  let ?f = "\<lambda>p. nat (if p \<ge> ps ! i then p - 1 else p)"
  have split: "ps = take i ps @ ps ! i # drop (Suc i) ps" using assms(1) by (simp add: id_take_nth_drop)
  have le: "sum_list (map ?f qs) \<le> sum_list (map nat qs)" for qs by (induction qs) auto
  have "sum_list (map ?f ps) = sum_list (map ?f (take i ps)) + ?f (ps ! i) + sum_list (map ?f (drop (Suc i) ps))"
    by (subst (2) split) simp
  also have "\<dots> < sum_list (map nat (take i ps)) + nat (ps ! i) + sum_list (map nat (drop (Suc i) ps))"
    using le [of "take i ps"] le [of "drop (Suc i) ps"] assms(2) by auto
  also have "\<dots> = sum_list (map nat ps)" by (subst (4) split) simp
  finally show ?thesis .
qed

lemma filter_map_nth_less:
  assumes "i < length xs" "P (xs ! i)" "\<And>x. \<not> P (f x)"
  shows "length (filter P (map_nth i f xs)) < length (filter P xs)"
proof -
  have split: "xs = take i xs @ xs ! i # drop (Suc i) xs" using assms(1) by (simp add: id_take_nth_drop)
  have "map_nth i f xs = take i xs @ f (xs ! i) # drop (Suc i) xs"
    using assms(1) by (simp add: map_nth_def upd_conv_take_nth_drop)
  then have "length (filter P (map_nth i f xs)) = length (filter P (take i xs)) + length (filter P (drop (Suc i) xs))"
    using assms(3) by simp
  also have "\<dots> < length (filter P xs)" by (subst split) (use assms(2) in simp)
  finally show ?thesis .
qed

lemma map_nth_dynamic:
  assumes "\<And>g. f (h g) = f g"
  shows "map f (map_nth i h gs) = map f gs"
  using assms by (simp add: map_map_nth map_nth_def map_update list_eq_iff_nth_eq nth_list_update)

lemma start_correction_dynamic:
  assumes "i < length (generators l)"
  shows "map dynamic_start_priority (generators (start_correction i l)) =
    map (\<lambda>p. if p \<ge> dynamic_start_priority (generators l ! i) then p - 1 else p) (map dynamic_start_priority (generators l))"
  using assms
  by (auto simp: start_correction_def adjust_dynamic_start_priorities_def upd_gen_def map_nth_def Let_def list_eq_iff_nth_eq
      nth_list_update)

lemma stop_correction_dynamic:
  assumes "i < length (generators l)"
  shows "map dynamic_stop_priority (generators (stop_correction i l)) =
    map (\<lambda>p. if p \<ge> dynamic_stop_priority (generators l ! i) then p - 1 else p) (map dynamic_stop_priority (generators l))"
  using assms
  by (auto simp: stop_correction_def adjust_dynamic_stop_priorities_def upd_gen_def map_nth_def Let_def list_eq_iff_nth_eq
      nth_list_update)

lemma start_measure_less:
  assumes "start_scan l = Inl i"
  shows "start_measure (start_correction i l) < start_measure l"
proof (cases "priority_setting l")
  case STATIC
  let ?h = "\<lambda>g. g\<lparr>block_ldss_static_starts := True\<rparr>"
  have i: "i < length (generators l)" "\<not> block_ldss_static_starts (generators l ! i)"
    using start_scan_Inl [OF assms] STATIC by (auto simp: start_priority_def split: if_splits)
  have "length (filter (\<lambda>g. \<not> block_ldss_static_starts g) (generators (start_correction i l))) =
      length (filter (\<lambda>g. \<not> block_ldss_static_starts g) (map_nth i ?h (generators l)))"
    by (auto simp: start_correction_def adjust_dynamic_start_priorities_def upd_gen_def Let_def filter_map o_def
        intro!: arg_cong [where f = length] filter_cong)
  also have "\<dots> < length (filter (\<lambda>g. \<not> block_ldss_static_starts g) (generators l))"
    by (rule filter_map_nth_less) (use i in auto)
  finally show ?thesis using STATIC by (simp add: start_measure_def)
next
  case DYNAMIC
  let ?ps = "map dynamic_start_priority (generators l)"
  have i: "i < length ?ps" "?ps ! i > 0"
    using start_scan_Inl [OF assms] DYNAMIC by (auto simp: start_priority_def)
  have "sum_list (map nat (map dynamic_start_priority (generators (start_correction i l)))) < sum_list (map nat ?ps)"
    using lowered_sum_less [OF i] i by (simp only: start_correction_dynamic map_map o_def length_map nth_map)
  then show ?thesis using DYNAMIC by (simp add: start_measure_def o_def)
qed

lemma stop_measure_less:
  assumes "stop_scan l = Inl i"
  shows "stop_measure (stop_correction i l) < stop_measure l"
proof (cases "priority_setting l")
  case STATIC
  let ?h = "\<lambda>g. g\<lparr>block_ldss_static_stops := True\<rparr>"
  have i: "i < length (generators l)" "\<not> block_ldss_static_stops (generators l ! i)"
    using stop_scan_Inl [OF assms] STATIC by (auto simp: stop_priority_def split: if_splits)
  have "length (filter (\<lambda>g. \<not> block_ldss_static_stops g) (generators (stop_correction i l))) =
      length (filter (\<lambda>g. \<not> block_ldss_static_stops g) (map_nth i ?h (generators l)))"
    by (auto simp: stop_correction_def adjust_dynamic_stop_priorities_def upd_gen_def Let_def filter_map o_def
        intro!: arg_cong [where f = length] filter_cong)
  also have "\<dots> < length (filter (\<lambda>g. \<not> block_ldss_static_stops g) (generators l))"
    by (rule filter_map_nth_less) (use i in auto)
  finally show ?thesis using STATIC by (simp add: stop_measure_def)
next
  case DYNAMIC
  let ?ps = "map dynamic_stop_priority (generators l)"
  have i: "i < length ?ps" "?ps ! i > 0"
    using stop_scan_Inl [OF assms] DYNAMIC by (auto simp: stop_priority_def)
  have "sum_list (map nat (map dynamic_stop_priority (generators (stop_correction i l)))) < sum_list (map nat ?ps)"
    using lowered_sum_less [OF i] i by (simp only: stop_correction_dynamic map_map o_def length_map nth_map)
  then show ?thesis using DYNAMIC by (simp add: stop_measure_def o_def)
qed

function get_gen_to_start :: "ldss \<Rightarrow> nat option \<times> ldss" where
  "get_gen_to_start l = (case start_scan l of Inr found \<Rightarrow> (found, l) | Inl i \<Rightarrow> get_gen_to_start (start_correction i l))"
  by auto
termination by (relation "measure start_measure") (auto simp: start_measure_less)

function get_gen_to_stop :: "ldss \<Rightarrow> nat option \<times> ldss" where
  "get_gen_to_stop l = (case stop_scan l of Inr found \<Rightarrow> (found, l) | Inl i \<Rightarrow> get_gen_to_stop (stop_correction i l))"
  by auto
termination by (relation "measure stop_measure") (auto simp: stop_measure_less)

declare get_gen_to_start.simps [simp del] get_gen_to_stop.simps [simp del]

section \<open>A concrete generator\<close>

definition blank_fims :: fims_object where
  "blank_fims = \<lparr>variable_id = [], component_uri = [], write_uri = [], fo_type = [], status_type = random_enum,
     default_status_name = [], ui_enabled = True, options_map = [], multiple_inputs = False, fo_inputs = [],
     component_control_value = Value_Object 0, fo_value = Value_Object 0, configured = True\<rparr>"

text \<open>An available generator of 100 kW that is neither running nor stopped, without priorities.\<close>

definition demo_gen :: "string \<Rightarrow> generator" where
  "demo_gen n = \<lparr>
     as_id = n, as_name = n, as_type = ''generators'', as_primary = True, as_msgs = [], as_events = [], uri_clear_faults = '''',
     clear_fault_registers_flag = False, clear_faults_time = mk_ts 0 0, clearFaultsControlEnable = False,
     component_fault_registers = [], component_alarm_registers = [], fault_latches = [], alarm_saves = [],
     action_fault_bits = 0, action_alarm_bits = 0, watchdog_fault_bits = 0, watchdog_text = '''',
     watchdog_enable = False, component_connected = False, connected_rising_edge_detect = False,
     watchdog_status = False, watchdog_heartbeat = 0, prev_watchdog_heartbeat = 0, watchdog_timeout_ms = 0,
     fims_timeout = False, fims_timer = mk_ts 0 0, local_mode_configured = False, local_mode_status_type = random_enum,
     local_mode_status_mask = 0, local_mode_signal = 0, local_mode_status = False, local_mode_alarm = 0,
     local_mode_text = '''', is_faulted = False, is_alarmed = False, newly_faulted = False,
     status_register = blank_fims, raw_status = 0, internal_status = 0, running_status_mask = 0,
     stopped_status_mask = 0, isAvail = True, isRunning = False, in_maintenance = False, inStandby = False,
     inLockdown = False, maint_mode_enabled = False, lock_mode_enabled = False, assetControl = Direct,
     kW_setpoint = blank_fims, kVAR_setpoint = blank_fims, active_power = 0, reactive_power = 0, apparent_power = 0,
     rated_active_power_kw = 100, rated_reactive_power_kvar = 50, rated_apparent_power_kva = 120,
     active_power_limit = None, reactive_power_priority = False,
     active_power_slew = Slew_Object (mk_ts 0 0) (mk_ts 0 0), normal_slew_rate = 0, maint_slew_rate = 0,
     maint_slew_configured = False, max_potential_active_power = 100, min_potential_active_power = 0,
     max_limited_active_power = 100, min_limited_active_power = 0, potential_reactive_power = 50,
     kW_throttle = Write_Rate_Throttle, kVAR_throttle = Write_Rate_Throttle,
     start_command_throttle = Write_Rate_Throttle, stop_command_throttle = Write_Rate_Throttle, start_value = 1,
     stop_value = 0, grid_forming_value = 1, grid_following_value = 0, grid_mode_setpoint = blank_fims,
     grid_mode_allow_set = False, maint_active_power_setpoint = 0, maint_reactive_power_setpoint = 0,
     uri_start = ''/components/gen/start'', uri_stop = ''/components/gen/stop'', isBalanced = False, isStopping = False,
     isStarting = False, isStopped = False, block_ldss_static_starts = False, block_ldss_static_stops = True,
     cooling_down = False, warming_up = False, cooldown_countdown = 0, warmup_countdown = 0, static_start_priority = 0,
     static_stop_priority = 0, dynamic_start_priority = 0, dynamic_stop_priority = 0\<rparr>"

end
