(* ===== verification/Load_Start_Stop.thy ===== *)
theory Load_Start_Stop
  imports Generators Features
begin

text \<open>
  Load dependent start/stop: the FIMS side of the feature and the operations of \<^verbatim>\<open>LDSS_Internal\<close>
  that start and stop generators (\<^verbatim>\<open>Features/LDSS.cpp\<close>).  The choice of the next generator and the
  correction of the priorities are in \<open>Generators\<close>.
\<close>

section \<open>The feature\<close>

datatype ldss_var = LDSS_enable_flag | LDSS_priority_setting | LDSS_max_load_threshold_percent | LDSS_min_load_threshold_percent
  | LDSS_warmup_time | LDSS_cooldown_time | LDSS_start_gen_time | LDSS_stop_gen_time | LDSS_enable_soc_threshold
  | LDSS_max_soc_threshold_percent | LDSS_min_soc_threshold_percent

definition ldss_feature_vars :: "ldss_var list" where
  "ldss_feature_vars = [LDSS_priority_setting, LDSS_max_load_threshold_percent, LDSS_min_load_threshold_percent, LDSS_warmup_time,
     LDSS_cooldown_time, LDSS_start_gen_time, LDSS_stop_gen_time, LDSS_enable_soc_threshold, LDSS_max_soc_threshold_percent,
     LDSS_min_soc_threshold_percent]"

definition ldss_variable_ids :: "(ldss_var \<times> string) list" where
  "ldss_variable_ids = [(LDSS_enable_flag, ''ldss_enable_flag''), (LDSS_priority_setting, ''ldss_priority_setting''),
     (LDSS_start_gen_time, ''ldss_start_gen_time''), (LDSS_stop_gen_time, ''ldss_stop_gen_time''),
     (LDSS_max_load_threshold_percent, ''ldss_max_load_threshold_percent''),
     (LDSS_min_load_threshold_percent, ''ldss_min_load_threshold_percent''), (LDSS_warmup_time, ''ldss_warmup_time''),
     (LDSS_cooldown_time, ''ldss_cooldown_time''), (LDSS_enable_soc_threshold, ''ldss_enable_soc_threshold''),
     (LDSS_max_soc_threshold_percent, ''ldss_max_soc_threshold_percent''),
     (LDSS_min_soc_threshold_percent, ''ldss_min_soc_threshold_percent'')]"

type_synonym ldss_feature = "ldss_var feature"

definition ldss_handle_fims_set :: "input_source_list \<Rightarrow> string \<Rightarrow> cjson \<Rightarrow> ldss_feature \<Rightarrow> ldss_feature" where
  "ldss_handle_fims_set srcs e msg f = (case msg of
       JNumber d i \<Rightarrow>
         let f = put_int srcs e LDSS_priority_setting i f;
             f = put_int srcs e LDSS_warmup_time i f;
             f = put_int srcs e LDSS_cooldown_time i f;
             f = put_int srcs e LDSS_start_gen_time i f;
             f = put_int srcs e LDSS_stop_gen_time i f;
             f = put_float srcs e LDSS_max_load_threshold_percent (range_check d 100 (fval LDSS_min_load_threshold_percent f)) f;
             f = put_float srcs e LDSS_min_load_threshold_percent (range_check d (fval LDSS_max_load_threshold_percent f) 0) f;
             f = put_float srcs e LDSS_max_soc_threshold_percent (range_check d 100 (fval LDSS_min_soc_threshold_percent f)) f
         in put_float srcs e LDSS_min_soc_threshold_percent (range_check d (fval LDSS_max_soc_threshold_percent f) 0) f
     | _ \<Rightarrow> if is_bool_json msg \<and> available f then put_bool srcs e LDSS_enable_flag (msg \<noteq> JFalse) f else f)"

section \<open>Settings\<close>

text \<open>
  The constructor leaves the two countdowns, the warm-up and cool-down times and the state of
  charge thresholds as they are in memory: they are the fields of the argument.
\<close>

definition LDSS_Internal :: "ldss \<Rightarrow> ldss" where
  "LDSS_Internal raw = raw\<lparr>generators := [], priority_setting := STATIC, max_load_threshold_percent := 0, min_load_threshold_percent := 0,
     enabled := False, enabled_rising_edge := False, start_first_gen := False, first_gen_is_starting := False,
     stop_gen_time := 0, start_gen_time := 0, min_generators_active := 0, first_check := True\<rparr>"

record ldss_settings =
  s_enabled :: bool
  s_priority_setting :: LDSS_Priority_Setting
  s_max_load_threshold_percent :: flt
  s_min_load_threshold_percent :: flt
  s_warmup_time :: int
  s_cooldown_time :: int
  s_start_gen_time :: int
  s_stop_gen_time :: int
  s_enable_soc_thresholds_flag :: bool
  s_min_soc_percent :: flt
  s_max_soc_percent :: flt

definition update_settings :: "ldss_settings \<Rightarrow> ldss \<Rightarrow> ldss" where
  "update_settings s l = l\<lparr>enabled := s_enabled s, priority_setting := s_priority_setting s,
     max_load_threshold_percent := s_max_load_threshold_percent s, min_load_threshold_percent := s_min_load_threshold_percent s,
     warmup_time := s_warmup_time s, cooldown_time := s_cooldown_time s,
     start_gen_countdown := (if start_gen_countdown l = start_gen_time l then s_start_gen_time s else start_gen_countdown l),
     start_gen_time := s_start_gen_time s,
     stop_gen_countdown := (if stop_gen_countdown l = stop_gen_time l then s_stop_gen_time s else stop_gen_countdown l),
     stop_gen_time := s_stop_gen_time s,
     max_soc_percent := s_max_soc_percent s, min_soc_percent := s_min_soc_percent s,
     enable_soc_thresholds_flag := s_enable_soc_thresholds_flag s\<rparr>"

definition ldss_enable :: "bool \<Rightarrow> ldss \<Rightarrow> ldss" where
  "ldss_enable flag l =
     (if enabled l = flag then l
      else let l = l\<lparr>enabled := flag\<rparr> in if \<not> flag then l else l\<lparr>enabled_rising_edge := True\<rparr>)"

text \<open>The configured priorities; \<open>None\<close> is an entry that is missing.  Generators before a bad entry keep what they got.\<close>

fun set_priorities :: "int \<Rightarrow> nat \<Rightarrow> int option list \<Rightarrow> ldss \<Rightarrow> bool \<times> ldss" where
  "set_priorities n i [] l = (True, l)"
| "set_priorities n i (None # ps) l = (False, l)"
| "set_priorities n i (Some p # ps) l =
     (if p < 1 \<or> p > n then (False, l)
      else set_priorities n (Suc i) ps (upd_gen i (\<lambda>g. g\<lparr>static_start_priority := p, static_stop_priority := n - p + 1,
             dynamic_start_priority := p, dynamic_stop_priority := 0\<rparr>) l))"

definition configure_priorities :: "generator list \<Rightarrow> int option list \<Rightarrow> ldss \<Rightarrow> bool \<times> ldss" where
  "configure_priorities gs ps l =
     (let l = l\<lparr>generators := gs\<rparr>
      in if length ps \<noteq> length gs then (False, l) else set_priorities (int (length gs)) 0 ps l)"

section \<open>Starting and stopping\<close>

definition reset_start_gen_countdown :: "ldss \<Rightarrow> ldss" where
  "reset_start_gen_countdown l = l\<lparr>start_gen_countdown := start_gen_time l\<rparr>"

definition reset_stop_gen_countdown :: "ldss \<Rightarrow> ldss" where
  "reset_stop_gen_countdown l = l\<lparr>stop_gen_countdown := stop_gen_time l\<rparr>"

definition run_gen :: "nat \<Rightarrow> (generator \<Rightarrow> bool \<times> generator) \<Rightarrow> ldss \<Rightarrow> bool \<times> ldss" where
  "run_gen i f l = (fst (f (generators l ! i)), upd_gen i (\<lambda>g. snd (f g)) l)"

definition start_generator :: "(nat \<Rightarrow> timespec) \<Rightarrow> ldss \<Rightarrow> bool \<times> ldss" where
  "start_generator ck l = (case get_gen_to_start l of
       (None, l) \<Rightarrow> (False, l)
     | (Some i, l) \<Rightarrow>
         let l = l\<lparr>start_first_gen := False, first_gen_is_starting := True\<rparr>;
             (ok, l) = run_gen i (gen_start (ck i) (warmup_time l)) l
         in if \<not> ok then (False, l)
            else (True, reset_start_gen_countdown (adjust_dynamic_start_priorities i l)))"

definition stop_generator :: "(nat \<Rightarrow> timespec) \<Rightarrow> ldss \<Rightarrow> ldss" where
  "stop_generator ck l = (case get_gen_to_stop l of
       (None, l) \<Rightarrow> l
     | (Some i, l) \<Rightarrow>
         reset_stop_gen_countdown (case get_grid_mode (generators l ! i) of
           FOLLOWING \<Rightarrow> upd_gen i (\<lambda>g. g\<lparr>isStopping := True\<rparr>) l
         | FORMING \<Rightarrow> adjust_dynamic_stop_priorities i (snd (run_gen i (gen_stop (ck i) (cooldown_time l)) l))
         | UNDEFINED \<Rightarrow> l))"

definition get_num_controllable :: "ldss \<Rightarrow> int" where
  "get_num_controllable l = int (length (filter is_controllable (generators l)))"

definition check_start_generator :: "(nat \<Rightarrow> timespec) \<Rightarrow> flt \<Rightarrow> int \<Rightarrow> flt \<Rightarrow> flt \<Rightarrow> ldss \<Rightarrow> ldss" where
  "check_start_generator ck soc num_controllable max_load_threshold_kw target_kw l =
     (if enable_soc_thresholds_flag l \<and> soc > max_soc_percent l then l
      else if num_controllable = 0 \<and> start_first_gen l then snd (start_generator ck l)
      else if target_kw > max_load_threshold_kw \<or> enable_soc_thresholds_flag l \<and> soc < min_soc_percent l then
        let l = l\<lparr>start_gen_countdown := max (start_gen_countdown l - 1) 0\<rparr>
        in if start_gen_countdown l \<le> 0 then snd (start_generator ck l) else l
      else l\<lparr>start_gen_countdown := min (start_gen_countdown l + 1) (start_gen_time l)\<rparr>)"

definition check_stop_generator :: "(nat \<Rightarrow> timespec) \<Rightarrow> flt \<Rightarrow> int \<Rightarrow> flt \<Rightarrow> flt \<Rightarrow> ldss \<Rightarrow> ldss" where
  "check_stop_generator ck soc num_controllable min_load_threshold_kw target_kw l =
     (if enable_soc_thresholds_flag l \<and> soc < min_soc_percent l then l
      else if target_kw < min_load_threshold_kw \<and> num_controllable > min_generators_active l
           \<or> enable_soc_thresholds_flag l \<and> soc > max_soc_percent l then
        let l = l\<lparr>stop_gen_countdown := max (stop_gen_countdown l - 1) 0\<rparr>
        in if stop_gen_countdown l \<le> 0 then stop_generator ck l else l
      else l\<lparr>stop_gen_countdown := min (stop_gen_countdown l + 1) (stop_gen_time l)\<rparr>)"

definition tick :: "int \<Rightarrow> int" where
  "tick n = (if n > 0 then n - 1 else n)"

definition cooldown_warmup_step :: "nat \<Rightarrow> ldss \<Rightarrow> ldss" where
  "cooldown_warmup_step i l =
     (let g = generators l ! i
      in if isStopped g then
           if cooldown_countdown g > 0 then upd_gen i (\<lambda>g. g\<lparr>cooldown_countdown := tick (cooldown_countdown g)\<rparr>) l
           else if cooling_down g
           then move_gen_to_back_of_dynamic_start_priority_list i
                  (upd_gen i (\<lambda>g. g\<lparr>block_ldss_static_starts := False, cooling_down := False\<rparr>) l)
           else l
         else if isRunning g then
           if warmup_countdown g > 0 then upd_gen i (\<lambda>g. g\<lparr>warmup_countdown := tick (warmup_countdown g)\<rparr>) l
           else if warming_up g
           then move_gen_to_back_of_dynamic_stop_priority_list i
                  (upd_gen i (\<lambda>g. g\<lparr>block_ldss_static_stops := False, warming_up := False\<rparr>) l)
           else l
         else l)"

definition update_cooldown_and_warmup :: "ldss \<Rightarrow> ldss" where
  "update_cooldown_and_warmup l = fold cooldown_warmup_step [0..<length (generators l)] l"

definition load_threshold :: "flt \<Rightarrow> ldss \<Rightarrow> flt" where
  "load_threshold percent l = sum_list (map (\<lambda>g. percent / 100 * rated_active_power_kw g) (filter is_controllable (generators l)))"

definition ldss_check :: "(nat \<Rightarrow> timespec) \<Rightarrow> (nat \<Rightarrow> timespec) \<Rightarrow> flt \<Rightarrow> flt \<Rightarrow> ldss \<Rightarrow> ldss" where
  "ldss_check ck1 ck2 soc target_kw l =
     (let n = get_num_controllable l;
          l = (if n > 0 then l\<lparr>first_gen_is_starting := False\<rparr> else l);
          lo = load_threshold (min_load_threshold_percent l) l;
          hi = load_threshold (max_load_threshold_percent l) l;
          l = check_start_generator ck1 soc n hi target_kw l;
          l = check_stop_generator ck2 soc n lo target_kw l
      in update_cooldown_and_warmup l)"

definition is_time_for_check :: "timespec \<Rightarrow> ldss \<Rightarrow> bool \<times> ldss" where
  "is_time_for_check current_time l =
     (if first_check l then (True, l\<lparr>first_check := False, last_check_time := current_time\<rparr>)
      else
        let us = (tv_sec current_time - tv_sec (last_check_time l)) * 1000000 +
                 (tv_nsec current_time - tv_nsec (last_check_time l)) sdiv 1000
        in if us \<ge> 910000 then (True, l\<lparr>last_check_time := current_time\<rparr>) else (False, l))"

interpretation ldss: fims_feature ldss_handle_fims_set
  by standard (simp add: ldss_handle_fims_set_def Let_def split: cjson.split; intro conjI impI allI handler_intros)

section \<open>The choice of a generator\<close>

lemma scan_Inr:
  assumes "scan prio up can gs m f = Inr r"
  shows "(\<forall>x \<in> set gs. \<not> (prio (snd x) > 0 \<and> up (snd x))) \<and>
    (r = f \<and> (\<forall>x \<in> set gs. prio (snd x) \<noteq> 0 \<and> can (snd x) \<longrightarrow> m \<le> prio (snd x)) \<or>
     (\<exists>x \<in> set gs. r = Some (fst x) \<and> prio (snd x) \<noteq> 0 \<and> can (snd x) \<and> prio (snd x) < m \<and>
       (\<forall>y \<in> set gs. prio (snd y) \<noteq> 0 \<and> can (snd y) \<longrightarrow> prio (snd x) \<le> prio (snd y))))"
  using assms
proof (induction prio up can gs m f rule: scan.induct)
  case (2 prio up can i g gs m f)
  then have n: "\<not> (prio g > 0 \<and> up g)" by auto
  show ?case
  proof (cases "prio g < m \<and> prio g \<noteq> 0 \<and> can g")
    case True
    with "2.prems" n have s: "scan prio up can gs (prio g) (Some i) = Inr r" by simp
    have ih: "\<forall>x \<in> set gs. \<not> (prio (snd x) > 0 \<and> up (snd x))"
      "r = Some i \<and> (\<forall>x \<in> set gs. prio (snd x) \<noteq> 0 \<and> can (snd x) \<longrightarrow> prio g \<le> prio (snd x)) \<or>
       (\<exists>x \<in> set gs. r = Some (fst x) \<and> prio (snd x) \<noteq> 0 \<and> can (snd x) \<and> prio (snd x) < prio g \<and>
         (\<forall>y \<in> set gs. prio (snd y) \<noteq> 0 \<and> can (snd y) \<longrightarrow> prio (snd x) \<le> prio (snd y)))"
      using "2.IH"(1) [OF n True s] by auto
    from ih(2) show ?thesis
    proof (elim disjE bexE conjE)
      assume "r = Some i" "\<forall>x \<in> set gs. prio (snd x) \<noteq> 0 \<and> can (snd x) \<longrightarrow> prio g \<le> prio (snd x)"
      with True n ih(1) show ?thesis by (intro conjI disjI2 bexI [of _ "(i, g)"]) simp_all
    next
      fix x assume x: "x \<in> set gs" "r = Some (fst x)" "prio (snd x) \<noteq> 0" "can (snd x)" "prio (snd x) < prio g"
        "\<forall>y \<in> set gs. prio (snd y) \<noteq> 0 \<and> can (snd y) \<longrightarrow> prio (snd x) \<le> prio (snd y)"
      with True n ih(1) show ?thesis by (intro conjI disjI2 bexI [of _ x]) simp_all
    qed
  next
    case False
    with "2.prems" n have s: "scan prio up can gs m f = Inr r" by simp
    have g: "prio g \<noteq> 0 \<and> can g \<longrightarrow> m \<le> prio g" using False by auto
    from "2.IH"(2) [OF n False s] show ?thesis
    proof (elim disjE bexE conjE)
      assume "r = f" "\<forall>x \<in> set gs. \<not> (prio (snd x) > 0 \<and> up (snd x))"
        "\<forall>x \<in> set gs. prio (snd x) \<noteq> 0 \<and> can (snd x) \<longrightarrow> m \<le> prio (snd x)"
      with n g show ?thesis by simp
    next
      fix x assume x: "\<forall>x \<in> set gs. \<not> (prio (snd x) > 0 \<and> up (snd x))" "x \<in> set gs" "r = Some (fst x)"
        "prio (snd x) \<noteq> 0" "can (snd x)" "prio (snd x) < m"
        "\<forall>y \<in> set gs. prio (snd y) \<noteq> 0 \<and> can (snd y) \<longrightarrow> prio (snd x) \<le> prio (snd y)"
      with n g show ?thesis by (intro conjI disjI2 bexI [of _ x]) auto
    qed
  qed
qed auto

lemma get_gen_to_start_fix:
  "get_gen_to_start l = (r, l') \<Longrightarrow> start_scan l' = Inr r \<and> priority_setting l' = priority_setting l"
proof (induction l rule: get_gen_to_start.induct)
  case (1 l)
  show ?case
  proof (cases "start_scan l")
    case (Inl i)
    with 1 show ?thesis by (subst (asm) (2) get_gen_to_start.simps) simp
  next
    case (Inr f)
    with "1.prems" show ?thesis by (subst (asm) get_gen_to_start.simps) simp
  qed
qed

text \<open>
  The choice among generators without a wrong priority: the available one with the least priority
  that is not zero.
\<close>

definition next_start :: "ldss \<Rightarrow> nat option \<Rightarrow> bool" where
  "next_start l r \<longleftrightarrow> (\<forall>g \<in> set (generators l). \<not> (start_priority (priority_setting l) g > 0 \<and> already_up g)) \<and>
     (case r of
        None \<Rightarrow> \<forall>g \<in> set (generators l). isAvail g \<longrightarrow> start_priority (priority_setting l) g \<in> {0} \<union> {INT_MAX_prio..}
      | Some i \<Rightarrow> i < length (generators l) \<and> isAvail (generators l ! i) \<and> start_priority (priority_setting l) (generators l ! i) \<noteq> 0 \<and>
          (\<forall>g \<in> set (generators l). isAvail g \<and> start_priority (priority_setting l) g \<noteq> 0 \<longrightarrow>
             start_priority (priority_setting l) (generators l ! i) \<le> start_priority (priority_setting l) g))"

lemma enumerate_all: "\<forall>x \<in> set (enumerate n gs). P x \<Longrightarrow> g \<in> set gs \<Longrightarrow> \<exists>i. P (i, g)"
  by (induction gs arbitrary: n) auto

lemma start_scan_next: "start_scan l = Inr r \<Longrightarrow> next_start l r"
proof -
  assume "start_scan l = Inr r"
  note s = scan_Inr [OF this [unfolded start_scan_def]]
  have up: "\<not> (start_priority (priority_setting l) g > 0 \<and> already_up g)" if "g \<in> set (generators l)" for g
    using enumerate_all [OF conjunct1 [OF s] that] by simp
  show ?thesis
  proof (cases r)
    case None
    with s have "\<forall>x \<in> set (enumerate 0 (generators l)). start_priority (priority_setting l) (snd x) \<noteq> 0 \<and> isAvail (snd x) \<longrightarrow>
      INT_MAX_prio \<le> start_priority (priority_setting l) (snd x)" by simp
    from enumerate_all [OF this] None up show ?thesis by (fastforce simp: next_start_def)
  next
    case (Some i)
    with s obtain x where x: "x \<in> set (enumerate 0 (generators l))" "i = fst x"
      "start_priority (priority_setting l) (snd x) \<noteq> 0" "isAvail (snd x)"
      "\<forall>y \<in> set (enumerate 0 (generators l)). start_priority (priority_setting l) (snd y) \<noteq> 0 \<and> isAvail (snd y) \<longrightarrow>
        start_priority (priority_setting l) (snd x) \<le> start_priority (priority_setting l) (snd y)" by auto
    have "i < length (generators l)" "snd x = generators l ! i"
      using x(1,2) enumerate_member [of "fst x" "snd x" "generators l"] by auto
    with enumerate_all [OF x(5)] up x Some show ?thesis by (fastforce simp: next_start_def)
  qed
qed

lemma get_gen_to_start_next: "get_gen_to_start l = (r, l') \<Longrightarrow> next_start l' r"
  using get_gen_to_start_fix start_scan_next by blast

section \<open>A generator that runs takes the priority of others\<close>

lemma start_correction_gen:
  assumes "j < length (generators l)" "i < length (generators l)"
  shows "length (generators (start_correction i l)) = length (generators l)"
    and "dynamic_start_priority (generators (start_correction i l) ! j) =
      (if dynamic_start_priority (generators l ! j) \<ge> dynamic_start_priority (generators l ! i)
       then dynamic_start_priority (generators l ! j) - 1 else dynamic_start_priority (generators l ! j))"
    and "already_up (generators (start_correction i l) ! j) = already_up (generators l ! j)"
    and "isAvail (generators (start_correction i l) ! j) = isAvail (generators l ! j)"
  using assms
  by (auto simp: start_correction_def adjust_dynamic_start_priorities_def upd_gen_def map_nth_def Let_def nth_list_update already_up_def)

lemma demoted_by_running:
  assumes "priority_setting l = DYNAMIC" "i < length (generators l)" "j < length (generators l)" "already_up (generators l ! i)"
    and "0 \<le> dynamic_start_priority (generators l ! j)"
    and "dynamic_start_priority (generators l ! j) \<le> dynamic_start_priority (generators l ! i)"
    and "get_gen_to_start l = (r, l')"
  shows "dynamic_start_priority (generators l' ! j) = 0 \<and> length (generators l') = length (generators l)"
  using assms
proof (induction l rule: get_gen_to_start.induct)
  case (1 l)
  show ?case
  proof (cases "start_scan l")
    case (Inr f)
    with 1 have l': "l' = l" by (subst (asm) (2) get_gen_to_start.simps) simp
    have "next_start l f" by (rule start_scan_next [OF Inr])
    then have "\<not> dynamic_start_priority (generators l ! i) > 0"
      using 1(2,3,5) by (auto simp: next_start_def start_priority_def)
    with 1 l' show ?thesis by simp
  next
    case (Inl k)
    have k: "k < length (generators l)" "dynamic_start_priority (generators l ! k) > 0"
      using start_scan_Inl [OF Inl] 1(2) by (auto simp: start_priority_def)
    have g: "get_gen_to_start (start_correction k l) = (r, l')"
      using 1(8) Inl by (subst (asm) get_gen_to_start.simps) simp
    note ci = start_correction_gen [OF 1(3) k(1)] and cj = start_correction_gen [OF 1(4) k(1)]
    show ?thesis
      using 1(1) [OF Inl _ _ _ _ _ _ g] 1(2-7) k ci cj by (auto split: if_splits)
  qed
qed

section \<open>What a check may do\<close>

text \<open>A start that the load asks for has waited for its countdown; the countdown stays in its range.\<close>

lemma start_generator_countdown:
  "start_gen_time (snd (start_generator ck l)) = start_gen_time l \<and>
   start_gen_countdown (snd (start_generator ck l)) \<in> {start_gen_countdown l, start_gen_time l}"
proof -
  have g: "start_gen_time l' = start_gen_time l \<and> start_gen_countdown l' = start_gen_countdown l"
    if "get_gen_to_start l = (r, l')" for l r l'
    using that
  proof (induction l rule: get_gen_to_start.induct)
    case (1 l)
    have c: "start_gen_time (start_correction i l) = start_gen_time l \<and> start_gen_countdown (start_correction i l) = start_gen_countdown l" for i
      by (simp add: start_correction_def adjust_dynamic_start_priorities_def upd_gen_def Let_def)
    show ?case
    proof (cases "start_scan l")
      case (Inl i)
      with "1.prems" have "get_gen_to_start (start_correction i l) = (r, l')" by (subst (asm) get_gen_to_start.simps) simp
      from "1.IH" [OF Inl this] c show ?thesis by simp
    next
      case (Inr f)
      with "1.prems" show ?thesis by (subst (asm) get_gen_to_start.simps) simp
    qed
  qed
  obtain r l' where r: "get_gen_to_start l = (r, l')" by force
  from g [OF r] r show ?thesis
    by (simp add: start_generator_def run_gen_def upd_gen_def reset_start_gen_countdown_def adjust_dynamic_start_priorities_def Let_def
        split: option.split)
qed

section \<open>Properties\<close>

text \<open>C31. The generator that load dependent start/stop starts next is an available one with the least
  priority among the available generators that have one, and after the choice no generator that is
  starting or running has a priority left.  It chooses none only when no available generator has a
  priority.\<close>
theorem gen_to_start_is_best:
  assumes "get_gen_to_start l = (r, l')"
  shows "(\<forall>g \<in> set (generators l'). \<not> (start_priority (priority_setting l') g > 0 \<and> already_up g)) \<and>
     (case r of
        None \<Rightarrow> \<forall>g \<in> set (generators l'). isAvail g \<longrightarrow> start_priority (priority_setting l') g \<in> {0} \<union> {INT_MAX_prio..}
      | Some i \<Rightarrow> i < length (generators l') \<and> isAvail (generators l' ! i) \<and> start_priority (priority_setting l') (generators l' ! i) \<noteq> 0 \<and>
          (\<forall>g \<in> set (generators l'). isAvail g \<and> start_priority (priority_setting l') g \<noteq> 0 \<longrightarrow>
             start_priority (priority_setting l') (generators l' ! i) \<le> start_priority (priority_setting l') g))"
  using get_gen_to_start_next [OF assms] by (simp add: next_start_def)

text \<open>With dynamic priorities, a generator that is running with a priority takes the priority away from
  every generator that is to be started before it: all of them end with priority zero, which is the
  mark of a running generator, and are not started any more.\<close>
theorem running_generator_demotes_others:
  assumes "priority_setting l = DYNAMIC" "i < length (generators l)" "j < length (generators l)" "already_up (generators l ! i)"
    and "0 \<le> dynamic_start_priority (generators l ! j)"
    and "dynamic_start_priority (generators l ! j) \<le> dynamic_start_priority (generators l ! i)"
    and "get_gen_to_start l = (r, l')"
  shows "dynamic_start_priority (generators l' ! j) = 0 \<and> r \<noteq> Some j"
proof -
  have d: "dynamic_start_priority (generators l' ! j) = 0" using demoted_by_running [OF assms] by simp
  moreover have "priority_setting l' = DYNAMIC" using get_gen_to_start_fix [OF assms(7)] assms(1) by simp
  ultimately show ?thesis using get_gen_to_start_next [OF assms(7)] by (auto simp: next_start_def start_priority_def)
qed

text \<open>A check of the load starts a generator only when no generator is under control and the first one
  is requested, or when the load is above its threshold (or the storage below its own) and the countdown has
  run out; and it keeps the countdown between zero and the configured time.\<close>
theorem start_waits_for_countdown:
  assumes "0 \<le> start_gen_countdown l" "start_gen_countdown l \<le> start_gen_time l"
    and "l' = check_start_generator ck soc n hi target l"
  shows "0 \<le> start_gen_countdown l' \<and> start_gen_countdown l' \<le> start_gen_time l' \<and>
    (generators l' \<noteq> generators l \<longrightarrow>
       n = 0 \<and> start_first_gen l \<or> start_gen_countdown l \<le> 1 \<and> (target > hi \<or> enable_soc_thresholds_flag l \<and> soc < min_soc_percent l))"
  using start_generator_countdown [of ck l] start_generator_countdown [of ck "l\<lparr>start_gen_countdown := max (start_gen_countdown l - 1) 0\<rparr>"]
    assms(1,2)
  unfolding assms(3) check_start_generator_def Let_def by auto

text \<open>Without the state of charge thresholds, a check leaves every generator running when no more are
  under control than the configured minimum.\<close>
theorem minimum_generators_kept:
  assumes "\<not> enable_soc_thresholds_flag l" "n \<le> min_generators_active l"
  shows "generators (check_stop_generator ck soc n lo target l) = generators l"
  using assms by (simp add: check_stop_generator_def Let_def)

text \<open>A SET keeps the thresholds in order: the minimum load between zero and the maximum load, the
  maximum load at most one hundred per cent, and the same for the state of charge.\<close>

definition thresholds_ordered :: "ldss_feature \<Rightarrow> bool" where
  "thresholds_ordered f \<longleftrightarrow>
     0 \<le> fval LDSS_min_load_threshold_percent f \<and> fval LDSS_min_load_threshold_percent f \<le> fval LDSS_max_load_threshold_percent f \<and>
     fval LDSS_max_load_threshold_percent f \<le> 100 \<and>
     0 \<le> fval LDSS_min_soc_threshold_percent f \<and> fval LDSS_min_soc_threshold_percent f \<le> fval LDSS_max_soc_threshold_percent f \<and>
     fval LDSS_max_soc_threshold_percent f \<le> 100"

definition ldss_set_step :: "input_source_list \<times> string \<times> cjson \<Rightarrow> ldss_feature \<Rightarrow> ldss_feature" where
  "ldss_set_step x f = ldss_handle_fims_set (fst x) (fst (snd x)) (snd (snd x)) f"

lemma ordered_puts:
  assumes "thresholds_ordered f"
  shows "thresholds_ordered (put_float srcs e LDSS_max_load_threshold_percent (range_check d 100 (fval LDSS_min_load_threshold_percent f)) f)"
    and "thresholds_ordered (put_float srcs e LDSS_min_load_threshold_percent (range_check d (fval LDSS_max_load_threshold_percent f) 0) f)"
    and "thresholds_ordered (put_float srcs e LDSS_max_soc_threshold_percent (range_check d 100 (fval LDSS_min_soc_threshold_percent f)) f)"
    and "thresholds_ordered (put_float srcs e LDSS_min_soc_threshold_percent (range_check d (fval LDSS_max_soc_threshold_percent f) 0) f)"
    and "v \<in> {LDSS_priority_setting, LDSS_warmup_time, LDSS_cooldown_time, LDSS_start_gen_time, LDSS_stop_gen_time} \<Longrightarrow>
      thresholds_ordered (put_int srcs e v i f)"
    and "thresholds_ordered (put_bool srcs e w b f)"
  using assms by (simp_all add: thresholds_ordered_def range_check_def) auto

interpretation ldss_sets: machine ldss_set_step thresholds_ordered
proof
  fix f :: ldss_feature and x :: "input_source_list \<times> string \<times> cjson"
  assume "thresholds_ordered f"
  then show "thresholds_ordered (ldss_set_step x f)"
    unfolding ldss_set_step_def ldss_handle_fims_set_def Let_def
    by (cases "snd (snd x)"; simp only: cjson.case split: if_split; intro conjI impI ordered_puts; simp)
qed

text \<open>Any sequence of SET messages keeps the thresholds of load dependent start/stop in order: the
  minimum between zero and the maximum, the maximum at most one hundred per cent, for the load and
  for the state of charge.\<close>
theorem ldss_thresholds_stay_ordered:
  assumes "thresholds_ordered f"
  shows "thresholds_ordered (fold ldss_set_step ms f)"
  by (rule ldss_sets.run_inv [OF assms])

section \<open>Three generators\<close>

text \<open>
  The second of three generators runs though it was not started by load dependent start/stop; the
  first and the third wait with priorities one and three.
\<close>

definition demo_ldss :: ldss where
  "demo_ldss = \<lparr>generators = [(demo_gen ''gen_1'')\<lparr>dynamic_start_priority := 1\<rparr>,
       (demo_gen ''gen_2'')\<lparr>dynamic_start_priority := 2, isRunning := True\<rparr>, (demo_gen ''gen_3'')\<lparr>dynamic_start_priority := 3\<rparr>],
     priority_setting = DYNAMIC, stop_gen_time = 10, stop_gen_countdown = 10, start_gen_time = 10, start_gen_countdown = 1,
     warmup_time = 5, cooldown_time = 5, min_generators_active = 1, max_load_threshold_percent = 80, min_load_threshold_percent = 20,
     enabled = True, enabled_rising_edge = False, start_first_gen = False, first_gen_is_starting = False,
     enable_soc_thresholds_flag = False, min_soc_percent = 0, max_soc_percent = 100, first_check = True, last_check_time = mk_ts 0 0\<rparr>"

theorem gen_to_start_is_best_witness:
  "case get_gen_to_start demo_ldss of (r, l') \<Rightarrow> \<forall>g \<in> set (generators l'). \<not> (start_priority (priority_setting l') g > 0 \<and> already_up g)"
  using gen_to_start_is_best [of demo_ldss "fst (get_gen_to_start demo_ldss)" "snd (get_gen_to_start demo_ldss)"]
  by (simp add: split_beta)

theorem running_generator_demotes_others_witness:
  "case get_gen_to_start demo_ldss of (r, l') \<Rightarrow> dynamic_start_priority (generators l' ! 0) = 0 \<and> r \<noteq> Some 0"
proof -
  obtain r l' where r: "get_gen_to_start demo_ldss = (r, l')" by force
  have "dynamic_start_priority (generators l' ! 0) = 0 \<and> r \<noteq> Some 0"
    by (rule running_generator_demotes_others [OF _ _ _ _ _ _ r, of 1]) (simp_all add: demo_ldss_def demo_gen_def already_up_def)
  with r show ?thesis by simp
qed

theorem start_waits_for_countdown_witness:
  "start_gen_countdown (check_start_generator (\<lambda>_. mk_ts 9 0) 50 1 80 90 demo_ldss) \<le> 10"
  using start_waits_for_countdown [of demo_ldss, OF _ _ refl, of "\<lambda>_. mk_ts 9 0" 50 1 80 90]
    start_generator_countdown [of "\<lambda>_. mk_ts 9 0" "demo_ldss\<lparr>start_gen_countdown := 0\<rparr>"]
  by (simp add: demo_ldss_def check_start_generator_def)

theorem minimum_generators_kept_witness:
  "generators (check_stop_generator (\<lambda>_. mk_ts 9 0) 50 1 20 0 demo_ldss) = generators demo_ldss"
  by (rule minimum_generators_kept) (simp_all add: demo_ldss_def)

theorem ldss_thresholds_stay_ordered_witness:
  "thresholds_ordered (fold ldss_set_step [(demo_sources, ''x'', JNumber 120 120)]
     \<lparr>available = True, vars = (\<lambda>_. demo_var ''x'' 0)\<rparr>)"
  by (rule ldss_thresholds_stay_ordered) (simp add: thresholds_ordered_def fval_def demo_var_def set_float_def)

end
