(* ===== verification/Generator_Group.thy ===== *)
theory Generator_Group
  imports Load_Start_Stop
begin

text \<open>
  The manager of the generators (\<^verbatim>\<open>Generator_Manager.cpp\<close>): the totals it reports, the distribution of
  the target power over the generators, and the starts and stops it passes on.  Its list of
  generators is the list of its load dependent start/stop.
\<close>

section \<open>State and totals\<close>

record gen_manager =
  ld :: ldss
  numAvail :: int
  numRunning :: int
  numGenControllable :: int
  num_in_local_mode :: int
  genTotalActivePowerkW :: flt
  genTotalReactivePowerkVAR :: flt
  genTotalApparentPowerkVA :: flt
  genTotalUncontrollableActivePowerkW :: flt
  genTotalMaxPotentialActivePower :: flt
  genTotalMinPotentialActivePower :: flt
  genTotalPotentialReactivePower :: flt
  genTotalRatedActivePower :: flt
  genTotalNameplateActivePower :: flt
  total_kW_discharge_limit :: flt
  genTargetActivePowerkW :: flt
  genTargetReactivePowerkVAR :: flt

abbreviation pGens :: "gen_manager \<Rightarrow> generator list" where
  "pGens m \<equiv> generators (ld m)"

definition upd_ld :: "(ldss \<Rightarrow> ldss) \<Rightarrow> gen_manager \<Rightarrow> gen_manager" where
  "upd_ld f m = m\<lparr>ld := f (ld m)\<rparr>"

definition upd_gens :: "(generator list \<Rightarrow> generator list) \<Rightarrow> gen_manager \<Rightarrow> gen_manager" where
  "upd_gens f = upd_ld (\<lambda>l. l\<lparr>generators := f (generators l)\<rparr>)"

definition aggregate_gen_data :: "gen_manager \<Rightarrow> gen_manager" where
  "aggregate_gen_data m =
     (let gs = pGens m
      in m\<lparr>numAvail := count_of isAvail gs, numRunning := count_of isRunning gs, numGenControllable := count_of is_controllable gs,
           num_in_local_mode := count_of local_mode_status gs,
           genTotalActivePowerkW := total_over is_controllable active_power gs,
           genTotalReactivePowerkVAR := total_over is_controllable reactive_power gs,
           genTotalApparentPowerkVA := total_over is_controllable apparent_power gs,
           genTotalUncontrollableActivePowerkW := total_over (\<lambda>g. \<not> is_controllable g \<and> \<not> get_watchdog_fault g) active_power gs,
           genTotalMaxPotentialActivePower := total_over is_controllable max_potential_active_power gs,
           genTotalMinPotentialActivePower := total_over is_controllable min_potential_active_power gs,
           genTotalPotentialReactivePower := total_over is_controllable potential_reactive_power gs,
           genTotalRatedActivePower := total_over is_controllable rated_active_power_kw gs,
           genTotalNameplateActivePower := total_over (\<lambda>_. True) rated_active_power_kw gs,
           total_kW_discharge_limit := total_over is_controllable max_limited_active_power gs\<rparr>)"

section \<open>Distribution of the target power\<close>

definition kW_value :: "generator \<Rightarrow> flt" where
  "kW_value g = value_float (fo_value (kW_setpoint g))"

definition in_play :: "generator \<Rightarrow> bool" where
  "in_play g \<longleftrightarrow> is_controllable g \<and> \<not> isStopping g"

text \<open>Ramping down the generators that are stopping: the power left to distribute and their number.\<close>

definition ramp_down_step :: "(nat \<Rightarrow> timespec) \<Rightarrow> nat \<Rightarrow> flt \<times> int \<times> ldss \<Rightarrow> flt \<times> int \<times> ldss" where
  "ramp_down_step ck i st = (case st of (remainder, n, l) \<Rightarrow>
     let g = generators l ! i
     in if is_controllable g \<and> isStopping g then
          let sp = get_active_power_slew_min_target g;
              l = upd_gen i (gen_set_active_power_setpoint (if sp < 0 then 0 else sp)) l;
              l = (if sp = 0 then adjust_dynamic_stop_priorities i (snd (run_gen i (gen_stop (ck i) (cooldown_time l)) l)) else l)
          in (remainder - sp, n + 1, l)
        else (remainder, n, l))"

text \<open>
  The search for the generator farthest from the balance point, with the sums over the generators
  that take part.
\<close>

record balance =
  unbalanced_index :: nat
  unbalanced_distance :: flt
  gen_power_max_balanced :: flt
  gen_power_min_balanced :: flt
  gen_power_actual_balanced :: flt

definition balance_step :: "flt \<Rightarrow> nat \<times> generator \<Rightarrow> balance \<Rightarrow> balance" where
  "balance_step balance_point ig b = (case ig of (i, g) \<Rightarrow>
     if in_play g then
       let distance = balance_point - active_power g;
           b = (if \<bar>distance\<bar> > of_int (slew_rate (active_power_slew g)) * 2 \<and> \<bar>distance\<bar> > \<bar>unbalanced_distance b\<bar>
                then b\<lparr>unbalanced_index := i, unbalanced_distance := distance\<rparr> else b)
       in b\<lparr>gen_power_max_balanced := gen_power_max_balanced b + max_potential_active_power g,
            gen_power_min_balanced := gen_power_min_balanced b + min_potential_active_power g,
            gen_power_actual_balanced := gen_power_actual_balanced b + kW_value g\<rparr>
     else b)"

definition find_unbalanced :: "flt \<Rightarrow> generator list \<Rightarrow> balance" where
  "find_unbalanced balance_point gs = fold (balance_step balance_point) (enumerate 0 gs)
     \<lparr>unbalanced_index = 0, unbalanced_distance = 0, gen_power_max_balanced = 0, gen_power_min_balanced = 0, gen_power_actual_balanced = 0\<rparr>"

definition unbalanced_gen :: "balance \<Rightarrow> nat option" where
  "unbalanced_gen b = (if unbalanced_index b \<noteq> 0 \<or> unbalanced_distance b \<noteq> 0 then Some (unbalanced_index b) else None)"

text \<open>
  The command of every generator that takes part, before its slew rate and limits.  With no balanced
  generator the delta is not used.
\<close>

definition share_commands :: "balance \<Rightarrow> flt \<Rightarrow> flt \<Rightarrow> int \<Rightarrow> int \<Rightarrow> generator list \<Rightarrow> nat \<Rightarrow> flt" where
  "share_commands b balance_point remainder controllable stopping gs =
     (let numGenUnBalanced = (if unbalanced_gen b = None then 0 else 1);
          numGenBalanced = controllable - stopping - numGenUnBalanced
      in if numGenBalanced \<noteq> controllable then
           case unbalanced_gen b of
             None \<Rightarrow> (\<lambda>i. kW_value (gs ! i) + (remainder - gen_power_actual_balanced b) / of_int numGenBalanced)
           | Some k \<Rightarrow>
               let g = gs ! k;
                   mx = gen_power_max_balanced b - max_potential_active_power g;
                   mn = gen_power_min_balanced b - min_potential_active_power g;
                   act = gen_power_actual_balanced b - kW_value g;
                   c0 = (if active_power g < balance_point then max_potential_active_power g else min_potential_active_power g);
                   c = (if remainder - c0 > mx then remainder - mx else if remainder - c0 < mn then remainder - mn else c0)
               in (\<lambda>i. if i = k then c else kW_value (gs ! i) + (remainder - c - act) / of_int numGenBalanced)
         else (\<lambda>i. remainder / of_int controllable))"

definition gen_commands :: "flt \<Rightarrow> int \<Rightarrow> int \<Rightarrow> generator list \<Rightarrow> nat \<Rightarrow> flt" where
  "gen_commands remainder controllable stopping gs =
     (let balance_point = remainder / of_int (controllable - stopping)
      in share_commands (find_unbalanced balance_point gs) balance_point remainder controllable stopping gs)"

definition mark_balanced :: "flt \<Rightarrow> int \<Rightarrow> int \<Rightarrow> generator list \<Rightarrow> generator list" where
  "mark_balanced remainder controllable stopping gs =
     (let u = unbalanced_gen (find_unbalanced (remainder / of_int (controllable - stopping)) gs)
      in map (\<lambda>(i, g). g\<lparr>isBalanced := (Some i \<noteq> u)\<rparr>) (enumerate 0 gs))"

definition calculate_gen_power :: "(nat \<Rightarrow> timespec) \<Rightarrow> gen_manager \<Rightarrow> gen_manager" where
  "calculate_gen_power ck m =
     (let m = (if genTargetActivePowerkW m = 0
               then upd_gens (map (\<lambda>g. if is_controllable g then gen_set_active_power_setpoint 0 g else g)) m else m);
          (remainder, stopping, l) = fold (ramp_down_step ck) [0..<length (pGens m)] (genTargetActivePowerkW m, 0, ld m);
          m = m\<lparr>ld := l\<rparr>
      in if remainder = 0 then m
         else if numGenControllable m - stopping > 0 then
           let cmd = gen_commands remainder (numGenControllable m) stopping (pGens m);
               m = upd_gens (mark_balanced remainder (numGenControllable m) stopping) m
           in upd_gens (\<lambda>gs. map (\<lambda>(i, g). if in_play g
                then gen_set_active_power_setpoint (get_slew_target (active_power_slew g) (cmd i)) g else g) (enumerate 0 gs)) m
         else m)"

section \<open>Starts, stops and the cycle\<close>

definition set_all_gen_grid :: "gridMode \<Rightarrow> gen_manager \<Rightarrow> gen_manager" where
  "set_all_gen_grid md = upd_gens (map (set_grid_mode md))"

fun direct_start_loop :: "(nat \<Rightarrow> timespec) \<Rightarrow> nat list \<Rightarrow> ldss \<Rightarrow> bool \<times> ldss" where
  "direct_start_loop ck [] l = (False, l)"
| "direct_start_loop ck (i # is) l =
     (let g = generators l ! i
      in if isStopped g \<and> \<not> in_maintenance g then
           let (ok, l) = run_gen i (gen_start (ck i) (warmup_time l)) l
           in if ok then (True, l) else direct_start_loop ck is l
         else direct_start_loop ck is l)"

definition direct_start_gen :: "(nat \<Rightarrow> timespec) \<Rightarrow> gen_manager \<Rightarrow> bool \<times> gen_manager" where
  "direct_start_gen ck m =
     (let (r, l) = (if enabled (ld m) then start_generator ck (ld m) else direct_start_loop ck [0..<length (pGens m)] (ld m))
      in (r, m\<lparr>ld := l\<rparr>))"

definition start_all_gen :: "(nat \<Rightarrow> timespec) \<Rightarrow> gen_manager \<Rightarrow> gen_manager" where
  "start_all_gen ck m = upd_gens (\<lambda>gs. map (\<lambda>(i, g). if isStopped g \<and> \<not> in_maintenance g
     then snd (gen_start (ck i) (warmup_time (ld m)) g) else g) (enumerate 0 gs)) m"

text \<open>After the first stop that fails, the remaining generators are not stopped: the conjunction is not evaluated.\<close>

fun stop_all_loop :: "(nat \<Rightarrow> timespec) \<Rightarrow> nat list \<Rightarrow> bool \<Rightarrow> ldss \<Rightarrow> bool \<times> ldss" where
  "stop_all_loop ck [] all_sent l = (all_sent, l)"
| "stop_all_loop ck (i # is) all_sent l =
     (if is_controllable (generators l ! i) \<and> all_sent then
        let (ok, l) = run_gen i (gen_stop (ck i) (cooldown_time l)) l in stop_all_loop ck is ok l
      else stop_all_loop ck is all_sent l)"

definition stop_all_gen :: "(nat \<Rightarrow> timespec) \<Rightarrow> gen_manager \<Rightarrow> bool \<times> gen_manager" where
  "stop_all_gen ck m = (let (r, l) = stop_all_loop ck [0..<length (pGens m)] True (ld m) in (r, m\<lparr>ld := l\<rparr>))"

definition handle_faulted_gens :: "(nat \<Rightarrow> nat \<Rightarrow> timespec) \<Rightarrow> gen_manager \<Rightarrow> gen_manager" where
  "handle_faulted_gens ck m = upd_ld (\<lambda>l. fold (\<lambda>j l. if newly_faulted (generators l ! j) then snd (start_generator (ck j) l) else l)
     [0..<length (generators l)] l) m"

definition request_first_gen :: "bool \<Rightarrow> gen_manager \<Rightarrow> gen_manager" where
  "request_first_gen enable = upd_ld (\<lambda>l. if \<not> first_gen_is_starting l then l\<lparr>start_first_gen := enable\<rparr> else l)"

record gen_clocks =
  ck_time :: timespec
  ck_check1 :: "nat \<Rightarrow> timespec"
  ck_check2 :: "nat \<Rightarrow> timespec"
  ck_power :: "nat \<Rightarrow> timespec"
  ck_update :: "nat \<Rightarrow> timespec"
  ck_fault :: "nat \<Rightarrow> nat \<Rightarrow> timespec"

definition update_asset_data :: "gen_clocks \<Rightarrow> flt \<Rightarrow> gen_manager \<Rightarrow> gen_manager" where
  "update_asset_data ck soc m =
     (let m = (if enabled (ld m) then
                 let (due, l) = is_time_for_check (ck_time ck) (ld m)
                 in m\<lparr>ld := (if due then ldss_check (ck_check1 ck) (ck_check2 ck) soc (genTargetActivePowerkW m) l else l)\<rparr>
               else m);
          m = calculate_gen_power (ck_power ck) m;
          m = upd_gens (\<lambda>gs. map (\<lambda>(i, g). gen_update_asset (ck_update ck i) (cooldown_time (ld m)) g) (enumerate 0 gs)) m
      in if enabled (ld m) then handle_faulted_gens (ck_fault ck) m else m)"

fun process_gens :: "(nat \<Rightarrow> timespec \<times> timespec \<times> timespec) \<Rightarrow> nat \<Rightarrow> generator list \<Rightarrow> generator list option" where
  "process_gens ck i [] = Some []"
| "process_gens ck i (g # gs) = (case ck i of (t1, t2, t3) \<Rightarrow> do {
     g \<leftarrow> gen_process_asset t1 t2 t3 g;
     gs \<leftarrow> process_gens ck (Suc i) gs;
     Some (g # gs) })"

definition process_asset_data :: "(nat \<Rightarrow> timespec \<times> timespec \<times> timespec) \<Rightarrow> gen_manager \<Rightarrow> gen_manager option" where
  "process_asset_data ck m =
     (if pGens m = [] then Some m
      else do { gs \<leftarrow> process_gens ck 0 (pGens m); Some (aggregate_gen_data (upd_gens (\<lambda>_. gs) m)) })"

text \<open>
  A SET to one generator.  The buttons that move a generator to the front of the start or stop list
  are handled by the manager, after the generator did not know them.
\<close>

definition gen_type_handle_set :: "timespec \<Rightarrow> nat option \<Rightarrow> string \<Rightarrow> cjson \<Rightarrow> gen_manager \<Rightarrow> bool \<times> gen_manager" where
  "gen_type_handle_set now target e v m = (case target of
       None \<Rightarrow> (False, m)
     | Some i \<Rightarrow>
         let (success, _, g) = gen_handle_set now (warmup_time (ld m)) (cooldown_time (ld m)) e v (pGens m ! i);
             m = upd_ld (upd_gen i (\<lambda>_. g)) m
         in if e = ''start_next'' \<and> v = JTrue then (True, upd_ld (move_gen_to_front_of_both_start_priority_lists i) m)
            else if e = ''stop_next'' \<and> v = JTrue then (True, upd_ld (move_gen_to_front_of_both_stop_priority_lists i) m)
            else (success, m))"

section \<open>The distribution conserves the power\<close>

lemma fold_balance:
  assumes "b' = fold (balance_step bp) (enumerate n gs) b"
    and "unbalanced_index b \<noteq> 0 \<or> unbalanced_distance b \<noteq> 0 \<Longrightarrow> Q (unbalanced_index b)"
    and "\<And>i. i < length gs \<Longrightarrow> in_play (gs ! i) \<Longrightarrow> Q (n + i)"
  shows "gen_power_max_balanced b' = gen_power_max_balanced b + total_over in_play max_potential_active_power gs \<and>
    gen_power_min_balanced b' = gen_power_min_balanced b + total_over in_play min_potential_active_power gs \<and>
    gen_power_actual_balanced b' = gen_power_actual_balanced b + total_over in_play kW_value gs \<and>
    (unbalanced_index b' \<noteq> 0 \<or> unbalanced_distance b' \<noteq> 0 \<longrightarrow> Q (unbalanced_index b'))"
  using assms
proof (induction gs arbitrary: n b)
  case Nil
  then show ?case by (simp add: total_over_def)
next
  case (Cons g gs)
  let ?b = "balance_step bp (n, g) b"
  have q: "Q (unbalanced_index ?b)" if "unbalanced_index ?b \<noteq> 0 \<or> unbalanced_distance ?b \<noteq> 0"
    using that Cons.prems(2) Cons.prems(3) [of 0] by (auto simp: balance_step_def Let_def split: if_splits)
  have s: "Q (Suc n + i)" if "i < length gs" "in_play (gs ! i)" for i
    using Cons.prems(3) [of "Suc i"] that by simp
  have "b' = fold (balance_step bp) (enumerate (Suc n) gs) ?b" using Cons.prems(1) by simp
  from Cons.IH [OF this q s] show ?case by (simp add: balance_step_def Let_def total_over_def)
qed

lemma find_unbalanced_sums:
  assumes "b = find_unbalanced bp gs"
  shows "gen_power_max_balanced b = total_over in_play max_potential_active_power gs"
    "gen_power_min_balanced b = total_over in_play min_potential_active_power gs"
    "gen_power_actual_balanced b = total_over in_play kW_value gs"
    "unbalanced_gen b = Some k \<Longrightarrow> k < length gs \<and> in_play (gs ! k)"
proof -
  let ?b = "\<lparr>unbalanced_index = 0, unbalanced_distance = 0, gen_power_max_balanced = 0, gen_power_min_balanced = 0, gen_power_actual_balanced = 0\<rparr>"
  have "b = fold (balance_step bp) (enumerate 0 gs) ?b" using assms by (simp add: find_unbalanced_def)
  note f = fold_balance [OF this, of "\<lambda>k. k < length gs \<and> in_play (gs ! k)", simplified]
  show "gen_power_max_balanced b = total_over in_play max_potential_active_power gs"
    "gen_power_min_balanced b = total_over in_play min_potential_active_power gs"
    "gen_power_actual_balanced b = total_over in_play kW_value gs"
    using f by simp_all
  show "k < length gs \<and> in_play (gs ! k)" if "unbalanced_gen b = Some k"
    using f that by (auto simp: unbalanced_gen_def split: if_splits)
qed

text \<open>Sums over the indices of the generators that take part.\<close>

definition playing :: "generator list \<Rightarrow> nat set" where
  "playing gs = {i. i < length gs \<and> in_play (gs ! i)}"

lemma finite_playing [simp]: "finite (playing gs)"
  by (simp add: playing_def)

lemma total_over_playing: "total_over in_play f gs = (\<Sum>i \<in> playing gs. f (gs ! i))"
  by (simp add: total_over_sum playing_def)

lemma count_of_playing: "count_of in_play gs = int (card (playing gs))"
  by (simp add: count_of_card playing_def)

lemma shared_equally:
  fixes r :: flt
  assumes "finite A" "A \<noteq> {}"
  shows "(\<Sum>i \<in> A. v i + (r - sum v A) / of_int (int (card A))) = r"
  using assms by (simp add: sum.distrib)

lemma sum_without:
  fixes v :: "nat \<Rightarrow> flt"
  assumes "finite A" "k \<in> A"
  shows "sum v A - v k = sum v (A - {k})"
  using assms by (simp add: sum_diff1)

lemma commands_conserve:
  assumes "c - s = count_of in_play gs" "c - s > 0" "0 \<le> s"
  shows "(\<Sum>i \<in> playing gs. gen_commands r c s gs i) = r"
proof -
  let ?A = "playing gs" and ?bp = "r / of_int (c - s)"
  define b where "b = find_unbalanced ?bp gs"
  have cmd: "gen_commands r c s gs = share_commands b ?bp r c s gs" by (simp add: gen_commands_def b_def Let_def)
  have card: "c - s = int (card ?A)" using assms(1) count_of_playing by simp
  then have ne: "?A \<noteq> {}" using assms(2) by auto
  note bs = find_unbalanced_sums [OF b_def, unfolded total_over_playing]
  show ?thesis
  proof (cases "unbalanced_gen b")
    case None
    show ?thesis
    proof (cases "s = 0")
      case True
      then have "(\<Sum>i \<in> ?A. r / of_int c) = r" using card ne by simp
      with None True show ?thesis unfolding cmd by (simp add: share_commands_def)
    next
      case False
      with None shared_equally [OF finite_playing ne, of "\<lambda>i. kW_value (gs ! i)" r] card show ?thesis
        by (simp add: cmd share_commands_def bs(3))
    qed
  next
    case (Some k)
    have k: "k \<in> ?A" using bs(4) [OF Some] by (simp add: playing_def)
    let ?B = "?A - {k}" and ?n = "c - s - 1"
    have n: "?n = int (card ?B)" using card k card_Suc_Diff1 [OF finite_playing k] by linarith
    let ?mx = "\<Sum>i \<in> ?B. max_potential_active_power (gs ! i)" and ?mn = "\<Sum>i \<in> ?B. min_potential_active_power (gs ! i)"
    define c0 where "c0 = (if active_power (gs ! k) < ?bp then max_potential_active_power (gs ! k) else min_potential_active_power (gs ! k))"
    define x where "x = (if r - c0 > ?mx then r - ?mx else if r - c0 < ?mn then r - ?mn else c0)"
    have e: "gen_power_max_balanced b - max_potential_active_power (gs ! k) = ?mx"
      "gen_power_min_balanced b - min_potential_active_power (gs ! k) = ?mn"
      "gen_power_actual_balanced b - kW_value (gs ! k) = (\<Sum>i \<in> ?B. kW_value (gs ! i))"
      unfolding bs(1-3) by (rule sum_without [OF finite_playing k])+
    have nb: "?n \<noteq> c" using assms(3) by simp
    have x: "share_commands b ?bp r c s gs =
        (\<lambda>i. if i = k then x else kW_value (gs ! i) + (r - x - sum (\<lambda>i. kW_value (gs ! i)) ?B) / of_int ?n)"
      using nb unfolding share_commands_def Let_def Some option.case e c0_def [symmetric] x_def [symmetric] by simp
    have only: "x = r" if B: "?B = {}" unfolding x_def B by simp
    have "(\<Sum>i \<in> ?A. share_commands b ?bp r c s gs i) = x + (\<Sum>i \<in> ?B. kW_value (gs ! i) + (r - x - sum (\<lambda>i. kW_value (gs ! i)) ?B) / of_int ?n)"
      unfolding x by (simp add: sum.remove [OF finite_playing k])
    also have "\<dots> = r"
    proof (cases "?B = {}")
      case True
      then show ?thesis unfolding True using only [OF True] by simp
    next
      case False
      with shared_equally [of ?B "\<lambda>i. kW_value (gs ! i)" "r - x"] show ?thesis unfolding n by simp
    qed
    finally show ?thesis by (simp add: cmd)
  qed
qed

text \<open>Ramping down keeps the list of generators and who is under control, and counts those that stop.\<close>

lemma ramp_down_count:
  assumes "fold (ramp_down_step ck) is (r, n, l) = (r', n', l')"
  shows "n \<le> n'"
  using assms
proof (induction "is" arbitrary: r n l)
  case (Cons i "is")
  obtain r1 n1 l1 where s: "ramp_down_step ck i (r, n, l) = (r1, n1, l1)" by (metis prod_cases3)
  then have "n \<le> n1" by (auto simp: ramp_down_step_def Let_def split: if_splits)
  with Cons.IH [of r1 n1 l1] Cons.prems s show ?case by simp
qed simp

text \<open>While no generator that is stopping has reached 0, ramping down subtracts their ramped power and counts them, and changes nobody's part.\<close>

definition ramping :: "generator \<Rightarrow> bool" where
  "ramping g \<longleftrightarrow> is_controllable g \<and> isStopping g"

definition part :: "generator \<Rightarrow> bool \<times> bool \<times> flt" where
  "part g = (is_controllable g, isStopping g, get_active_power_slew_min_target g)"

lemma ramp_down_exact:
  assumes "fold (ramp_down_step ck) is (r, n, l) = (r', n', l')" "\<forall>i \<in> set is. i < length (generators l)"
    and "\<forall>g \<in> set (generators l). ramping g \<longrightarrow> get_active_power_slew_min_target g \<noteq> 0"
  shows "map part (generators l') = map part (generators l) \<and>
    r' = r - sum_list (map (\<lambda>i. get_active_power_slew_min_target (generators l ! i)) (filter (\<lambda>i. ramping (generators l ! i)) is)) \<and>
    n' = n + int (length (filter (\<lambda>i. ramping (generators l ! i)) is))"
  using assms
proof (induction "is" arbitrary: r n l)
  case (Cons i "is")
  let ?g = "generators l ! i"
  obtain r1 n1 l1 where s: "ramp_down_step ck i (r, n, l) = (r1, n1, l1)" by (metis prod_cases3)
  have i: "i < length (generators l)" using Cons.prems(2) by simp
  have k: "part (gen_set_active_power_setpoint x g) = part g" for x g
    by (simp add: part_def gen_set_active_power_setpoint_def is_controllable_def get_demand_mode_def get_active_power_slew_min_target_def)
  have e: "map part (generators l1) = map part (generators l) \<and>
      r1 = r - (if ramping ?g then get_active_power_slew_min_target ?g else 0) \<and> n1 = n + (if ramping ?g then 1 else 0)"
  proof (cases "ramping ?g")
    case True
    then have "get_active_power_slew_min_target ?g \<noteq> 0" using Cons.prems(3) i by simp
    with True s have "l1 = upd_gen i (gen_set_active_power_setpoint (if get_active_power_slew_min_target ?g < 0 then 0
        else get_active_power_slew_min_target ?g)) l" "r1 = r - get_active_power_slew_min_target ?g" "n1 = n + 1"
      by (auto simp: ramp_down_step_def Let_def ramping_def)
    with True show ?thesis by (simp add: upd_gen_def map_map_nth k)
  next
    case False
    with s show ?thesis by (auto simp: ramp_down_step_def Let_def ramping_def)
  qed
  then have len: "length (generators l1) = length (generators l)" by (metis length_map)
  have p: "part (generators l1 ! j) = part (generators l ! j)" if "j < length (generators l)" for j
    using e that len by (metis nth_map)
  then have q: "ramping (generators l1 ! j) = ramping (generators l ! j)"
      "get_active_power_slew_min_target (generators l1 ! j) = get_active_power_slew_min_target (generators l ! j)"
    if "j < length (generators l)" for j
    using that by (simp_all add: part_def ramping_def)
  have f: "filter (\<lambda>i. ramping (generators l1 ! i)) is = filter (\<lambda>i. ramping (generators l ! i)) is"
    using Cons.prems(2) q by (intro filter_cong) auto
  have m: "map (\<lambda>i. get_active_power_slew_min_target (generators l1 ! i)) (filter (\<lambda>i. ramping (generators l ! i)) is) =
      map (\<lambda>i. get_active_power_slew_min_target (generators l ! i)) (filter (\<lambda>i. ramping (generators l ! i)) is)"
    using Cons.prems(2) q by (intro map_cong) auto
  have z: "\<forall>g \<in> set (generators l1). ramping g \<longrightarrow> get_active_power_slew_min_target g \<noteq> 0"
    using Cons.prems(3) q len by (metis in_set_conv_nth)
  from Cons.IH [of r1 n1 l1, OF _ _ z] Cons.prems(1,2) s len e show ?case by (simp add: f m)
qed simp

lemma filter_indices: "map ((!) xs) (filter (\<lambda>i. P (xs ! i)) [0..<length xs]) = filter P xs"
proof -
  have "filter P (map ((!) xs) [0..<length xs]) = map ((!) xs) (filter (P \<circ> (!) xs) [0..<length xs])" by (rule filter_map)
  then show ?thesis by (simp add: map_nth comp_def)
qed

lemma count_of_part:
  assumes "map part gs' = map part gs"
  shows "count_of is_controllable gs - count_of ramping gs = count_of in_play gs'"
proof -
  have "map in_play xs = map (\<lambda>(c, s, x). c \<and> \<not> s) (map part xs)" for xs by (simp add: in_play_def part_def)
  from this [of gs'] this [of gs] have "map in_play gs' = map in_play gs" unfolding assms by (rule trans [OF _ sym])
  then have "length (filter id (map in_play gs')) = length (filter id (map in_play gs))" by (rule arg_cong)
  then have "count_of in_play gs' = count_of in_play gs" by (simp add: count_of_def filter_map comp_def)
  moreover have "count_of is_controllable gs = count_of ramping gs + count_of in_play gs"
    by (induction gs) (auto simp: count_of_def ramping_def in_play_def)
  ultimately show ?thesis by simp
qed

section \<open>Properties\<close>

text \<open>C22. The distribution of the power among the generators conserves it, as long as no generator that is ramped down
  has reached 0 (there its stop is sent and, no longer stopping, it takes part again although it was
  counted as stopping): what is left of the target is the target less the ramped power of the
  stopping generators, and over the generators that take part the commands, before slew rates and limits, add up to
  what is left, whether the generators are balanced, one of them is out of balance, or one of them is alone (at least one has to take part).
  The number of controllable generators is that of the last aggregation.\<close>
theorem gen_power_conserved:
  assumes "numGenControllable m = count_of is_controllable (pGens m)"
    and "\<forall>g \<in> set (pGens m). is_controllable g \<and> isStopping g \<longrightarrow> get_active_power_slew_min_target g \<noteq> 0"
    and "fold (ramp_down_step ck) [0..<length (pGens m)] (genTargetActivePowerkW m, 0, ld m) = (r, n, l)"
    and "numGenControllable m - n > 0"
  shows "r = genTargetActivePowerkW m - total_over (\<lambda>g. is_controllable g \<and> isStopping g) get_active_power_slew_min_target (pGens m) \<and>
    (\<Sum>i \<in> playing (generators l). gen_commands r (numGenControllable m) n (generators l) i) = r"
proof -
  have z: "\<forall>g \<in> set (generators (ld m)). ramping g \<longrightarrow> get_active_power_slew_min_target g \<noteq> 0" using assms(2) by (simp add: ramping_def)
  note e = ramp_down_exact [OF assms(3) _ z]
  have i: "int (length (filter (\<lambda>i. ramping (pGens m ! i)) [0..<length (pGens m)])) = count_of ramping (pGens m)"
    using arg_cong [OF filter_indices [of "pGens m" ramping], of length] by (simp add: count_of_def)
  have "sum_list (map (\<lambda>i. get_active_power_slew_min_target (pGens m ! i)) (filter (\<lambda>i. ramping (pGens m ! i)) [0..<length (pGens m)])) =
      total_over ramping get_active_power_slew_min_target (pGens m)"
    using arg_cong [OF filter_indices [of "pGens m" ramping], of "map get_active_power_slew_min_target"] by (simp add: total_over_def comp_def)
  moreover have "ramping = (\<lambda>g. is_controllable g \<and> isStopping g)" by (simp add: ramping_def fun_eq_iff)
  ultimately have r: "r = genTargetActivePowerkW m - total_over (\<lambda>g. is_controllable g \<and> isStopping g) get_active_power_slew_min_target (pGens m)"
    using e by simp
  have n: "n = count_of ramping (pGens m)" using e i by simp
  have "map part (generators l) = map part (pGens m)" using e by simp
  from count_of_part [OF this] have "numGenControllable m - n = count_of in_play (generators l)" by (simp only: n assms(1))
  moreover have "0 \<le> n" by (simp add: n count_of_def)
  ultimately show ?thesis using r commands_conserve assms(4) by blast
qed

section \<open>Limits\<close>

text \<open>A permitted change of a generator: its limits stay, and its setpoint stays or lies between them.\<close>

definition limited_change :: "generator \<Rightarrow> generator \<Rightarrow> bool" where
  "limited_change g g' \<longleftrightarrow> min_limited_active_power g' = min_limited_active_power g \<and> max_limited_active_power g' = max_limited_active_power g \<and>
     (kW_control g' = kW_control g \<or> min_limited_active_power g \<le> kW_control g' \<and> kW_control g' \<le> max_limited_active_power g)"

lemma limited_change_refl [simp]: "limited_change g g"
  by (simp add: limited_change_def)

definition limits_ok :: "generator \<Rightarrow> bool" where
  "limits_ok g \<longleftrightarrow> min_limited_active_power g \<le> max_limited_active_power g"

definition limited_changes :: "generator list \<Rightarrow> generator list \<Rightarrow> bool" where
  "limited_changes gs gs' \<longleftrightarrow> (list_all limits_ok gs \<longrightarrow> list_all2 limited_change gs gs' \<and> list_all limits_ok gs')"

lemma limited_changes_trans: "limited_changes a b \<Longrightarrow> limited_changes b c \<Longrightarrow> limited_changes a c"
  by (fastforce simp: limited_changes_def limited_change_def list_all2_conv_all_nth)

lemma limited_changes_I:
  assumes "length gs' = length gs" "\<And>i. i < length gs \<Longrightarrow> limits_ok (gs ! i) \<Longrightarrow> limited_change (gs ! i) (gs' ! i)"
  shows "limited_changes gs gs'"
  using assms by (fastforce simp: limited_changes_def list_all2_conv_all_nth list_all_length limits_ok_def limited_change_def)

lemma limited_changes_refl [simp]: "limited_changes gs gs"
  by (rule limited_changes_I) (simp_all add: limited_change_def)

lemma set_kW_limited: "limits_ok g \<Longrightarrow> limited_change g (gen_set_active_power_setpoint x g)"
  by (auto simp: limited_change_def limits_ok_def gen_set_active_power_setpoint_def kW_control_def set_control_def range_check_def)

lemma gen_stop_limited: "limited_change g (snd (gen_stop now t g))"
  by (simp add: gen_stop_def Let_def send_to_comp_uri_def json_object_send_def limited_change_def kW_control_def split: prod.split)

lemma ramp_down_limited:
  assumes "ramp_down_step ck i (r, n, l) = (r', n', l')" "i < length (generators l)"
  shows "limited_changes (generators l) (generators l')"
proof -
  have upd: "limited_changes (generators l) (generators (upd_gen j f l))"
    if "\<And>g. limits_ok g \<Longrightarrow> limited_change g (f g)" for j f and l :: ldss
    by (rule limited_changes_I) (use that in \<open>auto simp: upd_gen_def map_nth_def nth_list_update limited_change_def\<close>)
  have adj: "limited_changes (generators l) (generators (adjust_dynamic_stop_priorities j l))" for j and l :: ldss
    by (rule limited_changes_I) (auto simp: adjust_dynamic_stop_priorities_def Let_def limited_change_def kW_control_def)
  have stop: "limited_changes (generators l) (generators (snd (run_gen j (gen_stop t u) l)))" for j t u and l :: ldss
    unfolding run_gen_def snd_conv by (rule upd) (rule gen_stop_limited)
  show ?thesis using assms
    by (auto simp: ramp_down_step_def Let_def split: if_splits intro!: limited_changes_trans [OF _ adj] limited_changes_trans [OF _ stop] upd set_kW_limited)
qed

lemma ramp_downs_limited:
  assumes "fold (ramp_down_step ck) is (r, n, l) = (r', n', l')" "\<forall>i \<in> set is. i < length (generators l)"
  shows "limited_changes (generators l) (generators l')"
  using assms
proof (induction "is" arbitrary: r n l)
  case (Cons i "is")
  obtain r1 n1 l1 where s: "ramp_down_step ck i (r, n, l) = (r1, n1, l1)" by (metis prod_cases3)
  have c: "limited_changes (generators l) (generators l1)" using ramp_down_limited [OF s] Cons.prems(2) by simp
  have len: "length (generators l1) = length (generators l)"
    using s by (auto simp: ramp_down_step_def Let_def upd_gen_def run_gen_def adjust_dynamic_stop_priorities_def length_map_nth split: if_splits)
  from Cons.IH [of r1 n1 l1] Cons.prems s len have "limited_changes (generators l1) (generators l')" by simp
  with c show ?case by (rule limited_changes_trans)
qed simp

lemma mark_balanced_limited: "limited_changes gs (mark_balanced r c s gs)"
  by (rule limited_changes_I)
    (auto simp: mark_balanced_def Let_def nth_enumerate_eq limited_change_def kW_control_def)

lemma map_limited:
  assumes "\<And>i g. limits_ok g \<Longrightarrow> limited_change g (f i g)"
  shows "limited_changes gs (map (\<lambda>(i, g). f i g) (enumerate 0 gs))"
  by (rule limited_changes_I) (use assms in \<open>auto simp: nth_enumerate_eq\<close>)

lemma calculate_limited: "limited_changes (pGens m) (pGens (calculate_gen_power ck m))"
proof -
  define m1 where "m1 = (if genTargetActivePowerkW m = 0
     then upd_gens (map (\<lambda>g. if is_controllable g then gen_set_active_power_setpoint 0 g else g)) m else m)"
  have 1: "limited_changes (pGens m) (pGens m1)"
    unfolding m1_def upd_gens_def upd_ld_def
    by (auto intro!: limited_changes_I simp: set_kW_limited)
  obtain r n l where 2: "fold (ramp_down_step ck) [0..<length (pGens m1)] (genTargetActivePowerkW m1, 0, ld m1) = (r, n, l)" by (metis prod_cases3)
  have 3: "limited_changes (pGens m1) (generators l)" by (rule ramp_downs_limited [OF 2]) simp
  define gs where "gs = mark_balanced r (numGenControllable m1) n (generators l)"
  have 4: "limited_changes (generators l) (map (\<lambda>(i, g). if in_play g
      then gen_set_active_power_setpoint (get_slew_target (active_power_slew g) (cmd i)) g else g) (enumerate 0 gs))" for cmd
    unfolding gs_def
    by (rule limited_changes_trans [OF mark_balanced_limited map_limited]) (simp add: set_kW_limited)
  have "pGens (calculate_gen_power ck m) = generators l \<or> (\<exists>cmd. pGens (calculate_gen_power ck m) = map (\<lambda>(i, g). if in_play g
      then gen_set_active_power_setpoint (get_slew_target (active_power_slew g) (cmd i)) g else g) (enumerate 0 gs))"
    unfolding calculate_gen_power_def m1_def [symmetric] unfolding Let_def 2 prod.case
    by (auto simp: gs_def upd_gens_def upd_ld_def)
  then show ?thesis
  proof (elim disjE exE)
    assume "pGens (calculate_gen_power ck m) = generators l"
    with limited_changes_trans [OF 1 3] show ?thesis by simp
  next
    fix cmd
    assume c: "pGens (calculate_gen_power ck m) = map (\<lambda>(i, g). if in_play g
      then gen_set_active_power_setpoint (get_slew_target (active_power_slew g) (cmd i)) g else g) (enumerate 0 gs)"
    show ?thesis unfolding c by (rule limited_changes_trans [OF limited_changes_trans [OF 1 3] 4])
  qed
qed

text \<open>C23. When every generator has its lower limit at or below its upper limit, then after a distribution every setpoint
  lies between the limits of its generator or is the one it was
  before, whatever the target, the slew rates and the generators that are stopping; and the limits
  themselves are not changed.  (The reactive priority can lower an upper limit below the slew limit under it; the order of the
  limits is what the claim asks for.)\<close>
theorem gen_setpoints_within_limits:
  assumes "\<forall>g \<in> set (pGens m). min_limited_active_power g \<le> max_limited_active_power g"
    and "i < length (pGens m)" "g = pGens m ! i" "g' = pGens (calculate_gen_power ck m) ! i"
  shows "(kW_control g' = kW_control g \<or> min_limited_active_power g \<le> kW_control g' \<and> kW_control g' \<le> max_limited_active_power g) \<and>
    min_limited_active_power g' = min_limited_active_power g \<and> max_limited_active_power g' = max_limited_active_power g"
proof -
  have "list_all limits_ok (pGens m)" using assms(1) by (simp add: list_all_iff limits_ok_def)
  with calculate_limited [of m ck] have "list_all2 limited_change (pGens m) (pGens (calculate_gen_power ck m))"
    by (simp add: limited_changes_def)
  with assms(2-4) show ?thesis by (simp add: list_all2_conv_all_nth limited_change_def)
qed

lemma stop_all_failed: "stop_all_loop ck is False l = (False, l)"
  by (induction "is") auto

text \<open>When the stop command of a generator is not sent, \<^verbatim>\<open>stop_all_gen\<close> leaves every generator after
  it as it is: none of them is asked to stop.\<close>
theorem stop_all_gives_up:
  assumes "is_controllable (generators l ! i)" "run_gen i (gen_stop (ck i) (cooldown_time l)) l = (False, l')"
  shows "stop_all_loop ck (i # is) True l = (False, l')"
  using assms by (simp add: stop_all_failed)


section \<open>Two generators\<close>

text \<open>Two running generators, one at 80 kW, the other at 20 kW.\<close>

definition running_gen :: "string \<Rightarrow> flt \<Rightarrow> generator" where
  "running_gen n kW = (demo_gen n)\<lparr>isRunning := True, active_power := kW,
     kW_setpoint := blank_fims\<lparr>fo_value := (Value_Object 0)\<lparr>value_float := kW\<rparr>\<rparr>\<rparr>"

definition demo_manager :: gen_manager where
  "demo_manager = \<lparr>ld = demo_ldss\<lparr>generators := [running_gen ''gen_1'' 80, running_gen ''gen_2'' 20]\<rparr>, numAvail = 2, numRunning = 2,
     numGenControllable = 2, num_in_local_mode = 0, genTotalActivePowerkW = 100, genTotalReactivePowerkVAR = 0,
     genTotalApparentPowerkVA = 0, genTotalUncontrollableActivePowerkW = 0, genTotalMaxPotentialActivePower = 200,
     genTotalMinPotentialActivePower = 0, genTotalPotentialReactivePower = 100, genTotalRatedActivePower = 200,
     genTotalNameplateActivePower = 200, total_kW_discharge_limit = 200, genTargetActivePowerkW = 150, genTargetReactivePowerkVAR = 0\<rparr>"

lemma running_gen_play [simp]: "in_play (running_gen n kW)" "is_controllable (running_gen n kW)"
  by (simp_all add: in_play_def is_controllable_def get_demand_mode_def running_gen_def demo_gen_def)

theorem gen_power_conserved_witness:
  "gen_commands 150 2 0 [running_gen ''gen_1'' 80, running_gen ''gen_2'' 20] 0 +
   gen_commands 150 2 0 [running_gen ''gen_1'' 80, running_gen ''gen_2'' 20] 1 = 150"
proof -
  let ?gs = "[running_gen ''gen_1'' 80, running_gen ''gen_2'' 20]"
  have d: "pGens demo_manager = ?gs" "numGenControllable demo_manager = 2" "genTargetActivePowerkW demo_manager = 150"
    by (simp_all add: demo_manager_def)
  have s: "\<not> isStopping (running_gen x kW)" for x kW by (simp add: running_gen_def demo_gen_def)
  have f: "fold (ramp_down_step (\<lambda>_. mk_ts 0 0)) [0..<length (pGens demo_manager)] (genTargetActivePowerkW demo_manager, 0, ld demo_manager) =
      (150, 0, ld demo_manager)"
    by (simp add: d s ramp_down_step_def)
  have "playing ?gs = {0, 1}" by (auto simp: playing_def less_Suc_eq)
  with gen_power_conserved [OF _ _ f] show ?thesis by (simp add: d s count_of_def)
qed

theorem gen_setpoints_within_limits_witness:
  "let g' = pGens (calculate_gen_power (\<lambda>_. mk_ts 9 0) demo_manager) ! 0
   in kW_control g' = 0 \<or> 0 \<le> kW_control g' \<and> kW_control g' \<le> 100"
  using gen_setpoints_within_limits [of demo_manager 0 _ _ "\<lambda>_. mk_ts 9 0", OF _ _ refl refl]
  by (simp add: demo_manager_def running_gen_def demo_gen_def kW_control_def blank_fims_def Value_Object_def Let_def)

theorem stop_all_gives_up_witness:
  "fst (stop_all_loop (\<lambda>_. mk_ts 0 0) [0, 1] True (ld demo_manager)) = False"
proof -
  have "run_gen 0 (gen_stop (mk_ts 0 0) (cooldown_time (ld demo_manager))) (ld demo_manager) =
      (False, snd (run_gen 0 (gen_stop (mk_ts 0 0) (cooldown_time (ld demo_manager))) (ld demo_manager)))"
    by (simp add: run_gen_def demo_manager_def running_gen_def demo_gen_def gen_stop_def command_trigger_def current_timestamp_def
        Write_Rate_Throttle_def)
  from stop_all_gives_up [of "ld demo_manager" 0 "\<lambda>_. mk_ts 0 0", OF _ this] show ?thesis by (simp add: demo_manager_def)
qed

end
