(* ===== verification/Asset_Laws.thy ===== *)
theory Asset_Laws
  imports Generators
begin

text \<open>
  Properties of the base class of the assets: the throttle spaces the commands, lockdown holds an
  asset in maintenance, what makes an asset available; and where the code departs from what it
  says of latched faults, new faults and the reactive power that is left.
\<close>

section \<open>Throttle\<close>

text \<open>The times of the commands a throttle lets through, of attempts at the given times.\<close>

fun accepted :: "write_rate_throttle \<Rightarrow> timespec list \<Rightarrow> int list" where
  "accepted w [] = []"
| "accepted w (t # ts) = (case command_trigger t w of (go, w') \<Rightarrow> (if go then [current_timestamp t] else []) @ accepted w' ts)"

lemma accepted_spaced:
  "successively (\<lambda>s t. t - s > throttle_timeout w) (status_time w # accepted w ts)"
proof (induction ts arbitrary: w)
  case (Cons t ts)
  show ?case
    using Cons [of w] Cons [of "w\<lparr>status_time := current_timestamp t\<rparr>"] by (simp add: command_trigger_def Let_def)
qed simp

section \<open>Maintenance and lockdown\<close>

definition lock_ok :: "'m asset_scheme \<Rightarrow> bool" where
  "lock_ok a \<longleftrightarrow> (inLockdown a \<longrightarrow> in_maintenance a)"

definition control_step :: "bool option \<times> bool option \<Rightarrow> 'm asset_scheme \<Rightarrow> 'm asset_scheme" where
  "control_step c a = snd (snd (handle_generic_asset_controls_set (fst c) (snd c) a))"

interpretation asset_controls: machine control_step "lock_ok :: 'm asset_scheme \<Rightarrow> bool"
  by unfold_locales
    (auto simp: control_step_def handle_generic_asset_controls_set_def set_maint_mode_def set_lock_mode_def lock_ok_def as_event_def
      split: option.split)

text \<open>A message that does not ask to leave the lockdown.\<close>

definition keeps_lock :: "bool option \<times> bool option \<Rightarrow> bool" where
  "keeps_lock c \<longleftrightarrow> fst c \<noteq> None \<or> snd c \<noteq> Some False"

lemma locked_step:
  "inLockdown a \<Longrightarrow> in_maintenance a \<Longrightarrow> keeps_lock c \<Longrightarrow> inLockdown (control_step c a) \<and> in_maintenance (control_step c a)"
  by (auto simp: control_step_def handle_generic_asset_controls_set_def set_maint_mode_def set_lock_mode_def as_event_def keeps_lock_def
      split: option.split)

lemma locked_run:
  "inLockdown a \<Longrightarrow> in_maintenance a \<Longrightarrow> \<forall>c \<in> set cs. keeps_lock c \<Longrightarrow> in_maintenance (fold control_step cs a)"
  by (induction cs arbitrary: a) (auto simp: locked_step)

section \<open>Availability\<close>

lemma watchdog_result: "fst (process_watchdog_status now a) = (watchdog_enable (snd (process_watchdog_status now a)) \<longrightarrow>
    watchdog_status (snd (process_watchdog_status now a)))"
proof -
  have e: "watchdog_enable (snd (check_fims_timeout now a)) = watchdog_enable a" for a :: "'m asset_scheme"
    by (simp add: check_fims_timeout_def as_event_def Let_def)
  show ?thesis
    by (simp add: process_watchdog_status_def split_beta Let_def as_event_def e split: option.split)
qed

lemma processed_availability:
  assumes "process_alerts_and_status now now_wd a = Some a'"
  shows "isAvail a' \<longleftrightarrow> get_num_active_faults a' = 0 \<and> \<not> in_maintenance a' \<and> \<not> local_mode_status a' \<and>
    (watchdog_enable a' \<longrightarrow> watchdog_status a')"
proof -
  obtain b where a': "a' = (case process_watchdog_status now_wd b of (ok, c) \<Rightarrow> set_availability ok c)"
    using assms unfolding process_alerts_and_status_def Let_def split_beta by (auto split: bind_splits)
  show ?thesis using watchdog_result [of now_wd b]
    by (simp add: a' split_beta set_availability_def get_num_active_faults_def Let_def)
qed

section \<open>Latched faults\<close>

lemma map_of_put_assoc: "map_of (put_assoc k v xs) k' = (if k' = k then map_option (\<lambda>_. v) (map_of xs k') else map_of xs k')"
  by (induction xs) (auto simp: put_assoc_def)

lemma fold_keeps: "(\<And>x a. f (g x a) = f a) \<Longrightarrow> f (fold g xs a) = f a"
  by (induction xs arbitrary: a) simp_all

lemma as_event_keeps [simp]:
  "fault_latches (as_event m ty a) = fault_latches a" "newly_faulted (as_event m ty a) = newly_faulted a"
  by (simp_all add: as_event_def)

lemma announce_keeps [simp]:
  "fault_latches (announce ty kd w r a) = fault_latches a" "newly_faulted (announce ty kd w r a) = newly_faulted a"
  unfolding announce_def by (auto simp: fold_keeps [of fault_latches] fold_keeps [of newly_faulted])

lemma process_fault_register_newly [simp]: "newly_faulted (process_fault_register r a) = newly_faulted a"
  by (simp add: process_fault_register_def Let_def split: option.split)

lemma latch_after_register:
  "map_of (fault_latches (process_fault_register r a)) i =
     (if bits r > 0 \<and> i = variable_id r then map_option (\<lambda>_. bits r) (map_of (fault_latches a) i) else map_of (fault_latches a) i)"
  by (auto simp: process_fault_register_def Let_def map_of_put_assoc split: option.splits)

lemma as_event_keeps_clear [simp]:
  "is_faulted (as_event m ty a) = is_faulted a" "clear_fault_registers_flag (as_event m ty a) = clear_fault_registers_flag a"
  "component_fault_registers (as_event m ty a) = component_fault_registers a" "action_fault_bits (as_event m ty a) = action_fault_bits a"
  by (simp_all add: as_event_def)

lemma announce_keeps_action [simp]: "action_fault_bits (announce ty kd w r a) = action_fault_bits a"
  unfolding announce_def by (auto simp: fold_keeps [of action_fault_bits])

lemma announce_keeps_clear [simp]:
  "is_faulted (announce ty kd w r a) = is_faulted a" "clear_fault_registers_flag (announce ty kd w r a) = clear_fault_registers_flag a"
  unfolding announce_def by (auto simp: fold_keeps [of is_faulted] fold_keeps [of clear_fault_registers_flag])

lemma process_fault_register_clear [simp]:
  "clear_fault_registers_flag (process_fault_register r a) = clear_fault_registers_flag a"
  by (simp add: process_fault_register_def Let_def split: option.split)

lemma fims_timeout_keeps [simp]:
  "is_faulted (snd (check_fims_timeout now a)) = is_faulted a"
  "clear_fault_registers_flag (snd (check_fims_timeout now a)) = clear_fault_registers_flag a"
  "fault_latches (snd (check_fims_timeout now a)) = fault_latches a"
  "action_fault_bits (snd (check_fims_timeout now a)) = action_fault_bits a"
  "watchdog_enable (snd (check_fims_timeout now a)) = watchdog_enable a"
  by (simp_all add: check_fims_timeout_def Let_def as_event_def)

lemma alarm_registers_keep [simp]:
  "is_faulted (process_alarm_registers rs a) = is_faulted a"
  "clear_fault_registers_flag (process_alarm_registers rs a) = clear_fault_registers_flag a"
  "fault_latches (process_alarm_registers rs a) = fault_latches a"
  "action_fault_bits (process_alarm_registers rs a) = action_fault_bits a"
  by (induction rs a rule: process_alarm_registers.induct) (auto simp: Let_def split: option.splits)

lemma status_keeps [simp]:
  "is_faulted (process_status a) = is_faulted a" "clear_fault_registers_flag (process_status a) = clear_fault_registers_flag a"
  "fault_latches (process_status a) = fault_latches a" "action_fault_bits (process_status a) = action_fault_bits a"
  by (simp_all add: process_status_def Let_def)

lemma watchdog_keeps [simp]:
  "is_faulted (snd (process_watchdog_status now a)) = is_faulted a"
  "clear_fault_registers_flag (snd (process_watchdog_status now a)) = clear_fault_registers_flag a"
  by (cases "check_fims_timeout now a"; use fims_timeout_keeps [of now a] in
      \<open>simp add: process_watchdog_status_def Let_def split: option.split\<close>)+

text \<open>The watchdog can latch its own fault, and no other.\<close>

lemma watchdog_latch:
  fixes a :: "'m asset_scheme" and now :: timespec
  defines "a' \<equiv> snd (process_watchdog_status now a)"
  shows "action_fault_bits a' = action_fault_bits a \<and> (fault_latches a' = fault_latches a \<or>
    fault_latches a' = put_assoc ''watchdog_fault'' 1 (fault_latches a) \<and> watchdog_enable a' \<and> \<not> watchdog_status a')"
proof (cases "watchdog_enable a")
  case False
  then show ?thesis by (simp add: a'_def process_watchdog_status_def)
next
  case True
  obtain t b where b: "check_fims_timeout now a = (t, b)" by (cases "check_fims_timeout now a")
  have k: "fault_latches b = fault_latches a" "action_fault_bits b = action_fault_bits a" "watchdog_enable b"
    using fims_timeout_keeps [of now a] b True by simp_all
  show ?thesis
    using True k by (auto simp: a'_def process_watchdog_status_def b Let_def as_event_def split: option.split)
qed

lemma local_mode_keeps:
  "process_local_mode_status a = Some a' \<Longrightarrow> fault_latches a' = fault_latches a \<and> action_fault_bits a' = action_fault_bits a \<and>
     component_fault_registers a' = component_fault_registers a \<and> clear_fault_registers_flag a' = clear_fault_registers_flag a"
  by (auto simp: process_local_mode_status_def Let_def split: option.splits if_splits statusType.splits)

lemma quiet_registers: "\<forall>r \<in> set rs. bits r = 0 \<Longrightarrow> fold process_fault_register rs a = a"
  by (induction rs) (simp_all add: process_fault_register_def)

section \<open>Properties\<close>

text \<open>Two commands that a throttle lets through are more than its time out apart, for any times at
  which commands are attempted.\<close>
theorem commands_spaced_by_throttle:
  "successively (\<lambda>s t. t - s > throttle_timeout w) (status_time w # accepted w ts)"
  by (rule accepted_spaced)

text \<open>C30. Under the SETs of the two modes an asset that is not in lockdown outside of maintenance never gets there, whatever SETs
  arrive; and an asset in lockdown stays in maintenance until one of them asks to leave the lockdown.  Only these messages are
  meant: the action \<^verbatim>\<open>set_maint_mode\<close> of the storage ends maintenance without looking at the lockdown.\<close>
theorem lockdown_holds_maintenance:
  assumes "lock_ok a"
  shows "lock_ok (fold control_step cs a) \<and>
    (inLockdown a \<and> (\<forall>c \<in> set cs. keeps_lock c) \<longrightarrow> in_maintenance (fold control_step cs a))"
  using asset_controls.run_inv [OF assms, of cs] locked_run [of a cs] assms by (simp add: lock_ok_def)

text \<open>After the readings of a cycle are processed an asset is available exactly when it has no latched
  fault, is not in maintenance, its component is not in local mode and, with a watchdog, the component
  is connected and its heartbeat is alive; so an asset with a fault is not under control.\<close>
theorem availability_after_processing:
  assumes "process_alerts_and_status now now_wd a = Some a'"
  shows "(isAvail a' \<longleftrightarrow> get_num_active_faults a' = 0 \<and> \<not> in_maintenance a' \<and> \<not> local_mode_status a' \<and>
      (watchdog_enable a' \<longrightarrow> watchdog_status a')) \<and>
    (is_controllable a' \<longrightarrow> get_num_active_faults a' = 0)"
  using processed_availability [OF assms] by (auto simp: is_controllable_def)

text \<open>The mark of a new fault stays when the faults are gone: a cycle that ends without a fault leaves it
  as it was, so an asset whose only fault was cleared right after it appeared counts as newly faulted
  in every later cycle without faults.\<close>
theorem newly_faulted_sticks:
  assumes "newly_faulted a" "get_num_active_faults (process_faults a) = 0"
  shows "newly_faulted (process_faults a) \<and> \<not> is_faulted (process_faults a)"
  using assms by (simp add: process_faults_def Let_def get_num_active_faults_def fold_keeps [of newly_faulted])

text \<open>An active power setpoint above the apparent power rating leaves the whole rated reactive power
  as potential, where the largest setpoint within the rating leaves none: the square root is not a number
  and the minimum with it is the rating.\<close>
theorem overloaded_asset_keeps_reactive_potential:
  assumes "\<not> reactive_power_priority a" "rated_apparent_power_kva a = S" "0 < S" "0 < rated_reactive_power_kvar a"
    and "value_float (fo_value (kW_setpoint a)) = P" "S \<le> P"
  shows "potential_reactive_power (process_potential_reactive_power a) = (if P = S then 0 else rated_reactive_power_kvar a)"
proof -
  have "P ^ 2 > S ^ 2" if "P \<noteq> S" using that assms(3,6) by (simp add: power_strict_mono)
  with assms show ?thesis by (auto simp: process_potential_reactive_power_def other_power_def min_nan_def)
qed

lemma processed_without_local_mode: "\<not> local_mode_configured a \<Longrightarrow> \<exists>a'. process_alerts_and_status now now_wd a = Some a'"
  by (simp add: process_alerts_and_status_def process_local_mode_status_def send_to_comp_uri_def json_object_send_def lower_alert_bits_def
      Let_def split_beta)

text \<open>C19. A requested clearing of the faults takes effect: after the first processing of the readings after its
  delay has run out the request is done, the asset is not marked as faulted, no fault of its actions and none of its
  registers is latched, and if it has an active fault after all it is that of its watchdog, which the same
  processing checks last and may latch at once because the component is not connected or its heartbeat is missing.\<close>
theorem clear_takes_effect:
  assumes "clear_fault_registers_flag a" "check_expired_time now (clear_faults_time a)"
    and "process_alerts_and_status now now_wd a = Some a'"
  shows "\<not> is_faulted a' \<and> \<not> clear_fault_registers_flag a' \<and> action_fault_bits a' = 0 \<and>
    (\<forall>(n, v) \<in> set (fault_latches a'). n \<noteq> ''watchdog_fault'' \<longrightarrow> v = 0) \<and>
    (get_num_active_faults a' \<noteq> 0 \<longrightarrow> watchdog_enable a' \<and> \<not> watchdog_status a')"
proof -
  let ?a = "snd (send_to_comp_uri (set_bool False (Value_Object 0)) (uri_clear_faults a) ((lower_alert_bits a)\<lparr>clear_fault_registers_flag := False\<rparr>))"
  obtain b where b: "process_local_mode_status ?a = Some b"
    and a': "Some a' = (case process_watchdog_status now_wd (process_status (process_alarm_registers
        (component_alarm_registers (process_faults b)) (process_faults b))) of (r, c) \<Rightarrow> Some (set_availability r c))"
    using assms by (auto simp: process_alerts_and_status_def Let_def split: bind_splits)
  define w where "w = process_watchdog_status now_wd (process_status (process_alarm_registers (component_alarm_registers (process_faults b)) (process_faults b)))"
  have w: "a' = set_availability (fst w) (snd w)" using a' by (simp add: w_def split_beta)
  note k = local_mode_keeps [OF b]
  have "\<forall>r \<in> set (component_fault_registers b). bits r = 0" "\<forall>x \<in> set (fault_latches b). snd x = 0" "action_fault_bits b = 0"
    using k by (auto simp: send_to_comp_uri_def json_object_send_def lower_alert_bits_def clear_fims_bit_field_def)
  then have q: "\<not> is_faulted (process_faults b)" "\<forall>x \<in> set (fault_latches (process_faults b)). snd x = 0"
      "action_fault_bits (process_faults b) = 0"
    by (simp_all add: process_faults_def Let_def quiet_registers get_num_active_faults_def filter_empty_conv)
  have "\<not> clear_fault_registers_flag (process_faults b)"
    using k by (simp add: process_faults_def Let_def send_to_comp_uri_def json_object_send_def fold_keeps [of clear_fault_registers_flag])
  moreover have l: "action_fault_bits a' = 0 \<and> (fault_latches a' = fault_latches (process_faults b) \<or>
      fault_latches a' = put_assoc ''watchdog_fault'' 1 (fault_latches (process_faults b)) \<and> watchdog_enable a' \<and> \<not> watchdog_status a')"
    using watchdog_latch [of now_wd "process_status (process_alarm_registers (component_alarm_registers (process_faults b)) (process_faults b))"]
      q(3) by (simp add: w set_availability_def Let_def flip: w_def)
  moreover have "\<forall>(n, v) \<in> set (fault_latches a'). n \<noteq> ''watchdog_fault'' \<longrightarrow> v = 0"
  proof -
    have "v = 0" if "(n, v) \<in> set (put_assoc ''watchdog_fault'' 1 xs)" "\<forall>x \<in> set xs. snd x = 0" "n \<noteq> ''watchdog_fault''"
      for n v and xs :: "(string \<times> 64 word) list"
      using that by (auto simp: put_assoc_def split: if_splits)
    with l q(2) show ?thesis by fastforce
  qed
  moreover have "watchdog_enable a' \<and> \<not> watchdog_status a'" if "get_num_active_faults a' \<noteq> 0"
  proof -
    have "filter (\<lambda>nv. 0 < snd nv) (fault_latches (process_faults b)) = []" using q(2) by (simp add: filter_empty_conv)
    with that l show ?thesis by (auto simp: get_num_active_faults_def)
  qed
  ultimately show ?thesis using q(1) by (simp add: w set_availability_def Let_def) (simp add: w_def)
qed

section \<open>A concrete asset\<close>

theorem lockdown_holds_maintenance_witness:
  "in_maintenance (fold control_step [(Some False, None), (None, Some True)] ((demo_gen ''g'')\<lparr>inLockdown := True, in_maintenance := True\<rparr>))"
proof -
  let ?a = "(demo_gen ''g'')\<lparr>inLockdown := True, in_maintenance := True\<rparr>"
  have "lock_ok ?a" by (simp add: lock_ok_def)
  from lockdown_holds_maintenance [OF this, of "[(Some False, None), (None, Some True)]"] show ?thesis by (simp add: keeps_lock_def)
qed

lemma demo_gen_processed: "\<exists>a'. process_alerts_and_status (mk_ts 1 0) (mk_ts 1 0) (demo_gen ''g'') = Some a'"
  by (simp add: process_alerts_and_status_def process_local_mode_status_def demo_gen_def Let_def split_beta)

theorem availability_after_processing_witness:
  "\<exists>a'. process_alerts_and_status (mk_ts 1 0) (mk_ts 1 0) (demo_gen ''g'') = Some a' \<and> (is_controllable a' \<longrightarrow> get_num_active_faults a' = 0)"
proof -
  obtain a' where a': "process_alerts_and_status (mk_ts 1 0) (mk_ts 1 0) (demo_gen ''g'') = Some a'" using demo_gen_processed by blast
  with availability_after_processing [OF a'] show ?thesis by blast
qed

definition fault_register :: "64 word \<Rightarrow> fims_object" where
  "fault_register w = blank_fims\<lparr>variable_id := ''faults'', fo_value := (Value_Object 0)\<lparr>value_bit_field := w\<rparr>\<rparr>"

theorem newly_faulted_sticks_witness: "newly_faulted (process_faults ((demo_gen ''g'')\<lparr>newly_faulted := True\<rparr>))"
  using newly_faulted_sticks [of "(demo_gen ''g'')\<lparr>newly_faulted := True\<rparr>"]
  by (simp add: process_faults_def get_num_active_faults_def demo_gen_def Let_def)

theorem overloaded_asset_keeps_reactive_potential_witness:
  "potential_reactive_power (process_potential_reactive_power ((demo_gen ''g'')
     \<lparr>kW_setpoint := blank_fims\<lparr>fo_value := (Value_Object 0)\<lparr>value_float := 130\<rparr>\<rparr>\<rparr>)) = 50"
  using overloaded_asset_keeps_reactive_potential [of "(demo_gen ''g'')
     \<lparr>kW_setpoint := blank_fims\<lparr>fo_value := (Value_Object 0)\<lparr>value_float := 130\<rparr>\<rparr>\<rparr>" 120 130]
  by (simp add: demo_gen_def)

theorem clear_takes_effect_witness:
  "\<exists>a'. process_alerts_and_status (mk_ts 5 0) (mk_ts 5 0)
      ((demo_gen ''g'')\<lparr>clear_fault_registers_flag := True, fault_latches := [(''faults'', 1)]\<rparr>) = Some a' \<and> \<not> is_faulted a'"
proof -
  let ?a = "(demo_gen ''g'')\<lparr>clear_fault_registers_flag := True, fault_latches := [(''faults'', 1)]\<rparr>"
  obtain a' where a': "process_alerts_and_status (mk_ts 5 0) (mk_ts 5 0) ?a = Some a'"
    using processed_without_local_mode [of ?a] by (auto simp: demo_gen_def)
  moreover have "check_expired_time (mk_ts 5 0) (clear_faults_time ?a)" by (simp add: demo_gen_def check_expired_time_def)
  ultimately show ?thesis using clear_takes_effect [OF _ _ a'] by simp
qed

end
