(* ===== verification/Storage.thy ===== *)
theory Storage
  imports Generators
begin

text \<open>
  One energy storage system (\<^verbatim>\<open>Asset_ESS.cpp\<close>): the scaling of its state of charge, the power it can
  charge and discharge with, its setpoints and the commands it sends.  Members that only the
  configuration writes, the maintenance settings and the calibration settings are records of their
  own.  A value of \<^verbatim>\<open>sqrtf\<close> that is not a number is \<open>None\<close>.
\<close>

section \<open>State\<close>

datatype setpoint_states = ACCEPTED | LIMITED | ZERO

datatype powerMode = REACTIVEPWR | PWRFCTR | UNKNOWN

record ess_config =
  start_command_value :: int
  stop_command_value :: int
  enter_standby_value :: int
  exit_standby_value :: int
  ess_grid_forming_value :: int
  ess_grid_following_value :: int
  bms_control_close :: int
  bms_control_open :: int
  reactive_power_mode_value :: int
  power_factor_mode_value :: int
  rated_chargeable_power :: flt
  rated_dischargeable_power :: flt
  chgSocBegin :: flt
  chgSocEnd :: flt
  dischgSocBegin :: flt
  dischgSocEnd :: flt
  maxRawSoc :: flt
  minRawSoc :: flt
  rated_capacity :: flt
  chargeable_min_limit_kW :: flt
  dischargeable_min_limit_kW :: flt
  energy_configured :: bool
  uri_ess_start :: string
  uri_ess_stop :: string
  uri_enter_standby :: string
  uri_exit_standby :: string
  uri_set_autobalancing :: string
  uri_open_dc_contacts :: string
  uri_close_dc_contacts :: string
  standby_status_mask :: "64 word"

record ess_maint =
  maint_soc_protection_buffers_disable_flag :: bool
  maint_soc_limits_enable_flag :: bool
  maint_cell_voltage_limits_enable_flag :: bool
  maint_rack_voltage_limits_enable_flag :: bool
  maint_min_charge_discharge_enable_flag :: bool
  maint_kW :: flt
  maint_kVAR :: flt
  maint_chargeable_min_limit :: flt
  maint_dischargeable_min_limit :: flt
  maint_min_soc_limit :: flt
  maint_max_soc_limit :: flt
  maint_min_cell_voltage_limit :: flt
  maint_max_cell_voltage_limit :: flt
  maint_min_rack_voltage_limit :: flt
  maint_max_rack_voltage_limit :: flt

record ess_calibration_vars =
  calibration_flag :: bool
  soc_limits_flag :: bool
  cell_voltage_limits_flag :: bool
  rack_voltage_limits_flag :: bool
  chargeable_soc_limit :: flt
  dischargeable_soc_limit :: flt
  chargeable_cell_voltage_limit :: flt
  dischargeable_cell_voltage_limit :: flt
  chargeable_rack_voltage_limit :: flt
  dischargeable_rack_voltage_limit :: flt
  raw_calibration_setpoint :: flt

record ess = asset +
  cfg :: ess_config
  mt :: ess_maint
  cb :: ess_calibration_vars
  soc_protection_buffers_disable_flag :: bool
  setpoint_status :: setpoint_states
  soc :: flt
  soc_raw :: flt
  soh :: flt
  chargeable_power :: flt
  chargeable_power_raw :: flt
  dischargeable_power :: flt
  dischargeable_power_raw :: flt
  chargeable_energy :: flt
  chargeable_energy_raw :: flt
  dischargeable_energy :: flt
  dischargeable_energy_raw :: flt
  max_cell_voltage :: flt
  min_cell_voltage :: flt
  max_rack_voltage :: flt
  min_rack_voltage :: flt
  ess_grid_mode :: fims_object
  ess_grid_allow_set :: bool
  power_mode_setpoint :: fims_object
  power_factor_setpoint :: fims_object
  voltage_slew_setpoint :: fims_object
  voltage_setpoint :: fims_object
  frequency_setpoint :: fims_object
  pcs_a_nominal_voltage_setpoint :: fims_object
  pcs_b_nominal_voltage_setpoint :: fims_object

section \<open>Commands\<close>

definition send_int :: "int \<Rightarrow> string \<Rightarrow> ess \<Rightarrow> bool \<times> ess" where
  "send_int v uri e = send_to_comp_uri (set_int v (Value_Object 0)) uri e"

definition ess_start :: "timespec \<Rightarrow> ess \<Rightarrow> bool \<times> ess" where
  "ess_start now e =
     (if isRunning e then (False, e)
      else let (go, w) = command_trigger now (start_command_throttle e); e = e\<lparr>start_command_throttle := w\<rparr>
           in if go then send_int (start_command_value (cfg e)) (uri_ess_start (cfg e)) e else (False, e))"

definition ess_stop :: "timespec \<Rightarrow> ess \<Rightarrow> bool \<times> ess" where
  "ess_stop now e =
     (if \<not> isRunning e then (False, e)
      else let (go, w) = command_trigger now (stop_command_throttle e); e = e\<lparr>stop_command_throttle := w\<rparr>
           in if go then send_int (stop_command_value (cfg e)) (uri_ess_stop (cfg e)) e else (False, e))"

definition ess_enter_standby :: "ess \<Rightarrow> bool \<times> ess" where
  "ess_enter_standby e =
     (if \<not> inStandby e \<and> value_float (fo_value (kW_setpoint e)) = 0 \<and> value_float (fo_value (kVAR_setpoint e)) = 0
      then send_int (enter_standby_value (cfg e)) (uri_enter_standby (cfg e)) e else (False, e))"

definition ess_exit_standby :: "ess \<Rightarrow> bool \<times> ess" where
  "ess_exit_standby e = (if inStandby e then send_int (exit_standby_value (cfg e)) (uri_exit_standby (cfg e)) e else (False, e))"

definition set_autobalancing :: "bool \<Rightarrow> ess \<Rightarrow> bool \<times> ess" where
  "set_autobalancing status e =
     (if in_maintenance e then send_to_comp_uri (set_bool status (Value_Object 0)) (uri_set_autobalancing (cfg e)) e else (False, e))"

definition close_bms_contactors :: "ess \<Rightarrow> bool \<times> ess" where
  "close_bms_contactors e = send_int (bms_control_close (cfg e)) (uri_close_dc_contacts (cfg e)) e"

definition open_bms_contactors :: "ess \<Rightarrow> bool \<times> ess" where
  "open_bms_contactors e = send_int (bms_control_open (cfg e)) (uri_open_dc_contacts (cfg e)) e"

section \<open>Setpoints\<close>

definition ess_set_active_power_setpoint :: "flt \<Rightarrow> bool \<Rightarrow> ess \<Rightarrow> ess" where
  "ess_set_active_power_setpoint setpoint use_strict_limits e =
     e\<lparr>kW_setpoint := set_control
         (if use_strict_limits then range_check setpoint (max_limited_active_power e) (min_limited_active_power e)
          else range_check setpoint (dischargeable_power e) (-1 * chargeable_power e)) (kW_setpoint e)\<rparr>"

definition ess_set_reactive_power_setpoint :: "flt \<Rightarrow> ess \<Rightarrow> ess" where
  "ess_set_reactive_power_setpoint setpoint e =
     e\<lparr>kVAR_setpoint := set_control (range_check setpoint (potential_reactive_power e) (- potential_reactive_power e)) (kVAR_setpoint e)\<rparr>"

definition clamp_power_factor :: "flt \<Rightarrow> flt" where
  "clamp_power_factor x = (if x > 1 then 1 else if x < -1 then -1 else x)"

definition ess_set_power_factor_setpoint :: "flt \<Rightarrow> ess \<Rightarrow> ess" where
  "ess_set_power_factor_setpoint x e = e\<lparr>power_factor_setpoint := set_control (clamp_power_factor x) (power_factor_setpoint e)\<rparr>"

definition set_control_int :: "int \<Rightarrow> fims_object \<Rightarrow> fims_object" where
  "set_control_int i f = f\<lparr>component_control_value := (component_control_value f)\<lparr>value_int := i\<rparr>\<rparr>"

definition ess_set_power_mode :: "powerMode \<Rightarrow> ess \<Rightarrow> ess" where
  "ess_set_power_mode m e = (case m of
       REACTIVEPWR \<Rightarrow> e\<lparr>power_mode_setpoint := set_control_int (reactive_power_mode_value (cfg e)) (power_mode_setpoint e)\<rparr>
     | PWRFCTR \<Rightarrow> e\<lparr>power_mode_setpoint := set_control_int (power_factor_mode_value (cfg e)) (power_mode_setpoint e)\<rparr>
     | UNKNOWN \<Rightarrow> e)"

definition ess_set_grid_mode :: "gridMode \<Rightarrow> ess \<Rightarrow> ess" where
  "ess_set_grid_mode m e = (case m of
       FOLLOWING \<Rightarrow> e\<lparr>ess_grid_allow_set := True, ess_grid_mode := set_control_int (ess_grid_following_value (cfg e)) (ess_grid_mode e)\<rparr>
     | FORMING \<Rightarrow> e\<lparr>ess_grid_allow_set := True, ess_grid_mode := set_control_int (ess_grid_forming_value (cfg e)) (ess_grid_mode e)\<rparr>
     | UNDEFINED \<Rightarrow> e)"

definition ess_get_grid_mode :: "ess \<Rightarrow> gridMode" where
  "ess_get_grid_mode e =
     (if value_int (fo_value (ess_grid_mode e)) = ess_grid_following_value (cfg e) then FOLLOWING
      else if value_int (fo_value (ess_grid_mode e)) = ess_grid_forming_value (cfg e) then FORMING else UNDEFINED)"

definition ess_set_voltage_setpoint :: "flt \<Rightarrow> ess \<Rightarrow> ess" where
  "ess_set_voltage_setpoint x e = e\<lparr>voltage_setpoint := set_control x (voltage_setpoint e)\<rparr>"

definition ess_set_frequency_setpoint :: "flt \<Rightarrow> ess \<Rightarrow> ess" where
  "ess_set_frequency_setpoint x e = e\<lparr>frequency_setpoint := set_control x (frequency_setpoint e)\<rparr>"

definition ess_set_voltage_slew_setpoint :: "flt \<Rightarrow> ess \<Rightarrow> ess" where
  "ess_set_voltage_slew_setpoint x e = e\<lparr>voltage_slew_setpoint := set_control x (voltage_slew_setpoint e)\<rparr>"

definition set_pcs_nominal_voltage_setting :: "flt \<Rightarrow> ess \<Rightarrow> ess" where
  "set_pcs_nominal_voltage_setting x e =
     e\<lparr>pcs_a_nominal_voltage_setpoint := set_control x (pcs_a_nominal_voltage_setpoint e),
       pcs_b_nominal_voltage_setpoint := set_control x (pcs_b_nominal_voltage_setpoint e)\<rparr>"

definition set_calibration_vars :: "ess_calibration_vars \<Rightarrow> bool \<Rightarrow> ess \<Rightarrow> ess" where
  "set_calibration_vars s soc_protection_buffers_disable e =
     e\<lparr>cb := s, soc_protection_buffers_disable_flag :=
         (if in_maintenance e then maint_soc_protection_buffers_disable_flag (mt e) else soc_protection_buffers_disable)\<rparr>"

section \<open>State of charge and power\<close>

definition process_soc :: "flt \<Rightarrow> ess_config \<Rightarrow> flt option" where
  "process_soc rawSoc c = do {
     t \<leftarrow> fdiv (rawSoc - minRawSoc c) (maxRawSoc c - minRawSoc c);
     let scaled = t * 100;
     Some (if scaled > 100 then 100 else if scaled < 0 then 0 else scaled) }"

definition update_soc :: "ess \<Rightarrow> ess option" where
  "update_soc e =
     (if soc_protection_buffers_disable_flag e then Some (e\<lparr>soc := soc_raw e\<rparr>)
      else do { v \<leftarrow> process_soc (soc_raw e) (cfg e); Some (e\<lparr>soc := v\<rparr>) })"

definition derated_chargeable_power :: "ess \<Rightarrow> flt" where
  "derated_chargeable_power e =
     (if \<not> soc_protection_buffers_disable_flag e \<and> greater_than_or_near (soc e) (chgSocBegin (cfg e)) (1 / 1000) then
        let max_limit = (if in_maintenance e \<and> maint_min_charge_discharge_enable_flag (mt e) then maint_chargeable_min_limit (mt e)
                         else chargeable_min_limit_kW (cfg e));
            p = (if greater_than_or_near (soc e) 100 (1 / 1000) \<or> greater_than_or_near (soc e) (chgSocEnd (cfg e)) (1 / 1000)
                    \<or> chgSocBegin (cfg e) \<ge> chgSocEnd (cfg e) then max_limit
                 else max ((chgSocEnd (cfg e) - soc e) / (chgSocEnd (cfg e) - chgSocBegin (cfg e)) * rated_chargeable_power (cfg e)) max_limit)
        in min p \<bar>chargeable_power_raw e\<bar>
      else \<bar>chargeable_power_raw e\<bar>)"

definition derated_dischargeable_power :: "ess \<Rightarrow> flt" where
  "derated_dischargeable_power e =
     (if \<not> soc_protection_buffers_disable_flag e \<and> less_than_or_near (soc e) (dischgSocBegin (cfg e)) (1 / 1000) then
        let min_limit = (if in_maintenance e \<and> maint_min_charge_discharge_enable_flag (mt e) then maint_dischargeable_min_limit (mt e)
                         else dischargeable_min_limit_kW (cfg e));
            p = (if less_than_or_near (soc e) 0 (1 / 1000) \<or> less_than_or_near (soc e) (dischgSocEnd (cfg e)) 0
                    \<or> dischgSocBegin (cfg e) \<le> dischgSocEnd (cfg e) then min_limit
                 else max ((dischgSocEnd (cfg e) - soc e) / (dischgSocEnd (cfg e) - dischgSocBegin (cfg e)) * rated_dischargeable_power (cfg e)) min_limit)
        in min p \<bar>dischargeable_power_raw e\<bar>
      else \<bar>dischargeable_power_raw e\<bar>)"

definition derate_power :: "ess \<Rightarrow> ess" where
  "derate_power e =
     (let c = derated_chargeable_power e; d = derated_dischargeable_power e
      in e\<lparr>chargeable_power := (if c > rated_chargeable_power (cfg e) then rated_chargeable_power (cfg e) else c),
           dischargeable_power := (if d > rated_dischargeable_power (cfg e) then rated_dischargeable_power (cfg e) else d)\<rparr>)"

definition calibration_limits :: "ess \<Rightarrow> ess" where
  "calibration_limits e =
     (if \<not> calibration_flag (cb e) then e
      else
        let e = (if soc_limits_flag (cb e) \<and> soc e \<ge> chargeable_soc_limit (cb e)
                    \<or> cell_voltage_limits_flag (cb e) \<and> max_cell_voltage e \<ge> chargeable_cell_voltage_limit (cb e)
                    \<or> rack_voltage_limits_flag (cb e) \<and> max_rack_voltage e \<ge> chargeable_rack_voltage_limit (cb e)
                 then e\<lparr>chargeable_power := 0\<rparr> else e);
            e = (if soc_limits_flag (cb e) \<and> soc e \<le> dischargeable_soc_limit (cb e)
                    \<or> cell_voltage_limits_flag (cb e) \<and> min_cell_voltage e \<le> dischargeable_cell_voltage_limit (cb e)
                    \<or> rack_voltage_limits_flag (cb e) \<and> min_rack_voltage e \<le> dischargeable_rack_voltage_limit (cb e)
                 then e\<lparr>dischargeable_power := 0\<rparr> else e);
            sp = raw_calibration_setpoint (cb e)
        in e\<lparr>setpoint_status :=
               (if sp < 0 \<and> near (chargeable_power e) 0 (1 / 1000) \<or> sp > 0 \<and> near (dischargeable_power e) 0 (1 / 1000) then ZERO
                else if sp < -1 * chargeable_power e \<or> sp > dischargeable_power e then LIMITED else ACCEPTED)\<rparr>)"

definition maintenance_limits :: "ess \<Rightarrow> ess" where
  "maintenance_limits e =
     (if \<not> in_maintenance e then e
      else
        let e = (if maint_soc_limits_enable_flag (mt e) \<and> soc e \<ge> maint_max_soc_limit (mt e)
                    \<or> maint_cell_voltage_limits_enable_flag (mt e) \<and> max_cell_voltage e \<ge> maint_max_cell_voltage_limit (mt e)
                    \<or> maint_rack_voltage_limits_enable_flag (mt e) \<and> max_rack_voltage e \<ge> maint_max_rack_voltage_limit (mt e)
                 then e\<lparr>chargeable_power := 0\<rparr> else e)
        in (if maint_soc_limits_enable_flag (mt e) \<and> soc e \<le> maint_min_soc_limit (mt e)
                    \<or> maint_cell_voltage_limits_enable_flag (mt e) \<and> min_cell_voltage e \<le> maint_min_cell_voltage_limit (mt e)
                    \<or> maint_rack_voltage_limits_enable_flag (mt e) \<and> min_rack_voltage e \<le> maint_min_rack_voltage_limit (mt e)
                 then e\<lparr>dischargeable_power := 0\<rparr> else e))"

text \<open>The raw state of charge that counts as full and as empty.\<close>

definition soc_window :: "ess \<Rightarrow> flt \<times> flt" where
  "soc_window e = (if soc_protection_buffers_disable_flag e then (0, 100) else (minRawSoc (cfg e), maxRawSoc (cfg e)))"

definition update_energy :: "ess \<Rightarrow> ess" where
  "update_energy e = (case soc_window e of (lo, hi) \<Rightarrow>
     let cap = rated_capacity (cfg e)
     in if \<not> energy_configured (cfg e) then
          e\<lparr>chargeable_energy := cap * (soh e / 100) * (1 - soc e / 100) * (hi / 100 - lo / 100),
            dischargeable_energy := cap * (soh e / 100) * (soc e / 100) * (hi / 100 - lo / 100)\<rparr>
        else
          e\<lparr>chargeable_energy :=
              (if chargeable_energy_raw e < (100 - hi) / 100 * cap then 0
               else if chargeable_energy_raw e > (100 - lo) / 100 * cap then (hi - lo) / 100 * cap
               else chargeable_energy_raw e - cap * (100 - hi) / 100),
            dischargeable_energy :=
              (if dischargeable_energy_raw e < lo / 100 * cap then 0
               else if dischargeable_energy_raw e > hi / 100 * cap then (hi - lo) / 100 * cap
               else dischargeable_energy_raw e - cap * lo / 100)\<rparr>)"

definition max_nan :: "flt \<Rightarrow> flt option \<Rightarrow> flt" where
  "max_nan x y = (case y of None \<Rightarrow> x | Some v \<Rightarrow> if x < v then v else x)"

definition ess_potential_active_power :: "timespec \<Rightarrow> ess \<Rightarrow> ess" where
  "ess_potential_active_power now e =
     (let sl = update_slew_target now (value_float (component_control_value (kW_setpoint e))) (active_power_slew e);
          mx = (if slew_max_value sl > dischargeable_power e then dischargeable_power e else slew_max_value sl);
          mn = (if slew_min_value sl < - \<bar>chargeable_power e\<bar> then - \<bar>chargeable_power e\<bar> else slew_min_value sl);
          e = e\<lparr>active_power_slew := sl, active_power_limit := Some (rated_active_power_kw e)\<rparr>;
          (e, mn, mx) =
            (if reactive_power_priority e then
               let l = other_power (rated_apparent_power_kva e) (value_float (fo_value (kVAR_setpoint e)))
               in (e\<lparr>active_power_limit := l\<rparr>, max_nan mn (map_option uminus l), min_nan mx l)
             else (e, mn, mx))
      in e\<lparr>min_potential_active_power := mn, max_potential_active_power := mx,
           min_limited_active_power := mn, max_limited_active_power := mx\<rparr>)"

text \<open>\<^verbatim>\<open>std::min\<close> with the limit as first argument is not a number when the limit is not.\<close>

definition ess_get_min_limited_active_power :: "ess \<Rightarrow> flt option" where
  "ess_get_min_limited_active_power e = map_option (\<lambda>l. - min l \<bar>chargeable_power e\<bar>) (active_power_limit e)"

definition ess_get_max_limited_active_power :: "ess \<Rightarrow> flt option" where
  "ess_get_max_limited_active_power e = map_option (\<lambda>l. min l (dischargeable_power e)) (active_power_limit e)"

section \<open>A cycle\<close>

text \<open>
  \<open>act\<close> is what the current automated action does to the asset in this cycle (the theory \<open>Actions\<close>);
  it is the identity for an asset without actions.
\<close>

definition ess_process_asset :: "(ess \<Rightarrow> ess) \<Rightarrow> timespec \<Rightarrow> timespec \<Rightarrow> timespec \<Rightarrow> ess \<Rightarrow> ess option" where
  "ess_process_asset act now now_wd now_slew e = do {
     e \<leftarrow> process_alerts_and_status now now_wd (e\<lparr>raw_status := bits (status_register e)\<rparr>);
     let e = act (process_potential_reactive_power (ess_potential_active_power now_slew e));
     e \<leftarrow> update_soc e;
     let e = update_energy (maintenance_limits (calibration_limits (derate_power e)));
     Some (e\<lparr>inStandby := status_matches (standby_status_mask (cfg e)) (inStandby e) e\<rparr>) }"

definition ess_update_asset :: "ess \<Rightarrow> ess" where
  "ess_update_asset e =
     (if in_maintenance e then
        let e = ess_set_power_mode REACTIVEPWR e;
            e = ess_set_active_power_setpoint
                  (if maint_slew_configured e then min (max (maint_kW (mt e)) (min_limited_active_power e)) (max_limited_active_power e)
                   else maint_kW (mt e)) True e
        in ess_set_reactive_power_setpoint (maint_kVAR (mt e)) e
      else e)"

text \<open>A setpoint is written when its control value differs from its status at the given number of decimals.\<close>

definition send_rounded :: "flt \<Rightarrow> bool \<Rightarrow> fims_object \<Rightarrow> (string \<times> value_object) list" where
  "send_rounded scale primary f =
     (if c_trunc (value_float (component_control_value f) * scale) \<noteq> c_trunc (value_float (fo_value f) * scale)
      then opt_msg (snd (send_to_component primary False f)) else [])"

definition send_changed :: "bool \<Rightarrow> fims_object \<Rightarrow> (string \<times> value_object) list" where
  "send_changed primary f =
     (if value_float (component_control_value f) \<noteq> value_float (fo_value f) then opt_msg (snd (send_to_component primary False f)) else [])"

definition send_mode :: "bool \<Rightarrow> bool \<Rightarrow> fims_object \<Rightarrow> (string \<times> value_object) list" where
  "send_mode allow primary f =
     (if value_int (component_control_value f) \<noteq> value_int (fo_value f) \<and> allow then opt_msg (snd (send_to_component primary False f)) else [])"

definition ess_send_to_components :: "timespec \<Rightarrow> timespec \<Rightarrow> timespec \<Rightarrow> ess \<Rightarrow> ess" where
  "ess_send_to_components now1 now2 now3 e =
     (if local_mode_status e then e
      else
        let e = (if get_num_active_faults e \<noteq> 0 \<and> isRunning e then snd (ess_stop now1 e) else e);
            p = as_primary e;
            (_, m1, w1) = send_setpoint_if_due now2 (kW_throttle e) (kW_setpoint e) p;
            (_, m2, w2) = send_setpoint_if_due now3 (kVAR_throttle e) (kVAR_setpoint e) p
        in e\<lparr>kW_throttle := w1, kVAR_throttle := w2,
             as_msgs := as_msgs e @ send_mode (ess_grid_allow_set e) p (ess_grid_mode e) @ send_mode True p (power_mode_setpoint e) @
               opt_msg m1 @ opt_msg m2 @ send_rounded 1000 p (power_factor_setpoint e) @ send_rounded 1000 p (voltage_slew_setpoint e) @
               send_rounded 1 p (voltage_setpoint e) @ send_rounded 100 p (frequency_setpoint e) @
               send_changed p (pcs_a_nominal_voltage_setpoint e) @ send_changed p (pcs_b_nominal_voltage_setpoint e)\<rparr>)"

section \<open>SETs\<close>

text \<open>
  The answer, whether the setpoint is passed on to the database, and the asset.  A maintenance flag
  that arrives outside of maintenance is accepted and ignored.
\<close>

definition set_maint_flag :: "(ess_maint \<Rightarrow> ess_maint) \<Rightarrow> ess \<Rightarrow> bool \<times> bool \<times> ess" where
  "set_maint_flag f e = (True, in_maintenance e, if in_maintenance e then e\<lparr>mt := f (mt e)\<rparr> else e)"

definition ess_flag_control :: "string \<Rightarrow> (bool \<Rightarrow> ess \<Rightarrow> bool \<times> bool \<times> ess) option" where
  "ess_flag_control = map_of
     [(''soc_protection_buffers_disable'', \<lambda>b e. (True, True, e\<lparr>soc_protection_buffers_disable_flag := b\<rparr>)),
      (''maint_soc_protection_buffers_disable'', \<lambda>b. set_maint_flag (\<lambda>m. m\<lparr>maint_soc_protection_buffers_disable_flag := b\<rparr>)),
      (''maint_soc_limits_enable'', \<lambda>b. set_maint_flag (\<lambda>m. m\<lparr>maint_soc_limits_enable_flag := b\<rparr>)),
      (''maint_cell_voltage_limits_enable'', \<lambda>b. set_maint_flag (\<lambda>m. m\<lparr>maint_cell_voltage_limits_enable_flag := b\<rparr>)),
      (''maint_rack_voltage_limits_enable'', \<lambda>b. set_maint_flag (\<lambda>m. m\<lparr>maint_rack_voltage_limits_enable_flag := b\<rparr>)),
      (''maint_min_charge_discharge_enable'', \<lambda>b. set_maint_flag (\<lambda>m. m\<lparr>maint_min_charge_discharge_enable_flag := b\<rparr>))]"

definition ess_number_control :: "string \<Rightarrow> (flt \<Rightarrow> ess \<Rightarrow> ess) option" where
  "ess_number_control = map_of
     [(''maint_active_power_setpoint'', \<lambda>d e. e\<lparr>mt := (mt e)\<lparr>maint_kW := d\<rparr>\<rparr>),
      (''maint_reactive_power_setpoint'', \<lambda>d e. e\<lparr>mt := (mt e)\<lparr>maint_kVAR := d\<rparr>\<rparr>),
      (''maint_chargeable_min_limit'', \<lambda>d e. e\<lparr>mt := (mt e)\<lparr>maint_chargeable_min_limit := d\<rparr>\<rparr>),
      (''maint_dischargeable_min_limit'', \<lambda>d e. e\<lparr>mt := (mt e)\<lparr>maint_dischargeable_min_limit := d\<rparr>\<rparr>),
      (''maint_min_soc_limit'', \<lambda>d e. e\<lparr>mt := (mt e)\<lparr>maint_min_soc_limit := d\<rparr>\<rparr>),
      (''maint_max_soc_limit'', \<lambda>d e. e\<lparr>mt := (mt e)\<lparr>maint_max_soc_limit := d\<rparr>\<rparr>),
      (''maint_min_cell_voltage_limit'', \<lambda>d e. e\<lparr>mt := (mt e)\<lparr>maint_min_cell_voltage_limit := d\<rparr>\<rparr>),
      (''maint_max_cell_voltage_limit'', \<lambda>d e. e\<lparr>mt := (mt e)\<lparr>maint_max_cell_voltage_limit := d\<rparr>\<rparr>),
      (''maint_min_rack_voltage_limit'', \<lambda>d e. e\<lparr>mt := (mt e)\<lparr>maint_min_rack_voltage_limit := d\<rparr>\<rparr>),
      (''maint_max_rack_voltage_limit'', \<lambda>d e. e\<lparr>mt := (mt e)\<lparr>maint_max_rack_voltage_limit := d\<rparr>\<rparr>),
      (''maint_active_power_slew_rate'', \<lambda>d e. e\<lparr>maint_slew_rate := d,
         active_power_slew := (if in_maintenance e then set_slew_rate (c_trunc d) (active_power_slew e) else active_power_slew e)\<rparr>)]"

text \<open>The commands, with whether the asset has to be in maintenance for them.\<close>

definition ess_command_control :: "timespec \<Rightarrow> string \<Rightarrow> (bool \<times> (ess \<Rightarrow> ess)) option" where
  "ess_command_control now = map_of
     [(''clear_faults'', False, clear_alerts now), (''stop'', True, snd \<circ> ess_stop now), (''start'', True, snd \<circ> ess_start now),
      (''enter_standby'', True, snd \<circ> ess_enter_standby), (''exit_standby'', True, snd \<circ> ess_exit_standby),
      (''autobalancing_enable'', True, snd \<circ> set_autobalancing True), (''autobalancing_disable'', True, snd \<circ> set_autobalancing False),
      (''open_dc_contactors'', False, snd \<circ> open_bms_contactors), (''close_dc_contactors'', False, snd \<circ> close_bms_contactors)]"

definition ess_handle_set :: "timespec \<Rightarrow> string \<Rightarrow> cjson \<Rightarrow> ess \<Rightarrow> bool \<times> bool \<times> ess" where
  "ess_handle_set now n v e = (case ess_flag_control n of
       Some f \<Rightarrow> f (valueint v \<noteq> 0) e
     | None \<Rightarrow> (case v of
           JNumber d _ \<Rightarrow> (case ess_number_control n of Some f \<Rightarrow> (True, True, f d e) | None \<Rightarrow> generic_set n v e)
         | JTrue \<Rightarrow> (case ess_command_control now n of
               Some (maint, f) \<Rightarrow> if maint \<and> \<not> in_maintenance e then generic_set n v e else (True, False, f e)
             | None \<Rightarrow> generic_set n v e)
         | _ \<Rightarrow> generic_set n v e))"

end
