(* ===== verification/Storage_Group.thy ===== *)
theory Storage_Group
  imports Storage
begin

text \<open>
  The manager of the storage (\<^verbatim>\<open>ESS_Manager.cpp\<close>): its totals, the distribution of the target power over
  the storage by state of charge, the request that brings the charge to a target, and the commands
  to all storage.  A pointer to one ESS is its index in the list.
\<close>

section \<open>State and totals\<close>

datatype SOC_State = OnTarget | BelowTarget | FarBelowTarget | AboveTarget | FarAboveTarget

record ess_manager =
  pEss :: "ess list"
  ess_numAvail :: int
  ess_numRunning :: int
  numEssControllable :: int
  numEssStartable :: int
  numEssStandby :: int
  ess_num_in_local_mode :: int
  essTotalActivePowerkW :: flt
  essTotalReactivePowerkVAR :: flt
  essTotalApparentPowerkVA :: flt
  essTotalUncontrollableActivePowerkW :: flt
  essTotalMaxPotentialActivePower :: flt
  essTotalMinPotentialActivePower :: flt
  essTotalPotentialReactivePower :: flt
  essTotalRatedActivePower :: flt
  essTotalRatedReactivePower :: flt
  essTotalRatedApparentPower :: flt
  ess_total_kW_charge_limit :: "flt option"
  ess_total_kW_discharge_limit :: "flt option"
  essTotalNameplateActivePower :: flt
  essTotalNameplateReactivePower :: flt
  essTotalNameplateApparentPower :: flt
  essTargetActivePowerkW :: flt
  essTargetReactivePowerkVAR :: flt
  controllableEssMinSoc :: flt
  controllableEssAvgSoc :: flt
  controllableEssMaxSoc :: flt
  parsedEssMinSoc :: flt
  parsedEssAvgSoc :: flt
  parsedEssMaxSoc :: flt
  socBalancingFactor :: flt
  balancePowerDistribution :: bool
  entering_soc_range :: flt
  leaving_soc_range :: flt
  far_soc_range :: flt
  charge_control_divisor :: flt
  essTotalChargeableEnergykWh :: flt
  essTotalChargeablePowerkW :: flt
  essTotalDischargeableEnergykWh :: flt
  essTotalDischargeablePowerkW :: flt
  grid_forming_voltage_slew :: flt
  soc_status :: SOC_State

text \<open>A sum with a term that is not a number is not a number.\<close>

definition total_opt :: "('a \<Rightarrow> bool) \<Rightarrow> ('a \<Rightarrow> flt option) \<Rightarrow> 'a list \<Rightarrow> flt option" where
  "total_opt P f xs = map_option sum_list (those (map f (filter P xs)))"

definition average :: "('a \<Rightarrow> flt) \<Rightarrow> 'a list \<Rightarrow> flt" where
  "average f xs = (if xs = [] then 0 else sum_list (map f xs) / of_nat (length xs))"

definition aggregate_ess_data :: "ess_manager \<Rightarrow> ess_manager" where
  "aggregate_ess_data m =
     (let es = pEss m; cs = filter is_controllable es
      in m\<lparr>ess_numAvail := count_of isAvail es, ess_numRunning := count_of isRunning es, numEssControllable := count_of is_controllable es,
           numEssStartable := count_of (\<lambda>e. isAvail e \<and> \<not> isRunning e) es, numEssStandby := count_of (\<lambda>e. isAvail e \<and> inStandby e) es,
           ess_num_in_local_mode := count_of local_mode_status es,
           grid_forming_voltage_slew := (case es of [] \<Rightarrow> grid_forming_voltage_slew m | e # _ \<Rightarrow> value_float (fo_value (voltage_slew_setpoint e))),
           parsedEssMinSoc := fold (\<lambda>e a. if soc e < a then soc e else a) es 100, parsedEssMaxSoc := fold (\<lambda>e a. if soc e > a then soc e else a) es 0,
           parsedEssAvgSoc := average soc es,
           controllableEssMinSoc := fold (\<lambda>e a. if soc e < a then soc e else a) cs 100,
           controllableEssMaxSoc := fold (\<lambda>e a. if soc e > a then soc e else a) cs 0, controllableEssAvgSoc := average soc cs,
           essTotalNameplateActivePower := total_over (\<lambda>_. True) rated_active_power_kw es,
           essTotalNameplateReactivePower := total_over (\<lambda>_. True) rated_reactive_power_kvar es,
           essTotalNameplateApparentPower := total_over (\<lambda>_. True) rated_apparent_power_kva es,
           essTotalActivePowerkW := total_over is_controllable active_power es,
           essTotalReactivePowerkVAR := total_over is_controllable reactive_power es,
           essTotalApparentPowerkVA := total_over is_controllable apparent_power es,
           essTotalUncontrollableActivePowerkW := total_over (\<lambda>e. \<not> is_controllable e \<and> \<not> get_watchdog_fault e) active_power es,
           essTotalChargeablePowerkW := total_over is_controllable chargeable_power es,
           essTotalDischargeablePowerkW := total_over is_controllable dischargeable_power es,
           essTotalMaxPotentialActivePower := total_over is_controllable max_potential_active_power es,
           essTotalMinPotentialActivePower := total_over is_controllable min_potential_active_power es,
           essTotalPotentialReactivePower := total_over is_controllable potential_reactive_power es,
           essTotalRatedActivePower := total_over is_controllable rated_active_power_kw es,
           essTotalRatedReactivePower := total_over is_controllable rated_reactive_power_kvar es,
           essTotalRatedApparentPower := total_over is_controllable rated_apparent_power_kva es,
           essTotalChargeableEnergykWh := total_over is_controllable chargeable_energy es,
           essTotalDischargeableEnergykWh := total_over is_controllable dischargeable_energy es,
           ess_total_kW_charge_limit := total_opt is_controllable ess_get_min_limited_active_power es,
           ess_total_kW_discharge_limit := total_opt is_controllable ess_get_max_limited_active_power es\<rparr>)"

section \<open>Active power by state of charge\<close>

record soc_balancing_data =
  bd_ess :: nat
  contributionFactor :: flt
  powerLimit :: "flt option"

text \<open>\<^verbatim>\<open>powf\<close>; \<open>None\<close> where the result is not a finite number.\<close>

definition powf :: "flt \<Rightarrow> flt \<Rightarrow> flt option" where
  "powf x b =
     (if b = 0 then Some 1 else if x > 0 then Some (x powr b)
      else if x = 0 then (if b > 0 then Some 0 else None)
      else if of_int \<lfloor>b\<rfloor> = b then Some (power_int x \<lfloor>b\<rfloor>) else None)"

definition balancing_data :: "flt \<Rightarrow> flt \<Rightarrow> nat \<times> ess \<Rightarrow> soc_balancing_data option" where
  "balancing_data powerToAssign b ie = (case ie of (i, e) \<Rightarrow>
     let lim = (if powerToAssign \<ge> 0 then ess_get_max_limited_active_power e else map_option uminus (ess_get_min_limited_active_power e));
         margin = (if powerToAssign > 0 then soc e else 100 - soc e);
         margin = (if margin = 0 \<and> lim \<noteq> Some 0 then 1 else margin)
     in map_option (\<lambda>c. \<lparr>bd_ess = i, contributionFactor = c, powerLimit = lim\<rparr>) (powf margin b))"

definition over_limit :: "flt \<Rightarrow> soc_balancing_data \<Rightarrow> bool" where
  "over_limit setpoint d = (case powerLimit d of None \<Rightarrow> False | Some l \<Rightarrow> \<bar>setpoint\<bar> > l)"

definition assign_ess :: "nat \<Rightarrow> flt \<Rightarrow> ess list \<Rightarrow> ess list" where
  "assign_ess i setpoint es = map_nth i (ess_set_active_power_setpoint setpoint False) es"

text \<open>One round over the remaining storage: it ends early at a setpoint over the limit.\<close>

fun assign_round :: "bool \<Rightarrow> flt \<Rightarrow> flt \<Rightarrow> soc_balancing_data list \<Rightarrow> ess list \<Rightarrow> soc_balancing_data option \<times> ess list" where
  "assign_round bal k p [] es = (None, es)"
| "assign_round bal k p (d # ds) es =
     (if bal \<and> over_limit (k * contributionFactor d) d
      then (Some d, assign_ess (bd_ess d) (if p > 0 then the (powerLimit d) else -1 * the (powerLimit d)) es)
      else assign_round bal k p ds (assign_ess (bd_ess d) (k * contributionFactor d) es))"

definition power_gain :: "flt \<Rightarrow> soc_balancing_data list \<Rightarrow> flt" where
  "power_gain p ds = (let aggregateContribution = sum_list (map contributionFactor ds)
     in if aggregateContribution = 0 then 0 else p / aggregateContribution)"

lemma assign_round_member: "assign_round bal k p ds es = (Some d, es') \<Longrightarrow> d \<in> set ds"
  by (induction bal k p ds es rule: assign_round.induct) (auto split: if_splits)

function assign_loop :: "bool \<Rightarrow> flt \<Rightarrow> soc_balancing_data list \<Rightarrow> ess list \<Rightarrow> ess list" where
  "assign_loop bal p ds es = (case assign_round bal (power_gain p ds) p ds es of
       (None, es) \<Rightarrow> es
     | (Some d, es) \<Rightarrow> assign_loop bal (p - kW_control (es ! bd_ess d)) (remove1 d ds) es)"
  by pat_completeness auto
termination
proof (relation "measure (\<lambda>(bal, p, ds, es). length ds)", goal_cases)
  case (2 bal p ds es r es' d)
  then have "d \<in> set ds" using assign_round_member [of bal "power_gain p ds" p ds es d es'] by simp
  then show ?case using length_pos_if_in_set [of d ds] by (simp add: length_remove1)
qed simp

declare assign_loop.simps [simp del]

definition calculate_ess_active_power :: "ess_manager \<Rightarrow> ess_manager option" where
  "calculate_ess_active_power m = do {
     let p = essTargetActivePowerkW m;
     ds \<leftarrow> those (map (balancing_data p (socBalancingFactor m)) (filter (\<lambda>ie. is_controllable (snd ie)) (enumerate 0 (pEss m))));
     Some (m\<lparr>pEss := assign_loop (balancePowerDistribution m) p ds (pEss m)\<rparr>) }"

section \<open>Reactive power\<close>

text \<open>A new setpoint is only given when it differs from the one the component reports.\<close>

definition reactive_to :: "(ess \<Rightarrow> flt) \<Rightarrow> ess_manager \<Rightarrow> ess_manager" where
  "reactive_to f m = m\<lparr>pEss := map (\<lambda>e. if is_controllable e \<and> kVAR_value e \<noteq> f e then ess_set_reactive_power_setpoint (f e) e else e) (pEss m)\<rparr>"

definition zero_all_controllable_ess_reactive_power :: "ess_manager \<Rightarrow> ess_manager" where
  "zero_all_controllable_ess_reactive_power = reactive_to (\<lambda>_. 0)"

definition all_controllable_ess_max_reactive_power :: "ess_manager \<Rightarrow> ess_manager" where
  "all_controllable_ess_max_reactive_power = reactive_to rated_reactive_power_kvar"

definition all_controllable_ess_min_reactive_power :: "ess_manager \<Rightarrow> ess_manager" where
  "all_controllable_ess_min_reactive_power = reactive_to (\<lambda>e. -1 * rated_reactive_power_kvar e)"

definition reactive_share :: "ess_manager \<Rightarrow> ess \<Rightarrow> flt" where
  "reactive_share m e = (if potential_reactive_power e = 0 then 0
     else essTargetReactivePowerkVAR m / (essTotalPotentialReactivePower m / potential_reactive_power e))"

definition calculate_ess_reactive_power :: "ess_manager \<Rightarrow> ess_manager" where
  "calculate_ess_reactive_power m =
     (if essTargetReactivePowerkVAR m = 0 \<or> essTotalPotentialReactivePower m = 0 then zero_all_controllable_ess_reactive_power m
      else if \<bar>essTargetReactivePowerkVAR m\<bar> \<ge> essTotalRatedReactivePower m
      then (if essTargetReactivePowerkVAR m > 0 then all_controllable_ess_max_reactive_power m else all_controllable_ess_min_reactive_power m)
      else reactive_to (reactive_share m) m)"

section \<open>Charge control\<close>

definition next_soc_status :: "flt \<Rightarrow> ess_manager \<Rightarrow> SOC_State" where
  "next_soc_status target m =
     (let x = controllableEssAvgSoc m;
          leaving_below = target - leaving_soc_range m; leaving_above = target + leaving_soc_range m;
          returning_below = target - entering_soc_range m; returning_above = target + entering_soc_range m;
          far_below = target - far_soc_range m; far_above = target + far_soc_range m
      in case soc_status m of
           FarAboveTarget \<Rightarrow> if x < far_below then FarBelowTarget else if x < leaving_below then BelowTarget
             else if x < returning_above then OnTarget else if x < far_above then AboveTarget else FarAboveTarget
         | AboveTarget \<Rightarrow> if x > far_above then FarAboveTarget else if x < far_below then FarBelowTarget
             else if x < leaving_below then BelowTarget else if x < returning_above then OnTarget else AboveTarget
         | OnTarget \<Rightarrow> if x > far_above then FarAboveTarget else if x > leaving_above then AboveTarget
             else if x < far_below then FarBelowTarget else if x < leaving_below then BelowTarget else OnTarget
         | BelowTarget \<Rightarrow> if x > far_above then FarAboveTarget else if x > leaving_above then AboveTarget
             else if x > returning_below then OnTarget else if x < far_below then FarBelowTarget else BelowTarget
         | FarBelowTarget \<Rightarrow> if x > far_above then FarAboveTarget else if x > leaving_above then AboveTarget
             else if x > returning_below then OnTarget else if x > far_below then BelowTarget else FarBelowTarget)"

definition charge_control :: "flt \<Rightarrow> bool \<Rightarrow> bool \<Rightarrow> ess_manager \<Rightarrow> (flt \<times> ess_manager) option" where
  "charge_control target charge_disable discharge_disable m =
     (let m = m\<lparr>soc_status := next_soc_status target m\<rparr>;
          x = controllableEssAvgSoc m; dis = c_bool (\<not> discharge_disable); chg = c_bool (\<not> charge_disable);
          D = essTotalDischargeablePowerkW m; C = essTotalChargeablePowerkW m
      in do {
        r \<leftarrow> (case soc_status m of
            FarAboveTarget \<Rightarrow> Some (dis * D)
          | AboveTarget \<Rightarrow> do {
              q \<leftarrow> fdiv (x - (target - entering_soc_range m)) (charge_control_divisor m);
              let r = dis * D * q;
              Some (if r > D then D else r) }
          | OnTarget \<Rightarrow> Some 0
          | BelowTarget \<Rightarrow> do {
              q \<leftarrow> fdiv (target + entering_soc_range m - x) (charge_control_divisor m);
              let r = chg * (-1) * C * q;
              Some (if r < -1 * C then -1 * C else r) }
          | FarBelowTarget \<Rightarrow> Some (chg * (-1) * C));
        Some (r, m) })"

section \<open>Commands to all storage and the cycle\<close>

definition each_ess :: "(nat \<Rightarrow> ess \<Rightarrow> bool) \<Rightarrow> (nat \<Rightarrow> ess \<Rightarrow> ess) \<Rightarrow> ess_manager \<Rightarrow> ess_manager" where
  "each_ess P f m = m\<lparr>pEss := map (\<lambda>(i, e). if P i e then f i e else e) (enumerate 0 (pEss m))\<rparr>"

definition set_all_ess_grid :: "gridMode \<Rightarrow> ess_manager \<Rightarrow> ess_manager" where
  "set_all_ess_grid md = each_ess (\<lambda>_ _. True) (\<lambda>_. ess_set_grid_mode md)"

definition enter_standby_all_ess :: "ess_manager \<Rightarrow> ess_manager" where
  "enter_standby_all_ess = each_ess (\<lambda>_. is_controllable) (\<lambda>_ e. snd (ess_enter_standby e))"

definition exit_standby_all_ess :: "ess_manager \<Rightarrow> ess_manager" where
  "exit_standby_all_ess = each_ess (\<lambda>_ e. inStandby e \<and> isAvail e) (\<lambda>_ e. snd (ess_exit_standby e))"

definition start_all_ess :: "(nat \<Rightarrow> timespec) \<Rightarrow> ess_manager \<Rightarrow> ess_manager" where
  "start_all_ess ck = each_ess (\<lambda>_ e. isAvail e \<and> \<not> isRunning e) (\<lambda>i e. snd (ess_start (ck i) e))"

definition stop_all_ess :: "(nat \<Rightarrow> timespec) \<Rightarrow> ess_manager \<Rightarrow> ess_manager" where
  "stop_all_ess ck = each_ess (\<lambda>_. is_controllable) (\<lambda>i e. snd (ess_stop (ck i) e))"

definition close_all_bms_contactors :: "ess_manager \<Rightarrow> ess_manager" where
  "close_all_bms_contactors = each_ess (\<lambda>_ e. \<not> isRunning e \<and> \<not> in_maintenance e) (\<lambda>_ e. snd (close_bms_contactors e))"

definition open_all_bms_contactors :: "ess_manager \<Rightarrow> ess_manager" where
  "open_all_bms_contactors = each_ess (\<lambda>_ e. \<not> isRunning e \<and> \<not> in_maintenance e) (\<lambda>_ e. snd (open_bms_contactors e))"

definition set_ess_voltage_setpoint :: "flt \<Rightarrow> ess_manager \<Rightarrow> ess_manager" where
  "set_ess_voltage_setpoint x = each_ess (\<lambda>_ e. \<not> in_maintenance e) (\<lambda>_. ess_set_voltage_setpoint x)"

definition set_ess_frequency_setpoint :: "flt \<Rightarrow> ess_manager \<Rightarrow> ess_manager" where
  "set_ess_frequency_setpoint x = each_ess (\<lambda>_ e. \<not> in_maintenance e) (\<lambda>_. ess_set_frequency_setpoint x)"

definition set_ess_mode :: "powerMode \<Rightarrow> ess_manager \<Rightarrow> ess_manager" where
  "set_ess_mode md = each_ess (\<lambda>_ e. \<not> in_maintenance e) (\<lambda>_. ess_set_power_mode md)"

definition set_ess_target_power_factor :: "flt \<Rightarrow> ess_manager \<Rightarrow> ess_manager" where
  "set_ess_target_power_factor x = each_ess (\<lambda>_ _. True) (\<lambda>_. ess_set_power_factor_setpoint x)"

definition set_grid_forming_voltage_slew :: "flt \<Rightarrow> ess_manager \<Rightarrow> ess_manager" where
  "set_grid_forming_voltage_slew x = each_ess (\<lambda>_ _. True) (\<lambda>_. ess_set_voltage_slew_setpoint x)"

definition set_all_ess_calibration_vars :: "flt \<Rightarrow> bool \<Rightarrow> ess_calibration_vars \<Rightarrow> bool \<Rightarrow> ess_manager \<Rightarrow> ess_manager" where
  "set_all_ess_calibration_vars factor power_dist s buffers_disable m =
     each_ess (\<lambda>_ _. True) (\<lambda>_. set_calibration_vars s buffers_disable) (m\<lparr>socBalancingFactor := factor, balancePowerDistribution := power_dist\<rparr>)"

fun process_ess :: "(nat \<Rightarrow> (ess \<Rightarrow> ess) \<times> timespec \<times> timespec \<times> timespec) \<Rightarrow> nat \<Rightarrow> ess list \<Rightarrow> ess list option" where
  "process_ess ck i [] = Some []"
| "process_ess ck i (e # es) = (case ck i of (act, t1, t2, t3) \<Rightarrow> do {
     e \<leftarrow> ess_process_asset act t1 t2 t3 e;
     es \<leftarrow> process_ess ck (Suc i) es;
     Some (e # es) })"

definition ess_process_asset_data :: "(nat \<Rightarrow> (ess \<Rightarrow> ess) \<times> timespec \<times> timespec \<times> timespec) \<Rightarrow> ess_manager \<Rightarrow> ess_manager option" where
  "ess_process_asset_data ck m =
     (if pEss m = [] then Some m else do { es \<leftarrow> process_ess ck 0 (pEss m); Some (aggregate_ess_data (m\<lparr>pEss := es\<rparr>)) })"

definition ess_update_asset_data :: "ess_manager \<Rightarrow> ess_manager option" where
  "ess_update_asset_data m = do {
     m \<leftarrow> calculate_ess_active_power m;
     let m = calculate_ess_reactive_power m;
     Some (m\<lparr>pEss := map ess_update_asset (pEss m)\<rparr>) }"

section \<open>The distribution is exact and within the limits\<close>

text \<open>A change of the storage by assignments to the given indices: who is controllable and the power of everyone stay.\<close>

definition same_power :: "ess \<Rightarrow> ess \<Rightarrow> bool" where
  "same_power e e' \<longleftrightarrow> is_controllable e' = is_controllable e \<and> dischargeable_power e' = dischargeable_power e \<and>
     chargeable_power e' = chargeable_power e"

definition touched :: "nat set \<Rightarrow> ess list \<Rightarrow> ess list \<Rightarrow> bool" where
  "touched J es es' \<longleftrightarrow> length es' = length es \<and> (\<forall>j < length es. same_power (es ! j) (es' ! j) \<and> (j \<notin> J \<longrightarrow> es' ! j = es ! j))"

lemma touched_refl [simp]: "touched J es es"
  by (simp add: touched_def same_power_def)

lemma touched_trans: "touched J es es' \<Longrightarrow> touched K es' es'' \<Longrightarrow> J \<subseteq> L \<Longrightarrow> K \<subseteq> L \<Longrightarrow> touched L es es''"
  by (force simp: touched_def same_power_def)

lemma same_power_set [simp]: "same_power e (ess_set_active_power_setpoint x strict e)"
  by (simp add: same_power_def ess_set_active_power_setpoint_def is_controllable_def get_demand_mode_def)

lemma touched_assign: "i \<in> J \<Longrightarrow> touched J es (assign_ess i x es)"
  by (auto simp: touched_def assign_ess_def map_nth_def nth_list_update same_power_def [of e e for e])

lemma touched_power:
  "touched J es es' \<Longrightarrow> j < length es \<Longrightarrow>
     dischargeable_power (es' ! j) = dischargeable_power (es ! j) \<and> chargeable_power (es' ! j) = chargeable_power (es ! j)"
  by (simp add: touched_def same_power_def)

lemma kW_control_assign:
  "i < length es \<Longrightarrow> kW_control (assign_ess i x es ! i) = range_check x (dischargeable_power (es ! i)) (- chargeable_power (es ! i))"
  by (simp add: kW_control_def assign_ess_def map_nth_def ess_set_active_power_setpoint_def set_control_def)

definition own_range :: "ess list \<Rightarrow> soc_balancing_data \<Rightarrow> flt \<Rightarrow> flt" where
  "own_range es d x = range_check x (dischargeable_power (es ! bd_ess d)) (- chargeable_power (es ! bd_ess d))"

lemma own_range_touched: "touched J es es' \<Longrightarrow> bd_ess d < length es \<Longrightarrow> own_range es' d = own_range es d"
  by (simp add: own_range_def fun_eq_iff touched_power)

lemma round_None:
  assumes "assign_round bal k p ds es = (None, es')" "distinct (map bd_ess ds)" "\<forall>d \<in> set ds. bd_ess d < length es"
  shows "touched (bd_ess ` set ds) es es' \<and> (\<forall>d \<in> set ds. \<not> (bal \<and> over_limit (k * contributionFactor d) d) \<and>
    kW_control (es' ! bd_ess d) = own_range es d (k * contributionFactor d))"
  using assms
proof (induction ds arbitrary: es)
  case (Cons d ds)
  let ?es = "assign_ess (bd_ess d) (k * contributionFactor d) es"
  have n: "\<not> (bal \<and> over_limit (k * contributionFactor d) d)" and r: "assign_round bal k p ds ?es = (None, es')"
    using Cons.prems(1) by (auto split: if_splits)
  have t: "touched {bd_ess d} es ?es" by (simp add: touched_assign)
  then have l: "\<forall>d \<in> set ds. bd_ess d < length ?es" "bd_ess d < length es" using Cons.prems(3) by (auto simp: touched_def)
  from Cons.IH [OF r _ l(1)] Cons.prems(2) have IH: "touched (bd_ess ` set ds) ?es es'"
    "\<forall>d \<in> set ds. \<not> (bal \<and> over_limit (k * contributionFactor d) d) \<and> kW_control (es' ! bd_ess d) = own_range ?es d (k * contributionFactor d)"
    by auto
  have "es' ! bd_ess d = ?es ! bd_ess d" using IH(1) Cons.prems(2) l(2) t by (auto simp: touched_def)
  then have c: "kW_control (es' ! bd_ess d) = own_range es d (k * contributionFactor d)"
    using kW_control_assign [OF l(2)] by (simp add: own_range_def)
  have "touched (bd_ess ` set (d # ds)) es es'" by (rule touched_trans [OF t IH(1)]) auto
  then show ?case using n c IH(2) own_range_touched [OF t] Cons.prems(3) by simp
qed simp

lemma round_Some:
  assumes "assign_round bal k p ds es = (Some d, es')" "\<forall>d \<in> set ds. bd_ess d < length es"
  shows "touched (bd_ess ` set ds) es es' \<and> over_limit (k * contributionFactor d) d \<and>
    kW_control (es' ! bd_ess d) = own_range es d (if p > 0 then the (powerLimit d) else - the (powerLimit d))"
  using assms
proof (induction ds arbitrary: es)
  case (Cons c ds)
  show ?case
  proof (cases "bal \<and> over_limit (k * contributionFactor c) c")
    case True
    then have [simp]: "d = c" and e: "es' = assign_ess (bd_ess c) (if p > 0 then the (powerLimit c) else -1 * the (powerLimit c)) es"
      using Cons.prems(1) by auto
    show ?thesis using True Cons.prems(2) by (simp add: e touched_assign kW_control_assign own_range_def)
  next
    case False
    let ?es = "assign_ess (bd_ess c) (k * contributionFactor c) es"
    have t: "touched {bd_ess c} es ?es" by (simp add: touched_assign)
    have r: "assign_round bal k p ds ?es = (Some d, es')" using False Cons.prems(1) by (auto split: if_splits)
    have l: "\<forall>d \<in> set ds. bd_ess d < length ?es" using Cons.prems(2) t by (auto simp: touched_def)
    have "bd_ess d < length es" using assign_round_member [OF r] Cons.prems(2) by simp
    moreover have "touched (bd_ess ` set (c # ds)) es es'" using Cons.IH [OF r l] by (intro touched_trans [OF t, of "bd_ess ` set ds"]) auto
    ultimately show ?thesis using Cons.IH [OF r l] own_range_touched [OF t] by simp
  qed
qed simp

text \<open>
  What the balancing relies on, for discharging (\<open>up\<close>) or charging: the index is in range, the limit is
  a number that the storage can provide, and a storage without a contribution has nothing to give.
\<close>

definition fits :: "bool \<Rightarrow> ess list \<Rightarrow> soc_balancing_data \<Rightarrow> bool" where
  "fits up es d \<longleftrightarrow> bd_ess d < length es \<and> 0 \<le> contributionFactor d \<and>
     0 \<le> dischargeable_power (es ! bd_ess d) \<and> 0 \<le> chargeable_power (es ! bd_ess d) \<and>
     (\<exists>l. powerLimit d = Some l \<and> 0 \<le> l \<and> (contributionFactor d = 0 \<longrightarrow> l = 0) \<and>
        l \<le> (if up then dischargeable_power (es ! bd_ess d) else chargeable_power (es ! bd_ess d)))"

definition plimit :: "soc_balancing_data \<Rightarrow> flt" where
  "plimit d = the (powerLimit d)"

definition sg :: "bool \<Rightarrow> flt" where
  "sg up = (if up then 1 else -1)"

lemma fits_touched: "touched J es es' \<Longrightarrow> fits up es d \<Longrightarrow> fits up es' d"
  unfolding fits_def using touched_power [of J es es' "bd_ess d"] by (auto simp: touched_def)

lemma fits_own_range:
  assumes "fits up es d" "0 \<le> sg up * x" "\<bar>x\<bar> \<le> plimit d"
  shows "own_range es d x = x"
  using assms by (cases up) (auto simp: fits_def plimit_def sg_def own_range_def range_check_def)

lemma sum_nonneg_0: "\<forall>d \<in> set ds. 0 \<le> f d \<Longrightarrow> sum_list (map f ds) = (0::flt) \<Longrightarrow> d \<in> set ds \<Longrightarrow> f d = 0"
  by (metis (mono_tags, lifting) imageE image_eqI list.set_map sum_list_nonneg_eq_0_iff)

lemma member_le_total: "\<forall>d \<in> set ds. 0 \<le> f d \<Longrightarrow> d \<in> set ds \<Longrightarrow> f d \<le> sum_list (map f ds :: flt list)"
  by (metis (mono_tags, lifting) imageE list.set_map member_le_sum_list image_eqI)

text \<open>A round without a violation assigns everything.\<close>

lemma gain_exact:
  assumes "\<forall>d \<in> set ds. fits up es d" "\<bar>p\<bar> \<le> sum_list (map plimit ds)"
  shows "sum_list (map (\<lambda>d. power_gain p ds * contributionFactor d) ds) = p"
proof (cases "sum_list (map contributionFactor ds) = 0")
  case True
  have "plimit d = 0" if "d \<in> set ds" for d
    using sum_nonneg_0 [OF _ True that] assms(1) that by (auto simp: fits_def plimit_def)
  then have "sum_list (map plimit ds) = 0" by (metis map_eq_conv sum_list_0)
  with assms(2) True show ?thesis by (simp add: power_gain_def)
next
  case False
  have "sum_list (map (\<lambda>d. power_gain p ds * contributionFactor d) ds) = power_gain p ds * sum_list (map contributionFactor ds)"
    by (rule sum_list_const_mult)
  with False show ?thesis by (simp add: power_gain_def)
qed

lemma gain_sign: "\<forall>d \<in> set ds. fits up es d \<Longrightarrow> 0 \<le> sg u * p \<Longrightarrow> 0 \<le> sg u * power_gain p ds"
  by (auto simp: power_gain_def Let_def sg_def fits_def zero_le_divide_iff divide_le_0_iff
      intro!: sum_list_nonneg split: if_splits)

text \<open>A violation takes less than the power that is left.\<close>

lemma violation_less:
  assumes "\<forall>d \<in> set ds. fits up es d" "d \<in> set ds" "over_limit (power_gain p ds * contributionFactor d) d"
  shows "plimit d < \<bar>p\<bar>"
proof -
  let ?S = "sum_list (map contributionFactor ds)"
  have c: "0 \<le> contributionFactor d" "contributionFactor d \<le> ?S" using assms(1,2) member_le_total [of ds contributionFactor d] by (auto simp: fits_def)
  have l: "0 \<le> plimit d" "plimit d < \<bar>power_gain p ds * contributionFactor d\<bar>" using assms by (auto simp: fits_def over_limit_def plimit_def)
  then have S: "?S \<noteq> 0" by (auto simp: power_gain_def)
  have "\<bar>power_gain p ds * contributionFactor d\<bar> = \<bar>p\<bar> * (contributionFactor d / ?S)"
    using S c by (simp add: power_gain_def abs_mult abs_divide)
  also have "\<dots> \<le> \<bar>p\<bar> * 1" using c S by (intro mult_left_mono) (auto simp: divide_le_eq)
  finally show ?thesis using l by simp
qed

text \<open>The storage of one entry is served: its setpoint has the direction of the request and is within the limit.\<close>

definition served :: "bool \<Rightarrow> ess list \<Rightarrow> soc_balancing_data \<Rightarrow> bool" where
  "served up es d \<longleftrightarrow> 0 \<le> sg up * kW_control (es ! bd_ess d) \<and> \<bar>kW_control (es ! bd_ess d)\<bar> \<le> plimit d"

lemma loop_last_round:
  assumes "assign_round True (power_gain p ds) p ds es = (None, es')"
    and "distinct (map bd_ess ds)" "\<forall>d \<in> set ds. fits up es d" "0 \<le> sg up * p" "\<bar>p\<bar> \<le> sum_list (map plimit ds)"
  shows "touched (bd_ess ` set ds) es es' \<and> sum_list (map (\<lambda>d. kW_control (es' ! bd_ess d)) ds) = p \<and> (\<forall>d \<in> set ds. served up es' d)"
proof -
  let ?k = "power_gain p ds"
  have b: "\<forall>d \<in> set ds. bd_ess d < length es" using assms(3) by (auto simp: fits_def)
  note r = round_None [OF assms(1,2) b]
  have c: "kW_control (es' ! bd_ess d) = ?k * contributionFactor d \<and> served up es' d" if d: "d \<in> set ds" for d
  proof -
    have "0 \<le> sg up * (?k * contributionFactor d)"
      using gain_sign [OF assms(3,4)] assms(3) d by (auto simp: fits_def mult.assoc [symmetric])
    moreover have "\<not> over_limit (?k * contributionFactor d) d" "fits up es d" using r assms(3) d by auto
    then have "\<bar>?k * contributionFactor d\<bar> \<le> plimit d" by (auto simp: over_limit_def plimit_def fits_def)
    moreover have "kW_control (es' ! bd_ess d) = own_range es d (?k * contributionFactor d)" using r d by blast
    ultimately show ?thesis using fits_own_range [of up es d] assms(3) d by (metis served_def)
  qed
  have "map (\<lambda>d. kW_control (es' ! bd_ess d)) ds = map (\<lambda>d. ?k * contributionFactor d) ds" using c by (intro map_cong) auto
  then show ?thesis using c r gain_exact [OF assms(3,5)] by metis
qed

lemma loop_violation:
  assumes "assign_round True (power_gain p ds) p ds es = (Some d, es')"
    and "\<forall>d \<in> set ds. fits up es d" "0 \<le> sg up * p" "\<bar>p\<bar> \<le> sum_list (map plimit ds)"
  shows "d \<in> set ds" "touched (bd_ess ` set ds) es es'" "kW_control (es' ! bd_ess d) = sg up * plimit d"
    and "0 \<le> sg up * (p - sg up * plimit d)" "\<bar>p - sg up * plimit d\<bar> \<le> sum_list (map plimit (remove1 d ds))"
proof -
  have b: "\<forall>d \<in> set ds. bd_ess d < length es" using assms(2) by (auto simp: fits_def)
  note r = round_Some [OF assms(1) b]
  show d: "d \<in> set ds" by (rule assign_round_member [OF assms(1)])
  show "touched (bd_ess ` set ds) es es'" using r by blast
  have f: "fits up es d" using assms(2) d by blast
  have less: "plimit d < \<bar>p\<bar>" using r by (intro violation_less [OF assms(2) d]) blast
  have nonneg: "0 \<le> plimit d" using f by (auto simp: fits_def plimit_def)
  have sign: "(if p > 0 then plimit d else - plimit d) = sg up * plimit d"
    using less nonneg assms(3) by (auto simp: sg_def split: if_splits)
  have "0 \<le> sg up * (sg up * plimit d)" "\<bar>sg up * plimit d\<bar> \<le> plimit d" using nonneg by (auto simp: sg_def)
  from fits_own_range [OF f this] r sign [unfolded plimit_def]
  show "kW_control (es' ! bd_ess d) = sg up * plimit d" unfolding plimit_def by presburger
  have "sum_list (map plimit ds) = plimit d + sum_list (map plimit (remove1 d ds))" using d by (simp add: sum_list_map_remove1)
  then show "0 \<le> sg up * (p - sg up * plimit d)" "\<bar>p - sg up * plimit d\<bar> \<le> sum_list (map plimit (remove1 d ds))"
    using less nonneg assms(3,4) by (auto simp: sg_def split: if_splits)
qed

lemma assign_loop_exact:
  assumes "distinct (map bd_ess ds)" "\<forall>d \<in> set ds. fits up es d" "0 \<le> sg up * p" "\<bar>p\<bar> \<le> sum_list (map plimit ds)"
  shows "touched (bd_ess ` set ds) es (assign_loop True p ds es) \<and>
    sum_list (map (\<lambda>d. kW_control (assign_loop True p ds es ! bd_ess d)) ds) = p \<and> (\<forall>d \<in> set ds. served up (assign_loop True p ds es) d)"
  using assms
proof (induction "length ds" arbitrary: p ds es rule: less_induct)
  case less
  obtain v es1 where r: "assign_round True (power_gain p ds) p ds es = (v, es1)" by fastforce
  show ?case
  proof (cases v)
    case None
    then show ?thesis using loop_last_round [OF r [unfolded None] less.prems] r by (simp add: assign_loop.simps [of True p ds es])
  next
    case (Some d)
    note l = loop_violation [OF r [unfolded Some] less.prems(2-4)]
    let ?ds = "remove1 d ds" and ?p = "p - sg up * plimit d"
    let ?es = "assign_loop True ?p ?ds es1"
    have e: "assign_loop True p ds es = ?es" using r Some l(3) by (simp add: assign_loop.simps [of True p ds es])
    have dist: "distinct (map bd_ess ?ds)" "distinct ds" and notin: "bd_ess d \<notin> bd_ess ` set ?ds"
      using less.prems(1) l(1) by (auto simp: distinct_map inj_on_def set_remove1_eq)
    have fit: "\<forall>c \<in> set ?ds. fits up es1 c" using less.prems(2) fits_touched [OF l(2)] notin_set_remove1 by (metis)
    have IH: "touched (bd_ess ` set ?ds) es1 ?es" "sum_list (map (\<lambda>d. kW_control (?es ! bd_ess d)) ?ds) = ?p" "\<forall>c \<in> set ?ds. served up ?es c"
      using less.hyps [OF _ dist(1) fit l(4,5)] l(1) length_pos_if_in_set [OF l(1)] by (simp_all add: length_remove1)
    have k: "kW_control (?es ! bd_ess d) = sg up * plimit d"
      using IH(1) l(2,3) notin less.prems(2) l(1) by (auto simp: touched_def fits_def)
    have "served up ?es d" using k less.prems(2) l(1) by (auto simp: served_def sg_def fits_def plimit_def)
    then have "\<forall>c \<in> set ds. served up ?es c" using IH(3) dist(2) by (metis in_set_remove1)
    moreover have "touched (bd_ess ` set ds) es ?es"
      using set_remove1_subset [of d ds] by (intro touched_trans [OF l(2) IH(1)]) auto
    moreover have "sum_list (map (\<lambda>d. kW_control (?es ! bd_ess d)) ds) = p"
      using sum_list_map_remove1 [OF l(1), of "\<lambda>d. kW_control (?es ! bd_ess d)"] IH(2) k by simp
    ultimately show ?thesis unfolding e by blast
  qed
qed

section \<open>The storage behind the entries\<close>

text \<open>A storage that can be balanced: its state of charge is a percentage and its power limits are known.\<close>

definition ess_ok :: "ess \<Rightarrow> bool" where
  "ess_ok e \<longleftrightarrow> 0 \<le> soc e \<and> soc e \<le> 100 \<and> 0 \<le> chargeable_power e \<and> 0 \<le> dischargeable_power e \<and>
     (case active_power_limit e of None \<Rightarrow> False | Some l \<Rightarrow> 0 \<le> l)"

definition power_limit :: "bool \<Rightarrow> ess \<Rightarrow> flt" where
  "power_limit up e = min (the (active_power_limit e)) (if up then dischargeable_power e else chargeable_power e)"

lemma powf_margin: "0 \<le> x \<Longrightarrow> 0 < b \<Longrightarrow> \<exists>c. powf x b = Some c \<and> 0 \<le> c \<and> (c = 0 \<longrightarrow> x = 0)"
  by (auto simp: powf_def)

lemma balancing_data_ok:
  assumes "ess_ok e" "0 < b"
  shows "\<exists>c. balancing_data p b (i, e) = Some \<lparr>bd_ess = i, contributionFactor = c, powerLimit = Some (power_limit (0 \<le> p) e)\<rparr> \<and>
    0 \<le> c \<and> (c = 0 \<longrightarrow> power_limit (0 \<le> p) e = 0)"
proof -
  obtain l where l: "active_power_limit e = Some l" "0 \<le> l" using assms(1) by (auto simp: ess_ok_def split: option.splits)
  let ?m = "if 0 < p then soc e else 100 - soc e" and ?L = "power_limit (0 \<le> p) e"
  let ?x = "if ?m = 0 \<and> Some ?L \<noteq> Some 0 then 1 else ?m"
  have "0 \<le> ?x" using assms(1) by (auto simp: ess_ok_def)
  then obtain c where c: "powf ?x b = Some c" "0 \<le> c" "c = 0 \<longrightarrow> ?x = 0" using powf_margin assms(2) by blast
  have "(if p \<ge> 0 then ess_get_max_limited_active_power e else map_option uminus (ess_get_min_limited_active_power e)) = Some ?L"
    using l assms(1) by (auto simp: ess_get_max_limited_active_power_def ess_get_min_limited_active_power_def power_limit_def ess_ok_def)
  then have "balancing_data p b (i, e) = map_option (\<lambda>c. \<lparr>bd_ess = i, contributionFactor = c, powerLimit = Some ?L\<rparr>) (powf ?x b)"
    unfolding balancing_data_def Let_def by simp
  moreover have "c = 0 \<longrightarrow> ?L = 0" using c(3) by (auto split: if_splits)
  ultimately show ?thesis using c by auto
qed

definition controllables :: "ess list \<Rightarrow> (nat \<times> ess) list" where
  "controllables es = filter (\<lambda>ie. is_controllable (snd ie)) (enumerate 0 es)"

lemma controllables_member: "(i, e) \<in> set (controllables es) \<longleftrightarrow> i < length es \<and> e = es ! i \<and> is_controllable e"
  by (auto simp: controllables_def enumerate_member)

lemma controllables_distinct: "distinct (map fst (controllables es))"
  by (simp add: controllables_def distinct_map_filter)

lemma controllables_filter: "map f (filter is_controllable es) = map (\<lambda>i. f (es ! i)) (map fst (controllables es))"
proof -
  have "filter is_controllable es = map snd (controllables es)"
    using filter_map [of is_controllable snd "enumerate 0 es"] by (simp add: controllables_def comp_def)
  then show ?thesis by (auto simp: controllables_member)
qed

lemma controllables_fst: "map fst (controllables es) = filter (\<lambda>i. is_controllable (es ! i)) [0..<length es]"
proof -
  have "enumerate 0 es = map (\<lambda>i. (i, es ! i)) [0..<length es]" by (rule nth_equalityI) (auto simp: nth_enumerate_eq)
  then show ?thesis by (simp add: controllables_def filter_map comp_def)
qed

lemma controllables_touched: "touched J es es' \<Longrightarrow> map fst (controllables es') = map fst (controllables es)"
  unfolding controllables_fst by (auto simp: touched_def same_power_def intro!: filter_cong)

lemma balancing_list:
  assumes "\<forall>e \<in> set es. is_controllable e \<longrightarrow> ess_ok e" "0 < b"
  shows "\<exists>ds. those (map (balancing_data p b) (controllables es)) = Some ds \<and> map bd_ess ds = map fst (controllables es) \<and>
    (\<forall>d \<in> set ds. fits (0 \<le> p) es d \<and> plimit d = power_limit (0 \<le> p) (es ! bd_ess d))"
proof -
  have "\<forall>ie \<in> set cs. fst ie < length es \<and> snd ie = es ! fst ie \<and> ess_ok (snd ie) \<Longrightarrow>
      \<exists>ds. those (map (balancing_data p b) cs) = Some ds \<and> map bd_ess ds = map fst cs \<and>
      (\<forall>d \<in> set ds. fits (0 \<le> p) es d \<and> plimit d = power_limit (0 \<le> p) (es ! bd_ess d))" for cs
  proof (induction cs)
    case (Cons ie cs)
    obtain i e where ie: "ie = (i, e)" by fastforce
    obtain c where c: "balancing_data p b (i, e) = Some \<lparr>bd_ess = i, contributionFactor = c, powerLimit = Some (power_limit (0 \<le> p) e)\<rparr>"
        "0 \<le> c" "c = 0 \<longrightarrow> power_limit (0 \<le> p) e = 0" and e: "i < length es" "e = es ! i" "ess_ok e"
      using balancing_data_ok [of e b p i] Cons.prems assms(2) ie by auto
    have "fits (0 \<le> p) es \<lparr>bd_ess = i, contributionFactor = c, powerLimit = Some (power_limit (0 \<le> p) e)\<rparr>"
      using c e by (auto simp: fits_def ess_ok_def power_limit_def split: option.splits)
    moreover have "\<forall>ie \<in> set cs. fst ie < length es \<and> snd ie = es ! fst ie \<and> ess_ok (snd ie)" using Cons.prems by auto
    from Cons.IH [OF this] obtain ds where "those (map (balancing_data p b) cs) = Some ds" "map bd_ess ds = map fst cs"
      "\<forall>d \<in> set ds. fits (0 \<le> p) es d \<and> plimit d = power_limit (0 \<le> p) (es ! bd_ess d)" by blast
    ultimately show ?case using c(1) e
      by (intro exI [of _ "\<lparr>bd_ess = i, contributionFactor = c, powerLimit = Some (power_limit (0 \<le> p) e)\<rparr> # ds"]) (simp add: ie plimit_def)
  qed simp
  moreover have "\<forall>ie \<in> set (controllables es). fst ie < length es \<and> snd ie = es ! fst ie \<and> ess_ok (snd ie)"
    using assms(1) controllables_member [of _ _ es] by auto
  ultimately show ?thesis by blast
qed

section \<open>Charge control\<close>

lemma status_side:
  assumes "0 \<le> entering_soc_range m" "0 \<le> leaving_soc_range m" "0 \<le> far_soc_range m"
  shows "next_soc_status t m = AboveTarget \<or> next_soc_status t m = FarAboveTarget \<Longrightarrow> t \<le> controllableEssAvgSoc m"
    and "next_soc_status t m = BelowTarget \<or> next_soc_status t m = FarBelowTarget \<Longrightarrow> controllableEssAvgSoc m \<le> t"
  using assms by (auto simp: next_soc_status_def Let_def split: SOC_State.splits if_splits)

section \<open>The power of one storage\<close>





lemma derate_frame [simp]:
  "soc (derate_power e) = soc e" "in_maintenance (derate_power e) = in_maintenance e" "mt (derate_power e) = mt e"
  by (simp_all add: derate_power_def Let_def)

lemma energy_frame [simp]:
  "soc (update_energy e) = soc e" "chargeable_power (update_energy e) = chargeable_power e" "dischargeable_power (update_energy e) = dischargeable_power e"
  by (simp_all add: update_energy_def Let_def split: prod.split)



section \<open>Properties\<close>

text \<open>C24. While power is distributed with a positive balancing factor, which is every mode but the calibration of the storage
  (that sets the factor to 0 and the balanced distribution off), the target power is distributed exactly: when the storage under
  control, each with a state of charge between 0 and 100 and powers and limits that are not negative, can provide it, the setpoints
  of the storage under control add up to the target, whatever the states of charge and the value of the
  factor; and no setpoint exceeds the power of its storage or has the opposite direction.
\<close>
theorem ess_power_exact:
  assumes "\<forall>e \<in> set (pEss m). is_controllable e \<longrightarrow> ess_ok e" "0 < socBalancingFactor m" "balancePowerDistribution m"
    and "\<bar>essTargetActivePowerkW m\<bar> \<le> total_over is_controllable (power_limit (0 \<le> essTargetActivePowerkW m)) (pEss m)"
  shows "\<exists>m'. calculate_ess_active_power m = Some m' \<and> total_over is_controllable kW_control (pEss m') = essTargetActivePowerkW m \<and>
    (\<forall>i < length (pEss m). is_controllable (pEss m ! i) \<longrightarrow>
       \<bar>kW_control (pEss m' ! i)\<bar> \<le> power_limit (0 \<le> essTargetActivePowerkW m) (pEss m ! i) \<and>
       0 \<le> kW_control (pEss m' ! i) * essTargetActivePowerkW m)"
proof -
  let ?p = "essTargetActivePowerkW m" and ?es = "pEss m"
  obtain ds where ds: "those (map (balancing_data ?p (socBalancingFactor m)) (controllables ?es)) = Some ds"
    "map bd_ess ds = map fst (controllables ?es)" "\<forall>d \<in> set ds. fits (0 \<le> ?p) ?es d \<and> plimit d = power_limit (0 \<le> ?p) (?es ! bd_ess d)"
    using balancing_list [OF assms(1,2)] by blast
  have "map plimit ds = map (\<lambda>i. power_limit (0 \<le> ?p) (?es ! i)) (map bd_ess ds)" using ds(3) by simp
  then have "\<bar>?p\<bar> \<le> sum_list (map plimit ds)" using assms(4) unfolding total_over_def controllables_filter ds(2) by simp
  moreover have "0 \<le> sg (0 \<le> ?p) * ?p" by (simp add: sg_def)
  ultimately have L: "touched (bd_ess ` set ds) ?es (assign_loop True ?p ds ?es)"
    "sum_list (map (\<lambda>d. kW_control (assign_loop True ?p ds ?es ! bd_ess d)) ds) = ?p" "\<forall>d \<in> set ds. served (0 \<le> ?p) (assign_loop True ?p ds ?es) d"
    using assign_loop_exact [of ds "0 \<le> ?p" ?es ?p] ds(2,3) controllables_distinct [of ?es] by auto
  let ?r = "assign_loop True ?p ds ?es"
  have "total_over is_controllable kW_control ?r = sum_list (map (\<lambda>i. kW_control (?r ! i)) (map bd_ess ds))"
    unfolding total_over_def controllables_filter controllables_touched [OF L(1)] ds(2) ..
  then have t: "total_over is_controllable kW_control ?r = ?p" using L(2) by (simp add: comp_def)
  have "\<bar>kW_control (?r ! i)\<bar> \<le> power_limit (0 \<le> ?p) (?es ! i) \<and> 0 \<le> kW_control (?r ! i) * ?p"
    if "i < length ?es" "is_controllable (?es ! i)" for i
  proof -
    have "i \<in> set (map fst (controllables ?es))" using that by (force simp: controllables_fst)
    then obtain d where "d \<in> set ds" "bd_ess d = i" unfolding ds(2) [symmetric] by auto
    with L(3) ds(3) show ?thesis by (auto simp: served_def sg_def zero_le_mult_iff split: if_splits)
  qed
  moreover have "calculate_ess_active_power m = Some (m\<lparr>pEss := ?r\<rparr>)"
    using ds(1) assms(3) by (simp add: calculate_ess_active_power_def controllables_def)
  ultimately show ?thesis using t by simp
qed

text \<open>C25. Charge control brings the storage towards the target and nowhere else: it asks for a discharge only
  when the average state of charge is at or above the target, for a charge only when it is at or below;
  the request is within the power of the storage and keeps to the disabled directions.
\<close>
theorem charge_control_towards_target:
  assumes "charge_control target charge_disable discharge_disable m = Some (r, m')"
    and "0 \<le> entering_soc_range m" "0 \<le> leaving_soc_range m" "0 \<le> far_soc_range m" "0 < charge_control_divisor m"
    and "0 \<le> essTotalChargeablePowerkW m" "0 \<le> essTotalDischargeablePowerkW m"
  shows "- essTotalChargeablePowerkW m \<le> r \<and> r \<le> essTotalDischargeablePowerkW m \<and>
    (r > 0 \<longrightarrow> controllableEssAvgSoc m \<ge> target \<and> \<not> discharge_disable) \<and>
    (r < 0 \<longrightarrow> controllableEssAvgSoc m \<le> target \<and> \<not> charge_disable)"
proof -
  let ?x = "controllableEssAvgSoc m" and ?s = "next_soc_status target m"
  note side = status_side [OF assms(2-4), of target]
  show ?thesis
  proof (cases ?s)
    case AboveTarget
    let ?w = "essTotalDischargeablePowerkW m * ((?x - (target - entering_soc_range m)) / charge_control_divisor m)"
    have "r = min (c_bool (\<not> discharge_disable) * ?w) (essTotalDischargeablePowerkW m)"
      using assms(1,5) AboveTarget by (cases discharge_disable) (auto simp: charge_control_def Let_def fdiv_def min_def split: if_splits)
    moreover have "0 \<le> ?w" using side(1) AboveTarget assms(2,5,7) by simp
    ultimately show ?thesis using assms(6,7) side(1) AboveTarget by (auto simp: c_bool_def min_def split: if_splits)
  next
    case BelowTarget
    let ?w = "essTotalChargeablePowerkW m * ((target + entering_soc_range m - ?x) / charge_control_divisor m)"
    have "r = max (- (c_bool (\<not> charge_disable) * ?w)) (- essTotalChargeablePowerkW m)"
      using assms(1,5) BelowTarget by (cases charge_disable) (auto simp: charge_control_def Let_def fdiv_def max_def split: if_splits)
    moreover have "0 \<le> ?w" using side(2) BelowTarget assms(2,5,6) by simp
    ultimately show ?thesis using assms(6,7) side(2) BelowTarget by (auto simp: c_bool_def max_def split: if_splits)
  qed (use assms(1,6,7) side in \<open>auto simp: charge_control_def Let_def c_bool_def split: if_splits\<close>)
qed


text \<open>A reactive setpoint is compared with the one the component reports and not with the one that was
  last commanded: a storage whose report already equals the new share keeps the older command, which
  is what it is sent.
\<close>
theorem stale_reactive_command_kept:
  assumes "i < length (pEss m)" "is_controllable (pEss m ! i)" "kVAR_value (pEss m ! i) = reactive_share m (pEss m ! i)"
    and "kVAR_control (pEss m ! i) \<noteq> reactive_share m (pEss m ! i)"
    and "essTargetReactivePowerkVAR m \<noteq> 0" "essTotalPotentialReactivePower m \<noteq> 0" "\<bar>essTargetReactivePowerkVAR m\<bar> < essTotalRatedReactivePower m"
  shows "kVAR_control (pEss (calculate_ess_reactive_power m) ! i) \<noteq> reactive_share m (pEss m ! i)"
  using assms by (simp add: calculate_ess_reactive_power_def reactive_to_def)

section \<open>A concrete group\<close>

definition demo_config :: ess_config where
  "demo_config = \<lparr>start_command_value = 1, stop_command_value = 0, enter_standby_value = 0, exit_standby_value = 0, ess_grid_forming_value = 1,
     ess_grid_following_value = 0, bms_control_close = 1, bms_control_open = 0, reactive_power_mode_value = 0, power_factor_mode_value = 1,
     rated_chargeable_power = 100, rated_dischargeable_power = 100, chgSocBegin = 90, chgSocEnd = 100, dischgSocBegin = 10, dischgSocEnd = 0,
     maxRawSoc = 100, minRawSoc = 0, rated_capacity = 400, chargeable_min_limit_kW = 0, dischargeable_min_limit_kW = 0, energy_configured = False,
     uri_ess_start = [], uri_ess_stop = [], uri_enter_standby = [], uri_exit_standby = [], uri_set_autobalancing = [], uri_open_dc_contacts = [],
     uri_close_dc_contacts = [], standby_status_mask = 4\<rparr>"

definition demo_maint :: ess_maint where
  "demo_maint = \<lparr>maint_soc_protection_buffers_disable_flag = False, maint_soc_limits_enable_flag = False, maint_cell_voltage_limits_enable_flag = False,
     maint_rack_voltage_limits_enable_flag = False, maint_min_charge_discharge_enable_flag = False, maint_kW = 0, maint_kVAR = 0,
     maint_chargeable_min_limit = 0, maint_dischargeable_min_limit = 0, maint_min_soc_limit = 0, maint_max_soc_limit = 100,
     maint_min_cell_voltage_limit = 0, maint_max_cell_voltage_limit = 4, maint_min_rack_voltage_limit = 0, maint_max_rack_voltage_limit = 1000\<rparr>"

definition demo_calibration :: ess_calibration_vars where
  "demo_calibration = \<lparr>calibration_flag = False, soc_limits_flag = False, cell_voltage_limits_flag = False, rack_voltage_limits_flag = False,
     chargeable_soc_limit = 100, dischargeable_soc_limit = 0, chargeable_cell_voltage_limit = 4, dischargeable_cell_voltage_limit = 0,
     chargeable_rack_voltage_limit = 1000, dischargeable_rack_voltage_limit = 0, raw_calibration_setpoint = 0\<rparr>"

text \<open>A running storage of 100 kW with the given state of charge and power.\<close>

definition demo_ess :: "flt \<Rightarrow> flt \<Rightarrow> ess" where
  "demo_ess s p = asset.extend ((asset.truncate (demo_gen ''ess''))\<lparr>isRunning := True, active_power_limit := Some 100\<rparr>)
     (ess.fields demo_config demo_maint demo_calibration False ACCEPTED s s 100 p p p p 0 0 0 0 3 3 800 800
        blank_fims False blank_fims blank_fims blank_fims blank_fims blank_fims blank_fims blank_fims)"

lemma demo_ess_simps [simp]:
  "is_controllable (demo_ess s p)" "soc (demo_ess s p) = s" "soc_raw (demo_ess s p) = s" "chargeable_power (demo_ess s p) = p"
  "dischargeable_power (demo_ess s p) = p" "active_power_limit (demo_ess s p) = Some 100" "cfg (demo_ess s p) = demo_config" "mt (demo_ess s p) = demo_maint"
  "chargeable_power_raw (demo_ess s p) = p" "soc_protection_buffers_disable_flag (demo_ess s p) = False" "in_maintenance (demo_ess s p) = False"
  by (simp_all add: demo_ess_def demo_gen_def is_controllable_def get_demand_mode_def asset.defs ess.defs)

definition demo_ess_manager :: "flt \<Rightarrow> ess list \<Rightarrow> ess_manager" where
  "demo_ess_manager p es = \<lparr>pEss = es, ess_numAvail = 0, ess_numRunning = 0, numEssControllable = 0, numEssStartable = 0, numEssStandby = 0,
     ess_num_in_local_mode = 0, essTotalActivePowerkW = 0, essTotalReactivePowerkVAR = 0, essTotalApparentPowerkVA = 0,
     essTotalUncontrollableActivePowerkW = 0, essTotalMaxPotentialActivePower = 0, essTotalMinPotentialActivePower = 0,
     essTotalPotentialReactivePower = 100, essTotalRatedActivePower = 0, essTotalRatedReactivePower = 100, essTotalRatedApparentPower = 0,
     ess_total_kW_charge_limit = Some 0, ess_total_kW_discharge_limit = Some 0, essTotalNameplateActivePower = 0,
     essTotalNameplateReactivePower = 0, essTotalNameplateApparentPower = 0, essTargetActivePowerkW = p, essTargetReactivePowerkVAR = 20,
     controllableEssMinSoc = 0, controllableEssAvgSoc = 80, controllableEssMaxSoc = 100, parsedEssMinSoc = 0, parsedEssAvgSoc = 80, parsedEssMaxSoc = 100,
     socBalancingFactor = 1, balancePowerDistribution = True, entering_soc_range = 1, leaving_soc_range = 2, far_soc_range = 10,
     charge_control_divisor = 20, essTotalChargeableEnergykWh = 0, essTotalChargeablePowerkW = 100, essTotalDischargeableEnergykWh = 0,
     essTotalDischargeablePowerkW = 100, grid_forming_voltage_slew = 0, soc_status = OnTarget\<rparr>"

theorem ess_power_exact_witness:
  "\<exists>m'. calculate_ess_active_power (demo_ess_manager 120 [demo_ess 90 50, demo_ess 10 100]) = Some m' \<and>
     total_over is_controllable kW_control (pEss m') = 120"
  using ess_power_exact [of "demo_ess_manager 120 [demo_ess 90 50, demo_ess 10 100]"]
  by (auto simp: demo_ess_manager_def ess_ok_def total_over_def power_limit_def)

theorem charge_control_towards_target_witness:
  "\<exists>r m'. charge_control 50 False False (demo_ess_manager 0 []) = Some (r, m') \<and> r \<le> 100"
proof -
  obtain r m' where r: "charge_control 50 False False (demo_ess_manager 0 []) = Some (r, m')"
    by (simp add: charge_control_def next_soc_status_def demo_ess_manager_def Let_def)
  from charge_control_towards_target [OF r] show ?thesis using r by (simp add: demo_ess_manager_def)
qed


definition stale_ess :: ess where
  "stale_ess = (demo_ess 50 100)\<lparr>potential_reactive_power := 0, kVAR_setpoint := set_control 5 blank_fims\<rparr>"

theorem stale_reactive_command_kept_witness:
  "kVAR_control (pEss (calculate_ess_reactive_power (demo_ess_manager 0 [stale_ess])) ! 0) \<noteq> 0"
proof -
  have "is_controllable stale_ess" "kVAR_value stale_ess = 0" "kVAR_control stale_ess = 5" "potential_reactive_power stale_ess = 0"
    by (simp_all add: stale_ess_def demo_ess_def demo_gen_def is_controllable_def get_demand_mode_def asset.defs ess.defs
        kVAR_value_def kVAR_control_def set_control_def blank_fims_def Value_Object_def)
  then show ?thesis
    using stale_reactive_command_kept [of 0 "demo_ess_manager 0 [stale_ess]"] by (simp add: demo_ess_manager_def reactive_share_def)
qed

end
