(* ===== verification/Solar.thy ===== *)
theory Solar
  imports Storage
begin

text \<open>
  Solar inverters (\<^verbatim>\<open>Asset_Solar.cpp\<close>) and their manager (\<^verbatim>\<open>Solar_Manager.cpp\<close>): curtailment around one
  uncurtailed prime inverter, the distribution of active and reactive power, and the cycle.  A pointer
  to an inverter is its index in the list; an index of \<^verbatim>\<open>-1\<close> is \<open>None\<close>.
\<close>

section \<open>An inverter\<close>

record solar = asset +
  sol_start_value :: int
  sol_stop_value :: int
  sol_enter_standby_value :: int
  sol_exit_standby_value :: int
  sol_reactive_power_mode_value :: int
  sol_power_factor_mode_value :: int
  sol_power_mode :: fims_object
  sol_power_factor :: fims_object
  sol_maint_kW :: flt
  sol_maint_kVAR :: flt
  curtailed_active_power_limit :: flt
  sol_uri_start :: string
  sol_uri_stop :: string
  sol_uri_enter_standby :: string
  sol_uri_exit_standby :: string

definition solar_send :: "int \<Rightarrow> string \<Rightarrow> solar \<Rightarrow> bool \<times> solar" where
  "solar_send v uri s = send_to_comp_uri (set_int v (Value_Object 0)) uri s"

definition solar_start :: "timespec \<Rightarrow> solar \<Rightarrow> bool \<times> solar" where
  "solar_start now s =
     (let (go, w) = command_trigger now (start_command_throttle s); s = s\<lparr>start_command_throttle := w\<rparr>
      in if go then solar_send (sol_start_value s) (sol_uri_start s) s else (False, s))"

definition solar_stop :: "timespec \<Rightarrow> solar \<Rightarrow> bool \<times> solar" where
  "solar_stop now s =
     (let (go, w) = command_trigger now (stop_command_throttle s); s = s\<lparr>stop_command_throttle := w\<rparr>
      in if go then solar_send (sol_stop_value s) (sol_uri_stop s) (s\<lparr>inStandby := False\<rparr>) else (False, s))"

definition solar_enter_standby :: "solar \<Rightarrow> bool \<times> solar" where
  "solar_enter_standby s =
     (if isRunning s \<and> \<not> inStandby s \<and> value_float (fo_value (kW_setpoint s)) = 0 \<and> value_float (fo_value (kVAR_setpoint s)) = 0
      then solar_send (sol_enter_standby_value s) (sol_uri_enter_standby s) (s\<lparr>inStandby := True\<rparr>) else (False, s))"

definition solar_exit_standby :: "solar \<Rightarrow> bool \<times> solar" where
  "solar_exit_standby s = solar_send (sol_exit_standby_value s) (sol_uri_exit_standby s) (s\<lparr>inStandby := False\<rparr>)"

definition solar_set_active_power_setpoint :: "flt \<Rightarrow> solar \<Rightarrow> solar" where
  "solar_set_active_power_setpoint setpoint s =
     s\<lparr>kW_setpoint := set_control (range_check setpoint (max_limited_active_power s) (min_limited_active_power s)) (kW_setpoint s)\<rparr>"

definition solar_set_reactive_power_setpoint :: "flt \<Rightarrow> solar \<Rightarrow> solar" where
  "solar_set_reactive_power_setpoint setpoint s =
     s\<lparr>kVAR_setpoint := set_control (range_check setpoint (potential_reactive_power s) (-1 * potential_reactive_power s)) (kVAR_setpoint s)\<rparr>"

definition solar_set_power_factor_setpoint :: "flt \<Rightarrow> solar \<Rightarrow> solar" where
  "solar_set_power_factor_setpoint x s = s\<lparr>sol_power_factor := set_control (clamp_power_factor x) (sol_power_factor s)\<rparr>"

definition solar_set_power_mode :: "powerMode \<Rightarrow> solar \<Rightarrow> solar" where
  "solar_set_power_mode m s = (case m of
       REACTIVEPWR \<Rightarrow> s\<lparr>sol_power_mode := set_control_int (sol_reactive_power_mode_value s) (sol_power_mode s)\<rparr>
     | PWRFCTR \<Rightarrow> s\<lparr>sol_power_mode := set_control_int (sol_power_factor_mode_value s) (sol_power_mode s)\<rparr>
     | UNKNOWN \<Rightarrow> s)"

definition set_potential_active_power_limit :: "flt \<Rightarrow> solar \<Rightarrow> solar" where
  "set_potential_active_power_limit l s = s\<lparr>curtailed_active_power_limit := l\<rparr>"

definition solar_potential_active_power :: "timespec \<Rightarrow> solar \<Rightarrow> solar" where
  "solar_potential_active_power now s =
     (let s = base_potential_active_power now s;
          s = (if reactive_power_priority s then
                 let l = other_power (rated_apparent_power_kva s) (value_float (fo_value (kVAR_setpoint s)));
                     mx = min_nan (max_potential_active_power s) l
                 in s\<lparr>active_power_limit := l, max_potential_active_power := mx, max_limited_active_power := mx\<rparr>
               else s)
      in s\<lparr>max_potential_active_power := (if max_potential_active_power s > curtailed_active_power_limit s
             then curtailed_active_power_limit s else max_potential_active_power s)\<rparr>)"

definition solar_process_asset :: "timespec \<Rightarrow> timespec \<Rightarrow> timespec \<Rightarrow> timespec \<Rightarrow> solar \<Rightarrow> solar option" where
  "solar_process_asset now now_wd now_slew now_stop s = do {
     s \<leftarrow> process_alerts_and_status now now_wd (s\<lparr>raw_status := bits (status_register s)\<rparr>);
     let s = process_potential_reactive_power (solar_potential_active_power now_slew s);
     Some (if get_num_active_faults s \<noteq> 0 \<and> isRunning s then snd (solar_stop now_stop s) else s) }"

definition solar_update_asset :: "solar \<Rightarrow> solar" where
  "solar_update_asset s =
     (if in_maintenance s then
        let s = solar_set_power_mode REACTIVEPWR s;
            s = solar_set_active_power_setpoint
                  (if maint_slew_configured s then min (max (sol_maint_kW s) (min_limited_active_power s)) (max_limited_active_power s)
                   else sol_maint_kW s) s
        in solar_set_reactive_power_setpoint (sol_maint_kVAR s) s
      else s)"

text \<open>The value of \<^verbatim>\<open>powerMode::UNKNOWN\<close>, which is not written to the component, is 2.\<close>

definition solar_send_to_components :: "timespec \<Rightarrow> timespec \<Rightarrow> solar \<Rightarrow> solar" where
  "solar_send_to_components now1 now2 s =
     (if local_mode_status s then s
      else
        let p = as_primary s;
            (_, m1, w1) = send_setpoint_if_due now1 (kW_throttle s) (kW_setpoint s) p;
            (_, m2, w2) = send_setpoint_if_due now2 (kVAR_throttle s) (kVAR_setpoint s) p
        in s\<lparr>kW_throttle := w1, kVAR_throttle := w2,
             as_msgs := as_msgs s @ opt_msg m1 @ opt_msg m2 @ send_changed p (sol_power_factor s) @
               send_mode (value_int (component_control_value (sol_power_mode s)) \<noteq> 2) p (sol_power_mode s)\<rparr>)"

definition solar_handle_set :: "timespec \<Rightarrow> string \<Rightarrow> cjson \<Rightarrow> solar \<Rightarrow> bool \<times> bool \<times> solar" where
  "solar_handle_set now n v s = (case v of
       JTrue \<Rightarrow>
         if n = ''clear_faults'' then (True, False, clear_alerts now s)
         else if n = ''stop'' then (True, False, snd (solar_stop now s))
         else if n = ''start'' then (True, False, snd (solar_start now s))
         else if n = ''enter_standby'' then (True, False, snd (solar_enter_standby s))
         else if n = ''exit_standby'' then (True, False, snd (solar_exit_standby s))
         else generic_set n v s
     | JNumber d _ \<Rightarrow>
         if n = ''maint_active_power_setpoint'' then (True, True, s\<lparr>sol_maint_kW := d\<rparr>)
         else if n = ''maint_reactive_power_setpoint'' then (True, True, s\<lparr>sol_maint_kVAR := d\<rparr>)
         else if n = ''maint_active_power_slew_rate'' then
           (True, True, s\<lparr>maint_slew_rate := d,
              active_power_slew := (if in_maintenance s then set_slew_rate (c_trunc d) (active_power_slew s) else active_power_slew s)\<rparr>)
         else generic_set n v s
     | _ \<Rightarrow> generic_set n v s)"

section \<open>The manager\<close>

datatype solar_curtailment_states = no_curtailment | partial_curtailment | full_curtailment

record solar_manager =
  pSolar :: "solar list"
  sol_numAvail :: int
  sol_numRunning :: int
  numSolarControllable :: int
  numSolarStartable :: int
  numSolarStandby :: int
  sol_num_in_local_mode :: int
  solarTotalActivePowerkW :: flt
  solarTotalReactivePowerkVAR :: flt
  solarTotalApparentPowerkVA :: flt
  solarTotalUncontrollableActivePowerkW :: flt
  solarTotalMaxPotentialActivePower :: flt
  solarTotalMinPotentialActivePower :: flt
  solarTotalPotentialReactivePower :: flt
  solarTotalRatedActivePower :: flt
  solarTotalRatedReactivePower :: flt
  solarTotalRatedApparentPower :: flt
  solarTotalNameplateActivePower :: flt
  solarTotalNameplateReactivePower :: flt
  solarTotalNameplateApparentPower :: flt
  sol_total_kW_discharge_limit :: flt
  solarTargetActivePowerkW :: flt
  solarTargetReactivePowerkVAR :: flt
  solar_curtailment_enabled :: bool
  solar_curtailment_state :: solar_curtailment_states
  solar_prime_index :: "nat option"
  curtailment_deadband_percentage :: flt
  lastTotalActivePowerkW :: flt

definition aggregate_solar_data :: "solar_manager \<Rightarrow> solar_manager" where
  "aggregate_solar_data m =
     (let ss = pSolar m
      in m\<lparr>sol_numAvail := count_of isAvail ss, sol_numRunning := count_of isRunning ss, numSolarControllable := count_of is_controllable ss,
           numSolarStartable := count_of (\<lambda>s. isAvail s \<and> \<not> isRunning s) ss, numSolarStandby := count_of (\<lambda>s. isAvail s \<and> inStandby s) ss,
           sol_num_in_local_mode := count_of local_mode_status ss,
           solarTotalNameplateActivePower := total_over (\<lambda>_. True) rated_active_power_kw ss,
           solarTotalNameplateReactivePower := total_over (\<lambda>_. True) rated_reactive_power_kvar ss,
           solarTotalNameplateApparentPower := total_over (\<lambda>_. True) rated_apparent_power_kva ss,
           solarTotalActivePowerkW := total_over is_controllable active_power ss,
           solarTotalReactivePowerkVAR := total_over is_controllable reactive_power ss,
           solarTotalApparentPowerkVA := total_over is_controllable apparent_power ss,
           solarTotalUncontrollableActivePowerkW := total_over (\<lambda>s. \<not> is_controllable s \<and> \<not> get_watchdog_fault s) active_power ss,
           solarTotalMaxPotentialActivePower := total_over is_controllable max_potential_active_power ss,
           solarTotalMinPotentialActivePower := total_over is_controllable min_potential_active_power ss,
           solarTotalPotentialReactivePower := total_over is_controllable potential_reactive_power ss,
           solarTotalRatedActivePower := total_over is_controllable rated_active_power_kw ss,
           solarTotalRatedReactivePower := total_over is_controllable rated_reactive_power_kvar ss,
           solarTotalRatedApparentPower := total_over is_controllable rated_apparent_power_kva ss,
           sol_total_kW_discharge_limit := total_over is_controllable max_limited_active_power ss\<rparr>)"

text \<open>The prime inverter stays as long as it is controllable, else it is the first that is.\<close>

definition solar_prime_inverter_selection :: "solar_manager \<Rightarrow> nat option" where
  "solar_prime_inverter_selection m =
     (let ss = pSolar m; i = (case solar_prime_index m of None \<Rightarrow> 0 | Some i \<Rightarrow> i)
      in if ss = [] then None
         else if is_controllable (ss ! i) then Some i
         else List.find (\<lambda>j. is_controllable (ss ! j)) [0..<length ss])"

definition find_next_curtailment_state :: "nat \<Rightarrow> solar_manager \<Rightarrow> solar_curtailment_states" where
  "find_next_curtailment_state prime m =
     (let deadband_power = curtailment_deadband_percentage m * solarTotalRatedActivePower m;
          t = solarTargetActivePowerkW m; a = solarTotalActivePowerkW m; g = pSolar m ! prime
      in case solar_curtailment_state m of
           no_curtailment \<Rightarrow> if t < a - deadband_power then partial_curtailment else no_curtailment
         | partial_curtailment \<Rightarrow> if t < active_power g then full_curtailment
             else if t > a - deadband_power \<and> a > lastTotalActivePowerkW m then no_curtailment else partial_curtailment
         | full_curtailment \<Rightarrow> if t > active_power g + deadband_power \<or> t = rated_active_power_kw g then partial_curtailment
             else full_curtailment)"

definition each_solar :: "(nat \<Rightarrow> solar \<Rightarrow> bool) \<Rightarrow> (nat \<Rightarrow> solar \<Rightarrow> solar) \<Rightarrow> solar_manager \<Rightarrow> solar_manager" where
  "each_solar P f m = m\<lparr>pSolar := map (\<lambda>(i, s). if P i s then f i s else s) (enumerate 0 (pSolar m))\<rparr>"

definition calculate_solar_total_potential_active_power :: "nat \<Rightarrow> solar_manager \<Rightarrow> solar_manager" where
  "calculate_solar_total_potential_active_power prime m =
     (let g = pSolar m ! prime
      in each_solar (\<lambda>_. is_controllable)
           (\<lambda>i s. set_potential_active_power_limit (case solar_curtailment_state m of
                no_curtailment \<Rightarrow> active_power s
              | partial_curtailment \<Rightarrow> if active_power s < active_power g then active_power g
                                       else active_power s * (1 + curtailment_deadband_percentage m)
              | full_curtailment \<Rightarrow> if i \<noteq> prime then 0 else rated_active_power_kw g) s) m)"

text \<open>\<^verbatim>\<open>numNonPrime\<close> is 0 only when no other inverter is controllable, and then it is not used.\<close>

definition curtailed_share :: "nat \<Rightarrow> solar_manager \<Rightarrow> solar \<Rightarrow> flt" where
  "curtailed_share prime m s =
     (let g = pSolar m ! prime;
          targetPowerWithoutPrime = solarTargetActivePowerkW m - active_power g;
          totalPowerWithoutPrime = solarTotalActivePowerkW m - active_power g
      in if totalPowerWithoutPrime = 0 then targetPowerWithoutPrime / of_int (numSolarControllable m - 1)
         else targetPowerWithoutPrime * (active_power s / totalPowerWithoutPrime))"

definition solar_command :: "nat \<Rightarrow> solar_manager \<Rightarrow> nat \<Rightarrow> solar \<Rightarrow> flt" where
  "solar_command prime m i s = (case solar_curtailment_state m of
       no_curtailment \<Rightarrow> rated_active_power_kw s
     | partial_curtailment \<Rightarrow> if i = prime then rated_active_power_kw s else curtailed_share prime m s
     | full_curtailment \<Rightarrow> if i = prime then solarTargetActivePowerkW m else 0)"

definition calculate_solar_target_active_power :: "nat \<Rightarrow> solar_manager \<Rightarrow> solar_manager" where
  "calculate_solar_target_active_power prime m =
     each_solar (\<lambda>i s. is_controllable s \<or> i = prime \<and> solar_curtailment_state m \<noteq> no_curtailment)
       (\<lambda>i s. solar_set_active_power_setpoint (solar_command prime m i s) s) m"

text \<open>
  The reactive power of the prime inverter and of each other one, such that the apparent power is
  balanced.  \<open>None\<close> where a quotient or a square root of the formula is not a number.
\<close>

definition csqrt :: "flt \<Rightarrow> flt option" where
  "csqrt x = (if x < 0 then None else Some (sqrt x))"

definition prime_kvar :: "flt \<Rightarrow> flt \<Rightarrow> flt \<Rightarrow> flt \<Rightarrow> flt \<Rightarrow> flt option" where
  "prime_kvar spp sps bcp brs tq = do {
     r1 \<leftarrow> fdiv spp sps;
     r2 \<leftarrow> fdiv (sqrt (bcp ^ 2 + tq ^ 2)) brs;
     if r1 > r2 then Some 0
     else do {
       r3 \<leftarrow> fdiv (sqrt (spp ^ 2 + tq ^ 2)) sps;
       r4 \<leftarrow> fdiv bcp brs;
       if r3 < r4 then Some tq
       else if sps \<noteq> brs then do {
         root \<leftarrow> csqrt (brs ^ 2 * sps ^ 2 * spp ^ 2 + brs ^ 2 * sps ^ 2 * bcp ^ 2 + brs ^ 2 * sps ^ 2 * tq ^ 2 - brs ^ 4 * spp ^ 2 - sps ^ 4 * bcp ^ 2);
         fdiv (sps ^ 2 * tq - root) (sps ^ 2 - brs ^ 2) }
       else fdiv (bcp ^ 2 + tq ^ 2 - spp ^ 2) (2 * tq) } }"

definition calculate_solar_reactive_power_commands :: "nat \<Rightarrow> solar_manager \<Rightarrow> (flt \<times> flt) option" where
  "calculate_solar_reactive_power_commands prime m =
     (let g = pSolar m ! prime; tq = \<bar>solarTargetReactivePowerkVAR m\<bar>;
          sign = (if solarTargetReactivePowerkVAR m < 0 then -1 else 1)
      in do {
        spq \<leftarrow> prime_kvar (active_power g) (rated_apparent_power_kva g) (solarTargetActivePowerkW m - active_power g)
                 (solarTotalRatedApparentPower m - rated_apparent_power_kva g) tq;
        let spq = (if spq < 0 then 0 else if spq > tq then tq else spq);
        bnq \<leftarrow> fdiv (tq - spq) (of_int (numSolarControllable m - 1));
        Some (sign * spq, sign * bnq) })"

definition solar_kvar_commands :: "nat \<Rightarrow> solar_manager \<Rightarrow> (flt \<times> flt) option" where
  "solar_kvar_commands prime m =
     (let tq = solarTargetReactivePowerkVAR m; n = numSolarControllable m
      in if tq > 0 then
           if solar_curtailment_state m = no_curtailment then Some (if n > 0 then (tq / of_int n, tq / of_int n) else (0, 0))
           else if n \<le> 1 then Some (tq, 0)
           else calculate_solar_reactive_power_commands prime m
         else Some (0, 0))"

definition calculate_solar_target_reactive_power :: "nat \<Rightarrow> solar_manager \<Rightarrow> solar_manager option" where
  "calculate_solar_target_reactive_power prime m = do {
     (p, c) \<leftarrow> solar_kvar_commands prime m;
     Some (each_solar (\<lambda>i s. i = prime \<or> is_controllable s) (\<lambda>i. solar_set_reactive_power_setpoint (if i = prime then p else c)) m) }"

text \<open>
  A share of a total of 0 is not a number, and the range check of such a value is its upper bound;
  a part that is not 0 of a total of 0 is outside of the model.
\<close>

definition nan_share :: "flt \<Rightarrow> flt \<Rightarrow> flt \<Rightarrow> flt \<Rightarrow> flt option" where
  "nan_share target part whole hi = (if whole \<noteq> 0 then Some (target * (part / whole)) else if part = 0 then Some hi else None)"

definition share_by_rating :: "solar_manager \<Rightarrow> solar \<Rightarrow> solar option" where
  "share_by_rating m s = do {
     p \<leftarrow> nan_share (solarTargetActivePowerkW m) (rated_active_power_kw s) (solarTotalRatedActivePower m) (max_limited_active_power s);
     q \<leftarrow> nan_share (solarTargetReactivePowerkVAR m) (potential_reactive_power s) (solarTotalPotentialReactivePower m) (potential_reactive_power s);
     Some (solar_set_reactive_power_setpoint q (solar_set_active_power_setpoint p (set_potential_active_power_limit (rated_active_power_kw s) s))) }"

definition solar_distribute :: "nat \<Rightarrow> solar_manager \<Rightarrow> solar_manager option" where
  "solar_distribute prime m =
     (if solar_curtailment_enabled m then
        let m = m\<lparr>solar_curtailment_state := find_next_curtailment_state prime m\<rparr>;
            m = calculate_solar_total_potential_active_power prime m;
            m = calculate_solar_target_active_power prime m
        in calculate_solar_target_reactive_power prime m
      else do {
        ss \<leftarrow> those (map (\<lambda>s. if is_controllable s then share_by_rating m s else Some s) (pSolar m));
        Some (m\<lparr>pSolar := ss\<rparr>) })"

definition solar_update_asset_data :: "solar_manager \<Rightarrow> solar_manager option" where
  "solar_update_asset_data m = do {
     let m = m\<lparr>solar_prime_index := solar_prime_inverter_selection m\<rparr>;
     m \<leftarrow> (case solar_prime_index m of
         Some prime \<Rightarrow>
           if numSolarControllable m > 0
           then map_option (\<lambda>m. m\<lparr>pSolar := map solar_update_asset (pSolar m), lastTotalActivePowerkW := solarTotalActivePowerkW m\<rparr>)
                  (solar_distribute prime m)
           else Some m
       | None \<Rightarrow> Some m);
     Some (m\<lparr>pSolar := map solar_update_asset (pSolar m), lastTotalActivePowerkW := solarTotalActivePowerkW m\<rparr>) }"

fun process_solar :: "(nat \<Rightarrow> timespec \<times> timespec \<times> timespec \<times> timespec) \<Rightarrow> nat \<Rightarrow> solar list \<Rightarrow> solar list option" where
  "process_solar ck i [] = Some []"
| "process_solar ck i (s # ss) = (case ck i of (t1, t2, t3, t4) \<Rightarrow> do {
     s \<leftarrow> solar_process_asset t1 t2 t3 t4 s;
     ss \<leftarrow> process_solar ck (Suc i) ss;
     Some (s # ss) })"

definition solar_process_asset_data :: "(nat \<Rightarrow> timespec \<times> timespec \<times> timespec \<times> timespec) \<Rightarrow> solar_manager \<Rightarrow> solar_manager option" where
  "solar_process_asset_data ck m =
     (if pSolar m = [] then Some m else do { ss \<leftarrow> process_solar ck 0 (pSolar m); Some (aggregate_solar_data (m\<lparr>pSolar := ss\<rparr>)) })"

definition enter_standby_all_solar :: "solar_manager \<Rightarrow> solar_manager" where
  "enter_standby_all_solar = each_solar (\<lambda>_. is_controllable) (\<lambda>_ s. snd (solar_enter_standby s))"

definition exit_standby_all_solar :: "solar_manager \<Rightarrow> solar_manager" where
  "exit_standby_all_solar = each_solar (\<lambda>_ s. inStandby s \<and> isAvail s) (\<lambda>_ s. snd (solar_exit_standby s))"

text \<open>Every inverter gets the command, and the answer is whether all of them were sent.\<close>

definition start_all_solar :: "(nat \<Rightarrow> timespec) \<Rightarrow> solar_manager \<Rightarrow> bool \<times> solar_manager" where
  "start_all_solar ck m =
     (\<forall>(i, s) \<in> set (enumerate 0 (pSolar m)). isAvail s \<and> \<not> isRunning s \<longrightarrow> fst (solar_start (ck i) s),
      each_solar (\<lambda>_ s. isAvail s \<and> \<not> isRunning s) (\<lambda>i s. snd (solar_start (ck i) s)) m)"

definition stop_all_solar :: "(nat \<Rightarrow> timespec) \<Rightarrow> solar_manager \<Rightarrow> bool \<times> solar_manager" where
  "stop_all_solar ck m =
     (\<forall>(i, s) \<in> set (enumerate 0 (pSolar m)). fst (solar_stop (ck i) s), each_solar (\<lambda>_ _. True) (\<lambda>i s. snd (solar_stop (ck i) s)) m)"

definition set_solar_target_power_factor :: "flt \<Rightarrow> solar_manager \<Rightarrow> solar_manager" where
  "set_solar_target_power_factor x = each_solar (\<lambda>_ _. True) (\<lambda>_. solar_set_power_factor_setpoint x)"

section \<open>Properties\<close>

lemma shares_exact:
  assumes "prime < length (pSolar m)" "is_controllable (pSolar m ! prime)" "solar_curtailment_state m = partial_curtailment"
    and "solarTotalActivePowerkW m = total_over is_controllable active_power (pSolar m)"
    and "numSolarControllable m = count_of is_controllable (pSolar m)" "1 < numSolarControllable m"
  shows "active_power (pSolar m ! prime) +
    (\<Sum>i | i < length (pSolar m) \<and> is_controllable (pSolar m ! i) \<and> i \<noteq> prime. solar_command prime m i (pSolar m ! i)) = solarTargetActivePowerkW m"
proof -
  let ?ss = "pSolar m"
  let ?A = "{i. i < length ?ss \<and> is_controllable (?ss ! i)}" and ?t = "solarTargetActivePowerkW m - active_power (?ss ! prime)"
  have p: "prime \<in> ?A" and B: "{i. i < length ?ss \<and> is_controllable (?ss ! i) \<and> i \<noteq> prime} = ?A - {prime}" using assms(1,2) by auto
  have w: "solarTotalActivePowerkW m - active_power (?ss ! prime) = (\<Sum>i \<in> ?A - {prime}. active_power (?ss ! i))"
    using sum.remove [OF _ p, of "\<lambda>i. active_power (?ss ! i)"] assms(4) by (simp add: total_over_sum)
  have cancel: "b \<noteq> 0 \<Longrightarrow> a / b * b = a" for a b :: flt by simp
  have c: "card (?A - {prime}) = nat (numSolarControllable m - 1)" using p assms(5) by (simp add: count_of_card nat_diff_distrib')
  have "(\<Sum>i \<in> ?A - {prime}. solar_command prime m i (?ss ! i)) = (\<Sum>i \<in> ?A - {prime}. curtailed_share prime m (?ss ! i))"
    using assms(3) by (intro sum.cong) (auto simp: solar_command_def)
  also have "\<dots> = ?t"
  proof (cases "(\<Sum>i \<in> ?A - {prime}. active_power (?ss ! i)) = 0")
    case True
    then have "curtailed_share prime m s = ?t / of_int (numSolarControllable m - 1)" for s
      using w by (simp add: curtailed_share_def Let_def)
    then show ?thesis using assms(6) c by simp
  next
    case False
    have "(\<Sum>i \<in> ?A - {prime}. curtailed_share prime m (?ss ! i)) =
        (\<Sum>i \<in> ?A - {prime}. ?t / (\<Sum>i \<in> ?A - {prime}. active_power (?ss ! i)) * active_power (?ss ! i))"
      using False unfolding curtailed_share_def Let_def w by (intro sum.cong) simp_all
    also have "\<dots> = ?t / (\<Sum>i \<in> ?A - {prime}. active_power (?ss ! i)) * (\<Sum>i \<in> ?A - {prime}. active_power (?ss ! i))"
      by (rule sum_distrib_left [symmetric])
    also have "\<dots> = ?t" by (rule cancel [OF False])
    finally show ?thesis .
  qed
  finally show ?thesis by (simp add: B)
qed

text \<open>C29. Partial curtailment commands exactly the target: with more than one controllable inverter, among them the prime one, with
  the totals of the last aggregation, and when the share
  of every controllable inverter but the prime one is within its limits, the power the prime inverter produces, which is left
  at its rating, and the setpoints of the other controllable inverters add up to the target power.  (A share outside of
  the limits is cut to them, and a single inverter keeps its rating.)
\<close>
theorem partial_curtailment_exact:
  assumes "prime < length (pSolar m)" "is_controllable (pSolar m ! prime)" "solar_curtailment_state m = partial_curtailment"
    and "solarTotalActivePowerkW m = total_over is_controllable active_power (pSolar m)"
    and "numSolarControllable m = count_of is_controllable (pSolar m)" "1 < numSolarControllable m"
    and "\<forall>i < length (pSolar m). is_controllable (pSolar m ! i) \<and> i \<noteq> prime \<longrightarrow>
      min_limited_active_power (pSolar m ! i) \<le> solar_command prime m i (pSolar m ! i) \<and>
      solar_command prime m i (pSolar m ! i) \<le> max_limited_active_power (pSolar m ! i)"
    and "m' = calculate_solar_target_active_power prime m"
  shows "active_power (pSolar m ! prime) +
      (\<Sum>i | i < length (pSolar m) \<and> is_controllable (pSolar m ! i) \<and> i \<noteq> prime. kW_control (pSolar m' ! i)) = solarTargetActivePowerkW m \<and>
    kW_control (pSolar m' ! prime) = range_check (rated_active_power_kw (pSolar m ! prime))
      (max_limited_active_power (pSolar m ! prime)) (min_limited_active_power (pSolar m ! prime))"
proof -
  have k: "kW_control (pSolar m' ! i) = range_check (solar_command prime m i (pSolar m ! i))
      (max_limited_active_power (pSolar m ! i)) (min_limited_active_power (pSolar m ! i))"
    if "i < length (pSolar m)" "is_controllable (pSolar m ! i)" for i
    using that by (simp add: assms(8) calculate_solar_target_active_power_def each_solar_def nth_enumerate_eq
        solar_set_active_power_setpoint_def kW_control_def set_control_def)
  have "(\<Sum>i | i < length (pSolar m) \<and> is_controllable (pSolar m ! i) \<and> i \<noteq> prime. kW_control (pSolar m' ! i)) =
      (\<Sum>i | i < length (pSolar m) \<and> is_controllable (pSolar m ! i) \<and> i \<noteq> prime. solar_command prime m i (pSolar m ! i))"
    by (intro sum.cong refl) (use assms(7) in \<open>force simp: k range_check_def\<close>)
  with shares_exact [OF assms(1-6)] k [OF assms(1,2)] assms(3) show ?thesis by (simp add: solar_command_def)
qed

text \<open>The reactive power commands of the prime inverter and of the others add up to the requested reactive
  power, and none has the opposite direction.
\<close>
theorem solar_kvar_exact:
  assumes "solar_kvar_commands prime m = Some (p, c)" "0 < solarTargetReactivePowerkVAR m" "1 \<le> numSolarControllable m"
  shows "p + of_int (numSolarControllable m - 1) * c = solarTargetReactivePowerkVAR m \<and> 0 \<le> p \<and> 0 \<le> c"
proof (cases "solar_curtailment_state m = no_curtailment \<or> numSolarControllable m \<le> 1")
  case True
  then have "p = solarTargetReactivePowerkVAR m / of_int (numSolarControllable m) \<and> c = p \<or>
      numSolarControllable m = 1 \<and> p = solarTargetReactivePowerkVAR m \<and> c = 0"
    using assms by (auto simp: solar_kvar_commands_def Let_def split: if_splits)
  then show ?thesis
  proof
    assume "p = solarTargetReactivePowerkVAR m / of_int (numSolarControllable m) \<and> c = p"
    moreover from this have "0 \<le> p" using assms(2,3) by simp
    ultimately show ?thesis using assms(3) by (simp add: field_simps)
  qed (use assms(2) in simp)
next
  case False
  with assms have "calculate_solar_reactive_power_commands prime m = Some (p, c)" by (simp add: solar_kvar_commands_def Let_def)
  then obtain x :: flt where x: "p = (if x < 0 then 0 else if x > solarTargetReactivePowerkVAR m then solarTargetReactivePowerkVAR m else x)"
      and c: "c = (solarTargetReactivePowerkVAR m - p) / of_int (numSolarControllable m - 1)"
    using assms(2) False unfolding calculate_solar_reactive_power_commands_def Let_def
    by (auto simp: fdiv_def split: bind_splits if_splits intro: that [of "- 1"] that [of "solarTargetReactivePowerkVAR m + 1"] that [of p])
  have "p \<le> solarTargetReactivePowerkVAR m" "0 \<le> p" using assms(2) by (auto simp: x)
  then show ?thesis using False by (auto simp: c)
qed

text \<open>C34. A negative reactive target is not carried out under curtailment: every controllable inverter is
  commanded zero, although the computation of the commands gives every sign.
\<close>
theorem negative_solar_kvar_dropped:
  assumes "solarTargetReactivePowerkVAR m < 0" "i < length (pSolar m)" "is_controllable (pSolar m ! i)" "0 \<le> potential_reactive_power (pSolar m ! i)"
  shows "\<exists>m'. calculate_solar_target_reactive_power prime m = Some m' \<and> kVAR_control (pSolar m' ! i) = 0"
  using assms by (auto simp: calculate_solar_target_reactive_power_def solar_kvar_commands_def Let_def each_solar_def nth_enumerate_eq
      kVAR_control_def solar_set_reactive_power_setpoint_def set_control_def range_check_def)

section \<open>A concrete group\<close>

definition demo_solar :: "flt \<Rightarrow> solar" where
  "demo_solar p = asset.extend ((asset.truncate (demo_gen ''pv''))\<lparr>isRunning := True, active_power := p\<rparr>)
     (solar.fields 1 0 0 0 0 1 blank_fims blank_fims 0 0 100 [] [] [] [])"

lemma demo_solar_simps [simp]:
  "is_controllable (demo_solar p)" "active_power (demo_solar p) = p" "potential_reactive_power (demo_solar p) = 50"
  by (simp_all add: demo_solar_def demo_gen_def is_controllable_def get_demand_mode_def asset.defs solar.defs)

definition demo_solar_manager :: "flt \<Rightarrow> flt \<Rightarrow> solar_manager" where
  "demo_solar_manager p q = aggregate_solar_data \<lparr>pSolar = [demo_solar 60, demo_solar 30, demo_solar 10], sol_numAvail = 0, sol_numRunning = 0,
     numSolarControllable = 0, numSolarStartable = 0, numSolarStandby = 0, sol_num_in_local_mode = 0, solarTotalActivePowerkW = 0,
     solarTotalReactivePowerkVAR = 0, solarTotalApparentPowerkVA = 0, solarTotalUncontrollableActivePowerkW = 0,
     solarTotalMaxPotentialActivePower = 0, solarTotalMinPotentialActivePower = 0, solarTotalPotentialReactivePower = 0,
     solarTotalRatedActivePower = 0, solarTotalRatedReactivePower = 0, solarTotalRatedApparentPower = 0, solarTotalNameplateActivePower = 0,
     solarTotalNameplateReactivePower = 0, solarTotalNameplateApparentPower = 0, sol_total_kW_discharge_limit = 0,
     solarTargetActivePowerkW = p, solarTargetReactivePowerkVAR = q, solar_curtailment_enabled = True, solar_curtailment_state = partial_curtailment,
     solar_prime_index = Some 0, curtailment_deadband_percentage = 0, lastTotalActivePowerkW = 0\<rparr>"

lemma demo_solar_manager_simps [simp]:
  "pSolar (demo_solar_manager p q) = [demo_solar 60, demo_solar 30, demo_solar 10]" "numSolarControllable (demo_solar_manager p q) = 3"
  "solarTotalActivePowerkW (demo_solar_manager p q) = 100" "solarTargetActivePowerkW (demo_solar_manager p q) = p"
  "solarTargetReactivePowerkVAR (demo_solar_manager p q) = q" "solar_curtailment_state (demo_solar_manager p q) = partial_curtailment"
  by (simp_all add: demo_solar_manager_def aggregate_solar_data_def Let_def count_of_def total_over_def)

theorem partial_curtailment_exact_witness:
  "60 + (\<Sum>i | i < 3 \<and> is_controllable (pSolar (demo_solar_manager 80 0) ! i) \<and> i \<noteq> 0.
     kW_control (pSolar (calculate_solar_target_active_power 0 (demo_solar_manager 80 0)) ! i)) = 80"
proof -
  let ?m = "demo_solar_manager 80 0"
  have l: "length (pSolar ?m) = 3" by simp
  have lim: "min_limited_active_power (demo_solar p) = 0" "max_limited_active_power (demo_solar p) = 100" for p
    by (simp_all add: demo_solar_def demo_gen_def asset.defs solar.defs)
  have "\<forall>i < length (pSolar ?m). is_controllable (pSolar ?m ! i) \<and> i \<noteq> 0 \<longrightarrow>
      min_limited_active_power (pSolar ?m ! i) \<le> solar_command 0 ?m i (pSolar ?m ! i) \<and>
      solar_command 0 ?m i (pSolar ?m ! i) \<le> max_limited_active_power (pSolar ?m ! i)"
    by (auto simp: less_Suc_eq numeral_3_eq_3 lim solar_command_def curtailed_share_def Let_def)
  with partial_curtailment_exact [of 0 ?m, OF _ _ _ _ _ _ _ refl] show ?thesis unfolding l by (simp add: count_of_def total_over_def)
qed

theorem solar_kvar_exact_witness:
  "\<exists>p c. solar_kvar_commands 0 ((demo_solar_manager 80 30)\<lparr>solar_curtailment_state := no_curtailment\<rparr>) = Some (p, c) \<and> p + 2 * c = 30"
proof -
  let ?m = "(demo_solar_manager 80 30)\<lparr>solar_curtailment_state := no_curtailment\<rparr>"
  obtain p c where k: "solar_kvar_commands 0 ?m = Some (p, c)"
    by (simp add: solar_kvar_commands_def Let_def)
  from solar_kvar_exact [OF k] show ?thesis using k by simp
qed

theorem negative_solar_kvar_dropped_witness:
  "\<exists>m'. calculate_solar_target_reactive_power 0 (demo_solar_manager 80 (- 30)) = Some m' \<and> kVAR_control (pSolar m' ! 1) = 0"
  using negative_solar_kvar_dropped [of "demo_solar_manager 80 (- 30)" 1 0] by simp

end
