(* ===== verification/Feeders.thy ===== *)
theory Feeders
  imports Solar
begin

text \<open>
  Feeders (\<^verbatim>\<open>Asset_Feeder.cpp\<close>) and their manager (\<^verbatim>\<open>Feeder_Manager.cpp\<close>): the breakers of the site, the
  point of interconnect and the feeder that is synchronised before its breaker is closed.  The status
  register of a feeder is its \<^verbatim>\<open>breaker_status\<close>.  A pointer to a feeder is its index in the list.
\<close>

section \<open>A feeder\<close>

record feeder = asset +
  open_value :: int
  close_value :: int
  close_permissive_value :: int
  close_permissive_remove_value :: int
  reset_value :: int
  fd_numPhases :: flt
  fd_power_factor :: flt
  voltage_l1_l2 :: flt
  voltage_l2_l3 :: flt
  voltage_l3_l1 :: flt
  grid_voltage_l1 :: flt
  grid_voltage_l2 :: flt
  grid_voltage_l3 :: flt
  grid_frequency :: flt
  utility_status :: bool
  breaker_close_permissive_status :: bool
  uri_breaker_open :: string
  uri_breaker_close :: string
  uri_breaker_close_permissive :: string
  uri_breaker_close_permissive_remove :: string
  uri_breaker_reset :: string

definition get_breaker_status :: "feeder \<Rightarrow> bool" where
  "get_breaker_status f \<longleftrightarrow> isRunning f \<or> value_bool (fo_value (status_register f))"

definition get_gridside_avg_voltage :: "feeder \<Rightarrow> flt" where
  "get_gridside_avg_voltage f =
     (if fd_numPhases f \<noteq> 0 then (grid_voltage_l1 f + grid_voltage_l2 f + grid_voltage_l3 f) / fd_numPhases f else 0)"

definition get_voltage_avg_line_to_line :: "feeder \<Rightarrow> flt" where
  "get_voltage_avg_line_to_line f =
     (if fd_numPhases f \<noteq> 0 then (voltage_l1_l2 f + voltage_l2_l3 f + voltage_l3_l1 f) / fd_numPhases f else 0)"

definition feeder_send :: "int \<Rightarrow> string \<Rightarrow> feeder \<Rightarrow> bool \<times> feeder" where
  "feeder_send v uri f = send_to_comp_uri (set_int v (Value_Object 0)) uri f"

definition breaker_reset :: "timespec \<Rightarrow> feeder \<Rightarrow> feeder" where
  "breaker_reset now f = clear_alerts now (snd (feeder_send (reset_value f) (uri_breaker_reset f) f))"

definition breaker_close :: "feeder \<Rightarrow> bool \<times> feeder" where
  "breaker_close f = feeder_send (close_value f) (uri_breaker_close f) f"

definition breaker_close_permissive :: "feeder \<Rightarrow> bool \<times> feeder" where
  "breaker_close_permissive f = feeder_send (close_permissive_value f) (uri_breaker_close_permissive f) f"

definition breaker_open :: "feeder \<Rightarrow> bool \<times> feeder" where
  "breaker_open f = feeder_send (open_value f) (uri_breaker_open f) f"

definition breaker_close_permissive_remove :: "feeder \<Rightarrow> bool \<times> feeder" where
  "breaker_close_permissive_remove f = feeder_send (close_permissive_remove_value f) (uri_breaker_close_permissive_remove f) f"

definition feeder_set_active_power_setpoint :: "flt \<Rightarrow> feeder \<Rightarrow> feeder" where
  "feeder_set_active_power_setpoint x f = f\<lparr>kW_setpoint := set_control x (kW_setpoint f)\<rparr>"

text \<open>
  The SET of one variable: the answer, whether the setpoint is passed on to the database, and the
  feeder.  Outside of maintenance the commands to the breaker go to the handler of the generic
  controls, which does not know them.
\<close>

definition feeder_handle_set :: "timespec \<Rightarrow> string \<Rightarrow> cjson \<Rightarrow> feeder \<Rightarrow> bool \<times> bool \<times> feeder" where
  "feeder_handle_set now n v f =
     (if v = JTrue \<and> in_maintenance f \<and> n = ''breaker_close'' then (True, True, snd (breaker_close f))
      else if v = JTrue \<and> in_maintenance f \<and> n = ''breaker_close_permissive''
      then (True, True, snd (breaker_close_permissive (f\<lparr>breaker_close_permissive_status := True\<rparr>)))
      else if v = JTrue \<and> in_maintenance f \<and> n = ''breaker_close_permissive_remove''
      then (True, True, snd (breaker_close_permissive_remove (f\<lparr>breaker_close_permissive_status := False\<rparr>)))
      else if v = JTrue \<and> in_maintenance f \<and> n = ''breaker_open'' then (True, True, snd (breaker_open f))
      else if v = JTrue \<and> n = ''breaker_reset''
      then (True, False, if in_maintenance f then breaker_reset now f else clear_alerts now f)
      else generic_set n v f)"

definition feeder_potential_active_power :: "timespec \<Rightarrow> feeder \<Rightarrow> feeder" where
  "feeder_potential_active_power now f =
     (if \<not> get_breaker_status f then f\<lparr>max_potential_active_power := 0, min_potential_active_power := 0\<rparr>
      else base_potential_active_power now f)"

definition feeder_process_asset :: "timespec \<Rightarrow> timespec \<Rightarrow> timespec \<Rightarrow> feeder \<Rightarrow> feeder option" where
  "feeder_process_asset now now_wd now_slew f = do {
     f \<leftarrow> process_alerts_and_status now now_wd (f\<lparr>raw_status := (if value_bool (fo_value (status_register f)) then 1 else 0)\<rparr>);
     Some (process_potential_reactive_power (feeder_potential_active_power now_slew f)) }"

section \<open>The manager\<close>

record feeder_manager =
  pFeeder :: "feeder list"
  pPointOfInterConnect :: nat
  pSyncFeeder :: "nat option"
  sync_frequency_offset :: flt

abbreviation poi :: "feeder_manager \<Rightarrow> feeder" where
  "poi m \<equiv> pFeeder m ! pPointOfInterConnect m"

definition fm_ask :: "(feeder \<Rightarrow> bool \<times> feeder) \<Rightarrow> nat \<Rightarrow> feeder_manager \<Rightarrow> bool \<times> feeder_manager" where
  "fm_ask f i m = (let (ok, x) = f (pFeeder m ! i) in (ok, m\<lparr>pFeeder := (pFeeder m)[i := x]\<rparr>))"

definition fm_poi_state :: "feeder_manager \<Rightarrow> bool" where
  "fm_poi_state m = get_breaker_status (poi m)"

definition fm_set_poi_open :: "feeder_manager \<Rightarrow> bool \<times> feeder_manager" where
  "fm_set_poi_open m = fm_ask breaker_open (pPointOfInterConnect m) m"

definition fm_set_poi_closed :: "feeder_manager \<Rightarrow> bool \<times> feeder_manager" where
  "fm_set_poi_closed m = fm_ask breaker_close (pPointOfInterConnect m) m"

text \<open>The permissive state is the breaker status, not \<^verbatim>\<open>breaker_close_permissive_status\<close>.\<close>

definition fm_poi_close_permissive_state :: "feeder_manager \<Rightarrow> bool" where
  "fm_poi_close_permissive_state m = get_breaker_status (poi m)"

definition fm_poi_gridside_avg_voltage :: "feeder_manager \<Rightarrow> flt" where
  "fm_poi_gridside_avg_voltage m = get_voltage_avg_line_to_line (poi m)"

text \<open>The queries of the feeder that is synchronised answer -1 without one.\<close>

definition fm_sync_status :: "feeder_manager \<Rightarrow> bool" where
  "fm_sync_status m = (case pSyncFeeder m of Some i \<Rightarrow> get_breaker_status (pFeeder m ! i) | None \<Rightarrow> False)"

definition fm_sync_gridside_frequency :: "feeder_manager \<Rightarrow> flt" where
  "fm_sync_gridside_frequency m = (case pSyncFeeder m of Some i \<Rightarrow> grid_frequency (pFeeder m ! i) | None \<Rightarrow> -1)"

definition fm_sync_frequency_offset :: "feeder_manager \<Rightarrow> flt" where
  "fm_sync_frequency_offset m = (case pSyncFeeder m of Some i \<Rightarrow> sync_frequency_offset m | None \<Rightarrow> -1)"

definition fm_sync_gridside_avg_voltage :: "feeder_manager \<Rightarrow> flt" where
  "fm_sync_gridside_avg_voltage m = (case pSyncFeeder m of Some i \<Rightarrow> get_gridside_avg_voltage (pFeeder m ! i) | None \<Rightarrow> -1)"

definition fm_sync_close_permissive_remove :: "feeder_manager \<Rightarrow> bool \<times> feeder_manager" where
  "fm_sync_close_permissive_remove m = (case pSyncFeeder m of Some i \<Rightarrow> fm_ask breaker_close_permissive_remove i m | None \<Rightarrow> (False, m))"

definition fm_sync_close_permissive :: "feeder_manager \<Rightarrow> bool \<times> feeder_manager" where
  "fm_sync_close_permissive m = (case pSyncFeeder m of Some i \<Rightarrow> fm_ask breaker_close_permissive i m | None \<Rightarrow> (False, m))"

definition fm_find :: "string \<Rightarrow> feeder_manager \<Rightarrow> nat option" where
  "fm_find feeder_ID m = List.find (\<lambda>i. as_id (pFeeder m ! i) = feeder_ID) [0..<length (pFeeder m)]"

definition fm_feeder_reading :: "(feeder \<Rightarrow> flt) \<Rightarrow> flt \<Rightarrow> string \<Rightarrow> feeder_manager \<Rightarrow> flt" where
  "fm_feeder_reading f none feeder_ID m = (case fm_find feeder_ID m of Some i \<Rightarrow> f (pFeeder m ! i) | None \<Rightarrow> none)"

definition fm_feeder_active_power :: "string \<Rightarrow> feeder_manager \<Rightarrow> flt" where
  "fm_feeder_active_power = fm_feeder_reading active_power 0"

definition fm_feeder_reactive_power :: "string \<Rightarrow> feeder_manager \<Rightarrow> flt" where
  "fm_feeder_reactive_power = fm_feeder_reading reactive_power 0"

definition fm_feeder_nameplate_active_power :: "string \<Rightarrow> feeder_manager \<Rightarrow> flt" where
  "fm_feeder_nameplate_active_power = fm_feeder_reading rated_active_power_kw (-1)"

definition fm_avg_ac_voltage :: "string \<Rightarrow> feeder_manager \<Rightarrow> flt" where
  "fm_avg_ac_voltage = fm_feeder_reading get_voltage_avg_line_to_line (-1)"

definition fm_set_poi_target_active_power :: "flt \<Rightarrow> feeder_manager \<Rightarrow> feeder_manager" where
  "fm_set_poi_target_active_power x m =
     m\<lparr>pFeeder := (pFeeder m)[pPointOfInterConnect m := feeder_set_active_power_setpoint x (poi m)]\<rparr>"

fun process_feeders :: "(nat \<Rightarrow> timespec \<times> timespec \<times> timespec) \<Rightarrow> nat \<Rightarrow> feeder list \<Rightarrow> feeder list option" where
  "process_feeders ck i [] = Some []"
| "process_feeders ck i (f # fs) = (case ck i of (t1, t2, t3) \<Rightarrow> do {
     f \<leftarrow> feeder_process_asset t1 t2 t3 f;
     fs \<leftarrow> process_feeders ck (Suc i) fs;
     Some (f # fs) })"

definition feeder_process_asset_data :: "(nat \<Rightarrow> timespec \<times> timespec \<times> timespec) \<Rightarrow> feeder_manager \<Rightarrow> feeder_manager option" where
  "feeder_process_asset_data ck m = map_option (\<lambda>fs. m\<lparr>pFeeder := fs\<rparr>) (process_feeders ck 0 (pFeeder m))"

text \<open>
  The choice of the two feeders from the configuration, whose entries are the arguments: the indices,
  the frequency offset, and whether the validation of the chosen feeder succeeded.  An index outside
  of the feeders is reported but the vector is read at it all the same, and a missing offset is
  reported and then read: both are \<open>None\<close>.
\<close>

definition feeder_at :: "int \<Rightarrow> feeder_manager \<Rightarrow> nat option" where
  "feeder_at i m = (if 0 \<le> i \<and> nat i < length (pFeeder m) then Some (nat i) else None)"

definition feeder_required_variables :: "string list" where
  "feeder_required_variables = [''breaker_status'', ''grid_frequency'', ''active_power'', ''reactive_power'']"

text \<open>The required variables have to be among those the configuration gave a component register.\<close>

definition validate_config :: "string list \<Rightarrow> string list \<Rightarrow> bool" where
  "validate_config required asset_vars = list_all (\<lambda>v. v \<in> set asset_vars) required"

definition validate_poi_feeder_configuration :: "bool \<Rightarrow> string list \<Rightarrow> flt option \<Rightarrow> flt option \<Rightarrow> bool" where
  "validate_poi_feeder_configuration config_validation asset_vars rated slew =
     (config_validation \<longrightarrow> validate_config feeder_required_variables asset_vars \<and> rated \<noteq> None \<and> rated \<noteq> Some 0 \<and> slew \<noteq> None)"

definition configure_feeders :: "int option \<Rightarrow> bool \<Rightarrow> int option \<Rightarrow> flt option \<Rightarrow> feeder_manager \<Rightarrow> (bool \<times> feeder_manager) option" where
  "configure_feeders poi_feeder poi_valid sync_feeder offset m = do {
     (valid, m) \<leftarrow> (case poi_feeder of
         None \<Rightarrow> Some (False, m)
       | Some i \<Rightarrow> map_option (\<lambda>p. (poi_valid, m\<lparr>pPointOfInterConnect := p\<rparr>)) (feeder_at i m));
     (case sync_feeder of
         None \<Rightarrow> Some (valid, m)
       | Some i \<Rightarrow> do { p \<leftarrow> feeder_at i m; x \<leftarrow> offset; Some (valid, m\<lparr>pSyncFeeder := Some p, sync_frequency_offset := x\<rparr>) }) }"

section \<open>Properties\<close>

definition feeders_wf :: "feeder_manager \<Rightarrow> bool" where
  "feeders_wf m \<longleftrightarrow> pPointOfInterConnect m < length (pFeeder m) \<and> (\<forall>i. pSyncFeeder m = Some i \<longrightarrow> i < length (pFeeder m))"

lemma send_to_comp_uri_keeps [simp]:
  "isRunning (snd (send_to_comp_uri v u a)) = isRunning a" "status_register (snd (send_to_comp_uri v u a)) = status_register a"
  by (simp_all add: send_to_comp_uri_def json_object_send_def)

lemma base_potential_keeps [simp]:
  "isRunning (base_potential_active_power t a) = isRunning a" "status_register (base_potential_active_power t a) = status_register a"
  by (simp_all add: base_potential_active_power_def Let_def)

lemma reactive_potential_keeps [simp]:
  "isRunning (process_potential_reactive_power a) = isRunning a" "status_register (process_potential_reactive_power a) = status_register a"
  "max_potential_active_power (process_potential_reactive_power a) = max_potential_active_power a"
  "min_potential_active_power (process_potential_reactive_power a) = min_potential_active_power a"
  by (simp_all add: process_potential_reactive_power_def)

lemma generic_set_messages [simp]:
  "as_msgs (snd (snd (generic_set n v a))) = as_msgs a"
  "breaker_close_permissive_status (snd (snd (generic_set n v f))) = breaker_close_permissive_status f"
  by (simp_all add: generic_set_def handle_generic_asset_controls_set_def set_maint_mode_def set_lock_mode_def as_event_def split: option.splits)

text \<open>
  Outside of maintenance no SET but the reset of the breaker reaches the component: nothing is sent,
  and the permissive to close stays as it was.
\<close>
theorem breaker_commands_need_maintenance:
  assumes "\<not> in_maintenance f" "n \<noteq> ''breaker_reset''"
  shows "as_msgs (snd (snd (feeder_handle_set now n v f))) = as_msgs f \<and>
    breaker_close_permissive_status (snd (snd (feeder_handle_set now n v f))) = breaker_close_permissive_status f"
  using assms by (simp add: feeder_handle_set_def)

text \<open>
  A feeder whose breaker is open offers no power: after its readings were processed both of its
  potentials are zero.
\<close>
theorem open_breaker_no_power:
  assumes "feeder_process_asset now now_wd now_slew f = Some f'" "\<not> get_breaker_status f'"
  shows "max_potential_active_power f' = 0 \<and> min_potential_active_power f' = 0"
  using assms
  by (auto simp: feeder_process_asset_def feeder_potential_active_power_def get_breaker_status_def split: bind_splits if_splits)

text \<open>
  A configuration that is accepted gives feeders that exist, and every request to the point of
  interconnect or to the feeder that is synchronised keeps them so.
\<close>
theorem configured_feeders_exist:
  assumes "configure_feeders poi_feeder poi_valid sync_feeder offset m = Some (True, m')" "pSyncFeeder m = None"
  shows "feeders_wf m' \<and> feeders_wf (snd (fm_set_poi_open m')) \<and> feeders_wf (snd (fm_sync_close_permissive m'))"
  using assms
  by (auto simp: configure_feeders_def feeders_wf_def feeder_at_def fm_set_poi_open_def fm_sync_close_permissive_def fm_ask_def
      split: option.splits if_splits bind_splits prod.splits)

text \<open>
  An index of the point of interconnect outside of the feeders is not a configuration error that is
  reported: the vector is read out of range.
\<close>
theorem feeder_index_unchecked:
  "configure_feeders (Some i) poi_valid sync_feeder offset m = None"
  if "i < 0 \<or> int (length (pFeeder m)) \<le> i"
  using that by (auto simp: configure_feeders_def feeder_at_def)

section \<open>A concrete feeder\<close>

definition demo_feeder :: "string \<Rightarrow> feeder" where
  "demo_feeder n = asset.extend (asset.truncate ((demo_gen n)\<lparr>running_status_mask := 1\<rparr>))
     (feeder.fields 0 1 1 0 1 3 1 480 480 480 480 480 480 60 True False ''/components/f/open'' ''/components/f/close'' ''/components/f/permit'' ''/components/f/forbid'' ''/components/f/reset'')"

definition demo_feeders :: feeder_manager where
  "demo_feeders = \<lparr>pFeeder = [demo_feeder ''poi'', demo_feeder ''sync''], pPointOfInterConnect = 0, pSyncFeeder = None, sync_frequency_offset = 0\<rparr>"

lemma demo_feeder_simps [simp]:
  "in_maintenance (demo_feeder n) = False" "as_msgs (demo_feeder n) = []" "status_register (demo_feeder n) = blank_fims"
  by (simp_all add: demo_feeder_def demo_gen_def asset.defs feeder.defs)

theorem breaker_commands_need_maintenance_witness:
  "as_msgs (snd (snd (feeder_handle_set (mk_ts 0 0) ''breaker_open'' JTrue (demo_feeder ''poi'')))) = []"
  using breaker_commands_need_maintenance [of "demo_feeder ''poi''" "''breaker_open''"] by simp

lemma demo_feeder_processed: "\<exists>f'. feeder_process_asset (mk_ts 1 0) (mk_ts 1 0) (mk_ts 1 0) (demo_feeder ''poi'') = Some f' \<and> \<not> get_breaker_status f'"
  by (simp add: feeder_process_asset_def process_alerts_and_status_def demo_feeder_def demo_gen_def asset.defs feeder.defs blank_fims_def Value_Object_def
      process_local_mode_status_def process_faults_def process_status_def process_watchdog_status_def set_availability_def status_matches_def
      get_num_active_faults_def get_num_active_alarms_def get_breaker_status_def feeder_potential_active_power_def Let_def)

theorem open_breaker_no_power_witness:
  "\<exists>f'. feeder_process_asset (mk_ts 1 0) (mk_ts 1 0) (mk_ts 1 0) (demo_feeder ''poi'') = Some f' \<and> max_potential_active_power f' = 0"
proof -
  obtain f' where f: "feeder_process_asset (mk_ts 1 0) (mk_ts 1 0) (mk_ts 1 0) (demo_feeder ''poi'') = Some f'" "\<not> get_breaker_status f'"
    using demo_feeder_processed by blast
  from open_breaker_no_power [OF this] f show ?thesis by simp
qed

theorem configured_feeders_exist_witness:
  "\<exists>m'. configure_feeders (Some 0) True (Some 1) (Some (1/2)) demo_feeders = Some (True, m') \<and> feeders_wf m'"
proof -
  obtain m' where m: "configure_feeders (Some 0) True (Some 1) (Some (1/2)) demo_feeders = Some (True, m')"
    by (simp add: configure_feeders_def feeder_at_def demo_feeders_def)
  from configured_feeders_exist [OF this] m show ?thesis by (simp add: demo_feeders_def)
qed

theorem feeder_index_unchecked_witness: "configure_feeders (Some 2) True None None demo_feeders = None"
  by (rule feeder_index_unchecked) (simp add: demo_feeders_def)

end
