(* ===== verification/Asset_Group.thy ===== *)
theory Asset_Group
  imports Generator_Group Storage_Group Feeders Site_Functions
begin

text \<open>
  What the managers share (\<^verbatim>\<open>Type_Manager.cpp\<close>) and the asset manager (\<^verbatim>\<open>Asset_Manager.cpp\<close>), which holds
  the four managers and forwards the requests and queries of the site to them: the record of requests
  and queries the site is modelled over, given by the models of the managers.
\<close>

section \<open>What the managers share\<close>

definition tm_clear_faults :: "(nat \<Rightarrow> timespec) \<Rightarrow> 'm asset_scheme list \<Rightarrow> 'm asset_scheme list" where
  "tm_clear_faults ck as = map (\<lambda>(i, a). clear_alerts (ck i) a) (enumerate 0 as)"

definition tm_set_reactive_power_priority :: "bool \<Rightarrow> 'm asset_scheme list \<Rightarrow> 'm asset_scheme list" where
  "tm_set_reactive_power_priority b = map (\<lambda>a. a\<lparr>reactive_power_priority := b\<rparr>)"

definition tm_num_active_alarms :: "'m asset_scheme list \<Rightarrow> int" where
  "tm_num_active_alarms as = sum_list (map get_num_active_alarms as)"

definition tm_num_alarmed :: "'m asset_scheme list \<Rightarrow> int" where
  "tm_num_alarmed = count_of (\<lambda>a. get_num_active_alarms a > 0)"

definition tm_num_active_faults :: "'m asset_scheme list \<Rightarrow> int" where
  "tm_num_active_faults as = sum_list (map get_num_active_faults as)"

definition tm_num_faulted :: "'m asset_scheme list \<Rightarrow> int" where
  "tm_num_faulted = count_of (\<lambda>a. get_num_active_faults a > 0)"

definition tm_check_asset_for_alert :: "string \<Rightarrow> string \<Rightarrow> 64 word \<Rightarrow> 'm asset_scheme list \<Rightarrow> bool" where
  "tm_check_asset_for_alert asset_id alert_id msk as =
     (\<exists>a \<in> set as. (asset_id = as_id a \<or> asset_id = ''aggregate'') \<and> check_alert alert_id msk a)"

definition get_asset_instance :: "string \<Rightarrow> 'm asset_scheme list \<Rightarrow> nat option" where
  "get_asset_instance asset_id as = List.find (\<lambda>i. asset_id = as_id (as ! i)) [0..<length as]"

text \<open>
  The fragment reaches to the end of the URI.  One of exactly 128 characters passes the length check
  and its terminator is written behind the copy: \<open>None\<close>.
\<close>

definition get_asset_instance_using_uri_frags :: "string \<Rightarrow> 'm asset_scheme list \<Rightarrow> nat option option" where
  "get_asset_instance_using_uri_frags frag as =
     (if length frag > 128 then Some None
      else if length frag = 128 then None
      else Some (get_asset_instance (takeWhile (\<lambda>c. c \<noteq> CHR ''/'') frag) as))"

section \<open>The asset manager\<close>

text \<open>
  \<open>am_readings\<close> gives the clock readings of the assets, by the number of the request and by the index
  of the asset.
\<close>

record asset_manager =
  ess_manager_of :: ess_manager
  feeder_manager_of :: feeder_manager
  generator_manager_of :: gen_manager
  solar_manager_of :: solar_manager
  am_is_primary :: bool
  am_readings :: "nat \<Rightarrow> nat \<Rightarrow> timespec"
  am_calls :: nat

abbreviation esss :: "asset_manager \<Rightarrow> ess list" where "esss a \<equiv> pEss (ess_manager_of a)"
abbreviation feeds :: "asset_manager \<Rightarrow> feeder list" where "feeds a \<equiv> pFeeder (feeder_manager_of a)"
abbreviation gens :: "asset_manager \<Rightarrow> generator list" where "gens a \<equiv> pGens (generator_manager_of a)"
abbreviation solars :: "asset_manager \<Rightarrow> solar list" where "solars a \<equiv> pSolar (solar_manager_of a)"

definition to_ess :: "(ess_manager \<Rightarrow> bool \<times> ess_manager) \<Rightarrow> asset_manager \<Rightarrow> bool \<times> asset_manager" where
  "to_ess f a = (let (b, m) = f (ess_manager_of a) in (b, a\<lparr>ess_manager_of := m\<rparr>))"

definition to_gen :: "(gen_manager \<Rightarrow> bool \<times> gen_manager) \<Rightarrow> asset_manager \<Rightarrow> bool \<times> asset_manager" where
  "to_gen f a = (let (b, m) = f (generator_manager_of a) in (b, a\<lparr>generator_manager_of := m\<rparr>))"

definition to_solar :: "(solar_manager \<Rightarrow> bool \<times> solar_manager) \<Rightarrow> asset_manager \<Rightarrow> bool \<times> asset_manager" where
  "to_solar f a = (let (b, m) = f (solar_manager_of a) in (b, a\<lparr>solar_manager_of := m\<rparr>))"

definition to_feeder :: "(feeder_manager \<Rightarrow> bool \<times> feeder_manager) \<Rightarrow> asset_manager \<Rightarrow> bool \<times> asset_manager" where
  "to_feeder f a = (let (b, m) = f (feeder_manager_of a) in (b, a\<lparr>feeder_manager_of := m\<rparr>))"

definition told :: "('m \<Rightarrow> 'm) \<Rightarrow> 'm \<Rightarrow> bool \<times> 'm" where
  "told f m = (True, f m)"

definition site_clear_faults :: "(nat \<Rightarrow> timespec) \<Rightarrow> asset_manager \<Rightarrow> asset_manager" where
  "site_clear_faults ck a =
     (let a = a\<lparr>generator_manager_of := upd_gens (tm_clear_faults ck) (generator_manager_of a)\<rparr>;
          a = a\<lparr>ess_manager_of := (ess_manager_of a)\<lparr>pEss := tm_clear_faults ck (esss a)\<rparr>\<rparr>;
          a = a\<lparr>solar_manager_of := (solar_manager_of a)\<lparr>pSolar := tm_clear_faults ck (solars a)\<rparr>\<rparr>
      in a\<lparr>feeder_manager_of := (feeder_manager_of a)\<lparr>pFeeder := tm_clear_faults ck (feeds a)\<rparr>\<rparr>)"

text \<open>The breaker of a feeder that was not found is not asked: the site validates the id before.\<close>

definition ask_feeder :: "(feeder \<Rightarrow> bool \<times> feeder) \<Rightarrow> string \<Rightarrow> feeder_manager \<Rightarrow> bool \<times> feeder_manager" where
  "ask_feeder f i m = (case fm_find i m of Some k \<Rightarrow> fm_ask f k m | None \<Rightarrow> (False, m))"

definition am_forward :: "(nat \<Rightarrow> timespec) \<Rightarrow> am_request \<Rightarrow> asset_manager \<Rightarrow> bool \<times> asset_manager" where
  "am_forward ck q = (case q of
       Start_all_ess \<Rightarrow> to_ess (told (start_all_ess ck))
     | Stop_all_ess \<Rightarrow> to_ess (told (stop_all_ess ck))
     | Set_all_ess_grid_form \<Rightarrow> to_ess (told (set_all_ess_grid FORMING))
     | Set_all_ess_grid_follow \<Rightarrow> to_ess (told (set_all_ess_grid FOLLOWING))
     | Set_grid_forming_voltage_slew x \<Rightarrow> to_ess (told (set_grid_forming_voltage_slew x))
     | Open_all_bms_contactors \<Rightarrow> to_ess (told open_all_bms_contactors)
     | Close_all_bms_contactors \<Rightarrow> to_ess (told close_all_bms_contactors)
     | Set_ess_voltage_setpoint x \<Rightarrow> to_ess (told (set_ess_voltage_setpoint x))
     | Set_ess_frequency_setpoint x \<Rightarrow> to_ess (told (set_ess_frequency_setpoint x))
     | Set_min_generators_active n \<Rightarrow> to_gen (told (upd_ld (\<lambda>l. l\<lparr>min_generators_active := n\<rparr>)))
     | Direct_start_gen \<Rightarrow> to_gen (direct_start_gen ck)
     | Start_all_gen \<Rightarrow> to_gen (told (start_all_gen ck))
     | Stop_all_gen \<Rightarrow> to_gen (stop_all_gen ck)
     | Set_all_gen_grid_follow \<Rightarrow> to_gen (told (set_all_gen_grid FOLLOWING))
     | Set_all_gen_grid_form \<Rightarrow> to_gen (told (set_all_gen_grid FORMING))
     | Start_all_solar \<Rightarrow> to_solar (start_all_solar ck)
     | Stop_all_solar \<Rightarrow> to_solar (stop_all_solar ck)
     | Set_poi_feeder_state_open \<Rightarrow> to_feeder fm_set_poi_open
     | Set_poi_feeder_state_closed \<Rightarrow> to_feeder fm_set_poi_closed
     | Set_sync_feeder_close_permissive_remove \<Rightarrow> to_feeder fm_sync_close_permissive_remove
     | Set_sync_feeder_close_permissive \<Rightarrow> to_feeder fm_sync_close_permissive
     | Set_feeder_state_open i \<Rightarrow> to_feeder (ask_feeder breaker_open i)
     | Set_feeder_state_closed i \<Rightarrow> to_feeder (ask_feeder breaker_close i)
     | Site_clear_faults \<Rightarrow> told (site_clear_faults ck))"

definition am_request_call :: "am_request \<Rightarrow> asset_manager \<Rightarrow> bool \<times> asset_manager" where
  "am_request_call q a = am_forward (am_readings a (am_calls a)) q (a\<lparr>am_calls := am_calls a + 1\<rparr>)"

definition asset_alert :: "asset_manager \<Rightarrow> string \<Rightarrow> string \<Rightarrow> string \<Rightarrow> 64 word \<Rightarrow> bool" where
  "asset_alert a ty asset_id alert_id msk =
     (if ty = ''ess'' then tm_check_asset_for_alert asset_id alert_id msk (esss a)
      else if ty = ''solar'' then tm_check_asset_for_alert asset_id alert_id msk (solars a)
      else if ty = ''generators'' then tm_check_asset_for_alert asset_id alert_id msk (gens a)
      else if ty = ''feeders'' then tm_check_asset_for_alert asset_id alert_id msk (feeds a) else False)"

definition type_faults :: "asset_manager \<Rightarrow> asset_type \<Rightarrow> int" where
  "type_faults a ty = (case ty of ESS \<Rightarrow> tm_num_active_faults (esss a) | FEEDERS \<Rightarrow> tm_num_active_faults (feeds a)
     | GENERATORS \<Rightarrow> tm_num_active_faults (gens a) | SOLAR \<Rightarrow> tm_num_active_faults (solars a))"

definition type_alarms :: "asset_manager \<Rightarrow> asset_type \<Rightarrow> int" where
  "type_alarms a ty = (case ty of ESS \<Rightarrow> tm_num_active_alarms (esss a) | FEEDERS \<Rightarrow> tm_num_active_alarms (feeds a)
     | GENERATORS \<Rightarrow> tm_num_active_alarms (gens a) | SOLAR \<Rightarrow> tm_num_active_alarms (solars a))"

text \<open>The manager of the feeders never counts them: its counts stay at 0.\<close>

definition type_running :: "asset_manager \<Rightarrow> asset_type \<Rightarrow> int" where
  "type_running a ty = (case ty of ESS \<Rightarrow> ess_numRunning (ess_manager_of a) | FEEDERS \<Rightarrow> 0
     | GENERATORS \<Rightarrow> numRunning (generator_manager_of a) | SOLAR \<Rightarrow> sol_numRunning (solar_manager_of a))"

definition type_avail :: "asset_manager \<Rightarrow> asset_type \<Rightarrow> int" where
  "type_avail a ty = (case ty of ESS \<Rightarrow> ess_numAvail (ess_manager_of a) | FEEDERS \<Rightarrow> 0
     | GENERATORS \<Rightarrow> numAvail (generator_manager_of a) | SOLAR \<Rightarrow> sol_numAvail (solar_manager_of a))"

definition type_controllable :: "asset_manager \<Rightarrow> asset_type \<Rightarrow> int" where
  "type_controllable a ty = (case ty of ESS \<Rightarrow> numEssControllable (ess_manager_of a) | FEEDERS \<Rightarrow> 0
     | GENERATORS \<Rightarrow> numGenControllable (generator_manager_of a) | SOLAR \<Rightarrow> numSolarControllable (solar_manager_of a))"

definition feeder_valid :: "asset_manager \<Rightarrow> string \<Rightarrow> bool" where
  "feeder_valid a i \<longleftrightarrow> fm_find i (feeder_manager_of a) \<noteq> None"

definition feeder_query :: "(feeder \<Rightarrow> bool) \<Rightarrow> string \<Rightarrow> asset_manager \<Rightarrow> bool" where
  "feeder_query f i a = (case fm_find i (feeder_manager_of a) of Some k \<Rightarrow> f (feeds a ! k) | None \<Rightarrow> False)"

text \<open>The reserved variables belong to the site and are an argument.\<close>

definition managed_view :: "(int \<Rightarrow> bool \<times> string) \<Rightarrow> asset_manager \<Rightarrow> asset_view" where
  "managed_view reserved a = asset_view.make (type_faults a) (type_alarms a) (type_running a) (type_avail a)
     (type_controllable a) (asset_alert a) (feeder_valid a) (\<lambda>i. feeder_query get_breaker_status i a) reserved"

definition managed_assets :: "(int \<Rightarrow> bool \<times> string) \<Rightarrow> asset_manager am_env" where
  "managed_assets reserved = am_env.make am_request_call (managed_view reserved)
     (\<lambda>a. fm_sync_status (feeder_manager_of a)) (\<lambda>a. fm_poi_state (feeder_manager_of a)) (feeder_query utility_status)
     (\<lambda>a. fm_sync_gridside_avg_voltage (feeder_manager_of a)) (\<lambda>a. fm_sync_gridside_frequency (feeder_manager_of a))
     (\<lambda>a. fm_sync_frequency_offset (feeder_manager_of a))"

section \<open>Other requests and the cycle\<close>

definition start_available_solar :: "(nat \<Rightarrow> timespec) \<Rightarrow> asset_manager \<Rightarrow> asset_manager" where
  "start_available_solar ck a =
     (let a = (if numSolarStartable (solar_manager_of a) > 0 then snd (to_solar (start_all_solar ck) a) else a)
      in if numSolarStandby (solar_manager_of a) > 0 then snd (to_solar (told exit_standby_all_solar) a) else a)"

definition start_available_ess :: "(nat \<Rightarrow> timespec) \<Rightarrow> asset_manager \<Rightarrow> asset_manager" where
  "start_available_ess ck a =
     (let a = (if numEssStartable (ess_manager_of a) > 0 then snd (to_ess (told (start_all_ess ck)) a) else a)
      in if numEssStandby (ess_manager_of a) > 0 then snd (to_ess (told exit_standby_all_ess) a) else a)"

definition am_set_reactive_power_priority :: "bool \<Rightarrow> asset_manager \<Rightarrow> asset_manager" where
  "am_set_reactive_power_priority b a =
     a\<lparr>ess_manager_of := (ess_manager_of a)\<lparr>pEss := tm_set_reactive_power_priority b (esss a)\<rparr>,
       generator_manager_of := upd_gens (tm_set_reactive_power_priority b) (generator_manager_of a),
       solar_manager_of := (solar_manager_of a)\<lparr>pSolar := tm_set_reactive_power_priority b (solars a)\<rparr>\<rparr>"

definition ess_in_maint_mode :: "nat \<Rightarrow> ess_manager \<Rightarrow> bool" where
  "ess_in_maint_mode i m \<longleftrightarrow> i < length (pEss m) \<and> in_maintenance (pEss m ! i)"

text \<open>The modes of the solar inverters: which of them get the new one is decided by the storage of the same index.\<close>

definition am_set_solar_mode :: "powerMode \<Rightarrow> asset_manager \<Rightarrow> asset_manager" where
  "am_set_solar_mode md a = snd (to_solar (told (each_solar (\<lambda>i _. ess_in_maint_mode i (ess_manager_of a)) (\<lambda>_. solar_set_power_mode md))) a)"

definition am_total_kW_discharge_limit :: "asset_manager \<Rightarrow> flt option" where
  "am_total_kW_discharge_limit a = map_option (\<lambda>e. e + total_kW_discharge_limit (generator_manager_of a) + sol_total_kW_discharge_limit (solar_manager_of a))
     (ess_total_kW_discharge_limit (ess_manager_of a))"

record process_clocks =
  pc_ess :: "nat \<Rightarrow> (ess \<Rightarrow> ess) \<times> timespec \<times> timespec \<times> timespec"
  pc_feeder :: "nat \<Rightarrow> timespec \<times> timespec \<times> timespec"
  pc_gen :: "nat \<Rightarrow> timespec \<times> timespec \<times> timespec"
  pc_solar :: "nat \<Rightarrow> timespec \<times> timespec \<times> timespec \<times> timespec"

definition am_process_asset_data :: "process_clocks \<Rightarrow> asset_manager \<Rightarrow> asset_manager option" where
  "am_process_asset_data ck a = do {
     e \<leftarrow> ess_process_asset_data (pc_ess ck) (ess_manager_of a);
     f \<leftarrow> feeder_process_asset_data (pc_feeder ck) (feeder_manager_of a);
     g \<leftarrow> process_asset_data (pc_gen ck) (generator_manager_of a);
     s \<leftarrow> solar_process_asset_data (pc_solar ck) (solar_manager_of a);
     Some (a\<lparr>ess_manager_of := e, feeder_manager_of := f, generator_manager_of := g, solar_manager_of := s\<rparr>) }"

text \<open>Load dependent start/stop reads the average state of charge of the storage.\<close>

definition am_update_asset_data :: "gen_clocks \<Rightarrow> asset_manager \<Rightarrow> asset_manager option" where
  "am_update_asset_data ck a = do {
     e \<leftarrow> (if esss a \<noteq> [] then ess_update_asset_data (ess_manager_of a) else Some (ess_manager_of a));
     let g = (if gens a \<noteq> [] then update_asset_data ck (controllableEssAvgSoc e) (generator_manager_of a) else generator_manager_of a);
     s \<leftarrow> (if solars a \<noteq> [] then solar_update_asset_data (solar_manager_of a) else Some (solar_manager_of a));
     Some (a\<lparr>ess_manager_of := e, generator_manager_of := g, solar_manager_of := s\<rparr>) }"

definition each_index :: "(nat \<Rightarrow> 'b \<Rightarrow> 'b) \<Rightarrow> 'b list \<Rightarrow> 'b list" where
  "each_index f xs = map (\<lambda>(i, x). f i x) (enumerate 0 xs)"

text \<open>Nothing is sent to feeders.\<close>

definition am_send_to_components :: "(nat \<Rightarrow> timespec \<times> timespec \<times> timespec) \<Rightarrow> (nat \<Rightarrow> timespec \<times> timespec) \<Rightarrow>
    (nat \<Rightarrow> timespec \<times> timespec) \<Rightarrow> asset_manager \<Rightarrow> asset_manager" where
  "am_send_to_components cke ckg cks a =
     (if am_is_primary a then
        a\<lparr>ess_manager_of := (ess_manager_of a)\<lparr>pEss := each_index (\<lambda>i. case cke i of (t1, t2, t3) \<Rightarrow> ess_send_to_components t1 t2 t3) (esss a)\<rparr>,
          generator_manager_of := upd_gens (each_index (\<lambda>i. case ckg i of (t1, t2) \<Rightarrow> gen_send_to_components t1 t2)) (generator_manager_of a),
          solar_manager_of := (solar_manager_of a)\<lparr>pSolar := each_index (\<lambda>i. case cks i of (t1, t2) \<Rightarrow> solar_send_to_components t1 t2) (solars a)\<rparr>\<rparr>
      else a)"

section \<open>SETs to assets\<close>

text \<open>
  The fragments of a URI reach to its end, so a type is recognised by its beginning.  The answer to a
  SET; one to an action of an asset goes to the handler of its actions.
\<close>

definition get_type_manager :: "string \<Rightarrow> asset_type option" where
  "get_type_manager frag =
     (if take 3 frag = ''ess'' then Some ESS else if take 5 frag = ''solar'' then Some SOLAR
      else if take 10 frag = ''generators'' then Some GENERATORS else if take 7 frag = ''feeders'' then Some FEEDERS else None)"

datatype set_reply = Set_Ignored | Set_Invalid_URI | Set_Invalid_Asset_Type | Set_Asset_Not_Found | Set_Parse_Error
  | Set_To_Actions asset_type nat | Set_Done bool

definition find_asset :: "asset_type \<Rightarrow> string \<Rightarrow> asset_manager \<Rightarrow> nat option option" where
  "find_asset ty frag a = (case ty of ESS \<Rightarrow> get_asset_instance_using_uri_frags frag (esss a)
     | SOLAR \<Rightarrow> get_asset_instance_using_uri_frags frag (solars a)
     | GENERATORS \<Rightarrow> get_asset_instance_using_uri_frags frag (gens a)
     | FEEDERS \<Rightarrow> get_asset_instance_using_uri_frags frag (feeds a))"

definition set_asset :: "timespec \<Rightarrow> asset_type \<Rightarrow> nat \<Rightarrow> string \<Rightarrow> cjson \<Rightarrow> asset_manager \<Rightarrow> bool \<times> asset_manager" where
  "set_asset now ty i n v a = (case ty of
       ESS \<Rightarrow> (let (ok, _, e) = ess_handle_set now n v (esss a ! i)
               in (ok, a\<lparr>ess_manager_of := (ess_manager_of a)\<lparr>pEss := (esss a)[i := e]\<rparr>\<rparr>))
     | SOLAR \<Rightarrow> (let (ok, _, s) = solar_handle_set now n v (solars a ! i)
                 in (ok, a\<lparr>solar_manager_of := (solar_manager_of a)\<lparr>pSolar := (solars a)[i := s]\<rparr>\<rparr>))
     | FEEDERS \<Rightarrow> (let (ok, _, f) = feeder_handle_set now n v (feeds a ! i)
                   in (ok, a\<lparr>feeder_manager_of := (feeder_manager_of a)\<lparr>pFeeder := (feeds a)[i := f]\<rparr>\<rparr>))
     | GENERATORS \<Rightarrow> to_gen (gen_type_handle_set now (Some i) n v) a)"

definition am_handle_set :: "timespec \<Rightarrow> string list \<Rightarrow> cjson option \<Rightarrow> asset_manager \<Rightarrow> (set_reply \<times> asset_manager) option" where
  "am_handle_set now frags body a = (case frags of
       frag # rest \<Rightarrow>
         if take 6 frag \<noteq> ''assets'' then Some (Set_Ignored, a)
         else if length frags \<noteq> 4 \<and> \<not> (length frags = 6 \<and> take 7 (frags ! 3) = ''actions'') then Some (Set_Invalid_URI, a)
         else (case get_type_manager (frags ! 1) of
             None \<Rightarrow> Some (Set_Invalid_Asset_Type, a)
           | Some ty \<Rightarrow> do {
               target \<leftarrow> find_asset ty (frags ! 2) a;
               Some (case target of
                   None \<Rightarrow> (Set_Asset_Not_Found, a)
                 | Some i \<Rightarrow> (case body of
                       None \<Rightarrow> (Set_Parse_Error, a)
                     | Some v \<Rightarrow> if take 7 (frags ! 3) = ''actions'' then (Set_To_Actions ty i, a)
                                 else (let (ok, a) = set_asset now ty i (frags ! 3) v a in (Set_Done ok, a)))) })
     | [] \<Rightarrow> Some (Set_Ignored, a))"

section \<open>Properties\<close>

definition request_kind :: "am_request \<Rightarrow> asset_type option" where
  "request_kind q = (case q of
       Set_min_generators_active _ \<Rightarrow> Some GENERATORS | Direct_start_gen \<Rightarrow> Some GENERATORS | Start_all_gen \<Rightarrow> Some GENERATORS
     | Stop_all_gen \<Rightarrow> Some GENERATORS | Set_all_gen_grid_follow \<Rightarrow> Some GENERATORS | Set_all_gen_grid_form \<Rightarrow> Some GENERATORS
     | Start_all_solar \<Rightarrow> Some SOLAR | Stop_all_solar \<Rightarrow> Some SOLAR
     | Set_poi_feeder_state_open \<Rightarrow> Some FEEDERS | Set_poi_feeder_state_closed \<Rightarrow> Some FEEDERS
     | Set_sync_feeder_close_permissive_remove \<Rightarrow> Some FEEDERS | Set_sync_feeder_close_permissive \<Rightarrow> Some FEEDERS
     | Set_feeder_state_open _ \<Rightarrow> Some FEEDERS | Set_feeder_state_closed _ \<Rightarrow> Some FEEDERS
     | Site_clear_faults \<Rightarrow> None | _ \<Rightarrow> Some ESS)"

lemma to_kind_simps [simp]:
  "feeder_manager_of (snd (to_ess f1 a)) = feeder_manager_of a" "generator_manager_of (snd (to_ess f1 a)) = generator_manager_of a"
  "solar_manager_of (snd (to_ess f1 a)) = solar_manager_of a"
  "ess_manager_of (snd (to_gen f2 a)) = ess_manager_of a" "feeder_manager_of (snd (to_gen f2 a)) = feeder_manager_of a"
  "solar_manager_of (snd (to_gen f2 a)) = solar_manager_of a"
  "ess_manager_of (snd (to_solar f3 a)) = ess_manager_of a" "feeder_manager_of (snd (to_solar f3 a)) = feeder_manager_of a"
  "generator_manager_of (snd (to_solar f3 a)) = generator_manager_of a"
  "ess_manager_of (snd (to_feeder f4 a)) = ess_manager_of a" "generator_manager_of (snd (to_feeder f4 a)) = generator_manager_of a"
  "solar_manager_of (snd (to_feeder f4 a)) = solar_manager_of a"
  by (simp_all add: to_ess_def to_gen_def to_solar_def to_feeder_def split_beta)

text \<open>
  A request to one kind of assets leaves the assets of the other kinds as they are.
\<close>
theorem requests_keep_other_kinds:
  assumes "request_kind q = Some k"
  shows "(k \<noteq> ESS \<longrightarrow> ess_manager_of (snd (am_request_call q a)) = ess_manager_of a) \<and>
    (k \<noteq> GENERATORS \<longrightarrow> generator_manager_of (snd (am_request_call q a)) = generator_manager_of a) \<and>
    (k \<noteq> SOLAR \<longrightarrow> solar_manager_of (snd (am_request_call q a)) = solar_manager_of a) \<and>
    (k \<noteq> FEEDERS \<longrightarrow> feeder_manager_of (snd (am_request_call q a)) = feeder_manager_of a)"
  using assms by (cases q) (auto simp: request_kind_def am_request_call_def am_forward_def)

lemma clear_faults_flags:
  "list_all clear_fault_registers_flag (tm_clear_faults ck as)" "length (tm_clear_faults ck as) = length as"
  by (auto simp: tm_clear_faults_def list_all_iff clear_alerts_def split_beta)

lemma managed_assets_simps [simp]:
  "am_call (managed_assets r) = am_request_call" "am_view (managed_assets r) = managed_view r"
  by (simp_all add: managed_assets_def am_env.defs)

lemma am_of_alerts [simp]: "am (site_emit x m sv s) = am s" "am (snd (read_clock s)) = am s"
  by (simp_all add: site_emit_def upd_alerts_def upd_pw_def read_clock_def split_beta)

text \<open>C18. Clearing the faults of the site reaches every asset of every kind: each is asked to clear its
  alerts, and none is lost.
\<close>
theorem site_clear_reaches_every_asset:
  "let a' = am (clear_faults (managed_assets r) s) in
     list_all clear_fault_registers_flag (esss a') \<and> list_all clear_fault_registers_flag (gens a') \<and>
     list_all clear_fault_registers_flag (solars a') \<and> list_all clear_fault_registers_flag (feeds a') \<and>
     length (esss a') = length (esss (am s)) \<and> length (gens a') = length (gens (am s)) \<and>
     length (solars a') = length (solars (am s)) \<and> length (feeds a') = length (feeds (am s))"
  by (simp add: clear_faults_def Let_def split_beta ask_def am_request_call_def am_forward_def told_def site_clear_faults_def
      upd_gens_def upd_ld_def clear_faults_flags)

text \<open>C36. The power mode of the solar inverters depends on the maintenance of the storage: when all inverters are
  told to switch to the reactive power mode or to the power factor mode, an inverter gets the value of that mode exactly when there is a
  storage with the same index and that one is in maintenance, and no other inverter changes its mode.
\<close>
theorem solar_mode_follows_ess:
  assumes "i < length (solars a)"
  shows "sol_power_mode (solars (am_set_solar_mode REACTIVEPWR a) ! i) =
      (if i < length (esss a) \<and> in_maintenance (esss a ! i)
       then set_control_int (sol_reactive_power_mode_value (solars a ! i)) (sol_power_mode (solars a ! i)) else sol_power_mode (solars a ! i)) \<and>
    sol_power_mode (solars (am_set_solar_mode PWRFCTR a) ! i) =
      (if i < length (esss a) \<and> in_maintenance (esss a ! i)
       then set_control_int (sol_power_factor_mode_value (solars a ! i)) (sol_power_mode (solars a ! i)) else sol_power_mode (solars a ! i))"
  using assms by (simp add: am_set_solar_mode_def to_solar_def told_def each_solar_def nth_enumerate_eq ess_in_maint_mode_def solar_set_power_mode_def)

text \<open>C20. The function of a sequence that opens the breaker at the point of interconnect sends the command to
  the component of that feeder, once, on a primary controller whose feeder is not in local mode and has a URI for it, and sends
  nothing otherwise; it answers true whenever the feeder has that URI, so also when nothing was
  sent because the controller is the shadow or the feeder is in local mode; the feeders stay well-formed.
\<close>
theorem poi_open_reaches_breaker:
  assumes "feeders_wf (feeder_manager_of (am s))" "f = poi (feeder_manager_of (am s))"
  shows "\<exists>s'. handle_feed_sequence_functions (managed_assets r) ''set_poi_feeder_state_open'' v s = (True, uri_breaker_open f \<noteq> [], s') \<and>
    as_msgs (poi (feeder_manager_of (am s'))) = as_msgs f @ (if uri_breaker_open f \<noteq> [] \<and> as_primary f \<and> \<not> local_mode_status f
      then [(uri_breaker_open f, set_int (open_value f) (Value_Object 0))] else []) \<and>
    feeders_wf (feeder_manager_of (am s'))"
  using assms by (simp add: handle_feed_sequence_functions_def ask_def am_request_call_def am_forward_def to_feeder_def split_beta
      fm_set_poi_open_def fm_ask_def breaker_open_def feeder_send_def send_to_comp_uri_def json_object_send_def feeders_wf_def)

lemma found_asset_named:
  "get_asset_instance_using_uri_frags frag as = Some (Some i) \<Longrightarrow> i < length as \<and> as_id (as ! i) = takeWhile (\<lambda>c. c \<noteq> CHR ''/'') frag"
  by (auto simp: get_asset_instance_using_uri_frags_def get_asset_instance_def find_Some_iff split: if_splits)

text \<open>C35. A SET to a storage changes at most the storage its URI names: no other storage and no asset of
  another kind changes, and nothing changes without an asset of that id.
\<close>
theorem ess_set_changes_one_asset:
  assumes "am_handle_set now frags body a = Some (r, a')" "get_type_manager (frags ! 1) = Some ESS"
  shows "solar_manager_of a' = solar_manager_of a \<and> generator_manager_of a' = generator_manager_of a \<and> feeder_manager_of a' = feeder_manager_of a \<and>
    length (esss a') = length (esss a) \<and>
    (\<forall>j < length (esss a). esss a' ! j \<noteq> esss a ! j \<longrightarrow> as_id (esss a ! j) = takeWhile (\<lambda>c. c \<noteq> CHR ''/'') (frags ! 2))"
proof -
  have "a' = a \<or> (\<exists>i n v. find_asset ESS (frags ! 2) a = Some (Some i) \<and> a' = snd (set_asset now ESS i n v a))"
    using assms unfolding am_handle_set_def by (auto split: list.splits if_splits option.splits bind_splits simp: split_beta)
  then show ?thesis
  proof
    assume "\<exists>i n v. find_asset ESS (frags ! 2) a = Some (Some i) \<and> a' = snd (set_asset now ESS i n v a)"
    then obtain i n v where f: "get_asset_instance_using_uri_frags (frags ! 2) (esss a) = Some (Some i)"
        and a': "a' = snd (set_asset now ESS i n v a)" by (auto simp: find_asset_def)
    have "j = i" if "j < length (esss a)" "esss a' ! j \<noteq> esss a ! j" for j
      using that by (cases "j = i") (simp_all add: a' set_asset_def split_beta)
    then show ?thesis using found_asset_named [OF f] by (auto simp: a' set_asset_def split_beta)
  qed simp
qed

section \<open>A concrete group of assets\<close>

definition demo_assets :: asset_manager where
  "demo_assets = \<lparr>ess_manager_of = demo_ess_manager 10 [(demo_ess 50 100)\<lparr>in_maintenance := True\<rparr>], feeder_manager_of = demo_feeders,
     generator_manager_of = demo_manager, solar_manager_of = demo_solar_manager 80 0, am_is_primary = True,
     am_readings = (\<lambda>_ _. mk_ts 1 0), am_calls = 0\<rparr>"

theorem requests_keep_other_kinds_witness:
  "ess_manager_of (snd (am_request_call Stop_all_gen demo_assets)) = ess_manager_of demo_assets \<and>
   solar_manager_of (snd (am_request_call Stop_all_gen demo_assets)) = solar_manager_of demo_assets"
  using requests_keep_other_kinds [of Stop_all_gen GENERATORS demo_assets] by (simp add: request_kind_def)

theorem solar_mode_follows_ess_witness:
  "sol_power_mode (solars (am_set_solar_mode REACTIVEPWR demo_assets) ! 1) = sol_power_mode (demo_solar 30) \<and>
   sol_power_mode (solars (am_set_solar_mode PWRFCTR demo_assets) ! 1) = sol_power_mode (demo_solar 30)"
  using solar_mode_follows_ess [of 1 demo_assets] by (simp add: demo_assets_def demo_ess_manager_def aggregate_ess_data_def Let_def)

theorem poi_open_reaches_breaker_witness:
  "\<forall>s. \<exists>s'. handle_feed_sequence_functions (managed_assets (\<lambda>_. (False, []))) ''set_poi_feeder_state_open'' (Value_Object 0)
       (s\<lparr>am := demo_assets\<rparr>) = (True, True, s') \<and>
     as_msgs (poi (feeder_manager_of (am s'))) = [(''/components/f/open'', set_int 0 (Value_Object 0))]"
proof
  fix s :: "asset_manager site"
  have f: "poi (feeder_manager_of demo_assets) = demo_feeder ''poi''" "feeders_wf (feeder_manager_of demo_assets)"
    by (simp_all add: demo_assets_def demo_feeders_def feeders_wf_def)
  have g: "uri_breaker_open (demo_feeder ''poi'') = ''/components/f/open''" "as_primary (demo_feeder ''poi'')"
    "\<not> local_mode_status (demo_feeder ''poi'')" "open_value (demo_feeder ''poi'') = 0"
    by (simp_all add: demo_feeder_def demo_gen_def asset.defs feeder.defs)
  show "\<exists>s'. handle_feed_sequence_functions (managed_assets (\<lambda>_. (False, []))) ''set_poi_feeder_state_open'' (Value_Object 0)
       (s\<lparr>am := demo_assets\<rparr>) = (True, True, s') \<and>
     as_msgs (poi (feeder_manager_of (am s'))) = [(''/components/f/open'', set_int 0 (Value_Object 0))]"
    using poi_open_reaches_breaker [of "s\<lparr>am := demo_assets\<rparr>" "demo_feeder ''poi''" "\<lambda>_. (False, [])" "Value_Object 0"] f g
    by auto
qed

theorem ess_set_changes_one_asset_witness:
  "\<exists>r a'. am_handle_set (mk_ts 1 0) [''assets/ess/ess/x'', ''ess/ess/x'', ''ess/x'', ''x''] (Some JTrue) demo_assets = Some (r, a') \<and>
     solar_manager_of a' = solar_manager_of demo_assets"
proof -
  obtain r a' where ra: "am_handle_set (mk_ts 1 0) [''assets/ess/ess/x'', ''ess/ess/x'', ''ess/x'', ''x''] (Some JTrue) demo_assets = Some (r, a')"
    by (cases "am_handle_set (mk_ts 1 0) [''assets/ess/ess/x'', ''ess/ess/x'', ''ess/x'', ''x''] (Some JTrue) demo_assets")
      (auto simp: am_handle_set_def get_type_manager_def find_asset_def get_asset_instance_using_uri_frags_def)
  from ess_set_changes_one_asset [OF this] ra show ?thesis by (simp add: get_type_manager_def)
qed

end
