(* ===== verification/Publications.thy ===== *)
theory Publications
  imports Asset_Laws
begin

text \<open>
  The publications of the components (\<^verbatim>\<open>handle_pubs\<close> of \<^verbatim>\<open>Asset_Manager.cpp\<close>): how the variables of the
  assets get their readings.  The variables are a store, since several variables can have the same
  component register: \<open>component_var_map\<close> gives the variables of a URI.
\<close>

section \<open>A published value\<close>

text \<open>
  An item of a published list has a value, as an integer and as a number, and a string, where they are
  there.  A published value without items is a plain value.
\<close>

record pub_item =
  item_value :: "(int \<times> flt) option"
  item_string :: "string option"

datatype published = Plain cjson | Items "pub_item list"

definition complete_item :: "pub_item \<Rightarrow> (int \<times> flt \<times> string) option" where
  "complete_item c = (case (item_value c, item_string c) of (Some (i, d), Some s) \<Rightarrow> Some (i, d, s) | _ \<Rightarrow> None)"

definition put_option :: "64 word \<Rightarrow> string \<Rightarrow> value_object \<Rightarrow> fims_object \<Rightarrow> fims_object" where
  "put_option k s v f = f\<lparr>options_map := (k, s, v) # filter (\<lambda>e. fst e \<noteq> k) (options_map f)\<rparr>"

definition word_value :: "int \<Rightarrow> value_object" where
  "word_value i = set_bits (word_of_int i) (Value_Object 0)"

text \<open>
  The loops over the items.  The outer \<open>None\<close> is a shift by a negative number, which the check of the
  upper bound lets through; the inner one is an item that is not complete, or a status of an invalid
  type, after which the register is not set.
\<close>

fun status_items :: "pub_item list \<Rightarrow> 64 word \<Rightarrow> fims_object \<Rightarrow> (64 word option \<times> fims_object) option" where
  "status_items [] w f = Some (Some w, f)"
| "status_items (c # cs) w f = (case complete_item c of
       None \<Rightarrow> Some (None, f)
     | Some (i, d, s) \<Rightarrow> (case status_type f of
           bit_field \<Rightarrow> if i \<ge> 64 then status_items cs w f
             else if i < 0 then None
             else status_items cs (w OR push_bit (nat i) 1) (put_option (word_of_int i) s (word_value i) f)
         | random_enum \<Rightarrow> status_items cs (word_of_int i) (put_option (word_of_int i) s (word_value i) f)
         | invalid_status \<Rightarrow> Some (None, f)))"

fun alert_items :: "pub_item list \<Rightarrow> 64 word \<Rightarrow> fims_object \<Rightarrow> (64 word option \<times> fims_object) option" where
  "alert_items [] w f = Some (Some w, f)"
| "alert_items (c # cs) w f = (case complete_item c of
       None \<Rightarrow> Some (None, f)
     | Some (i, d, s) \<Rightarrow>
         if i \<ge> 64 then alert_items cs w f
         else if i < 0 then None
         else alert_items cs (w OR push_bit (nat i) 1) (put_option (word_of_int i) s (word_value i) f))"

definition set_register :: "64 word \<Rightarrow> fims_object \<Rightarrow> fims_object" where
  "set_register w f = f\<lparr>fo_value := set_bits w (fo_value f)\<rparr>"

definition handle_pub_status_options :: "pub_item list \<Rightarrow> fims_object \<Rightarrow> fims_object option" where
  "handle_pub_status_options cs f = map_option (\<lambda>(r, f). case r of None \<Rightarrow> f | Some w \<Rightarrow> set_register (handle_masking w f) f) (status_items cs 0 f)"

text \<open>The bits of a fault are added to the register, those of an alarm replace it.\<close>

definition handle_pub_alarm_or_fault_options :: "string \<Rightarrow> pub_item list \<Rightarrow> fims_object \<Rightarrow> fims_object option" where
  "handle_pub_alarm_or_fault_options ui_type cs f = map_option (\<lambda>(r, f). case r of None \<Rightarrow> f
       | Some w \<Rightarrow> if ui_type = ''alarm'' then set_register (handle_masking w f) f
                   else set_register (bits f OR handle_masking w f) f) (alert_items cs 0 f)"

text \<open>
  The other registers with items.  A float is set from the list and not from its item, and a boolean is
  true for a list that is \<^verbatim>\<open>true\<close>: what a list has for a number is 0, and it is no boolean.
\<close>

fun other_items :: "input_source_list \<Rightarrow> nat \<Rightarrow> pub_item list \<Rightarrow> fims_object \<Rightarrow> fims_object" where
  "other_items srcs k [] f = f"
| "other_items srcs k (c # cs) f = (case complete_item c of
       None \<Rightarrow> f
     | Some (i, d, s) \<Rightarrow>
         let o' = (\<lambda>v. put_option (of_nat k) s v f)
         in other_items srcs (Suc k) cs
           (if fo_type f = ''Int'' then snd (set_fims_int srcs (variable_id f) i (o' (set_int i (Value_Object 0))))
            else if fo_type f = ''Float'' then snd (set_fims_float srcs (variable_id f) 0 (o' (set_float d (Value_Object 0))))
            else if fo_type f = ''Bool'' then snd (set_fims_bool srcs (variable_id f) False (o' (set_bool False (Value_Object 0))))
            else o' (Value_Object 0)))"

definition handle_pub_plain :: "input_source_list \<Rightarrow> string \<Rightarrow> int \<times> flt \<Rightarrow> bool \<Rightarrow> fims_object \<Rightarrow> fims_object" where
  "handle_pub_plain srcs ui_type = (\<lambda>(i, d) b f.
     if ui_type = ''alarm'' \<or> fo_type f = ''Status'' then clear_fims_bit_field f
     else if ui_type = ''fault'' then f
     else if fo_type f = ''Int'' then snd (set_fims_int srcs (variable_id f) i f)
     else if fo_type f = ''Float'' then snd (set_fims_float srcs (variable_id f) d f)
     else if fo_type f = ''Bool'' then snd (set_fims_bool srcs (variable_id f) b f)
     else f)"

definition json_number :: "cjson \<Rightarrow> int \<times> flt" where
  "json_number v = (case v of JNumber d i \<Rightarrow> (i, d) | JTrue \<Rightarrow> (1, 0) | _ \<Rightarrow> (0, 0))"

definition json_true :: "cjson \<Rightarrow> bool" where
  "json_true v = (case v of JTrue \<Rightarrow> True | JNumber d i \<Rightarrow> i = 1 | _ \<Rightarrow> False)"

definition handle_pub :: "input_source_list \<Rightarrow> string \<Rightarrow> published \<Rightarrow> fims_object \<Rightarrow> fims_object option" where
  "handle_pub srcs ui_type p f = (case p of
       Plain v \<Rightarrow> Some (handle_pub_plain srcs ui_type (json_number v) (json_true v) f)
     | Items [] \<Rightarrow> Some (handle_pub_plain srcs ui_type (0, 0) False f)
     | Items (c # cs) \<Rightarrow>
         if fo_type f = ''Status'' then handle_pub_status_options (c # cs) f
         else if ui_type = ''alarm'' \<or> ui_type = ''fault'' then handle_pub_alarm_or_fault_options ui_type (c # cs) f
         else Some (other_items srcs 0 (c # cs) f))"

section \<open>A publication\<close>

record var_store =
  component_var_map :: "string \<Rightarrow> nat list"
  var_ui_type :: "nat \<Rightarrow> string"
  var_of :: "nat \<Rightarrow> fims_object"

fun publish_vars :: "input_source_list \<Rightarrow> published \<Rightarrow> nat list \<Rightarrow> var_store \<Rightarrow> var_store option" where
  "publish_vars srcs p [] st = Some st"
| "publish_vars srcs p (k # ks) st = do {
     f \<leftarrow> handle_pub srcs (var_ui_type st k) p (var_of st k);
     publish_vars srcs p ks (st\<lparr>var_of := (var_of st)(k := f)\<rparr>) }"

fun publish_all :: "input_source_list \<Rightarrow> string \<Rightarrow> (string \<times> published) list \<Rightarrow> var_store \<Rightarrow> var_store option" where
  "publish_all srcs frag [] st = Some st"
| "publish_all srcs frag ((n, p) # body) st = do {
     st \<leftarrow> publish_vars srcs p (component_var_map st (''/'' @ frag @ ''/'' @ n)) st;
     publish_all srcs frag body st }"

text \<open>A message is a publication of a component when its first fragment begins with \<^verbatim>\<open>components\<close>.\<close>

definition handle_pubs :: "input_source_list \<Rightarrow> string list \<Rightarrow> (string \<times> published) list option \<Rightarrow> var_store \<Rightarrow> var_store option" where
  "handle_pubs srcs pfrags body st = (case (pfrags, body) of
       (frag # _ # _, Some b) \<Rightarrow> if take 10 frag = ''components'' then publish_all srcs frag b st else Some st
     | _ \<Rightarrow> Some st)"

section \<open>Faults are not lost\<close>

lemma put_option_keeps [simp]:
  "fo_value (put_option k s v f) = fo_value f" "variable_id (put_option k s v f) = variable_id f" "fo_type (put_option k s v f) = fo_type f"
  by (simp_all add: put_option_def)

lemma alert_items_keep:
  "alert_items cs w f = Some (r, f') \<Longrightarrow> fo_value f' = fo_value f \<and> variable_id f' = variable_id f \<and> fo_type f' = fo_type f"
  by (induction cs w f rule: alert_items.induct) (auto split: option.splits if_splits)

definition contained :: "64 word \<Rightarrow> fims_object \<Rightarrow> bool" where
  "contained w f \<longleftrightarrow> w AND NOT (bits f) = 0"

lemma bit_below: "bit (w :: 64 word) n \<Longrightarrow> n < 64"
  using bit_imp_le_length [of w n] by simp

lemma contained_bit: "contained w f \<longleftrightarrow> (\<forall>n. bit w n \<longrightarrow> bit (bits f) n)"
proof -
  have "contained w f \<longleftrightarrow> (\<forall>n < 64. bit w n \<longrightarrow> bit (bits f) n)"
    by (auto simp: contained_def bit_eq_iff bit_simps)
  then show ?thesis using bit_below [of w] by blast
qed

lemma word_pos_bit: "bit (w :: 64 word) n \<Longrightarrow> w \<noteq> 0"
  by auto

lemma fault_items_grow:
  assumes "handle_pub_alarm_or_fault_options ''fault'' cs f = Some f'"
  shows "contained (bits f) f' \<and> variable_id f' = variable_id f \<and> fo_type f' = fo_type f"
proof -
  obtain r g where g: "alert_items cs 0 f = Some (r, g)"
    using assms by (auto simp: handle_pub_alarm_or_fault_options_def)
  show ?thesis
  proof (cases r)
    case None
    then show ?thesis using assms g alert_items_keep [OF g] by (simp add: handle_pub_alarm_or_fault_options_def contained_bit)
  next
    case (Some w)
    then have "f' = set_register (bits g OR handle_masking w g) g" using assms g by (simp add: handle_pub_alarm_or_fault_options_def)
    then show ?thesis using alert_items_keep [OF g] by (simp add: set_register_def set_bits_def contained_bit bit_simps)
  qed
qed

lemma plain_fault: "fo_type f \<noteq> ''Status'' \<Longrightarrow> handle_pub_plain srcs ''fault'' n b f = f"
  by (cases n) (simp add: handle_pub_plain_def)

lemma fault_pub_grows:
  assumes "handle_pub srcs ''fault'' p f = Some f'" "fo_type f \<noteq> ''Status''"
  shows "contained (bits f) f' \<and> variable_id f' = variable_id f \<and> fo_type f' = fo_type f"
  using assms fault_items_grow [of _ f f']
  by (auto simp: handle_pub_def plain_fault contained_bit split: published.splits list.splits)

text \<open>Every variable of the kind of a fault: its register only grows, and it stays what it is.\<close>

definition grows :: "var_store \<Rightarrow> var_store \<Rightarrow> bool" where
  "grows st st' \<longleftrightarrow> component_var_map st' = component_var_map st \<and> var_ui_type st' = var_ui_type st \<and>
     (\<forall>k. var_ui_type st k = ''fault'' \<and> fo_type (var_of st k) \<noteq> ''Status'' \<longrightarrow>
       contained (bits (var_of st k)) (var_of st' k) \<and> variable_id (var_of st' k) = variable_id (var_of st k) \<and>
       fo_type (var_of st' k) = fo_type (var_of st k))"

lemma grows_refl: "grows st st"
  by (simp add: grows_def contained_bit)

lemma grows_trans: "grows a b \<Longrightarrow> grows b c \<Longrightarrow> grows a c"
  unfolding grows_def contained_bit by fastforce

lemma publish_vars_grows: "publish_vars srcs p ks st = Some st' \<Longrightarrow> grows st st'"
proof (induction ks arbitrary: st)
  case (Cons k ks)
  then obtain f where f: "handle_pub srcs (var_ui_type st k) p (var_of st k) = Some f"
      and r: "publish_vars srcs p ks (st\<lparr>var_of := (var_of st)(k := f)\<rparr>) = Some st'"
    by (auto split: bind_splits)
  have "grows st (st\<lparr>var_of := (var_of st)(k := f)\<rparr>)"
    using f fault_pub_grows [of srcs p "var_of st k" f] by (auto simp: grows_def contained_bit)
  with Cons.IH [OF r] show ?case by (rule grows_trans [rotated])
qed (simp add: grows_refl)

lemma publish_all_grows: "publish_all srcs frag body st = Some st' \<Longrightarrow> grows st st'"
proof (induction srcs frag body st rule: publish_all.induct)
  case (2 srcs frag n p body st)
  then show ?case by (auto split: bind_splits intro: grows_trans publish_vars_grows)
qed (simp add: grows_refl)

lemma handle_pubs_grows: "handle_pubs srcs pfrags body st = Some st' \<Longrightarrow> grows st st'"
  by (auto simp: handle_pubs_def grows_refl split: list.splits option.splits if_splits dest: publish_all_grows)

fun pubs_run :: "input_source_list \<Rightarrow> (string list \<times> (string \<times> published) list option) list \<Rightarrow> var_store \<Rightarrow> var_store option" where
  "pubs_run srcs [] st = Some st"
| "pubs_run srcs ((fr, b) # ms) st = do { st \<leftarrow> handle_pubs srcs fr b st; pubs_run srcs ms st }"

lemma pubs_run_grows: "pubs_run srcs ms st = Some st' \<Longrightarrow> grows st st'"
proof (induction srcs ms st rule: pubs_run.induct)
  case (2 srcs fr b ms st)
  then show ?case by (auto split: bind_splits intro: grows_trans handle_pubs_grows)
qed (simp add: grows_refl)

section \<open>Properties\<close>

text \<open>C17. A fault that an asset reports is never lost before it is cleared: when the latch of a register has
  only bits of the register, then after any publications and the processing of the register the asset
  still reports every fault it reported, for the mask of any alert, and the latch has again only bits
  of the register.
\<close>
theorem reported_faults_kept:
  assumes "pubs_run srcs ms st = Some st'" "var_ui_type st k = ''fault''" "fo_type (var_of st k) \<noteq> ''Status''"
    and "map_of (fault_latches a) (variable_id (var_of st k)) = Some v" "contained v (var_of st k)"
    and "check_fault (variable_id (var_of st k)) msk a"
  shows "check_fault (variable_id (var_of st k)) msk (process_fault_register (var_of st' k) a) \<and>
    (\<exists>v'. map_of (fault_latches (process_fault_register (var_of st' k) a)) (variable_id (var_of st k)) = Some v' \<and> contained v' (var_of st' k))"
proof -
  note g = pubs_run_grows [OF assms(1), unfolded grows_def contained_bit]
  obtain n where n: "bit v n" "bit msk n" using assms(4,6) by (auto simp: check_fault_def bit_eq_iff bit_simps)
  then have b: "bit (bits (var_of st' k)) n" using g assms(2,3,5) by (auto simp: contained_bit)
  then have "bit (bits (var_of st' k) AND msk) n" using n by (simp add: bit_simps)
  then have "bits (var_of st' k) > 0" "bits (var_of st' k) AND msk \<noteq> 0"
    using word_pos_bit b by (auto simp: word_neq_0_conv)
  moreover have "variable_id (var_of st' k) = variable_id (var_of st k)" using g assms(2,3) by blast
  ultimately show ?thesis using assms(4) by (simp add: check_fault_def latch_after_register contained_bit)
qed

lemma float_item:
  assumes "fo_type f = ''Float''" "\<not> multiple_inputs f"
  shows "let f' = snd (set_fims_float srcs (variable_id f) 0 (put_option k s v f))
    in fo_type f' = ''Float'' \<and> \<not> multiple_inputs f' \<and> value_float (fo_value f') = 0"
  using assms by (simp add: Let_def set_fims_float_def fims_set_def put_option_def set_float_def)

lemma float_items_zero:
  assumes "fo_type f = ''Float''" "\<not> multiple_inputs f" "value_float (fo_value f) = 0"
  shows "value_float (fo_value (other_items srcs k cs f)) = 0"
  using assms
proof (induction cs arbitrary: k f)
  case (Cons c cs)
  show ?case
  proof (cases "complete_item c")
    case None
    with Cons.prems show ?thesis by simp
  next
    case (Some x)
    then obtain i d s where x: "complete_item c = Some (i, d, s)" by (cases x) auto
    with Cons.IH float_item [OF Cons.prems(1,2)] Cons.prems(1) show ?thesis by (simp add: Let_def)
  qed
qed simp

text \<open>C37. A float variable with a single input, which is neither an alarm nor a fault, is set to 0 when it is published with
  items of which the first is complete, however many items there are and whatever their values.
\<close>
theorem published_float_items_lost:
  assumes "fo_type f = ''Float''" "\<not> multiple_inputs f" "ui_type \<notin> {''alarm'', ''fault''}" "complete_item c = Some (i, d, s)"
  shows "\<exists>f'. handle_pub srcs ui_type (Items (c # cs)) f = Some f' \<and> value_float (fo_value f') = 0"
proof -
  let ?g = "snd (set_fims_float srcs (variable_id f) 0 (put_option 0 s (set_float d (Value_Object 0)) f))"
  have "value_float (fo_value (other_items srcs 1 cs ?g)) = 0"
    using float_item [OF assms(1,2), of srcs 0 s "set_float d (Value_Object 0)"] unfolding Let_def by (intro float_items_zero) auto
  then show ?thesis using assms by (simp add: handle_pub_def Let_def)
qed

text \<open>
  The register of an alarm is what was published last: it has exactly the masked bits of the items that
  are complete and in range, and a publication without items clears it.
\<close>
theorem published_alarms_replace:
  assumes "fo_type f \<noteq> ''Status''" "list_all (\<lambda>c. \<exists>i d s. complete_item c = Some (i, d, s) \<and> 0 \<le> i \<and> i < 64) cs" "cs \<noteq> []"
  shows "\<exists>f'. handle_pub srcs ''alarm'' (Items cs) f = Some f' \<and>
    bits f' = handle_masking (fold (\<lambda>c w. case complete_item c of Some (i, d, s) \<Rightarrow> w OR push_bit (nat i) 1 | None \<Rightarrow> w) cs 0) f"
proof -
  have "\<exists>f'. alert_items cs w f = Some (Some (fold (\<lambda>c w. case complete_item c of Some (i, d, s) \<Rightarrow> w OR push_bit (nat i) 1 | None \<Rightarrow> w) cs w), f')" for w
    using assms(2)
  proof (induction cs arbitrary: w f)
    case (Cons c cs)
    then obtain i d s where "complete_item c = Some (i, d, s)" "0 \<le> i" "i < 64" by auto
    with Cons show ?case by simp
  qed simp
  then obtain f' where f': "alert_items cs 0 f = Some (Some (fold (\<lambda>c w. case complete_item c of Some (i, d, s) \<Rightarrow> w OR push_bit (nat i) 1 | None \<Rightarrow> w) cs 0), f')"
    by blast
  from alert_items_keep [OF this] f' assms(1,3) show ?thesis
    by (cases cs) (simp_all add: handle_pub_def handle_pub_alarm_or_fault_options_def set_register_def set_bits_def handle_masking_def)
qed

section \<open>Concrete publications\<close>

definition fault_item :: "int \<Rightarrow> pub_item" where
  "fault_item i = \<lparr>item_value = Some (i, of_int i), item_string = Some ''fault''\<rparr>"

definition masked_register :: "64 word \<Rightarrow> fims_object" where
  "masked_register w = (fault_register w)\<lparr>fo_value := (fo_value (fault_register w))\<lparr>value_and_mask := -1\<rparr>\<rparr>"

definition demo_store :: var_store where
  "demo_store = \<lparr>component_var_map = (\<lambda>u. if u = ''/components/pcs/faults'' then [0] else []), var_ui_type = (\<lambda>_. ''fault''),
     var_of = (\<lambda>_. masked_register 1)\<rparr>"

definition no_sources :: input_source_list where
  "no_sources = \<lparr>selected_input_source_index = 0, input_sources = [], id_to_index = (\<lambda>_. None)\<rparr>"

theorem reported_faults_kept_witness:
  "\<exists>st'. pubs_run no_sources [([''components/pcs'', ''pcs''], Some [(''faults'', Items [fault_item 1])])] demo_store = Some st' \<and>
     bits (var_of st' 0) = 3 \<and>
     check_fault ''faults'' 1 (process_fault_register (var_of st' 0) ((demo_gen ''g'')\<lparr>fault_latches := [(''faults'', 1)]\<rparr>))"
proof -
  let ?ms = "[([''components/pcs'', ''pcs''], Some [(''faults'', Items [fault_item 1])])]" and ?a = "(demo_gen ''g'')\<lparr>fault_latches := [(''faults'', 1)]\<rparr>"
  obtain st' where st': "pubs_run no_sources ?ms demo_store = Some st'" and b: "bits (var_of st' 0) = 3"
    by (simp add: handle_pubs_def demo_store_def handle_pub_def masked_register_def fault_register_def blank_fims_def Value_Object_def
        handle_pub_alarm_or_fault_options_def complete_item_def fault_item_def put_option_def handle_masking_def set_register_def set_bits_def)
  have "check_fault (variable_id (var_of demo_store 0)) 1 (process_fault_register (var_of st' 0) ?a)"
    using reported_faults_kept [OF st', of 0 ?a 1 1]
    by (simp add: demo_store_def masked_register_def fault_register_def blank_fims_def contained_def check_fault_def)
  then show ?thesis using st' b by (simp add: demo_store_def masked_register_def fault_register_def)
qed

theorem published_float_items_lost_witness:
  "\<exists>f'. handle_pub no_sources [] (Items [fault_item 5, fault_item 7]) (blank_fims\<lparr>fo_type := ''Float''\<rparr>) = Some f' \<and> value_float (fo_value f') = 0"
  by (rule published_float_items_lost [of _ _ _ 5 5 "''fault''"]) (simp_all add: blank_fims_def complete_item_def fault_item_def)

theorem published_alarms_replace_witness:
  "\<exists>f'. handle_pub no_sources ''alarm'' (Items [fault_item 1, fault_item 2]) (masked_register 1) = Some f' \<and> bits f' = 6"
  using published_alarms_replace [of "masked_register 1" "[fault_item 1, fault_item 2]" no_sources]
  by (simp add: complete_item_def fault_item_def handle_masking_def masked_register_def fault_register_def blank_fims_def Value_Object_def)

end
