(* ===== verification/Feature_Selection.thy ===== *)
theory Feature_Selection
  imports Asset_Cmd "HOL-Library.Word" "HOL-Library.Monad_Syntax"
begin

unbundle bit_operations_syntax

text \<open>
  The selection of the features of the site (\<^verbatim>\<open>Site_Manager.cpp\<close>): the lists of the run modes, which of
  their features the configuration makes available, and the switch of the enabled feature when the
  command of a mode changes.
\<close>

section \<open>Features and modes\<close>

datatype feature_id = Energy_arbitrage | Target_soc | Active_power_setpoint_mode | Manual_power_mode | Ess_calibration
  | Generator_charge | Charge_dispatch | Charge_control | Avr | Watt_var | Reactive_setpoint | Power_factor | Constant_power_factor

definition runmode1_kW_features_list :: "feature_id list" where
  "runmode1_kW_features_list = [Energy_arbitrage, Target_soc, Active_power_setpoint_mode, Manual_power_mode, Ess_calibration]"

definition runmode2_kW_features_list :: "feature_id list" where
  "runmode2_kW_features_list = [Generator_charge]"

definition runmode1_kVAR_features_list :: "feature_id list" where
  "runmode1_kVAR_features_list = [Avr, Watt_var, Reactive_setpoint, Power_factor, Constant_power_factor]"

definition runmode2_kVAR_features_list :: "feature_id list" where
  "runmode2_kVAR_features_list = []"

definition runmode1_kW_features_charge_control_mask :: "64 word" where
  "runmode1_kW_features_charge_control_mask = 2"

text \<open>What a selection changes of a feature: its enable flag, whether it is available, its variables on the display.\<close>

record feature_cell =
  fc_enable :: bool
  fc_available :: bool
  fc_ui :: bool

text \<open>
  A mode: the feature it follows, its command with the options of the display, and the names of the
  features, one for each and one for \<^verbatim>\<open>Disabled\<close>, with the text of the mask of the available ones.
\<close>

record mode_group =
  g_current :: int
  g_cmd :: int
  g_cmd_options :: "(nat \<times> string) list"
  g_cmd_hidden :: bool
  g_available_text :: string
  g_available_options :: "(nat \<times> string) list"
  g_mask :: "64 word"
  g_status :: string

record selection =
  cells :: "feature_id \<Rightarrow> feature_cell"
  rm1_kW :: mode_group
  rm2_kW :: mode_group
  rm1_kVAR :: mode_group
  rm2_kVAR :: mode_group
  cal_soc_limits_enable :: bool
  cal_cell_limits_enable :: bool
  cal_rack_limits_enable :: bool
  cal_soc_limits_ui :: bool
  cal_cell_limits_ui :: bool
  cal_rack_limits_ui :: bool

type_synonym feature_cells = "feature_id \<Rightarrow> feature_cell"

definition put_enable :: "bool \<Rightarrow> feature_id \<Rightarrow> feature_cells \<Rightarrow> feature_cells" where
  "put_enable b i cs = cs(i := (cs i)\<lparr>fc_enable := b\<rparr>)"

definition put_ui :: "bool \<Rightarrow> feature_id \<Rightarrow> feature_cells \<Rightarrow> feature_cells" where
  "put_ui b i cs = cs(i := (cs i)\<lparr>fc_ui := b\<rparr>)"

definition put_available :: "feature_id \<Rightarrow> feature_cells \<Rightarrow> feature_cells" where
  "put_available i cs = cs(i := (cs i)\<lparr>fc_available := True\<rparr>)"

definition ui_disable_feature_group_feature_vars :: "feature_id list \<Rightarrow> feature_cells \<Rightarrow> feature_cells" where
  "ui_disable_feature_group_feature_vars = fold (put_ui False)"

section \<open>Switching\<close>

text \<open>A command that is negative indexes the list with it: \<open>None\<close>.\<close>

definition switch_feature :: "feature_id list \<Rightarrow> mode_group \<Rightarrow> feature_cells \<Rightarrow> (mode_group \<times> feature_cells) option" where
  "switch_feature ids g cs =
     (if g_current g = g_cmd g then Some (g, cs)
      else
        let n = int (length ids);
            cs = (if 0 \<le> g_current g \<and> g_current g < n then put_enable False (ids ! nat (g_current g)) cs else cs)
        in if g_cmd g < 0 then None
           else
             let cs = (if g_cmd g < n then put_enable True (ids ! nat (g_cmd g)) cs else cs);
                 cs = ui_disable_feature_group_feature_vars ids cs;
                 cs = (if g_cmd g < n then put_ui True (ids ! nat (g_cmd g)) cs else cs)
             in Some (g\<lparr>g_current := g_cmd g\<rparr>, cs))"

definition switch_charge_control :: "mode_group \<Rightarrow> mode_group \<Rightarrow> feature_cells \<Rightarrow> feature_cells option" where
  "switch_charge_control g g' cs =
     (if g_current g = g_current g' then Some cs
      else if g_cmd g' \<ge> 64 then None
      else let b = bit runmode1_kW_features_charge_control_mask (nat (g_cmd g'))
           in Some (put_ui b Charge_control (put_enable b Charge_control cs)))"

text \<open>The list is read at the current index whether it is in range or not.\<close>

definition calibration_display :: "selection \<Rightarrow> selection option" where
  "calibration_display s =
     (let c = g_current (rm1_kW s)
      in if \<not> (0 \<le> c \<and> c < int (length runmode1_kW_features_list)) then None
         else if runmode1_kW_features_list ! nat c = Ess_calibration
         then let e = fc_enable (cells s Ess_calibration)
              in Some (s\<lparr>cal_soc_limits_ui := (e \<and> cal_soc_limits_enable s), cal_cell_limits_ui := (e \<and> cal_cell_limits_enable s),
                         cal_rack_limits_ui := (e \<and> cal_rack_limits_enable s)\<rparr>)
         else Some s)"

definition option_name :: "nat \<Rightarrow> mode_group \<Rightarrow> string \<times> mode_group" where
  "option_name i g = (case map_of (g_available_options g) i of
       Some n \<Rightarrow> (n, g) | None \<Rightarrow> ([], g\<lparr>g_available_options := g_available_options g @ [(i, [])]\<rparr>))"

text \<open>The key of the options is unsigned.\<close>

definition show_mode :: "mode_group \<Rightarrow> mode_group" where
  "show_mode g = (let (n, g) = option_name (nat (g_cmd g mod 2 ^ 64)) g in g\<lparr>g_status := n\<rparr>)"

definition update_power_feature_selections :: "selection \<Rightarrow> selection option" where
  "update_power_feature_selections s = do {
     (g, cs) \<leftarrow> switch_feature runmode1_kW_features_list (rm1_kW s) (cells s);
     cs \<leftarrow> switch_charge_control (rm1_kW s) g cs;
     s \<leftarrow> calibration_display (s\<lparr>rm1_kW := g, cells := cs\<rparr>);
     (g, cs) \<leftarrow> switch_feature runmode2_kW_features_list (rm2_kW s) (cells s);
     let s = s\<lparr>rm2_kW := g, cells := cs\<rparr>;
     (g, cs) \<leftarrow> switch_feature runmode1_kVAR_features_list (rm1_kVAR s) (cells s);
     let s = s\<lparr>rm1_kVAR := g, cells := cs\<rparr>;
     (g, cs) \<leftarrow> switch_feature runmode2_kVAR_features_list (rm2_kVAR s) (cells s);
     let s = s\<lparr>rm2_kVAR := g, cells := cs\<rparr>;
     Some (s\<lparr>rm1_kW := show_mode (rm1_kW s), rm2_kW := show_mode (rm2_kW s), rm1_kVAR := show_mode (rm1_kVAR s),
             rm2_kVAR := show_mode (rm2_kVAR s)\<rparr>) }"

section \<open>Configuration\<close>

text \<open>
  \<^verbatim>\<open>std::stoul\<close> to the base 16: white space, a sign and \<^verbatim>\<open>0x\<close> are skipped and the digits that follow are
  read; it throws without a digit and when the number does not fit.  A minus sign negates the number.
\<close>

definition hex_digit :: "char \<Rightarrow> nat option" where
  "hex_digit c =
     (let n = of_char c in
      if 48 \<le> n \<and> n \<le> 57 then Some (n - 48) else if 65 \<le> n \<and> n \<le> 70 then Some (n - 55)
      else if 97 \<le> n \<and> n \<le> 102 then Some (n - 87) else None)"

definition hex_prefix :: "string \<Rightarrow> string" where
  "hex_prefix s = takeWhile (\<lambda>c. hex_digit c \<noteq> None) s"

definition hex_number :: "string \<Rightarrow> nat" where
  "hex_number s = fold (\<lambda>c n. 16 * n + (case hex_digit c of Some d \<Rightarrow> d | None \<Rightarrow> 0)) s 0"

definition is_space :: "char \<Rightarrow> bool" where
  "is_space c \<longleftrightarrow> c = CHR '' '' \<or> (9 \<le> (of_char c :: nat) \<and> (of_char c :: nat) \<le> 13)"

definition stoul16 :: "string \<Rightarrow> 64 word option" where
  "stoul16 s =
     (let s = dropWhile is_space s;
          (neg, s) = (case s of c # t \<Rightarrow> if c = CHR ''-'' then (True, t) else if c = CHR ''+'' then (False, t) else (False, s) | [] \<Rightarrow> (False, []));
          s = (if (take 2 s = ''0x'' \<or> take 2 s = ''0X'') \<and> hex_prefix (drop 2 s) \<noteq> [] then drop 2 s else s);
          ds = hex_prefix s; n = hex_number ds
      in if ds = [] \<or> n \<ge> 2 ^ 64 then None else Some (if neg then - of_nat n else of_nat n))"

text \<open>
  One mode: whether its configuration is right, that is, whether every feature has a name, the mask is
  a number and the feature of the command passes it.
\<close>

definition allow_feature :: "feature_id list \<Rightarrow> nat \<Rightarrow> bool \<times> mode_group \<times> feature_cells \<Rightarrow> bool \<times> mode_group \<times> feature_cells" where
  "allow_feature ids i = (\<lambda>(found, g, cs).
     if bit (g_mask g) i then
       let cs = (if i \<noteq> length ids then put_available (ids ! i) cs else cs);
           (n, g) = option_name i g
       in (found \<or> int i = g_cmd g, g\<lparr>g_cmd_options := (i, n) # filter (\<lambda>e. fst e \<noteq> i) (g_cmd_options g)\<rparr>, cs)
     else (found, g, cs))"

definition configure_available :: "feature_id list \<Rightarrow> mode_group \<Rightarrow> feature_cells \<Rightarrow> bool \<times> mode_group \<times> feature_cells" where
  "configure_available ids g cs =
     (if length (g_available_options g) \<noteq> length ids + 1 then (False, g, cs)
      else (case stoul16 (g_available_text g) of
          None \<Rightarrow> (False, g, cs)
        | Some m \<Rightarrow>
            let (found, g, cs) = fold (allow_feature ids) [0..<length ids + 1] (False, g\<lparr>g_mask := m\<rparr>, cs)
            in (found, if length (g_cmd_options g) < 2 then g\<lparr>g_cmd_hidden := True\<rparr> else g, cs)))"

text \<open>
  The first mode also makes charge control available, and creates the buffer of the site load with one
  entry for each cycle of 10 ms; the division truncates, and a negative quotient is an unsigned length that is not in the model.
\<close>

definition configure_available_runmode1_kW_features_list ::
    "int \<Rightarrow> selection \<Rightarrow> asset_cmd_object \<Rightarrow> (bool \<times> selection \<times> asset_cmd_object) option" where
  "configure_available_runmode1_kW_features_list interval_ms s a =
     (let ids = runmode1_kW_features_list; (found, g, cs) = configure_available ids (rm1_kW s) (cells s);
          parsed = (length (g_available_options (rm1_kW s)) = length ids + 1 \<and> stoul16 (g_available_text (rm1_kW s)) \<noteq> None);
          cs = (if parsed \<and> (\<exists>i \<in> set [0..<length ids + 1]. bit (g_mask g) i \<and> bit runmode1_kW_features_charge_control_mask i)
                then put_available Charge_control cs else cs);
          s = s\<lparr>rm1_kW := g, cells := cs\<rparr>
      in if \<not> parsed then Some (False, s, a)
         else if interval_ms * 1000 \<le> -10000 then None
         else Some (found, s, create_site_kW_load_buffer (nat (interval_ms * 1000 div 10000)) a))"

definition configure_available_runmode2_kW_features_list :: "selection \<Rightarrow> bool \<times> selection" where
  "configure_available_runmode2_kW_features_list s =
     (let (ok, g, cs) = configure_available runmode2_kW_features_list (rm2_kW s) (cells s) in (ok, s\<lparr>rm2_kW := g, cells := cs\<rparr>))"

definition configure_available_runmode1_kVAR_features_list :: "selection \<Rightarrow> bool \<times> selection" where
  "configure_available_runmode1_kVAR_features_list s =
     (let (ok, g, cs) = configure_available runmode1_kVAR_features_list (rm1_kVAR s) (cells s) in (ok, s\<lparr>rm1_kVAR := g, cells := cs\<rparr>))"

definition configure_available_runmode2_kVAR_features_list :: "selection \<Rightarrow> bool \<times> selection" where
  "configure_available_runmode2_kVAR_features_list s =
     (let (ok, g, cs) = configure_available runmode2_kVAR_features_list (rm2_kVAR s) (cells s) in (ok, s\<lparr>rm2_kVAR := g, cells := cs\<rparr>))"

text \<open>After the configuration every feature is disabled, but the dispatch of the charge.\<close>

definition post_configure_selection :: "selection \<Rightarrow> selection" where
  "post_configure_selection s =
     (let cs = fold (put_enable False) runmode1_kW_features_list (cells s);
          cs = fold (put_enable False) runmode2_kW_features_list cs;
          cs = put_ui True Charge_dispatch (put_enable True Charge_dispatch cs)
      in s\<lparr>cells := fold (put_enable False) runmode1_kVAR_features_list cs\<rparr>)"

section \<open>Exactly the chosen feature is enabled\<close>

definition exclusive :: "feature_id list \<Rightarrow> mode_group \<Rightarrow> feature_cells \<Rightarrow> bool" where
  "exclusive ids g cs \<longleftrightarrow> (\<forall>i < length ids. fc_enable (cs (ids ! i)) \<longleftrightarrow> int i = g_current g)"

definition followed :: "mode_group \<Rightarrow> bool" where
  "followed g \<longleftrightarrow> g_current g = g_cmd g"

lemma ui_disable_keeps [simp]:
  "fc_enable (ui_disable_feature_group_feature_vars ids cs i) = fc_enable (cs i)"
  by (induction ids arbitrary: cs) (simp_all add: ui_disable_feature_group_feature_vars_def put_ui_def)

lemma put_enable_simps [simp]:
  "fc_enable (put_enable b j cs i) = (if i = j then b else fc_enable (cs i))" "fc_enable (put_ui b j cs i) = fc_enable (cs i)"
  by (simp_all add: put_enable_def put_ui_def)

lemma switch_feature_exclusive:
  assumes "distinct ids" "exclusive ids g cs" "switch_feature ids g cs = Some (g', cs')"
  shows "exclusive ids g' cs' \<and> g_current g' = g_cmd g \<and> g_cmd g' = g_cmd g \<and> (0 \<le> g_cmd g \<or> g_current g = g_cmd g) \<and>
    (\<forall>i. i \<notin> set ids \<longrightarrow> fc_enable (cs' i) = fc_enable (cs i))"
proof (cases "g_current g = g_cmd g")
  case True
  with assms show ?thesis by (auto simp: switch_feature_def)
next
  case False
  let ?n = "int (length ids)" and ?c = "g_current g" and ?d = "g_cmd g"
  have d: "0 \<le> ?d" using assms(3) False by (auto simp: switch_feature_def Let_def split: if_splits)
  have g': "g' = g\<lparr>g_current := ?d\<rparr>" using assms(3) False by (auto simp: switch_feature_def Let_def split: if_splits)
  have e: "fc_enable (cs' x) = (if ?d < ?n \<and> x = ids ! nat ?d then True
      else if 0 \<le> ?c \<and> ?c < ?n \<and> x = ids ! nat ?c then False else fc_enable (cs x))" for x
    using assms(3) False by (auto simp: switch_feature_def Let_def split: if_splits)
  have "fc_enable (cs' (ids ! i)) \<longleftrightarrow> int i = ?d" if i: "i < length ids" for i
  proof -
    have k: "ids ! i = ids ! nat k \<longleftrightarrow> int i = k" if "0 \<le> k" "k < ?n" for k
      using nth_eq_iff_index_eq [OF assms(1) i, of "nat k"] that by auto
    have d': "?d < ?n \<Longrightarrow> ids ! i = ids ! nat ?d \<longleftrightarrow> int i = ?d" using k d by blast
    have c': "0 \<le> ?c \<Longrightarrow> ?c < ?n \<Longrightarrow> ids ! i = ids ! nat ?c \<longleftrightarrow> int i = ?c" using k by blast
    have o: "fc_enable (cs (ids ! i)) \<longleftrightarrow> int i = ?c" using assms(2) i by (simp add: exclusive_def)
    show ?thesis
    proof (cases "?d < ?n \<and> int i = ?d")
      case True
      then show ?thesis using d' by (simp add: e)
    next
      case nd: False
      then have "\<not> (?d < ?n \<and> ids ! i = ids ! nat ?d)" using d' by blast
      then have "fc_enable (cs' (ids ! i)) \<longleftrightarrow> \<not> (0 \<le> ?c \<and> ?c < ?n \<and> ids ! i = ids ! nat ?c) \<and> fc_enable (cs (ids ! i))"
        by (auto simp: e)
      also have "\<dots> \<longleftrightarrow> False" using c' o i by auto
      finally show ?thesis using nd i by auto
    qed
  qed
  moreover have "fc_enable (cs' x) = fc_enable (cs x)" if "x \<notin> set ids" for x
    using that d by (auto simp: e)
  ultimately show ?thesis using d by (auto simp: g' exclusive_def)
qed

lemma switch_current: "switch_feature ids g cs = Some (g', cs') \<Longrightarrow> g_current g' = g_cmd g"
  by (auto simp: switch_feature_def Let_def split: if_splits)

lemma exclusive_cong: "(\<And>i. i \<in> set ids \<Longrightarrow> fc_enable (cs' i) = fc_enable (cs i)) \<Longrightarrow> g_current g' = g_current g \<Longrightarrow> exclusive ids g cs \<Longrightarrow> exclusive ids g' cs'"
  by (simp add: exclusive_def)

lemma show_mode_keeps [simp]: "g_current (show_mode g) = g_current g" "g_cmd (show_mode g) = g_cmd g"
  by (simp_all add: show_mode_def option_name_def split_beta split: option.split)

lemma calibration_display_keeps:
  "calibration_display s = Some s' \<Longrightarrow> cells s' = cells s \<and> rm1_kW s' = rm1_kW s \<and> rm2_kW s' = rm2_kW s \<and> rm1_kVAR s' = rm1_kVAR s \<and>
     rm2_kVAR s' = rm2_kVAR s"
  by (auto simp: calibration_display_def Let_def split: if_splits)

lemmas feature_lists = runmode1_kW_features_list_def runmode2_kW_features_list_def runmode1_kVAR_features_list_def runmode2_kVAR_features_list_def

definition selection_ok :: "selection \<Rightarrow> bool" where
  "selection_ok s \<longleftrightarrow> exclusive runmode1_kW_features_list (rm1_kW s) (cells s) \<and> exclusive runmode2_kW_features_list (rm2_kW s) (cells s) \<and>
     exclusive runmode1_kVAR_features_list (rm1_kVAR s) (cells s) \<and> exclusive runmode2_kVAR_features_list (rm2_kVAR s) (cells s) \<and>
     (fc_enable (cells s Charge_control) \<longleftrightarrow> g_current (rm1_kW s) = 1)"

lemma feature_sets:
  "i \<in> set runmode1_kW_features_list \<Longrightarrow> i \<notin> set runmode2_kW_features_list \<and> i \<notin> set runmode1_kVAR_features_list \<and> i \<noteq> Charge_control"
  "i \<in> set runmode2_kW_features_list \<Longrightarrow> i \<notin> set runmode1_kW_features_list \<and> i \<notin> set runmode1_kVAR_features_list \<and> i \<noteq> Charge_control"
  "i \<in> set runmode1_kVAR_features_list \<Longrightarrow> i \<notin> set runmode1_kW_features_list \<and> i \<notin> set runmode2_kW_features_list \<and> i \<noteq> Charge_control"
  "Charge_control \<notin> set runmode1_kW_features_list" "Charge_control \<notin> set runmode2_kW_features_list"
  "Charge_control \<notin> set runmode1_kVAR_features_list"
  by (auto simp: feature_lists)

lemma feature_lists_distinct:
  "distinct runmode1_kW_features_list" "distinct runmode2_kW_features_list" "distinct runmode1_kVAR_features_list" "distinct runmode2_kVAR_features_list"
  by (simp_all add: feature_lists)

lemma no_second_reactive_features: "runmode2_kVAR_features_list = []"
  by (simp add: feature_lists)

lemma charge_mask_bit: "bit runmode1_kW_features_charge_control_mask k \<longleftrightarrow> k = 1"
  unfolding runmode1_kW_features_charge_control_mask_def by (auto simp: bit_2_iff)

lemma charge_control_switched:
  assumes "switch_charge_control g g' cs = Some cs'" "fc_enable (cs Charge_control) \<longleftrightarrow> g_current g = 1" "g_current g' = g_cmd g'"
    and "0 \<le> g_cmd g' \<or> g_current g = g_current g'"
  shows "(fc_enable (cs' Charge_control) \<longleftrightarrow> g_current g' = 1) \<and> (\<forall>i. i \<noteq> Charge_control \<longrightarrow> fc_enable (cs' i) = fc_enable (cs i))"
proof (cases "g_current g = g_current g'")
  case True
  with assms show ?thesis by (simp add: switch_charge_control_def)
next
  case False
  then have cs': "cs' = (let b = bit runmode1_kW_features_charge_control_mask (nat (g_cmd g')) in put_ui b Charge_control (put_enable b Charge_control cs))"
    using assms(1) by (simp add: switch_charge_control_def Let_def split: if_splits)
  have "nat (g_cmd g') = 1 \<longleftrightarrow> g_current g' = 1" using assms(3,4) False by auto
  then show ?thesis by (simp add: cs' Let_def charge_mask_bit)
qed

section \<open>Properties\<close>

text \<open>C21. In every mode exactly the feature of the command is enabled, and charge control exactly when the
  first mode follows the feature that uses it; an update keeps this and makes every mode follow its
  command.
\<close>
theorem selection_exclusive:
  assumes "selection_ok s" "update_power_feature_selections s = Some s'"
  shows "selection_ok s' \<and> followed (rm1_kW s') \<and> followed (rm2_kW s') \<and> followed (rm1_kVAR s') \<and> followed (rm2_kVAR s')"
proof -
  obtain g1 c1 c2 s3 g4 c4 g5 c5 g6 c6 where a: "switch_feature runmode1_kW_features_list (rm1_kW s) (cells s) = Some (g1, c1)"
      "switch_charge_control (rm1_kW s) g1 c1 = Some c2" "calibration_display (s\<lparr>rm1_kW := g1, cells := c2\<rparr>) = Some s3"
      "switch_feature runmode2_kW_features_list (rm2_kW s3) (cells s3) = Some (g4, c4)"
      "switch_feature runmode1_kVAR_features_list (rm1_kVAR s3) c4 = Some (g5, c5)"
      "switch_feature runmode2_kVAR_features_list (rm2_kVAR s3) c5 = Some (g6, c6)"
      and s': "s' = s3\<lparr>rm1_kW := show_mode (rm1_kW s3), rm2_kW := show_mode g4, rm1_kVAR := show_mode g5, rm2_kVAR := show_mode g6, cells := c6\<rparr>"
    using assms(2) by (auto simp: update_power_feature_selections_def split: bind_splits prod.splits)
  note ok = assms(1) [unfolded selection_ok_def]
  have 1: "exclusive runmode1_kW_features_list g1 c1" "g_current g1 = g_cmd (rm1_kW s)" "g_cmd g1 = g_cmd (rm1_kW s)"
      "0 \<le> g_cmd g1 \<or> g_current (rm1_kW s) = g_current g1" "\<And>i. i \<notin> set runmode1_kW_features_list \<Longrightarrow> fc_enable (c1 i) = fc_enable (cells s i)"
    using switch_feature_exclusive [OF feature_lists_distinct(1) _ a(1)] ok by auto
  have 2: "fc_enable (c2 Charge_control) \<longleftrightarrow> g_current g1 = 1" "\<And>i. i \<noteq> Charge_control \<Longrightarrow> fc_enable (c2 i) = fc_enable (c1 i)"
    using charge_control_switched [OF a(2)] ok 1 feature_sets(4) by auto
  have 3: "cells s3 = c2" "rm1_kW s3 = g1" "rm2_kW s3 = rm2_kW s" "rm1_kVAR s3 = rm1_kVAR s" "rm2_kVAR s3 = rm2_kVAR s"
    using calibration_display_keeps [OF a(3)] by simp_all
  have e4: "exclusive runmode2_kW_features_list (rm2_kW s) c2"
    by (rule exclusive_cong [where g = "rm2_kW s" and cs = "cells s"]) (use ok 1(5) 2(2) feature_sets(2) in auto)
  have 4: "exclusive runmode2_kW_features_list g4 c4" "g_current g4 = g_cmd g4" "\<And>i. i \<notin> set runmode2_kW_features_list \<Longrightarrow> fc_enable (c4 i) = fc_enable (c2 i)"
    using switch_feature_exclusive [OF feature_lists_distinct(2) _ a(4) [unfolded 3]] e4 by auto
  have e5: "exclusive runmode1_kVAR_features_list (rm1_kVAR s) c4"
    by (rule exclusive_cong [where g = "rm1_kVAR s" and cs = "cells s"]) (use ok 1(5) 2(2) 4(3) feature_sets(3) in auto)
  have 5: "exclusive runmode1_kVAR_features_list g5 c5" "g_current g5 = g_cmd g5" "\<And>i. i \<notin> set runmode1_kVAR_features_list \<Longrightarrow> fc_enable (c5 i) = fc_enable (c4 i)"
    using switch_feature_exclusive [OF feature_lists_distinct(3) _ a(5) [unfolded 3]] e5 by auto
  have 6: "g_current g6 = g_cmd g6" "\<And>i. fc_enable (c6 i) = fc_enable (c5 i)"
    using switch_feature_exclusive [OF feature_lists_distinct(4) _ a(6) [unfolded 3]] by (auto simp: no_second_reactive_features exclusive_def)
  have e1': "exclusive runmode1_kW_features_list (show_mode g1) c6"
    by (rule exclusive_cong [where g = g1 and cs = c1]) (use 1(1) 2(2) 4(3) 5(3) 6(2) feature_sets(1) in auto)
  moreover have "exclusive runmode2_kW_features_list (show_mode g4) c6"
    by (rule exclusive_cong [where g = g4 and cs = c4]) (use 4(1) 5(3) 6(2) feature_sets(2) in auto)
  moreover have "exclusive runmode1_kVAR_features_list (show_mode g5) c6"
    by (rule exclusive_cong [where g = g5 and cs = c5]) (use 5(1) 6(2) in auto)
  moreover have "fc_enable (c6 Charge_control) \<longleftrightarrow> g_current g1 = 1"
    using 2(1) 4(3) 5(3) 6(2) feature_sets(5,6) by simp
  ultimately show ?thesis using 1(2,3) 4(2) 5(2) 6(1) 3
    by (simp add: s' selection_ok_def followed_def no_second_reactive_features exclusive_def)
qed

text \<open>The command that disables the active power feature of the first mode is not handled: the list of the
  features is read one past its end.
\<close>
theorem disabled_runmode1_undefined:
  assumes "g_cmd (rm1_kW s) = int (length runmode1_kW_features_list)"
  shows "update_power_feature_selections s = None"
proof -
  have "calibration_display (s\<lparr>rm1_kW := g, cells := cs'\<rparr>) = None"
    if "switch_feature runmode1_kW_features_list (rm1_kW s) (cells s) = Some (g, cs)" for g cs cs'
    using assms switch_current [OF that] by (simp add: calibration_display_def Let_def)
  then show ?thesis by (auto simp: update_power_feature_selections_def split: bind_splits)
qed

lemma allow_features:
  assumes "fold (allow_feature ids) is (found, g, cs) = (found', g', cs')"
  shows "g_mask g' = g_mask g \<and> g_cmd g' = g_cmd g \<and> (found' \<longleftrightarrow> found \<or> (\<exists>i \<in> set is. bit (g_mask g) i \<and> int i = g_cmd g)) \<and>
    (\<forall>i. (fc_available (cs i) \<longrightarrow> fc_available (cs' i)) \<and> fc_enable (cs' i) = fc_enable (cs i)) \<and>
    (\<forall>i \<in> set is. bit (g_mask g) i \<and> i \<noteq> length ids \<longrightarrow> fc_available (cs' (ids ! i)))"
  using assms
proof (induction "is" arbitrary: found g cs)
  case (Cons i "is")
  obtain f1 g1 c1 where s: "allow_feature ids i (found, g, cs) = (f1, g1, c1)" by (cases "allow_feature ids i (found, g, cs)")
  have k: "g_mask g1 = g_mask g" "g_cmd g1 = g_cmd g" "f1 \<longleftrightarrow> found \<or> bit (g_mask g) i \<and> int i = g_cmd g"
      "\<forall>j. (fc_available (cs j) \<longrightarrow> fc_available (c1 j)) \<and> fc_enable (c1 j) = fc_enable (cs j)"
      "bit (g_mask g) i \<and> i \<noteq> length ids \<longrightarrow> fc_available (c1 (ids ! i))"
    using s by (auto simp: allow_feature_def option_name_def put_available_def split_beta split: if_splits option.splits)
  from Cons.IH [of f1 g1 c1] Cons.prems s k show ?case by auto
qed simp

text \<open>
  A configuration of a mode that is accepted offers the feature of the initial command: the command is
  in range, the mask has its bit, and its feature is available unless the command disables the mode.
\<close>
theorem configured_mode_available:
  assumes "configure_available ids g cs = (True, g', cs')"
  shows "stoul16 (g_available_text g) = Some (g_mask g') \<and> 0 \<le> g_cmd g' \<and> g_cmd g' \<le> int (length ids) \<and> bit (g_mask g') (nat (g_cmd g')) \<and>
    (g_cmd g' < int (length ids) \<longrightarrow> fc_available (cs' (ids ! nat (g_cmd g'))))"
proof -
  obtain m where m: "stoul16 (g_available_text g) = Some m" using assms by (auto simp: configure_available_def split: if_splits option.splits)
  obtain f h c where f: "fold (allow_feature ids) [0..<length ids + 1] (False, g\<lparr>g_mask := m\<rparr>, cs) = (f, h, c)"
    by (cases "fold (allow_feature ids) [0..<length ids + 1] (False, g\<lparr>g_mask := m\<rparr>, cs)")
  have r: "f" "g_mask g' = g_mask h" "g_cmd g' = g_cmd h" "cs' = c"
    using assms f m by (auto simp: configure_available_def split: if_splits)
  note a = allow_features [OF f]
  obtain i where i: "i \<le> length ids" "bit m i" "g_cmd g = int i" using a r(1) by auto
  have "fc_available (c (ids ! i))" if "i < length ids" using a i that by auto
  moreover have "g_cmd g' = int i" "g_mask g' = m" using a i r by auto
  ultimately show ?thesis using i(1,2) m by (simp add: r(4))
qed

section \<open>A concrete selection\<close>

definition demo_group :: "int \<Rightarrow> mode_group" where
  "demo_group c = \<lparr>g_current = -1, g_cmd = c, g_cmd_options = [], g_cmd_hidden = False, g_available_text = ''3'',
     g_available_options = [(0, ''Charge''), (1, ''Disabled'')], g_mask = 0, g_status = []\<rparr>"

definition demo_selection :: "int \<Rightarrow> selection" where
  "demo_selection c = \<lparr>cells = (\<lambda>_. \<lparr>fc_enable = False, fc_available = False, fc_ui = False\<rparr>), rm1_kW = demo_group c, rm2_kW = demo_group 0,
     rm1_kVAR = demo_group 3, rm2_kVAR = demo_group 0, cal_soc_limits_enable = True, cal_cell_limits_enable = False,
     cal_rack_limits_enable = False, cal_soc_limits_ui = False, cal_cell_limits_ui = False, cal_rack_limits_ui = False\<rparr>"

lemma demo_selection_ok: "selection_ok (demo_selection c)"
  by (simp add: selection_ok_def demo_selection_def demo_group_def exclusive_def)

theorem selection_exclusive_witness:
  "\<exists>s'. update_power_feature_selections (demo_selection 1) = Some s' \<and> selection_ok s' \<and> fc_enable (cells s' Charge_control)"
proof -
  obtain s' where s': "update_power_feature_selections (demo_selection 1) = Some s'" "fc_enable (cells s' Charge_control)"
    by (simp add: update_power_feature_selections_def demo_selection_def demo_group_def switch_feature_def feature_lists
        switch_charge_control_def calibration_display_def charge_mask_bit)
  from selection_exclusive [OF demo_selection_ok s'(1)] s' show ?thesis by blast
qed

theorem disabled_runmode1_undefined_witness: "update_power_feature_selections (demo_selection 5) = None"
  by (rule disabled_runmode1_undefined) (simp add: demo_selection_def demo_group_def feature_lists)

theorem configured_mode_available_witness:
  "\<exists>g' cs'. configure_available runmode2_kW_features_list (demo_group 0) (cells (demo_selection 0)) = (True, g', cs') \<and>
     fc_available (cs' Generator_charge)"
proof -
  have h: "stoul16 ''3'' = Some 3" by (simp add: stoul16_def is_space_def hex_prefix_def hex_digit_def hex_number_def)
  obtain g' cs' where r: "configure_available runmode2_kW_features_list (demo_group 0) (cells (demo_selection 0)) = (True, g', cs')" "g_cmd g' = 0"
    using h by (simp add: configure_available_def demo_group_def feature_lists allow_feature_def option_name_def)
  from configured_mode_available [OF r(1)] r show ?thesis by (auto simp: feature_lists)
qed

end
