(* ===== verification/Site_Values.thy ===== *)
theory Site_Values
  imports Asset_Group Site_Cycle
begin

text \<open>
  Step 3 of a cycle as a whole (\<^verbatim>\<open>process_state\<close> of \<^verbatim>\<open>Site_Manager.cpp\<close> with \<^verbatim>\<open>get_values\<close> and \<^verbatim>\<open>set_values\<close>) and the
  cycle of the program in \<^verbatim>\<open>main.cpp\<close>: the readings of the assets are copied into the variables of the
  site, its state machine runs over the asset manager of \<open>Asset_Group\<close>, and the commands are written to
  the managers.  The control variables are as the selection of their inputs and of the features left them, and the variables that
  are only displayed (totals, counters and timers that no part of the cycle reads) are left out.
\<close>

section \<open>Data\<close>

text \<open>The members of the site manager that only the copying uses, around the record of the site.\<close>

record site_io =
  io_site :: "asset_manager site"
  prev_gen_kW_cmd :: flt
  prev_feeder_kW_cmd :: flt
  prev_gen_kVAR_cmd :: flt
  prev_asset_pf_flag :: bool
  power_priority_flag :: bool
  invert_poi_kW :: bool
  start_first_ess_kW :: flt
  start_first_gen_kW :: flt
  start_first_solar_kW :: flt
  ldss_f :: ldss_feature
  ess_soc_balancing_factor :: flt
  ess_instant_discharge :: flt
  ess_instant_charge_grid :: flt
  ess_instant_charge_pv :: flt
  num_fault_options :: nat
  num_alarm_options :: nat
  active_faults :: "(nat \<Rightarrow> string option) \<times> value_object"
  active_alarms :: "(nat \<Rightarrow> string option) \<times> value_object"

definition upd_site :: "(asset_manager site \<Rightarrow> asset_manager site) \<Rightarrow> site_io \<Rightarrow> site_io" where
  "upd_site f io = io\<lparr>io_site := f (io_site io)\<rparr>"

definition upd_am :: "(asset_manager \<Rightarrow> asset_manager) \<Rightarrow> asset_manager site \<Rightarrow> asset_manager site" where
  "upd_am f s = s\<lparr>am := f (am s)\<rparr>"

section \<open>Reading the assets\<close>

definition poi_sign :: "site_io \<Rightarrow> flt" where
  "poi_sign io = (if invert_poi_kW io then -1 else 1)"

text \<open>A limit that is not a number is \<open>None\<close>.\<close>

definition read_powers :: "flt \<Rightarrow> asset_manager \<Rightarrow> site_power \<Rightarrow> site_power option" where
  "read_powers poi_dir a p = do {
     let e = ess_manager_of a;
     let g = generator_manager_of a;
     let s = solar_manager_of a;
     let f = feeder_manager_of a;
     chg \<leftarrow> ess_total_kW_charge_limit e;
     dis \<leftarrow> am_total_kW_discharge_limit a;
     Some (p\<lparr>max_potential_ess_kW := essTotalMaxPotentialActivePower e, min_potential_ess_kW := essTotalMinPotentialActivePower e,
             max_potential_gen_kW := genTotalMaxPotentialActivePower g, max_potential_solar_kW := solarTotalMaxPotentialActivePower s,
             site_frequency := grid_frequency (poi f),
             total_site_kW_rated_charge := -1 * essTotalRatedActivePower e,
             total_site_kW_rated_discharge := essTotalRatedActivePower e + genTotalActivePowerkW g + solarTotalRatedActivePower s,
             total_site_kVAR_rated_charge := -1 * essTotalRatedReactivePower e,
             total_site_kVAR_rated_discharge := essTotalRatedReactivePower e + solarTotalRatedReactivePower s,
             total_asset_kW_charge_limit := chg, total_asset_kW_discharge_limit := dis,
             total_site_kW_charge_limit := chg, total_site_kW_discharge_limit := dis,
             soc_avg_running := controllableEssAvgSoc e,
             feeder_actual_kW := poi_dir * fm_feeder_active_power (as_id (poi f)) f,
             feeder_actual_kVAR := poi_dir * fm_feeder_reactive_power (as_id (poi f)) f,
             num_solar_running := sol_numRunning s\<rparr>) }"

definition setpoint_statuses :: "setpoint_states \<Rightarrow> asset_manager \<Rightarrow> int" where
  "setpoint_statuses st a = count_of (\<lambda>e. setpoint_status e = st) (esss a)"

definition read_feature_values :: "asset_manager \<Rightarrow> site_features \<Rightarrow> site_features" where
  "read_feature_values a f =
     (let e = ess_manager_of a
      in f\<lparr>reactive_setpoint_f := (reactive_setpoint_f f)
             \<lparr>kVAR_cmd_slew := set_slew_rate (ival RSP_kVAR_slew_rate (reactive_setpoint_f f)) (kVAR_cmd_slew (reactive_setpoint_f f))\<rparr>,
           load_shed_f := store_float LS_spare_ess_kw (essTotalDischargeablePowerkW e - essTotalActivePowerkW e) (load_shed_f f),
           solar_shed_f := store_float SS_spare_ess_kw
             (essTotalChargeablePowerkW e - zero_check (-1 * essTotalActivePowerkW e)) (solar_shed_f f),
           avr_f := store_bool AVR_status_flag False (store_float AVR_actual_volts (fm_poi_gridside_avg_voltage (feeder_manager_of a)) (avr_f f)),
           active_power_closed_loop := store_float CL_total_correction 0 (active_power_closed_loop f),
           reactive_power_closed_loop := store_float RCL_total_correction 0 (reactive_power_closed_loop f),
           ess_calibration_mode := store_int CAL_num_zero (setpoint_statuses ZERO a)
             (store_int CAL_num_limited (setpoint_statuses LIMITED a)
             (store_int CAL_num_setpoint (setpoint_statuses ACCEPTED a) (ess_calibration_mode f)))\<rparr>)"

text \<open>The commands and potentials the state machine starts from.\<close>

definition read_asset_data :: "flt \<Rightarrow> flt \<Rightarrow> flt \<Rightarrow> flt \<Rightarrow> flt \<Rightarrow> flt \<Rightarrow> bool \<Rightarrow> asset_cmd_data \<Rightarrow> asset_cmd_data" where
  "read_asset_data kW kVAR hi lo pot first restart d =
     d\<lparr>actual_kW := kW, actual_kVAR := kVAR, max_potential_kW := hi, min_potential_kW := lo, potential_kVAR := pot,
       start_first_kW := first, auto_restart_flag := restart\<rparr>"

definition read_asset_cmd :: "site_io \<Rightarrow> asset_cmd_object \<Rightarrow> asset_cmd_object option" where
  "read_asset_cmd io c =
     (let s = io_site io; a = am s; e = ess_manager_of a; g = generator_manager_of a; so = solar_manager_of a; f = feeder_manager_of a;
          c = c\<lparr>additional_load_compensation := 0, poi_cmd := 0,
            ess_data := read_asset_data (essTotalActivePowerkW e) (essTotalReactivePowerkVAR e) (essTotalMaxPotentialActivePower e)
              (essTotalMinPotentialActivePower e) (essTotalPotentialReactivePower e) (start_first_ess_kW io) (allow_ess_auto_restart s) (ess_data c),
            gen_data := read_asset_data (genTotalActivePowerkW g) (genTotalReactivePowerkVAR g) (genTotalMaxPotentialActivePower g)
              (genTotalMinPotentialActivePower g) (genTotalPotentialReactivePower g) (start_first_gen_kW io) (allow_gen_auto_restart s) (gen_data c),
            solar_data := read_asset_data (solarTotalActivePowerkW so) (solarTotalReactivePowerkVAR so) (solarTotalMaxPotentialActivePower so)
              (solarTotalMinPotentialActivePower so) (solarTotalPotentialReactivePower so) (start_first_solar_kW io) (allow_solar_auto_restart s)
              (solar_data c),
            feeder_data := (feeder_data c)\<lparr>actual_kW := poi_sign io * fm_feeder_active_power (as_id (poi f)) f,
              max_potential_kW := max_potential_active_power (poi f), min_potential_kW := min_potential_active_power (poi f)\<rparr>\<rparr>
      in calculate_site_kW_load (calculate_total_potential_kVAR (reset_kVAR_dispatch (reset_kW_dispatch c))))"

text \<open>The power the storage takes from the grid and from the solar inverters, for reporting.\<close>

definition update_ess_kpi_values :: "flt \<Rightarrow> flt \<Rightarrow> site_io \<Rightarrow> site_io" where
  "update_ess_kpi_values interconnect ess_kW io =
     (let pv = interconnect - ess_kW;
          (grid, from_pv) =
            (if ess_kW < 0 \<and> \<bar>ess_kW\<bar> > pv then if pv > 0 then (\<bar>ess_kW\<bar> - pv, pv) else (\<bar>ess_kW\<bar>, 0)
             else if ess_kW < 0 \<and> \<bar>ess_kW\<bar> < pv then (0, \<bar>ess_kW\<bar>) else (0, 0))
      in io\<lparr>ess_instant_discharge := (if ess_kW > 0 then ess_kW else 0), ess_instant_charge_grid := grid, ess_instant_charge_pv := from_pv\<rparr>)"

text \<open>The settings of load dependent start/stop.  The priority setting is converted without a check; \<open>None\<close> is a value that is none.\<close>

definition priority_of_int :: "int \<Rightarrow> LDSS_Priority_Setting option" where
  "priority_of_int i = (if i = 0 then Some STATIC else if i = 1 then Some DYNAMIC else None)"

definition ldss_settings_of :: "site_io \<Rightarrow> ldss_settings option" where
  "ldss_settings_of io =
     (let l = ldss_f io
      in map_option (\<lambda>p. \<lparr>s_enabled = ldss_enable_flag (io_site io), s_priority_setting = p,
           s_max_load_threshold_percent = fval LDSS_max_load_threshold_percent l,
           s_min_load_threshold_percent = fval LDSS_min_load_threshold_percent l, s_warmup_time = ival LDSS_warmup_time l,
           s_cooldown_time = ival LDSS_cooldown_time l, s_start_gen_time = ival LDSS_start_gen_time l,
           s_stop_gen_time = ival LDSS_stop_gen_time l, s_enable_soc_thresholds_flag = bval LDSS_enable_soc_threshold l,
           s_min_soc_percent = fval LDSS_min_soc_threshold_percent l, s_max_soc_percent = fval LDSS_max_soc_threshold_percent l\<rparr>)
         (priority_of_int (ival LDSS_priority_setting l)))"

definition read_counts :: "asset_manager \<Rightarrow> asset_manager site \<Rightarrow> asset_manager site" where
  "read_counts a s = s\<lparr>num_ess_available := ess_numAvail (ess_manager_of a), num_ess_running := ess_numRunning (ess_manager_of a),
     num_ess_controllable := numEssControllable (ess_manager_of a), num_solar_available := sol_numAvail (solar_manager_of a),
     num_gen_available := numAvail (generator_manager_of a), num_gen_running := numRunning (generator_manager_of a),
     num_gen_active := numGenControllable (generator_manager_of a),
     ess_actual_kW := essTotalActivePowerkW (ess_manager_of a), soc_avg_all := parsedEssAvgSoc (ess_manager_of a)\<rparr>"

definition get_values :: "site_io \<Rightarrow> site_io option" where
  "get_values io = do {
     let (t, s) = read_clock (io_site io);
     let s = s\<lparr>status_of := (status_of s)\<lparr>ss_current_time := t\<rparr>\<rparr>;
     let a = am s;
     p \<leftarrow> read_powers (poi_sign io) a (pw s);
     set \<leftarrow> ldss_settings_of io;
     c \<leftarrow> read_asset_cmd io (asset_cmd p);
     let f = read_feature_values a (features p);
     (r, e) \<leftarrow> charge_control (fval CC_target_soc (charge_control_f f)) (bval CC_charge_disable (charge_control_f f))
                 (bval CC_discharge_disable (charge_control_f f)) (ess_manager_of a);
     let f = f\<lparr>charge_control_f := store_float CC_kW_request r (charge_control_f f)\<rparr>;
     let a' = a\<lparr>ess_manager_of := e, generator_manager_of := upd_ld (update_settings set) (generator_manager_of a)\<rparr>;
     let s = (read_counts a s)\<lparr>pw := p\<lparr>asset_cmd := c, features := f\<rparr>, am := a', site_kW_load_v := site_kW_load c\<rparr>;
     Some (update_ess_kpi_values (feeder_actual_kW p) (essTotalActivePowerkW (ess_manager_of a)) (io\<lparr>io_site := s\<rparr>)) }"

section \<open>What the state machine asked for\<close>

text \<open>The readings the run modes use, and the requests they made, in their order.\<close>

definition readings_of :: "asset_manager \<Rightarrow> site_readings option" where
  "readings_of a = (let e = ess_manager_of a; s = solar_manager_of a
     in map_option (\<lambda>l. \<lparr>rd_ess_total_uncontrollable_active_power = essTotalUncontrollableActivePowerkW e,
          rd_solar_total_uncontrollable_active_power = solarTotalUncontrollableActivePowerkW s, rd_ess_total_kW_discharge_limit = l,
          rd_ess_total_rated_active_power = essTotalRatedActivePower e, rd_solar_total_rated_active_power = solarTotalRatedActivePower s,
          rd_num_ess_controllable = numEssControllable e, rd_num_solar_controllable = numSolarControllable s\<rparr>)
        (ess_total_kW_discharge_limit e))"

definition am_perform :: "(nat \<Rightarrow> timespec) \<Rightarrow> asset_call \<Rightarrow> asset_manager \<Rightarrow> asset_manager" where
  "am_perform ck q a = (case q of
       Set_solar_curtailment_enabled b \<Rightarrow> snd (to_solar (told (\<lambda>m. m\<lparr>solar_curtailment_enabled := b\<rparr>)) a)
     | Start_first_gen b \<Rightarrow> snd (to_gen (told (request_first_gen b)) a)
     | Start_available_ess \<Rightarrow> start_available_ess ck a
     | Start_available_solar \<Rightarrow> start_available_solar ck a
     | Enter_standby_all_solar \<Rightarrow> snd (to_solar (told enter_standby_all_solar) a)
     | Enter_standby_all_ess \<Rightarrow> snd (to_ess (told enter_standby_all_ess) a)
     | Exit_standby_all_ess \<Rightarrow> snd (to_ess (told exit_standby_all_ess) a)
     | Exit_standby_all_solar \<Rightarrow> snd (to_solar (told exit_standby_all_solar) a)
     | Set_first_gen_is_starting_flag b \<Rightarrow> snd (to_gen (told (upd_ld (\<lambda>l. l\<lparr>first_gen_is_starting := b\<rparr>))) a)
     | Turn_off_start_cmd \<Rightarrow> a)"

definition am_perform_next :: "asset_call \<Rightarrow> asset_manager \<Rightarrow> asset_manager" where
  "am_perform_next q a = am_perform (am_readings a (am_calls a)) q (a\<lparr>am_calls := am_calls a + 1\<rparr>)"

definition perform_calls :: "asset_manager site \<Rightarrow> asset_manager site" where
  "perform_calls s = upd_pw (\<lambda>p. p\<lparr>calls := []\<rparr>) (upd_am (fold am_perform_next (calls (pw s))) s)"

section \<open>Writing the commands\<close>

definition clear_asset_alarm :: "int \<Rightarrow> int \<Rightarrow> site_alerts \<Rightarrow> site_alerts option" where
  "clear_asset_alarm n k sa = do {
     b \<leftarrow> get_active_alarms k sa;
     if n = 0 \<and> b then clear_alarms k sa else Some sa }"

definition clear_old_alerts :: "asset_manager site \<Rightarrow> asset_manager site option" where
  "clear_old_alerts s = do {
     let s = (if clear_fault_status_flags s \<and> check_expired_time (ss_current_time (status_of s)) (time_to_clear_fault_status_flags s)
              then upd_alerts clear_fault_registers (s\<lparr>clear_fault_status_flags := False\<rparr>) else s);
     sa \<leftarrow> clear_asset_alarm (num_path_faults s) 2 (alerts (pw s));
     sa \<leftarrow> clear_asset_alarm (num_path_alarms s) 1 sa;
     Some (upd_alerts (\<lambda>_. sa) s) }"

text \<open>The slew limiters read the clock one after the other.\<close>

definition update_slews :: "asset_manager site \<Rightarrow> asset_manager site" where
  "update_slews s =
     (let t = (\<lambda>i. clk s (tick s + i)); p = pw s; f = features p;
          sum = ess_kVAR_cmd p + solar_kVAR_cmd p;
          slew_target = (if bval RCL_enable_flag (reactive_power_closed_loop f)
                         then sum - fval RCL_total_correction (reactive_power_closed_loop f) else sum);
          f = f\<lparr>reactive_setpoint_f := (reactive_setpoint_f f)
                 \<lparr>kVAR_cmd_slew := update_slew_target (t 3) slew_target (kVAR_cmd_slew (reactive_setpoint_f f))\<rparr>,
                manual_power_mode := (manual_power_mode f)
                 \<lparr>manual_solar_kW_slew := update_slew_target (t 4) (solar_kW_cmd p) (manual_solar_kW_slew (manual_power_mode f)),
                  manual_ess_kW_slew := update_slew_target (t 5) (ess_kW_cmd p) (manual_ess_kW_slew (manual_power_mode f)),
                  manual_gen_kW_slew := update_slew_target (t 6) (gen_kW_cmd p) (manual_gen_kW_slew (manual_power_mode f))\<rparr>\<rparr>
      in s\<lparr>pw := p\<lparr>features := f, ess_kVAR_cmd_slew := update_slew_target (t 0) (ess_kVAR_cmd p) (ess_kVAR_cmd_slew p),
             gen_kVAR_cmd_slew := update_slew_target (t 1) (gen_kVAR_cmd p) (gen_kVAR_cmd_slew p),
             solar_kVAR_cmd_slew := update_slew_target (t 2) (solar_kVAR_cmd p) (solar_kVAR_cmd_slew p)\<rparr>, tick := tick s + 7\<rparr>)"

text \<open>A target is written when its command differs from the one written last.\<close>

definition write_new :: "flt \<Rightarrow> flt \<Rightarrow> (asset_manager \<Rightarrow> asset_manager) \<Rightarrow> asset_manager \<Rightarrow> asset_manager" where
  "write_new prev cmd f a = (if prev \<noteq> cmd then f a else a)"

definition write_ess :: "(ess_manager \<Rightarrow> ess_manager) \<Rightarrow> asset_manager \<Rightarrow> asset_manager" where
  "write_ess f a = a\<lparr>ess_manager_of := f (ess_manager_of a)\<rparr>"

definition write_gen :: "(gen_manager \<Rightarrow> gen_manager) \<Rightarrow> asset_manager \<Rightarrow> asset_manager" where
  "write_gen f a = a\<lparr>generator_manager_of := f (generator_manager_of a)\<rparr>"

definition write_solar :: "(solar_manager \<Rightarrow> solar_manager) \<Rightarrow> asset_manager \<Rightarrow> asset_manager" where
  "write_solar f a = a\<lparr>solar_manager_of := f (solar_manager_of a)\<rparr>"

definition write_feeder :: "(feeder_manager \<Rightarrow> feeder_manager) \<Rightarrow> asset_manager \<Rightarrow> asset_manager" where
  "write_feeder f a = a\<lparr>feeder_manager_of := f (feeder_manager_of a)\<rparr>"

definition write_power_targets :: "site_io \<Rightarrow> asset_manager \<Rightarrow> asset_manager" where
  "write_power_targets io a =
     (let s = io_site io; p = pw s;
          a = write_new (prev_ess_kW_cmd s) (ess_kW_cmd p) (write_ess (\<lambda>m. m\<lparr>essTargetActivePowerkW := ess_kW_cmd p\<rparr>)) a;
          a = write_new (prev_gen_kW_cmd io) (gen_kW_cmd p) (write_gen (\<lambda>m. m\<lparr>genTargetActivePowerkW := gen_kW_cmd p\<rparr>)) a;
          a = write_new (prev_solar_kW_cmd s) (solar_kW_cmd p) (write_solar (\<lambda>m. m\<lparr>solarTargetActivePowerkW := solar_kW_cmd p\<rparr>)) a;
          a = write_new (prev_feeder_kW_cmd io) (feeder_kW_cmd p) (write_feeder (fm_set_poi_target_active_power (feeder_kW_cmd p))) a;
          a = write_new (prev_ess_kVAR_cmd s) (ess_kVAR_cmd p) (write_ess (\<lambda>m. m\<lparr>essTargetReactivePowerkVAR := ess_kVAR_cmd p\<rparr>)) a;
          a = write_new (prev_gen_kVAR_cmd io) (gen_kVAR_cmd p) (write_gen (\<lambda>m. m\<lparr>genTargetReactivePowerkVAR := gen_kVAR_cmd p\<rparr>)) a
      in write_new (prev_solar_kVAR_cmd s) (solar_kVAR_cmd p) (write_solar (\<lambda>m. m\<lparr>solarTargetReactivePowerkVAR := solar_kVAR_cmd p\<rparr>)) a)"

definition write_power_factor :: "site_io \<Rightarrow> asset_manager \<Rightarrow> asset_manager" where
  "write_power_factor io a =
     (let p = pw (io_site io); pf = power_factor (features p); x = fval DPF_power_factor_cmd pf;
          a = write_new (prev_asset_pf_cmd pf) x (\<lambda>a. write_solar (set_solar_target_power_factor x) (write_ess (set_ess_target_power_factor x) a)) a;
          md = (if asset_pf_flag p then PWRFCTR else REACTIVEPWR)
      in if prev_asset_pf_flag io \<noteq> asset_pf_flag p then am_set_solar_mode md (write_ess (set_ess_mode md) a) else a)"

definition calibration_settings :: "ess_calibration \<Rightarrow> ess_calibration_vars" where
  "calibration_settings c = \<lparr>calibration_flag = bval CAL_enable_flag c, soc_limits_flag = bval CAL_soc_limits_enable c,
     cell_voltage_limits_flag = bval CAL_cell_voltage_limits_enable c, rack_voltage_limits_flag = bval CAL_rack_voltage_limits_enable c,
     chargeable_soc_limit = fval CAL_max_soc_limit c, dischargeable_soc_limit = fval CAL_min_soc_limit c,
     chargeable_cell_voltage_limit = fval CAL_max_cell_voltage_limit c, dischargeable_cell_voltage_limit = fval CAL_min_cell_voltage_limit c,
     chargeable_rack_voltage_limit = fval CAL_max_rack_voltage_limit c, dischargeable_rack_voltage_limit = fval CAL_min_rack_voltage_limit c,
     raw_calibration_setpoint = fval CAL_kW_cmd c\<rparr>"

definition set_ess_calibration_variables :: "flt \<Rightarrow> ess_calibration \<Rightarrow> ess_manager \<Rightarrow> ess_manager" where
  "set_ess_calibration_variables factor c =
     (let on = bval CAL_enable_flag c in set_all_ess_calibration_vars (c_bool (\<not> on) * factor) (\<not> on) (calibration_settings c) on)"

definition write_assets :: "site_io \<Rightarrow> asset_manager \<Rightarrow> asset_manager" where
  "write_assets io a =
     (let p = pw (io_site io);
          a = am_set_reactive_power_priority (power_priority_flag io) a;
          a = write_gen (request_first_gen (start_first_flag (gen_data (asset_cmd p)))) a;
          a = write_power_factor io (write_power_targets io a)
      in write_ess (set_ess_calibration_variables (ess_soc_balancing_factor io) (ess_calibration_mode (features p))) a)"

definition set_asset_cmd_variables :: "asset_manager site \<Rightarrow> asset_manager site" where
  "set_asset_cmd_variables s =
     (let c = asset_cmd (pw s)
      in (upd_pw (\<lambda>p. p\<lparr>min_potential_ess_kW := min_potential_kW (ess_data c), max_potential_ess_kW := max_potential_kW (ess_data c),
            max_potential_gen_kW := max_potential_kW (gen_data c), max_potential_solar_kW := max_potential_kW (solar_data c),
            v_site_kVAR_demand := Asset_Cmd.site_kVAR_demand c\<rparr>) s)\<lparr>site_kW_demand_v := site_kW_demand c\<rparr>)"

definition ui_enable_flag :: "asset_manager site \<Rightarrow> asset_manager site" where
  "ui_enable_flag s =
     set_enable_flag (\<not> disable_flag s \<and> value_bool (fo_value (enable_flag s)) \<and> current_state (status_of s) = Init) s"

text \<open>The commands that were written are remembered.\<close>

definition remember_cmds :: "site_io \<Rightarrow> site_io" where
  "remember_cmds io =
     (let s = io_site io; p = pw s; f = features p;
          s = s\<lparr>prev_ess_kW_cmd := ess_kW_cmd p, prev_solar_kW_cmd := solar_kW_cmd p, prev_ess_kVAR_cmd := ess_kVAR_cmd p,
                prev_solar_kVAR_cmd := solar_kVAR_cmd p,
                pw := p\<lparr>features := f\<lparr>power_factor := (power_factor f)\<lparr>prev_asset_pf_cmd := fval DPF_power_factor_cmd (power_factor f)\<rparr>\<rparr>\<rparr>\<rparr>
      in io\<lparr>io_site := s, prev_gen_kW_cmd := gen_kW_cmd p, prev_feeder_kW_cmd := feeder_kW_cmd p, prev_gen_kVAR_cmd := gen_kVAR_cmd p,
            prev_asset_pf_flag := asset_pf_flag p\<rparr>)"

definition set_values :: "site_io \<Rightarrow> site_io option" where
  "set_values io = do {
     s \<leftarrow> clear_old_alerts (io_site io);
     let io = io\<lparr>io_site := update_slews s\<rparr>;
     let io = remember_cmds (upd_site (upd_am (write_assets io)) io);
     let sa = alerts (pw (io_site io));
     af \<leftarrow> build_active (num_fault_options io) (\<lambda>i. fault_options sa (int i)) (active_fault_array sa) (active_faults io);
     aa \<leftarrow> build_active (num_alarm_options io) (\<lambda>i. alarm_options sa (int i)) (active_alarm_array sa) (active_alarms io);
     Some ((upd_site (\<lambda>s. ui_enable_flag (set_asset_cmd_variables s)) io)\<lparr>active_faults := af, active_alarms := aa\<rparr>) }"

section \<open>The cycle\<close>

definition process_state :: "(int \<Rightarrow> bool \<times> string) \<Rightarrow> site_clocks \<Rightarrow> site_io \<Rightarrow> site_io option" where
  "process_state reserved ck io = do {
     io \<leftarrow> get_values io;
     rd \<leftarrow> readings_of (am (io_site io));
     s \<leftarrow> run_state_machine (managed_assets reserved) rd ck (io_site io);
     set_values (io\<lparr>io_site := perform_calls s\<rparr>) }"

record cycle_clocks =
  cc_process :: process_clocks
  cc_site :: site_clocks
  cc_update :: gen_clocks
  cc_send_ess :: "nat \<Rightarrow> timespec \<times> timespec \<times> timespec"
  cc_send_gen :: "nat \<Rightarrow> timespec \<times> timespec"
  cc_send_solar :: "nat \<Rightarrow> timespec \<times> timespec"

definition controller_cycle :: "(int \<Rightarrow> bool \<times> string) \<Rightarrow> cycle_clocks \<Rightarrow> site_io \<Rightarrow> site_io option" where
  "controller_cycle reserved ck io = do {
     a \<leftarrow> am_process_asset_data (cc_process ck) (am (io_site io));
     io \<leftarrow> process_state reserved (cc_site ck) (upd_site (\<lambda>s. s\<lparr>am := a\<rparr>) io);
     a \<leftarrow> am_update_asset_data (cc_update ck) (am (io_site io));
     Some (upd_site (\<lambda>s. s\<lparr>am := am_send_to_components (cc_send_ess ck) (cc_send_gen ck) (cc_send_solar ck) a\<rparr>) io) }"

section \<open>Reported charging\<close>

text \<open>The reported sources add up to the charging power, unless exactly the solar power is stored.\<close>

lemma charge_accounted:
  "let io' = update_ess_kpi_values interconnect ess_kW io in
     ess_instant_charge_grid io' + ess_instant_charge_pv io' = (if ess_kW < 0 \<and> interconnect \<noteq> 0 then - ess_kW else 0)"
  by (auto simp: update_ess_kpi_values_def Let_def)

end
