(* ===== verification/Controller.thy ===== *)
theory Controller
  imports Site_Values
begin

text \<open>
  Properties of the cycle of the program over all of its parts: the commands of the site become the
  targets of the managers and of the feeder at the point of interconnect, every cycle of a run makes one move
  of the state machine of the site, and a fault that takes the site out of its state leaves these targets 0.
\<close>

section \<open>The targets of the managers\<close>

text \<open>The target of the feeders is the setpoint of the feeder at the point of interconnect.\<close>

definition targets :: "asset_manager \<Rightarrow> flt list" where
  "targets a = [essTargetActivePowerkW (ess_manager_of a), genTargetActivePowerkW (generator_manager_of a),
     solarTargetActivePowerkW (solar_manager_of a), essTargetReactivePowerkVAR (ess_manager_of a),
     genTargetReactivePowerkVAR (generator_manager_of a), solarTargetReactivePowerkVAR (solar_manager_of a),
     map kW_control (feeds a) ! pPointOfInterConnect (feeder_manager_of a)]"

definition target_cmds :: "site_power \<Rightarrow> flt list" where
  "target_cmds p = [ess_kW_cmd p, gen_kW_cmd p, solar_kW_cmd p, ess_kVAR_cmd p, gen_kVAR_cmd p, solar_kVAR_cmd p,
     feeder_kW_cmd p]"

text \<open>The commands that were written last.\<close>

definition written_cmds :: "site_io \<Rightarrow> flt list" where
  "written_cmds io = (let s = io_site io in [prev_ess_kW_cmd s, prev_gen_kW_cmd io, prev_solar_kW_cmd s, prev_ess_kVAR_cmd s,
     prev_gen_kVAR_cmd io, prev_solar_kVAR_cmd s, prev_feeder_kW_cmd io])"

definition targets_written :: "site_io \<Rightarrow> bool" where
  "targets_written io \<longleftrightarrow> targets (am (io_site io)) = written_cmds io \<and>
     pPointOfInterConnect (feeder_manager_of (am (io_site io))) < length (feeds (am (io_site io)))"

text \<open>The targets of one kind of assets, with the number of the assets.\<close>

definition ess_targets :: "ess_manager \<Rightarrow> flt \<times> flt \<times> nat" where
  "ess_targets m = (essTargetActivePowerkW m, essTargetReactivePowerkVAR m, length (pEss m))"

definition gen_targets :: "gen_manager \<Rightarrow> flt \<times> flt" where
  "gen_targets m = (genTargetActivePowerkW m, genTargetReactivePowerkVAR m)"

definition solar_targets :: "solar_manager \<Rightarrow> flt \<times> flt \<times> nat" where
  "solar_targets m = (solarTargetActivePowerkW m, solarTargetReactivePowerkVAR m, length (pSolar m))"

definition feeder_targets :: "feeder_manager \<Rightarrow> flt list \<times> nat" where
  "feeder_targets m = (map kW_control (pFeeder m), pPointOfInterConnect m)"

type_synonym target_parts = "(flt \<times> flt \<times> nat) \<times> (flt \<times> flt) \<times> (flt \<times> flt \<times> nat) \<times> (flt list \<times> nat)"

definition target_pairs :: "asset_manager \<Rightarrow> target_parts" where
  "target_pairs a = (ess_targets (ess_manager_of a), gen_targets (generator_manager_of a), solar_targets (solar_manager_of a),
     feeder_targets (feeder_manager_of a))"

lemma target_pairs_targets: "target_pairs a = target_pairs b \<Longrightarrow> targets a = targets b"
  by (simp add: target_pairs_def targets_def ess_targets_def gen_targets_def solar_targets_def feeder_targets_def)

lemma target_pairs_poi: "target_pairs a = target_pairs b \<Longrightarrow>
    pPointOfInterConnect (feeder_manager_of a) = pPointOfInterConnect (feeder_manager_of b) \<and> length (feeds a) = length (feeds b)"
  by (auto simp: target_pairs_def feeder_targets_def dest: map_eq_imp_length_eq)

text \<open>Nothing a feeder is asked to do, and nothing in the processing of its readings, is a new setpoint.\<close>

lemma send_setpoint [simp]: "kW_setpoint (snd (send_to_comp_uri v u a)) = kW_setpoint a"
  by (simp add: send_to_comp_uri_def json_object_send_def)

lemma clear_alerts_setpoint [simp]: "kW_setpoint (clear_alerts t a) = kW_setpoint a"
  by (simp add: clear_alerts_def split_beta)

lemma feeder_commands_setpoint [simp]:
  "kW_setpoint (snd (breaker_open f)) = kW_setpoint f" "kW_setpoint (snd (breaker_close f)) = kW_setpoint f"
  "kW_setpoint (snd (breaker_close_permissive f)) = kW_setpoint f"
  "kW_setpoint (snd (breaker_close_permissive_remove f)) = kW_setpoint f"
  by (simp_all add: breaker_open_def breaker_close_def breaker_close_permissive_def breaker_close_permissive_remove_def feeder_send_def)

lemma fm_ask_targets:
  assumes "\<And>f. kW_setpoint (snd (g f)) = kW_setpoint f"
  shows "feeder_targets (snd (fm_ask g i m)) = feeder_targets m"
proof -
  have "kW_control (snd (g f)) = kW_control f" for f using assms by (simp add: kW_control_def)
  moreover have "(map kW_control xs)[i := kW_control (xs ! i)] = map kW_control xs" for xs :: "feeder list"
    by (metis list_update_id map_update)
  ultimately show ?thesis by (simp add: fm_ask_def feeder_targets_def map_update split_beta)
qed

lemma feeder_requests_targets [simp]:
  "feeder_targets (snd (fm_set_poi_open m)) = feeder_targets m" "feeder_targets (snd (fm_set_poi_closed m)) = feeder_targets m"
  "feeder_targets (snd (fm_sync_close_permissive m)) = feeder_targets m"
  "feeder_targets (snd (fm_sync_close_permissive_remove m)) = feeder_targets m"
  "feeder_targets (snd (ask_feeder breaker_open k m)) = feeder_targets m"
  "feeder_targets (snd (ask_feeder breaker_close k m)) = feeder_targets m"
  by (simp_all add: fm_set_poi_open_def fm_set_poi_closed_def fm_sync_close_permissive_def fm_sync_close_permissive_remove_def
      ask_feeder_def fm_ask_targets split: option.split)

lemma feeder_clear_targets [simp]: "feeder_targets (m\<lparr>pFeeder := tm_clear_faults ck (pFeeder m)\<rparr>) = feeder_targets m"
proof -
  have "map (\<lambda>y. kW_control (snd y)) (enumerate 0 xs) = map kW_control xs" for xs :: "feeder list"
    using map_map [of kW_control snd "enumerate 0 xs"] by (simp add: comp_def)
  moreover have "kW_control (clear_alerts t f) = kW_control f" for t and f :: feeder by (simp add: kW_control_def)
  ultimately show ?thesis by (simp add: feeder_targets_def tm_clear_faults_def comp_def split_beta)
qed

lemma upd_targets [simp]:
  "gen_targets (upd_ld f m) = gen_targets m" "gen_targets (upd_gens h m) = gen_targets m"
  "ess_targets (each_ess P k e) = ess_targets e" "solar_targets (each_solar R j s) = solar_targets s"
  "length x1 = length (pEss m1) \<Longrightarrow> ess_targets (m1\<lparr>pEss := x1\<rparr>) = ess_targets m1"
  "length x2 = length (pSolar m2) \<Longrightarrow> solar_targets (m2\<lparr>pSolar := x2\<rparr>) = solar_targets m2"
  by (simp_all add: gen_targets_def upd_ld_def upd_gens_def ess_targets_def each_ess_def solar_targets_def each_solar_def)

lemma to_targets [simp]:
  "target_pairs (snd (to_ess f1 a)) = (ess_targets (snd (f1 (ess_manager_of a))), snd (target_pairs a))"
  "target_pairs (snd (to_gen f2 a)) = (fst (target_pairs a), gen_targets (snd (f2 (generator_manager_of a))), snd (snd (target_pairs a)))"
  "target_pairs (snd (to_solar f3 a)) = (fst (target_pairs a), fst (snd (target_pairs a)), solar_targets (snd (f3 (solar_manager_of a))),
     snd (snd (snd (target_pairs a))))"
  "target_pairs (snd (to_feeder f4 a)) = (fst (target_pairs a), fst (snd (target_pairs a)), fst (snd (snd (target_pairs a))),
     feeder_targets (snd (f4 (feeder_manager_of a))))"
  by (simp_all add: target_pairs_def to_ess_def to_gen_def to_solar_def to_feeder_def split_beta)

lemma told_snd [simp]: "snd (told f m) = f m"
  by (simp add: told_def)

lemma ess_commands_targets [simp]:
  "ess_targets (set_all_ess_grid md m) = ess_targets m" "ess_targets (start_all_ess ck m) = ess_targets m"
  "ess_targets (stop_all_ess ck m) = ess_targets m" "ess_targets (enter_standby_all_ess m) = ess_targets m"
  "ess_targets (exit_standby_all_ess m) = ess_targets m" "ess_targets (close_all_bms_contactors m) = ess_targets m"
  "ess_targets (open_all_bms_contactors m) = ess_targets m" "ess_targets (set_ess_voltage_setpoint x m) = ess_targets m"
  "ess_targets (set_ess_frequency_setpoint x m) = ess_targets m" "ess_targets (set_grid_forming_voltage_slew x m) = ess_targets m"
  "ess_targets (set_ess_mode pm m) = ess_targets m" "ess_targets (set_ess_target_power_factor x m) = ess_targets m"
  by (simp_all add: set_all_ess_grid_def start_all_ess_def stop_all_ess_def enter_standby_all_ess_def exit_standby_all_ess_def
      close_all_bms_contactors_def open_all_bms_contactors_def set_ess_voltage_setpoint_def set_ess_frequency_setpoint_def
      set_grid_forming_voltage_slew_def set_ess_mode_def set_ess_target_power_factor_def)

lemma ess_calibration_targets [simp]: "ess_targets (set_ess_calibration_variables x c m) = ess_targets m"
  by (simp add: set_ess_calibration_variables_def set_all_ess_calibration_vars_def Let_def) (simp add: ess_targets_def)

lemma gen_commands_targets [simp]:
  "gen_targets (m\<lparr>ld := l\<rparr>) = gen_targets m" "gen_targets (set_all_gen_grid md m) = gen_targets m"
  "gen_targets (snd (direct_start_gen ck m)) = gen_targets m" "gen_targets (start_all_gen ck m) = gen_targets m"
  "gen_targets (snd (stop_all_gen ck m)) = gen_targets m" "gen_targets (request_first_gen b m) = gen_targets m"
  "gen_targets (handle_faulted_gens ckf m) = gen_targets m" "gen_targets (calculate_gen_power ck m) = gen_targets m"
  by (simp_all add: set_all_gen_grid_def direct_start_gen_def start_all_gen_def stop_all_gen_def request_first_gen_def
      handle_faulted_gens_def calculate_gen_power_def Let_def split_beta)
    (simp_all add: gen_targets_def upd_gens_def upd_ld_def)

lemma solar_commands_targets [simp]:
  "solar_targets (snd (start_all_solar ck m)) = solar_targets m" "solar_targets (snd (stop_all_solar ck m)) = solar_targets m"
  "solar_targets (enter_standby_all_solar m) = solar_targets m" "solar_targets (exit_standby_all_solar m) = solar_targets m"
  "solar_targets (set_solar_target_power_factor x m) = solar_targets m" "solar_targets (m\<lparr>solar_curtailment_enabled := b\<rparr>) = solar_targets m"
  "solar_targets (m\<lparr>solar_curtailment_state := c\<rparr>) = solar_targets m" "solar_targets (m\<lparr>solar_prime_index := i\<rparr>) = solar_targets m"
  "solar_targets (m\<lparr>lastTotalActivePowerkW := y\<rparr>) = solar_targets m"
  by (simp_all add: start_all_solar_def stop_all_solar_def enter_standby_all_solar_def exit_standby_all_solar_def
      set_solar_target_power_factor_def)
    (simp_all add: solar_targets_def)

lemma clear_faults_targets [simp]: "target_pairs (site_clear_faults ck a) = target_pairs a"
  by (simp add: site_clear_faults_def Let_def target_pairs_def clear_faults_flags)

text \<open>No request of the site, of the sequences or of the run modes changes a target.\<close>

lemma request_targets [simp]: "target_pairs (snd (am_request_call q a)) = target_pairs a"
proof -
  have "target_pairs (snd (am_forward ck q b)) = target_pairs b" for ck b
    by (cases q) (simp_all add: am_forward_def, simp_all add: target_pairs_def)
  then show ?thesis by (simp add: am_request_call_def target_pairs_def)
qed

lemma perform_targets [simp]: "target_pairs (am_perform ck q a) = target_pairs a"
  by (cases q) (simp_all add: am_perform_def start_available_ess_def start_available_solar_def Let_def,
      simp_all add: target_pairs_def to_ess_def to_solar_def split_beta)

lemma perform_all_targets: "target_pairs (fold am_perform_next qs a) = target_pairs a"
proof (induction qs arbitrary: a)
  case (Cons q qs)
  then show ?case by (simp add: am_perform_next_def) (simp add: target_pairs_def)
qed simp

section \<open>The phases of a cycle keep the targets\<close>

lemma process_alerts_setpoint:
  assumes "process_alerts_and_status t1 t2 a = Some a'"
  shows "kW_setpoint a' = kW_setpoint a"
proof -
  have ev: "kW_setpoint (fold (\<lambda>i. as_event (g i) ty) is b) = kW_setpoint b" for g ty "is" and b :: "'a asset_scheme"
    by (induction "is" arbitrary: b) (simp_all add: as_event_def)
  have an: "kW_setpoint (announce ty k n r b) = kW_setpoint b" for ty k n r and b :: "'a asset_scheme"
    by (simp add: announce_def ev)
  have fr: "kW_setpoint (process_fault_register r b) = kW_setpoint b" for r and b :: "'a asset_scheme"
    by (simp add: process_fault_register_def an Let_def split: option.split)
  then have fs: "kW_setpoint (fold process_fault_register rs b) = kW_setpoint b" for rs and b :: "'a asset_scheme"
    by (induction rs arbitrary: b) simp_all
  have ar: "kW_setpoint (process_alarm_registers rs b) = kW_setpoint b" for rs and b :: "'a asset_scheme"
    by (induction rs arbitrary: b) (simp_all add: an Let_def split: option.split)
  have ft: "kW_setpoint (snd (check_fims_timeout t b)) = kW_setpoint b" for t and b :: "'a asset_scheme"
    by (simp add: check_fims_timeout_def as_event_def Let_def)
  have wd: "kW_setpoint (snd (process_watchdog_status t b)) = kW_setpoint b" for t and b :: "'a asset_scheme"
  proof -
    have c: "kW_setpoint (case x of None \<Rightarrow> c | Some v \<Rightarrow> if P v then d else c) = kW_setpoint c"
      if "kW_setpoint d = kW_setpoint c" for x :: "64 word option" and P and c d :: "'a asset_scheme"
      using that by (simp split: option.split)
    show ?thesis by (simp add: process_watchdog_status_def split_beta Let_def c ft as_event_def)
  qed
  have lm: "process_local_mode_status b = Some c \<Longrightarrow> kW_setpoint c = kW_setpoint b" for b c :: "'a asset_scheme"
    by (auto simp: process_local_mode_status_def as_event_def Let_def split: option.splits if_splits statusType.splits)
  have st: "kW_setpoint (process_status b) = kW_setpoint b" for b :: "'a asset_scheme"
    by (simp add: process_status_def Let_def)
  have pf: "kW_setpoint (process_faults b) = kW_setpoint b" for b :: "'a asset_scheme"
    by (simp add: process_faults_def fs Let_def)
  have lo: "kW_setpoint (lower_alert_bits b) = kW_setpoint b" for b :: "'a asset_scheme" by (simp add: lower_alert_bits_def)
  show ?thesis using assms
    by (auto simp: process_alerts_and_status_def set_availability_def split_beta Let_def wd st ar pf lo split: bind_splits if_splits dest!: lm)
qed

lemma process_feeders_control: "process_feeders ck i fs = Some fs' \<Longrightarrow> map kW_control fs' = map kW_control fs"
proof (induction ck i fs arbitrary: fs' rule: process_feeders.induct)
  case (2 ck i f fs)
  have "kW_setpoint f' = kW_setpoint f" if p: "feeder_process_asset t1 t2 t3 f = Some f'" for t1 t2 t3 f'
  proof -
    let ?g = "f\<lparr>raw_status := (if value_bool (fo_value (status_register f)) then 1 else 0)\<rparr>"
    from p obtain g where g: "process_alerts_and_status t1 t2 ?g = Some g"
      "f' = process_potential_reactive_power (feeder_potential_active_power t3 g)"
      by (auto simp: feeder_process_asset_def split: bind_splits)
    with process_alerts_setpoint [OF g(1)] show ?thesis
      by (simp add: process_potential_reactive_power_def feeder_potential_active_power_def base_potential_active_power_def Let_def)
  qed
  with 2 show ?case by (auto simp: kW_control_def split: bind_splits prod.splits)
qed simp

lemma process_targets: "am_process_asset_data ck a = Some a' \<Longrightarrow> target_pairs a' = target_pairs a"
proof -
  have le: "process_ess c i es = Some es' \<Longrightarrow> length es' = length es" for c i es es'
    by (induction c i es arbitrary: es' rule: process_ess.induct) (auto split: prod.splits bind_splits)
  have ls: "process_solar c i ss = Some ss' \<Longrightarrow> length ss' = length ss" for c i ss ss'
    by (induction c i ss arbitrary: ss' rule: process_solar.induct) (auto split: prod.splits bind_splits)
  have e: "ess_targets m' = ess_targets m" if "ess_process_asset_data c m = Some m'" for c m m'
    using that by (auto simp: ess_process_asset_data_def aggregate_ess_data_def Let_def ess_targets_def le split: if_splits bind_splits)
  have g: "gen_targets m' = gen_targets m" if "process_asset_data c m = Some m'" for c m m'
  proof -
    have "gen_targets (aggregate_gen_data n) = gen_targets n" for n by (simp add: aggregate_gen_data_def Let_def gen_targets_def)
    then show ?thesis using that by (auto simp: process_asset_data_def split: if_splits bind_splits)
  qed
  have s: "solar_targets m' = solar_targets m" if "solar_process_asset_data c m = Some m'" for c m m'
    using that by (auto simp: solar_process_asset_data_def aggregate_solar_data_def Let_def solar_targets_def ls split: if_splits bind_splits)
  have f: "feeder_targets m' = feeder_targets m" if "feeder_process_asset_data c m = Some m'" for c m m'
    using that process_feeders_control by (auto simp: feeder_process_asset_data_def feeder_targets_def)
  assume "am_process_asset_data ck a = Some a'"
  then show ?thesis by (auto simp: am_process_asset_data_def target_pairs_def split: bind_splits dest: e g s f)
qed

lemma assign_round_length: "assign_round bal k p ds es = (d, es') \<Longrightarrow> length es' = length es"
  by (induction bal k p ds es rule: assign_round.induct) (auto simp: assign_ess_def map_nth_def split: if_splits)

lemma assign_loop_length [simp]: "length (assign_loop bal p ds es) = length es"
  by (induction bal p ds es rule: assign_loop.induct)
    (subst assign_loop.simps, auto split: prod.splits option.splits dest: assign_round_length)

lemma ess_update_targets: "ess_update_asset_data m = Some m' \<Longrightarrow> ess_targets m' = ess_targets m"
  by (auto simp: ess_update_asset_data_def calculate_ess_active_power_def calculate_ess_reactive_power_def reactive_to_def
      zero_all_controllable_ess_reactive_power_def all_controllable_ess_max_reactive_power_def
      all_controllable_ess_min_reactive_power_def Let_def split: bind_splits)

lemma gen_update_targets [simp]: "gen_targets (update_asset_data ck x m) = gen_targets m"
  by (simp add: update_asset_data_def Let_def split_beta)

lemma those_length: "those xs = Some ys \<Longrightarrow> length ys = length xs"
  by (induction xs arbitrary: ys) (auto split: option.splits)

lemma solar_update_targets: "solar_update_asset_data m = Some m' \<Longrightarrow> solar_targets m' = solar_targets m"
proof -
  have d: "solar_targets n' = solar_targets n" if "solar_distribute p n = Some n'" for p n n'
    using that by (auto simp: solar_distribute_def calculate_solar_target_reactive_power_def calculate_solar_target_active_power_def
        calculate_solar_total_potential_active_power_def Let_def split: if_splits bind_splits dest!: those_length)
  show "solar_update_asset_data m = Some m' \<Longrightarrow> ?thesis"
    by (auto simp: solar_update_asset_data_def Let_def split: if_splits option.splits bind_splits dest: d)
qed

lemma update_targets: "am_update_asset_data ck a = Some a' \<Longrightarrow> target_pairs a' = target_pairs a"
  by (auto simp: am_update_asset_data_def target_pairs_def Let_def split: if_splits bind_splits dest: ess_update_targets solar_update_targets)

lemma send_targets [simp]: "target_pairs (am_send_to_components c1 c2 c3 a) = target_pairs a"
  by (simp add: am_send_to_components_def target_pairs_def each_index_def)

section \<open>The state machine writes no target\<close>

definition pinned :: "asset_manager site \<Rightarrow> flt list \<times> target_parts" where
  "pinned s = ([prev_ess_kW_cmd s, prev_solar_kW_cmd s, prev_ess_kVAR_cmd s, prev_solar_kVAR_cmd s], target_pairs (am s))"

lemma pinned_ask [simp]: "pinned (snd (ask (managed_assets r) q s)) = pinned s"
  by (simp add: ask_def pinned_def split_beta)

lemma pinned_basic [simp]:
  "pinned (upd_pw h s) = pinned s" "pinned (upd_alerts k s) = pinned s" "pinned (site_emit a m t s) = pinned s"
  "pinned (site_set_fault n s) = pinned s" "pinned (snd (read_clock s)) = pinned s"
  "pinned (s\<lparr>site_status := m'\<rparr>) = pinned s" "pinned (s\<lparr>allow_ess_auto_restart := b\<rparr>) = pinned s"
  "pinned (s\<lparr>allow_gen_auto_restart := b\<rparr>) = pinned s" "pinned (s\<lparr>allow_solar_auto_restart := b\<rparr>) = pinned s"
  "pinned (s\<lparr>ldss_enable_flag := b\<rparr>) = pinned s" "pinned (s\<lparr>clear_fault_status_flags := b\<rparr>) = pinned s"
  "pinned (s\<lparr>time_to_clear_fault_status_flags := now\<rparr>) = pinned s" "pinned (s\<lparr>clear_faults_flag := f\<rparr>) = pinned s"
  "pinned (s\<lparr>watchdog_feature := w\<rparr>) = pinned s" "pinned (s\<lparr>status_of := ss\<rparr>) = pinned s" "pinned (s\<lparr>sequences := qs\<rparr>) = pinned s"
  "pinned (s\<lparr>site_state := sn, site_state_enum := se\<rparr>) = pinned s" "pinned (s\<lparr>running_status_flag := b\<rparr>) = pinned s"
  "pinned (s\<lparr>alt_site_state_enum := al\<rparr>) = pinned s" "pinned (s\<lparr>num_path_faults := i, num_path_alarms := j\<rparr>) = pinned s"
  "pinned (s\<lparr>pw := p\<rparr>) = pinned s" "pinned (s\<lparr>sent := out\<rparr>) = pinned s" "pinned (s\<lparr>tick := n'\<rparr>) = pinned s"
  "pinned (s\<lparr>standby_ess_latch := b, standby_solar_latch := c\<rparr>) = pinned s" "pinned (s\<lparr>standby_ess_latch := b\<rparr>) = pinned s"
  "pinned (s\<lparr>standby_solar_latch := c\<rparr>) = pinned s" "pinned (s\<lparr>site_kW_demand_v := x, site_kW_load_v := y\<rparr>) = pinned s"
  "pinned (s\<lparr>site_kW_demand_v := x\<rparr>) = pinned s"
  by (simp_all add: pinned_def upd_pw_def upd_alerts_def site_emit_def site_set_fault_def read_clock_def split: option.split)

lemma pinned_steps [simp]: "pinned (goto st s) = pinned s" "pinned (upd_seq st f s) = pinned s"
  by (simp_all add: goto_def upd_seq_def)

lemma pinned_clear_faults [simp]: "pinned (clear_faults (managed_assets r) s) = pinned s"
  by (simp add: clear_faults_def Let_def split_beta)

lemma pinned_sync [simp]: "pinned (snd (synchronize_ess (managed_assets r) s)) = pinned s"
  by (simp add: synchronize_ess_def Let_def)

lemma pinned_if:
  "pinned (snd (snd (if b then x else y))) = (if b then pinned (snd (snd x)) else pinned (snd (snd y)))"
  by simp

lemma pinned_answers:
  "pinned (snd (snd (answer b s))) = pinned s" "pinned (snd (snd (True, ask (managed_assets r) q s))) = pinned s"
  "pinned (snd (snd (True, synchronize_ess (managed_assets r) s))) = pinned s"
  by (simp_all add: answer_def)

lemma pinned_ess: "pinned (snd (snd (handle_ess_sequence_functions (managed_assets r) c v tol s))) = pinned s"
  unfolding handle_ess_sequence_functions_def pinned_if pinned_answers by simp

lemma pinned_gen: "pinned (snd (snd (handle_gen_sequence_functions (managed_assets r) c v tol s))) = pinned s"
  unfolding handle_gen_sequence_functions_def pinned_if pinned_answers by simp

lemma pinned_solar: "pinned (snd (snd (handle_solar_sequence_functions (managed_assets r) c v tol s))) = pinned s"
  unfolding handle_solar_sequence_functions_def pinned_if pinned_answers by simp

lemma pinned_feeders:
  "pinned (snd (snd (handle_feed_sequence_functions (managed_assets r) c v s))) = pinned s"
  "pinned (snd (snd (handle_specific_feed_sequence_functions (managed_assets r) c v t s))) = pinned s"
  unfolding handle_feed_sequence_functions_def handle_specific_feed_sequence_functions_def pinned_if pinned_answers
  by simp_all

lemma pinned_site_functions:
  "pinned (snd (snd (handle_reserved_variable_sequence_functions c v tol s))) = pinned s"
  "pinned (snd (snd (handle_config_sequence_functions (managed_assets r) c v s))) = pinned s"
  "pinned (snd (snd (handle_feat_sequence_functions c v s))) = pinned s"
  unfolding handle_reserved_variable_sequence_functions_def handle_config_sequence_functions_def
    handle_feat_sequence_functions_def Let_def pinned_if pinned_answers
  by (simp_all add: pinned_answers split: option.split)

lemma pinned_functions: "pinned (snd (site_call_sequence_functions (managed_assets r) t c v tol s)) = pinned s"
  by (simp add: site_call_sequence_functions_def split_beta Let_def pinned_if pinned_ess pinned_gen pinned_solar
      pinned_feeders pinned_site_functions)

interpretation managed_world: framed_env "site_seq_env (managed_assets r)" pinned for r
  by unfold_locales (simp_all add: site_seq_env_def pinned_functions)

lemma pinned_watchdog: "run_watchdog s = Some t \<Longrightarrow> pinned t = pinned s"
proof -
  have d: "pinned v = pinned u" if "dogbark u = Some v" for u v
    using that by (auto simp: dogbark_def split: option.splits if_splits)
  have k: "read_clock u = (x, v) \<Longrightarrow> pinned v = pinned u" for x u v
    using pinned_basic(5) [of u] by simp
  show "run_watchdog s = Some t \<Longrightarrow> ?thesis"
    by (auto simp: run_watchdog_def Let_def split: if_splits bind_splits prod.splits dest!: d k)
qed

lemma pinned_check: "check_state E s = Some t \<Longrightarrow> pinned t = pinned s"
proof -
  have q: "pinned v = pinned u" if "seq_check E ty st u = Some (b, v)" for ty st u b v
    using that by (auto simp: seq_check_def split: bind_splits)
  have e: "pinned (enter_state u) = pinned u" for u by (simp add: enter_state_def Let_def)
  show "check_state E s = Some t \<Longrightarrow> ?thesis"
    by (auto simp: check_state_def decide_state_def e Let_def split: if_splits bind_splits dest!: q)
qed

lemma pinned_call: "call_current (managed_assets r) s = Some t \<Longrightarrow> pinned t = pinned s"
  by (auto simp: call_current_def split: bind_splits dest: managed_world.call_sequence_frame)

lemma pinned_reset [simp]: "pinned (reset_slews (zero_cmds s)) = pinned s"
  by (simp add: reset_slews_def zero_cmds_def Let_def)

lemma pinned_standby: "pinned (standby_state rd s) = pinned s"
  by (simp add: standby_state_def Let_def)

lemma pinned_run: "run_state rd ck s = Some t \<Longrightarrow> pinned t = pinned s"
  by (cases "cur s") (auto simp: run_state_def init_state_def ready_state_def startup_state_def error_state_def site_runmode1_def
      site_runmode2_def pinned_standby shutdown_state_def Let_def split: bind_splits prod.splits)

lemma pinned_machine: "run_state_machine (managed_assets r) rd ck s = Some t \<Longrightarrow> pinned t = pinned s"
proof -
  have "pinned (handle_clear_faults (managed_assets r) u) = pinned u" for u by (simp add: handle_clear_faults_def Let_def)
  then show "run_state_machine (managed_assets r) rd ck s = Some t \<Longrightarrow> ?thesis"
    by (auto simp: run_state_machine_def split: bind_splits dest!: pinned_watchdog pinned_check pinned_call pinned_run)
qed

section \<open>Reading and writing\<close>

definition io_prevs :: "site_io \<Rightarrow> flt list" where
  "io_prevs io = [prev_gen_kW_cmd io, prev_feeder_kW_cmd io, prev_gen_kVAR_cmd io]"

lemma written_pinned:
  assumes "pinned (io_site io') = pinned (io_site io)" "io_prevs io' = io_prevs io"
  shows "targets_written io' \<longleftrightarrow> targets_written io"
proof -
  have "targets (am (io_site io')) = targets (am (io_site io))" by (rule target_pairs_targets) (use assms(1) in \<open>simp add: pinned_def\<close>)
  moreover have "written_cmds io' = written_cmds io" using assms by (simp add: pinned_def io_prevs_def written_cmds_def Let_def)
  moreover have t: "target_pairs (am (io_site io')) = target_pairs (am (io_site io))" using assms(1) by (simp add: pinned_def)
  ultimately show ?thesis using target_pairs_poi [OF t] unfolding targets_written_def by simp
qed

lemma charge_control_targets: "charge_control t c d m = Some (r, m') \<Longrightarrow> ess_targets m' = ess_targets m"
  by (auto simp: charge_control_def Let_def ess_targets_def split: bind_splits)

lemma read_powers_alerts: "read_powers x a p = Some p' \<Longrightarrow> alerts p' = alerts p"
  by (auto simp: read_powers_def Let_def split: bind_splits)

lemma get_values_effect:
  assumes "get_values io = Some io'"
  shows "pinned (io_site io') = pinned (io_site io) \<and> io_prevs io' = io_prevs io \<and>
    alerts (pw (io_site io')) = alerts (pw (io_site io)) \<and> disable_flag (io_site io') = disable_flag (io_site io) \<and>
    sequences (io_site io') = sequences (io_site io) \<and> watchdog_feature (io_site io') = watchdog_feature (io_site io) \<and>
    clear_faults_flag (io_site io') = clear_faults_flag (io_site io) \<and> readings_of (am (io_site io')) = readings_of (am (io_site io)) \<and>
    num_fault_options io' = num_fault_options io \<and> num_alarm_options io' = num_alarm_options io \<and>
    status_of (io_site io') = (status_of (io_site io))\<lparr>ss_current_time := ss_current_time (status_of (io_site io'))\<rparr>"
proof -
  let ?s = "io_site io" and ?a = "am (io_site io)"
  obtain t' s0 where rc: "read_clock ?s = (t', s0)" by (cases "read_clock ?s") blast
  have s0: "s0 = ?s\<lparr>tick := tick ?s + 1\<rparr>" using rc by (auto simp: read_clock_def)
  let ?s1 = "s0\<lparr>status_of := (status_of s0)\<lparr>ss_current_time := t'\<rparr>\<rparr>"
  obtain p set c f r e where v: "read_powers (poi_sign io) ?a (pw ?s) = Some p" "charge_control (fval CC_target_soc (charge_control_f f))
        (bval CC_charge_disable (charge_control_f f)) (bval CC_discharge_disable (charge_control_f f)) (ess_manager_of ?a) = Some (r, e)"
      and io': "io' = update_ess_kpi_values (feeder_actual_kW p) (essTotalActivePowerkW (ess_manager_of ?a)) (io\<lparr>io_site :=
        (read_counts ?a ?s1)\<lparr>pw := p\<lparr>asset_cmd := c, features := f\<lparr>charge_control_f := store_float CC_kW_request r (charge_control_f f)\<rparr>\<rparr>,
          am := ?a\<lparr>ess_manager_of := e, generator_manager_of := upd_ld (update_settings set) (generator_manager_of ?a)\<rparr>,
          site_kW_load_v := site_kW_load c\<rparr>\<rparr>)"
    using assms by (auto simp: get_values_def Let_def rc s0 split: bind_splits)
  have k: "io_site (update_ess_kpi_values x y i) = io_site i" "io_prevs (update_ess_kpi_values x y i) = io_prevs i"
      "num_fault_options (update_ess_kpi_values x y i) = num_fault_options i"
      "num_alarm_options (update_ess_kpi_values x y i) = num_alarm_options i" for x y i
    by (simp_all add: update_ess_kpi_values_def io_prevs_def Let_def split: prod.split)
  have "target_pairs (am (io_site io')) = target_pairs ?a"
    using charge_control_targets [OF v(2)] by (simp add: io' k target_pairs_def)
  then have "pinned (io_site io') = pinned ?s" by (simp add: pinned_def) (simp add: io' k s0 read_counts_def)
  moreover have "io_prevs io' = io_prevs io" by (simp add: io' k) (simp add: io_prevs_def)
  moreover have "readings_of (am (io_site io')) = readings_of ?a"
    using v(2) by (auto simp: io' k readings_of_def charge_control_def Let_def split: bind_splits)
  ultimately show ?thesis using read_powers_alerts [OF v(1)] by (simp add: io' k s0 read_counts_def)
qed

lemma clear_alarms_regs: "clear_alarms k sa = Some sa' \<Longrightarrow> regs_ok sa' \<longleftrightarrow> regs_ok sa"
  by (auto simp: clear_alarms_def reg_write_def regs_ok_def Let_def split: if_splits)

lemma clear_old_alerts_effect:
  assumes "clear_old_alerts s = Some t" "regs_ok (alerts (pw s))"
  shows "pinned t = pinned s \<and> regs_ok (alerts (pw t)) \<and> disable_flag t = disable_flag s \<and> sequences t = sequences s \<and>
    status_of t = status_of s \<and> cmds (pw t) = cmds (pw s) \<and> features (pw t) = features (pw s) \<and> am t = am s"
proof -
  have c: "regs_ok sa'" if "clear_asset_alarm n k sa = Some sa'" "regs_ok sa" for n k sa sa'
    using that by (auto simp: clear_asset_alarm_def clear_alarms_regs split: bind_splits if_splits)
  have f: "regs_ok (clear_fault_registers sa)" for sa by (simp add: clear_fault_registers_def regs_ok_def)
  from assms show ?thesis
    by (auto simp: clear_old_alerts_def Let_def upd_alerts_def upd_pw_def cmds_def pinned_def f split: bind_splits if_splits dest!: c)
qed

lemma update_slews_effect:
  "pinned (update_slews s) = pinned s" "alerts (pw (update_slews s)) = alerts (pw s)" "disable_flag (update_slews s) = disable_flag s"
  "sequences (update_slews s) = sequences s" "status_of (update_slews s) = status_of s" "cmds (pw (update_slews s)) = cmds (pw s)"
  "am (update_slews s) = am s"
  by (simp_all add: update_slews_def Let_def pinned_def cmds_def)

text \<open>Only the targets whose commands are new are written, so all of them are the commands afterwards.\<close>

lemma poi_written:
  assumes "pPointOfInterConnect m < length (pFeeder m)"
  shows "map kW_control (pFeeder (fm_set_poi_target_active_power x m)) ! pPointOfInterConnect m = x"
    "pPointOfInterConnect (fm_set_poi_target_active_power x m) = pPointOfInterConnect m"
    "length (pFeeder (fm_set_poi_target_active_power x m)) = length (pFeeder m)"
  using assms by (simp_all add: fm_set_poi_target_active_power_def feeder_set_active_power_setpoint_def kW_control_def set_control_def)

lemma write_power_targets_exact:
  assumes "targets a = written_cmds io" "pPointOfInterConnect (feeder_manager_of a) < length (feeds a)"
  shows "targets (write_power_targets io a) = target_cmds (pw (io_site io))"
    "pPointOfInterConnect (feeder_manager_of (write_power_targets io a)) < length (feeds (write_power_targets io a))"
  using assms poi_written [OF assms(2)] by (auto simp: write_power_targets_def write_new_def write_ess_def write_gen_def write_solar_def
      write_feeder_def targets_def written_cmds_def target_cmds_def Let_def)

lemma write_keeps_targets [simp]:
  "target_pairs (write_ess f1 a) = (ess_targets (f1 (ess_manager_of a)), snd (target_pairs a))"
  "target_pairs (write_gen f2 a) = (fst (target_pairs a), gen_targets (f2 (generator_manager_of a)), snd (snd (target_pairs a)))"
  "target_pairs (write_solar f3 a) = (fst (target_pairs a), fst (snd (target_pairs a)), solar_targets (f3 (solar_manager_of a)),
     snd (snd (snd (target_pairs a))))"
  "target_pairs (am_set_reactive_power_priority b a) = target_pairs a" "target_pairs (am_set_solar_mode md a) = target_pairs a"
  by (simp_all add: write_ess_def write_gen_def write_solar_def target_pairs_def am_set_reactive_power_priority_def am_set_solar_mode_def
      to_solar_def told_def tm_set_reactive_power_priority_def)

lemma write_assets_exact:
  assumes "targets a = written_cmds io" "pPointOfInterConnect (feeder_manager_of a) < length (feeds a)"
  shows "targets (write_assets io a) = target_cmds (pw (io_site io)) \<and>
    pPointOfInterConnect (feeder_manager_of (write_assets io a)) < length (feeds (write_assets io a))"
proof -
  have pf: "target_pairs (write_power_factor io b) = target_pairs b" for b
    by (simp add: write_power_factor_def write_new_def Let_def, simp add: target_pairs_def write_ess_def write_solar_def)
  let ?a = "write_gen (request_first_gen (start_first_flag (gen_data (asset_cmd (pw (io_site io)))))) (am_set_reactive_power_priority (power_priority_flag io) a)"
  have t: "target_pairs ?a = target_pairs a"
    by (simp, simp add: target_pairs_def am_set_reactive_power_priority_def tm_set_reactive_power_priority_def)
  then have "targets ?a = written_cmds io" "pPointOfInterConnect (feeder_manager_of ?a) < length (feeds ?a)"
    using assms target_pairs_targets [OF t] target_pairs_poi [OF t] by simp_all
  note w = write_power_targets_exact [OF this]
  have "target_pairs (write_assets io a) = target_pairs (write_power_factor io (write_power_targets io ?a))"
    unfolding write_assets_def Let_def by (simp, simp add: target_pairs_def)
  then have p: "target_pairs (write_assets io a) = target_pairs (write_power_targets io ?a)" unfolding pf .
  from w target_pairs_targets [OF p] target_pairs_poi [OF p] show ?thesis by simp
qed

lemma set_values_effect:
  assumes "set_values io = Some io'" "regs_ok (alerts (pw (io_site io)))" "targets_written io"
  shows "targets_written io' \<and> targets (am (io_site io')) = target_cmds (pw (io_site io')) \<and> cmds (pw (io_site io')) = cmds (pw (io_site io)) \<and>
    new_inputs (io_site io) (io_site io')"
proof -
  from assms(1) obtain s where s: "clear_old_alerts (io_site io) = Some s" by (auto simp: set_values_def split: bind_splits)
  note c = clear_old_alerts_effect [OF s assms(2)]
  let ?io = "io\<lparr>io_site := update_slews s\<rparr>"
  let ?t = "io_site (remember_cmds (upd_site (upd_am (write_assets ?io)) ?io))"
  have "targets (am (io_site ?io)) = written_cmds ?io"
    "pPointOfInterConnect (feeder_manager_of (am (io_site ?io))) < length (feeds (am (io_site ?io)))"
    using written_pinned [of ?io io] assms(3) c by (simp_all add: targets_written_def update_slews_effect io_prevs_def)
  note w = write_assets_exact [OF this]
  obtain aa af where io': "io' = (upd_site (\<lambda>s. ui_enable_flag (set_asset_cmd_variables s)) (remember_cmds (upd_site (upd_am (write_assets ?io)) ?io)))
      \<lparr>active_faults := af, active_alarms := aa\<rparr>"
    using assms(1) s by (auto simp: set_values_def Let_def split: bind_splits)
  have t: "am ?t = write_assets ?io (am (update_slews s))" "cmds (pw ?t) = cmds (pw s)" "alerts (pw ?t) = alerts (pw s)"
      "sequences ?t = sequences s" "status_of ?t = status_of s" "target_cmds (pw ?t) = target_cmds (pw (io_site ?io))"
    by (simp_all add: remember_cmds_def upd_site_def upd_am_def Let_def update_slews_effect cmds_def target_cmds_def)
      (use update_slews_effect(6) [of s] in \<open>simp add: cmds_def\<close>)
  have k: "am (io_site io') = am ?t" "cmds (pw (io_site io')) = cmds (pw ?t)" "alerts (pw (io_site io')) = alerts (pw ?t)"
      "sequences (io_site io') = sequences ?t" "status_of (io_site io') = status_of ?t" "target_cmds (pw (io_site io')) = target_cmds (pw ?t)"
    by (simp_all add: io' upd_site_def ui_enable_flag_def set_enable_flag_def set_asset_cmd_variables_def upd_pw_def cmds_def target_cmds_def Let_def)
  have "written_cmds io' = target_cmds (pw ?t)"
    by (simp add: io' upd_site_def ui_enable_flag_def set_enable_flag_def set_asset_cmd_variables_def upd_pw_def remember_cmds_def
        written_cmds_def target_cmds_def Let_def)
  moreover have "new_inputs (io_site io) (io_site io')" using c t k by (simp add: new_inputs_def)
  ultimately show ?thesis using w t k c by (simp add: targets_written_def update_slews_effect)
qed

section \<open>The cycle\<close>

lemma perform_calls_effect:
  "pinned (perform_calls s) = pinned s" "cmds (pw (perform_calls s)) = cmds (pw s)" "cur (perform_calls s) = cur s"
  "regs_ok (alerts (pw s)) \<Longrightarrow> new_inputs s (perform_calls s)" "alerts (pw (perform_calls s)) = alerts (pw s)"
  by (simp_all add: perform_calls_def upd_pw_def upd_am_def pinned_def perform_all_targets cmds_def new_inputs_def)

lemma cmds_targets: "cmds p = cmds q \<Longrightarrow> target_cmds p = target_cmds q"
  by (simp add: cmds_def target_cmds_def)

lemma process_state_effect:
  assumes "process_state r ck io = Some io'" "site_inv (io_site io)" "targets_written io"
  obtains io1 rd s where "get_values io = Some io1" "new_inputs (io_site io) (io_site io1)" "disable_flag (io_site io1) = disable_flag (io_site io)"
    "run_state_machine (managed_assets r) rd ck (io_site io1) = Some s" "site_inv s" "new_inputs s (perform_calls s)"
    "new_inputs (perform_calls s) (io_site io')" "targets_written io'" "cmds (pw (io_site io')) = cmds (pw s)"
    "targets (am (io_site io')) = target_cmds (pw (io_site io'))"
proof -
  from assms(1) obtain io1 rd s where v: "get_values io = Some io1" "run_state_machine (managed_assets r) rd ck (io_site io1) = Some s"
      "set_values (io1\<lparr>io_site := perform_calls s\<rparr>) = Some io'"
    by (auto simp: process_state_def split: bind_splits)
  note g = get_values_effect [OF v(1)]
  have n1: "new_inputs (io_site io) (io_site io1)" using g assms(2) by (simp add: new_inputs_def site_inv_def site_ok_def)
  have i: "site_inv s" by (rule cycle_inv [OF new_inputs_inv [OF assms(2) n1] v(2)])
  then have ok: "regs_ok (alerts (pw s))" by (simp add: site_inv_def site_ok_def)
  let ?io = "io1\<lparr>io_site := perform_calls s\<rparr>"
  have "targets_written ?io = targets_written io"
    by (rule written_pinned) (use g pinned_machine [OF v(2)] in \<open>simp_all add: perform_calls_effect io_prevs_def\<close>)
  then have w: "targets_written ?io" using assms(3) by simp
  have "regs_ok (alerts (pw (io_site ?io)))" using ok by (simp add: perform_calls_effect)
  note e = set_values_effect [OF v(3) this w]
  have "cmds (pw (io_site io')) = cmds (pw s)" "targets (am (io_site io')) = target_cmds (pw (io_site io'))"
    using e cmds_targets [of "pw (io_site io')" "pw (perform_calls s)"] by (simp_all add: perform_calls_effect)
  then show ?thesis using that [OF v(1) n1 _ v(2) i perform_calls_effect(4) [OF ok]] g e by simp
qed

lemma am_only:
  "new_inputs s (s\<lparr>am := a\<rparr>) = regs_ok (alerts (pw s))"
  by (simp add: new_inputs_def)

text \<open>Whether the check of the faults in a cycle finds one, by the readings that cycle takes.\<close>

definition cycle_fault :: "(int \<Rightarrow> bool \<times> string) \<Rightarrow> cycle_clocks \<Rightarrow> site_io \<Rightarrow> bool" where
  "cycle_fault r ck io = (case am_process_asset_data (cc_process ck) (am (io_site io)) of None \<Rightarrow> False
     | Some a \<Rightarrow> (case get_values (upd_site (\<lambda>s. s\<lparr>am := a\<rparr>) io) of None \<Rightarrow> False
        | Some io1 \<Rightarrow> finds_fault (managed_assets r) (io_site io1)))"

lemma cycle_effect:
  assumes "controller_cycle r ck io = Some io'" "site_inv (io_site io)" "targets_written io"
  obtains s1 rd s where "new_inputs (io_site io) s1" "cycle_fault r ck io = finds_fault (managed_assets r) s1" "disable_flag s1 = disable_flag (io_site io)"
    "run_state_machine (managed_assets r) rd (cc_site ck) s1 = Some s" "site_run (managed_assets r) s (io_site io')"
    "cur s = cur (io_site io')" "site_inv s" "targets_written io'" "cmds (pw (io_site io')) = cmds (pw s)"
    "targets (am (io_site io')) = target_cmds (pw (io_site io'))"
proof -
  let ?in = "\<lambda>a. upd_site (\<lambda>s. s\<lparr>am := a\<rparr>) io"
  from assms(1) obtain a io2 b where v: "am_process_asset_data (cc_process ck) (am (io_site io)) = Some a"
      "process_state r (cc_site ck) (?in a) = Some io2" "am_update_asset_data (cc_update ck) (am (io_site io2)) = Some b"
      and io': "io' = upd_site (\<lambda>s. s\<lparr>am := am_send_to_components (cc_send_ess ck) (cc_send_gen ck) (cc_send_solar ck) b\<rparr>) io2"
    by (auto simp: controller_cycle_def split: bind_splits)
  have ok: "regs_ok (alerts (pw (io_site io)))" using assms(2) by (simp add: site_inv_def site_ok_def)
  have n0: "new_inputs (io_site io) (io_site (?in a))" using ok by (simp add: upd_site_def am_only)
  have "targets_written (?in a) = targets_written io"
    by (rule written_pinned) (use process_targets [OF v(1)] in \<open>simp_all add: upd_site_def pinned_def io_prevs_def\<close>)
  then have w0: "targets_written (?in a)" using assms(3) by simp
  obtain io1 rd s where p: "get_values (?in a) = Some io1" "new_inputs (io_site (?in a)) (io_site io1)"
      "disable_flag (io_site io1) = disable_flag (io_site (?in a))"
      "run_state_machine (managed_assets r) rd (cc_site ck) (io_site io1) = Some s" "site_inv s"
      "new_inputs s (perform_calls s)" "new_inputs (perform_calls s) (io_site io2)" "targets_written io2"
      "cmds (pw (io_site io2)) = cmds (pw s)" "targets (am (io_site io2)) = target_cmds (pw (io_site io2))"
    by (rule process_state_effect [OF v(2) new_inputs_inv [OF assms(2) n0] w0])
  have n3: "new_inputs (io_site io2) (io_site io')"
    using new_inputs_status(2) [OF p(7)] by (simp add: io' upd_site_def am_only)
  have t: "target_pairs (am (io_site io')) = target_pairs (am (io_site io2))"
    using update_targets [OF v(3)] by (simp add: io' upd_site_def)
  have "targets_written io' = targets_written io2"
    by (rule written_pinned) (use t in \<open>simp_all add: io' upd_site_def pinned_def io_prevs_def\<close>)
  then have w: "targets_written io'" using p(8) by simp
  have same: "pw (io_site io') = pw (io_site io2)" by (simp add: io' upd_site_def)
  have tt: "targets (am (io_site io')) = target_cmds (pw (io_site io'))" using target_pairs_targets [OF t] p(10) same by simp
  have run: "site_run (managed_assets r) s (io_site io')"
    using site_run.inputs [OF site_run.inputs [OF site_run.inputs [OF site_run.here p(6)] p(7)] n3] .
  have cur: "cur s = cur (io_site io')" using new_inputs_status(3) [OF p(6)] new_inputs_status(3) [OF p(7)] new_inputs_status(3) [OF n3] by simp
  have n1: "new_inputs (io_site io) (io_site io1)" using p(2) by (simp add: new_inputs_def upd_site_def)
  have f: "cycle_fault r ck io = finds_fault (managed_assets r) (io_site io1)" by (simp add: cycle_fault_def v(1) p(1))
  show ?thesis
    by (rule that [OF n1 f _ p(4) run cur p(5) w]) (use p(3,9) tt same in \<open>simp_all add: upd_site_def\<close>)
qed

section \<open>A concrete program\<close>

text \<open>One feeder, no other assets, and the idle site of \<open>Site_Cycle\<close>, whose storage was commanded 75 kW.\<close>

definition bare_assets :: asset_manager where
  "bare_assets = \<lparr>ess_manager_of = (demo_ess_manager 75 [])\<lparr>essTargetReactivePowerkVAR := 0\<rparr>,
     feeder_manager_of = demo_feeders\<lparr>pFeeder := [demo_feeder ''poi'']\<rparr>,
     generator_manager_of = demo_manager\<lparr>ld := demo_ldss\<lparr>generators := []\<rparr>, genTargetActivePowerkW := 0\<rparr>,
     solar_manager_of = (demo_solar_manager 0 0)\<lparr>pSolar := []\<rparr>, am_is_primary = True,
     am_readings = (\<lambda>_ _. mk_ts 1 0), am_calls = 0\<rparr>"

definition demo_plant :: "states \<Rightarrow> bool \<Rightarrow> asset_manager site" where
  "demo_plant st off = (idle_site_of bare_assets st off demo_steps)\<lparr>prev_ess_kW_cmd := 75\<rparr>"

definition demo_io :: "states \<Rightarrow> bool \<Rightarrow> site_io" where
  "demo_io st off = \<lparr>io_site = demo_plant st off, prev_gen_kW_cmd = 0, prev_feeder_kW_cmd = 0, prev_gen_kVAR_cmd = 0,
     prev_asset_pf_flag = True, power_priority_flag = False, invert_poi_kW = False, start_first_ess_kW = 0, start_first_gen_kW = 0,
     start_first_solar_kW = 0, ldss_f = plain, ess_soc_balancing_factor = 1, ess_instant_discharge = 0, ess_instant_charge_grid = 0,
     ess_instant_charge_pv = 0, num_fault_options = 0, num_alarm_options = 0, active_faults = (\<lambda>_. None, Value_Object 0),
     active_alarms = (\<lambda>_. None, Value_Object 0)\<rparr>"

definition demo_cycle_clocks :: cycle_clocks where
  "demo_cycle_clocks = \<lparr>cc_process = \<lparr>pc_ess = (\<lambda>_. (id, mk_ts 1 0, mk_ts 1 0, mk_ts 1 0)), pc_feeder = (\<lambda>_. (mk_ts 1 0, mk_ts 1 0, mk_ts 1 0)),
       pc_gen = (\<lambda>_. (mk_ts 1 0, mk_ts 1 0, mk_ts 1 0)), pc_solar = (\<lambda>_. (mk_ts 1 0, mk_ts 1 0, mk_ts 1 0, mk_ts 1 0))\<rparr>,
     cc_site = demo_site_clocks,
     cc_update = \<lparr>ck_time = mk_ts 1 0, ck_check1 = (\<lambda>_. mk_ts 1 0), ck_check2 = (\<lambda>_. mk_ts 1 0), ck_power = (\<lambda>_. mk_ts 1 0),
       ck_update = (\<lambda>_. mk_ts 1 0), ck_fault = (\<lambda>_ _. mk_ts 1 0)\<rparr>,
     cc_send_ess = (\<lambda>_. (mk_ts 1 0, mk_ts 1 0, mk_ts 1 0)), cc_send_gen = (\<lambda>_. (mk_ts 1 0, mk_ts 1 0)), cc_send_solar = (\<lambda>_. (mk_ts 1 0, mk_ts 1 0))\<rparr>"

section \<open>A cycle of the concrete program\<close>

text \<open>A check of a site whose sequences have no alerts on their paths always returns, and so does the call of one without a timeout.\<close>

definition quiet :: "sequence \<Rightarrow> bool" where
  "quiet q \<longleftrightarrow> sequence_type q = Site \<and> (\<exists>p. cur_path q = Some p \<and> path_faults p = [] \<and> path_alarms p = [])"

lemma quiet_seq_check:
  assumes "quiet (sequences s st)"
  shows "\<exists>b t. seq_check E ty st s = Some (b, t) \<and> (\<forall>x. quiet (sequences s x) \<longrightarrow> quiet (sequences t x))"
proof -
  obtain p where p: "sequence_type (sequences s st) = Site" "cur_path (sequences s st) = Some p" "path_faults p = []" "path_alarms p = []"
    using assms by (auto simp: quiet_def)
  have "alert_list ty p = []" using p by (simp add: alert_list_def)
  then have "handle_site_check_alerts (site_view E s) ty p (alerts (pw s)) = Some (store_count ty 0 p, alerts (pw s))"
    by (simp add: handle_site_check_alerts_def)
  moreover have "path_faults (store_count ty 0 p) = []" "path_alarms (store_count ty 0 p) = []" using p by (simp_all add: store_count_def)
  ultimately obtain p' sa where h: "handle_site_check_alerts (site_view E s) ty p (alerts (pw s)) = Some (p', sa)" "path_faults p' = []" "path_alarms p' = []"
    by blast
  have "\<exists>b. seq_check E ty st s = Some (b, upd_alerts (\<lambda>_. if ty \<noteq> ALARM_ALERT \<and> ty \<noteq> FAULT_ALERT then alerts (pw s) else sa)
      (upd_seq st (\<lambda>_. (sequences s st)\<lparr>paths := (paths (sequences s st))[current_path_index (sequences s st) :=
         if ty \<noteq> ALARM_ALERT \<and> ty \<noteq> FAULT_ALERT then p else p']\<rparr>) s))"
    using p h by (auto simp: seq_check_def check_path_alerts_def check_alerts_def)
  then show ?thesis using p h by (auto simp: upd_alerts_def upd_pw_def upd_seq_def quiet_def cur_path_def)
qed

lemma quiet_check:
  assumes "\<forall>st. quiet (sequences s st)"
  shows "\<exists>u. check_state E s = Some u"
proof -
  have q: "\<exists>b t. seq_check E ty st r = Some (b, t) \<and> (\<forall>x. quiet (sequences t x))" if "\<forall>x. quiet (sequences r x)" for ty st r
    using quiet_seq_check [of r st E ty] that by blast
  have g: "sequences (goto st r) = sequences r" for st and r :: "'a site" by (simp add: goto_def)
  obtain b t where t: "(if cur s \<noteq> Init then seq_check E FAULT_ALERT (cur s) s else Some (False, s)) = Some (b, t)"
      "\<forall>x. quiet (sequences t x)"
    using q [OF assms, of FAULT_ALERT "cur s"] assms by (cases "cur s = Init") auto
  define r where "r = (if cur s \<noteq> Init \<and> (b \<or> disable_flag t) then goto Shutdown t else t)"
  have "\<forall>x. quiet (sequences r x)" using t(2) g by (simp add: r_def)
  from q [OF this, of ALARM_ALERT "cur s"] obtain b' w where w: "seq_check E ALARM_ALERT (cur s) r = Some (b', w)" "\<forall>x. quiet (sequences w x)"
    by blast
  obtain p where "cur_path (sequences w (cur s)) = Some p" using w(2) by (auto simp: quiet_def)
  then have "decide_state E s = Some (w\<lparr>num_path_faults := num_active_faults p, num_path_alarms := num_active_alarms p\<rparr>)"
    unfolding decide_state_def Let_def t(1) using w(1) by (simp add: r_def)
  then show ?thesis by (simp add: check_state_def Let_def)
qed

lemma quiet_trip:
  assumes "site_inv s" "cur s \<noteq> Init" "check_current_state (status_of s) \<noteq> Shutdown" "tripped s"
    and "2 \<le> length (steps (paths (sequences s Shutdown) ! 0))" "\<forall>st. quiet (sequences s st)"
    and "\<forall>p \<in> set (paths (sequences s Shutdown)). timeout p = -1" "run_watchdog (handle_clear_faults E s) = Some t"
  shows "\<exists>s'. run_state_machine E rd ck s = Some s'"
proof -
  have b: "before_check s t" using run_watchdog_before [OF assms(8)] handle_clear_faults_before before_check_trans by blast
  then have i: "site_inv t" using assms(1) by (simp add: before_check_def site_inv_def)
  have "\<forall>st. quiet (sequences t st)" using b assms(6) by (simp add: before_check_def)
  from quiet_check [OF this] obtain u where u: "check_state E t = Some u" by blast
  have c: "checked t u" "site_ok u" using check_state_effect [OF _ u] i by (auto simp: site_inv_def)
  have cu: "cur u = Shutdown" by (rule tripped_checked [OF b c(1) assms(4,2)])
  have sh: "shape (sequences u Shutdown) = shape (sequences s Shutdown)"
    using b c(1) by (force simp: checked_def before_check_def same_run_def same_place_def shape_def)
  obtain v where v: "call_current E u = Some v"
    using untimed_call [OF check_state_runnable [OF i u]] untimed_shape [OF sh assms(7)] cu by auto
  have rs: "sequence_reset (status_of u)" using b c(1) cu assms(3) by (simp add: checked_def before_check_def)
  have "0 < length (paths (sequences u Shutdown))" using c(2) by (auto simp: site_ok_def seq_wf_def config_ok_def)
  then have "2 \<le> length (steps (paths (sequences u Shutdown) ! 0))" using length_steps_shape [OF sh, of 0] assms(5) by simp
  then have "cur v = Shutdown" using tripped_call [OF c(2) rs _ v] cu by auto
  then show ?thesis using assms(8) u v by (simp add: run_state_machine_def run_state_def)
qed

lemma set_values_total:
  assumes "regs_ok (alerts (pw (io_site io)))" "num_fault_options io \<le> 64" "num_alarm_options io \<le> 64"
  shows "\<exists>io'. set_values io = Some io'"
proof -
  have c: "\<exists>sa'. clear_asset_alarm n k sa = Some sa' \<and> regs_ok sa'" if "regs_ok sa" "k = 1 \<or> k = 2" for n k sa
    using that by (auto simp: clear_asset_alarm_def get_active_alarms_def reg_read_def nth_opt_def clear_alarms_def reg_write_def regs_ok_def Let_def)
  have f: "regs_ok (clear_fault_registers sa)" for sa by (simp add: clear_fault_registers_def regs_ok_def)
  have "\<exists>s. clear_old_alerts (io_site io) = Some s"
  proof -
    define u where "u = (let s = io_site io in if clear_fault_status_flags s \<and> check_expired_time (ss_current_time (status_of s)) (time_to_clear_fault_status_flags s)
      then upd_alerts clear_fault_registers (s\<lparr>clear_fault_status_flags := False\<rparr>) else s)"
    have "regs_ok (alerts (pw u))" using assms(1) f by (simp add: u_def Let_def upd_alerts_def upd_pw_def)
    then obtain sa where 1: "clear_asset_alarm (num_path_faults u) 2 (alerts (pw u)) = Some sa" "regs_ok sa" using c by blast
    then obtain sb where "clear_asset_alarm (num_path_alarms u) 1 sa = Some sb" using c by blast
    with 1 show ?thesis by (simp add: clear_old_alerts_def Let_def u_def [unfolded Let_def, symmetric])
  qed
  then obtain s where s: "clear_old_alerts (io_site io) = Some s" by blast
  let ?io = "io\<lparr>io_site := update_slews s\<rparr>"
  let ?t = "remember_cmds (upd_site (upd_am (write_assets ?io)) ?io)"
  have ba: "\<exists>y. build_active n opts rs st = Some y" if "n \<le> length rs" for n and opts :: "nat \<Rightarrow> string option" and rs st
    using that by (cases st) (auto simp: build_active_def Let_def)
  have "alerts (pw (io_site ?t)) = alerts (pw s)"
    by (simp add: remember_cmds_def upd_site_def upd_am_def Let_def update_slews_effect)
  then have "regs_ok (alerts (pw (io_site ?t)))" using clear_old_alerts_effect [OF s assms(1)] by simp
  then have len: "length (active_fault_array (alerts (pw (io_site ?t)))) = 64" "length (active_alarm_array (alerts (pw (io_site ?t)))) = 64"
    by (simp_all add: regs_ok_def)
  have num: "num_fault_options ?t \<le> 64" "num_alarm_options ?t \<le> 64"
    using assms(2,3) by (simp_all add: remember_cmds_def upd_site_def Let_def)
  obtain y where "build_active (num_fault_options ?t) (\<lambda>i. fault_options (alerts (pw (io_site ?t))) (int i))
      (active_fault_array (alerts (pw (io_site ?t)))) (active_faults ?t) = Some y" using ba num(1) unfolding len(1) [symmetric] by blast
  moreover obtain z where "build_active (num_alarm_options ?t) (\<lambda>i. alarm_options (alerts (pw (io_site ?t))) (int i))
      (active_alarm_array (alerts (pw (io_site ?t)))) (active_alarms ?t) = Some z" using ba num(2) unfolding len(2) [symmetric] by blast
  ultimately show ?thesis using s by (simp add: set_values_def Let_def)
qed

section \<open>Properties\<close>

text \<open>C7. A cycle of the program leaves the managers with the active and the reactive power the site
  commanded: the storage, generator and solar managers with their two targets and the feeder manager with the setpoint of the
  feeder at the point of interconnect.  The targets are written only when their commands change, and yet they are the commands
  after every cycle that started with the targets written last.\<close>
theorem cycle_writes_commands:
  assumes "controller_cycle r ck io = Some io'" "site_inv (io_site io)" "targets_written io"
  shows "targets (am (io_site io')) = target_cmds (pw (io_site io')) \<and> targets_written io'"
  using cycle_effect [OF assms] by metis

text \<open>C8. A cycle of the program whose check of the faults finds one, be it new in this cycle or latched before, or in
  which the disable button is pressed, ends in the shutdown and leaves the storage, generator and solar managers and the feeder at
  the point of interconnect with the target 0, provided the site was neither in \<^verbatim>\<open>Init\<close> nor already in the
  shutdown and the first path of the shutdown sequence has at least two steps (a shorter one completes at once and keeps the
  commands): nothing between the decision of the site and the managers keeps a power alive.\<close>
theorem trip_zeroes_targets:
  assumes "controller_cycle r ck io = Some io'" "site_inv (io_site io)" "targets_written io"
    and "cycle_fault r ck io \<or> disable_flag (io_site io)"
    and "cur (io_site io) \<noteq> Init" "check_current_state (status_of (io_site io)) \<noteq> Shutdown"
    and "2 \<le> length (steps (paths (sequences (io_site io) Shutdown) ! 0))"
  shows "cur (io_site io') = Shutdown \<and> targets (am (io_site io')) = [0, 0, 0, 0, 0, 0, 0]"
proof -
  obtain s1 rd s where c: "new_inputs (io_site io) s1" "cycle_fault r ck io = finds_fault (managed_assets r) s1"
    "disable_flag s1 = disable_flag (io_site io)"
    "run_state_machine (managed_assets r) rd (cc_site ck) s1 = Some s" "cur s = cur (io_site io')" "cmds (pw (io_site io')) = cmds (pw s)"
    "targets (am (io_site io')) = target_cmds (pw (io_site io'))" by (rule cycle_effect [OF assms(1-3)]) blast
  have "cur s = Shutdown \<and> cmds (pw s) = [0, 0, 0, 0, 0, 0, 0]"
    by (rule trip_zeroes [OF new_inputs_inv [OF assms(2) c(1)] _ _ _ _ c(4)])
      (use new_inputs_status [OF c(1)] c(2,3) assms(4-7) in simp_all)
  then show ?thesis using c(5-7) by (simp add: cmds_def target_cmds_def)
qed

text \<open>
  A run of the program: its cycles, and between them what arrives by messages.  New inputs and settings leave the sequences and
  their status, the targets and the commands written last alone; the debug SET replaces the state.
\<close>

inductive controller_run :: "(int \<Rightarrow> bool \<times> string) \<Rightarrow> site_io \<Rightarrow> site_io \<Rightarrow> bool" for r where
  start: "controller_run r io io"
| next_cycle: "controller_run r io io1 \<Longrightarrow> controller_cycle r ck io1 = Some io2 \<Longrightarrow> controller_run r io io2"
| messages: "controller_run r io io1 \<Longrightarrow> new_inputs (io_site io1) (io_site io2) \<Longrightarrow> pinned (io_site io2) = pinned (io_site io1) \<Longrightarrow>
    io_prevs io2 = io_prevs io1 \<Longrightarrow> controller_run r io io2"
| debug_set: "controller_run r io io1 \<Longrightarrow> controller_run r io (upd_site (debug_set_state st) io1)"

lemma cycle_keeps_inv:
  assumes "controller_cycle r ck io = Some io'" "site_inv (io_site io)" "targets_written io"
  shows "cycle_move (returns (io_site io)) (cycle_fault r ck io) (disable_flag (io_site io)) (cur (io_site io)) (cur (io_site io')) \<and>
    site_inv (io_site io') \<and> targets_written io' \<and> returns (io_site io') = returns (io_site io)"
proof -
  obtain s1 rd s where c: "new_inputs (io_site io) s1" "cycle_fault r ck io = finds_fault (managed_assets r) s1"
    "disable_flag s1 = disable_flag (io_site io)" "run_state_machine (managed_assets r) rd (cc_site ck) s1 = Some s"
    "site_run (managed_assets r) s (io_site io')" "cur s = cur (io_site io')" "site_inv s" "targets_written io'"
    by (rule cycle_effect [OF assms])
  have "returns s1 = returns (io_site io)" by (rule returns_sequences) (rule new_inputs_status(1) [OF c(1)])
  then show ?thesis
    using cycle_moves [OF new_inputs_inv [OF assms(2) c(1)] c(4)] c new_inputs_status(3) [OF c(1)] run_site_inv [OF c(5,7)] run_returns [OF c(5,7)]
    by simp
qed

lemma controller_run_keeps:
  "controller_run r io io' \<Longrightarrow> site_inv (io_site io) \<Longrightarrow> targets_written io \<Longrightarrow>
     site_inv (io_site io') \<and> targets_written io' \<and> returns (io_site io') = returns (io_site io)"
proof (induction rule: controller_run.induct)
  case (next_cycle io io1 ck io2)
  with cycle_keeps_inv [OF next_cycle.hyps(2)] show ?case by simp
next
  case (messages io io1 io2)
  then have "site_inv (io_site io1) \<and> targets_written io1 \<and> returns (io_site io1) = returns (io_site io)" by blast
  then have i: "site_inv (io_site io1)" "targets_written io1" "returns (io_site io1) = returns (io_site io)" by simp_all
  have "returns (io_site io2) = returns (io_site io1)" by (rule returns_sequences) (rule new_inputs_status(1) [OF messages.hyps(2)])
  with i new_inputs_inv [OF i(1) messages.hyps(2)] written_pinned [OF messages.hyps(3,4)] show ?case by simp
next
  case (debug_set io io1 st)
  let ?io = "upd_site (debug_set_state st) io1"
  have "pinned (io_site ?io) = pinned (io_site io1)" "io_prevs ?io = io_prevs io1" "sequences (io_site ?io) = sequences (io_site io1)"
    by (simp_all add: upd_site_def debug_set_state_def set_state_def io_prevs_def)
  moreover have "site_inv (io_site io1) \<Longrightarrow> site_inv (io_site ?io)" by (simp add: upd_site_def debug_set_state_inv)
  ultimately show ?case using debug_set written_pinned returns_sequences by metis
qed simp

text \<open>C6. The program refines the abstract machine on the eight states, cycle by cycle: in every cycle of a run that reads nothing out of range, in
  which messages and even the debug SET of the state come between the cycles, the state of the site
  makes one move of that machine, by the faults the readings of that cycle show, by the disable button and by the return
  states of the beginning of the run; and after it the site keeps its invariant and the storage, generator and
  solar managers and the feeder at the point of interconnect have the targets of the commands written last.\<close>
theorem controller_refines_machine:
  assumes "controller_run r io0 io" "site_inv (io_site io0)" "targets_written io0" "controller_cycle r ck io = Some io'"
  shows "cycle_move (returns (io_site io0)) (cycle_fault r ck io) (disable_flag (io_site io)) (cur (io_site io)) (cur (io_site io')) \<and>
    site_inv (io_site io') \<and> targets (am (io_site io')) = written_cmds io'"
  using controller_run_keeps [OF assms(1-3)] cycle_keeps_inv [OF assms(4)] by (simp add: targets_written_def)

section \<open>A concrete run\<close>

lemma bare_assets_processed:
  "\<exists>m. am_process_asset_data (cc_process demo_cycle_clocks) bare_assets = Some (bare_assets\<lparr>feeder_manager_of := m\<rparr>)"
proof -
  obtain f' where "feeder_process_asset (mk_ts 1 0) (mk_ts 1 0) (mk_ts 1 0) (demo_feeder ''poi'') = Some f'"
    using demo_feeder_processed by blast
  then show ?thesis
    by (simp add: am_process_asset_data_def bare_assets_def ess_process_asset_data_def solar_process_asset_data_def
        process_asset_data_def demo_ess_manager_def feeder_process_asset_data_def demo_cycle_clocks_def)
qed

lemma charge_control_total: "charge_control_divisor m \<noteq> 0 \<Longrightarrow> \<exists>x. charge_control t c d m = Some x"
  by (simp add: charge_control_def Let_def fdiv_def split: SOC_State.split)

lemma demo_values_read:
  assumes "a = bare_assets\<lparr>feeder_manager_of := m\<rparr>"
  shows "\<exists>io. get_values (upd_site (\<lambda>s. s\<lparr>am := a\<rparr>) (demo_io RunMode1 True)) = Some io"
proof -
  let ?io = "upd_site (\<lambda>s. s\<lparr>am := a\<rparr>) (demo_io RunMode1 True)"
  have a: "am (io_site ?io) = a" by (simp add: upd_site_def)
  have p: "\<exists>p'. read_powers x a p = Some p' \<and> asset_cmd p' = asset_cmd p" for x p
    by (simp add: read_powers_def assms bare_assets_def demo_ess_manager_def am_total_kW_discharge_limit_def Let_def)
  have l: "\<exists>l. ldss_settings_of ?io = Some l"
    by (simp add: ldss_settings_of_def Let_def priority_of_int_def upd_site_def demo_io_def plain_def demo_var_def feature_ops set_float_def c_trunc_def)
  have c: "\<exists>c. read_asset_cmd ?io (asset_cmd (pw (io_site ?io))) = Some c"
    by (simp add: read_asset_cmd_def Let_def upd_site_def demo_io_def demo_plant_def idle_site_of_def demo_power_def demo_site_def
        calculate_site_kW_load_def calculate_total_potential_kVAR_def reset_kVAR_dispatch_def reset_kW_dispatch_def)
  have d: "charge_control_divisor (ess_manager_of a) \<noteq> 0" by (simp add: assms bare_assets_def demo_ess_manager_def)
  obtain t s where rc: "read_clock (io_site ?io) = (t, s)" by (cases "read_clock (io_site ?io)") blast
  then have s: "am s = a" "pw s = pw (io_site ?io)" using a by (auto simp: read_clock_def)
  obtain p' where p': "read_powers (poi_sign ?io) a (pw (io_site ?io)) = Some p'" "asset_cmd p' = asset_cmd (pw (io_site ?io))"
    using p by blast
  obtain l where l: "ldss_settings_of ?io = Some l" using l by blast
  obtain c where c: "read_asset_cmd ?io (asset_cmd p') = Some c" using c p'(2) by auto
  let ?f = "charge_control_f (read_feature_values a (features p'))"
  obtain x where x: "charge_control (fval CC_target_soc ?f) (bval CC_charge_disable ?f) (bval CC_discharge_disable ?f) (ess_manager_of a) = Some x"
    using charge_control_total [OF d] by blast
  show ?thesis using p' l c x by (cases x) (simp add: get_values_def Let_def rc s)
qed

definition asset_counts :: "asset_manager \<Rightarrow> nat \<times> nat" where
  "asset_counts a = (length (pEss (ess_manager_of a)), length (pSolar (solar_manager_of a)))"

lemma set_values_counts:
  assumes "set_values io = Some io'" "regs_ok (alerts (pw (io_site io)))"
  shows "asset_counts (am (io_site io')) = asset_counts (am (io_site io))"
proof -
  obtain s where s: "clear_old_alerts (io_site io) = Some s" using assms(1) by (auto simp: set_values_def split: bind_splits)
  let ?io = "io\<lparr>io_site := update_slews s\<rparr>"
  have "am (io_site io') = write_assets ?io (am (update_slews s))"
    using assms(1) s by (auto simp: set_values_def Let_def upd_site_def ui_enable_flag_def set_enable_flag_def set_asset_cmd_variables_def
        upd_pw_def remember_cmds_def upd_am_def split: bind_splits)
  moreover have "length (pEss (ess_manager_of (write_assets ?io b))) = length (pEss (ess_manager_of b)) \<and>
      length (pSolar (solar_manager_of (write_assets ?io b))) = length (pSolar (solar_manager_of b))" for b
    by (simp add: write_assets_def write_power_factor_def write_power_targets_def write_new_def write_ess_def write_gen_def write_solar_def
        write_feeder_def am_set_reactive_power_priority_def am_set_solar_mode_def to_solar_def told_def tm_set_reactive_power_priority_def
        set_ess_calibration_variables_def set_all_ess_calibration_vars_def set_ess_mode_def set_ess_target_power_factor_def
        set_solar_target_power_factor_def each_ess_def each_solar_def Let_def)
  ultimately show ?thesis using clear_old_alerts_effect [OF s assms(2)] by (simp add: asset_counts_def update_slews_effect)
qed

lemma pinned_counts: "pinned s = pinned t \<Longrightarrow> asset_counts (am s) = asset_counts (am t)"
  by (simp add: pinned_def target_pairs_def ess_targets_def solar_targets_def asset_counts_def)

lemma demo_cycle: "\<exists>io'. controller_cycle r demo_cycle_clocks (demo_io RunMode1 True) = Some io'"
proof -
  let ?E = "managed_assets r :: asset_manager am_env"
  obtain m where a: "am_process_asset_data (cc_process demo_cycle_clocks) bare_assets = Some (bare_assets\<lparr>feeder_manager_of := m\<rparr>)"
    using bare_assets_processed by blast
  let ?a = "bare_assets\<lparr>feeder_manager_of := m\<rparr>"
  define io0 where "io0 = upd_site (\<lambda>s. s\<lparr>am := ?a\<rparr>) (demo_io RunMode1 True)"
  obtain io1 where v: "get_values io0 = Some io1" unfolding io0_def using demo_values_read by blast
  note g = get_values_effect [OF v]
  have i0: "site_inv (io_site io0)"
    using idle_site_inv(1) [of bare_assets RunMode1 True] by (simp add: io0_def upd_site_def demo_io_def demo_plant_def site_inv_def site_ok_def)
  have n: "new_inputs (io_site io0) (io_site io1)" using g i0 by (simp add: new_inputs_def site_inv_def site_ok_def)
  note i1 = new_inputs_inv [OF i0 n]
  have d: "cur (io_site io0) = RunMode1" "check_current_state (status_of (io_site io0)) = RunMode1" "disable_flag (io_site io0)"
      "sequences (io_site io0) = (\<lambda>_. to_ready demo_steps)" "watchdog_feature (io_site io0) = demo_wd" "clear_faults_flag (io_site io0) = demo_flag"
      "am (io_site io0) = ?a" "num_fault_options io0 = 0" "num_alarm_options io0 = 0"
    by (simp_all add: io0_def upd_site_def demo_io_def demo_plant_def idle_site_of_def demo_status_def Sequences_Status_def)
  have "handle_clear_faults ?E (io_site io1) = io_site io1"
    using g d(6) by (simp add: handle_clear_faults_def demo_flag_def demo_var_def demo_fims_def Value_Object_def set_float_def)
  moreover have "\<exists>t. run_watchdog (io_site io1) = Some t"
  proof -
    have "\<exists>w. beat x y demo_wd = Some w" for x y
      by (simp add: beat_def demo_wd_def Watchdog_def demo_var_def demo_fims_def feature_ops set_float_def c_trunc_def INT_MAX_def Let_def)
    moreover have "\<not> bval WD_enable_flag demo_wd"
      by (simp add: demo_wd_def Watchdog_def demo_var_def demo_fims_def feature_ops set_float_def Value_Object_def)
    moreover have "watchdog_feature (io_site io1) = demo_wd" using g d(5) by simp
    moreover obtain w where "beat (ss_current_time (status_of (io_site io1))) (clk (io_site io1) (tick (io_site io1))) demo_wd = Some w"
      using calculation(1) by blast
    ultimately show ?thesis by (simp add: run_watchdog_def Let_def read_clock_def)
  qed
  ultimately obtain t where t: "run_watchdog (handle_clear_faults ?E (io_site io1)) = Some t" by auto
  obtain rd where rd: "readings_of (am (io_site io1)) = Some rd"
    using g d(7) by (auto simp: readings_of_def Let_def bare_assets_def demo_ess_manager_def)
  have q: "quiet (to_ready demo_steps)" by (simp add: quiet_def to_ready_def Sequence_def cur_path_def)
  have "\<exists>s. run_state_machine ?E rd (cc_site demo_cycle_clocks) (io_site io1) = Some s"
    by (rule quiet_trip [OF i1 _ _ _ _ _ _ t])
      (use g d q new_inputs_status [OF n] in \<open>simp_all add: tripped_def, simp_all add: to_ready_def demo_steps_def\<close>)
  then obtain s where s: "run_state_machine ?E rd (cc_site demo_cycle_clocks) (io_site io1) = Some s" by blast
  have ok: "regs_ok (alerts (pw (perform_calls s)))"
    using cycle_inv [OF i1 s] by (simp add: perform_calls_effect site_inv_def site_ok_def)
  have "\<exists>io2. set_values (io1\<lparr>io_site := perform_calls s\<rparr>) = Some io2"
    by (rule set_values_total) (use ok g d in simp_all)
  then obtain io2 where io2: "set_values (io1\<lparr>io_site := perform_calls s\<rparr>) = Some io2" by blast
  have p: "process_state r (cc_site demo_cycle_clocks) io0 = Some io2" using v rd s io2 by (simp add: process_state_def)
  have "asset_counts (am (io_site io2)) = asset_counts ?a"
    using set_values_counts [OF io2] ok pinned_counts [of "perform_calls s" "io_site io0"] g d(7) pinned_machine [OF s]
    by (simp add: perform_calls_effect)
  then have "pEss (ess_manager_of (am (io_site io2))) = []" "pSolar (solar_manager_of (am (io_site io2))) = []"
    by (simp_all add: asset_counts_def bare_assets_def demo_ess_manager_def)
  then have "\<exists>b. am_update_asset_data (cc_update demo_cycle_clocks) (am (io_site io2)) = Some b"
    by (simp add: am_update_asset_data_def Let_def)
  moreover have "am (io_site (demo_io RunMode1 True)) = bare_assets" by (simp add: demo_io_def demo_plant_def idle_site_of_def)
  ultimately show ?thesis using a p by (auto simp: controller_cycle_def io0_def)
qed

lemma demo_start:
  "site_inv (io_site (demo_io st off))" "cur (io_site (demo_io st off)) = st" "check_current_state (status_of (io_site (demo_io st off))) = st"
  "disable_flag (io_site (demo_io st True))" "2 \<le> length (steps (paths (sequences (io_site (demo_io st off)) x) ! 0))"
  "targets (am (io_site (demo_io st off))) = [75, 0, 0, 0, 0, 0, 0]" "returns (io_site (demo_io st off)) = (\<lambda>_. {Ready})"
proof -
  have d: "io_site (demo_io st off) = (idle_site_of bare_assets st off demo_steps)\<lparr>prev_ess_kW_cmd := 75\<rparr>" for off
    by (simp add: demo_io_def demo_plant_def)
  show "site_inv (io_site (demo_io st off))"
    using idle_site_inv(1) [of bare_assets st off] unfolding d by (simp add: site_inv_def site_ok_def)
  show "cur (io_site (demo_io st off)) = st" "check_current_state (status_of (io_site (demo_io st off))) = st"
    "disable_flag (io_site (demo_io st True))"
    using idle_site_frame(1,2) [of bare_assets st off demo_steps] idle_site_frame(4) [of bare_assets st True demo_steps]
    unfolding d by simp_all
  show "returns (io_site (demo_io st off)) = (\<lambda>_. {Ready})"
    using idle_site_frame(5) [of bare_assets st off demo_steps] unfolding d by (subst returns_sequences) simp_all
  show "2 \<le> length (steps (paths (sequences (io_site (demo_io st off)) x) ! 0))"
    unfolding d by (simp add: idle_site_of_def to_ready_def demo_steps_def)
  show "targets (am (io_site (demo_io st off))) = [75, 0, 0, 0, 0, 0, 0]"
    unfolding d by (simp add: idle_site_of_def targets_def bare_assets_def demo_ess_manager_def demo_manager_def
        demo_solar_manager_def aggregate_solar_data_def Let_def demo_feeders_def kW_control_def)
      (simp add: demo_feeder_def demo_gen_def asset.defs feeder.defs blank_fims_def Value_Object_def)
qed

lemma demo_written: "targets_written (demo_io st off)"
  unfolding targets_written_def demo_start
  by (simp add: written_cmds_def demo_io_def demo_plant_def idle_site_of_def bare_assets_def demo_feeders_def)

definition no_reserved :: "int \<Rightarrow> bool \<times> string" where
  "no_reserved _ = (False, '''')"

theorem cycle_writes_commands_witness:
  "\<exists>io'. controller_cycle no_reserved demo_cycle_clocks (demo_io RunMode1 True) = Some io' \<and>
     targets (am (io_site io')) = target_cmds (pw (io_site io'))"
  using demo_cycle [of no_reserved] cycle_writes_commands [OF _ demo_start(1) demo_written] by blast

theorem trip_zeroes_targets_witness:
  "targets (am (io_site (demo_io RunMode1 True))) = [75, 0, 0, 0, 0, 0, 0] \<and>
   (\<exists>io'. controller_cycle no_reserved demo_cycle_clocks (demo_io RunMode1 True) = Some io' \<and>
     targets (am (io_site io')) = [0, 0, 0, 0, 0, 0, 0])"
proof -
  obtain io' where c: "controller_cycle no_reserved demo_cycle_clocks (demo_io RunMode1 True) = Some io'"
    using demo_cycle by blast
  from trip_zeroes_targets [OF c demo_start(1) demo_written _ _ _ demo_start(5)] c demo_start(6) show ?thesis
    by (simp add: demo_start(2,3,4))
qed

theorem controller_refines_machine_witness:
  "\<exists>io'. controller_cycle no_reserved demo_cycle_clocks (demo_io RunMode1 True) = Some io' \<and>
     cycle_move (\<lambda>_. {Ready}) (cycle_fault no_reserved demo_cycle_clocks (demo_io RunMode1 True)) True RunMode1 (cur (io_site io'))"
proof -
  obtain io' where c: "controller_cycle no_reserved demo_cycle_clocks (demo_io RunMode1 True) = Some io'"
    using demo_cycle by blast
  from controller_refines_machine [OF controller_run.start demo_start(1) demo_written c] c show ?thesis by (simp add: demo_start(2,4,7))
qed

end
