(* ===== verification/Spec2Isabelle.thy ===== *)
theory Spec2Isabelle
  imports Prelude Site_Utils Values Slew Regulator Asset_Cmd Features Active_Features Standalone_Features
    Reactive_Features Island_Features Frequency Sequences Path_Alerts Actions Site_Power Site_Functions Site_State
    Sequence_World Site_Machine Site_Cycle Assets Generators Load_Start_Stop Generator_Group Asset_Laws
    Storage Storage_Group Solar Feeders Asset_Group Publications Feature_Selection Site_Values Controller
begin

text \<open>
  A verification development of the HybridOS site controller, the C++ program under
  \<^verbatim>\<open>src/site_controller/\<close>.  It runs an energy site of storage (ESS), generators, solar and feeders: a
  cycle reads the readings of the assets, decides the state of the site, runs the start or stop
  sequence of that state, computes a power demand from the enabled features and dispatches it over
  the kinds of assets.

  \<^bold>\<open>Parts of the program and the theories that model them.\<close>  Paths are relative to
  \<^verbatim>\<open>src/site_controller/\<close>.

  \<^item> \<open>Prelude\<close>: types and lemmas every theory uses: \<open>flt\<close>, division with a zero divisor made visible,
    C truncation and integer division, options and lists.
  \<^item> \<open>Site_Utils\<close>: \<^verbatim>\<open>src/Site_Controller_Utils.cpp\<close>: clamping, tolerances, curves, \<^verbatim>\<open>timespec\<close>
    arithmetic, splitting of strings.
  \<^item> \<open>Values\<close>: \<^verbatim>\<open>src/Value_Object.cpp\<close>, \<^verbatim>\<open>src/Fims_Object.cpp\<close>, \<^verbatim>\<open>src/Input_Sources.cpp\<close>: the cell that
    every variable of the site is, the SET of a variable with several inputs, status strings, the
    choice of the input source.
  \<^item> \<open>Slew\<close>, \<open>Regulator\<close>: \<^verbatim>\<open>src/Slew_Object.cpp\<close> and \<^verbatim>\<open>src/Variable_Regulator.cpp\<close>.
  \<^item> \<open>Asset_Cmd\<close>: \<^verbatim>\<open>src/Asset_Cmd_Object.cpp\<close>, the dispatcher of active and reactive power.
  \<^item> \<open>Features\<close>, \<open>Active_Features\<close>, \<open>Standalone_Features\<close>, \<open>Reactive_Features\<close>, \<open>Island_Features\<close>,
    \<open>Frequency\<close>: the classes under \<^verbatim>\<open>src/Features/\<close>.  A feature is a record of its variables, indexed
    by a datatype with one constructor per \<^verbatim>\<open>Fims_Object\<close>, and of its other members; a prefix
    (\<open>aps_\<close>, \<open>poi_\<close>, \<open>cl_\<close>, ...) names the class in \<^verbatim>\<open>execute\<close>, \<^verbatim>\<open>execute_helper\<close> and
    \<^verbatim>\<open>handle_fims_set\<close>.
  \<^item> \<open>Sequences\<close>, \<open>Sequence_World\<close>: \<^verbatim>\<open>src/Sequence.cpp\<close> and the data of \<^verbatim>\<open>Path\<close> and \<^verbatim>\<open>Step\<close>.  What a
    sequence can call is the record \<open>seq_env\<close>; the world it acts on is a type variable.
  \<^item> \<open>Path_Alerts\<close>: \<^verbatim>\<open>src/Path.cpp\<close> and the fault and alarm registers of \<^verbatim>\<open>src/Site_Manager.cpp\<close>.
  \<^item> \<open>Actions\<close>: \<^verbatim>\<open>src/Action.cpp\<close> and the action part of \<^verbatim>\<open>src/Asset.cpp\<close>.
  \<^item> \<open>Site_Power\<close>: the run modes of \<^verbatim>\<open>src/Site_Manager.cpp\<close>: feature selection, limits, dispatch.
  \<^item> \<open>Site_Functions\<close>, \<open>Site_State\<close>: the rest of a cycle of \<^verbatim>\<open>process_state\<close>: the functions the
    sequences call, \<^verbatim>\<open>check_state\<close>, the sequence of the state, the eight state functions, the
    watchdog and the clearing of faults.
  \<^item> \<open>Site_Machine\<close>, \<open>Site_Cycle\<close>: the abstract machine on the eight states and the properties of
    cycles and runs.

  \<^item> \<open>Assets\<close>, \<open>Asset_Laws\<close>: the base class of the assets in \<^verbatim>\<open>src/Asset.cpp\<close>: write throttles, messages to
    the component, latched faults, watchdog, local mode, potential power, maintenance and lockdown.
  \<^item> \<open>Generators\<close>: \<^verbatim>\<open>src/Asset_Generator.cpp\<close>, whose record extends the one of an asset, and the priorities
    of \<^verbatim>\<open>src/Features/LDSS.cpp\<close>; \<open>Load_Start_Stop\<close>: the rest of load dependent start/stop.
  \<^item> \<open>Generator_Group\<close>: \<^verbatim>\<open>src/Generator_Manager.cpp\<close>, the distribution of the target power over the
    generators and their starts and stops.  A pointer to a generator is its index in the list.
  \<^item> \<open>Storage\<close>, \<open>Storage_Group\<close>: \<^verbatim>\<open>src/Asset_ESS.cpp\<close> and \<^verbatim>\<open>src/ESS_Manager.cpp\<close>: state of charge, derating, limits and
    commands of one storage, and the distribution of active and reactive power over all of them.
  \<^item> \<open>Solar\<close>: \<^verbatim>\<open>src/Asset_Solar.cpp\<close> and \<^verbatim>\<open>src/Solar_Manager.cpp\<close>: inverters, their curtailment and the
    distribution of power over them.
  \<^item> \<open>Feeders\<close>: \<^verbatim>\<open>src/Asset_Feeder.cpp\<close> and \<^verbatim>\<open>src/Feeder_Manager.cpp\<close>: breakers, the point of interconnect and the
    feeder that is synchronised.
  \<^item> \<open>Asset_Group\<close>: \<^verbatim>\<open>src/Asset_Manager.cpp\<close> and what the managers share in \<^verbatim>\<open>src/Type_Manager.cpp\<close>: the record
    of the four managers, the requests and queries of the site forwarded to them, SETs to assets and
    the phases of a cycle.
  \<^item> \<open>Publications\<close>: \<^verbatim>\<open>handle_pubs\<close> of \<^verbatim>\<open>src/Asset_Manager.cpp\<close>, the readings the components publish.
  \<^item> \<open>Feature_Selection\<close>: the modes of \<^verbatim>\<open>src/Site_Manager.cpp\<close>: which features the configuration offers and
    which one of a mode is enabled.
  \<^item> \<open>Site_Values\<close>: \<^verbatim>\<open>process_state\<close> as a whole with \<^verbatim>\<open>get_values\<close> and \<^verbatim>\<open>set_values\<close> of
    \<^verbatim>\<open>src/Site_Manager.cpp\<close>, and the cycle of \<^verbatim>\<open>src/main.cpp\<close> over the site and the asset manager.
  \<^item> \<open>Controller\<close>: the properties of that cycle, which span all parts.

  \<^bold>\<open>How state and effects correspond.\<close>  A C++ object is a record and a method a function from the
  record to the updated record, with its result where it has one.  A method that reads or writes
  out of range, divides by zero or overflows for some input has an option result, and \<open>None\<close> is
  exactly that input.  A clock reading is an argument, or is taken from the stream of readings in
  the record of the site.  FIMS messages and events are appended to lists.  Logging is left out.
  The asset manager is a type variable with a record of the requests and queries the site uses
  (\<open>am_env\<close>); the site's properties hold for every such record, and \<open>managed_assets\<close> is the one the models
  of the managers give.  The variables of the assets that publications write are a store, since several
  of them can have the same component register.

  \<^bold>\<open>Numbers.\<close>  \<^verbatim>\<open>float\<close> is the type of real numbers, so rounding is not modelled; a conversion to
  \<^verbatim>\<open>int\<close> truncates.  Integers are unbounded except where the code can overflow (the heart beat counter).
  Bit fields are words of 64 bits.

  \<^bold>\<open>What the lemmas show.\<close>  For the dispatcher: a dispatch conserves power, stays within the unused
  power of every asset and reports what it could not place.  For the features: the limits they
  enforce, the bounds of their offsets and timers.  For a sequence: without a time out it never reads a
  missing step, moves at most one step in a call, leaves a step only when an exit condition holds or by
  its path switch, and completes after as many calls as it has steps when the functions answer true.
  For alerts: a fault that holds is latched, counted and reported.  For the site: the invariant of a run of
  cycles with any inputs and SETs between them; in every cycle of such a run the moves of the state
  are those of the abstract machine, first the check, then the sequence, then the state function (\<open>cycle_move\<close>,
  \<open>function_move\<close>); and the shutdown on a fault the check finds.  For an asset: when
  it is available, that the SETs keep an asset in lockdown in maintenance, the spacing of its commands.  For the
  generators: the commands add up to the target less what the stopping generators are ramped to, the setpoints stay within
  the limits, the generator that is started is the best one and only after the countdown.  For storage and
  solar: the setpoints add up to the target, charge control moves towards the target state of
  charge, derated power stays within the rating.  For publications and alerts: a reported fault is kept until it is
  cleared, and the clearing reaches every asset and takes effect.  For the modes: exactly the chosen feature
  is enabled.  For the asset manager: a request of a sequence reaches the breaker it means, a SET changes
  one asset.  For the program: a cycle leaves the storage, generator and solar managers and the feeder at the point of
  interconnect with the targets the site commanded, a fault leaves them with 0, and every cycle of a run, with messages
  and publications between the cycles, makes one move of the machine on the eight states.
  Properties of
  kind error state what the code does where it departs from what it means to do.

  \<^bold>\<open>Termination and fuel.\<close>  No definition uses fuel.  The loop of \<^verbatim>\<open>split\<close> is a partial function and is
  proved to end for every delimiter that is not empty.  The choice of the next generator restarts after
  each correction of the priorities; it ends because a correction lowers the sum of the priorities
  or blocks one more generator.  The distribution over the storage repeats until no ESS exceeds its
  limit; each round but the last assigns and removes one entry, so the number of entries is its
  measure.  Every other loop is structural recursion.

  \<^bold>\<open>Interfaces.\<close>  The dispatch loops share a locale of power sources; the sequences a locale of
  environments that leave a part of the world alone (\<open>framed_env\<close>), interpreted by the functions of
  the site.

  \<^bold>\<open>Not modelled.\<close>  Parsing of the configuration and of FIMS messages, JSON printing, threads and
  logging are I/O around third-party libraries.  The choice of the input source of every control
  variable at the start of a cycle (\<^verbatim>\<open>read_site_feature_controls\<close>) and the switch of the features, which \<open>Feature_Selection\<close>
  models, are not part of \<open>get_values\<close> here: the variables are as the two left them.  Variables that are only displayed are left out of the cycle.  The other programs of the repository (the ESS controller, protocol
  gateways, fleet, web and data services) are separate.
\<close>

end
